(* ===== verification/Prelude.thy ===== *)
theory Prelude imports Main "HOL-Library.List_Lexorder" "HOL-Library.Char_ord" "HOL-Library.Word" "HOL-Library.Sublist" "HOL-Library.Product_Lexorder"
  "HOL-Library.Code_Target_Numeral" begin

text \<open>
  The prelude of the library: the result type of the fallible operations, the string
  functions of Rust's standard library that the crates use, durations, saturating
  arithmetic on unsigned 64-bit integers, and the generic lemmas that the components share.

  A Rust \<open>str\<close> is a \<^typ>\<open>string\<close> whose characters are read as the Unicode scalar values
  U+0000 to U+00FF; \<open>is_whitespace\<close> and \<open>is_control\<close> follow the Unicode tables on that range.
  A \<open>Duration\<close> or an \<open>Instant\<close> is a natural number of nanoseconds.
\<close>

named_theorems error_simps \<open>unfolding of the error constructors and their with-functions\<close>
named_theorems str_simps \<open>evaluation of the string functions\<close>
named_theorems inv_intros \<open>every operation keeps the invariant of its component\<close>

section \<open>Results\<close>

text \<open>\<open>Result<T, E>\<close> is \<open>'e + 't\<close>: \<open>Err\<close> is the left injection, \<open>Ok\<close> the right one.\<close>

abbreviation Ok :: "'a \<Rightarrow> 'e + 'a" where "Ok \<equiv> Inr"
abbreviation Err :: "'e \<Rightarrow> 'e + 'a" where "Err \<equiv> Inl"

text \<open>The \<open>?\<close> operator: go on with the value, or return the error.\<close>

fun rbind :: "'e + 'a \<Rightarrow> ('a \<Rightarrow> 'e + 'b) \<Rightarrow> 'e + 'b" where
  "rbind (Inl e) f = Inl e"
| "rbind (Inr v) f = f v"

fun is_ok :: "'e + 'a \<Rightarrow> bool" where
  "is_ok (Inl e) = False"
| "is_ok (Inr v) = True"

text \<open>\<open>iter.map(f).collect::<Result<Vec<_>, _>>()\<close>: the first error stops the iteration.\<close>

fun collect_results :: "('a \<Rightarrow> 'e + 'b) \<Rightarrow> 'a list \<Rightarrow> 'e + 'b list" where
  "collect_results f [] = Ok []"
| "collect_results f (x # xs) =
     (case f x of
        Inl e \<Rightarrow> Err e
      | Inr y \<Rightarrow> (case collect_results f xs of Inl e \<Rightarrow> Err e | Inr ys \<Rightarrow> Ok (y # ys)))"

lemma rbind_Ok_iff [simp]: "rbind r f = Inr v \<longleftrightarrow> (\<exists>x. r = Inr x \<and> f x = Inr v)"
  by (cases r) auto

lemma is_ok_iff: "is_ok r \<longleftrightarrow> (\<exists>v. r = Inr v)"
  by (cases r) auto

lemma collect_results_Ok_iff:
  "collect_results f xs = Inr ys \<longleftrightarrow> map f xs = map Inr ys"
proof (induction xs arbitrary: ys)
  case Nil
  then show ?case by auto
next
  case (Cons x xs)
  show ?case
  proof (cases "f x")
    case (Inr y)
    then show ?thesis
      using Cons.IH by (cases ys; cases "collect_results f xs") force+
  qed auto
qed

lemma collect_results_map_Ok [simp]: "collect_results (\<lambda>x. Inr (g x)) xs = Inr (map g xs)"
  by (induction xs) auto

lemma collect_results_length: "collect_results f xs = Inr ys \<Longrightarrow> length ys = length xs"
  by (auto simp: collect_results_Ok_iff dest: map_eq_imp_length_eq)

section \<open>Strings\<close>

abbreviation char_code :: "char \<Rightarrow> nat" where "char_code c \<equiv> of_char c"

definition is_ws :: "char \<Rightarrow> bool" where
  "is_ws c \<longleftrightarrow> (let n = char_code c in (9 \<le> n \<and> n \<le> 13) \<or> n = 32 \<or> n = 133 \<or> n = 160)"

definition is_control :: "char \<Rightarrow> bool" where
  "is_control c \<longleftrightarrow> (let n = char_code c in n < 32 \<or> (127 \<le> n \<and> n < 160))"

definition is_ascii :: "char \<Rightarrow> bool" where
  "is_ascii c \<longleftrightarrow> char_code c < 128"

definition is_ascii_digit :: "char \<Rightarrow> bool" where
  "is_ascii_digit c \<longleftrightarrow> (let n = char_code c in 48 \<le> n \<and> n \<le> 57)"

definition is_ascii_uppercase :: "char \<Rightarrow> bool" where
  "is_ascii_uppercase c \<longleftrightarrow> (let n = char_code c in 65 \<le> n \<and> n \<le> 90)"

definition is_ascii_lowercase :: "char \<Rightarrow> bool" where
  "is_ascii_lowercase c \<longleftrightarrow> (let n = char_code c in 97 \<le> n \<and> n \<le> 122)"

definition is_ascii_alphanumeric :: "char \<Rightarrow> bool" where
  "is_ascii_alphanumeric c \<longleftrightarrow>
     is_ascii_digit c \<or> is_ascii_uppercase c \<or> is_ascii_lowercase c"

definition is_ascii_hexdigit :: "char \<Rightarrow> bool" where
  "is_ascii_hexdigit c \<longleftrightarrow>
     (let n = char_code c in (48 \<le> n \<and> n \<le> 57) \<or> (65 \<le> n \<and> n \<le> 70) \<or> (97 \<le> n \<and> n \<le> 102))"

definition is_ascii_graphic :: "char \<Rightarrow> bool" where
  "is_ascii_graphic c \<longleftrightarrow> (let n = char_code c in 33 \<le> n \<and> n \<le> 126)"

definition to_ascii_lowercase :: "char \<Rightarrow> char" where
  "to_ascii_lowercase c = (if is_ascii_uppercase c then char_of (char_code c + 32) else c)"

definition to_ascii_uppercase :: "char \<Rightarrow> char" where
  "to_ascii_uppercase c = (if is_ascii_lowercase c then char_of (char_code c - 32) else c)"

lemmas char_class_defs =
  is_ws_def is_control_def is_ascii_def is_ascii_digit_def is_ascii_uppercase_def
  is_ascii_lowercase_def is_ascii_alphanumeric_def is_ascii_hexdigit_def is_ascii_graphic_def
  to_ascii_lowercase_def to_ascii_uppercase_def

text \<open>\<open>str::trim\<close>.\<close>

definition trim :: "string \<Rightarrow> string" where
  "trim s = rev (dropWhile is_ws (rev (dropWhile is_ws s)))"

text \<open>\<open>str::split\<close> on a predicate: the empty string has one empty part.\<close>

fun split_when :: "(char \<Rightarrow> bool) \<Rightarrow> string \<Rightarrow> string list" where
  "split_when p [] = [[]]"
| "split_when p (c # cs) =
     (if p c then [] # split_when p cs
      else (case split_when p cs of [] \<Rightarrow> [[c]] | w # ws \<Rightarrow> (c # w) # ws))"

definition split_on :: "char \<Rightarrow> string \<Rightarrow> string list" where
  "split_on d s = split_when (\<lambda>c. c = d) s"

definition split_whitespace :: "string \<Rightarrow> string list" where
  "split_whitespace s = filter (\<lambda>w. w \<noteq> []) (split_when is_ws s)"

text \<open>\<open>[String]::join\<close>.\<close>

fun join :: "string \<Rightarrow> string list \<Rightarrow> string" where
  "join d [] = []"
| "join d [w] = w"
| "join d (w # v # ws) = w @ d @ join d (v # ws)"

definition strip_prefix :: "string \<Rightarrow> string \<Rightarrow> string option" where
  "strip_prefix p s = (if prefix p s then Some (drop (length p) s) else None)"

text \<open>\<open>trim_start_matches\<close> removes the pattern as often as it stands at the front.\<close>

function trim_start_matches :: "string \<Rightarrow> string \<Rightarrow> string" where
  "trim_start_matches p s =
     (if p \<noteq> [] \<and> prefix p s then trim_start_matches p (drop (length p) s) else s)"
  by pat_completeness auto
termination
proof (relation "measure (\<lambda>(p, s). length s)")
  fix p s :: string
  assume "p \<noteq> [] \<and> prefix p s"
  then have "length (drop (length p) s) < length s"
    by (auto simp: prefix_def)
  then show "((p, drop (length p) s), p, s) \<in> measure (\<lambda>(p, s). length s)"
    by simp
qed simp

declare trim_start_matches.simps [simp del]

text \<open>\<open>str::contains\<close> of a string.\<close>

fun contains_str :: "string \<Rightarrow> string \<Rightarrow> bool" where
  "contains_str p [] = (p = [])"
| "contains_str p (c # cs) = (prefix p (c # cs) \<or> contains_str p cs)"

text \<open>\<open>str::replace\<close> of one character.\<close>

definition replace_char :: "char \<Rightarrow> char \<Rightarrow> string \<Rightarrow> string" where
  "replace_char a b s = map (\<lambda>c. if c = a then b else c) s"

text \<open>The decimal rendering of an unsigned integer by \<open>format!\<close>.\<close>

fun show_nat :: "nat \<Rightarrow> string" where
  "show_nat n =
     (if n < 10 then [char_of (48 + n)] else show_nat (n div 10) @ [char_of (48 + n mod 10)])"

declare show_nat.simps [simp del]

text \<open>\<open>str::parse\<close> to an unsigned integer bounded by \<open>m\<close>: an optional plus sign, then digits.\<close>

fun digits_value :: "nat \<Rightarrow> string \<Rightarrow> nat option" where
  "digits_value acc [] = Some acc"
| "digits_value acc (c # cs) =
     (if is_ascii_digit c then digits_value (10 * acc + (char_code c - 48)) cs else None)"

definition parse_unsigned :: "nat \<Rightarrow> string \<Rightarrow> nat option" where
  "parse_unsigned m s =
     (let ds = (case s of c # cs \<Rightarrow> if c = CHR ''+'' then cs else s | [] \<Rightarrow> s)
      in if ds = [] then None
         else (case digits_value 0 ds of
                 None \<Rightarrow> None
               | Some n \<Rightarrow> if n \<le> m then Some n else None))"

subsection \<open>Lemmas on strings\<close>

lemma hd_dropWhile_not: "dropWhile p xs \<noteq> [] \<Longrightarrow> \<not> p (hd (dropWhile p xs))"
  by (induction xs) auto

lemma dropWhile_fix: "(xs = [] \<or> \<not> p (hd xs)) \<Longrightarrow> dropWhile p xs = xs"
  by (cases xs) auto

lemma last_trim: "trim s \<noteq> [] \<Longrightarrow> \<not> is_ws (last (trim s))"
  by (simp add: trim_def last_rev hd_dropWhile_not)

lemma trim_eq_append:
  "\<exists>u. dropWhile is_ws s = trim s @ u \<and> (\<forall>c\<in>set u. is_ws c)"
proof -
  let ?r = "rev (dropWhile is_ws s)"
  have "?r = takeWhile is_ws ?r @ dropWhile is_ws ?r" by simp
  then have "dropWhile is_ws s = trim s @ rev (takeWhile is_ws ?r)"
    unfolding trim_def by (metis rev_append rev_rev_ident)
  moreover have "\<forall>c\<in>set (rev (takeWhile is_ws ?r)). is_ws c"
    by (auto dest: set_takeWhileD)
  ultimately show ?thesis by blast
qed

lemma hd_trim: "trim s \<noteq> [] \<Longrightarrow> \<not> is_ws (hd (trim s))"
proof -
  assume ne: "trim s \<noteq> []"
  obtain u where u: "dropWhile is_ws s = trim s @ u" using trim_eq_append by blast
  with ne have "hd (trim s) = hd (dropWhile is_ws s)" and "dropWhile is_ws s \<noteq> []" by auto
  then show ?thesis using hd_dropWhile_not by metis
qed

lemma trim_id:
  assumes "s = [] \<or> (\<not> is_ws (hd s) \<and> \<not> is_ws (last s))"
  shows "trim s = s"
proof -
  from assms have "dropWhile is_ws s = s" by (intro dropWhile_fix) auto
  moreover from assms have "dropWhile is_ws (rev s) = rev s"
    by (intro dropWhile_fix) (auto simp: hd_rev)
  ultimately show ?thesis by (simp add: trim_def)
qed

lemma trim_idem [simp]: "trim (trim s) = trim s"
  by (rule trim_id) (auto dest: hd_trim last_trim)

lemma set_trim: "set (trim s) \<subseteq> set s"
  unfolding trim_def by (auto dest!: set_dropWhileD)

lemma trim_no_ws: "(\<forall>c\<in>set s. \<not> is_ws c) \<Longrightarrow> trim s = s"
  by (rule trim_id) (cases s, auto)

lemma split_when_nonempty [simp]: "split_when p s \<noteq> []"
  by (induction s) (auto split: list.splits)

lemma split_when_parts: "w \<in> set (split_when p s) \<Longrightarrow> c \<in> set w \<Longrightarrow> \<not> p c \<and> c \<in> set s"
proof (induction s arbitrary: w)
  case (Cons x s)
  then show ?case by (auto split: if_splits list.splits) blast+
qed auto

lemma split_when_none: "(\<forall>c\<in>set s. \<not> p c) \<Longrightarrow> split_when p s = [s]"
  by (induction s) auto

lemma split_when_append:
  "p d \<Longrightarrow> (\<forall>c\<in>set w. \<not> p c) \<Longrightarrow> split_when p (w @ d # s) = w # split_when p s"
  by (induction w) auto

lemma join_split_on: "join [d] (split_on d s) = s"
proof (induction s)
  case Nil
  then show ?case by (simp add: split_on_def)
next
  case (Cons c s)
  obtain w ws where sp: "split_when (\<lambda>c. c = d) s = w # ws"
    by (cases "split_when (\<lambda>c. c = d) s") auto
  with Cons show ?case by (cases ws) (auto simp: split_on_def)
qed

lemma split_on_join:
  assumes "ws \<noteq> []" and "\<forall>w\<in>set ws. d \<notin> set w"
  shows "split_on d (join [d] ws) = ws"
  using assms
proof (induction "[d]" ws rule: join.induct)
  case (3 w v ws)
  then have "\<forall>c\<in>set w. c \<noteq> d" by auto
  then have "split_on d (w @ d # join [d] (v # ws)) = w # split_on d (join [d] (v # ws))"
    unfolding split_on_def by (intro split_when_append) auto
  with 3 show ?case by simp
qed (auto simp: split_on_def intro!: split_when_none)

lemma split_whitespace_join:
  assumes "\<forall>w\<in>set ws. w \<noteq> [] \<and> (\<forall>c\<in>set w. \<not> is_ws c)"
  shows "split_whitespace (join '' '' ws) = ws"
  using assms
proof (induction "'' ''" ws rule: join.induct)
  case (3 w v ws)
  have sp: "is_ws (CHR '' '')" by (simp add: is_ws_def)
  from 3 have "\<forall>c\<in>set w. \<not> is_ws c" by auto
  then have "split_when is_ws (w @ CHR '' '' # join '' '' (v # ws))
      = w # split_when is_ws (join '' '' (v # ws))"
    by (intro split_when_append sp) auto
  with 3 show ?case by (simp add: split_whitespace_def)
qed (auto simp: split_whitespace_def split_when_none)

lemma split_whitespace_parts:
  "w \<in> set (split_whitespace s) \<Longrightarrow> w \<noteq> [] \<and> (\<forall>c\<in>set w. \<not> is_ws c)"
  by (auto simp: split_whitespace_def dest: split_when_parts)

lemma join_eq_Nil: "join d ws = [] \<longleftrightarrow> ws = [] \<or> ws = [[]] \<or> (d = [] \<and> (\<forall>w\<in>set ws. w = []))"
  by (induction d ws rule: join.induct) auto

lemma show_nat_nonempty [simp]: "show_nat n \<noteq> []"
  by (subst show_nat.simps) simp

section \<open>Durations and bounded arithmetic\<close>

type_synonym duration = nat
type_synonym instant = nat
type_synonym u64 = "64 word"

text \<open>\<open>Duration::from_millis\<close> and \<open>Duration::as_millis\<close>, in nanoseconds.\<close>

definition from_millis :: "nat \<Rightarrow> duration" where
  "from_millis ms = ms * 1000000"

definition as_millis :: "duration \<Rightarrow> nat" where
  "as_millis d = d div 1000000"

definition u64_max :: nat where "u64_max = 18446744073709551615"
definition u32_max :: nat where "u32_max = 4294967295"

text \<open>\<open>u64::saturating_mul\<close> and \<open>u32::saturating_mul\<close> on values inside their type.\<close>

definition u64_saturating_mul :: "nat \<Rightarrow> nat \<Rightarrow> nat" where
  "u64_saturating_mul a b = min u64_max (a * b)"

definition u64_saturating_add :: "nat \<Rightarrow> nat \<Rightarrow> nat" where
  "u64_saturating_add a b = min u64_max (a + b)"

definition u32_saturating_mul :: "nat \<Rightarrow> nat \<Rightarrow> nat" where
  "u32_saturating_mul a b = min u32_max (a * b)"

definition u32_checked_add :: "nat \<Rightarrow> nat \<Rightarrow> nat option" where
  "u32_checked_add a b = (if a + b \<le> u32_max then Some (a + b) else None)"

text \<open>\<open>checked_sub\<close> and \<open>checked_duration_since\<close>.\<close>

definition checked_sub :: "nat \<Rightarrow> nat \<Rightarrow> nat option" where
  "checked_sub a b = (if b \<le> a then Some (a - b) else None)"

lemma from_millis_mono [simp]: "from_millis a \<le> from_millis b \<longleftrightarrow> a \<le> b"
  by (simp add: from_millis_def)

lemma from_millis_0 [simp]: "from_millis 0 = 0"
  by (simp add: from_millis_def)

lemma from_millis_pos [simp]: "0 < from_millis a \<longleftrightarrow> 0 < a"
  by (simp add: from_millis_def)

lemma as_millis_from_millis [simp]: "as_millis (from_millis a) = a"
  by (simp add: as_millis_def from_millis_def)

section \<open>Lists\<close>

text \<open>\<open>Iterator::position\<close>.\<close>

fun position :: "('a \<Rightarrow> bool) \<Rightarrow> 'a list \<Rightarrow> nat option" where
  "position p [] = None"
| "position p (x # xs) = (if p x then Some 0 else map_option Suc (position p xs))"

lemma position_None_iff: "position p xs = None \<longleftrightarrow> (\<forall>x\<in>set xs. \<not> p x)"
  by (induction xs) auto

lemma position_Some:
  "position p xs = Some i \<longleftrightarrow> i < length xs \<and> p (xs ! i) \<and> (\<forall>j<i. \<not> p (xs ! j))"
proof (induction xs arbitrary: i)
  case (Cons x xs)
  show ?case
  proof (cases i)
    case 0
    then show ?thesis by auto
  next
    case (Suc k)
    then show ?thesis by (auto simp: Cons.IH All_less_Suc2)
  qed
qed simp

text \<open>\<open>Vec::remove\<close> at an index in range.\<close>

definition remove_at :: "nat \<Rightarrow> 'a list \<Rightarrow> 'a list" where
  "remove_at i xs = take i xs @ drop (Suc i) xs"

lemma length_remove_at [simp]: "i < length xs \<Longrightarrow> length (remove_at i xs) = length xs - 1"
  by (simp add: remove_at_def)

lemma set_remove_at_subset: "set (remove_at i xs) \<subseteq> set xs"
  by (auto simp: remove_at_def dest: in_set_takeD in_set_dropD)

lemma remove_at_map: "map f (remove_at i xs) = remove_at i (map f xs)"
  by (simp add: remove_at_def take_map drop_map)

lemma distinct_remove_at:
  assumes "distinct xs" and "i < length xs"
  shows "distinct (remove_at i xs)" and "set (remove_at i xs) = set xs - {xs ! i}"
proof -
  have xs: "xs = take i xs @ xs ! i # drop (Suc i) xs"
    using assms(2) by (rule id_take_nth_drop)
  with assms(1) have d: "distinct (take i xs @ xs ! i # drop (Suc i) xs)" by simp
  then show "distinct (remove_at i xs)" by (auto simp: remove_at_def)
  have "set xs = set (take i xs) \<union> {xs ! i} \<union> set (drop (Suc i) xs)"
    by (subst xs) auto
  with d show "set (remove_at i xs) = set xs - {xs ! i}"
    by (auto simp: remove_at_def)
qed

lemma find_Some_iff2: "List.find p xs = Some x \<Longrightarrow> x \<in> set xs \<and> p x"
  by (auto simp: find_Some_iff)

lemma find_None_iff_ball: "List.find p xs = None \<longleftrightarrow> (\<forall>x\<in>set xs. \<not> p x)"
  by (auto simp: find_None_iff)

lemma find_unique:
  assumes "x \<in> set xs" and "p x" and "\<And>y. y \<in> set xs \<Longrightarrow> p y \<Longrightarrow> y = x"
  shows "List.find p xs = Some x"
proof (cases "List.find p xs")
  case None
  with assms(1,2) show ?thesis by (auto simp: find_None_iff)
next
  case (Some y)
  with assms(3) have "y = x" by (auto dest: find_Some_iff2)
  with Some show ?thesis by simp
qed

section \<open>Machines that keep an invariant\<close>

text \<open>
  Several components are a state and a step function on events. What one step keeps, a run of
  steps keeps; the lemma is proved once here and used through an interpretation per machine.
\<close>

locale invariant_machine =
  fixes step :: "'s \<Rightarrow> 'e \<Rightarrow> 's" and ok :: "'s \<Rightarrow> bool"
  assumes step_ok: "ok s \<Longrightarrow> ok (step s e)"
begin

lemma run_ok: "ok s \<Longrightarrow> ok (foldl step s es)"
  by (induction es arbitrary: s) (auto intro: step_ok)

end

section \<open>Admission of labelled work\<close>

text \<open>
  Macro runs and callbacks are admitted under a label, and a label that is in flight is refused
  until it is released. Three components give this contract.
\<close>

locale label_admission =
  fixes admit :: "'l \<Rightarrow> 's \<Rightarrow> 's option"
    and release :: "'l \<Rightarrow> 's \<Rightarrow> 's"
    and active :: "'s \<Rightarrow> 'l set"
    and ok :: "'s \<Rightarrow> bool"
  assumes admit_busy: "ok s \<Longrightarrow> l \<in> active s \<Longrightarrow> admit l s = None"
    and admit_active: "ok s \<Longrightarrow> admit l s = Some s' \<Longrightarrow> active s' = insert l (active s)"
    and admit_ok: "ok s \<Longrightarrow> admit l s = Some s' \<Longrightarrow> ok s'"
    and release_active: "ok s \<Longrightarrow> active (release l s) = active s - {l}"
    and release_ok: "ok s \<Longrightarrow> ok (release l s)"
begin

lemma admit_fresh: "ok s \<Longrightarrow> admit l s = Some s' \<Longrightarrow> l \<notin> active s"
  using admit_busy by fastforce

lemma admit_twice: "ok s \<Longrightarrow> admit l s = Some s' \<Longrightarrow> admit l s' = None"
  by (rule admit_busy) (auto simp: admit_active intro: admit_ok)

lemma admit_release: "ok s \<Longrightarrow> admit l s = Some s' \<Longrightarrow> active (release l s') = active s"
  using admit_fresh [of s l s'] by (auto simp: release_active admit_active admit_ok)

lemma admit_keeps_others:
  "ok s \<Longrightarrow> admit l s = Some s' \<Longrightarrow> k \<noteq> l \<Longrightarrow> k \<in> active s' \<longleftrightarrow> k \<in> active s"
  by (simp add: admit_active)

end

end
