(* ===== verification/Containers.thy ===== *)
theory Containers imports Prelude begin

text \<open>
  The ordered containers of the crates. A \<open>BTreeMap<K, V>\<close> is an association list whose keys
  ascend, a \<open>BTreeSet<T>\<close> an ascending list: iterating the container is iterating the list. Two
  locales state what the clients rely on, and are interpreted on these lists.
\<close>

section \<open>Ordered maps\<close>

fun bm_insert :: "'k::linorder \<Rightarrow> 'v \<Rightarrow> ('k \<times> 'v) list \<Rightarrow> ('k \<times> 'v) list" where
  "bm_insert k v [] = [(k, v)]"
| "bm_insert k v ((k', v') # m) =
     (if k < k' then (k, v) # (k', v') # m
      else if k = k' then (k, v) # m
      else (k', v') # bm_insert k v m)"

definition bm_remove :: "'k \<Rightarrow> ('k \<times> 'v) list \<Rightarrow> ('k \<times> 'v) list" where
  "bm_remove k m = filter (\<lambda>p. fst p \<noteq> k) m"

definition bm_get :: "('k \<times> 'v) list \<Rightarrow> 'k \<Rightarrow> 'v option" where
  "bm_get m k = map_of m k"

definition bm_contains :: "('k \<times> 'v) list \<Rightarrow> 'k \<Rightarrow> bool" where
  "bm_contains m k = (bm_get m k \<noteq> None)"

abbreviation bm_keys :: "('k \<times> 'v) list \<Rightarrow> 'k list" where "bm_keys m \<equiv> map fst m"
abbreviation bm_values :: "('k \<times> 'v) list \<Rightarrow> 'v list" where "bm_values m \<equiv> map snd m"

text \<open>\<open>collect::<BTreeMap<_, _>>()\<close>: a later pair replaces an earlier one of the same key.\<close>

definition bm_from :: "('k::linorder \<times> 'v) list \<Rightarrow> ('k \<times> 'v) list" where
  "bm_from xs = foldl (\<lambda>m p. bm_insert (fst p) (snd p) m) [] xs"

definition bm_ok :: "('k::linorder \<times> 'v) list \<Rightarrow> bool" where
  "bm_ok m = sorted_wrt (<) (map fst m)"

lemma bm_get_insert [simp]: "bm_get (bm_insert k v m) = (bm_get m)(k \<mapsto> v)"
  by (induction k v m rule: bm_insert.induct) (auto simp: bm_get_def fun_eq_iff)

lemma bm_get_remove [simp]: "bm_get (bm_remove k m) = (bm_get m)(k := None)"
  by (induction m) (auto simp: bm_get_def bm_remove_def fun_eq_iff)

lemma bm_get_Nil [simp]: "bm_get [] k = None"
  by (simp add: bm_get_def)

lemma keys_bm_insert [simp]: "fst ` set (bm_insert k v m) = insert k (fst ` set m)"
  by (induction k v m rule: bm_insert.induct) auto

lemma set_bm_insert_subset: "set (bm_insert k v m) \<subseteq> insert (k, v) (set m)"
  by (induction k v m rule: bm_insert.induct) auto

lemma bm_ok_Nil [simp]: "bm_ok []"
  by (simp add: bm_ok_def)

lemma bm_ok_insert [simp]: "bm_ok m \<Longrightarrow> bm_ok (bm_insert k v m)"
proof (induction k v m rule: bm_insert.induct)
  case (2 k v k' v' m)
  have "set (map fst (bm_insert k v m)) = insert k (fst ` set m)" by simp
  with 2 show ?case by (auto simp: bm_ok_def)
qed (simp add: bm_ok_def)

lemma bm_ok_remove [simp]: "bm_ok m \<Longrightarrow> bm_ok (bm_remove k m)"
  by (induction m) (auto simp: bm_ok_def bm_remove_def)

lemma bm_ok_distinct: "bm_ok m \<Longrightarrow> distinct (map fst m)"
  unfolding bm_ok_def by (induction m) auto

lemma bm_get_Some_iff: "bm_ok m \<Longrightarrow> bm_get m k = Some v \<longleftrightarrow> (k, v) \<in> set m"
  unfolding bm_get_def by (intro map_of_eq_Some_iff bm_ok_distinct)

lemma bm_get_SomeD: "bm_get m k = Some v \<Longrightarrow> (k, v) \<in> set m"
  unfolding bm_get_def by (rule map_of_SomeD)

lemma bm_get_None_iff: "bm_get m k = None \<longleftrightarrow> k \<notin> fst ` set m"
  by (simp add: bm_get_def map_of_eq_None_iff)

lemma bm_contains_iff: "bm_contains m k \<longleftrightarrow> k \<in> fst ` set m"
  by (simp add: bm_contains_def bm_get_None_iff)

lemma bm_from_foldl_ok: "bm_ok m \<Longrightarrow> bm_ok (foldl (\<lambda>m p. bm_insert (fst p) (snd p) m) m xs)"
  by (induction xs arbitrary: m) auto

lemma bm_ok_from [simp]: "bm_ok (bm_from xs)"
  unfolding bm_from_def by (rule bm_from_foldl_ok) simp

section \<open>Ordered sets\<close>

fun bs_insert :: "'a::linorder \<Rightarrow> 'a list \<Rightarrow> 'a list" where
  "bs_insert x [] = [x]"
| "bs_insert x (y # ys) =
     (if x < y then x # y # ys else if x = y then y # ys else y # bs_insert x ys)"

definition bs_remove :: "'a \<Rightarrow> 'a list \<Rightarrow> 'a list" where
  "bs_remove x xs = filter (\<lambda>y. y \<noteq> x) xs"

definition bs_from :: "'a::linorder list \<Rightarrow> 'a list" where
  "bs_from xs = foldl (\<lambda>s x. bs_insert x s) [] xs"

definition bs_ok :: "'a::linorder list \<Rightarrow> bool" where
  "bs_ok xs = sorted_wrt (<) xs"

lemma set_bs_insert [simp]: "set (bs_insert x xs) = insert x (set xs)"
  by (induction x xs rule: bs_insert.induct) auto

lemma set_bs_remove [simp]: "set (bs_remove x xs) = set xs - {x}"
  by (auto simp: bs_remove_def)

lemma bs_ok_Nil [simp]: "bs_ok []"
  by (simp add: bs_ok_def)

lemma bs_ok_insert [simp]: "bs_ok xs \<Longrightarrow> bs_ok (bs_insert x xs)"
  by (induction x xs rule: bs_insert.induct) (auto simp: bs_ok_def)

lemma bs_ok_remove [simp]: "bs_ok xs \<Longrightarrow> bs_ok (bs_remove x xs)"
  unfolding bs_ok_def bs_remove_def by (rule sorted_wrt_filter)

lemma bs_ok_distinct: "bs_ok xs \<Longrightarrow> distinct xs"
  unfolding bs_ok_def by (induction xs) auto

lemma bs_ok_sorted: "bs_ok xs \<Longrightarrow> sorted xs"
  unfolding bs_ok_def by (induction xs) (auto simp: order_less_imp_le)

lemma bs_ok_iff: "bs_ok xs \<longleftrightarrow> sorted xs \<and> distinct xs"
  unfolding bs_ok_def by (simp add: strict_sorted_iff)

lemma set_bs_from_foldl: "set (foldl (\<lambda>s x. bs_insert x s) s xs) = set s \<union> set xs"
  by (induction xs arbitrary: s) auto

lemma set_bs_from [simp]: "set (bs_from xs) = set xs"
  by (simp add: bs_from_def set_bs_from_foldl)

lemma bs_from_foldl_ok: "bs_ok s \<Longrightarrow> bs_ok (foldl (\<lambda>s x. bs_insert x s) s xs)"
  by (induction xs arbitrary: s) auto

lemma bs_ok_from [simp]: "bs_ok (bs_from xs)"
  unfolding bs_from_def by (rule bs_from_foldl_ok) simp

lemma bs_insert_absorb: "bs_ok xs \<Longrightarrow> x \<in> set xs \<Longrightarrow> bs_insert x xs = xs"
  by (metis bs_ok_iff bs_ok_insert insert_absorb set_bs_insert sorted_distinct_set_unique)

lemma bs_remove_absorb: "x \<notin> set xs \<Longrightarrow> bs_remove x xs = xs"
  unfolding bs_remove_def by (induction xs) auto

lemma bs_from_id: "bs_ok xs \<Longrightarrow> bs_from xs = xs"
  by (metis bs_ok_from bs_ok_iff set_bs_from sorted_distinct_set_unique)

text \<open>\<open>Vec::sort\<close> followed by \<open>Vec::dedup\<close>.\<close>

definition sort_dedup :: "'a::linorder list \<Rightarrow> 'a list" where
  "sort_dedup xs = remdups_adj (sort xs)"

lemma set_sort_dedup [simp]: "set (sort_dedup xs) = set xs"
  by (simp add: sort_dedup_def)

lemma bs_ok_remdups_adj: "sorted xs \<Longrightarrow> bs_ok (remdups_adj xs)"
  by (induction xs rule: remdups_adj.induct) (auto simp: bs_ok_def)

lemma bs_ok_sort_dedup [simp]: "bs_ok (sort_dedup xs)"
  by (simp add: sort_dedup_def bs_ok_remdups_adj)

lemma sort_dedup_eq_iff: "sort_dedup xs = sort_dedup ys \<longleftrightarrow> set xs = set ys"
  by (metis bs_ok_iff bs_ok_sort_dedup set_sort_dedup sorted_distinct_set_unique)

section \<open>The interfaces\<close>

text \<open>What the clients of an ordered map rely on.\<close>

locale ordered_map =
  fixes empty :: 'm
    and insert_entry :: "'k::linorder \<Rightarrow> 'v \<Rightarrow> 'm \<Rightarrow> 'm"
    and remove_entry :: "'k \<Rightarrow> 'm \<Rightarrow> 'm"
    and get :: "'m \<Rightarrow> 'k \<Rightarrow> 'v option"
    and keys :: "'m \<Rightarrow> 'k list"
    and ok :: "'m \<Rightarrow> bool"
  assumes get_empty: "get empty k = None"
    and get_insert: "get (insert_entry k v m) = (get m)(k \<mapsto> v)"
    and get_remove: "get (remove_entry k m) = (get m)(k := None)"
    and keys_get: "set (keys m) = {k. get m k \<noteq> None}"
    and ok_empty: "ok empty"
    and ok_insert: "ok m \<Longrightarrow> ok (insert_entry k v m)"
    and ok_remove: "ok m \<Longrightarrow> ok (remove_entry k m)"
    and ok_keys: "ok m \<Longrightarrow> sorted_wrt (<) (keys m)"
begin

definition collect_entries :: "('k \<times> 'v) list \<Rightarrow> 'm \<Rightarrow> 'm" where
  "collect_entries xs m = foldl (\<lambda>m p. insert_entry (fst p) (snd p) m) m xs"

lemma ok_collect: "ok m \<Longrightarrow> ok (collect_entries xs m)"
  unfolding collect_entries_def by (induction xs arbitrary: m) (auto intro: ok_insert)

lemma get_collect_from: "get (collect_entries xs m) = (get m) ++ map_of (rev xs)"
  unfolding collect_entries_def
  by (induction xs arbitrary: m) (auto simp: get_insert fun_eq_iff map_add_def split: option.splits)

lemma get_collect: "get (collect_entries xs empty) k = map_of (rev xs) k"
  by (auto simp: get_collect_from get_empty map_add_def split: option.splits)

lemma keys_insert: "set (keys (insert_entry k v m)) = insert k (set (keys m))"
  by (auto simp: keys_get get_insert)

lemma keys_distinct: "ok m \<Longrightarrow> distinct (keys m)"
  by (drule ok_keys) (auto simp: strict_sorted_iff)

lemma reinsert_get: "get (insert_entry k v (remove_entry k m)) = get (insert_entry k v m)"
  by (auto simp: get_insert get_remove)

end

interpretation btree_map: ordered_map "[]" bm_insert bm_remove bm_get "map fst" bm_ok
proof unfold_locales
  fix m :: "('a::linorder \<times> 'b) list"
  show "set (map fst m) = {k. bm_get m k \<noteq> None}"
    by (auto simp: bm_get_None_iff)
  show "bm_ok m \<Longrightarrow> sorted_wrt (<) (map fst m)"
    by (simp add: bm_ok_def)
qed auto

lemma bm_get_from: "bm_get (bm_from xs) k = map_of (rev xs) k"
  using btree_map.get_collect [of xs k] by (simp add: btree_map.collect_entries_def bm_from_def)

lemma bm_keys_from [simp]: "fst ` set (bm_from xs) = fst ` set xs"
proof -
  have "k \<in> fst ` set (bm_from xs) \<longleftrightarrow> k \<in> fst ` set xs" for k
    using bm_get_None_iff [of "bm_from xs" k] by (simp add: bm_get_from map_of_eq_None_iff)
  then show ?thesis by blast
qed

text \<open>What the clients of an ordered set rely on.\<close>

locale ordered_set =
  fixes empty :: 's
    and add :: "'a::linorder \<Rightarrow> 's \<Rightarrow> 's"
    and del :: "'a \<Rightarrow> 's \<Rightarrow> 's"
    and elems :: "'s \<Rightarrow> 'a list"
    and ok :: "'s \<Rightarrow> bool"
  assumes elems_empty: "elems empty = []"
    and elems_add: "set (elems (add x s)) = insert x (set (elems s))"
    and elems_del: "set (elems (del x s)) = set (elems s) - {x}"
    and ok_empty: "ok empty"
    and ok_add: "ok s \<Longrightarrow> ok (add x s)"
    and ok_del: "ok s \<Longrightarrow> ok (del x s)"
    and ok_elems: "ok s \<Longrightarrow> sorted_wrt (<) (elems s)"
begin

lemma add_canonical:
  assumes "ok s" and "ok t" and "set (elems s) = set (elems t)"
  shows "elems s = elems t"
  using ok_elems [OF assms(1)] ok_elems [OF assms(2)] assms(3)
  by (metis strict_sorted_iff sorted_distinct_set_unique)

lemma add_commute: "ok s \<Longrightarrow> elems (add x (add y s)) = elems (add y (add x s))"
  by (rule add_canonical) (auto simp: elems_add intro: ok_add)

lemma del_add_fresh: "ok s \<Longrightarrow> x \<notin> set (elems s) \<Longrightarrow> elems (del x (add x s)) = elems s"
  by (rule add_canonical) (auto simp: elems_add elems_del intro: ok_add ok_del)

end

interpretation btree_set: ordered_set "[]" bs_insert bs_remove id bs_ok
  by unfold_locales (auto simp: bs_ok_def intro: bs_ok_insert[unfolded bs_ok_def] bs_ok_remove[unfolded bs_ok_def])

end
