(* ===== verification/Errors.thy ===== *)
theory Errors imports Containers begin

text \<open>
  \<open>signal-auras-core/src/error.rs\<close>: the phases and capabilities, the diagnosable error every
  fallible operation returns, and the capability sets and reports that gate activation.
  \<open>for_bindings\<close> and \<open>for_configuration\<close>, which read a configuration, are in \<open>Config\<close>.
\<close>

section \<open>Phases and capabilities\<close>

datatype error_phase =
    ArgumentValidation | ScriptLoad | ScriptValidation | ScopePrompt | CapabilityProbe
  | Registration | Trigger | MacroExecution | Shutdown

fun show_phase :: "error_phase \<Rightarrow> string" where
  "show_phase ArgumentValidation = ''argument_validation''"
| "show_phase ScriptLoad = ''script_load''"
| "show_phase ScriptValidation = ''script_validation''"
| "show_phase ScopePrompt = ''scope_prompt''"
| "show_phase CapabilityProbe = ''capability_probe''"
| "show_phase Registration = ''registration''"
| "show_phase Trigger = ''trigger''"
| "show_phase MacroExecution = ''macro_execution''"
| "show_phase Shutdown = ''shutdown''"

datatype capability =
    GlobalShortcut | CompositePointerObservation | CompositePointerConsumption | ActiveProcess
  | ActiveWindowMetadata | WindowActivation | SynthesizedInput | Timer | ScreenRead

fun show_capability :: "capability \<Rightarrow> string" where
  "show_capability GlobalShortcut = ''global_shortcut''"
| "show_capability CompositePointerObservation = ''composite_pointer_observation''"
| "show_capability CompositePointerConsumption = ''composite_pointer_consumption''"
| "show_capability ActiveProcess = ''active_process''"
| "show_capability ActiveWindowMetadata = ''active_window_metadata''"
| "show_capability WindowActivation = ''window_activation''"
| "show_capability SynthesizedInput = ''synthesized_input''"
| "show_capability Timer = ''timer''"
| "show_capability ScreenRead = ''screen_read''"

datatype capability_kind =
    GlobalShortcut | CompositePointerObservation | CompositePointerConsumption
  | ActiveProcessMetadata | ActiveWindowMetadata | WindowActivation | SynthesizedInput | Timer
  | ScreenRead

fun legacy_capability :: "capability_kind \<Rightarrow> capability" where
  "legacy_capability GlobalShortcut = capability.GlobalShortcut"
| "legacy_capability CompositePointerObservation = capability.CompositePointerObservation"
| "legacy_capability CompositePointerConsumption = capability.CompositePointerConsumption"
| "legacy_capability ActiveProcessMetadata = capability.ActiveProcess"
| "legacy_capability ActiveWindowMetadata = capability.ActiveWindowMetadata"
| "legacy_capability WindowActivation = capability.WindowActivation"
| "legacy_capability SynthesizedInput = capability.SynthesizedInput"
| "legacy_capability Timer = capability.Timer"
| "legacy_capability ScreenRead = capability.ScreenRead"

fun show_capability_kind :: "capability_kind \<Rightarrow> string" where
  "show_capability_kind GlobalShortcut = ''global_shortcut''"
| "show_capability_kind CompositePointerObservation = ''composite_pointer_observation''"
| "show_capability_kind CompositePointerConsumption = ''composite_pointer_consumption''"
| "show_capability_kind ActiveProcessMetadata = ''active_process_metadata''"
| "show_capability_kind ActiveWindowMetadata = ''active_window_metadata''"
| "show_capability_kind WindowActivation = ''window_activation''"
| "show_capability_kind SynthesizedInput = ''synthesized_input''"
| "show_capability_kind Timer = ''timer''"
| "show_capability_kind ScreenRead = ''screen_read''"

text \<open>The derived \<open>Ord\<close>: the order of the constructors.\<close>

fun capability_rank :: "capability_kind \<Rightarrow> nat" where
  "capability_rank GlobalShortcut = 0"
| "capability_rank CompositePointerObservation = 1"
| "capability_rank CompositePointerConsumption = 2"
| "capability_rank ActiveProcessMetadata = 3"
| "capability_rank ActiveWindowMetadata = 4"
| "capability_rank WindowActivation = 5"
| "capability_rank SynthesizedInput = 6"
| "capability_rank Timer = 7"
| "capability_rank ScreenRead = 8"

lemma capability_rank_inj [simp]: "capability_rank a = capability_rank b \<longleftrightarrow> a = b"
  by (cases a; cases b) simp_all

instantiation capability_kind :: linorder
begin

definition less_eq_capability_kind :: "capability_kind \<Rightarrow> capability_kind \<Rightarrow> bool" where
  "less_eq_capability_kind a b = (capability_rank a \<le> capability_rank b)"

definition less_capability_kind :: "capability_kind \<Rightarrow> capability_kind \<Rightarrow> bool" where
  "less_capability_kind a b = (capability_rank a < capability_rank b)"

instance
  by standard (auto simp: less_eq_capability_kind_def less_capability_kind_def
      simp flip: capability_rank_inj)

end

datatype capability_availability =
    Available | Unsupported | PermissionRequired | Denied | Revoked | Invalidated | ProviderError

definition allows_activation :: "capability_availability \<Rightarrow> bool" where
  "allows_activation a = (a = Available)"

section \<open>Diagnostics\<close>

record adapter_diagnostic =
  ad_phase :: error_phase
  ad_capability :: "capability_kind option"
  ad_message :: string
  ad_remediation :: "string option"
  ad_source :: "string option"

definition adapter_diagnostic_new :: "error_phase \<Rightarrow> string \<Rightarrow> adapter_diagnostic" where
  "adapter_diagnostic_new phase message =
     \<lparr>ad_phase = phase, ad_capability = None, ad_message = message, ad_remediation = None,
      ad_source = None\<rparr>"

definition ad_with_capability :: "capability_kind \<Rightarrow> adapter_diagnostic \<Rightarrow> adapter_diagnostic" where
  "ad_with_capability k d = d\<lparr>ad_capability := Some k\<rparr>"

definition ad_with_remediation :: "string \<Rightarrow> adapter_diagnostic \<Rightarrow> adapter_diagnostic" where
  "ad_with_remediation r d = d\<lparr>ad_remediation := Some r\<rparr>"

definition ad_with_source :: "string \<Rightarrow> adapter_diagnostic \<Rightarrow> adapter_diagnostic" where
  "ad_with_source s d = d\<lparr>ad_source := Some s\<rparr>"

record diagnosable_error =
  er_phase :: error_phase
  er_capability :: "capability option"
  er_message :: string
  er_remediation :: "string option"
  er_source :: "string option"

definition diagnosable_error_new :: "error_phase \<Rightarrow> string \<Rightarrow> diagnosable_error" where
  "diagnosable_error_new phase message =
     \<lparr>er_phase = phase, er_capability = None, er_message = message, er_remediation = None,
      er_source = None\<rparr>"

definition with_capability :: "capability \<Rightarrow> diagnosable_error \<Rightarrow> diagnosable_error" where
  "with_capability c e = e\<lparr>er_capability := Some c\<rparr>"

definition with_remediation :: "string \<Rightarrow> diagnosable_error \<Rightarrow> diagnosable_error" where
  "with_remediation r e = e\<lparr>er_remediation := Some r\<rparr>"

definition with_optional_remediation ::
  "string option \<Rightarrow> diagnosable_error \<Rightarrow> diagnosable_error" where
  "with_optional_remediation r e = e\<lparr>er_remediation := r\<rparr>"

definition with_source :: "string \<Rightarrow> diagnosable_error \<Rightarrow> diagnosable_error" where
  "with_source s e = e\<lparr>er_source := Some s\<rparr>"

definition with_optional_source :: "string option \<Rightarrow> diagnosable_error \<Rightarrow> diagnosable_error" where
  "with_optional_source s e = e\<lparr>er_source := s\<rparr>"

lemmas error_defs [error_simps] =
  adapter_diagnostic_new_def ad_with_capability_def ad_with_remediation_def ad_with_source_def
  diagnosable_error_new_def with_capability_def with_remediation_def with_optional_remediation_def
  with_source_def with_optional_source_def

text \<open>\<open>Display for DiagnosableError\<close>.\<close>

definition show_error :: "diagnosable_error \<Rightarrow> string" where
  "show_error e =
     show_phase (er_phase e) @ '': '' @ er_message e
     @ (case er_capability e of None \<Rightarrow> []
        | Some c \<Rightarrow> '' (capability: '' @ show_capability c @ '')'')
     @ (case er_remediation e of None \<Rightarrow> [] | Some r \<Rightarrow> '' remediation: '' @ r)
     @ (case er_source e of None \<Rightarrow> [] | Some s \<Rightarrow> '' source: '' @ s)"

type_synonym 'a result = "diagnosable_error + 'a"

section \<open>Capability sets and reports\<close>

record capability_status =
  cs_kind :: capability_kind
  cs_availability :: capability_availability
  cs_source :: "string option"
  cs_diagnostic :: "adapter_diagnostic option"

definition status_available :: "capability_kind \<Rightarrow> string \<Rightarrow> capability_status" where
  "status_available k source =
     \<lparr>cs_kind = k, cs_availability = Available, cs_source = Some source, cs_diagnostic = None\<rparr>"

definition status_unavailable ::
  "capability_kind \<Rightarrow> capability_availability \<Rightarrow> adapter_diagnostic \<Rightarrow> capability_status" where
  "status_unavailable k a d =
     \<lparr>cs_kind = k, cs_availability = a, cs_source = ad_source d, cs_diagnostic = Some d\<rparr>"

type_synonym capability_set = "capability_kind list"
type_synonym capability_report = "(capability_kind \<times> capability_status) list"

definition capability_set_new :: "capability_kind list \<Rightarrow> capability_set" where
  "capability_set_new required = sort_dedup required"

definition capability_set_contains :: "capability_set \<Rightarrow> capability_kind \<Rightarrow> bool" where
  "capability_set_contains s k = List.member s k"

definition report_from_statuses :: "capability_status list \<Rightarrow> capability_report" where
  "report_from_statuses xs = bm_from (map (\<lambda>s. (cs_kind s, s)) xs)"

definition report_status :: "capability_report \<Rightarrow> capability_kind \<Rightarrow> capability_status option" where
  "report_status r k = bm_get r k"

definition report_with_status :: "capability_report \<Rightarrow> capability_status \<Rightarrow> capability_report" where
  "report_with_status r s = bm_insert (cs_kind s) s r"

definition all_available :: "capability_report \<Rightarrow> capability_set \<Rightarrow> bool" where
  "all_available r required =
     list_all (\<lambda>k. case report_status r k of None \<Rightarrow> False
                   | Some s \<Rightarrow> allows_activation (cs_availability s)) required"

fun first_blocking_error :: "capability_report \<Rightarrow> capability_set \<Rightarrow> diagnosable_error option" where
  "first_blocking_error r [] = None"
| "first_blocking_error r (k # ks) =
     (case report_status r k of
        None \<Rightarrow>
          Some (with_capability (legacy_capability k)
            (diagnosable_error_new CapabilityProbe
               (''required capability '' @ [CHR 0x27] @ show_capability_kind k @ [CHR 0x27]
                @ '' was not probed'')))
      | Some s \<Rightarrow>
          if \<not> allows_activation (cs_availability s)
          then Some (with_optional_source (cs_source s)
                 (with_optional_remediation
                   (case cs_diagnostic s of None \<Rightarrow> None | Some d \<Rightarrow> ad_remediation d)
                 (with_capability (legacy_capability k)
                   (diagnosable_error_new CapabilityProbe
                     (case cs_diagnostic s of
                        Some d \<Rightarrow> ad_message d
                      | None \<Rightarrow> ''required capability '' @ [CHR 0x27] @ show_capability_kind k
                                @ [CHR 0x27] @ '' is unavailable'')))))
          else first_blocking_error r ks)"

lemma set_capability_set_new [simp]: "set (capability_set_new ks) = set ks"
  by (simp add: capability_set_new_def)

lemma capability_set_contains_new [simp]:
  "capability_set_contains (capability_set_new ks) k \<longleftrightarrow> k \<in> set ks"
  by (simp add: capability_set_contains_def)

lemma report_with_status_get [simp]:
  "report_status (report_with_status r s) = (report_status r)(cs_kind s \<mapsto> s)"
  by (auto simp: report_status_def report_with_status_def fun_eq_iff)

lemma report_from_statuses_get:
  "report_status (report_from_statuses xs) k = List.find (\<lambda>s. cs_kind s = k) (rev xs)"
proof -
  have "map_of (map (\<lambda>s. (cs_kind s, s)) ys) k = List.find (\<lambda>s. cs_kind s = k) ys" for ys
    by (induction ys) auto
  then show ?thesis
    by (simp add: report_status_def report_from_statuses_def bm_get_from rev_map)
qed

lemma legacy_capability_inj: "legacy_capability a = legacy_capability b \<longleftrightarrow> a = b"
  by (cases a; cases b) simp_all

end
