(* ===== verification/Keys.thy ===== *)
theory Keys imports Errors begin

text \<open>
  \<open>signal-auras-core/src/key.rs\<close>: key names, their evdev codes and categories. The table
  \<open>key_table_lines\<close> is the text of \<open>key_table.txt\<close>, line by line; aliases, canonical names
  and the lookup are those of the source. The lemmas show that every name the table can print
  is read back as the same key.
\<close>

section \<open>Tokens, aliases and the table\<close>

datatype key_category =
    Letter | Number | Punctuation | Modifier | Function | Navigation | Editing | Keypad | System
  | Media | Unknown

record key_token =
  kt_name :: string
  kt_code :: nat
  kt_category :: key_category

record key_entry =
  ke_code :: nat
  ke_linux_name :: string

record key_alias =
  ka_name :: string
  ka_code :: nat

definition key_aliases :: "key_alias list" where
  "key_aliases = map (\<lambda>(n, c). \<lparr>ka_name = n, ka_code = c\<rparr>) [
     (''Esc'', 1), (''Escape'', 1), (''Enter'', 28), (''Return'', 28), (''Ctrl'', 29),
     (''Control'', 29), (''Shift'', 42), (''Alt'', 56), (''Super'', 125), (''Meta'', 125),
     (''Delete'', 111), (''Del'', 111), (''PageUp'', 104), (''PageDown'', 109), (''PgUp'', 104),
     (''PgDn'', 109), (''VolumeUp'', 115), (''VolumeDown'', 114), (''MicMute'', 248),
     (''PlayPause'', 164), (''NextSong'', 163), (''PreviousSong'', 165), (''-'', 12),
     (''='', 13), (''['', 26), ('']'', 27), ('';'', 39), ([CHR 0x27], 40), ([CHR 0x60], 41),
     ([CHR 0x5C], 43), ('','', 51), (''.'', 52), (''/'', 53), (''*'', 55), (''+'', 78),
     (''Num1'', 79), (''Num2'', 80)]"

definition key_lines_0 :: "string list" where
  "key_lines_0 = [
     ''1 ESC'', ''2 1'', ''3 2'', ''4 3'', ''5 4'', ''6 5'', ''7 6'', ''8 7'', ''9 8'', ''10 9'',
     ''11 0'', ''12 MINUS'', ''13 EQUAL'', ''14 BACKSPACE'', ''15 TAB'', ''16 Q'']"

definition key_lines_1 :: "string list" where
  "key_lines_1 = [
     ''17 W'', ''18 E'', ''19 R'', ''20 T'', ''21 Y'', ''22 U'', ''23 I'', ''24 O'', ''25 P'',
     ''26 LEFTBRACE'', ''27 RIGHTBRACE'', ''28 ENTER'', ''29 LEFTCTRL'', ''30 A'', ''31 S'',
     ''32 D'']"

definition key_lines_2 :: "string list" where
  "key_lines_2 = [
     ''33 F'', ''34 G'', ''35 H'', ''36 J'', ''37 K'', ''38 L'', ''39 SEMICOLON'',
     ''40 APOSTROPHE'', ''41 GRAVE'', ''42 LEFTSHIFT'', ''43 BACKSLASH'', ''44 Z'', ''45 X'',
     ''46 C'', ''47 V'', ''48 B'']"

definition key_lines_3 :: "string list" where
  "key_lines_3 = [
     ''49 N'', ''50 M'', ''51 COMMA'', ''52 DOT'', ''53 SLASH'', ''54 RIGHTSHIFT'',
     ''55 KPASTERISK'', ''56 LEFTALT'', ''57 SPACE'', ''58 CAPSLOCK'', ''59 F1'', ''60 F2'',
     ''61 F3'', ''62 F4'', ''63 F5'', ''64 F6'']"

definition key_lines_4 :: "string list" where
  "key_lines_4 = [
     ''65 F7'', ''66 F8'', ''67 F9'', ''68 F10'', ''69 NUMLOCK'', ''70 SCROLLLOCK'', ''71 KP7'',
     ''72 KP8'', ''73 KP9'', ''74 KPMINUS'', ''75 KP4'', ''76 KP5'', ''77 KP6'', ''78 KPPLUS'',
     ''79 KP1'', ''80 KP2'']"

definition key_lines_5 :: "string list" where
  "key_lines_5 = [
     ''81 KP3'', ''82 KP0'', ''83 KPDOT'', ''85 ZENKAKUHANKAKU'', ''86 102ND'', ''87 F11'',
     ''88 F12'', ''89 RO'', ''90 KATAKANA'', ''91 HIRAGANA'', ''92 HENKAN'',
     ''93 KATAKANAHIRAGANA'', ''94 MUHENKAN'', ''95 KPJPCOMMA'', ''96 KPENTER'',
     ''97 RIGHTCTRL'']"

definition key_lines_6 :: "string list" where
  "key_lines_6 = [
     ''98 KPSLASH'', ''99 SYSRQ'', ''100 RIGHTALT'', ''101 LINEFEED'', ''102 HOME'', ''103 UP'',
     ''104 PAGEUP'', ''105 LEFT'', ''106 RIGHT'', ''107 END'', ''108 DOWN'', ''109 PAGEDOWN'',
     ''110 INSERT'', ''111 DELETE'', ''112 MACRO'', ''113 MUTE'']"

definition key_lines_7 :: "string list" where
  "key_lines_7 = [
     ''114 VOLUMEDOWN'', ''115 VOLUMEUP'', ''116 POWER'', ''117 KPEQUAL'', ''118 KPPLUSMINUS'',
     ''119 PAUSE'', ''120 SCALE'', ''121 KPCOMMA'', ''122 HANGEUL'', ''123 HANJA'', ''124 YEN'',
     ''125 LEFTMETA'', ''126 RIGHTMETA'', ''127 COMPOSE'', ''128 STOP'', ''129 AGAIN'']"

definition key_lines_8 :: "string list" where
  "key_lines_8 = [
     ''130 PROPS'', ''131 UNDO'', ''132 FRONT'', ''133 COPY'', ''134 OPEN'', ''135 PASTE'',
     ''136 FIND'', ''137 CUT'', ''138 HELP'', ''139 MENU'', ''140 CALC'', ''141 SETUP'',
     ''142 SLEEP'', ''143 WAKEUP'', ''144 FILE'', ''145 SENDFILE'']"

definition key_lines_9 :: "string list" where
  "key_lines_9 = [
     ''146 DELETEFILE'', ''147 XFER'', ''148 PROG1'', ''149 PROG2'', ''150 WWW'', ''151 MSDOS'',
     ''152 COFFEE'', ''153 ROTATE_DISPLAY'', ''154 CYCLEWINDOWS'', ''155 MAIL'',
     ''156 BOOKMARKS'', ''157 COMPUTER'', ''158 BACK'', ''159 FORWARD'', ''160 CLOSECD'',
     ''161 EJECTCD'']"

definition key_lines_10 :: "string list" where
  "key_lines_10 = [
     ''162 EJECTCLOSECD'', ''163 NEXTSONG'', ''164 PLAYPAUSE'', ''165 PREVIOUSSONG'',
     ''166 STOPCD'', ''167 RECORD'', ''168 REWIND'', ''169 PHONE'', ''170 ISO'', ''171 CONFIG'',
     ''172 HOMEPAGE'', ''173 REFRESH'', ''174 EXIT'', ''175 MOVE'', ''176 EDIT'',
     ''177 SCROLLUP'']"

definition key_lines_11 :: "string list" where
  "key_lines_11 = [
     ''178 SCROLLDOWN'', ''179 KPLEFTPAREN'', ''180 KPRIGHTPAREN'', ''181 NEW'', ''182 REDO'',
     ''183 F13'', ''184 F14'', ''185 F15'', ''186 F16'', ''187 F17'', ''188 F18'', ''189 F19'',
     ''190 F20'', ''191 F21'', ''192 F22'', ''193 F23'']"

definition key_lines_12 :: "string list" where
  "key_lines_12 = [
     ''194 F24'', ''200 PLAYCD'', ''201 PAUSECD'', ''202 PROG3'', ''203 PROG4'',
     ''204 ALL_APPLICATIONS'', ''205 SUSPEND'', ''206 CLOSE'', ''207 PLAY'', ''208 FASTFORWARD'',
     ''209 BASSBOOST'', ''210 PRINT'', ''211 HP'', ''212 CAMERA'', ''213 SOUND'',
     ''214 QUESTION'']"

definition key_lines_13 :: "string list" where
  "key_lines_13 = [
     ''215 EMAIL'', ''216 CHAT'', ''217 SEARCH'', ''218 CONNECT'', ''219 FINANCE'',
     ''220 SPORT'', ''221 SHOP'', ''222 ALTERASE'', ''223 CANCEL'', ''224 BRIGHTNESSDOWN'',
     ''225 BRIGHTNESSUP'', ''226 MEDIA'', ''227 SWITCHVIDEOMODE'', ''228 KBDILLUMTOGGLE'',
     ''229 KBDILLUMDOWN'', ''230 KBDILLUMUP'']"

definition key_lines_14 :: "string list" where
  "key_lines_14 = [
     ''231 SEND'', ''232 REPLY'', ''233 FORWARDMAIL'', ''234 SAVE'', ''235 DOCUMENTS'',
     ''236 BATTERY'', ''237 BLUETOOTH'', ''238 WLAN'', ''239 UWB'', ''240 UNKNOWN'',
     ''241 VIDEO_NEXT'', ''242 VIDEO_PREV'', ''243 BRIGHTNESS_CYCLE'', ''244 BRIGHTNESS_AUTO'',
     ''245 DISPLAY_OFF'', ''246 WWAN'']"

definition key_lines_15 :: "string list" where
  "key_lines_15 = [
     ''247 RFKILL'', ''248 MICMUTE'', ''0x160 OK'', ''0x161 SELECT'', ''0x162 GOTO'',
     ''0x163 CLEAR'', ''0x164 POWER2'', ''0x165 OPTION'', ''0x166 INFO'', ''0x167 TIME'',
     ''0x168 VENDOR'', ''0x169 ARCHIVE'', ''0x16a PROGRAM'', ''0x16b CHANNEL'',
     ''0x16c FAVORITES'', ''0x16d EPG'']"

definition key_lines_16 :: "string list" where
  "key_lines_16 = [
     ''0x16e PVR'', ''0x16f MHP'', ''0x170 LANGUAGE'', ''0x171 TITLE'', ''0x172 SUBTITLE'',
     ''0x173 ANGLE'', ''0x174 FULL_SCREEN'', ''0x175 MODE'', ''0x176 KEYBOARD'',
     ''0x177 ASPECT_RATIO'', ''0x178 PC'', ''0x179 TV'', ''0x17a TV2'', ''0x17b VCR'',
     ''0x17c VCR2'', ''0x17d SAT'']"

definition key_lines_17 :: "string list" where
  "key_lines_17 = [
     ''0x17e SAT2'', ''0x17f CD'', ''0x180 TAPE'', ''0x181 RADIO'', ''0x182 TUNER'',
     ''0x183 PLAYER'', ''0x184 TEXT'', ''0x185 DVD'', ''0x186 AUX'', ''0x187 MP3'',
     ''0x188 AUDIO'', ''0x189 VIDEO'', ''0x18a DIRECTORY'', ''0x18b LIST'', ''0x18c MEMO'',
     ''0x18d CALENDAR'']"

definition key_lines_18 :: "string list" where
  "key_lines_18 = [
     ''0x18e RED'', ''0x18f GREEN'', ''0x190 YELLOW'', ''0x191 BLUE'', ''0x192 CHANNELUP'',
     ''0x193 CHANNELDOWN'', ''0x194 FIRST'', ''0x195 LAST'', ''0x196 AB'', ''0x197 NEXT'',
     ''0x198 RESTART'', ''0x199 SLOW'', ''0x19a SHUFFLE'', ''0x19b BREAK'', ''0x19c PREVIOUS'',
     ''0x19d DIGITS'']"

definition key_lines_19 :: "string list" where
  "key_lines_19 = [
     ''0x19e TEEN'', ''0x19f TWEN'', ''0x1a0 VIDEOPHONE'', ''0x1a1 GAMES'', ''0x1a2 ZOOMIN'',
     ''0x1a3 ZOOMOUT'', ''0x1a4 ZOOMRESET'', ''0x1a5 WORDPROCESSOR'', ''0x1a6 EDITOR'',
     ''0x1a7 SPREADSHEET'', ''0x1a8 GRAPHICSEDITOR'', ''0x1a9 PRESENTATION'', ''0x1aa DATABASE'',
     ''0x1ab NEWS'', ''0x1ac VOICEMAIL'', ''0x1ad ADDRESSBOOK'']"

definition key_lines_20 :: "string list" where
  "key_lines_20 = [
     ''0x1ae MESSENGER'', ''0x1af DISPLAYTOGGLE'', ''0x1b0 SPELLCHECK'', ''0x1b1 LOGOFF'',
     ''0x1b2 DOLLAR'', ''0x1b3 EURO'', ''0x1b4 FRAMEBACK'', ''0x1b5 FRAMEFORWARD'',
     ''0x1b6 CONTEXT_MENU'', ''0x1b7 MEDIA_REPEAT'', ''0x1b8 10CHANNELSUP'',
     ''0x1b9 10CHANNELSDOWN'', ''0x1ba IMAGES'', ''0x1bc NOTIFICATION_CENTER'',
     ''0x1bd PICKUP_PHONE'', ''0x1be HANGUP_PHONE'']"

definition key_lines_21 :: "string list" where
  "key_lines_21 = [
     ''0x1bf LINK_PHONE'', ''0x1c0 DEL_EOL'', ''0x1c1 DEL_EOS'', ''0x1c2 INS_LINE'',
     ''0x1c3 DEL_LINE'', ''0x1d0 FN'', ''0x1d1 FN_ESC'', ''0x1d2 FN_F1'', ''0x1d3 FN_F2'',
     ''0x1d4 FN_F3'', ''0x1d5 FN_F4'', ''0x1d6 FN_F5'', ''0x1d7 FN_F6'', ''0x1d8 FN_F7'',
     ''0x1d9 FN_F8'', ''0x1da FN_F9'']"

definition key_lines_22 :: "string list" where
  "key_lines_22 = [
     ''0x1db FN_F10'', ''0x1dc FN_F11'', ''0x1dd FN_F12'', ''0x1de FN_1'', ''0x1df FN_2'',
     ''0x1e0 FN_D'', ''0x1e1 FN_E'', ''0x1e2 FN_F'', ''0x1e3 FN_S'', ''0x1e4 FN_B'',
     ''0x1e5 FN_RIGHT_SHIFT'', ''0x1f1 BRL_DOT1'', ''0x1f2 BRL_DOT2'', ''0x1f3 BRL_DOT3'',
     ''0x1f4 BRL_DOT4'', ''0x1f5 BRL_DOT5'']"

definition key_lines_23 :: "string list" where
  "key_lines_23 = [
     ''0x1f6 BRL_DOT6'', ''0x1f7 BRL_DOT7'', ''0x1f8 BRL_DOT8'', ''0x1f9 BRL_DOT9'',
     ''0x1fa BRL_DOT10'', ''0x200 NUMERIC_0'', ''0x201 NUMERIC_1'', ''0x202 NUMERIC_2'',
     ''0x203 NUMERIC_3'', ''0x204 NUMERIC_4'', ''0x205 NUMERIC_5'', ''0x206 NUMERIC_6'',
     ''0x207 NUMERIC_7'', ''0x208 NUMERIC_8'', ''0x209 NUMERIC_9'', ''0x20a NUMERIC_STAR'']"

definition key_lines_24 :: "string list" where
  "key_lines_24 = [
     ''0x20b NUMERIC_POUND'', ''0x20c NUMERIC_A'', ''0x20d NUMERIC_B'', ''0x20e NUMERIC_C'',
     ''0x20f NUMERIC_D'', ''0x210 CAMERA_FOCUS'', ''0x211 WPS_BUTTON'',
     ''0x212 TOUCHPAD_TOGGLE'', ''0x213 TOUCHPAD_ON'', ''0x214 TOUCHPAD_OFF'',
     ''0x215 CAMERA_ZOOMIN'', ''0x216 CAMERA_ZOOMOUT'', ''0x217 CAMERA_UP'',
     ''0x218 CAMERA_DOWN'', ''0x219 CAMERA_LEFT'', ''0x21a CAMERA_RIGHT'']"

definition key_lines_25 :: "string list" where
  "key_lines_25 = [
     ''0x21b ATTENDANT_ON'', ''0x21c ATTENDANT_OFF'', ''0x21d ATTENDANT_TOGGLE'',
     ''0x21e LIGHTS_TOGGLE'', ''0x230 ALS_TOGGLE'', ''0x231 ROTATE_LOCK_TOGGLE'',
     ''0x232 REFRESH_RATE_TOGGLE'', ''0x240 BUTTONCONFIG'', ''0x241 TASKMANAGER'',
     ''0x242 JOURNAL'', ''0x243 CONTROLPANEL'', ''0x244 APPSELECT'', ''0x245 SCREENSAVER'',
     ''0x246 VOICECOMMAND'', ''0x247 ASSISTANT'', ''0x248 KBD_LAYOUT_NEXT'']"

definition key_lines_26 :: "string list" where
  "key_lines_26 = [
     ''0x249 EMOJI_PICKER'', ''0x24a DICTATE'', ''0x24b CAMERA_ACCESS_ENABLE'',
     ''0x24c CAMERA_ACCESS_DISABLE'', ''0x24d CAMERA_ACCESS_TOGGLE'', ''0x24e ACCESSIBILITY'',
     ''0x24f DO_NOT_DISTURB'', ''0x250 BRIGHTNESS_MIN'', ''0x251 BRIGHTNESS_MAX'',
     ''0x252 EPRIVACY_SCREEN_ON'', ''0x253 EPRIVACY_SCREEN_OFF'', ''0x260 KBDINPUTASSIST_PREV'',
     ''0x261 KBDINPUTASSIST_NEXT'', ''0x262 KBDINPUTASSIST_PREVGROUP'',
     ''0x263 KBDINPUTASSIST_NEXTGROUP'', ''0x264 KBDINPUTASSIST_ACCEPT'']"

definition key_lines_27 :: "string list" where
  "key_lines_27 = [
     ''0x265 KBDINPUTASSIST_CANCEL'', ''0x266 RIGHT_UP'', ''0x267 RIGHT_DOWN'',
     ''0x268 LEFT_UP'', ''0x269 LEFT_DOWN'', ''0x26a ROOT_MENU'', ''0x26b MEDIA_TOP_MENU'',
     ''0x26c NUMERIC_11'', ''0x26d NUMERIC_12'', ''0x26e AUDIO_DESC'', ''0x26f 3D_MODE'',
     ''0x270 NEXT_FAVORITE'', ''0x271 STOP_RECORD'', ''0x272 PAUSE_RECORD'', ''0x273 VOD'',
     ''0x274 UNMUTE'']"

definition key_lines_28 :: "string list" where
  "key_lines_28 = [
     ''0x275 FASTREVERSE'', ''0x276 SLOWREVERSE'', ''0x277 DATA'', ''0x278 ONSCREEN_KEYBOARD'',
     ''0x279 PRIVACY_SCREEN_TOGGLE'', ''0x27a SELECTIVE_SCREENSHOT'', ''0x27b NEXT_ELEMENT'',
     ''0x27c PREVIOUS_ELEMENT'', ''0x27d AUTOPILOT_ENGAGE_TOGGLE'', ''0x27e MARK_WAYPOINT'',
     ''0x27f SOS'', ''0x280 NAV_CHART'', ''0x281 FISHING_CHART'', ''0x282 SINGLE_RANGE_RADAR'',
     ''0x283 DUAL_RANGE_RADAR'', ''0x284 RADAR_OVERLAY'']"

definition key_lines_29 :: "string list" where
  "key_lines_29 = [
     ''0x285 TRADITIONAL_SONAR'', ''0x286 CLEARVU_SONAR'', ''0x287 SIDEVU_SONAR'',
     ''0x288 NAV_INFO'', ''0x289 BRIGHTNESS_MENU'', ''0x290 MACRO1'', ''0x291 MACRO2'',
     ''0x292 MACRO3'', ''0x293 MACRO4'', ''0x294 MACRO5'', ''0x295 MACRO6'', ''0x296 MACRO7'',
     ''0x297 MACRO8'', ''0x298 MACRO9'', ''0x299 MACRO10'', ''0x29a MACRO11'']"

definition key_lines_30 :: "string list" where
  "key_lines_30 = [
     ''0x29b MACRO12'', ''0x29c MACRO13'', ''0x29d MACRO14'', ''0x29e MACRO15'',
     ''0x29f MACRO16'', ''0x2a0 MACRO17'', ''0x2a1 MACRO18'', ''0x2a2 MACRO19'',
     ''0x2a3 MACRO20'', ''0x2a4 MACRO21'', ''0x2a5 MACRO22'', ''0x2a6 MACRO23'',
     ''0x2a7 MACRO24'', ''0x2a8 MACRO25'', ''0x2a9 MACRO26'', ''0x2aa MACRO27'']"

definition key_lines_31 :: "string list" where
  "key_lines_31 = [
     ''0x2ab MACRO28'', ''0x2ac MACRO29'', ''0x2ad MACRO30'', ''0x2b0 MACRO_RECORD_START'',
     ''0x2b1 MACRO_RECORD_STOP'', ''0x2b2 MACRO_PRESET_CYCLE'', ''0x2b3 MACRO_PRESET1'',
     ''0x2b4 MACRO_PRESET2'', ''0x2b5 MACRO_PRESET3'', ''0x2b8 KBD_LCD_MENU1'',
     ''0x2b9 KBD_LCD_MENU2'', ''0x2ba KBD_LCD_MENU3'', ''0x2bb KBD_LCD_MENU4'',
     ''0x2bc KBD_LCD_MENU5'', ''0x2bd PERFORMANCE'']"

definition key_table_lines :: "string list" where
  "key_table_lines = concat [
     key_lines_0, key_lines_1, key_lines_2, key_lines_3, key_lines_4, key_lines_5, key_lines_6,
     key_lines_7, key_lines_8, key_lines_9, key_lines_10, key_lines_11, key_lines_12,
     key_lines_13, key_lines_14, key_lines_15, key_lines_16, key_lines_17, key_lines_18,
     key_lines_19, key_lines_20, key_lines_21, key_lines_22, key_lines_23, key_lines_24,
     key_lines_25, key_lines_26, key_lines_27, key_lines_28, key_lines_29, key_lines_30,
     key_lines_31]"

section \<open>Reading the table\<close>

definition hex_digit_value :: "char \<Rightarrow> nat option" where
  "hex_digit_value c =
     (let n = char_code c
      in if 48 \<le> n \<and> n \<le> 57 then Some (n - 48)
         else if 65 \<le> n \<and> n \<le> 70 then Some (n - 55)
         else if 97 \<le> n \<and> n \<le> 102 then Some (n - 87)
         else None)"

fun hex_digits_value :: "nat \<Rightarrow> string \<Rightarrow> nat option" where
  "hex_digits_value acc [] = Some acc"
| "hex_digits_value acc (c # cs) =
     (case hex_digit_value c of None \<Rightarrow> None | Some d \<Rightarrow> hex_digits_value (16 * acc + d) cs)"

text \<open>\<open>u16::from_str_radix(s, 16)\<close>.\<close>

definition parse_hex_u16 :: "string \<Rightarrow> nat option" where
  "parse_hex_u16 s =
     (let ds = (case s of c # cs \<Rightarrow> if c = CHR ''+'' then cs else s | [] \<Rightarrow> s)
      in if ds = [] then None
         else (case hex_digits_value 0 ds of
                 None \<Rightarrow> None | Some n \<Rightarrow> if n \<le> 65535 then Some n else None))"

definition parse_code :: "string \<Rightarrow> nat option" where
  "parse_code value =
     (case Option.bind (strip_prefix ''0x'' value) parse_hex_u16 of
        Some n \<Rightarrow> Some n
      | None \<Rightarrow> parse_unsigned 65535 value)"

definition parse_key_line :: "string \<Rightarrow> key_entry option" where
  "parse_key_line line =
     (case split_whitespace line of
        code # name # rest \<Rightarrow>
          (case parse_code code of
             None \<Rightarrow> None | Some c \<Rightarrow> Some \<lparr>ke_code = c, ke_linux_name = name\<rparr>)
      | _ \<Rightarrow> None)"

definition key_entries :: "key_entry list" where
  "key_entries = List.map_filter parse_key_line key_table_lines"

section \<open>Canonical names and categories\<close>

definition title_word :: "string \<Rightarrow> string" where
  "title_word raw =
     (case raw of [] \<Rightarrow> [] | c # cs \<Rightarrow> to_ascii_uppercase c # map to_ascii_lowercase cs)"

definition title_names :: "(string \<times> string) list" where
  "title_names = [
     (''ESC'', ''Esc''), (''LEFTCTRL'', ''LeftCtrl''), (''RIGHTCTRL'', ''RightCtrl''),
     (''LEFTSHIFT'', ''LeftShift''), (''RIGHTSHIFT'', ''RightShift''),
     (''LEFTALT'', ''LeftAlt''), (''RIGHTALT'', ''RightAlt''), (''LEFTMETA'', ''LeftMeta''),
     (''RIGHTMETA'', ''RightMeta''), (''LEFTBRACE'', ''LeftBracket''),
     (''RIGHTBRACE'', ''RightBracket''), (''PAGEUP'', ''PageUp''), (''PAGEDOWN'', ''PageDown''),
     (''VOLUMEUP'', ''VolumeUp''), (''VOLUMEDOWN'', ''VolumeDown''),
     (''PLAYPAUSE'', ''PlayPause''), (''NEXTSONG'', ''NextSong''),
     (''PREVIOUSSONG'', ''PreviousSong''), (''BRIGHTNESSUP'', ''BrightnessUp''),
     (''BRIGHTNESSDOWN'', ''BrightnessDown''), (''MICMUTE'', ''MicMute''),
     (''KBDILLUMUP'', ''KbdIllumUp''), (''KBDILLUMDOWN'', ''KbdIllumDown''),
     (''KBDILLUMTOGGLE'', ''KbdIllumToggle''), (''KPPLUS'', ''Plus''), (''KPMINUS'', ''Minus''),
     (''KPASTERISK'', ''Asterisk''), (''KPSLASH'', ''Slash''), (''KPDOT'', ''Dot''),
     (''KPENTER'', ''Enter''), (''KPEQUAL'', ''Equal'')]"

definition title_compound :: "string \<Rightarrow> string" where
  "title_compound raw =
     (case map_of title_names raw of
        Some t \<Rightarrow> t
      | None \<Rightarrow> concat (map title_word
                 (filter (\<lambda>part. part \<noteq> []) (split_on (CHR ''_'') raw))))"

definition single_digit_name :: "string \<Rightarrow> char option" where
  "single_digit_name raw =
     (case raw of [c] \<Rightarrow> if is_ascii_digit c then Some c else None | _ \<Rightarrow> None)"

definition single_letter_name :: "string \<Rightarrow> char option" where
  "single_letter_name raw =
     (case raw of [c] \<Rightarrow> if is_ascii_uppercase c then Some c else None | _ \<Rightarrow> None)"

definition function_number :: "string \<Rightarrow> nat option" where
  "function_number raw =
     (case parse_unsigned 255 raw of
        None \<Rightarrow> None | Some n \<Rightarrow> if 1 \<le> n \<and> n \<le> 24 then Some n else None)"

definition canonical_name :: "key_entry \<Rightarrow> string" where
  "canonical_name e =
     (let raw = trim_start_matches ''KEY_'' (ke_linux_name e)
      in case List.find (\<lambda>a. ka_code a = ke_code e) key_aliases of
           Some a \<Rightarrow> ka_name a
         | None \<Rightarrow>
           (case single_digit_name raw of
              Some d \<Rightarrow> [d]
            | None \<Rightarrow>
              (case single_letter_name raw of
                 Some l \<Rightarrow> [to_ascii_lowercase l]
               | None \<Rightarrow>
                 (case Option.bind (strip_prefix ''F'' raw) function_number of
                    Some n \<Rightarrow> ''F'' @ show_nat n
                  | None \<Rightarrow>
                    (case strip_prefix ''KP'' raw of
                       Some keypad \<Rightarrow> ''KP'' @ title_compound keypad
                     | None \<Rightarrow> title_compound raw)))))"

definition category_for :: "string \<Rightarrow> key_category" where
  "category_for linux_name =
     (let raw = trim_start_matches ''KEY_'' linux_name
      in if single_letter_name raw \<noteq> None then Letter
         else if single_digit_name raw \<noteq> None then Number
         else if Option.bind (strip_prefix ''F'' raw) function_number \<noteq> None then Function
         else if prefix ''KP'' raw then Keypad
         else if List.member [''LEFTCTRL'', ''RIGHTCTRL'', ''LEFTSHIFT'', ''RIGHTSHIFT'',
           ''LEFTALT'', ''RIGHTALT'', ''LEFTMETA'', ''RIGHTMETA'', ''CAPSLOCK'', ''NUMLOCK'',
           ''SCROLLLOCK'', ''FN''] raw then Modifier
         else if List.member [''LEFT'', ''RIGHT'', ''UP'', ''DOWN'', ''HOME'', ''END'',
           ''PAGEUP'', ''PAGEDOWN''] raw then Navigation
         else if List.member [''ENTER'', ''ESC'', ''TAB'', ''BACKSPACE'', ''DELETE'', ''INSERT'',
           ''UNDO'', ''COPY'', ''PASTE'', ''CUT'', ''FIND'', ''REDO''] raw then Editing
         else if List.member [''MINUS'', ''EQUAL'', ''LEFTBRACE'', ''RIGHTBRACE'', ''SEMICOLON'',
           ''APOSTROPHE'', ''GRAVE'', ''BACKSLASH'', ''COMMA'', ''DOT'', ''SLASH'', ''102ND'',
           ''RO'', ''YEN''] raw then Punctuation
         else if list_ex (\<lambda>w. contains_str w raw) [''VOLUME'', ''PLAY'', ''PAUSE'', ''SONG'',
           ''MEDIA'', ''BRIGHTNESS'', ''MUTE'', ''WLAN'', ''BLUETOOTH'', ''KBDILLUM'',
           ''MICMUTE''] then Media
         else if List.member [''POWER'', ''POWER2'', ''SLEEP'', ''WAKEUP'', ''SYSRQ'', ''PAUSE'',
           ''MENU'', ''COMPOSE''] raw then System
         else Unknown)"

definition entry_token :: "key_entry \<Rightarrow> key_token" where
  "entry_token e =
     \<lparr>kt_name = canonical_name e, kt_code = ke_code e,
      kt_category = category_for (ke_linux_name e)\<rparr>"

section \<open>Lookup\<close>

definition lookup_key :: "string \<Rightarrow> string" where
  "lookup_key value =
     (let v = trim value
      in if length v = 1 \<and> list_all (\<lambda>c. \<not> is_ascii_alphanumeric c) v
         then ''punct:'' @ v
         else map to_ascii_lowercase (filter is_ascii_alphanumeric (trim v)))"

definition same_lookup_key :: "string \<Rightarrow> string \<Rightarrow> bool" where
  "same_lookup_key l r = (lookup_key l = lookup_key r)"

definition from_evdev_code :: "nat \<Rightarrow> key_token option" where
  "from_evdev_code code =
     map_option entry_token (List.find (\<lambda>e. ke_code e = code) key_entries)"

definition entry_matches :: "string \<Rightarrow> key_entry \<Rightarrow> bool" where
  "entry_matches lookup e =
     (lookup_key (kt_name (entry_token e)) = lookup
      \<or> lookup_key (ke_linux_name e) = lookup
      \<or> lookup_key (trim_start_matches ''KEY_'' (ke_linux_name e)) = lookup)"

definition parse_key_token :: "string \<Rightarrow> key_token option" where
  "parse_key_token value =
     (let lookup = lookup_key value
      in case List.find (\<lambda>a. lookup_key (ka_name a) = lookup) key_aliases of
           Some a \<Rightarrow> from_evdev_code (ka_code a)
         | None \<Rightarrow> map_option entry_token (List.find (entry_matches lookup) key_entries))"

definition key_token_parse :: "string \<Rightarrow> key_token result" where
  "key_token_parse value =
     (let v = trim value
      in if v = [] then Err (diagnosable_error_new ScriptValidation ''key name cannot be empty'')
         else (case parse_key_token v of
                 Some t \<Rightarrow> Ok t
               | None \<Rightarrow> Err (diagnosable_error_new ScriptValidation
                   (''unsupported key '' @ [CHR 0x27] @ v @ [CHR 0x27]))))"

definition key_token_aliases :: "key_token \<Rightarrow> string list" where
  "key_token_aliases t =
     (let aliases = filter (\<lambda>a. \<not> same_lookup_key a (kt_name t))
                      (map ka_name (filter (\<lambda>a. ka_code a = kt_code t) key_aliases))
      in case List.find (\<lambda>e. ke_code e = kt_code t) key_entries of
           None \<Rightarrow> aliases
         | Some e \<Rightarrow>
             if \<not> same_lookup_key (ke_linux_name e) (kt_name t)
                \<and> list_all (\<lambda>a. \<not> same_lookup_key a (ke_linux_name e)) aliases
             then aliases @ [ke_linux_name e] else aliases)"


end
