(* ===== verification/KeyTable.thy ===== *)
theory KeyTable imports Keys begin

text \<open>
  Consistency of the key table of \<open>key.rs\<close>: two names with the same lookup stand for the same
  code. A collision-free hash of the lookups and the map from hashes to codes are a certificate
  that is checked on the table in blocks of lines; the theorems then say that every alias,
  canonical name and Linux name of the table is read back as the key it names.
\<close>

section \<open>The certificate\<close>

definition lookup_hash :: "string \<Rightarrow> int" where
  "lookup_hash s = foldl (\<lambda>n c. (n * 31 + of_char c) mod 16490) 0 s"

definition codes_0 :: "(int \<times> nat) list" where
  "codes_0 = [
     (4, 240), (5, 640), (48, 11), (49, 2), (50, 3), (51, 4), (52, 5), (53, 6), (54, 7), (55, 8),
     (56, 9), (57, 10), (97, 30), (98, 48), (99, 46), (100, 32), (101, 18), (102, 33), (103, 34),
     (104, 35), (105, 23), (106, 36), (107, 37), (108, 38)]"

definition codes_1 :: "(int \<times> nat) list" where
  "codes_1 = [
     (109, 50), (110, 49), (111, 24), (112, 25), (113, 16), (114, 19), (115, 31), (116, 20),
     (117, 22), (118, 47), (119, 17), (120, 45), (121, 21), (122, 44), (186, 583), (245, 74),
     (283, 143), (300, 396), (321, 141), (337, 139), (356, 535), (399, 111), (446, 370),
     (489, 97)]"

definition codes_2 :: "(int \<times> nat) list" where
  "codes_2 = [
     (490, 610), (503, 125), (562, 226), (566, 182), (567, 630), (576, 152), (602, 221),
     (609, 430), (644, 227), (649, 68), (650, 87), (651, 88), (652, 183), (653, 184), (654, 185),
     (655, 186), (656, 187), (657, 188), (658, 189), (680, 190), (681, 191), (682, 192),
     (683, 193), (684, 194)]"

definition codes_3 :: "(int \<times> nat) list" where
  "codes_3 = [
     (703, 620), (704, 621), (717, 52), (730, 585), (744, 537), (758, 214), (785, 180),
     (794, 239), (815, 609), (863, 412), (918, 389), (941, 580), (978, 594), (1022, 404),
     (1031, 626), (1120, 225), (1140, 634), (1151, 379), (1157, 200), (1190, 438), (1233, 387),
     (1311, 173), (1397, 86), (1400, 217)]"

definition codes_4 :: "(int \<times> nat) list" where
  "codes_4 = [
     (1448, 99), (1498, 90), (1509, 627), (1631, 107), (1657, 690), (1666, 424), (1670, 440),
     (1696, 365), (1726, 216), (1785, 1), (1791, 624), (1825, 246), (1853, 542), (1968, 169),
     (1974, 590), (1979, 156), (2048, 56), (2100, 125), (2143, 213), (2263, 132), (2326, 577),
     (2398, 172), (2472, 95), (2525, 581)]"

definition codes_5 :: "(int \<times> nat) list" where
  "codes_5 = [
     (2541, 478), (2542, 479), (2590, 484), (2592, 480), (2593, 481), (2594, 482), (2607, 483),
     (2613, 160), (2737, 150), (2751, 380), (2774, 413), (2789, 148), (2790, 149), (2791, 202),
     (2792, 203), (2799, 55), (2869, 168), (2897, 531), (2932, 560), (2972, 28), (2990, 632),
     (2993, 428), (3082, 145), (3105, 406)]"

definition codes_6 :: "(int \<times> nat) list" where
  "codes_6 = [
     (3134, 130), (3143, 439), (3145, 622), (3169, 383), (3200, 445), (3211, 59), (3212, 60),
     (3213, 61), (3214, 62), (3215, 63), (3216, 64), (3217, 65), (3218, 66), (3219, 67),
     (3229, 636), (3259, 29), (3272, 464), (3277, 105), (3281, 562), (3310, 353), (3336, 211),
     (3346, 616), (3407, 536), (3467, 688)]"

definition codes_7 :: "(int \<times> nat) list" where
  "codes_7 = [
     (3508, 418), (3532, 161), (3548, 352), (3557, 116), (3571, 376), (3645, 89), (3705, 126),
     (3714, 377), (3739, 103), (3846, 369), (3874, 360), (4034, 223), (4092, 124), (4114, 641),
     (4139, 364), (4244, 134), (4262, 611), (4284, 629), (4391, 394), (4411, 475), (4412, 476),
     (4413, 477), (4441, 528), (4453, 409)]"

definition codes_8 :: "(int \<times> nat) list" where
  "codes_8 = [
     (4480, 420), (4510, 215), (4640, 120), (4656, 26), (4768, 530), (4804, 206), (4885, 417),
     (4915, 393), (4937, 522), (4941, 27), (4952, 229), (4972, 644), (4998, 358), (5087, 665),
     (5088, 666), (5089, 667), (5090, 668), (5091, 669), (5092, 670), (5093, 671), (5094, 672),
     (5095, 673), (5096, 674), (5118, 675)]"

definition codes_9 :: "(int \<times> nat) list" where
  "codes_9 = [
     (5119, 676), (5120, 677), (5121, 678), (5122, 679), (5123, 680), (5124, 681), (5125, 682),
     (5126, 683), (5127, 684), (5149, 685), (5220, 637), (5237, 91), (5270, 628), (5340, 242),
     (5350, 204), (5411, 96), (5494, 506), (5513, 166), (5547, 465), (5569, 222), (5575, 93),
     (5590, 151), (5613, 41), (5641, 170)]"

definition codes_10 :: "(int \<times> nat) list" where
  "codes_10 = [
     (5655, 94), (5835, 357), (5940, 108), (5993, 146), (6064, 123), (6098, 434), (6130, 85),
     (6135, 178), (6216, 421), (6291, 69), (6343, 608), (6413, 153), (6430, 701), (6448, 649),
     (6541, 110), (6555, 523), (6579, 167), (6643, 578), (6693, 451), (6695, 589), (6704, 539),
     (6814, 450), (6832, 129), (6849, 371)]"

definition codes_11 :: "(int \<times> nat) list" where
  "codes_11 = [
     (6978, 691), (6979, 692), (6980, 693), (7156, 162), (7190, 122), (7196, 384), (7211, 532),
     (7249, 403), (7252, 584), (7258, 402), (7274, 177), (7327, 118), (7407, 82), (7408, 79),
     (7409, 80), (7410, 81), (7411, 75), (7412, 76), (7413, 77), (7414, 71), (7415, 72),
     (7416, 73), (7524, 395), (7537, 617)]"

definition codes_12 :: "(int \<times> nat) list" where
  "codes_12 = [
     (7572, 106), (7612, 28), (7744, 238), (7908, 101), (7989, 92), (8068, 58), (8131, 426),
     (8170, 171), (8184, 247), (8242, 176), (8341, 614), (8363, 435), (8368, 696), (8369, 697),
     (8370, 698), (8371, 699), (8372, 700), (8407, 411), (8470, 362), (8483, 100), (8613, 408),
     (8865, 109), (8870, 631), (8917, 422)]"

definition codes_13 :: "(int \<times> nat) list" where
  "codes_13 = [
     (8923, 133), (8939, 399), (8988, 400), (9013, 416), (9063, 512), (9064, 513), (9065, 514),
     (9066, 515), (9067, 516), (9068, 517), (9069, 518), (9070, 519), (9071, 520), (9072, 521),
     (9078, 386), (9112, 524), (9113, 525), (9114, 526), (9115, 527), (9119, 243), (9138, 619),
     (9139, 53), (9142, 615), (9143, 40)]"

definition codes_14 :: "(int \<times> nat) list" where
  "codes_14 = [
     (9145, 367), (9332, 391), (9340, 431), (9355, 102), (9364, 401), (9394, 104), (9524, 114),
     (9533, 375), (9536, 218), (9537, 212), (9583, 689), (9608, 576), (9615, 51), (9621, 373),
     (9634, 432), (9798, 540), (9815, 533), (9816, 368), (9818, 220), (9936, 144), (9946, 209),
     (9997, 136), (10020, 181), (10023, 115)]"

definition codes_15 :: "(int \<times> nat) list" where
  "codes_15 = [
     (10130, 179), (10179, 175), (10197, 593), (10266, 485), (10283, 236), (10428, 633),
     (10435, 592), (10446, 233), (10458, 382), (10571, 234), (10607, 208), (10618, 425),
     (10658, 638), (10708, 414), (10726, 13), (10793, 245), (10802, 244), (10877, 579),
     (10879, 157), (10919, 125), (10972, 174), (11025, 1), (11101, 446), (11139, 355)]"

definition codes_16 :: "(int \<times> nat) list" where
  "codes_16 = [
     (11170, 205), (11232, 165), (11299, 39), (11303, 388), (11377, 356), (11402, 237),
     (11479, 410), (11484, 436), (11499, 538), (11516, 415), (11578, 98), (11610, 43),
     (11621, 78), (11629, 618), (11755, 372), (11813, 140), (11831, 135), (11893, 647),
     (11952, 104), (11961, 646), (12051, 224), (12054, 121), (12134, 128), (12177, 433)]"

definition codes_17 :: "(int \<times> nat) list" where
  "codes_17 = [
     (12346, 423), (12370, 437), (12374, 57), (12376, 645), (12425, 79), (12426, 80),
     (12464, 366), (12557, 142), (12616, 232), (12650, 112), (12702, 42), (12713, 635),
     (12739, 42), (12771, 354), (12819, 155), (12831, 40), (12834, 55), (12835, 78), (12836, 51),
     (12837, 12), (12838, 52), (12839, 53), (12851, 39), (12853, 13)]"

definition codes_18 :: "(int \<times> nat) list" where
  "codes_18 = [
     (12866, 397), (12883, 26), (12884, 43), (12885, 27), (12888, 41), (12921, 441),
     (12929, 656), (12930, 657), (12931, 658), (12932, 659), (12933, 660), (12934, 661),
     (12935, 662), (12936, 663), (12937, 664), (12980, 70), (13024, 54), (13165, 117),
     (13168, 127), (13197, 588), (13238, 235), (13239, 582), (13368, 444), (13374, 529)]"

definition codes_19 :: "(int \<times> nat) list" where
  "codes_19 = [
     (13407, 159), (13544, 534), (13588, 207), (13682, 595), (13722, 119), (13737, 385),
     (13777, 29), (13797, 210), (13845, 398), (13862, 623), (13915, 427), (13947, 407),
     (14006, 497), (14007, 498), (14008, 499), (14009, 500), (14010, 501), (14011, 502),
     (14012, 503), (14013, 504), (14014, 505), (14057, 154), (14128, 447), (14166, 231)]"

definition codes_20 :: "(int \<times> nat) list" where
  "codes_20 = [
     (14212, 561), (14231, 56), (14244, 219), (14296, 12), (14411, 230), (14501, 201),
     (14503, 466), (14504, 467), (14505, 468), (14506, 469), (14507, 470), (14508, 471),
     (14509, 472), (14510, 473), (14511, 474), (14514, 390), (14540, 392), (14698, 381),
     (14731, 158), (14791, 359), (14833, 591), (14845, 14), (14973, 648), (14996, 83)]"

definition codes_21 :: "(int \<times> nat) list" where
  "codes_21 = [
     (15032, 612), (15053, 625), (15131, 639), (15224, 228), (15374, 29), (15380, 164),
     (15407, 147), (15479, 448), (15486, 449), (15522, 613), (15627, 111), (15641, 15),
     (15676, 163), (15869, 642), (15883, 113), (15907, 419), (15910, 442), (15968, 361),
     (15974, 586), (16009, 429), (16036, 248), (16049, 374), (16099, 363), (16138, 131)]"

definition codes_22 :: "(int \<times> nat) list" where
  "codes_22 = [
     (16215, 138), (16244, 378), (16258, 587), (16302, 241), (16315, 541), (16326, 405),
     (16369, 643), (16413, 109), (16432, 137)]"

definition hash_code :: "int \<Rightarrow> nat option" where
  "hash_code h = (
     if h < 6978 then (if h < 2541 then (if h < 490 then (if h < 109 then (map_of codes_0 h)
           else (map_of codes_1 h))
         else (if h < 703 then (map_of codes_2 h)
           else (if h < 1448 then (map_of codes_3 h)
             else (map_of codes_4 h))))
       else (if h < 4480 then (if h < 3134 then (map_of codes_5 h)
           else (if h < 3508 then (map_of codes_6 h)
             else (map_of codes_7 h)))
         else (if h < 5119 then (map_of codes_8 h)
           else (if h < 5655 then (map_of codes_9 h)
             else (map_of codes_10 h)))))
     else (if h < 12346 then (if h < 9145 then (if h < 7572 then (map_of codes_11 h)
           else (if h < 8923 then (map_of codes_12 h)
             else (map_of codes_13 h)))
         else (if h < 10130 then (map_of codes_14 h)
           else (if h < 11170 then (map_of codes_15 h)
             else (map_of codes_16 h))))
       else (if h < 14212 then (if h < 12866 then (map_of codes_17 h)
           else (if h < 13407 then (map_of codes_18 h)
             else (map_of codes_19 h)))
         else (if h < 15032 then (map_of codes_20 h)
           else (if h < 16215 then (map_of codes_21 h)
             else (map_of codes_22 h))))))"

definition name_ok :: "nat \<Rightarrow> string \<Rightarrow> bool" where
  "name_ok c name = (hash_code (lookup_hash (lookup_key name)) = Some c)"

definition name_shape_ok :: "string \<Rightarrow> bool" where
  "name_shape_ok name =
     (name \<noteq> [] \<and> trim name = name \<and> (name = ''+'' \<or> \<not> List.member name (CHR ''+'')))"

definition entry_ok :: "key_entry \<Rightarrow> bool" where
  "entry_ok e =
     (let name = canonical_name e; raw = trim_start_matches ''KEY_'' (ke_linux_name e)
      in name_shape_ok name \<and> name_ok (ke_code e) name \<and> name_ok (ke_code e) (ke_linux_name e)
         \<and> (raw = ke_linux_name e \<or> name_ok (ke_code e) raw))"

text \<open>The codes of a block ascend inside the block's range.\<close>

fun codes_between :: "nat \<Rightarrow> nat \<Rightarrow> nat list \<Rightarrow> bool" where
  "codes_between lo hi [] = (lo \<le> hi)"
| "codes_between lo hi (c # cs) = (lo \<le> c \<and> codes_between (Suc c) hi cs)"

definition block_ok :: "nat \<Rightarrow> nat \<Rightarrow> string list \<Rightarrow> bool" where
  "block_ok lo hi ls =
     (let es = List.map_filter parse_key_line ls
      in codes_between lo hi (map ke_code es) \<and> list_all entry_ok es)"

lemma block_0: "block_ok 1 17 key_lines_0"
  by code_simp

lemma block_1: "block_ok 17 33 key_lines_1"
  by code_simp

lemma block_2: "block_ok 33 49 key_lines_2"
  by code_simp

lemma block_3: "block_ok 49 65 key_lines_3"
  by code_simp

lemma block_4: "block_ok 65 81 key_lines_4"
  by code_simp

lemma block_5: "block_ok 81 98 key_lines_5"
  by code_simp

lemma block_6: "block_ok 98 114 key_lines_6"
  by code_simp

lemma block_7: "block_ok 114 130 key_lines_7"
  by code_simp

lemma block_8: "block_ok 130 146 key_lines_8"
  by code_simp

lemma block_9: "block_ok 146 162 key_lines_9"
  by code_simp

lemma block_10: "block_ok 162 178 key_lines_10"
  by code_simp

lemma block_11: "block_ok 178 194 key_lines_11"
  by code_simp

lemma block_12: "block_ok 194 215 key_lines_12"
  by code_simp

lemma block_13: "block_ok 215 231 key_lines_13"
  by code_simp

lemma block_14: "block_ok 231 247 key_lines_14"
  by code_simp

lemma block_15: "block_ok 247 366 key_lines_15"
  by code_simp

lemma block_16: "block_ok 366 382 key_lines_16"
  by code_simp

lemma block_17: "block_ok 382 398 key_lines_17"
  by code_simp

lemma block_18: "block_ok 398 414 key_lines_18"
  by code_simp

lemma block_19: "block_ok 414 430 key_lines_19"
  by code_simp

lemma block_20: "block_ok 430 447 key_lines_20"
  by code_simp

lemma block_21: "block_ok 447 475 key_lines_21"
  by code_simp

lemma block_22: "block_ok 475 502 key_lines_22"
  by code_simp

lemma block_23: "block_ok 502 523 key_lines_23"
  by code_simp

lemma block_24: "block_ok 523 539 key_lines_24"
  by code_simp

lemma block_25: "block_ok 539 585 key_lines_25"
  by code_simp

lemma block_26: "block_ok 585 613 key_lines_26"
  by code_simp

lemma block_27: "block_ok 613 629 key_lines_27"
  by code_simp

lemma block_28: "block_ok 629 645 key_lines_28"
  by code_simp

lemma block_29: "block_ok 645 667 key_lines_29"
  by code_simp

lemma block_30: "block_ok 667 683 key_lines_30"
  by code_simp

lemma block_31: "block_ok 683 702 key_lines_31"
  by code_simp

lemmas blocks_ok =
 block_0 block_1 block_2 block_3 block_4 block_5 block_6 block_7 block_8 block_9
 block_10 block_11 block_12 block_13 block_14 block_15 block_16 block_17 block_18
 block_19 block_20 block_21 block_22 block_23 block_24 block_25 block_26 block_27
 block_28 block_29 block_30 block_31

section \<open>What the certificate gives\<close>

lemma codes_between_append:
  "codes_between lo mid xs \<Longrightarrow> codes_between mid hi ys \<Longrightarrow> codes_between lo hi (xs @ ys)"
proof (induction lo mid xs rule: codes_between.induct)
  case (1 lo mid)
  then show ?case by (cases ys) auto
qed auto

lemma codes_between_sorted: "codes_between lo hi cs \<Longrightarrow> sorted_wrt (<) cs \<and> (\<forall>c\<in>set cs. lo \<le> c)"
  by (induction lo hi cs rule: codes_between.induct) auto

lemma map_filter_append: "List.map_filter f (xs @ ys) = List.map_filter f xs @ List.map_filter f ys"
  by (induction xs) (auto simp: List.map_filter_def)

lemma block_ok_append:
  "block_ok lo mid xs \<Longrightarrow> block_ok mid hi ys \<Longrightarrow> block_ok lo hi (xs @ ys)"
  by (auto simp: block_ok_def Let_def map_filter_append intro: codes_between_append)

lemma table_ok: "block_ok 1 702 key_table_lines"
  unfolding key_table_lines_def concat.simps append_Nil2
  by (rule block_ok_append | rule blocks_ok)+

lemma entries_checked:
  shows "sorted_wrt (<) (map ke_code key_entries)" and "\<forall>e\<in>set key_entries. entry_ok e"
  using table_ok codes_between_sorted
  by (auto simp: block_ok_def Let_def key_entries_def list_all_iff)

lemma aliases_checked: "list_all (\<lambda>a. name_ok (ka_code a) (ka_name a)) key_aliases"
  by code_simp

lemma entry_code_unique:
  assumes "e \<in> set key_entries" and "e' \<in> set key_entries" and "ke_code e = ke_code e'"
  shows "e = e'"
proof -
  have "distinct (map ke_code key_entries)"
    using entries_checked(1) by (simp add: strict_sorted_iff)
  with assms show ?thesis by (auto simp: distinct_map inj_on_def)
qed

lemma from_evdev_code_entry:
  assumes "e \<in> set key_entries"
  shows "from_evdev_code (ke_code e) = Some (entry_token e)"
proof -
  have "List.find (\<lambda>x. ke_code x = ke_code e) key_entries = Some e"
    using assms entry_code_unique by (intro find_unique) auto
  then show ?thesis by (simp add: from_evdev_code_def)
qed

lemma from_evdev_code_Some:
  "from_evdev_code c = Some t \<Longrightarrow> \<exists>e\<in>set key_entries. t = entry_token e \<and> ke_code e = c"
  by (auto simp: from_evdev_code_def dest!: find_Some_iff2)

lemma name_ok_lookup:
  "name_ok c n \<Longrightarrow> name_ok d m \<Longrightarrow> lookup_key n = lookup_key m \<Longrightarrow> c = d"
  by (simp add: name_ok_def)

lemma entry_matches_code:
  assumes "e \<in> set key_entries" and "entry_matches (lookup_key n) e" and "name_ok c n"
  shows "ke_code e = c"
proof -
  have "entry_ok e" using assms(1) entries_checked(2) by blast
  with assms(2,3) show ?thesis
    by (auto simp: entry_ok_def Let_def entry_matches_def entry_token_def dest: name_ok_lookup)
qed

lemma parse_key_token_code:
  assumes "name_ok c n" and "parse_key_token n \<noteq> None"
  shows "parse_key_token n = from_evdev_code c"
proof (cases "List.find (\<lambda>a. lookup_key (ka_name a) = lookup_key n) key_aliases")
  case (Some a)
  then have "a \<in> set key_aliases" and l: "lookup_key (ka_name a) = lookup_key n"
    by (auto dest!: find_Some_iff2)
  then have "name_ok (ka_code a) (ka_name a)" using aliases_checked by (auto simp: list_all_iff)
  with assms(1) l have "ka_code a = c" using name_ok_lookup by metis
  with Some show ?thesis by (simp add: parse_key_token_def)
next
  case None
  with assms(2) obtain e where e: "List.find (entry_matches (lookup_key n)) key_entries = Some e"
    by (auto simp: parse_key_token_def)
  then have "e \<in> set key_entries" and "entry_matches (lookup_key n) e"
    by (auto dest!: find_Some_iff2)
  with assms(1) have "ke_code e = c" by (auto intro: entry_matches_code)
  with None e show ?thesis
    using from_evdev_code_entry [OF \<open>e \<in> set key_entries\<close>] by (simp add: parse_key_token_def)
qed

lemma parse_key_token_entry:
  assumes "e \<in> set key_entries" and "n = canonical_name e \<or> n = ke_linux_name e"
  shows "parse_key_token n = Some (entry_token e)"
proof -
  have ok: "name_ok (ke_code e) n"
    using assms entries_checked(2) by (auto simp: entry_ok_def Let_def)
  have "parse_key_token n \<noteq> None"
  proof (cases "List.find (\<lambda>a. lookup_key (ka_name a) = lookup_key n) key_aliases")
    case (Some a)
    then have "a \<in> set key_aliases" and l: "lookup_key (ka_name a) = lookup_key n"
      by (auto dest!: find_Some_iff2)
    then have "name_ok (ka_code a) (ka_name a)" using aliases_checked by (auto simp: list_all_iff)
    with ok l have "ka_code a = ke_code e" using name_ok_lookup by metis
    with Some assms(1) show ?thesis by (simp add: parse_key_token_def from_evdev_code_entry)
  next
    case None
    from assms have "entry_matches (lookup_key n) e"
      by (auto simp: entry_matches_def entry_token_def)
    with assms(1) have "List.find (entry_matches (lookup_key n)) key_entries \<noteq> None"
      by (auto simp: find_None_iff)
    with None show ?thesis by (auto simp: parse_key_token_def)
  qed
  with ok assms(1) show ?thesis
    using parse_key_token_code from_evdev_code_entry by metis
qed

lemma parse_key_token_Some:
  assumes "parse_key_token n = Some t"
  shows "\<exists>e\<in>set key_entries. t = entry_token e"
proof (cases "List.find (\<lambda>a. lookup_key (ka_name a) = lookup_key n) key_aliases")
  case (Some a)
  with assms show ?thesis by (auto simp: parse_key_token_def dest: from_evdev_code_Some)
next
  case None
  with assms show ?thesis by (auto simp: parse_key_token_def dest!: find_Some_iff2)
qed

lemma lookup_key_trim [simp]: "lookup_key (trim n) = lookup_key n"
  by (simp add: lookup_key_def)

lemma parse_key_token_trim [simp]: "parse_key_token (trim n) = parse_key_token n"
  by (simp add: parse_key_token_def)

lemma key_token_parse_Ok_iff:
  "key_token_parse n = Inr t \<longleftrightarrow> trim n \<noteq> [] \<and> parse_key_token n = Some t"
  by (auto simp: key_token_parse_def Let_def split: option.splits)

lemma canonical_name_shape:
  assumes "e \<in> set key_entries"
  shows "canonical_name e \<noteq> []" and "trim (canonical_name e) = canonical_name e"
    and "canonical_name e = ''+'' \<or> CHR ''+'' \<notin> set (canonical_name e)"
  using assms entries_checked(2) by (auto simp: entry_ok_def Let_def name_shape_ok_def)

lemma parsed_name_shape:
  assumes "key_token_parse n = Inr t"
  shows "kt_name t \<noteq> []" and "trim (kt_name t) = kt_name t"
    and "kt_name t = ''+'' \<or> CHR ''+'' \<notin> set (kt_name t)"
  using assms canonical_name_shape parse_key_token_Some
  by (fastforce simp: key_token_parse_Ok_iff entry_token_def)+

text \<open>The name of a parsed key parses to the same key, and so does its code.\<close>

lemma parsed_name_reparses:
  assumes "key_token_parse n = Inr t"
  shows "key_token_parse (kt_name t) = Inr t"
proof -
  from assms obtain e where e: "e \<in> set key_entries" "t = entry_token e"
    by (auto simp: key_token_parse_Ok_iff dest: parse_key_token_Some)
  then show ?thesis
    using parse_key_token_entry [of e "canonical_name e"] canonical_name_shape [of e]
    by (simp add: key_token_parse_Ok_iff entry_token_def)
qed

lemma parsed_code_looks_up:
  assumes "key_token_parse n = Inr t"
  shows "from_evdev_code (kt_code t) = Some t"
proof -
  from assms obtain e where e: "e \<in> set key_entries" "t = entry_token e"
    by (auto simp: key_token_parse_Ok_iff dest: parse_key_token_Some)
  then show ?thesis using from_evdev_code_entry by (simp add: entry_token_def)
qed

lemma alias_parses:
  assumes "a \<in> set key_aliases"
  shows "parse_key_token (ka_name a) = from_evdev_code (ka_code a)"
proof -
  have "List.find (\<lambda>x. lookup_key (ka_name x) = lookup_key (ka_name a)) key_aliases \<noteq> None"
    using assms by (auto simp: find_None_iff)
  then obtain b where b: "List.find (\<lambda>x. lookup_key (ka_name x) = lookup_key (ka_name a)) key_aliases
      = Some b" by blast
  then have "b \<in> set key_aliases" and "lookup_key (ka_name b) = lookup_key (ka_name a)"
    by (auto dest!: find_Some_iff2)
  with assms have "ka_code b = ka_code a"
    using aliases_checked by (metis list_all_iff name_ok_lookup)
  with b show ?thesis by (simp add: parse_key_token_def)
qed

lemma key_code_bounds:
  assumes "from_evdev_code c = Some t"
  shows "kt_code t = c \<and> 1 \<le> c"
proof -
  obtain e where e: "e \<in> set key_entries" "t = entry_token e" "ke_code e = c"
    using assms by (auto dest: from_evdev_code_Some)
  have "\<forall>c\<in>set (map ke_code key_entries). 1 \<le> c"
    using table_ok codes_between_sorted by (auto simp: block_ok_def Let_def key_entries_def)
  with e show ?thesis by (auto simp: entry_token_def)
qed

end
