(* ===== verification/Hotkeys.thy ===== *)
theory Hotkeys imports KeyTable begin

text \<open>
  \<open>signal-auras-core/src/hotkey.rs\<close>: modifiers and modifier sets, hotkey identifiers, mouse
  triggers, binding triggers, registration ids and the cleanup report.
\<close>

section \<open>Modifiers\<close>

datatype modifier = Ctrl | Alt | Shift | Super

fun modifier_as_str :: "modifier \<Rightarrow> string" where
  "modifier_as_str Ctrl = ''Ctrl''"
| "modifier_as_str Alt = ''Alt''"
| "modifier_as_str Shift = ''Shift''"
| "modifier_as_str Super = ''Super''"

definition modifier_of_str :: "string \<Rightarrow> modifier option" where
  "modifier_of_str v =
     (if v = ''Ctrl'' then Some Ctrl else if v = ''Alt'' then Some Alt
      else if v = ''Shift'' then Some Shift else if v = ''Super'' then Some Super else None)"

definition modifier_parse :: "string \<Rightarrow> modifier result" where
  "modifier_parse value =
     (case modifier_of_str (trim value) of
        Some m \<Rightarrow> Ok m
      | None \<Rightarrow> Err (diagnosable_error_new ScriptValidation
          (''unsupported modifier '' @ [CHR 0x27] @ trim value @ [CHR 0x27])))"

fun modifier_rank :: "modifier \<Rightarrow> nat" where
  "modifier_rank Ctrl = 0"
| "modifier_rank Alt = 1"
| "modifier_rank Shift = 2"
| "modifier_rank Super = 3"

lemma modifier_rank_inj [simp]: "modifier_rank a = modifier_rank b \<longleftrightarrow> a = b"
  by (cases a; cases b) simp_all

instantiation modifier :: linorder
begin

definition less_eq_modifier :: "modifier \<Rightarrow> modifier \<Rightarrow> bool" where
  "less_eq_modifier a b = (modifier_rank a \<le> modifier_rank b)"

definition less_modifier :: "modifier \<Rightarrow> modifier \<Rightarrow> bool" where
  "less_modifier a b = (modifier_rank a < modifier_rank b)"

instance
  by standard (auto simp: less_eq_modifier_def less_modifier_def simp flip: modifier_rank_inj)

end

type_synonym modifier_set = "modifier list"

text \<open>\<open>ModifierSet::new\<close>: the loop over the modifiers with the list collected so far.\<close>

fun modifier_set_collect :: "modifier list \<Rightarrow> modifier list \<Rightarrow> modifier list result" where
  "modifier_set_collect acc [] = Ok acc"
| "modifier_set_collect acc (m # ms) =
     (if List.member acc m
      then Err (diagnosable_error_new ScriptValidation
             (''duplicate modifier '' @ [CHR 0x27] @ modifier_as_str m @ [CHR 0x27]))
      else modifier_set_collect (acc @ [m]) ms)"

definition modifier_set_new :: "modifier list \<Rightarrow> modifier_set result" where
  "modifier_set_new ms = rbind (modifier_set_collect [] ms) (\<lambda>n. Ok (sort n))"

definition modifier_set_parse :: "string list \<Rightarrow> modifier_set result" where
  "modifier_set_parse vs = rbind (collect_results modifier_parse vs) modifier_set_new"

definition modifier_set_describe :: "modifier_set \<Rightarrow> string" where
  "modifier_set_describe ms = join ''+'' (map modifier_as_str ms)"

lemma modifier_set_collect_Ok_iff:
  "distinct acc \<Longrightarrow> modifier_set_collect acc ms = Inr n \<longleftrightarrow> distinct (acc @ ms) \<and> n = acc @ ms"
proof (induction acc ms rule: modifier_set_collect.induct)
  case (2 acc m ms)
  then show ?case by (cases "m \<in> set acc") auto
qed auto

lemma modifier_set_new_Ok_iff:
  "modifier_set_new ms = Inr n \<longleftrightarrow> distinct ms \<and> n = sort ms"
  by (auto simp: modifier_set_new_def modifier_set_collect_Ok_iff)

lemma modifier_set_new_ok: "modifier_set_new ms = Inr n \<Longrightarrow> bs_ok n \<and> set n = set ms"
  by (simp add: modifier_set_new_Ok_iff bs_ok_iff)

lemma modifier_set_new_fix: "bs_ok n \<Longrightarrow> modifier_set_new n = Inr n"
  by (simp add: modifier_set_new_Ok_iff bs_ok_iff sorted_sort_id)

lemma modifier_of_str_as_str [simp]: "modifier_of_str (modifier_as_str m) = Some m"
  by (cases m) (simp_all add: modifier_of_str_def)

lemma modifier_of_str_Some: "modifier_of_str v = Some m \<longleftrightarrow> v = modifier_as_str m"
  by (cases m) (auto simp: modifier_of_str_def)

lemma trim_modifier [simp]: "trim (modifier_as_str m) = modifier_as_str m"
  by (cases m) (simp_all add: trim_def is_ws_def)

lemma modifier_as_str_inj [simp]: "modifier_as_str a = modifier_as_str b \<longleftrightarrow> a = b"
  by (cases a; cases b) simp_all

lemma modifier_parse_Ok_iff: "modifier_parse v = Inr m \<longleftrightarrow> trim v = modifier_as_str m"
  by (auto simp: modifier_parse_def modifier_of_str_Some split: option.splits)

lemma modifier_no_plus: "CHR ''+'' \<notin> set (modifier_as_str m)"
  by (cases m) auto

lemma modifier_as_str_nonempty [simp]: "modifier_as_str m \<noteq> []"
  by (cases m) auto

section \<open>Hotkey identifiers\<close>

text \<open>
  The loop of \<open>HotkeyId::parse\<close> over the parts: \<open>many\<close> says that there is more than one part,
  \<open>value\<close> is the trimmed input the messages quote, and the state holds the modifiers and the key
  seen so far.
\<close>

fun hotkey_parts ::
  "bool \<Rightarrow> string \<Rightarrow> modifier list \<Rightarrow> key_token option \<Rightarrow> string list
   \<Rightarrow> (modifier list \<times> key_token option) result" where
  "hotkey_parts many value ms key [] = Ok (ms, key)"
| "hotkey_parts many value ms key (part # parts) =
     (if part = [] then Err (diagnosable_error_new ScriptValidation
          (''unsupported hotkey '' @ [CHR 0x27] @ value @ [CHR 0x27]))
      else case (if many then modifier_parse part
                 else Err (diagnosable_error_new ScriptValidation [])) of
        Inr m \<Rightarrow> hotkey_parts many value (ms @ [m]) key parts
      | Inl _ \<Rightarrow>
         (case key_token_parse part of
            Inl e \<Rightarrow> Err e
          | Inr t \<Rightarrow>
             if key \<noteq> None
             then Err (diagnosable_error_new ScriptValidation
                    (''hotkey '' @ [CHR 0x27] @ value @ [CHR 0x27]
                     @ '' must contain exactly one non-modifier key''))
             else hotkey_parts many value ms (Some t) parts))"

type_synonym hotkey_id = string

definition hotkey_parse :: "string \<Rightarrow> hotkey_id result" where
  "hotkey_parse input =
     (let value = trim input
      in if value = []
         then Err (diagnosable_error_new ScriptValidation ''hotkey identifier cannot be empty'')
         else
           let parts = map trim (split_on (CHR ''+'') value)
           in rbind (hotkey_parts (1 < length parts) value [] None parts) (\<lambda>(ms, key).
                case key of
                  None \<Rightarrow> Err (diagnosable_error_new ScriptValidation
                    (''hotkey '' @ [CHR 0x27] @ value @ [CHR 0x27] @ '' must contain a key''))
                | Some t \<Rightarrow>
                    rbind (modifier_set_new ms) (\<lambda>mods.
                      let pre = modifier_set_describe mods
                      in if pre = [] then Ok (kt_name t) else Ok (pre @ ''+'' @ kt_name t))))"

text \<open>The rendering of a parsed hotkey: the sorted modifiers and the key's canonical name.\<close>

definition hotkey_render :: "modifier_set \<Rightarrow> string \<Rightarrow> hotkey_id" where
  "hotkey_render mods name =
     (if mods = [] then name else modifier_set_describe mods @ ''+'' @ name)"

lemma modifier_set_describe_Nil_iff [simp]: "modifier_set_describe mods = [] \<longleftrightarrow> mods = []"
  by (cases mods) (auto simp: modifier_set_describe_def join_eq_Nil)

lemma hotkey_parts_key:
  "hotkey_parts many v ms key parts = Inr (ms', Some t) \<Longrightarrow>
   key = Some t \<or> (\<exists>p\<in>set parts. key_token_parse p = Inr t)"
  by (induction many v ms key parts rule: hotkey_parts.induct)
    (auto split: if_splits sum.splits)

lemma hotkey_parse_form:
  assumes "hotkey_parse s = Inr h"
  shows "\<exists>mods t n. bs_ok mods \<and> key_token_parse n = Inr t \<and> h = hotkey_render mods (kt_name t)"
proof -
  from assms obtain ms t mods where
    parts: "hotkey_parts (1 < length (map trim (split_on (CHR ''+'') (trim s)))) (trim s) [] None
        (map trim (split_on (CHR ''+'') (trim s))) = Inr (ms, Some t)"
    and mods: "modifier_set_new ms = Inr mods" and h: "h = hotkey_render mods (kt_name t)"
    by (auto simp: hotkey_parse_def Let_def hotkey_render_def split: if_splits option.splits)
  from hotkey_parts_key [OF parts] obtain n where "key_token_parse n = Inr t" by auto
  with modifier_set_new_ok [OF mods] h show ?thesis by blast
qed

lemma hotkey_parts_modifiers:
  assumes "modifier_of_str (trim name) = None" and "key_token_parse name = Inr t" and "name \<noteq> []"
  shows "hotkey_parts True v acc None (map modifier_as_str mods @ [name]) = Inr (acc @ mods, Some t)"
proof (induction mods arbitrary: acc)
  case Nil
  with assms show ?case by (simp add: modifier_parse_def)
next
  case (Cons m mods)
  then show ?case by (simp add: modifier_parse_def)
qed

lemma join_snoc: "ws \<noteq> [] \<Longrightarrow> join d (ws @ [w]) = join d ws @ d @ w"
  by (induction d ws rule: join.induct) auto

lemma join_Cons: "ws \<noteq> [] \<Longrightarrow> join d (w # ws) = w @ d @ join d ws"
  by (cases ws) auto

lemma hotkey_render_reparses:
  assumes t: "key_token_parse n = Inr t" and mods: "bs_ok mods"
    and plus: "kt_name t \<noteq> ''+''" and key: "mods = [] \<or> modifier_of_str (kt_name t) = None"
  shows "hotkey_parse (hotkey_render mods (kt_name t)) = Inr (hotkey_render mods (kt_name t))"
proof -
  note shape = parsed_name_shape [OF t]
  have np: "CHR ''+'' \<notin> set (kt_name t)" using shape(3) plus by blast
  have reparse: "key_token_parse (kt_name t) = Inr t" using parsed_name_reparses [OF t] .
  show ?thesis
  proof (cases "mods = []")
    case True
    have "split_on (CHR ''+'') (kt_name t) = [kt_name t]"
      unfolding split_on_def using np by (intro split_when_none) auto
    with True shape reparse show ?thesis
      by (simp add: hotkey_parse_def hotkey_render_def modifier_set_new_Ok_iff
          modifier_set_new_fix)
  next
    case False
    let ?ws = "map modifier_as_str mods @ [kt_name t]"
    let ?s = "join ''+'' ?ws"
    have s: "hotkey_render mods (kt_name t) = ?s"
      using False by (simp add: hotkey_render_def modifier_set_describe_def join_snoc)
    have parts: "split_on (CHR ''+'') ?s = ?ws"
      using np modifier_no_plus by (intro split_on_join) auto
    obtain m ms where m: "mods = m # ms" using False by (cases mods) auto
    have cons: "?s = modifier_as_str m @ ''+'' @ join ''+'' (map modifier_as_str ms @ [kt_name t])"
      unfolding m by (simp add: join_Cons)
    then have hd: "hd ?s = hd (modifier_as_str m)" and ne: "?s \<noteq> []" by simp_all
    have last: "last ?s = last (kt_name t)"
      using False shape(1) by (simp add: join_snoc)
    have "\<not> is_ws (hd ?s)"
      unfolding hd by (cases m) (simp_all add: is_ws_def)
    moreover have "\<not> is_ws (last ?s)"
      unfolding last using shape(1,2) last_trim by metis
    ultimately have trim: "trim ?s = ?s" by (intro trim_id) simp
    have many: "1 < length ?ws" using False by (cases mods) auto
    have map: "map trim ?ws = ?ws" using shape(2) by simp
    from key False have "modifier_of_str (trim (kt_name t)) = None" using shape(2) by simp
    note loop = hotkey_parts_modifiers [OF this reparse shape(1)]
    have ms: "modifier_set_new mods = Inr mods" using mods by (rule modifier_set_new_fix)
    have "hotkey_parse ?s = Inr (modifier_set_describe mods @ ''+'' @ kt_name t)"
      unfolding hotkey_parse_def Let_def trim parts map
      using ne many False by (simp add: loop ms)
    then show ?thesis
      unfolding s using False by (simp add: modifier_set_describe_def join_snoc)
  qed
qed

section \<open>Mouse triggers\<close>

datatype mouse_button = Left | Right | Middle
datatype wheel_direction = Up | Down

fun mouse_button_as_str :: "mouse_button \<Rightarrow> string" where
  "mouse_button_as_str Left = ''left''"
| "mouse_button_as_str Right = ''right''"
| "mouse_button_as_str Middle = ''middle''"

definition mouse_button_parse :: "string \<Rightarrow> mouse_button result" where
  "mouse_button_parse value =
     (let v = trim value
      in if v = ''left'' then Ok Left else if v = ''right'' then Ok Right
         else if v = ''middle'' then Ok Middle
         else Err (diagnosable_error_new ScriptValidation
                (''unsupported mouse button '' @ [CHR 0x27] @ v @ [CHR 0x27])))"

fun wheel_as_str :: "wheel_direction \<Rightarrow> string" where
  "wheel_as_str Up = ''wheel_up''"
| "wheel_as_str Down = ''wheel_down''"

definition wheel_parse :: "string \<Rightarrow> wheel_direction result" where
  "wheel_parse value =
     (let v = trim value
      in if v = ''up'' then Ok Up else if v = ''down'' then Ok Down
         else Err (diagnosable_error_new ScriptValidation
                (''unsupported mouse wheel direction '' @ [CHR 0x27] @ v @ [CHR 0x27])))"

datatype mouse_trigger = Button mouse_button | Wheel wheel_direction

record composite_trigger =
  ct_modifiers :: modifier_set
  ct_primary :: mouse_trigger

definition composite_describe :: "composite_trigger \<Rightarrow> string" where
  "composite_describe t =
     (let primary = (case ct_primary t of
                       Button b \<Rightarrow> ''mouse_'' @ mouse_button_as_str b
                     | Wheel d \<Rightarrow> wheel_as_str d);
          modifiers = modifier_set_describe (ct_modifiers t)
      in if modifiers = [] then primary else modifiers @ ''+'' @ primary)"

datatype binding_trigger = Keyboard hotkey_id | Composite composite_trigger

definition is_keyboard :: "binding_trigger \<Rightarrow> bool" where
  "is_keyboard t = (case t of Keyboard _ \<Rightarrow> True | Composite _ \<Rightarrow> False)"

definition binding_trigger_describe :: "binding_trigger \<Rightarrow> string" where
  "binding_trigger_describe t =
     (case t of Keyboard h \<Rightarrow> h | Composite c \<Rightarrow> composite_describe c)"

section \<open>Registration and cleanup\<close>

type_synonym registration_id = string

datatype shortcut_registration_state =
    Pending | Registered | Rejected | Unregistering | Unregistered

record shortcut_registration_handle =
  srh_id :: registration_id

record cleanup_report =
  cr_attempted :: nat
  cr_succeeded :: nat
  cr_failed :: nat

definition cleanup_empty :: cleanup_report where
  "cleanup_empty = \<lparr>cr_attempted = 0, cr_succeeded = 0, cr_failed = 0\<rparr>"

definition cleanup_all_succeeded :: "nat \<Rightarrow> cleanup_report" where
  "cleanup_all_succeeded n = \<lparr>cr_attempted = n, cr_succeeded = n, cr_failed = 0\<rparr>"

definition cleanup_is_success :: "cleanup_report \<Rightarrow> bool" where
  "cleanup_is_success r = (cr_failed r = 0)"

end
