(* ===== verification/Macros.thy ===== *)
theory Macros imports Hotkeys begin

text \<open>
  \<open>signal-auras-core/src/macro_plan.rs\<close>: macro actions and their validation, the scheduler that
  admits one run per hotkey, the run state that is polled by the runtime, and the blocking
  execution of a plan. The lemmas compare the polled run with the blocking execution: the same
  actions in the same order, never earlier, and at the same instants when every poll comes at
  its deadline.
\<close>

section \<open>Actions\<close>

datatype macro_action =
    KeyPress string | KeyDown string | KeyUp string | TextInput string
  | MouseClick mouse_button | Delay nat

datatype synthesized_input_state = Pending | Emitted | Denied | Failed | Cancelled

record synthesized_input_request =
  si_action :: macro_action
  si_sequence :: nat
  si_state :: synthesized_input_state
  si_diagnostic :: "adapter_diagnostic option"

definition synthesized_input_request_new :: "macro_action \<Rightarrow> nat \<Rightarrow> synthesized_input_request" where
  "synthesized_input_request_new action seq =
     \<lparr>si_action = action, si_sequence = seq, si_state = Pending, si_diagnostic = None\<rparr>"

definition synthesized_input_denied ::
  "adapter_diagnostic \<Rightarrow> synthesized_input_request \<Rightarrow> synthesized_input_request" where
  "synthesized_input_denied d r = r\<lparr>si_state := Denied, si_diagnostic := Some d\<rparr>"

datatype input_emission = Emitted | Denied | Failed | Cancelled

definition parse_key_name :: "string \<Rightarrow> string \<Rightarrow> bool \<Rightarrow> string result" where
  "parse_key_name key empty_message allow_chord =
     (if allow_chord \<and> List.member key (CHR ''+'') then hotkey_parse key
      else case key_token_parse key of
        Inl e \<Rightarrow>
          Err (if er_message e = ''key name cannot be empty''
               then diagnosable_error_new ScriptValidation empty_message else e)
      | Inr t \<Rightarrow> Ok (kt_name t))"

definition macro_key :: "string \<Rightarrow> macro_action result" where
  "macro_key key =
     rbind (parse_key_name key ''key action requires a non-empty key'' True) (\<lambda>k. Ok (KeyPress k))"

definition macro_key_down :: "string \<Rightarrow> macro_action result" where
  "macro_key_down key =
     rbind (parse_key_name key ''key_down action requires a non-empty key'' False)
       (\<lambda>k. Ok (KeyDown k))"

definition macro_key_up :: "string \<Rightarrow> macro_action result" where
  "macro_key_up key =
     rbind (parse_key_name key ''key_up action requires a non-empty key'' False)
       (\<lambda>k. Ok (KeyUp k))"

definition macro_text :: "string \<Rightarrow> macro_action result" where
  "macro_text text =
     (if text = []
      then Err (diagnosable_error_new ScriptValidation ''text action requires non-empty text'')
      else Ok (TextInput text))"

definition macro_mouse_click :: "mouse_button \<Rightarrow> macro_action" where
  "macro_mouse_click b = MouseClick b"

definition macro_delay :: "nat \<Rightarrow> macro_action result" where
  "macro_delay ms =
     (if ms = 0
      then Err (diagnosable_error_new ScriptValidation ''delay must be 1 ms or greater'')
      else Ok (Delay ms))"

record macro_definition =
  md_actions :: "macro_action list"

definition macro_definition_new :: "macro_action list \<Rightarrow> macro_definition result" where
  "macro_definition_new actions =
     (if actions = []
      then Err (diagnosable_error_new ScriptValidation ''macro must contain at least one action'')
      else Ok \<lparr>md_actions = actions\<rparr>)"

section \<open>One run per hotkey\<close>

type_synonym macro_scheduler = "string list"

record macro_run_guard =
  mg_hotkey :: string

definition scheduler_begin ::
  "macro_scheduler \<Rightarrow> string \<Rightarrow> macro_scheduler \<times> macro_run_guard result" where
  "scheduler_begin running hotkey =
     (if List.member running hotkey
      then (running, Err (diagnosable_error_new Trigger
             (''macro for '' @ [CHR 0x27] @ hotkey @ [CHR 0x27] @ '' is already running'')))
      else (bs_insert hotkey running, Ok \<lparr>mg_hotkey = hotkey\<rparr>))"

definition scheduler_finish :: "macro_scheduler \<Rightarrow> macro_run_guard \<Rightarrow> macro_scheduler" where
  "scheduler_finish running guard = bs_remove (mg_hotkey guard) running"

definition scheduler_admit :: "string \<Rightarrow> macro_scheduler \<Rightarrow> macro_scheduler option" where
  "scheduler_admit hotkey running =
     (case scheduler_begin running hotkey of (s, Inr g) \<Rightarrow> Some s | (s, Inl e) \<Rightarrow> None)"

interpretation macro_scheduler: label_admission scheduler_admit
  "\<lambda>h s. scheduler_finish s \<lparr>mg_hotkey = h\<rparr>" set bs_ok
  by unfold_locales
    (auto simp: scheduler_admit_def scheduler_begin_def scheduler_finish_def split: if_splits)

section \<open>The polled run\<close>

datatype macro_run_poll =
    Ready synthesized_input_request | Pending duration | Complete | Cancelled

record macro_run_state =
  mr_id :: nat
  mr_actions :: "macro_action list"
  mr_next_action :: nat
  mr_generated_actions :: nat
  mr_inter_action_delay_ms :: nat
  mr_inter_action_delay_armed :: bool
  mr_ready_at :: instant
  mr_cancelled :: bool

definition macro_run_new ::
  "nat \<Rightarrow> macro_definition \<Rightarrow> nat \<Rightarrow> instant \<Rightarrow> macro_run_state" where
  "macro_run_new rid d inter_action_delay_ms ready_at =
     \<lparr>mr_id = rid, mr_actions = md_actions d, mr_next_action = 0, mr_generated_actions = 0,
      mr_inter_action_delay_ms = inter_action_delay_ms, mr_inter_action_delay_armed = True,
      mr_ready_at = ready_at, mr_cancelled = False\<rparr>"

definition macro_run_cancel :: "macro_run_state \<Rightarrow> macro_run_state" where
  "macro_run_cancel r = r\<lparr>mr_cancelled := True\<rparr>"

definition macro_run_next_deadline :: "macro_run_state \<Rightarrow> instant option" where
  "macro_run_next_deadline r =
     (if mr_cancelled r \<or> length (mr_actions r) \<le> mr_next_action r then None
      else Some (mr_ready_at r))"

definition is_delay :: "macro_action \<Rightarrow> bool" where
  "is_delay a = (case a of Delay _ \<Rightarrow> True | _ \<Rightarrow> False)"

definition macro_run_poll_at ::
  "macro_run_state \<Rightarrow> instant \<Rightarrow> macro_run_state \<times> macro_run_poll" where
  "macro_run_poll_at r now =
     (if mr_cancelled r then (r, Cancelled)
      else if length (mr_actions r) \<le> mr_next_action r then (r, Complete)
      else if now < mr_ready_at r then (r, Pending (mr_ready_at r - now))
      else
        let action = mr_actions r ! mr_next_action r;
            r1 = r\<lparr>mr_next_action := mr_next_action r + 1\<rparr>
        in case action of
             Delay ms \<Rightarrow> (r1\<lparr>mr_ready_at := now + from_millis ms\<rparr>, Pending (from_millis ms))
           | _ \<Rightarrow>
             if 0 < mr_generated_actions r1 \<and> 0 < mr_inter_action_delay_ms r1
                \<and> mr_inter_action_delay_armed r1
             then let delay = from_millis (mr_inter_action_delay_ms r1)
                  in (r1\<lparr>mr_next_action := mr_next_action r1 - 1, mr_ready_at := now + delay,
                         mr_inter_action_delay_armed := False\<rparr>, Pending delay)
             else (r1\<lparr>mr_generated_actions := mr_generated_actions r1 + 1,
                      mr_inter_action_delay_armed := True, mr_ready_at := now\<rparr>,
                   Ready (synthesized_input_request_new action (mr_generated_actions r1 + 1))))"

section \<open>The blocking execution\<close>

text \<open>
  The closure \<open>execute_action\<close> acts on the state \<open>'s\<close> of the world and may fail;
  \<open>thread::sleep\<close> is the parameter \<open>sleep\<close>.
\<close>

fun execute_actions ::
  "(duration \<Rightarrow> 's \<Rightarrow> 's) \<Rightarrow> (macro_action \<Rightarrow> 's \<Rightarrow> 's \<times> unit result) \<Rightarrow> nat \<Rightarrow> nat \<Rightarrow> macro_action list
   \<Rightarrow> 's \<Rightarrow> 's \<times> unit result" where
  "execute_actions sleep exec ia g [] w = (w, Ok ())"
| "execute_actions sleep exec ia g (a # as) w =
     (case a of
        Delay ms \<Rightarrow> execute_actions sleep exec ia g as (sleep (from_millis ms) w)
      | _ \<Rightarrow>
        let w1 = (if 0 < g \<and> 0 < ia then sleep (from_millis ia) w else w)
        in (case exec a w1 of
              (w2, Inl e) \<Rightarrow> (w2, Err e)
            | (w2, Inr _) \<Rightarrow> execute_actions sleep exec ia (g + 1) as w2))"

definition execute_plan_with_inter_action_delay where
  "execute_plan_with_inter_action_delay sleep d ia exec w =
     execute_actions sleep exec ia 0 (md_actions d) w"

definition execute_plan where
  "execute_plan sleep d exec w = execute_plan_with_inter_action_delay sleep d 0 exec w"

section \<open>The polled run against the blocking execution\<close>

text \<open>
  The instants at which the blocking execution that starts at \<open>t\<close>, with \<open>g\<close> actions executed
  before, hands each action to the executor.
\<close>

fun plan_trace :: "nat \<Rightarrow> nat \<Rightarrow> instant \<Rightarrow> macro_action list \<Rightarrow> (instant \<times> macro_action) list" where
  "plan_trace ia g t [] = []"
| "plan_trace ia g t (a # as) =
     (case a of
        Delay ms \<Rightarrow> plan_trace ia g (t + from_millis ms) as
      | _ \<Rightarrow> let t1 = (if 0 < g \<and> 0 < ia then t + from_millis ia else t)
             in (t1, a) # plan_trace ia (g + 1) t1 as)"

text \<open>A world that is a clock and the record of the executed actions.\<close>

type_synonym clock_world = "instant \<times> (instant \<times> macro_action) list"

fun clock_sleep :: "duration \<Rightarrow> clock_world \<Rightarrow> clock_world" where
  "clock_sleep d (t, tr) = (t + d, tr)"

fun clock_exec :: "macro_action \<Rightarrow> clock_world \<Rightarrow> clock_world \<times> unit result" where
  "clock_exec a (t, tr) = ((t, tr @ [(t, a)]), Ok ())"

lemma execute_actions_trace:
  "snd (execute_actions clock_sleep clock_exec ia g as (t, tr)) = Ok ()
   \<and> snd (fst (execute_actions clock_sleep clock_exec ia g as (t, tr))) = tr @ plan_trace ia g t as"
proof (induction as arbitrary: ia g t tr)
  case (Cons a as)
  show ?case
    by (cases a) (simp_all add: Let_def Cons.IH)
qed simp

lemma plan_trace_actions: "map snd (plan_trace ia g t as) = filter (\<lambda>a. \<not> is_delay a) as"
proof (induction as arbitrary: g t)
  case (Cons a as)
  then show ?case by (cases a) (auto simp: is_delay_def Let_def)
qed simp

text \<open>Polling a run at given instants, and at its own deadlines until there is none.\<close>

definition emitted_at :: "instant \<Rightarrow> macro_run_poll \<Rightarrow> (instant \<times> synthesized_input_request) list"
  where "emitted_at t p = (case p of Ready q \<Rightarrow> [(t, q)] | _ \<Rightarrow> [])"

fun run_polls ::
  "macro_run_state \<Rightarrow> instant list \<Rightarrow> macro_run_state \<times> (instant \<times> synthesized_input_request) list"
  where
  "run_polls r [] = (r, [])"
| "run_polls r (t # ts) =
     (case macro_run_poll_at r t of
        (r1, p) \<Rightarrow> (case run_polls r1 ts of (r2, em) \<Rightarrow> (r2, emitted_at t p @ em)))"

fun run_at_deadlines ::
  "nat \<Rightarrow> macro_run_state \<Rightarrow> (instant \<times> synthesized_input_request) list option" where
  "run_at_deadlines 0 r = None"
| "run_at_deadlines (Suc fuel) r =
     (case macro_run_next_deadline r of
        None \<Rightarrow> Some []
      | Some t \<Rightarrow>
          (case macro_run_poll_at r t of
             (r1, p) \<Rightarrow> map_option ((@) (emitted_at t p)) (run_at_deadlines fuel r1)))"

text \<open>
  The relation between a run and its plan: the emitted part of the plan, related instant by
  instant to the emissions, and the rest of the plan from an instant related to \<open>ready_at\<close>.
\<close>

definition follows_plan ::
  "(instant \<Rightarrow> instant \<Rightarrow> bool) \<Rightarrow> instant \<Rightarrow> macro_run_state
   \<Rightarrow> (instant \<times> synthesized_input_request) list \<Rightarrow> bool" where
  "follows_plan rel start r em \<longleftrightarrow>
     (\<exists>P T. plan_trace (mr_inter_action_delay_ms r) 0 start (mr_actions r)
              = P @ plan_trace (mr_inter_action_delay_ms r) (mr_generated_actions r) T
                      (drop (mr_next_action r) (mr_actions r))
        \<and> list_all2 (\<lambda>p e. rel (fst p) (fst e) \<and> snd p = si_action (snd e)) P em
        \<and> map (si_sequence \<circ> snd) em = [1..<Suc (mr_generated_actions r)]
        \<and> (if mr_inter_action_delay_armed r then rel T (mr_ready_at r)
           else rel (T + from_millis (mr_inter_action_delay_ms r)) (mr_ready_at r)
                \<and> 0 < mr_generated_actions r \<and> 0 < mr_inter_action_delay_ms r
                \<and> mr_next_action r < length (mr_actions r)
                \<and> \<not> is_delay (mr_actions r ! mr_next_action r)))"

lemma follows_plan_new: "rel t t \<Longrightarrow> follows_plan rel t (macro_run_new i d ia t) []"
  by (auto simp: follows_plan_def macro_run_new_def)

lemma plan_trace_delay [simp]:
  "plan_trace ia g t (Delay ms # as) = plan_trace ia g (t + from_millis ms) as"
  by simp

lemma plan_trace_action:
  "\<not> is_delay a \<Longrightarrow> plan_trace ia g t (a # as) =
     (if 0 < g \<and> 0 < ia then t + from_millis ia else t, a)
     # plan_trace ia (g + 1) (if 0 < g \<and> 0 < ia then t + from_millis ia else t) as"
  by (cases a) (auto simp: is_delay_def Let_def)

declare plan_trace.simps(2) [simp del]

text \<open>A poll of an action that is not a delay, with the two outcomes the source has.\<close>

lemma poll_action:
  assumes "\<not> mr_cancelled r" and "mr_next_action r < length (mr_actions r)"
    and "mr_ready_at r \<le> now" and "\<not> is_delay (mr_actions r ! mr_next_action r)"
  shows "macro_run_poll_at r now =
    (if 0 < mr_generated_actions r \<and> 0 < mr_inter_action_delay_ms r
        \<and> mr_inter_action_delay_armed r
     then (r\<lparr>mr_ready_at := now + from_millis (mr_inter_action_delay_ms r),
             mr_inter_action_delay_armed := False\<rparr>,
           Pending (from_millis (mr_inter_action_delay_ms r)))
     else (r\<lparr>mr_next_action := mr_next_action r + 1,
             mr_generated_actions := mr_generated_actions r + 1,
             mr_inter_action_delay_armed := True, mr_ready_at := now\<rparr>,
           Ready (synthesized_input_request_new (mr_actions r ! mr_next_action r)
                    (mr_generated_actions r + 1))))"
  using assms
  by (cases "mr_actions r ! mr_next_action r")
    (auto simp: macro_run_poll_at_def is_delay_def Let_def)

lemma poll_delay:
  assumes "\<not> mr_cancelled r" and "mr_next_action r < length (mr_actions r)"
    and "mr_ready_at r \<le> now" and "mr_actions r ! mr_next_action r = Delay ms"
  shows "macro_run_poll_at r now =
    (r\<lparr>mr_next_action := mr_next_action r + 1, mr_ready_at := now + from_millis ms\<rparr>,
     Pending (from_millis ms))"
  using assms by (auto simp: macro_run_poll_at_def Let_def)

lemma follows_plan_poll:
  assumes trans: "\<And>a b c. rel a b \<Longrightarrow> rel b c \<Longrightarrow> rel a c"
    and add: "\<And>a b c. rel a b \<Longrightarrow> rel (a + c) (b + c)"
    and now: "mr_ready_at r \<le> now \<Longrightarrow> rel (mr_ready_at r) now"
    and inv: "follows_plan rel start r em"
    and poll: "macro_run_poll_at r now = (r', p)"
  shows "follows_plan rel start r' (em @ emitted_at now p)"
proof (cases "mr_cancelled r \<or> length (mr_actions r) \<le> mr_next_action r \<or> now < mr_ready_at r")
  case True
  with poll have "r' = r" and "emitted_at now p = []"
    by (auto simp: macro_run_poll_at_def emitted_at_def split: if_splits)
  with inv show ?thesis by simp
next
  case False
  then have live: "\<not> mr_cancelled r" "mr_next_action r < length (mr_actions r)"
    and due: "mr_ready_at r \<le> now" by auto
  let ?n = "mr_next_action r" and ?as = "mr_actions r" and ?g = "mr_generated_actions r"
  let ?ia = "mr_inter_action_delay_ms r" and ?armed = "mr_inter_action_delay_armed r"
  obtain P T where plan: "plan_trace ?ia 0 start ?as = P @ plan_trace ?ia ?g T (drop ?n ?as)"
    and P: "list_all2 (\<lambda>p e. rel (fst p) (fst e) \<and> snd p = si_action (snd e)) P em"
    and seqs: "map (si_sequence \<circ> snd) em = [1..<Suc ?g]"
    and T: "if ?armed then rel T (mr_ready_at r)
      else rel (T + from_millis ?ia) (mr_ready_at r) \<and> 0 < ?g \<and> 0 < ?ia \<and> \<not> is_delay (?as ! ?n)"
    using inv by (fastforce simp: follows_plan_def split: if_splits)
  have split: "drop ?n ?as = ?as ! ?n # drop (Suc ?n) ?as"
    using live(2) by (simp add: Cons_nth_drop_Suc)
  show ?thesis
  proof (cases "is_delay (?as ! ?n)")
    case True
    then obtain ms where ms: "?as ! ?n = Delay ms" by (auto simp: is_delay_def split: macro_action.splits)
    have "plan_trace ?ia 0 start ?as = P @ plan_trace ?ia ?g (T + from_millis ms) (drop (Suc ?n) ?as)"
      using plan by (simp add: split ms)
    moreover have "?armed" using T True by presburger
    moreover from this T have "rel (T + from_millis ms) (now + from_millis ms)"
      using trans [OF _ now [OF due]] add by simp
    moreover have "r' = r\<lparr>mr_next_action := ?n + 1, mr_ready_at := now + from_millis ms\<rparr>"
      and "emitted_at now p = []"
      using poll poll_delay [OF live due ms] by (auto simp: emitted_at_def)
    ultimately show ?thesis
      using P seqs
      by (auto simp: follows_plan_def intro!: exI [of _ P] exI [of _ "T + from_millis ms"])
  next
    case False
    note eq = poll_action [OF live due False]
    show ?thesis
    proof (cases "0 < ?g \<and> 0 < ?ia \<and> ?armed")
      case True
      then have "rel (T + from_millis ?ia) (now + from_millis ?ia)"
        using T trans [OF _ now [OF due]] add by simp
      with True False poll eq plan P seqs live show ?thesis
        by (auto simp: follows_plan_def emitted_at_def intro!: exI [of _ P] exI [of _ T])
    next
      case False': False
      let ?t = "if 0 < ?g \<and> 0 < ?ia then T + from_millis ?ia else T"
      have "rel ?t (mr_ready_at r)" using T False' by (auto split: if_splits)
      then have t: "rel ?t now" using trans now [OF due] by blast
      have "plan_trace ?ia 0 start ?as
          = (P @ [(?t, ?as ! ?n)]) @ plan_trace ?ia (?g + 1) ?t (drop (Suc ?n) ?as)"
        using plan unfolding split by (simp add: plan_trace_action [OF False])
      moreover have "r' = r\<lparr>mr_next_action := ?n + 1, mr_generated_actions := ?g + 1,
            mr_inter_action_delay_armed := True, mr_ready_at := now\<rparr>"
        and "p = Ready (synthesized_input_request_new (?as ! ?n) (?g + 1))"
        using poll eq False' by auto
      ultimately show ?thesis
        using P seqs t
        by (auto simp: follows_plan_def emitted_at_def synthesized_input_request_new_def
            intro!: exI [of _ "P @ [(?t, ?as ! ?n)]"] exI [of _ ?t] list_all2_appendI)
    qed
  qed
qed

lemma follows_plan_run_polls:
  assumes "follows_plan (\<le>) start r em" and "run_polls r ts = (r', em')"
  shows "follows_plan (\<le>) start r' (em @ em')"
  using assms
proof (induction ts arbitrary: r em em')
  case (Cons t ts)
  obtain r1 p where p: "macro_run_poll_at r t = (r1, p)" by fastforce
  with Cons.prems(2) obtain em2 where em2: "run_polls r1 ts = (r', em2)" "em' = emitted_at t p @ em2"
    by (auto split: prod.splits)
  have "follows_plan (\<le>) start r1 (em @ emitted_at t p)"
    using Cons.prems(1) p by (intro follows_plan_poll) auto
  from Cons.IH [OF this em2(1)] em2(2) show ?case by simp
qed simp

lemma follows_plan_prefix:
  assumes "follows_plan rel start r em"
  defines "plan \<equiv> plan_trace (mr_inter_action_delay_ms r) 0 start (mr_actions r)"
  shows "map (si_action \<circ> snd) em = take (length em) (filter (\<lambda>a. \<not> is_delay a) (mr_actions r))"
    and "map (si_sequence \<circ> snd) em = [1..<Suc (length em)]"
    and "\<forall>k<length em. k < length plan \<and> rel (fst (plan ! k)) (fst (em ! k))"
proof -
  obtain P Q where PQ: "plan = P @ Q"
    and P: "list_all2 (\<lambda>p e. rel (fst p) (fst e) \<and> snd p = si_action (snd e)) P em"
    using assms unfolding follows_plan_def plan_def by blast
  have seqs: "map (si_sequence \<circ> snd) em = [1..<Suc (mr_generated_actions r)]"
    using assms(1) unfolding follows_plan_def by blast
  from P have len: "length P = length em" by (rule list_all2_lengthD)
  have g: "mr_generated_actions r = length em"
    using arg_cong [OF seqs, of length] by simp
  then show "map (si_sequence \<circ> snd) em = [1..<Suc (length em)]" using seqs by simp
  have "map snd P = map (si_action \<circ> snd) em"
    using P by (simp add: list_all2_conv_all_nth list_eq_iff_nth_eq)
  moreover have "map snd P = take (length em) (map snd plan)"
    using PQ len by simp
  ultimately show "map (si_action \<circ> snd) em
      = take (length em) (filter (\<lambda>a. \<not> is_delay a) (mr_actions r))"
    by (simp add: plan_def plan_trace_actions)
  show "\<forall>k<length em. k < length plan \<and> rel (fst (plan ! k)) (fst (em ! k))"
    using P PQ len by (auto simp: list_all2_conv_all_nth nth_append)
qed

lemma poll_keeps:
  assumes "macro_run_poll_at r now = (r', p)"
  shows "mr_actions r' = mr_actions r \<and> mr_inter_action_delay_ms r' = mr_inter_action_delay_ms r
    \<and> mr_cancelled r' = mr_cancelled r \<and> mr_id r' = mr_id r"
  using assms by (auto simp: macro_run_poll_at_def Let_def split: if_splits macro_action.splits)

lemma run_polls_keeps:
  "run_polls r ts = (r', em) \<Longrightarrow> mr_actions r' = mr_actions r
    \<and> mr_inter_action_delay_ms r' = mr_inter_action_delay_ms r"
proof (induction ts arbitrary: r em)
  case (Cons t ts)
  then show ?case by (auto split: prod.splits dest: poll_keeps)
qed simp

text \<open>The polls a run still needs: two per action, one less when the delay has been taken.\<close>

definition run_measure :: "macro_run_state \<Rightarrow> nat" where
  "run_measure r = 2 * (length (mr_actions r) - mr_next_action r)
     - (if mr_inter_action_delay_armed r then 0 else 1)"

lemma poll_measure:
  assumes "\<not> mr_cancelled r" and "mr_next_action r < length (mr_actions r)"
    and "mr_ready_at r \<le> now" and "macro_run_poll_at r now = (r', p)"
  shows "run_measure r' < run_measure r"
proof (cases "is_delay (mr_actions r ! mr_next_action r)")
  case True
  then obtain ms where "mr_actions r ! mr_next_action r = Delay ms"
    by (auto simp: is_delay_def split: macro_action.splits)
  from poll_delay [OF assms(1-3) this] assms show ?thesis by (auto simp: run_measure_def)
next
  case False
  from poll_action [OF assms(1-3) this] assms show ?thesis
    by (auto simp: run_measure_def split: if_splits)
qed

lemma run_at_deadlines_follows:
  assumes "follows_plan (=) start r em" and "\<not> mr_cancelled r" and "run_measure r < fuel"
    and "mr_next_action r \<le> length (mr_actions r)"
  shows "\<exists>em' r'. run_at_deadlines fuel r = Some em' \<and> follows_plan (=) start r' (em @ em')
    \<and> mr_next_action r' = length (mr_actions r) \<and> mr_actions r' = mr_actions r
    \<and> mr_inter_action_delay_ms r' = mr_inter_action_delay_ms r"
  using assms
proof (induction fuel arbitrary: r em)
  case (Suc fuel)
  show ?case
  proof (cases "mr_next_action r < length (mr_actions r)")
    case False
    then have "run_at_deadlines (Suc fuel) r = Some []"
      by (simp add: macro_run_next_deadline_def)
    moreover have "mr_next_action r = length (mr_actions r)" using False Suc.prems(4) by simp
    ultimately show ?thesis using Suc.prems(1)
      by (intro exI [of _ "[]"] exI [of _ r]) simp
  next
    case True
    let ?t = "mr_ready_at r"
    obtain r1 p where p: "macro_run_poll_at r ?t = (r1, p)" by fastforce
    have inv: "follows_plan (=) start r1 (em @ emitted_at ?t p)"
      using Suc.prems(1) p by (intro follows_plan_poll) auto
    note keeps = poll_keeps [OF p]
    have meas: "run_measure r1 < run_measure r"
      using poll_measure [OF Suc.prems(2) True _ p] by simp
    have le: "mr_next_action r1 \<le> length (mr_actions r1)"
      using p True by (auto simp: macro_run_poll_at_def Let_def
          split: if_splits macro_action.splits)
    from Suc.IH [OF inv _ _ le] keeps meas Suc.prems(2,3) obtain em' r' where
      "run_at_deadlines fuel r1 = Some em'" "follows_plan (=) start r' ((em @ emitted_at ?t p) @ em')"
      "mr_next_action r' = length (mr_actions r1)" "mr_actions r' = mr_actions r1"
      "mr_inter_action_delay_ms r' = mr_inter_action_delay_ms r1"
      by auto
    with keeps p True Suc.prems(2) show ?thesis
      by (auto simp: macro_run_next_deadline_def intro!: exI [of _ r'])
  qed
qed simp

lemma run_at_deadlines_new:
  assumes "2 * length (md_actions d) < fuel"
  shows "\<exists>em. run_at_deadlines fuel (macro_run_new i d ia t) = Some em
    \<and> map (\<lambda>e. (fst e, si_action (snd e))) em = plan_trace ia 0 t (md_actions d)
    \<and> map (si_sequence \<circ> snd) em = [1..<Suc (length em)]"
proof -
  let ?r = "macro_run_new i d ia t"
  have "follows_plan (=) t ?r []" by (rule follows_plan_new) simp
  from run_at_deadlines_follows [OF this, of fuel] assms obtain em r' where
    em: "run_at_deadlines fuel ?r = Some em" and inv: "follows_plan (=) t r' em"
    and r': "mr_next_action r' = length (md_actions d)" "mr_actions r' = md_actions d"
      "mr_inter_action_delay_ms r' = ia"
    by (auto simp: macro_run_new_def run_measure_def)
  from inv r' have "list_all2 (\<lambda>p e. fst p = fst e \<and> snd p = si_action (snd e))
      (plan_trace ia 0 t (md_actions d)) em"
    by (auto simp: follows_plan_def)
  then have "map (\<lambda>e. (fst e, si_action (snd e))) em = plan_trace ia 0 t (md_actions d)"
    by (auto simp: list_all2_conv_all_nth list_eq_iff_nth_eq prod_eq_iff)
  with em follows_plan_prefix(2) [OF inv] show ?thesis by blast
qed

text \<open>A cancelled run stays cancelled and emits nothing.\<close>

lemma cancelled_emits_nothing:
  "mr_cancelled r \<Longrightarrow> run_polls r ts = (r, [])"
  by (induction ts) (simp_all add: macro_run_poll_at_def emitted_at_def)

end
