(* ===== verification/Recognition.thy ===== *)
theory Recognition imports Motions begin

text \<open>
  What the motion runtime recognises. The history is the list of presses with their times, the
  last one at the end. The invariant relates the attempt in progress to the last presses of the
  history and every active loop to the held tokens; a recognised trigger is the last presses of
  the history, inside its time window, and a map without overlapping prefixes recognises every
  one of its motions.
\<close>

section \<open>Candidates\<close>

lemma is_satisfied_by_iff [simp]: "is_satisfied_by c held \<longleftrightarrow> set c \<subseteq> set held"
  by (auto simp: is_satisfied_by_def list_all_iff)

lemma requires_held_satisfied_iff [simp]:
  "requires_held_satisfied m held \<longleftrightarrow> set (mo_requires_held m) \<subseteq> set held"
  by (simp add: requires_held_satisfied_def)

lemma while_held_satisfied_iff [simp]:
  "while_held_satisfied rt ts \<longleftrightarrow> set ts \<subseteq> set (rt_held rt)"
  by (auto simp: while_held_satisfied_def list_all_iff)

lemma nth_token_iff: "nth_token t i = Some k \<longleftrightarrow> i < length t \<and> t ! i = k"
  by (simp add: nth_token_def)

lemma runtime_motion_cong [simp]:
  "runtime_motion (rt\<lparr>rt_held := h\<rparr>) = runtime_motion rt"
  "runtime_motion (rt\<lparr>rt_attempt := a\<rparr>) = runtime_motion rt"
  "runtime_motion (rt\<lparr>rt_loops := l\<rparr>) = runtime_motion rt"
  by (simp_all add: runtime_motion_def fun_eq_iff)

lemma set_next_candidates:
  "t \<in> set (next_candidates rt a token elapsed) \<longleftrightarrow>
     t \<in> set (at_candidates a) \<and> nth_token t (at_progress a) = Some token
     \<and> (\<exists>m. runtime_motion rt t = Some m \<and> elapsed \<le> from_millis (mo_within_ms m)
            \<and> set (mo_requires_held m) \<subseteq> set (rt_held rt))"
  by (auto simp: next_candidates_def split: option.splits)

lemma set_first_candidates:
  assumes "bm_ok (rt_motions rt)"
  shows "t \<in> set (first_candidates rt token) \<longleftrightarrow>
     nth_token t 0 = Some token
     \<and> (\<exists>m. runtime_motion rt t = Some m \<and> set (mo_requires_held m) \<subseteq> set (rt_held rt))"
  by (auto simp: first_candidates_def runtime_motion_def bm_get_Some_iff [OF assms] image_iff
      split: prod.splits)

lemma candidates_ok [simp]:
  "bs_ok (next_candidates rt a token elapsed)" "bs_ok (first_candidates rt token)"
  by (simp_all add: next_candidates_def first_candidates_def)

section \<open>The invariant\<close>

type_synonym history = "(motion_token \<times> duration) list"

definition loops_ok :: "motion_runtime \<Rightarrow> bool" where
  "loops_ok rt \<longleftrightarrow>
     (\<forall>t\<in>set (rt_loops rt). \<exists>m l. runtime_motion rt t = Some m \<and> mo_loop m = Some l
        \<and> set (ld_while_held l) \<subseteq> set (rt_held rt)
        \<and> set (mo_requires_held m) \<subseteq> set (rt_held rt))"

definition sets_ok :: "motion_runtime \<Rightarrow> bool" where
  "sets_ok rt \<longleftrightarrow> bm_ok (rt_motions rt) \<and> bs_ok (rt_held rt) \<and> bs_ok (rt_loops rt)"

text \<open>The last presses of the history are the first tokens of the trigger.\<close>

definition matches_suffix :: "history \<Rightarrow> nat \<Rightarrow> duration \<Rightarrow> motion_trigger \<Rightarrow> bool" where
  "matches_suffix h n start t \<longleftrightarrow>
     (\<exists>old new. h = old @ new \<and> length new = n \<and> map fst new = take n t
        \<and> (n \<noteq> 0 \<longrightarrow> snd (hd new) = start))"

definition attempt_ok :: "history \<Rightarrow> motion_runtime \<Rightarrow> motion_attempt \<Rightarrow> bool" where
  "attempt_ok h rt a \<longleftrightarrow>
     at_candidates a \<noteq> [] \<and> bs_ok (at_candidates a) \<and> 0 < at_progress a
     \<and> (\<forall>t\<in>set (at_candidates a).
          at_progress a < length t \<and> matches_suffix h (at_progress a) (at_started_at a) t
          \<and> (\<exists>m. runtime_motion rt t = Some m \<and> set (mo_requires_held m) \<subseteq> set (rt_held rt)))"

definition runtime_ok :: "history \<Rightarrow> motion_runtime \<Rightarrow> bool" where
  "runtime_ok h rt \<longleftrightarrow>
     sets_ok rt \<and> loops_ok rt \<and> (\<forall>a. rt_attempt rt = Some a \<longrightarrow> attempt_ok h rt a)"

text \<open>A recognised trigger: its tokens are the last presses, its window has not passed.\<close>

definition recognised :: "history \<Rightarrow> motion_runtime \<Rightarrow> motion_trigger \<Rightarrow> bool" where
  "recognised h rt t \<longleftrightarrow>
     (\<exists>m old new. runtime_motion rt t = Some m \<and> h = old @ new \<and> map fst new = t \<and> new \<noteq> []
        \<and> snd (last new) - snd (hd new) \<le> from_millis (mo_within_ms m)
        \<and> set (mo_requires_held m) \<subseteq> set (rt_held rt))"

lemma runtime_ok_new: "runtime_ok [] (motion_runtime_new ms)"
  by (simp add: runtime_ok_def sets_ok_def loops_ok_def motion_runtime_new_def)

lemma matches_suffix_one: "0 < length t \<Longrightarrow> t ! 0 = k \<Longrightarrow> matches_suffix (h @ [(k, s)]) 1 s t"
  unfolding matches_suffix_def
  by (intro exI [of _ h] exI [of _ "[(k, s)]"]) (cases t, auto)

lemma matches_suffix_step:
  assumes "matches_suffix h n start t" and "n < length t" and "t ! n = k" and "0 < n"
  shows "matches_suffix (h @ [(k, s)]) (Suc n) start t"
proof -
  obtain old new where "h = old @ new" "length new = n" "map fst new = take n t"
    "snd (hd new) = start"
    using assms unfolding matches_suffix_def by auto
  with assms show ?thesis
    unfolding matches_suffix_def
    by (intro exI [of _ old] exI [of _ "new @ [(k, s)]"])
      (cases new, auto simp: take_Suc_conv_app_nth)
qed

lemma matches_suffix_recognised:
  assumes "matches_suffix (h @ [(k, s)]) (length t) start t" and "t \<noteq> []"
    and "runtime_motion rt t = Some m" and "s - start \<le> from_millis (mo_within_ms m)"
    and "set (mo_requires_held m) \<subseteq> set (rt_held rt)"
  shows "recognised (h @ [(k, s)]) rt t"
proof -
  obtain old new where hn: "h @ [(k, s)] = old @ new" and len: "length new = length t"
    and m: "map fst new = t" and st: "snd (hd new) = start"
    using assms(1,2) unfolding matches_suffix_def by auto
  with assms(2) have ne: "new \<noteq> []" by auto
  then have "last new = (k, s)" using hn by (metis last_appendR last_snoc)
  with hn m st ne assms(3-5) show ?thesis unfolding recognised_def by fastforce
qed

section \<open>A press\<close>

text \<open>The result of completing a trigger of the runtime.\<close>

lemma complete_trigger_eq:
  assumes "runtime_motion rt t = Some m"
  shows "complete_trigger rt t events =
    (let b = (\<exists>l. mo_loop m = Some l \<and> set (ld_while_held l) \<subseteq> set (rt_held rt))
     in (if b then rt\<lparr>rt_loops := bs_insert t (rt_loops rt)\<rparr> else rt, events @ [Triggered t b]))"
  using assms by (auto simp: complete_trigger_def trigger_event_def Let_def split: option.splits)

lemma complete_trigger_ok:
  assumes "sets_ok rt" and "loops_ok rt" and "rt_attempt rt = None"
    and "runtime_motion rt t = Some m" and "set (mo_requires_held m) \<subseteq> set (rt_held rt)"
    and "complete_trigger rt t events = (rt', evs)"
  shows "runtime_ok h rt' \<and> rt_held rt' = rt_held rt \<and> rt_motions rt' = rt_motions rt
    \<and> (\<exists>b. evs = events @ [Triggered t b])"
  using assms
  by (auto simp: complete_trigger_eq runtime_ok_def sets_ok_def loops_ok_def Let_def
      split: if_splits)

text \<open>What a press gives: the invariant, and only recognised triggers beside discards.\<close>

definition press_result ::
  "history \<Rightarrow> motion_runtime \<Rightarrow> motion_runtime_event list \<Rightarrow> motion_runtime
   \<Rightarrow> motion_runtime_event list \<Rightarrow> bool" where
  "press_result h rt events rt' evs \<longleftrightarrow>
     runtime_ok h rt' \<and> rt_held rt' = rt_held rt \<and> rt_motions rt' = rt_motions rt
     \<and> (evs = events \<or> (\<exists>t b. evs = events @ [Triggered t b] \<and> recognised h rt' t
                            \<and> rt_attempt rt' = None))"

lemma recognised_cong:
  "rt_held rt' = rt_held rt \<Longrightarrow> rt_motions rt' = rt_motions rt \<Longrightarrow>
   recognised h rt' t \<longleftrightarrow> recognised h rt t"
  by (simp add: recognised_def runtime_motion_def)

lemma complete_trigger_keeps:
  "complete_trigger rt t events = (rt', evs) \<Longrightarrow> rt_attempt rt' = rt_attempt rt"
  by (auto simp: complete_trigger_def trigger_event_def Let_def split: option.splits if_splits)

lemma complete_trigger_result:
  assumes "sets_ok rt" and "loops_ok rt" and "rt_attempt rt = None"
    and "recognised h rt t" and "complete_trigger rt t events = (rt', evs)"
  shows "press_result h rt events rt' evs"
proof -
  obtain m where m: "runtime_motion rt t = Some m" "set (mo_requires_held m) \<subseteq> set (rt_held rt)"
    using assms(4) unfolding recognised_def by blast
  from complete_trigger_ok [OF assms(1-3) m assms(5), of h] complete_trigger_keeps [OF assms(5)]
  show ?thesis
    using assms(3,4) recognised_cong unfolding press_result_def by metis
qed

lemma start_attempt_result:
  assumes sets: "sets_ok rt" and loops: "loops_ok rt" and none: "rt_attempt rt = None"
    and res: "start_attempt rt k s events = (rt', evs)"
  shows "press_result (h @ [(k, s)]) rt events rt' evs"
proof (cases "first_candidates rt k = []")
  case True
  with assms show ?thesis by (auto simp: start_attempt_def press_result_def runtime_ok_def)
next
  case False
  note cand = set_first_candidates [of rt _ k]
  have mok: "bm_ok (rt_motions rt)" using sets by (simp add: sets_ok_def)
  show ?thesis
  proof (cases "List.find (\<lambda>t. length t = 1) (first_candidates rt k)")
    case (Some t)
    then have t: "t \<in> set (first_candidates rt k)" "length t = 1" by (auto dest: find_Some_iff2)
    with cand [OF mok] obtain m where m: "t ! 0 = k" "runtime_motion rt t = Some m"
      "set (mo_requires_held m) \<subseteq> set (rt_held rt)"
      by (auto simp: nth_token_iff)
    have "matches_suffix (h @ [(k, s)]) (length t) s t"
      using t(2) m(1) matches_suffix_one [of t k h s] by simp
    then have "recognised (h @ [(k, s)]) rt t"
      using t(2) m by (intro matches_suffix_recognised) auto
    moreover have "complete_trigger rt t events = (rt', evs)"
      using res False Some by (simp add: start_attempt_def)
    ultimately show ?thesis using complete_trigger_result sets loops none by blast
  next
    case None
    let ?a = "\<lparr>at_started_at = s, at_progress = 1, at_candidates = first_candidates rt k\<rparr>"
    have rt': "rt' = rt\<lparr>rt_attempt := Some ?a\<rparr>" "evs = events"
      using res False None by (auto simp: start_attempt_def)
    have "attempt_ok (h @ [(k, s)]) rt' ?a"
      unfolding attempt_ok_def rt'
    proof (simp add: False, intro ballI conjI)
      fix t assume t: "t \<in> set (first_candidates rt k)"
      with cand [OF mok] obtain m where m: "0 < length t" "t ! 0 = k" "runtime_motion rt t = Some m"
        "set (mo_requires_held m) \<subseteq> set (rt_held rt)"
        by (auto simp: nth_token_iff)
      have "length t \<noteq> 1" using None t by (auto simp: find_None_iff)
      with m(1) show "Suc 0 < length t" by linarith
      show "matches_suffix (h @ [(k, s)]) (Suc 0) s t"
        using matches_suffix_one [OF m(1,2)] by simp
      show "\<exists>m. runtime_motion rt t = Some m \<and> set (mo_requires_held m) \<subseteq> set (rt_held rt)"
        using m by blast
    qed
    with sets loops show ?thesis
      by (auto simp: press_result_def runtime_ok_def rt' sets_ok_def loops_ok_def)
  qed
qed

lemma handle_press_ok:
  assumes inv: "runtime_ok h rt" and res: "handle_press rt k s = (rt', evs)"
  shows "\<exists>ds. set ds \<subseteq> {MotionDiscarded Timeout, MotionDiscarded UnrelatedPress}
    \<and> press_result (h @ [(k, s)]) (rt\<lparr>rt_held := bs_insert k (rt_held rt)\<rparr>) ds rt' evs"
proof -
  let ?rt1 = "rt\<lparr>rt_held := bs_insert k (rt_held rt)\<rparr>"
  let ?none = "?rt1\<lparr>rt_attempt := None\<rparr>"
  have sets: "sets_ok ?rt1" and loops: "loops_ok ?rt1"
    using inv by (auto simp: runtime_ok_def sets_ok_def loops_ok_def) fastforce
  have sets': "sets_ok ?none" and loops': "loops_ok ?none"
    using sets loops by (auto simp: sets_ok_def loops_ok_def)
  have weaken: "press_result hh ?none ds rt' evs \<Longrightarrow> press_result hh ?rt1 ds rt' evs" for hh ds
    by (simp add: press_result_def)
  show ?thesis
  proof (cases "active_attempt_expired ?rt1 s \<or> rt_attempt rt = None")
    case True
    have same: "rt_attempt rt = None \<Longrightarrow> ?none = ?rt1" by (cases rt) simp
    have "start_attempt ?none k s [MotionDiscarded Timeout] = (rt', evs)"
      if "active_attempt_expired ?rt1 s"
      using that res by (simp add: handle_press_def Let_def)
    moreover have "start_attempt ?none k s [] = (rt', evs)" if "\<not> active_attempt_expired ?rt1 s"
    proof -
      from that True have n: "rt_attempt rt = None" by simp
      show ?thesis unfolding same [OF n] using that n res by (simp add: handle_press_def Let_def)
    qed
    ultimately have "\<exists>ds. set ds \<subseteq> {MotionDiscarded Timeout}
        \<and> start_attempt ?none k s ds = (rt', evs)"
      by (cases "active_attempt_expired ?rt1 s")
        (simp add: exI [of _ "[MotionDiscarded Timeout]"], simp add: exI [of _ "[]"])
    then obtain ds where ds: "set ds \<subseteq> {MotionDiscarded Timeout}"
      and st: "start_attempt ?none k s ds = (rt', evs)" by blast
    have "press_result (h @ [(k, s)]) ?rt1 ds rt' evs"
      using start_attempt_result [OF sets' loops' _ st] weaken by simp
    with ds show ?thesis by blast
  next
    case False
    then obtain a where a: "rt_attempt rt = Some a" by auto
    with inv have ok: "attempt_ok h rt a" by (simp add: runtime_ok_def)
    let ?el = "s - at_started_at a" and ?n = "at_progress a"
    let ?cs = "next_candidates ?rt1 a k ?el"
    show ?thesis
    proof (cases "?cs = []")
      case True
      then have "start_attempt ?none k s [MotionDiscarded UnrelatedPress] = (rt', evs)"
        using res False a by (simp add: handle_press_def Let_def)
      note st = this
      have "press_result (h @ [(k, s)]) ?rt1 [MotionDiscarded UnrelatedPress] rt' evs"
        using start_attempt_result [OF sets' loops' _ st] weaken by simp
      then show ?thesis by (intro exI [of _ "[MotionDiscarded UnrelatedPress]"]) simp
    next
      case nonempty: False
      have cand: "?n < length t \<and> matches_suffix (h @ [(k, s)]) (Suc ?n) (at_started_at a) t
        \<and> (\<exists>m. runtime_motion rt t = Some m \<and> ?el \<le> from_millis (mo_within_ms m)
               \<and> set (mo_requires_held m) \<subseteq> set (rt_held ?rt1))"
        if "t \<in> set ?cs" for t
      proof -
        from that have t: "t \<in> set (at_candidates a)" "?n < length t" "t ! ?n = k"
          and m: "\<exists>m. runtime_motion rt t = Some m \<and> ?el \<le> from_millis (mo_within_ms m)
               \<and> set (mo_requires_held m) \<subseteq> set (rt_held ?rt1)"
          by (auto simp: set_next_candidates nth_token_iff)
        from ok t(1) have "matches_suffix h ?n (at_started_at a) t" and "0 < ?n"
          by (auto simp: attempt_ok_def)
        with t m show ?thesis using matches_suffix_step by blast
      qed
      show ?thesis
      proof (cases "List.find (\<lambda>t. length t = ?n + 1) ?cs")
        case (Some t)
        then have t: "t \<in> set ?cs" "length t = Suc ?n" by (auto dest: find_Some_iff2)
        from cand [OF t(1)] obtain m where
          m: "runtime_motion rt t = Some m" "?el \<le> from_millis (mo_within_ms m)"
            "set (mo_requires_held m) \<subseteq> set (rt_held ?rt1)" by blast
        have "matches_suffix (h @ [(k, s)]) (length t) (at_started_at a) t"
          using cand [OF t(1)] t(2) by simp
        then have "recognised (h @ [(k, s)]) ?none t"
          using m t(2) by (intro matches_suffix_recognised) auto
        moreover have "complete_trigger ?none t [] = (rt', evs)"
          using res False a nonempty Some by (simp add: handle_press_def Let_def)
        ultimately have "press_result (h @ [(k, s)]) ?none [] rt' evs"
          using complete_trigger_result [OF sets' loops'] by simp
        then have "press_result (h @ [(k, s)]) ?rt1 [] rt' evs" by (rule weaken)
        then show ?thesis by (intro exI [of _ "[]"]) simp
      next
        case None
        let ?a1 = "a\<lparr>at_progress := ?n + 1, at_candidates := ?cs\<rparr>"
        have rt': "rt' = ?rt1\<lparr>rt_attempt := Some ?a1\<rparr>" "evs = []"
          using res False a nonempty None by (auto simp: handle_press_def Let_def)
        have "attempt_ok (h @ [(k, s)]) rt' ?a1"
          unfolding attempt_ok_def rt'
        proof (simp add: nonempty, intro ballI conjI)
          fix t assume t: "t \<in> set ?cs"
          have "length t \<noteq> Suc ?n" using None t by (auto simp: find_None_iff)
          with cand [OF t] show "Suc ?n < length t" by linarith
          from cand [OF t] show "matches_suffix (h @ [(k, s)]) (Suc ?n) (at_started_at a) t" by blast
          from cand [OF t] show "\<exists>m. runtime_motion rt t = Some m
              \<and> set (mo_requires_held m) \<subseteq> insert k (set (rt_held rt))" by auto
        qed
        with sets loops have "press_result (h @ [(k, s)]) ?rt1 [] rt' evs"
          by (simp add: press_result_def runtime_ok_def rt' sets_ok_def loops_ok_def)
        then show ?thesis by (intro exI [of _ "[]"]) simp
      qed
    qed
  qed
qed

section \<open>A release\<close>

lemma set_fold_bs_remove: "set (fold bs_remove ts xs) = set xs - set ts"
  by (induction ts arbitrary: xs) auto

lemma bs_ok_fold_bs_remove: "bs_ok xs \<Longrightarrow> bs_ok (fold bs_remove ts xs)"
  by (induction ts arbitrary: xs) auto

lemma handle_release_ok:
  assumes inv: "runtime_ok h rt" and res: "handle_release rt k = (rt', evs)"
  shows "runtime_ok h rt' \<and> rt_held rt' = bs_remove k (rt_held rt) \<and> rt_motions rt' = rt_motions rt
    \<and> (\<forall>t b. Triggered t b \<notin> set evs)
    \<and> (\<forall>t. LoopCancelled t \<in> set evs \<longleftrightarrow> t \<in> set (rt_loops rt) \<and> t \<notin> set (rt_loops rt'))"
proof -
  let ?rt1 = "rt\<lparr>rt_held := bs_remove k (rt_held rt)\<rparr>"
  let ?discard = "case rt_attempt rt of None \<Rightarrow> False
      | Some a \<Rightarrow> list_ex (\<lambda>t. case runtime_motion rt t of None \<Rightarrow> False
          | Some m \<Rightarrow> held_condition_contains (mo_requires_held m) k) (at_candidates a)"
  define gone where "gone = filter (\<lambda>t.
      (case runtime_motion rt t of None \<Rightarrow> False
       | Some m \<Rightarrow> (case mo_loop m of None \<Rightarrow> False
           | Some l \<Rightarrow> \<not> set (ld_while_held l) \<subseteq> set (rt_held rt) - {k}))
      \<or> (case runtime_motion rt t of None \<Rightarrow> False
         | Some m \<Rightarrow> \<not> set (mo_requires_held m) \<subseteq> set (rt_held rt) - {k})) (rt_loops rt)"
  have eq: "rt' = (if ?discard then ?rt1\<lparr>rt_attempt := None\<rparr> else ?rt1)
        \<lparr>rt_loops := fold bs_remove gone (rt_loops rt)\<rparr>"
    and ev: "evs = (if ?discard then [MotionDiscarded PreconditionReleased] else [])
        @ map LoopCancelled gone"
    using res unfolding handle_release_def gone_def
    by (auto simp: Let_def split: if_splits cong: filter_cong option.case_cong)
  have sub: "set gone \<subseteq> set (rt_loops rt)" by (auto simp: gone_def)
  have sets: "sets_ok rt'"
    using inv unfolding eq
    by (auto simp: runtime_ok_def sets_ok_def bs_ok_fold_bs_remove)
  have keep: "\<exists>m l. runtime_motion rt t = Some m \<and> mo_loop m = Some l
      \<and> set (ld_while_held l) \<subseteq> set (rt_held rt) - {k}
      \<and> set (mo_requires_held m) \<subseteq> set (rt_held rt) - {k}"
    if "t \<in> set (rt_loops rt)" "t \<notin> set gone" for t
    using inv that by (fastforce simp: runtime_ok_def loops_ok_def gone_def)
  then have loops: "loops_ok rt'"
    unfolding loops_ok_def eq by (auto simp: set_fold_bs_remove)
  have "attempt_ok h rt' a" if "rt_attempt rt' = Some a" for a
  proof -
    from that have d: "\<not> ?discard" and a: "rt_attempt rt = Some a"
      unfolding eq by (auto split: if_splits)
    with inv have ok: "attempt_ok h rt a" by (simp add: runtime_ok_def)
    have "\<exists>m. runtime_motion rt t = Some m \<and> set (mo_requires_held m) \<subseteq> set (rt_held rt) - {k}"
      if "t \<in> set (at_candidates a)" for t
      using ok d that unfolding a
      by (fastforce simp: attempt_ok_def list_ex_iff held_condition_contains_def)
    with ok d show ?thesis unfolding attempt_ok_def eq by auto
  qed
  with sets loops show ?thesis
    using sub unfolding eq ev by (auto simp: runtime_ok_def set_fold_bs_remove)
qed

section \<open>Runs\<close>

type_synonym timed_input = "motion_input_event \<times> duration"

definition press_of :: "timed_input \<Rightarrow> history" where
  "press_of i = (if me_state (fst i) = Pressed then [(me_token (fst i), snd i)] else [])"

definition history_of :: "timed_input list \<Rightarrow> history" where
  "history_of is = concat (map press_of is)"

definition runtime_step :: "motion_runtime \<Rightarrow> timed_input \<Rightarrow> motion_runtime" where
  "runtime_step rt i = fst (handle_input_at rt (fst i) (snd i))"

text \<open>The tokens pressed and not released since.\<close>

fun held_after :: "motion_token set \<Rightarrow> timed_input list \<Rightarrow> motion_token set" where
  "held_after S [] = S"
| "held_after S (i # is) =
     held_after (if me_state (fst i) = Pressed then insert (me_token (fst i)) S
                 else S - {me_token (fst i)}) is"

lemma handle_input_ok:
  assumes "runtime_ok h rt" and "handle_input_at rt (fst i) (snd i) = (rt', evs)"
  shows "runtime_ok (h @ press_of i) rt' \<and> rt_motions rt' = rt_motions rt
    \<and> set (rt_held rt') = (if me_state (fst i) = Pressed then insert (me_token (fst i)) (set (rt_held rt))
                        else set (rt_held rt) - {me_token (fst i)})
    \<and> (\<forall>t b. Triggered t b \<in> set evs \<longrightarrow> recognised (h @ press_of i) rt' t)"
proof (cases "me_state (fst i)")
  case Pressed
  with assms have press: "handle_press rt (me_token (fst i)) (snd i) = (rt', evs)"
    by (simp add: handle_input_at_def)
  have h: "h @ press_of i = h @ [(me_token (fst i), snd i)]" by (simp add: press_of_def Pressed)
  from handle_press_ok [OF assms(1) press] show ?thesis
    unfolding h by (auto simp: press_result_def Pressed)
next
  case Released
  with assms have release: "handle_release rt (me_token (fst i)) = (rt', evs)"
    by (simp add: handle_input_at_def)
  from handle_release_ok [OF assms(1) release] show ?thesis
    by (simp add: press_of_def Released)
qed

definition ghost_step :: "history \<times> motion_runtime \<Rightarrow> timed_input \<Rightarrow> history \<times> motion_runtime" where
  "ghost_step s i = (fst s @ press_of i, runtime_step (snd s) i)"

interpretation motion_machine: invariant_machine ghost_step "\<lambda>s. runtime_ok (fst s) (snd s)"
proof
  fix s and i :: timed_input
  assume "runtime_ok (fst s) (snd s)"
  then show "runtime_ok (fst (ghost_step s i)) (snd (ghost_step s i))"
    using handle_input_ok [of "fst s" "snd s" i]
    by (cases "handle_input_at (snd s) (fst i) (snd i)") (simp add: ghost_step_def runtime_step_def)
qed

lemma ghost_run: "foldl ghost_step (h, rt) is = (h @ history_of is, foldl runtime_step rt is)"
  by (induction "is" arbitrary: h rt) (simp_all add: ghost_step_def history_of_def)

lemma history_ok: "runtime_ok h rt \<Longrightarrow> runtime_ok (h @ history_of is) (foldl runtime_step rt is)"
  using motion_machine.run_ok [of "(h, rt)" "is"] by (simp add: ghost_run)

lemma run_held:
  "runtime_ok h rt \<Longrightarrow>
   set (rt_held (foldl runtime_step rt is)) = held_after (set (rt_held rt)) is
   \<and> rt_motions (foldl runtime_step rt is) = rt_motions rt"
proof (induction "is" arbitrary: h rt)
  case (Cons i "is")
  obtain rt' evs where res: "handle_input_at rt (fst i) (snd i) = (rt', evs)" by fastforce
  then have step: "runtime_step rt i = rt'" by (simp add: runtime_step_def)
  note ok = handle_input_ok [OF Cons.prems res]
  from Cons.IH [of "h @ press_of i" rt'] ok step show ?case by simp
qed simp

section \<open>Completeness\<close>

text \<open>No trigger of the map is a proper prefix of another.\<close>

definition prefix_free :: "motion_runtime \<Rightarrow> bool" where
  "prefix_free rt \<longleftrightarrow>
     (\<forall>t\<in>fst ` set (rt_motions rt). \<forall>u\<in>fst ` set (rt_motions rt). prefix t u \<longrightarrow> t = u)"

lemma prefix_freeD:
  assumes "prefix_free rt" and "runtime_motion rt t = Some m" and "runtime_motion rt u = Some m'"
    and "prefix t u"
  shows "t = u"
proof -
  have "(t, m) \<in> set (rt_motions rt)" and "(u, m') \<in> set (rt_motions rt)"
    using assms(2,3) unfolding runtime_motion_def by (auto dest: bm_get_SomeD)
  from this [THEN imageI, of fst]
  have t: "t \<in> fst ` set (rt_motions rt)" and u: "u \<in> fst ` set (rt_motions rt)" by simp_all
  show ?thesis
    by (rule assms(1) [unfolded prefix_free_def, THEN bspec, OF t, THEN bspec, OF u, THEN mp,
        OF assms(4)])
qed

lemma matches_suffix_unique:
  assumes "matches_suffix h n s t" and "matches_suffix h n s' u"
  shows "take n t = take n u"
proof -
  obtain old new where 1: "h = old @ new" "length new = n" "map fst new = take n t"
    using assms(1) unfolding matches_suffix_def by blast
  obtain old' new' where 2: "h = old' @ new'" "length new' = n" "map fst new' = take n u"
    using assms(2) unfolding matches_suffix_def by blast
  from 1 2 have "new = new'" by (metis append_eq_append_conv)
  with 1 2 show ?thesis by simp
qed

lemma candidates_agree:
  assumes "attempt_ok h rt a" and "t \<in> set (at_candidates a)" and "u \<in> set (at_candidates a)"
  shows "take (at_progress a) t = take (at_progress a) u"
  by (rule matches_suffix_unique) (use assms in \<open>auto simp: attempt_ok_def\<close>)

lemma find_only:
  assumes "t \<in> set ts" and "p t" and "\<And>u. u \<in> set ts \<Longrightarrow> p u \<Longrightarrow> u = t"
  shows "List.find p ts = Some t"
  using assms by (rule find_unique)

lemma complete_trigger_event:
  assumes "runtime_motion rt t = Some m"
  shows "\<exists>b. Triggered t b \<in> set (snd (complete_trigger rt t events))"
  using assms by (auto simp: complete_trigger_eq Let_def)

text \<open>The press of the first token, outside any attempt.\<close>

lemma first_press:
  assumes inv: "runtime_ok h rt" and none: "rt_attempt rt = None" and free: "prefix_free rt"
    and m: "runtime_motion rt t = Some m" and held: "set (mo_requires_held m) \<subseteq> set (rt_held rt)"
    and ne: "t \<noteq> []"
  shows "if length t = 1 then \<exists>b. Triggered t b \<in> set (snd (handle_press rt (t ! 0) s))
    else \<exists>cs. rt_attempt (fst (handle_press rt (t ! 0) s))
             = Some \<lparr>at_started_at = s, at_progress = 1, at_candidates = cs\<rparr> \<and> t \<in> set cs"
proof -
  let ?rt1 = "rt\<lparr>rt_held := bs_insert (t ! 0) (rt_held rt)\<rparr>"
  let ?cs = "first_candidates ?rt1 (t ! 0)"
  have eq: "handle_press rt (t ! 0) s = start_attempt ?rt1 (t ! 0) s []"
    using none by (simp add: handle_press_def active_attempt_expired_def Let_def)
  have ok: "bm_ok (rt_motions ?rt1)" using inv by (simp add: runtime_ok_def sets_ok_def)
  have t: "t \<in> set ?cs"
    using m held ne unfolding set_first_candidates [OF ok] by (auto simp: nth_token_iff)
  then have cs: "?cs \<noteq> []" by (cases ?cs) auto
  have short: "u = t" if "u \<in> set ?cs" "length u = 1" for u
  proof -
    from that(1) obtain m' where u: "u \<noteq> []" "u ! 0 = t ! 0" "runtime_motion rt u = Some m'"
      unfolding set_first_candidates [OF ok] by (auto simp: nth_token_iff)
    with that(2) ne have "prefix u t" by (cases u; cases t) auto
    then show ?thesis using prefix_freeD [OF free u(3) m] by blast
  qed
  show ?thesis
  proof (cases "length t = 1")
    case True
    then have "List.find (\<lambda>u. length u = 1) ?cs = Some t" using t short by (intro find_only) auto
    with cs eq have "handle_press rt (t ! 0) s = complete_trigger ?rt1 t []"
      by (simp add: start_attempt_def)
    with complete_trigger_event [of ?rt1 t m "[]"] m True show ?thesis by simp
  next
    case False
    then have "List.find (\<lambda>u. length u = 1) ?cs = None" using short by (auto simp: find_None_iff)
    with cs eq t False show ?thesis by (simp add: start_attempt_def)
  qed
qed

text \<open>The press of the next token of an attempt that has the motion among its candidates.\<close>

lemma next_press:
  assumes inv: "runtime_ok h rt" and a: "rt_attempt rt = Some a" and free: "prefix_free rt"
    and m: "runtime_motion rt t = Some m" and t: "t \<in> set (at_candidates a)"
    and time: "s - at_started_at a \<le> from_millis (mo_within_ms m)"
  shows "if length t = Suc (at_progress a)
    then \<exists>b. Triggered t b \<in> set (snd (handle_press rt (t ! at_progress a) s))
    else \<exists>cs. rt_attempt (fst (handle_press rt (t ! at_progress a) s))
             = Some (a\<lparr>at_progress := Suc (at_progress a), at_candidates := cs\<rparr>) \<and> t \<in> set cs"
proof -
  let ?n = "at_progress a" let ?k = "t ! ?n"
  let ?rt1 = "rt\<lparr>rt_held := bs_insert ?k (rt_held rt)\<rparr>"
  let ?cs = "next_candidates ?rt1 a ?k (s - at_started_at a)"
  have ok: "attempt_ok h rt a" using inv a by (simp add: runtime_ok_def)
  with t obtain m' where "?n < length t" "runtime_motion rt t = Some m'"
    "set (mo_requires_held m') \<subseteq> set (rt_held rt)"
    unfolding attempt_ok_def by blast
  with m have n: "?n < length t" and held: "set (mo_requires_held m) \<subseteq> set (rt_held rt)"
    by simp_all
  have live: "\<not> active_attempt_expired ?rt1 s"
    using t m time a by (auto simp: active_attempt_expired_def Let_def list_all_iff intro!: bexI [of _ t])
  have tc: "t \<in> set ?cs"
    using t m n held time by (auto simp: set_next_candidates nth_token_iff)
  then have cs: "?cs \<noteq> []" by (cases ?cs) auto
  have short: "u = t" if u: "u \<in> set ?cs" "length u = Suc ?n" for u
  proof -
    from u(1) obtain m' where m': "u \<in> set (at_candidates a)" "u ! ?n = ?k"
      "runtime_motion rt u = Some m'"
      by (auto simp: set_next_candidates nth_token_iff)
    have "take (Suc ?n) u = take ?n u @ [u ! ?n]" "take (Suc ?n) t = take ?n t @ [t ! ?n]"
      using u(2) n by (intro take_Suc_conv_app_nth, simp)+
    then have "take (Suc ?n) u = take (Suc ?n) t"
      using candidates_agree [OF ok m'(1) t] m'(2) by simp
    with u(2) have "u = take (Suc ?n) t" by simp
    then have "prefix u t" by (simp add: take_is_prefix)
    then show ?thesis using prefix_freeD [OF free m'(3) m] by blast
  qed
  show ?thesis
  proof (cases "length t = Suc ?n")
    case True
    then have "List.find (\<lambda>u. length u = Suc ?n) ?cs = Some t" using tc short by (intro find_only) auto
    with cs live a have "handle_press rt ?k s = complete_trigger (?rt1\<lparr>rt_attempt := None\<rparr>) t []"
      by (simp add: handle_press_def Let_def)
    with complete_trigger_event [of "?rt1\<lparr>rt_attempt := None\<rparr>" t m "[]"] m True show ?thesis by simp
  next
    case False
    then have "List.find (\<lambda>u. length u = Suc ?n) ?cs = None" using short by (auto simp: find_None_iff)
    with cs live a have "rt_attempt (fst (handle_press rt ?k s))
        = Some (a\<lparr>at_progress := Suc ?n, at_candidates := ?cs\<rparr>)"
      by (simp add: handle_press_def Let_def)
    with tc show ?thesis unfolding if_not_P [OF False] by blast
  qed
qed

text \<open>Releases of tokens that no motion requires to be held.\<close>

definition harmless :: "motion_runtime \<Rightarrow> timed_input \<Rightarrow> bool" where
  "harmless rt i \<longleftrightarrow> me_state (fst i) = Pressed
     \<or> (\<forall>m\<in>snd ` set (rt_motions rt). me_token (fst i) \<notin> set (mo_requires_held m))"

lemma harmless_release:
  assumes "harmless rt i" and "me_state (fst i) = Released"
  shows "rt_attempt (runtime_step rt i) = rt_attempt rt"
proof -
  have "\<not> held_condition_contains (mo_requires_held m) (me_token (fst i))"
    if "runtime_motion rt t = Some m" for t m
    using that assms bm_get_SomeD
    unfolding harmless_def runtime_motion_def held_condition_contains_def by force
  then have "\<not> list_ex (\<lambda>t. case runtime_motion rt t of None \<Rightarrow> False
      | Some m \<Rightarrow> held_condition_contains (mo_requires_held m) (me_token (fst i))) ts" for ts
    by (auto simp: list_ex_iff split: option.splits)
  with assms(2) show ?thesis
    by (auto simp: runtime_step_def handle_input_at_def handle_release_def Let_def split: option.splits)
qed

lemma run_keeps_held:
  assumes "runtime_ok h rt" and "runtime_motion rt t = Some m"
    and "set (mo_requires_held m) \<subseteq> set (rt_held rt)" and "\<forall>i\<in>set is. harmless rt i"
  shows "set (mo_requires_held m) \<subseteq> set (rt_held (foldl runtime_step rt is))"
proof -
  have "m \<in> snd ` set (rt_motions rt)"
    using assms(2) bm_get_SomeD unfolding runtime_motion_def by (metis image_eqI snd_conv)
  with assms(4) have rel: "me_token (fst i) \<notin> set (mo_requires_held m)"
    if "i \<in> set is" "me_state (fst i) \<noteq> Pressed" for i
    using that unfolding harmless_def by blast
  have "R \<subseteq> held_after S is" if "R \<subseteq> S"
    and "\<forall>i\<in>set is. me_state (fst i) \<noteq> Pressed \<longrightarrow> me_token (fst i) \<notin> R" for R S
    using that
  proof (induction "is" arbitrary: S)
    case (Cons i "is")
    then have "R \<subseteq> (if me_state (fst i) = Pressed then insert (me_token (fst i)) S
        else S - {me_token (fst i)})" by auto
    with Cons show ?case by simp
  qed simp
  with rel assms(3) run_held [OF assms(1), of "is"] show ?thesis by simp
qed

lemma attempt_progress:
  assumes inv: "runtime_ok h rt" and none: "rt_attempt rt = None" and free: "prefix_free rt"
    and m: "runtime_motion rt t = Some m" and held: "set (mo_requires_held m) \<subseteq> set (rt_held rt)"
  shows "\<forall>i\<in>set is. harmless rt i \<Longrightarrow>
    map fst (history_of is) = take (length (history_of is)) t \<Longrightarrow>
    length (history_of is) < length t \<Longrightarrow>
    \<forall>p\<in>set (history_of is). snd p - snd (hd (history_of is)) \<le> from_millis (mo_within_ms m) \<Longrightarrow>
    if history_of is = [] then rt_attempt (foldl runtime_step rt is) = None
    else \<exists>cs. rt_attempt (foldl runtime_step rt is)
        = Some \<lparr>at_started_at = snd (hd (history_of is)), at_progress = length (history_of is),
                at_candidates = cs\<rparr> \<and> t \<in> set cs"
proof (induction "is" rule: rev_induct)
  case Nil
  then show ?case using none by (simp add: history_of_def)
next
  case (snoc i "is")
  let ?rt = "foldl runtime_step rt is" and ?H = "history_of is"
  have ok: "runtime_ok (h @ ?H) ?rt" using history_ok [OF inv] .
  have mot: "rt_motions ?rt = rt_motions rt" using run_held [OF inv] by simp
  then have m': "runtime_motion ?rt t = Some m" and free': "prefix_free ?rt"
    using m free by (simp_all add: runtime_motion_def prefix_free_def)
  have harm: "harmless ?rt i" using snoc.prems(1) mot by (simp add: harmless_def)
  have hist: "history_of (is @ [i]) = ?H @ press_of i" by (simp add: history_of_def)
  show ?case
  proof (cases "me_state (fst i)")
    case Released
    then have same: "history_of (is @ [i]) = ?H" by (simp add: hist press_of_def)
    have "rt_attempt (foldl runtime_step rt (is @ [i])) = rt_attempt ?rt"
      using harmless_release [OF harm Released] by simp
    with snoc show ?thesis unfolding same by simp
  next
    case Pressed
    let ?k = "me_token (fst i)" and ?s = "snd i"
    have H: "history_of (is @ [i]) = ?H @ [(?k, ?s)]" by (simp add: hist press_of_def Pressed)
    have step: "foldl runtime_step rt (is @ [i]) = fst (handle_press ?rt ?k ?s)"
      by (simp add: runtime_step_def handle_input_at_def Pressed)
    have len: "Suc (length ?H) < length t" using snoc.prems(3) H by simp
    have tk: "take (Suc (length ?H)) t = take (length ?H) t @ [t ! length ?H]"
      using len by (intro take_Suc_conv_app_nth) simp
    with snoc.prems(2) H have pre: "map fst ?H = take (length ?H) t" and k: "?k = t ! length ?H"
      by simp_all
    have IH: "if ?H = [] then rt_attempt ?rt = None
      else \<exists>cs. rt_attempt ?rt = Some \<lparr>at_started_at = snd (hd ?H), at_progress = length ?H,
          at_candidates = cs\<rparr> \<and> t \<in> set cs"
      using snoc.prems pre len H by (intro snoc.IH) (auto simp: hd_append split: if_splits)
    show ?thesis
    proof (cases "?H = []")
      case True
      have held': "set (mo_requires_held m) \<subseteq> set (rt_held ?rt)"
        using snoc.prems(1) by (intro run_keeps_held [OF inv m held]) simp
      have "t \<noteq> []" using len by auto
      moreover have "rt_attempt ?rt = None" using IH True by simp
      ultimately show ?thesis
        using first_press [OF ok _ free' m' held', of ?s] len k
        unfolding step H by (simp add: True)
    next
      case False
      with IH obtain cs where a: "rt_attempt ?rt = Some \<lparr>at_started_at = snd (hd ?H),
          at_progress = length ?H, at_candidates = cs\<rparr>" and t: "t \<in> set cs" by auto
      have "?s - snd (hd ?H) \<le> from_millis (mo_within_ms m)"
        using snoc.prems(4) H False by simp
      with next_press [OF ok a free' m', of ?s] t len k False show ?thesis
        unfolding step H by simp
    qed
  qed
qed

text \<open>
  A motion whose tokens are pressed in order inside its window is recognised by the press of its
  last token, whatever harmless releases come in between.
\<close>

lemma motion_recognised:
  assumes inv: "runtime_ok h rt" and none: "rt_attempt rt = None" and free: "prefix_free rt"
    and m: "runtime_motion rt t = Some m" and held: "set (mo_requires_held m) \<subseteq> set (rt_held rt)"
    and harm: "\<forall>i\<in>set is. harmless rt i"
    and tokens: "map fst (history_of is @ [(k, s)]) = t"
    and times: "\<forall>p\<in>set (history_of is @ [(k, s)]).
      snd p - snd (hd (history_of is @ [(k, s)])) \<le> from_millis (mo_within_ms m)"
  shows "\<exists>b. Triggered t b \<in> set (snd (handle_press (foldl runtime_step rt is) k s))"
proof -
  let ?rt = "foldl runtime_step rt is" and ?H = "history_of is"
  have ok: "runtime_ok (h @ ?H) ?rt" using history_ok [OF inv] .
  have mot: "rt_motions ?rt = rt_motions rt" using run_held [OF inv] by simp
  then have m': "runtime_motion ?rt t = Some m" and free': "prefix_free ?rt"
    using m free by (simp_all add: runtime_motion_def prefix_free_def)
  have len: "length t = Suc (length ?H)" using tokens by auto
  have k: "k = t ! length ?H" using tokens by (auto simp: nth_append)
  have prog: "if ?H = [] then rt_attempt ?rt = None
    else \<exists>cs. rt_attempt ?rt = Some \<lparr>at_started_at = snd (hd ?H), at_progress = length ?H,
        at_candidates = cs\<rparr> \<and> t \<in> set cs"
    using tokens times len
    by (intro attempt_progress [OF inv none free m held harm]) (auto simp: hd_append split: if_splits)
  show ?thesis
  proof (cases "?H = []")
    case True
    have held': "set (mo_requires_held m) \<subseteq> set (rt_held ?rt)"
      using run_keeps_held [OF inv m held harm] .
    have "t \<noteq> []" using len by auto
    with first_press [OF ok _ free' m' held', of s] prog True len k show ?thesis by simp
  next
    case False
    with prog obtain cs where a: "rt_attempt ?rt = Some \<lparr>at_started_at = snd (hd ?H),
        at_progress = length ?H, at_candidates = cs\<rparr>" and t: "t \<in> set cs" by auto
    have "s - snd (hd ?H) \<le> from_millis (mo_within_ms m)" using times False by simp
    with next_press [OF ok a free' m', of s] t len k show ?thesis by simp
  qed
qed

end
