(* ===== verification/Scopes.thy ===== *)
theory Scopes imports Errors begin

text \<open>
  \<open>signal-auras-core/src/scope.rs\<close> and \<open>consent.rs\<close>: process scopes, the freshness of the
  active-process metadata, and the decision whether a trigger may act. Every read of
  \<open>Instant::now()\<close> is a parameter. The lemmas show that the decision fails closed: outside the
  explicit global scope only a fresh, matchable process of the list is allowed.
\<close>

section \<open>Names and selections\<close>

type_synonym process_name = string

definition process_name_parse :: "string \<Rightarrow> process_name result" where
  "process_name_parse input =
     (let value = trim input
      in if value = [] \<or> list_ex is_control value
         then Err (diagnosable_error_new ScriptValidation
                ''process name must be a non-empty printable string'')
         else Ok value)"

datatype script_scope = Processes "process_name list"

definition script_scope_processes :: "process_name list \<Rightarrow> script_scope result" where
  "script_scope_processes values =
     (if values = []
      then Err (diagnosable_error_new ScriptValidation
             ''scope.processes must contain at least one process'')
      else Ok (Processes values))"

datatype scope_selection = ProcessList "process_name list" | ExplicitGlobal

datatype scope_denial_kind =
    StaleFocus | FocusUnavailable | FocusPermissionDenied | AmbiguousFocus
  | UntrustedFocusTimestamp | ProcessMismatch

fun denial_kind_as_str :: "scope_denial_kind \<Rightarrow> string" where
  "denial_kind_as_str StaleFocus = ''stale_focus''"
| "denial_kind_as_str FocusUnavailable = ''focus_unavailable''"
| "denial_kind_as_str FocusPermissionDenied = ''focus_permission_denied''"
| "denial_kind_as_str AmbiguousFocus = ''ambiguous_focus''"
| "denial_kind_as_str UntrustedFocusTimestamp = ''untrusted_focus_timestamp''"
| "denial_kind_as_str ProcessMismatch = ''process_mismatch''"

definition kind_counts_as_metadata_unavailable :: "scope_denial_kind \<Rightarrow> bool" where
  "kind_counts_as_metadata_unavailable k =
     List.member [StaleFocus, FocusUnavailable, FocusPermissionDenied, AmbiguousFocus,
       UntrustedFocusTimestamp] k"

record scope_denial =
  sd_kind :: scope_denial_kind
  sd_rule :: string
  sd_metadata_age :: "duration option"
  sd_stale_threshold :: "duration option"

definition scope_denial_new :: "scope_denial_kind \<Rightarrow> string \<Rightarrow> scope_denial" where
  "scope_denial_new kind rule =
     \<lparr>sd_kind = kind, sd_rule = rule, sd_metadata_age = None, sd_stale_threshold = None\<rparr>"

definition with_freshness :: "duration option \<Rightarrow> duration \<Rightarrow> scope_denial \<Rightarrow> scope_denial" where
  "with_freshness age threshold d =
     d\<lparr>sd_metadata_age := age, sd_stale_threshold := Some threshold\<rparr>"

definition counts_as_metadata_unavailable :: "scope_denial \<Rightarrow> bool" where
  "counts_as_metadata_unavailable d = kind_counts_as_metadata_unavailable (sd_kind d)"

definition sanitize_diagnostic_value :: "string \<Rightarrow> string" where
  "sanitize_diagnostic_value value = map (\<lambda>c. if is_ascii_graphic c then c else CHR ''_'') value"

definition render_fields :: "scope_denial \<Rightarrow> string" where
  "render_fields d =
     ''denial_reason='' @ denial_kind_as_str (sd_kind d)
     @ '' configured_rule='' @ sanitize_diagnostic_value (sd_rule d)
     @ (case sd_metadata_age d of None \<Rightarrow> []
        | Some age \<Rightarrow> '' metadata_age_ms='' @ show_nat (as_millis age))
     @ (case sd_stale_threshold d of None \<Rightarrow> []
        | Some th \<Rightarrow> '' stale_threshold_ms='' @ show_nat (as_millis th))"

datatype scope_decision = Allowed | Denied string scope_denial

datatype scoped_focus_reason =
    Active | ProcessMismatch | StaleFocus | FocusUnavailable | FocusPermissionDenied
  | AmbiguousFocus | UntrustedFocusTimestamp

fun focus_reason_as_str :: "scoped_focus_reason \<Rightarrow> string" where
  "focus_reason_as_str Active = ''active''"
| "focus_reason_as_str ProcessMismatch = ''process_mismatch''"
| "focus_reason_as_str StaleFocus = ''stale_focus''"
| "focus_reason_as_str FocusUnavailable = ''focus_unavailable''"
| "focus_reason_as_str FocusPermissionDenied = ''focus_permission_denied''"
| "focus_reason_as_str AmbiguousFocus = ''ambiguous_focus''"
| "focus_reason_as_str UntrustedFocusTimestamp = ''untrusted_focus_timestamp''"

fun focus_reason_from_kind :: "scope_denial_kind \<Rightarrow> scoped_focus_reason" where
  "focus_reason_from_kind scope_denial_kind.StaleFocus = StaleFocus"
| "focus_reason_from_kind scope_denial_kind.FocusUnavailable = FocusUnavailable"
| "focus_reason_from_kind scope_denial_kind.FocusPermissionDenied = FocusPermissionDenied"
| "focus_reason_from_kind scope_denial_kind.AmbiguousFocus = AmbiguousFocus"
| "focus_reason_from_kind scope_denial_kind.UntrustedFocusTimestamp = UntrustedFocusTimestamp"
| "focus_reason_from_kind scope_denial_kind.ProcessMismatch = ProcessMismatch"

record scoped_focus_state =
  sf_active :: bool
  sf_reason :: scoped_focus_reason
  sf_diagnostic :: "scope_denial option"

definition focus_state_active :: scoped_focus_state where
  "focus_state_active = \<lparr>sf_active = True, sf_reason = Active, sf_diagnostic = None\<rparr>"

definition focus_state_inactive :: "scope_denial \<Rightarrow> scoped_focus_state" where
  "focus_state_inactive d =
     \<lparr>sf_active = False, sf_reason = focus_reason_from_kind (sd_kind d), sf_diagnostic = Some d\<rparr>"

definition transition_fields :: "scoped_focus_state \<Rightarrow> string" where
  "transition_fields s =
     (case sf_diagnostic s of
        Some d \<Rightarrow> ''state=inactive reason='' @ focus_reason_as_str (sf_reason s) @ '' ''
                   @ render_fields d
      | None \<Rightarrow> ''state=active reason='' @ focus_reason_as_str (sf_reason s))"

definition focus_state_from_decision :: "scope_decision \<Rightarrow> scoped_focus_state" where
  "focus_state_from_decision d =
     (case d of Allowed \<Rightarrow> focus_state_active | Denied _ diag \<Rightarrow> focus_state_inactive diag)"

section \<open>The active process and its freshness\<close>

definition default_focus_stale_threshold :: duration where
  "default_focus_stale_threshold = from_millis 2000"

record freshness_policy =
  fp_stale_threshold :: duration

definition freshness_policy_default :: freshness_policy where
  "freshness_policy_default = \<lparr>fp_stale_threshold = default_focus_stale_threshold\<rparr>"

datatype focus_freshness = Fresh duration | Stale duration duration | UntrustedTimestamp duration

datatype active_process_confidence = Exact | NameOnly | Ambiguous | Unavailable | Denied

record active_process_context =
  ap_visible_name :: "process_name option"
  ap_process_id :: "nat option"
  ap_app_id :: "string option"
  ap_window_class :: "string option"
  ap_confidence :: active_process_confidence
  ap_captured_at :: instant
  ap_diagnostic :: "adapter_diagnostic option"

definition context_exact :: "process_name \<Rightarrow> nat option \<Rightarrow> instant \<Rightarrow> active_process_context" where
  "context_exact name pid now =
     \<lparr>ap_visible_name = Some name, ap_process_id = pid, ap_app_id = None, ap_window_class = None,
      ap_confidence = Exact, ap_captured_at = now, ap_diagnostic = None\<rparr>"

definition context_name_only :: "process_name \<Rightarrow> instant \<Rightarrow> active_process_context" where
  "context_name_only name now =
     \<lparr>ap_visible_name = Some name, ap_process_id = None, ap_app_id = None, ap_window_class = None,
      ap_confidence = NameOnly, ap_captured_at = now, ap_diagnostic = None\<rparr>"

definition context_unavailable :: "string \<Rightarrow> instant \<Rightarrow> active_process_context" where
  "context_unavailable reason now =
     \<lparr>ap_visible_name = None, ap_process_id = None, ap_app_id = None, ap_window_class = None,
      ap_confidence = Unavailable, ap_captured_at = now,
      ap_diagnostic = Some (adapter_diagnostic_new CapabilityProbe reason)\<rparr>"

definition context_denied :: "string \<Rightarrow> instant \<Rightarrow> active_process_context" where
  "context_denied reason now =
     \<lparr>ap_visible_name = None, ap_process_id = None, ap_app_id = None, ap_window_class = None,
      ap_confidence = active_process_confidence.Denied, ap_captured_at = now,
      ap_diagnostic = Some (adapter_diagnostic_new CapabilityProbe reason)\<rparr>"

definition context_ambiguous :: "string \<Rightarrow> instant \<Rightarrow> active_process_context" where
  "context_ambiguous reason now =
     \<lparr>ap_visible_name = None, ap_process_id = None, ap_app_id = None, ap_window_class = None,
      ap_confidence = Ambiguous, ap_captured_at = now,
      ap_diagnostic = Some (adapter_diagnostic_new Trigger reason)\<rparr>"

definition freshness_at ::
  "active_process_context \<Rightarrow> instant \<Rightarrow> freshness_policy \<Rightarrow> focus_freshness" where
  "freshness_at c now policy =
     (case checked_sub now (ap_captured_at c) of
        None \<Rightarrow> UntrustedTimestamp (fp_stale_threshold policy)
      | Some age \<Rightarrow>
          if fp_stale_threshold policy < age then Stale age (fp_stale_threshold policy)
          else Fresh age)"

definition is_stale :: "active_process_context \<Rightarrow> duration \<Rightarrow> instant \<Rightarrow> bool" where
  "is_stale c max_age now =
     (case freshness_at c now \<lparr>fp_stale_threshold = max_age\<rparr> of Stale _ _ \<Rightarrow> True | _ \<Rightarrow> False)"

definition with_app_id :: "string \<Rightarrow> active_process_context \<Rightarrow> active_process_context" where
  "with_app_id v c = c\<lparr>ap_app_id := Some v\<rparr>"

definition with_window_class :: "string \<Rightarrow> active_process_context \<Rightarrow> active_process_context" where
  "with_window_class v c = c\<lparr>ap_window_class := Some v\<rparr>"

definition matchable_name :: "active_process_context \<Rightarrow> process_name option" where
  "matchable_name c =
     (case ap_confidence c of
        Exact \<Rightarrow> ap_visible_name c | NameOnly \<Rightarrow> ap_visible_name c | _ \<Rightarrow> None)"

section \<open>The decision\<close>

definition scope_from_script :: "script_scope \<Rightarrow> scope_selection" where
  "scope_from_script s = (case s of Processes ps \<Rightarrow> ProcessList ps)"

definition scope_process_list :: "process_name list \<Rightarrow> scope_selection result" where
  "scope_process_list ps =
     (if ps = []
      then Err (diagnosable_error_new ScopePrompt ''process scope requires at least one process'')
      else Ok (ProcessList ps))"

definition explicit_global_from_prompt :: "bool \<Rightarrow> scope_selection result" where
  "explicit_global_from_prompt confirmed =
     (if confirmed then Ok ExplicitGlobal
      else Err (diagnosable_error_new ScopePrompt ''global scope requires explicit confirmation''))"

definition diagnostic_rule :: "scope_selection \<Rightarrow> string" where
  "diagnostic_rule s =
     (case s of ExplicitGlobal \<Rightarrow> ''global''
      | ProcessList ps \<Rightarrow> ''processes:'' @ join '','' ps)"

definition scope_describe :: "scope_selection \<Rightarrow> string" where
  "scope_describe s =
     (case s of ExplicitGlobal \<Rightarrow> ''global (explicit current run)''
      | ProcessList ps \<Rightarrow> ''processes: '' @ join '', '' ps)"

definition scope_denied :: "scope_selection \<Rightarrow> scope_denial_kind \<Rightarrow> string \<Rightarrow> scope_decision" where
  "scope_denied s kind reason =
     scope_decision.Denied reason (scope_denial_new kind (diagnostic_rule s))"

definition scope_denied_with_freshness ::
  "scope_selection \<Rightarrow> scope_denial_kind \<Rightarrow> string \<Rightarrow> duration option \<Rightarrow> duration \<Rightarrow> scope_decision" where
  "scope_denied_with_freshness s kind reason age threshold =
     scope_decision.Denied reason
       (with_freshness age threshold (scope_denial_new kind (diagnostic_rule s)))"

definition scope_decide :: "scope_selection \<Rightarrow> process_name option \<Rightarrow> scope_decision" where
  "scope_decide s active =
     (case s of
        ExplicitGlobal \<Rightarrow> Allowed
      | ProcessList ps \<Rightarrow>
          (case active of
             Some p \<Rightarrow>
               if list_ex (\<lambda>allowed. allowed = p) ps then Allowed
               else scope_denied s scope_denial_kind.ProcessMismatch
                 (''active process '' @ [CHR 0x27] @ p @ [CHR 0x27]
                  @ '' is outside configured scope'')
           | None \<Rightarrow> scope_denied s scope_denial_kind.FocusUnavailable
                      ''active process is unavailable''))"

definition decide_context_at_with_policy ::
  "scope_selection \<Rightarrow> active_process_context \<Rightarrow> instant \<Rightarrow> freshness_policy \<Rightarrow> scope_decision" where
  "decide_context_at_with_policy s c now policy =
     (if s = ExplicitGlobal then Allowed
      else case freshness_at c now policy of
        Stale age threshold \<Rightarrow>
          scope_denied_with_freshness s scope_denial_kind.StaleFocus
            ''active process metadata is stale'' (Some age) threshold
      | UntrustedTimestamp threshold \<Rightarrow>
          scope_denied_with_freshness s scope_denial_kind.UntrustedFocusTimestamp
            ''active process metadata timestamp is untrusted'' None threshold
      | Fresh age \<Rightarrow>
          (case ap_confidence c of
             Ambiguous \<Rightarrow> scope_denied s scope_denial_kind.AmbiguousFocus
               ''active process metadata is ambiguous''
           | Unavailable \<Rightarrow> scope_denied s scope_denial_kind.FocusUnavailable
               ''active process metadata is unavailable''
           | active_process_confidence.Denied \<Rightarrow>
               scope_denied s scope_denial_kind.FocusPermissionDenied
                 ''active process metadata permission was denied''
           | _ \<Rightarrow> scope_decide s (matchable_name c)))"

definition decide_context_at ::
  "scope_selection \<Rightarrow> active_process_context \<Rightarrow> instant \<Rightarrow> scope_decision" where
  "decide_context_at s c now = decide_context_at_with_policy s c now freshness_policy_default"

definition scoped_focus_state_at_with_policy ::
  "scope_selection \<Rightarrow> active_process_context \<Rightarrow> instant \<Rightarrow> freshness_policy \<Rightarrow> scoped_focus_state"
  where
  "scoped_focus_state_at_with_policy s c now policy =
     focus_state_from_decision (decide_context_at_with_policy s c now policy)"

section \<open>Consent\<close>

datatype consent_decision =
    ProcessScope "process_name list" | ExplicitGlobalConfirmed | Cancel | NonInteractiveMissingScope

definition consent_into_scope :: "consent_decision \<Rightarrow> scope_selection option result" where
  "consent_into_scope d =
     (case d of
        ProcessScope ps \<Rightarrow> rbind (scope_process_list ps) (\<lambda>s. Ok (Some s))
      | ExplicitGlobalConfirmed \<Rightarrow> rbind (explicit_global_from_prompt True) (\<lambda>s. Ok (Some s))
      | Cancel \<Rightarrow> Ok None
      | NonInteractiveMissingScope \<Rightarrow> Err (diagnosable_error_new ScopePrompt
          ''missing scope cannot be resolved without interactive stdin''))"

section \<open>The decision fails closed\<close>

lemma freshness_Fresh_iff:
  "freshness_at c now policy = Fresh age \<longleftrightarrow>
     ap_captured_at c \<le> now \<and> age = now - ap_captured_at c \<and> age \<le> fp_stale_threshold policy"
  by (auto simp: freshness_at_def checked_sub_def)

lemma decide_Allowed_iff:
  "scope_decide s active = Allowed \<longleftrightarrow>
     s = ExplicitGlobal \<or> (\<exists>ps p. s = ProcessList ps \<and> active = Some p \<and> p \<in> set ps)"
  by (auto simp: scope_decide_def scope_denied_def list_ex_iff
      split: scope_selection.splits option.splits)

lemma decide_context_Allowed_iff:
  "decide_context_at_with_policy s c now policy = Allowed \<longleftrightarrow>
     s = ExplicitGlobal
     \<or> (\<exists>ps p. s = ProcessList ps \<and> p \<in> set ps \<and> ap_visible_name c = Some p
           \<and> (ap_confidence c = Exact \<or> ap_confidence c = NameOnly)
           \<and> ap_captured_at c \<le> now \<and> now - ap_captured_at c \<le> fp_stale_threshold policy)"
proof (cases s)
  case (ProcessList ps)
  show ?thesis
  proof (cases "freshness_at c now policy")
    case (Fresh age)
    then have f: "ap_captured_at c \<le> now" "now - ap_captured_at c \<le> fp_stale_threshold policy"
      by (auto simp: freshness_Fresh_iff)
    show ?thesis
      using f unfolding decide_context_at_with_policy_def Fresh
      by (cases "ap_confidence c")
        (auto simp: ProcessList scope_denied_def matchable_name_def decide_Allowed_iff)
  next
    case (Stale age th)
    with ProcessList show ?thesis
      by (auto simp: decide_context_at_with_policy_def scope_denied_with_freshness_def
          freshness_at_def checked_sub_def split: option.splits if_splits)
  next
    case (UntrustedTimestamp th)
    with ProcessList show ?thesis
      by (auto simp: decide_context_at_with_policy_def scope_denied_with_freshness_def
          freshness_at_def checked_sub_def split: option.splits if_splits)
  qed
qed (simp add: decide_context_at_with_policy_def)

text \<open>A denial names the rule of the selection; freshness denials carry the threshold.\<close>

lemma decide_context_Denied:
  assumes "decide_context_at_with_policy s c now policy = scope_decision.Denied reason d"
  shows "sd_rule d = diagnostic_rule s"
    and "sd_kind d = scope_denial_kind.StaleFocus \<longleftrightarrow>
         ap_captured_at c \<le> now \<and> fp_stale_threshold policy < now - ap_captured_at c"
    and "sd_kind d = scope_denial_kind.UntrustedFocusTimestamp \<longleftrightarrow> now < ap_captured_at c"
  using assms
  by (auto simp: decide_context_at_with_policy_def scope_denied_with_freshness_def scope_denied_def
      scope_decide_def scope_denial_new_def with_freshness_def freshness_at_def checked_sub_def
      split: if_splits option.splits active_process_confidence.splits scope_selection.splits)

lemma focus_state_active_iff:
  "sf_active (scoped_focus_state_at_with_policy s c now policy) \<longleftrightarrow>
     decide_context_at_with_policy s c now policy = Allowed"
  by (auto simp: scoped_focus_state_at_with_policy_def focus_state_from_decision_def
      focus_state_active_def focus_state_inactive_def split: scope_decision.splits)

lemma counts_iff_not_mismatch:
  "counts_as_metadata_unavailable d \<longleftrightarrow> sd_kind d \<noteq> scope_denial_kind.ProcessMismatch"
  by (cases "sd_kind d") (simp_all add: counts_as_metadata_unavailable_def
      kind_counts_as_metadata_unavailable_def)

lemma process_name_parse_Ok:
  "process_name_parse v = Inr n \<Longrightarrow>
     n = trim v \<and> n \<noteq> [] \<and> (\<forall>c\<in>set n. \<not> is_control c) \<and> process_name_parse n = Inr n"
  by (auto simp: process_name_parse_def Let_def list_ex_iff split: if_splits)

lemma consent_global_only_if_confirmed:
  "consent_into_scope d = Inr (Some ExplicitGlobal) \<longleftrightarrow> d = ExplicitGlobalConfirmed"
  by (cases d) (auto simp: consent_into_scope_def scope_process_list_def
      explicit_global_from_prompt_def split: if_splits)

lemma sanitize_one_field: "\<forall>c\<in>set (sanitize_diagnostic_value v). is_ascii_graphic c"
  by (auto simp: sanitize_diagnostic_value_def is_ascii_graphic_def)

end
