(* ===== verification/Capabilities.thy ===== *)
theory Capabilities imports Errors begin

text \<open>
  \<open>signal-auras-wayland/src/capability.rs\<close>: detection of a KDE Plasma Wayland session and the
  capability report it gives. The process environment is a function from variable names to
  values and the session bus (the crate \<open>zbus\<close>) a parameter: connecting gives an error text or
  a function that answers or fails for each bus name.
\<close>

section \<open>The gate on required capabilities\<close>

lemma first_blocking_error_None_iff:
  "first_blocking_error r ks = None \<longleftrightarrow> all_available r ks"
  by (induction r ks rule: first_blocking_error.induct)
    (auto simp: all_available_def split: option.splits)

lemma first_blocking_error_phase:
  "first_blocking_error r ks = Some e \<Longrightarrow> er_phase e = CapabilityProbe"
  by (induction r ks rule: first_blocking_error.induct)
    (auto simp: error_simps split: option.splits if_splits)

lemma first_blocking_error_append:
  "all_available r ks \<Longrightarrow> first_blocking_error r (ks @ ls) = first_blocking_error r ls"
  by (induction ks) (auto simp: all_available_def split: option.splits)

section \<open>The KDE session\<close>

definition eq_ignore_ascii_case :: "string \<Rightarrow> string \<Rightarrow> bool" where
  "eq_ignore_ascii_case a b = (map to_ascii_lowercase a = map to_ascii_lowercase b)"

record kde_services =
  ks_kwin :: bool
  ks_kglobalaccel :: bool
  ks_portal :: bool

definition services_available :: kde_services where
  "services_available = \<lparr>ks_kwin = True, ks_kglobalaccel = True, ks_portal = True\<rparr>"

definition services_default :: kde_services where
  "services_default = \<lparr>ks_kwin = False, ks_kglobalaccel = False, ks_portal = False\<rparr>"

type_synonym process_env = "string \<Rightarrow> string option"
type_synonym name_owner = "string \<Rightarrow> string + bool"

definition env_flag_value :: "string \<Rightarrow> bool" where
  "env_flag_value v = List.member [''1'', ''true'', ''TRUE'', ''yes'', ''available''] v"

definition is_some_and :: "('a \<Rightarrow> bool) \<Rightarrow> 'a option \<Rightarrow> bool" where
  "is_some_and p o1 = (case o1 of None \<Rightarrow> False | Some v \<Rightarrow> p v)"

definition from_env_overrides :: "process_env \<Rightarrow> kde_services option" where
  "from_env_overrides env =
     (let kwin = env ''SIGNAL_AURAS_KDE_KWIN'';
          kglobalaccel = env ''SIGNAL_AURAS_KDE_GLOBAL_SHORTCUTS'';
          portal = env ''SIGNAL_AURAS_KDE_PORTAL''
      in if kwin = None \<and> kglobalaccel = None \<and> portal = None then None
         else Some \<lparr>ks_kwin = is_some_and env_flag_value kwin,
                    ks_kglobalaccel = is_some_and env_flag_value kglobalaccel,
                    ks_portal = is_some_and env_flag_value portal\<rparr>)"

definition dbus_probe_error :: "string \<Rightarrow> diagnosable_error" where
  "dbus_probe_error error =
     with_remediation ''start Signal Auras inside the KDE Plasma Wayland user session''
       (with_source ''session-dbus''
         (diagnosable_error_new CapabilityProbe
           (''failed to probe KDE session D-Bus services: '' @ error)))"

definition name_has_owner :: "name_owner \<Rightarrow> string \<Rightarrow> bool result" where
  "name_has_owner owner name =
     (case owner name of Inl e \<Rightarrow> Err (dbus_probe_error e) | Inr b \<Rightarrow> Ok b)"

definition from_session_bus :: "string + name_owner \<Rightarrow> kde_services result" where
  "from_session_bus bus =
     (case bus of
        Inl e \<Rightarrow> Err (dbus_probe_error e)
      | Inr owner \<Rightarrow>
          rbind (name_has_owner owner ''org.kde.KWin'') (\<lambda>kwin.
          rbind (name_has_owner owner ''org.kde.kglobalaccel'') (\<lambda>kglobalaccel.
          rbind (name_has_owner owner ''org.freedesktop.portal.Desktop'') (\<lambda>desktop.
          rbind (if desktop then name_has_owner owner ''org.freedesktop.impl.portal.desktop.kde''
                 else Ok False) (\<lambda>portal.
            Ok \<lparr>ks_kwin = kwin, ks_kglobalaccel = kglobalaccel, ks_portal = portal\<rparr>)))))"

definition services_from_process_env ::
  "process_env \<Rightarrow> string + name_owner \<Rightarrow> kde_services" where
  "services_from_process_env env bus =
     (case from_env_overrides env of
        Some s \<Rightarrow> s
      | None \<Rightarrow> (case from_session_bus bus of Inl e \<Rightarrow> services_default | Inr s \<Rightarrow> s))"

record kde_environment =
  ke_wayland_display :: "string option"
  ke_session_type :: "string option"
  ke_current_desktop :: "string option"
  ke_services :: kde_services

definition environment_from_process_env ::
  "process_env \<Rightarrow> string + name_owner \<Rightarrow> kde_environment" where
  "environment_from_process_env env bus =
     \<lparr>ke_wayland_display = env ''WAYLAND_DISPLAY'',
      ke_session_type = env ''XDG_SESSION_TYPE'',
      ke_current_desktop = env ''XDG_CURRENT_DESKTOP'',
      ke_services = services_from_process_env env bus\<rparr>"

datatype kde_session_state =
    Unsupported | Available | PermissionRequired | Invalidated | ProviderError

record kde_session =
  kn_wayland_display :: string
  kn_desktop_session :: string
  kn_services :: kde_services
  kn_state :: kde_session_state

definition session_error :: "string \<Rightarrow> string \<Rightarrow> diagnosable_error" where
  "session_error message source =
     with_remediation ''start Signal Auras from a KDE Plasma Wayland session''
       (with_source source (diagnosable_error_new CapabilityProbe message))"

definition filter_nonempty :: "string option \<Rightarrow> string option" where
  "filter_nonempty o1 = (case o1 of None \<Rightarrow> None | Some v \<Rightarrow> if v = [] then None else Some v)"

definition is_kde_desktop :: "string \<Rightarrow> bool" where
  "is_kde_desktop desktop =
     list_ex (\<lambda>part. eq_ignore_ascii_case part ''KDE'') (split_on (CHR '':'') desktop)"

definition kde_session_detect :: "kde_environment \<Rightarrow> kde_session result" where
  "kde_session_detect env =
     (let session_type = (case ke_session_type env of None \<Rightarrow> ''unknown'' | Some v \<Rightarrow> v)
      in case filter_nonempty (ke_wayland_display env) of
           None \<Rightarrow> Err (session_error ''KDE Plasma Wayland requires a Wayland session''
                          ''kde-plasma'')
         | Some display \<Rightarrow>
             if \<not> eq_ignore_ascii_case session_type ''wayland''
             then Err (session_error ''KDE Plasma Wayland requires a Wayland session''
                         ''kde-plasma'')
             else
               let desktop = (case filter_nonempty (ke_current_desktop env) of
                                None \<Rightarrow> ''unknown'' | Some v \<Rightarrow> v)
               in if \<not> is_kde_desktop desktop
                  then Err (session_error
                    ''KDE Plasma Wayland provider requires a KDE Plasma Wayland session'' desktop)
                  else if \<not> ks_kwin (ke_services env)
                  then Err (session_error ''required KDE service KWin is unavailable'' ''kwin'')
                  else if \<not> ks_kglobalaccel (ke_services env)
                  then Err (session_error
                    ''required KDE global shortcut service KGlobalAccel is unavailable''
                    ''kglobalaccel'')
                  else if \<not> ks_portal (ke_services env)
                  then Err (session_error
                    ''required KDE portal xdg-desktop-portal-kde is unavailable''
                    ''xdg-desktop-portal-kde'')
                  else Ok \<lparr>kn_wayland_display = display, kn_desktop_session = desktop,
                           kn_services = ke_services env, kn_state = Available\<rparr>)"

section \<open>The capability report\<close>

definition unsupported_report :: "capability_set \<Rightarrow> string \<Rightarrow> capability_report" where
  "unsupported_report required source =
     report_from_statuses (map (\<lambda>k.
       status_unavailable k capability_availability.Unsupported
         (ad_with_remediation
           ''use a supported KDE Plasma Wayland session or disable this capability''
         (ad_with_source source (ad_with_capability k
           (adapter_diagnostic_new CapabilityProbe
             (''required KDE Plasma Wayland capability '' @ [CHR 0x27] @ show_capability_kind k
              @ [CHR 0x27] @ '' is unavailable'')))))) required)"

definition unavailable_kind :: "capability_kind \<Rightarrow> string \<Rightarrow> string \<Rightarrow> capability_status" where
  "unavailable_kind k message source =
     status_unavailable k capability_availability.Unsupported
       (ad_with_remediation ''start a KDE Plasma Wayland session with the required service''
       (ad_with_source source (ad_with_capability k
         (adapter_diagnostic_new CapabilityProbe message))))"

fun kde_kind_status :: "kde_services \<Rightarrow> capability_kind \<Rightarrow> capability_status" where
  "kde_kind_status sv GlobalShortcut =
     (if ks_kglobalaccel sv then status_available GlobalShortcut ''kglobalaccel''
      else unavailable_kind GlobalShortcut
        ''KDE global shortcut service KGlobalAccel is unavailable'' ''kglobalaccel'')"
| "kde_kind_status sv CompositePointerObservation =
     unavailable_kind CompositePointerObservation
       ''KDE composite pointer observation provider is unavailable'' ''kwin-pointer-filter''"
| "kde_kind_status sv CompositePointerConsumption =
     unavailable_kind CompositePointerConsumption
       ''KDE composite pointer consumption provider is unavailable'' ''kwin-pointer-filter''"
| "kde_kind_status sv ActiveProcessMetadata =
     (if ks_kwin sv then status_available ActiveProcessMetadata ''kwin''
      else unavailable_kind ActiveProcessMetadata
        ''KDE active-process metadata service KWin is unavailable'' ''kwin'')"
| "kde_kind_status sv ActiveWindowMetadata =
     (if ks_kwin sv then status_available ActiveWindowMetadata ''kwin''
      else unavailable_kind ActiveWindowMetadata
        ''KDE active-window metadata service KWin is unavailable'' ''kwin'')"
| "kde_kind_status sv WindowActivation =
     (if ks_kwin sv then status_available WindowActivation ''kwin''
      else unavailable_kind WindowActivation
        ''KDE window activation service KWin is unavailable'' ''kwin'')"
| "kde_kind_status sv SynthesizedInput =
     (if ks_portal sv then status_available SynthesizedInput ''xdg-desktop-portal-kde''
      else unavailable_kind SynthesizedInput
        ''KDE RemoteDesktop portal is unavailable'' ''xdg-desktop-portal-kde'')"
| "kde_kind_status sv Timer = status_available Timer ''runtime-scheduler''"
| "kde_kind_status sv ScreenRead =
     (if ks_portal sv then status_available ScreenRead ''xdg-desktop-portal ScreenCast''
      else unavailable_kind ScreenRead
        ''KDE ScreenCast portal is unavailable'' ''xdg-desktop-portal-kde'')"

definition kde_capability_report :: "capability_set \<Rightarrow> kde_environment \<Rightarrow> capability_report" where
  "kde_capability_report required env =
     (if ke_wayland_display env = None
         \<or> \<not> is_some_and (\<lambda>v. eq_ignore_ascii_case v ''wayland'') (ke_session_type env)
      then unsupported_report required ''no KDE Plasma Wayland session''
      else
        let desktop = (case ke_current_desktop env of None \<Rightarrow> ''unknown'' | Some v \<Rightarrow> v)
        in if \<not> is_kde_desktop desktop
           then unsupported_report required ''non-KDE Wayland session''
           else report_from_statuses (map (kde_kind_status (ke_services env)) required))"

lemma cs_kind_kde_kind_status [simp]: "cs_kind (kde_kind_status sv k) = k"
  by (cases k) (auto simp: status_available_def status_unavailable_def unavailable_kind_def)

lemma find_kind_map:
  "(\<And>k. cs_kind (f k) = k) \<Longrightarrow>
   List.find (\<lambda>s. cs_kind s = k) (map f ks) = (if k \<in> set ks then Some (f k) else None)"
  by (induction ks) auto

lemma report_of_kinds:
  assumes "\<And>k. cs_kind (f k) = k"
  shows "report_status (report_from_statuses (map f ks)) k
    = (if k \<in> set ks then Some (f k) else None)"
  using find_kind_map [of f k "rev ks"] assms
  by (simp add: report_from_statuses_get rev_map)

lemma unsupported_report_status:
  "report_status (unsupported_report required source) k =
     (if k \<in> set required then Some (status_unavailable k capability_availability.Unsupported
         (ad_with_remediation
           ''use a supported KDE Plasma Wayland session or disable this capability''
         (ad_with_source source (ad_with_capability k
           (adapter_diagnostic_new CapabilityProbe
             (''required KDE Plasma Wayland capability '' @ [CHR 0x27] @ show_capability_kind k
              @ [CHR 0x27] @ '' is unavailable'')))))) else None)"
  unfolding unsupported_report_def
  by (subst report_of_kinds) (auto simp: status_unavailable_def)

text \<open>The services a required capability needs; pointer capabilities have no KDE provider.\<close>

fun kind_supported :: "kde_services \<Rightarrow> capability_kind \<Rightarrow> bool" where
  "kind_supported sv GlobalShortcut = ks_kglobalaccel sv"
| "kind_supported sv CompositePointerObservation = False"
| "kind_supported sv CompositePointerConsumption = False"
| "kind_supported sv Timer = True"
| "kind_supported sv SynthesizedInput = ks_portal sv"
| "kind_supported sv ScreenRead = ks_portal sv"
| "kind_supported sv k = ks_kwin sv"

lemma kde_kind_status_allows:
  "allows_activation (cs_availability (kde_kind_status sv k)) \<longleftrightarrow> kind_supported sv k"
  by (cases k) (auto simp: status_available_def status_unavailable_def unavailable_kind_def
      allows_activation_def)

definition is_kde_wayland :: "kde_environment \<Rightarrow> bool" where
  "is_kde_wayland env \<longleftrightarrow> ke_wayland_display env \<noteq> None
     \<and> is_some_and (\<lambda>v. eq_ignore_ascii_case v ''wayland'') (ke_session_type env)
     \<and> is_some_and is_kde_desktop (ke_current_desktop env)"

lemma unknown_not_kde: "\<not> is_kde_desktop ''unknown''"
  by code_simp

lemma kde_report_available_iff:
  "all_available (kde_capability_report required env) required \<longleftrightarrow>
     required = [] \<or> (is_kde_wayland env \<and> (\<forall>k\<in>set required. kind_supported (ke_services env) k))"
proof -
  let ?R = "kde_capability_report required env"
  have avail: "all_available ?R required \<longleftrightarrow> (\<forall>k\<in>set required.
      case report_status ?R k of None \<Rightarrow> False | Some s \<Rightarrow> allows_activation (cs_availability s))"
    by (simp add: all_available_def list_all_iff)
  show ?thesis
  proof (cases "is_kde_wayland env")
    case True
    then have "?R = report_from_statuses (map (kde_kind_status (ke_services env)) required)"
      by (auto simp: kde_capability_report_def is_kde_wayland_def is_some_and_def
          split: option.splits)
    then show ?thesis
      using True unfolding avail by (auto simp: report_of_kinds kde_kind_status_allows)
  next
    case False
    then have "\<exists>source. ?R = unsupported_report required source"
      using unknown_not_kde
      by (auto simp: kde_capability_report_def is_kde_wayland_def is_some_and_def Let_def
          split: option.splits)
    then obtain source where R: "?R = unsupported_report required source" by blast
    show ?thesis
      using False unfolding avail unfolding R
      by (auto simp: unsupported_report_status status_unavailable_def allows_activation_def
          intro: ccontr[of "required = []"] last_in_set)
  qed
qed

lemma session_detect_Ok_iff:
  "kde_session_detect env = Inr s \<longleftrightarrow>
     filter_nonempty (ke_wayland_display env) = Some (kn_wayland_display s)
     \<and> is_some_and (\<lambda>v. eq_ignore_ascii_case v ''wayland'') (ke_session_type env)
     \<and> ke_current_desktop env = Some (kn_desktop_session s)
     \<and> is_kde_desktop (kn_desktop_session s)
     \<and> ks_kwin (ke_services env) \<and> ks_kglobalaccel (ke_services env) \<and> ks_portal (ke_services env)
     \<and> kn_services s = ke_services env \<and> kn_state s = Available"
proof -
  have e: "\<not> is_kde_desktop []" by code_simp
  have u: "\<not> eq_ignore_ascii_case ''unknown'' ''wayland''" by code_simp
  show ?thesis
    using unknown_not_kde e u
    by (cases s) (auto simp: kde_session_detect_def Let_def is_some_and_def filter_nonempty_def
        split: option.splits if_splits)
qed

text \<open>A detected session has every KDE-backed capability available.\<close>

lemma detected_session_supports:
  assumes "kde_session_detect env = Inr s"
    and "CompositePointerObservation \<notin> set required"
    and "CompositePointerConsumption \<notin> set required"
  shows "all_available (kde_capability_report required env) required"
proof -
  from assms(1) have "is_kde_wayland env"
    by (auto simp: session_detect_Ok_iff is_kde_wayland_def is_some_and_def filter_nonempty_def
        split: option.splits)
  moreover have "kind_supported (ke_services env) k" if "k \<in> set required" for k
    using assms that by (cases k) (auto simp: session_detect_Ok_iff)
  ultimately show ?thesis by (simp add: kde_report_available_iff)
qed

end
