(* ===== verification/Config.thy ===== *)
theory Config imports Recognition Scopes Capabilities begin

text \<open>
  \<open>signal-auras-core/src/config.rs\<close>, and the two functions of \<open>error.rs\<close> that read a
  configuration: the validated configuration with its bindings, motions and presses, the input
  provider, and the capabilities a configuration requires.
\<close>

section \<open>The input provider\<close>

datatype input_provider_backend = Evdev
datatype input_provider_mode = Observe | Grab
datatype input_provider_output = Portal | Uinput

definition backend_parse :: "string \<Rightarrow> input_provider_backend result" where
  "backend_parse value =
     (if trim value = ''evdev'' then Ok Evdev
      else Err (diagnosable_error_new ScriptValidation
             (''unsupported input provider backend '' @ [CHR 0x27] @ trim value @ [CHR 0x27])))"

definition unwrap_or :: "'a option \<Rightarrow> 'a \<Rightarrow> 'a" where
  "unwrap_or o1 d = (case o1 of None \<Rightarrow> d | Some v \<Rightarrow> v)"

definition provider_mode_parse :: "string option \<Rightarrow> input_provider_mode result" where
  "provider_mode_parse value =
     (let v = trim (unwrap_or value ''observe'')
      in if v = ''observe'' then Ok Observe
         else if v = ''grab'' \<or> v = ''consume'' then Ok Grab
         else Err (diagnosable_error_new ScriptValidation
                (''unsupported input provider mode '' @ [CHR 0x27] @ v @ [CHR 0x27])))"

definition provider_output_parse :: "string option \<Rightarrow> input_provider_output result" where
  "provider_output_parse value =
     (let v = trim (unwrap_or value ''portal'')
      in if v = ''portal'' then Ok Portal
         else if v = ''uinput'' then Ok Uinput
         else Err (diagnosable_error_new ScriptValidation
                (''unsupported input provider output '' @ [CHR 0x27] @ v @ [CHR 0x27])))"

type_synonym path = string

record input_provider_config =
  ip_backend :: input_provider_backend
  ip_mode :: input_provider_mode
  ip_output :: input_provider_output
  ip_devices :: "path list"
  ip_all_devices :: bool
  ip_interactive_devices :: bool

definition provider_evdev ::
  "path list \<Rightarrow> input_provider_mode \<Rightarrow> input_provider_output \<Rightarrow> input_provider_config result" where
  "provider_evdev devices mode output =
     (if devices = []
      then Err (diagnosable_error_new ScriptValidation
             ''evdev input provider requires at least one device'')
      else Ok \<lparr>ip_backend = Evdev, ip_mode = mode, ip_output = output, ip_devices = devices,
               ip_all_devices = False, ip_interactive_devices = False\<rparr>)"

definition provider_evdev_interactive ::
  "input_provider_mode \<Rightarrow> input_provider_output \<Rightarrow> input_provider_config result" where
  "provider_evdev_interactive mode output =
     Ok \<lparr>ip_backend = Evdev, ip_mode = mode, ip_output = output, ip_devices = [],
         ip_all_devices = False, ip_interactive_devices = True\<rparr>"

definition with_selected_devices ::
  "input_provider_config \<Rightarrow> path list \<Rightarrow> input_provider_config result" where
  "with_selected_devices c devices = provider_evdev devices (ip_mode c) (ip_output c)"

definition provider_evdev_all ::
  "input_provider_mode \<Rightarrow> input_provider_output \<Rightarrow> string option \<Rightarrow> input_provider_config result" where
  "provider_evdev_all mode output acknowledge_risk =
     (if mode = Grab \<and> acknowledge_risk \<noteq> Some ''GRAB_ALL_INPUTS''
      then Err (diagnosable_error_new ScriptValidation
             (''evdev grab with devices = '' @ [CHR 0x22] @ ''all'' @ [CHR 0x22]
              @ '' requires acknowledge_risk = '' @ [CHR 0x22] @ ''GRAB_ALL_INPUTS'' @ [CHR 0x22]))
      else Ok \<lparr>ip_backend = Evdev, ip_mode = mode, ip_output = output, ip_devices = [],
               ip_all_devices = True, ip_interactive_devices = False\<rparr>)"

section \<open>Bindings\<close>

datatype registration_state = Pending | Registered | Failed | Unregistered

definition binding_mode_parse :: "string option \<Rightarrow> binding_mode result" where
  "binding_mode_parse value =
     (let v = trim (unwrap_or value ''consume'')
      in if v = ''consume'' then Ok Consume
         else if v = ''passthrough'' then Ok Passthrough
         else Err (diagnosable_error_new ScriptValidation
                (''unsupported binding mode '' @ [CHR 0x27] @ v @ [CHR 0x27])))"

fun binding_mode_as_str :: "binding_mode \<Rightarrow> string" where
  "binding_mode_as_str Consume = ''consume''"
| "binding_mode_as_str Passthrough = ''passthrough''"

fun mouse_trigger_key :: "mouse_trigger \<Rightarrow> nat \<times> nat" where
  "mouse_trigger_key (Button b) = (0, mouse_button_rank b)"
| "mouse_trigger_key (mouse_trigger.Wheel d) = (1, wheel_rank d)"

lemma mouse_trigger_key_inj [simp]: "mouse_trigger_key a = mouse_trigger_key b \<longleftrightarrow> a = b"
proof (cases a; cases b)
  fix x y assume "a = Button x" "b = Button y"
  then show ?thesis by (cases x; cases y) simp_all
next
  fix x y assume "a = mouse_trigger.Wheel x" "b = mouse_trigger.Wheel y"
  then show ?thesis by (cases x; cases y) simp_all
qed auto

text \<open>The derived \<open>Ord\<close> of \<open>BindingTrigger\<close>.\<close>

fun binding_trigger_key ::
  "binding_trigger \<Rightarrow> nat \<times> string \<times> modifier list \<times> nat \<times> nat" where
  "binding_trigger_key (Keyboard h) = (0, h, [], 0, 0)"
| "binding_trigger_key (Composite c) =
     (1, [], ct_modifiers c, mouse_trigger_key (ct_primary c))"

lemma binding_trigger_key_inj [simp]: "binding_trigger_key a = binding_trigger_key b \<longleftrightarrow> a = b"
  by (cases a; cases b) auto

instantiation binding_trigger :: linorder
begin

definition less_eq_binding_trigger :: "binding_trigger \<Rightarrow> binding_trigger \<Rightarrow> bool" where
  "less_eq_binding_trigger a b = (binding_trigger_key a \<le> binding_trigger_key b)"

definition less_binding_trigger :: "binding_trigger \<Rightarrow> binding_trigger \<Rightarrow> bool" where
  "less_binding_trigger a b = (binding_trigger_key a < binding_trigger_key b)"

instance
proof
  fix a b c :: binding_trigger
  show "a < b \<longleftrightarrow> a \<le> b \<and> \<not> b \<le> a"
    unfolding less_eq_binding_trigger_def less_binding_trigger_def by (rule less_le_not_le)
  show "a \<le> a" unfolding less_eq_binding_trigger_def by (rule order_refl)
  show "a \<le> b \<Longrightarrow> b \<le> c \<Longrightarrow> a \<le> c"
    unfolding less_eq_binding_trigger_def by (rule order_trans)
  show "a \<le> b \<Longrightarrow> b \<le> a \<Longrightarrow> a = b"
    unfolding less_eq_binding_trigger_def by (drule (1) antisym) simp
  show "a \<le> b \<or> b \<le> a" unfolding less_eq_binding_trigger_def by (rule linear)
qed

end

record binding_definition =
  bd_trigger :: binding_trigger
  bd_mode :: binding_mode
  bd_macro :: macro_definition

record hotkey_binding =
  hb_trigger :: binding_trigger
  hb_scope :: scope_selection
  hb_mode :: binding_mode
  hb_macro :: macro_definition
  hb_registration_state :: registration_state

record runtime_motion =
  rm_definition :: motion_definition
  rm_scope :: scope_selection

record runtime_press =
  rp_definition :: press_definition
  rp_scope :: scope_selection

definition trigger_label :: "hotkey_binding \<Rightarrow> string" where
  "trigger_label b = binding_trigger_describe (hb_trigger b)"

definition keyboard_hotkey :: "hotkey_binding \<Rightarrow> hotkey_id option" where
  "keyboard_hotkey b = (case hb_trigger b of Keyboard h \<Rightarrow> Some h | Composite _ \<Rightarrow> None)"

section \<open>The configuration\<close>

record lua_configuration =
  lc_scope :: "script_scope option"
  lc_leader :: "motion_token option"
  lc_defaults :: automation_defaults
  lc_input_provider :: "input_provider_config option"
  lc_bindings :: "(binding_trigger \<times> binding_definition) list"
  lc_motions :: "(motion_trigger \<times> motion_definition) list"
  lc_presses :: "(motion_token \<times> press_definition) list"

text \<open>The loops that insert and refuse a key that is already there.\<close>

fun insert_unique ::
  "string \<Rightarrow> ('a \<Rightarrow> 'k::linorder) \<Rightarrow> ('k \<times> 'a) list \<Rightarrow> 'a list \<Rightarrow> ('k \<times> 'a) list result" where
  "insert_unique message key m [] = Ok m"
| "insert_unique message key m (x # xs) =
     (if bm_contains m (key x) then Err (diagnosable_error_new ScriptValidation message)
      else insert_unique message key (bm_insert (key x) x m) xs)"

definition trigger_is_prefix :: "motion_trigger \<Rightarrow> motion_trigger \<Rightarrow> bool" where
  "trigger_is_prefix l r = (length l < length r \<and> prefix l r)"

fun reject_overlaps_with :: "motion_trigger \<Rightarrow> motion_trigger list \<Rightarrow> unit result" where
  "reject_overlaps_with l [] = Ok ()"
| "reject_overlaps_with l (r # rs) =
     (if trigger_is_prefix l r \<or> trigger_is_prefix r l
      then Err (diagnosable_error_new ScriptValidation
             (''prefix-overlapping motion triggers are ambiguous: '' @ [CHR 0x27]
              @ trigger_describe l @ [CHR 0x27] @ '' and '' @ [CHR 0x27] @ trigger_describe r
              @ [CHR 0x27]))
      else reject_overlaps_with l rs)"

fun reject_prefix_overlapping :: "motion_trigger list \<Rightarrow> unit result" where
  "reject_prefix_overlapping [] = Ok ()"
| "reject_prefix_overlapping (l # rs) =
     rbind (reject_overlaps_with l rs) (\<lambda>_. reject_prefix_overlapping rs)"

definition with_bindings_and_motions ::
  "script_scope option \<Rightarrow> motion_token option \<Rightarrow> automation_defaults
   \<Rightarrow> input_provider_config option \<Rightarrow> binding_definition list \<Rightarrow> motion_definition list
   \<Rightarrow> press_definition list \<Rightarrow> lua_configuration result" where
  "with_bindings_and_motions scope leader defaults provider bindings motions presses =
     (if bindings = [] \<and> motions = [] \<and> presses = []
      then Err (diagnosable_error_new ScriptValidation
             ''configuration must contain at least one binding, motion, or press'')
      else
        rbind (insert_unique ''duplicate binding trigger after normalization'' bd_trigger []
                 bindings) (\<lambda>bs.
        rbind (insert_unique ''duplicate motion trigger after normalization'' mo_trigger []
                 motions) (\<lambda>ms.
        rbind (reject_prefix_overlapping (bm_keys ms)) (\<lambda>_.
        rbind (insert_unique ''duplicate press trigger after normalization'' pd_trigger []
                 presses) (\<lambda>ps.
          Ok \<lparr>lc_scope = scope, lc_leader = leader, lc_defaults = defaults,
              lc_input_provider = provider, lc_bindings = bs, lc_motions = ms,
              lc_presses = ps\<rparr>)))))"

definition with_bindings ::
  "script_scope option \<Rightarrow> binding_definition list \<Rightarrow> lua_configuration result" where
  "with_bindings scope bindings =
     with_bindings_and_motions scope None automation_defaults_default None bindings [] []"

definition configuration_new ::
  "script_scope option \<Rightarrow> (hotkey_id \<times> macro_definition) list \<Rightarrow> lua_configuration result" where
  "configuration_new scope hotkeys =
     (if hotkeys = []
      then Err (diagnosable_error_new ScriptValidation ''hotkeys must contain at least one binding'')
      else with_bindings scope
        (map (\<lambda>(h, m). \<lparr>bd_trigger = Keyboard h, bd_mode = Consume, bd_macro = m\<rparr>) hotkeys))"

definition configuration_hotkeys :: "lua_configuration \<Rightarrow> (hotkey_id \<times> macro_definition) list" where
  "configuration_hotkeys c =
     bm_from (List.map_filter (\<lambda>(t, b). case t of
        Keyboard h \<Rightarrow> Some (h, bd_macro b) | Composite _ \<Rightarrow> None) (lc_bindings c))"

definition motions_for_scope :: "lua_configuration \<Rightarrow> scope_selection \<Rightarrow> runtime_motion list" where
  "motions_for_scope c s = map (\<lambda>m. \<lparr>rm_definition = m, rm_scope = s\<rparr>) (bm_values (lc_motions c))"

definition presses_for_scope :: "lua_configuration \<Rightarrow> scope_selection \<Rightarrow> runtime_press list" where
  "presses_for_scope c s = map (\<lambda>p. \<lparr>rp_definition = p, rp_scope = s\<rparr>) (bm_values (lc_presses c))"

definition bindings_for_scope :: "lua_configuration \<Rightarrow> scope_selection \<Rightarrow> hotkey_binding list" where
  "bindings_for_scope c s =
     map (\<lambda>b. \<lparr>hb_trigger = bd_trigger b, hb_scope = s, hb_mode = bd_mode b, hb_macro = bd_macro b,
               hb_registration_state = Pending\<rparr>) (bm_values (lc_bindings c))"

section \<open>Required capabilities\<close>

definition is_generated_input :: "macro_action \<Rightarrow> bool" where
  "is_generated_input a = (case a of Delay _ \<Rightarrow> False | _ \<Rightarrow> True)"

definition macro_requires_synthesized_input :: "macro_definition \<Rightarrow> bool" where
  "macro_requires_synthesized_input d = list_ex is_generated_input (md_actions d)"

definition is_process_list :: "scope_selection \<Rightarrow> bool" where
  "is_process_list s = (case s of ProcessList _ \<Rightarrow> True | ExplicitGlobal \<Rightarrow> False)"

definition binding_requires :: "hotkey_binding \<Rightarrow> capability_kind list" where
  "binding_requires b =
     (case hb_trigger b of
        Keyboard _ \<Rightarrow> [GlobalShortcut]
      | Composite _ \<Rightarrow> CompositePointerObservation
          # (if hb_mode b = Consume then [CompositePointerConsumption] else []))
     @ (if is_process_list (hb_scope b) then [ActiveProcessMetadata] else [])
     @ (if macro_requires_synthesized_input (hb_macro b) then [SynthesizedInput] else [])"

definition for_bindings :: "hotkey_binding list \<Rightarrow> capability_set" where
  "for_bindings bs = capability_set_new (concat (map binding_requires bs))"

definition option_requires_input :: "macro_definition option \<Rightarrow> bool" where
  "option_requires_input d = is_some_and macro_requires_synthesized_input d"

definition motion_has_generated_input :: "motion_definition \<Rightarrow> bool" where
  "motion_has_generated_input m =
     (option_requires_input (mo_macro m)
      \<or> (case mo_loop m of
           None \<Rightarrow> False
         | Some l \<Rightarrow> option_requires_input (ld_before l)
             \<or> (case ld_body l of
                  Once d \<Rightarrow> macro_requires_synthesized_input d
                | Repeat r \<Rightarrow> macro_requires_synthesized_input (lr_macro r))
             \<or> option_requires_input (ld_after l)))"

definition motion_requires :: "motion_definition \<Rightarrow> capability_kind list" where
  "motion_requires m =
     CompositePointerObservation
     # (if mo_mode m = Consume then [CompositePointerConsumption] else [])
     @ (if motion_has_generated_input m then [SynthesizedInput] else [])"

definition press_requires :: "press_definition \<Rightarrow> capability_kind list" where
  "press_requires p =
     CompositePointerObservation
     # (if pd_mode p = Consume then [CompositePointerConsumption] else [])
     @ (if macro_requires_synthesized_input (pd_macro p) then [SynthesizedInput] else [])"

definition for_configuration_scope :: "lua_configuration \<Rightarrow> scope_selection \<Rightarrow> capability_set" where
  "for_configuration_scope c s =
     capability_set_new
       (concat (map (\<lambda>b. for_bindings [b]) (bindings_for_scope c s))
        @ (if lc_motions c \<noteq> [] \<and> is_process_list s then [ActiveProcessMetadata] else [])
        @ concat (map motion_requires (bm_values (lc_motions c)))
        @ (if lc_presses c \<noteq> [] \<and> is_process_list s then [ActiveProcessMetadata] else [])
        @ concat (map press_requires (bm_values (lc_presses c))))"

definition for_configuration :: "lua_configuration \<Rightarrow> capability_set" where
  "for_configuration c = for_configuration_scope c ExplicitGlobal"

section \<open>What validation accepts\<close>

lemma insert_unique_Ok_iff:
  "insert_unique msg key m xs = Inr m' \<longleftrightarrow>
     distinct (map key xs) \<and> (\<forall>x\<in>set xs. key x \<notin> fst ` set m)
     \<and> m' = foldl (\<lambda>m x. bm_insert (key x) x m) m xs"
proof (induction xs arbitrary: m)
  case (Cons x xs)
  show ?case
    by (cases "bm_contains m (key x)") (auto simp: bm_contains_iff Cons.IH, metis image_eqI)
qed auto

lemma insert_unique_ok:
  assumes "insert_unique msg key m xs = Inr m'" and "bm_ok m"
  shows "bm_ok m'" and "set m' = set m \<union> (\<lambda>x. (key x, x)) ` set xs"
proof -
  have "bm_ok m' \<and> set m' = set m \<union> (\<lambda>x. (key x, x)) ` set xs"
    using assms
  proof (induction xs arbitrary: m)
    case (Cons x xs)
    then have new: "key x \<notin> fst ` set m"
      and rest: "insert_unique msg key (bm_insert (key x) x m) xs = Inr m'"
      by (auto simp: bm_contains_iff split: if_splits)
    have "set (bm_insert (key x) x m) = insert (key x, x) (set m)"
      using new by (induction "key x" x m rule: bm_insert.induct) auto
    with Cons.IH [OF rest] Cons.prems(2) show ?case by auto
  qed simp
  then show "bm_ok m'" and "set m' = set m \<union> (\<lambda>x. (key x, x)) ` set xs" by auto
qed

lemma reject_overlaps_with_Ok_iff:
  "reject_overlaps_with l rs = Inr u \<longleftrightarrow>
     (\<forall>r\<in>set rs. \<not> trigger_is_prefix l r \<and> \<not> trigger_is_prefix r l)"
  by (induction rs) auto

lemma reject_prefix_overlapping_Ok_iff:
  "reject_prefix_overlapping ts = Inr u \<longleftrightarrow>
     (\<forall>l\<in>set ts. \<forall>r\<in>set ts. \<not> trigger_is_prefix l r)"
  by (induction ts) (auto simp: reject_overlaps_with_Ok_iff trigger_is_prefix_def)

lemma insert_unique_Ok_ex:
  "(\<exists>m'. insert_unique msg key [] xs = Inr m') \<longleftrightarrow> distinct (map key xs)"
  by (auto simp: insert_unique_Ok_iff)

lemma insert_unique_keys:
  assumes "insert_unique msg key [] xs = Inr m'"
  shows "fst ` set m' = key ` set xs"
  using insert_unique_ok(2) [OF assms] by (auto simp: image_iff)

text \<open>
  A configuration is accepted when it has an entry, no trigger twice in a map, and no motion
  trigger that is a proper prefix of another; its maps then hold the given definitions.
\<close>

definition no_overlap :: "motion_trigger set \<Rightarrow> bool" where
  "no_overlap T \<longleftrightarrow> (\<forall>l\<in>T. \<forall>r\<in>T. \<not> strict_prefix l r)"

lemma trigger_is_prefix_iff: "trigger_is_prefix l r \<longleftrightarrow> strict_prefix l r"
  by (auto simp: trigger_is_prefix_def strict_prefix_def prefix_def)

lemma configuration_accepted_iff:
  "(\<exists>c. with_bindings_and_motions scope leader defaults provider bs ms ps = Inr c) \<longleftrightarrow>
     (bs \<noteq> [] \<or> ms \<noteq> [] \<or> ps \<noteq> []) \<and> distinct (map bd_trigger bs)
     \<and> distinct (map mo_trigger ms) \<and> distinct (map pd_trigger ps)
     \<and> no_overlap (mo_trigger ` set ms)"
proof -
  let ?B = "insert_unique ''duplicate binding trigger after normalization'' bd_trigger [] bs"
  let ?M = "insert_unique ''duplicate motion trigger after normalization'' mo_trigger [] ms"
  let ?P = "insert_unique ''duplicate press trigger after normalization'' pd_trigger [] ps"
  have "(\<exists>c. with_bindings_and_motions scope leader defaults provider bs ms ps = Inr c) \<longleftrightarrow>
      (bs \<noteq> [] \<or> ms \<noteq> [] \<or> ps \<noteq> []) \<and> (\<exists>b. ?B = Inr b)
      \<and> (\<exists>m. ?M = Inr m \<and> (\<exists>u. reject_prefix_overlapping (bm_keys m) = Inr u)) \<and> (\<exists>p. ?P = Inr p)"
    by (auto simp: with_bindings_and_motions_def)
  also have "(\<exists>m. ?M = Inr m \<and> (\<exists>u. reject_prefix_overlapping (bm_keys m) = Inr u)) \<longleftrightarrow>
      distinct (map mo_trigger ms) \<and> no_overlap (mo_trigger ` set ms)"
  proof -
    have rej: "(\<exists>u. reject_prefix_overlapping (bm_keys m) = Inr u) \<longleftrightarrow> no_overlap (mo_trigger ` set ms)"
      if "?M = Inr m" for m
      using insert_unique_keys [OF that]
      by (simp add: reject_prefix_overlapping_Ok_iff no_overlap_def trigger_is_prefix_iff)
    have "(\<exists>m. ?M = Inr m) \<longleftrightarrow> distinct (map mo_trigger ms)" by (rule insert_unique_Ok_ex)
    with rej show ?thesis by blast
  qed
  finally show ?thesis by (simp add: insert_unique_Ok_ex conj_ac)
qed

lemma configuration_contents:
  assumes "with_bindings_and_motions scope leader defaults provider bs ms ps = Inr c"
  shows "bm_ok (lc_bindings c)" and "set (lc_bindings c) = (\<lambda>b. (bd_trigger b, b)) ` set bs"
    and "bm_ok (lc_motions c)" and "set (lc_motions c) = (\<lambda>m. (mo_trigger m, m)) ` set ms"
    and "bm_ok (lc_presses c)" and "set (lc_presses c) = (\<lambda>p. (pd_trigger p, p)) ` set ps"
    and "no_overlap (fst ` set (lc_motions c))"
proof -
  from assms obtain b m p u where
    b: "insert_unique ''duplicate binding trigger after normalization'' bd_trigger [] bs = Inr b" and
    m: "insert_unique ''duplicate motion trigger after normalization'' mo_trigger [] ms = Inr m" and
    p: "insert_unique ''duplicate press trigger after normalization'' pd_trigger [] ps = Inr p" and
    u: "reject_prefix_overlapping (bm_keys m) = Inr u" and
    c: "lc_bindings c = b" "lc_motions c = m" "lc_presses c = p"
    by (auto simp: with_bindings_and_motions_def split: if_splits)
  show "bm_ok (lc_bindings c)" "set (lc_bindings c) = (\<lambda>b. (bd_trigger b, b)) ` set bs"
    using insert_unique_ok [OF b] by (simp_all add: c)
  show "bm_ok (lc_motions c)" "set (lc_motions c) = (\<lambda>m. (mo_trigger m, m)) ` set ms"
    using insert_unique_ok [OF m] by (simp_all add: c)
  show "bm_ok (lc_presses c)" "set (lc_presses c) = (\<lambda>p. (pd_trigger p, p)) ` set ps"
    using insert_unique_ok [OF p] by (simp_all add: c)
  show "no_overlap (fst ` set (lc_motions c))"
    using u by (simp add: c reject_prefix_overlapping_Ok_iff no_overlap_def trigger_is_prefix_iff)
qed

text \<open>The runtime of an accepted configuration meets the hypothesis of completeness.\<close>

lemma configuration_prefix_free:
  assumes "with_bindings_and_motions scope leader defaults provider bs ms ps = Inr c"
  shows "prefix_free (motion_runtime_new (bm_values (lc_motions c)))"
proof -
  note cont = configuration_contents [OF assms]
  have "fst ` set (rt_motions (motion_runtime_new (bm_values (lc_motions c))))
      = mo_trigger ` snd ` set (lc_motions c)"
    by (simp add: motion_runtime_new_def image_image)
  also have "\<dots> = fst ` set (lc_motions c)" unfolding cont(4) by (simp add: image_image)
  finally show ?thesis
    using cont(7) by (simp add: prefix_free_def no_overlap_def strict_prefix_def)
qed

lemma configuration_motion:
  assumes "with_bindings_and_motions scope leader defaults provider bs ms ps = Inr c"
    and "m \<in> set ms"
  shows "runtime_motion (motion_runtime_new (bm_values (lc_motions c))) (mo_trigger m) = Some m"
proof -
  note cont = configuration_contents [OF assms(1)]
  have "map (\<lambda>m. (mo_trigger m, m)) (bm_values (lc_motions c)) = lc_motions c"
    using cont(4) by (auto intro!: map_idI)
  moreover have "distinct (map fst (rev (lc_motions c)))"
    using bm_ok_distinct [OF cont(3)] by (simp add: rev_map [symmetric])
  moreover have "(mo_trigger m, m) \<in> set (rev (lc_motions c))"
    using assms(2) cont(4) by auto
  ultimately show ?thesis
    by (simp only: runtime_motion_def motion_runtime_new_def motion_runtime.simps bm_get_from
        map_of_eq_Some_iff)
qed

section \<open>What a configuration requires\<close>

lemma set_for_bindings: "set (for_bindings bs) = (\<Union>b\<in>set bs. set (binding_requires b))"
  by (simp add: for_bindings_def)

lemma for_configuration_scope_iff:
  "set (for_configuration_scope c s) =
     (\<Union>b\<in>set (bindings_for_scope c s). set (binding_requires b))
     \<union> (\<Union>m\<in>snd ` set (lc_motions c). set (motion_requires m))
     \<union> (\<Union>p\<in>snd ` set (lc_presses c). set (press_requires p))
     \<union> (if (lc_motions c \<noteq> [] \<or> lc_presses c \<noteq> []) \<and> is_process_list s
        then {ActiveProcessMetadata} else {})"
  by (auto simp: for_configuration_scope_def set_for_bindings)

lemma capability_sets_ok: "bs_ok (for_bindings bs)" "bs_ok (for_configuration_scope c s)"
  by (simp_all add: for_bindings_def for_configuration_scope_def capability_set_new_def)

text \<open>Every process scope asks for the active process, as soon as there is something to trigger.\<close>

lemma process_scope_requires_metadata:
  assumes "lc_bindings c \<noteq> [] \<or> lc_motions c \<noteq> [] \<or> lc_presses c \<noteq> []" and "is_process_list s"
  shows "ActiveProcessMetadata \<in> set (for_configuration_scope c s)"
proof (cases "lc_bindings c")
  case Nil
  with assms show ?thesis by (auto simp: for_configuration_scope_iff)
next
  case (Cons b bs)
  then have "hd (bindings_for_scope c s) \<in> set (bindings_for_scope c s)"
    and "hb_scope (hd (bindings_for_scope c s)) = s"
    by (simp_all add: bindings_for_scope_def)
  moreover from this assms(2)
  have "ActiveProcessMetadata \<in> set (binding_requires (hd (bindings_for_scope c s)))"
    by (simp add: binding_requires_def)
  ultimately show ?thesis unfolding for_configuration_scope_iff by blast
qed

lemma evdev_all_grab_acknowledged:
  "provider_evdev_all Grab output risk = Inr c \<longleftrightarrow>
     risk = Some ''GRAB_ALL_INPUTS''
     \<and> c = \<lparr>ip_backend = Evdev, ip_mode = Grab, ip_output = output, ip_devices = [],
            ip_all_devices = True, ip_interactive_devices = False\<rparr>"
  by (auto simp: provider_evdev_all_def)

end
