(* ===== verification/Controllers.thy ===== *)
theory Controllers imports Config begin

text \<open>
  \<open>signal-auras-core/src/controller.rs\<close>: controller registrations, the callback scheduler that
  admits one callback per label under a bounded queue, and the bounded batch of output requests.
\<close>

section \<open>Registrations\<close>

datatype controller_registration_kind = Hotkey | Motion | Press | Timer | Shutdown

fun show_registration_kind :: "controller_registration_kind \<Rightarrow> string" where
  "show_registration_kind Hotkey = ''Hotkey''"
| "show_registration_kind Motion = ''Motion''"
| "show_registration_kind Press = ''Press''"
| "show_registration_kind Timer = ''Timer''"
| "show_registration_kind Shutdown = ''Shutdown''"

datatype callback_overload_policy = SkipWhilePending | DropNewest

record controller_loop_policy =
  lp_while_held :: motion_trigger
  lp_before_callback :: "string option"
  lp_repeat_every_ms :: nat
  lp_repeat_callback :: string
  lp_after_callback :: "string option"

record controller_registration =
  cg_kind :: controller_registration_kind
  cg_trigger :: string
  cg_scope :: scope_selection
  cg_mode :: binding_mode
  cg_callback :: string
  cg_required :: capability_set
  cg_overload_policy :: callback_overload_policy
  cg_requires_held :: held_condition
  cg_loop_policy :: "controller_loop_policy option"

definition normalize_label :: "string \<Rightarrow> string \<Rightarrow> string result" where
  "normalize_label input field =
     (let value = trim input
      in if value = [] then Err (diagnosable_error_new ScriptValidation (field @ '' cannot be empty''))
         else Ok (join '' '' (split_whitespace value)))"

text \<open>\<open>Option::map(..).transpose()\<close>.\<close>

definition normalize_optional :: "string option \<Rightarrow> string \<Rightarrow> string option result" where
  "normalize_optional v field =
     (case v of None \<Rightarrow> Ok None | Some c \<Rightarrow> rbind (normalize_label c field) (\<lambda>l. Ok (Some l)))"

definition loop_policy_new ::
  "motion_trigger \<Rightarrow> string option \<Rightarrow> nat \<Rightarrow> string \<Rightarrow> string option
   \<Rightarrow> controller_loop_policy result" where
  "loop_policy_new while_held before every_ms repeat_callback after =
     (if every_ms = 0
      then Err (diagnosable_error_new ScriptValidation
             ''controller loop repeat every_ms must be a positive integer'')
      else
        rbind (normalize_optional before ''controller loop before callback'') (\<lambda>b.
        rbind (normalize_label repeat_callback ''controller loop repeat callback'') (\<lambda>r.
        rbind (normalize_optional after ''controller loop after callback'') (\<lambda>a.
          Ok \<lparr>lp_while_held = while_held, lp_before_callback = b, lp_repeat_every_ms = every_ms,
              lp_repeat_callback = r, lp_after_callback = a\<rparr>))))"

definition registration_new ::
  "controller_registration_kind \<Rightarrow> string \<Rightarrow> scope_selection \<Rightarrow> binding_mode \<Rightarrow> string
   \<Rightarrow> capability_set \<Rightarrow> controller_registration result" where
  "registration_new kind trigger scope mode callback required =
     rbind (normalize_label trigger ''controller registration trigger'') (\<lambda>t.
     rbind (normalize_label callback ''controller callback name'') (\<lambda>c.
     rbind (held_condition_new []) (\<lambda>h.
       Ok \<lparr>cg_kind = kind, cg_trigger = t, cg_scope = scope, cg_mode = mode, cg_callback = c,
           cg_required = required, cg_overload_policy = SkipWhilePending, cg_requires_held = h,
           cg_loop_policy = None\<rparr>)))"

definition with_overload_policy where
  "with_overload_policy p r = r\<lparr>cg_overload_policy := (p :: callback_overload_policy)\<rparr>"

definition with_requires_held where
  "with_requires_held h r = r\<lparr>cg_requires_held := (h :: held_condition)\<rparr>"

definition with_loop_policy where
  "with_loop_policy l r = r\<lparr>cg_loop_policy := (l :: controller_loop_policy option)\<rparr>"

definition with_callback ::
  "string \<Rightarrow> controller_registration \<Rightarrow> controller_registration result" where
  "with_callback c r =
     rbind (normalize_label c ''controller callback name'') (\<lambda>l. Ok (r\<lparr>cg_callback := l\<rparr>))"

definition registration_label :: "controller_registration \<Rightarrow> string" where
  "registration_label r = show_registration_kind (cg_kind r) @ '':'' @ cg_trigger r"

definition scope_label :: "controller_registration \<Rightarrow> string" where
  "scope_label r =
     (case cg_scope r of ExplicitGlobal \<Rightarrow> ''global'' | ProcessList ps \<Rightarrow> join '','' ps)"

section \<open>Registration sets\<close>

type_synonym registration_key = "controller_registration_kind \<times> string \<times> string"

definition registration_key :: "controller_registration \<Rightarrow> registration_key" where
  "registration_key r = (cg_kind r, scope_label r, cg_trigger r)"

fun check_unique ::
  "registration_key list \<Rightarrow> capability_kind list \<Rightarrow> controller_registration list
   \<Rightarrow> capability_kind list result" where
  "check_unique seen required [] = Ok required"
| "check_unique seen required (r # rs) =
     (if List.member seen (registration_key r)
      then Err (diagnosable_error_new ScriptValidation
             (''duplicate controller trigger after normalization: '' @ [CHR 0x27] @ cg_trigger r
              @ [CHR 0x27]))
      else check_unique (registration_key r # seen) (required @ cg_required r) rs)"

definition tokens_overlap :: "string list \<Rightarrow> string list \<Rightarrow> bool" where
  "tokens_overlap l r =
     ((length l < length r \<and> prefix l r) \<or> (length r < length l \<and> prefix r l))"

definition registrations_overlap :: "controller_registration \<Rightarrow> controller_registration \<Rightarrow> bool" where
  "registrations_overlap l r =
     (scope_label l = scope_label r
      \<and> tokens_overlap (split_on (CHR '' '') (cg_trigger l)) (split_on (CHR '' '') (cg_trigger r)))"

fun reject_registration_overlaps :: "controller_registration list \<Rightarrow> unit result" where
  "reject_registration_overlaps [] = Ok ()"
| "reject_registration_overlaps (l # rs) =
     (case List.find (registrations_overlap l) rs of
        Some r \<Rightarrow> Err (diagnosable_error_new ScriptValidation
          (''prefix-overlapping controller motion triggers are ambiguous: '' @ [CHR 0x27]
           @ cg_trigger l @ [CHR 0x27] @ '' and '' @ [CHR 0x27] @ cg_trigger r @ [CHR 0x27]))
      | None \<Rightarrow> reject_registration_overlaps rs)"

definition reject_prefix_overlapping_motions :: "controller_registration list \<Rightarrow> unit result" where
  "reject_prefix_overlapping_motions rs =
     reject_registration_overlaps (filter (\<lambda>r. cg_kind r = Motion) rs)"

record registration_set =
  rg_registrations :: "controller_registration list"
  rg_required :: capability_set

definition registration_set_new :: "controller_registration list \<Rightarrow> registration_set result" where
  "registration_set_new rs =
     rbind (check_unique [] [] rs) (\<lambda>required.
     rbind (reject_prefix_overlapping_motions rs) (\<lambda>_.
       Ok \<lparr>rg_registrations = rs, rg_required = capability_set_new required\<rparr>))"

definition validate_capabilities :: "capability_set \<Rightarrow> capability_report \<Rightarrow> unit result" where
  "validate_capabilities required report =
     (case first_blocking_error report required of None \<Rightarrow> Ok () | Some e \<Rightarrow> Err e)"

record controller_callback =
  cb_name :: string
  cb_actions :: "macro_action list"

definition controller_callback_new ::
  "string \<Rightarrow> macro_action list \<Rightarrow> controller_callback result" where
  "controller_callback_new name actions =
     rbind (normalize_label name ''controller callback name'') (\<lambda>n.
       Ok \<lparr>cb_name = n, cb_actions = actions\<rparr>)"

definition callback_required :: "controller_callback \<Rightarrow> capability_set" where
  "callback_required c =
     (if cb_actions c = [] then [] else capability_set_new [SynthesizedInput])"

section \<open>The callback scheduler\<close>

datatype callback_disposition =
    Accepted | Skipped | Denied | Dropped | Completed | Slow | Preempted | Failed | Cancelled

record lua_callback_task =
  tk_label :: string
  tk_callback :: string
  tk_accepted_at :: instant
  tk_budget :: duration

record callback_schedule_result =
  sr_disposition :: callback_disposition
  sr_diagnostic :: "adapter_diagnostic option"

definition schedule_result :: "callback_disposition \<Rightarrow> callback_schedule_result" where
  "schedule_result d = \<lparr>sr_disposition = d, sr_diagnostic = None\<rparr>"

record callback_scheduler =
  sc_max_pending :: nat
  sc_default_budget :: duration
  sc_pending :: "lua_callback_task list"
  sc_active_or_pending :: "string list"

definition default_lua_callback_budget :: duration where
  "default_lua_callback_budget = from_millis 50"

definition callback_scheduler_new :: "nat \<Rightarrow> duration \<Rightarrow> callback_scheduler result" where
  "callback_scheduler_new max_pending budget =
     (if max_pending = 0
      then Err (diagnosable_error_new ScriptValidation
             ''callback scheduler capacity must be greater than zero'')
      else if budget = 0
      then Err (diagnosable_error_new ScriptValidation ''callback budget must be greater than zero'')
      else Ok \<lparr>sc_max_pending = max_pending, sc_default_budget = budget, sc_pending = [],
               sc_active_or_pending = []\<rparr>)"

fun capability_to_kind :: "capability \<Rightarrow> capability_kind" where
  "capability_to_kind capability.GlobalShortcut = GlobalShortcut"
| "capability_to_kind capability.CompositePointerObservation = CompositePointerObservation"
| "capability_to_kind capability.CompositePointerConsumption = CompositePointerConsumption"
| "capability_to_kind capability.ActiveProcess = ActiveProcessMetadata"
| "capability_to_kind capability.ActiveWindowMetadata = ActiveWindowMetadata"
| "capability_to_kind capability.WindowActivation = WindowActivation"
| "capability_to_kind capability.SynthesizedInput = SynthesizedInput"
| "capability_to_kind capability.Timer = capability_kind.Timer"
| "capability_to_kind capability.ScreenRead = ScreenRead"

definition scheduler_schedule ::
  "callback_scheduler \<Rightarrow> controller_registration \<Rightarrow> capability_report \<Rightarrow> instant
   \<Rightarrow> callback_scheduler \<times> callback_schedule_result" where
  "scheduler_schedule s r capabilities accepted_at =
     (case first_blocking_error capabilities (cg_required r) of
        Some e \<Rightarrow>
          (s, \<lparr>sr_disposition = Denied,
               sr_diagnostic = Some (ad_with_capability
                 (case er_capability e of None \<Rightarrow> SynthesizedInput | Some c \<Rightarrow> capability_to_kind c)
                 (adapter_diagnostic_new CapabilityProbe (er_message e)))\<rparr>)
      | None \<Rightarrow>
          let label = registration_label r
          in if List.member (sc_active_or_pending s) label
             then (s, schedule_result (case cg_overload_policy r of
                        SkipWhilePending \<Rightarrow> Skipped | DropNewest \<Rightarrow> Dropped))
             else if sc_max_pending s \<le> length (sc_pending s)
             then (s, schedule_result Dropped)
             else (s\<lparr>sc_active_or_pending := bs_insert label (sc_active_or_pending s),
                     sc_pending := sc_pending s @ [\<lparr>tk_label = label, tk_callback = cg_callback r,
                       tk_accepted_at = accepted_at, tk_budget = sc_default_budget s\<rparr>]\<rparr>,
                   schedule_result Accepted))"

definition scheduler_pop_next ::
  "callback_scheduler \<Rightarrow> callback_scheduler \<times> lua_callback_task option" where
  "scheduler_pop_next s =
     (case sc_pending s of [] \<Rightarrow> (s, None) | t # ts \<Rightarrow> (s\<lparr>sc_pending := ts\<rparr>, Some t))"

definition scheduler_release :: "callback_scheduler \<Rightarrow> string \<Rightarrow> callback_scheduler" where
  "scheduler_release s label =
     s\<lparr>sc_active_or_pending := bs_remove label (sc_active_or_pending s)\<rparr>"

definition scheduler_finish_task ::
  "callback_scheduler \<Rightarrow> lua_callback_task \<Rightarrow> duration \<Rightarrow> callback_scheduler \<times> callback_disposition"
  where
  "scheduler_finish_task s t elapsed =
     (scheduler_release s (tk_label t), if tk_budget t < elapsed then Slow else Completed)"

definition scheduler_cancel_task ::
  "callback_scheduler \<Rightarrow> lua_callback_task \<Rightarrow> callback_scheduler \<times> callback_disposition" where
  "scheduler_cancel_task s t = (scheduler_release s (tk_label t), Cancelled)"

definition scheduler_preempt_task ::
  "callback_scheduler \<Rightarrow> lua_callback_task \<Rightarrow> callback_scheduler \<times> callback_disposition" where
  "scheduler_preempt_task s t = (scheduler_release s (tk_label t), Preempted)"

definition scheduler_cancel_all :: "callback_scheduler \<Rightarrow> callback_scheduler \<times> nat" where
  "scheduler_cancel_all s =
     (s\<lparr>sc_pending := [], sc_active_or_pending := []\<rparr>, length (sc_pending s))"

section \<open>The output batch\<close>

record rust_operation_batch =
  rb_max_pending :: nat
  rb_requests :: "synthesized_input_request list"
  rb_next_sequence :: nat

definition batch_new :: "nat \<Rightarrow> rust_operation_batch result" where
  "batch_new max_pending =
     (if max_pending = 0
      then Err (diagnosable_error_new ScriptValidation
             ''output batch capacity must be greater than zero'')
      else Ok \<lparr>rb_max_pending = max_pending, rb_requests = [], rb_next_sequence = 0\<rparr>)"

definition batch_enqueue_input ::
  "rust_operation_batch \<Rightarrow> macro_action \<Rightarrow> capability_report \<Rightarrow> rust_operation_batch \<times> unit result"
  where
  "batch_enqueue_input b action capabilities =
     (case first_blocking_error capabilities (capability_set_new [SynthesizedInput]) of
        Some e \<Rightarrow> (b, Err e)
      | None \<Rightarrow>
          if rb_max_pending b \<le> length (rb_requests b)
          then (b, Err (with_capability capability.SynthesizedInput
                 (diagnosable_error_new MacroExecution ''output queue is full'')))
          else (b\<lparr>rb_next_sequence := rb_next_sequence b + 1,
                  rb_requests := rb_requests b
                    @ [synthesized_input_request_new action (rb_next_sequence b)]\<rparr>, Ok ()))"

definition batch_drain ::
  "rust_operation_batch \<Rightarrow> rust_operation_batch \<times> synthesized_input_request list" where
  "batch_drain b = (b\<lparr>rb_requests := []\<rparr>, rb_requests b)"

fun enqueue_actions ::
  "macro_action list \<Rightarrow> capability_report \<Rightarrow> rust_operation_batch \<Rightarrow> rust_operation_batch \<times> unit result"
  where
  "enqueue_actions [] capabilities b = (b, Ok ())"
| "enqueue_actions (a # as) capabilities b =
     (case batch_enqueue_input b a capabilities of
        (b', Inl e) \<Rightarrow> (b', Err e)
      | (b', Inr _) \<Rightarrow> enqueue_actions as capabilities b')"

definition queue_controller_callback_outputs ::
  "controller_callback \<Rightarrow> capability_report \<Rightarrow> rust_operation_batch
   \<Rightarrow> rust_operation_batch \<times> unit result" where
  "queue_controller_callback_outputs c capabilities b = enqueue_actions (cb_actions c) capabilities b"

definition available_capability_report :: "capability_set \<Rightarrow> string \<Rightarrow> capability_report" where
  "available_capability_report required source =
     report_from_statuses (map (\<lambda>k. status_available k source) required)"

definition denied_capability_report :: "capability_kind \<Rightarrow> string \<Rightarrow> capability_report" where
  "denied_capability_report k message =
     report_from_statuses [status_unavailable k capability_availability.Denied
       (ad_with_capability k (adapter_diagnostic_new CapabilityProbe message))]"

section \<open>Labels\<close>

lemma split_whitespace_trim_nonempty: "trim v \<noteq> [] \<Longrightarrow> split_whitespace (trim v) \<noteq> []"
proof -
  assume ne: "trim v \<noteq> []"
  have "s \<noteq> [] \<Longrightarrow> \<not> is_ws (hd s) \<Longrightarrow> \<exists>w ws. split_when is_ws s = w # ws \<and> w \<noteq> []" for s
    by (cases s) (auto split: list.splits)
  with hd_trim [OF ne] ne show ?thesis by (fastforce simp: split_whitespace_def)
qed

lemma normalize_label_Ok:
  assumes "normalize_label v f = Inr l"
  shows "\<exists>ws. ws \<noteq> [] \<and> l = join '' '' ws \<and> (\<forall>w\<in>set ws. w \<noteq> [] \<and> (\<forall>c\<in>set w. \<not> is_ws c))"
proof -
  have ne: "trim v \<noteq> []" and l: "l = join '' '' (split_whitespace (trim v))"
    using assms by (auto simp: normalize_label_def Let_def split: if_splits)
  show ?thesis
    using split_whitespace_trim_nonempty [OF ne] l
    by (intro exI [of _ "split_whitespace (trim v)"]) (auto dest: split_whitespace_parts)
qed

lemma join_words_trim:
  assumes "ws \<noteq> []" and "\<forall>w\<in>set ws. w \<noteq> [] \<and> (\<forall>c\<in>set w. \<not> is_ws c)"
  shows "join '' '' ws \<noteq> [] \<and> \<not> is_ws (hd (join '' '' ws)) \<and> \<not> is_ws (last (join '' '' ws))"
  using assms
proof (induction "'' ''" ws rule: join.induct)
  case (2 w)
  then show ?case by (cases w) auto
next
  case (3 w v ws)
  then show ?case by (cases w) auto
qed simp

text \<open>Normalising a label twice gives the same label, whatever the field.\<close>

lemma normalize_label_idem:
  assumes "normalize_label v f = Inr l"
  shows "normalize_label l g = Inr l"
proof -
  obtain ws where ws: "ws \<noteq> []" "l = join '' '' ws"
    "\<forall>w\<in>set ws. w \<noteq> [] \<and> (\<forall>c\<in>set w. \<not> is_ws c)"
    using normalize_label_Ok [OF assms] by blast
  from join_words_trim [OF ws(1,3)] have "trim l = l" and "l \<noteq> []"
    unfolding ws(2) by (auto intro: trim_id)
  with ws split_whitespace_join [OF ws(3)] show ?thesis by (simp add: normalize_label_def)
qed

section \<open>Registration sets\<close>

lemma check_unique_Ok_iff:
  "check_unique seen req rs = Inr req' \<longleftrightarrow>
     distinct (map registration_key rs) \<and> (\<forall>r\<in>set rs. registration_key r \<notin> set seen)
     \<and> req' = req @ concat (map cg_required rs)"
proof (induction seen req rs rule: check_unique.induct)
  case (2 seen req r rs)
  show ?case
    by (cases "registration_key r \<in> set seen")
      (auto simp: 2, metis image_eqI)
qed auto

lemma reject_registration_overlaps_Ok_iff:
  "reject_registration_overlaps rs = Inr u \<longleftrightarrow>
     (\<forall>l\<in>set rs. \<forall>r\<in>set rs. l = r \<or> \<not> registrations_overlap l r)"
proof (induction rs)
  case (Cons l rs)
  have sym: "registrations_overlap a b \<longleftrightarrow> registrations_overlap b a" for a b
    by (auto simp: registrations_overlap_def tokens_overlap_def)
  have irr: "\<not> registrations_overlap a a" for a
    by (simp add: registrations_overlap_def tokens_overlap_def)
  show ?case
  proof (cases "List.find (registrations_overlap l) rs")
    case None
    then have "\<forall>r\<in>set rs. \<not> registrations_overlap l r" by (simp add: find_None_iff_ball)
    with None Cons.IH sym show ?thesis by simp
  next
    case (Some r)
    then have r: "r \<in> set rs" "registrations_overlap l r" by (auto dest: find_Some_iff2)
    then have "l \<noteq> r" using irr by blast
    with Some r show ?thesis by auto
  qed
qed simp

text \<open>
  A registration set is accepted when no trigger is registered twice in a scope and no motion
  trigger of a scope is a proper prefix of another one of that scope.
\<close>

lemma registration_set_accepted:
  assumes "registration_set_new rs = Inr g"
  shows "rg_registrations g = rs" and "distinct (map registration_key rs)"
    and "set (rg_required g) = (\<Union>r\<in>set rs. set (cg_required r))"
    and "l \<in> set rs \<Longrightarrow> r \<in> set rs \<Longrightarrow> cg_kind l = Motion \<Longrightarrow> cg_kind r = Motion \<Longrightarrow>
         scope_label l = scope_label r \<Longrightarrow>
         \<not> strict_prefix (split_on (CHR '' '') (cg_trigger l)) (split_on (CHR '' '') (cg_trigger r))"
proof -
  from assms have u: "distinct (map registration_key rs)"
    and g: "g = \<lparr>rg_registrations = rs, rg_required = capability_set_new (concat (map cg_required rs))\<rparr>"
    and ov: "\<forall>l\<in>set rs. \<forall>r\<in>set rs. cg_kind l = Motion \<longrightarrow> cg_kind r = Motion \<longrightarrow>
        l = r \<or> \<not> registrations_overlap l r"
    by (auto simp: registration_set_new_def check_unique_Ok_iff reject_prefix_overlapping_motions_def
        reject_registration_overlaps_Ok_iff)
  then show "rg_registrations g = rs" "distinct (map registration_key rs)"
    "set (rg_required g) = (\<Union>r\<in>set rs. set (cg_required r))"
    by auto
  show "\<not> strict_prefix (split_on (CHR '' '') (cg_trigger l)) (split_on (CHR '' '') (cg_trigger r))"
    if "l \<in> set rs" "r \<in> set rs" "cg_kind l = Motion" "cg_kind r = Motion"
      "scope_label l = scope_label r"
  proof
    assume sp: "strict_prefix (split_on (CHR '' '') (cg_trigger l)) (split_on (CHR '' '') (cg_trigger r))"
    then have "registrations_overlap l r"
      using that(5) prefix_length_less by (auto simp: registrations_overlap_def tokens_overlap_def)
    with ov that have "l = r" by blast
    with sp show False by simp
  qed
qed

section \<open>The scheduler\<close>

definition scheduler_try ::
  "controller_registration \<Rightarrow> callback_scheduler \<Rightarrow> callback_scheduler option" where
  "scheduler_try r s =
     (case scheduler_schedule s r [] 0 of
        (s', res) \<Rightarrow> if sr_disposition res = Accepted then Some s' else None)"

text \<open>The scheduler admits a callback under its label as the other label schedulers do.\<close>

definition bare_registration :: "string \<Rightarrow> controller_registration" where
  "bare_registration t =
     \<lparr>cg_kind = Hotkey, cg_trigger = t, cg_scope = ExplicitGlobal, cg_mode = Consume,
      cg_callback = t, cg_required = [], cg_overload_policy = SkipWhilePending,
      cg_requires_held = [], cg_loop_policy = None\<rparr>"

definition hotkey_label :: "string \<Rightarrow> string" where
  "hotkey_label t = ''Hotkey:'' @ t"

interpretation callback_admission: label_admission
  "\<lambda>t s. scheduler_try (bare_registration t) s"
  "\<lambda>t s. scheduler_release s (hotkey_label t)"
  "\<lambda>s. {t. hotkey_label t \<in> set (sc_active_or_pending s)}"
  "\<lambda>s. bs_ok (sc_active_or_pending s)"
  by unfold_locales
    (auto simp: scheduler_try_def scheduler_schedule_def bare_registration_def Let_def
      schedule_result_def scheduler_release_def registration_label_def hotkey_label_def
      split: if_splits)

text \<open>
  The scheduler together with the tasks that run: a task leaves the queue to run, and its label
  stays in flight until it is finished, cancelled or preempted; a mode change or the shutdown
  cancels the queue and the running tasks together.
\<close>

type_synonym scheduler_state = "callback_scheduler \<times> lua_callback_task list"

inductive scheduler_step :: "scheduler_state \<Rightarrow> scheduler_state \<Rightarrow> bool" where
  schedule: "scheduler_schedule s r cap t = (s', res) \<Longrightarrow> scheduler_step (s, run) (s', run)"
| pop: "scheduler_pop_next s = (s', Some task) \<Longrightarrow> scheduler_step (s, run) (s', task # run)"
| finish: "task \<in> set run \<Longrightarrow> scheduler_finish_task s task elapsed = (s', d) \<Longrightarrow>
    scheduler_step (s, run) (s', remove1 task run)"
| cancel: "task \<in> set run \<Longrightarrow> scheduler_cancel_task s task = (s', d) \<Longrightarrow>
    scheduler_step (s, run) (s', remove1 task run)"
| preempt: "task \<in> set run \<Longrightarrow> scheduler_preempt_task s task = (s', d) \<Longrightarrow>
    scheduler_step (s, run) (s', remove1 task run)"
| cancel_all: "scheduler_cancel_all s = (s', n) \<Longrightarrow> scheduler_step (s, run) (s', [])"

inductive scheduler_reachable :: "nat \<Rightarrow> duration \<Rightarrow> scheduler_state \<Rightarrow> bool" for cap_max budget where
  init: "callback_scheduler_new cap_max budget = Inr s \<Longrightarrow> scheduler_reachable cap_max budget (s, [])"
| step: "scheduler_reachable cap_max budget st \<Longrightarrow> scheduler_step st st' \<Longrightarrow>
    scheduler_reachable cap_max budget st'"

definition labels :: "lua_callback_task list \<Rightarrow> string list" where
  "labels ts = map tk_label ts"

lemma labels_simps [simp]:
  "labels [] = []" "labels (t # ts) = tk_label t # labels ts"
  "labels (ts @ us) = labels ts @ labels us"
  by (simp_all add: labels_def)

definition scheduler_inv :: "nat \<Rightarrow> scheduler_state \<Rightarrow> bool" where
  "scheduler_inv cap_max st \<longleftrightarrow>
     distinct (labels (sc_pending (fst st)) @ labels (snd st))
     \<and> set (sc_active_or_pending (fst st))
       = set (labels (sc_pending (fst st))) \<union> set (labels (snd st))
     \<and> bs_ok (sc_active_or_pending (fst st))
     \<and> sc_max_pending (fst st) = cap_max \<and> length (sc_pending (fst st)) \<le> cap_max"

lemma schedule_inv:
  assumes "scheduler_inv cap_max (s, run)" and "scheduler_schedule s r cap t = (s', res)"
  shows "scheduler_inv cap_max (s', run)"
  using assms
  by (auto simp: scheduler_inv_def scheduler_schedule_def Let_def
      split: option.splits if_splits)

lemma release_inv:
  assumes "scheduler_inv cap_max (s, run)" and "task \<in> set run"
  shows "scheduler_inv cap_max (scheduler_release s (tk_label task), remove1 task run)"
proof -
  obtain xs ys where run: "run = xs @ task # ys" "task \<notin> set xs"
    using assms(2) by (metis split_list_first)
  then have rm: "remove1 task run = xs @ ys" by (simp add: remove1_append)
  from assms(1) show ?thesis
    unfolding scheduler_inv_def scheduler_release_def rm unfolding run(1) by auto
qed

lemma scheduler_step_inv: "scheduler_step st st' \<Longrightarrow> scheduler_inv cap_max st \<Longrightarrow> scheduler_inv cap_max st'"
proof (induction rule: scheduler_step.induct)
  case (schedule s r cap t s' res run)
  then show ?case using schedule_inv by blast
next
  case (pop s s' task run)
  then show ?case
    by (auto simp: scheduler_pop_next_def scheduler_inv_def split: list.splits)
next
  case (cancel_all s s' n run)
  then show ?case by (auto simp: scheduler_cancel_all_def scheduler_inv_def)
qed (auto simp: scheduler_finish_task_def scheduler_cancel_task_def scheduler_preempt_task_def
    intro: release_inv)

lemma scheduler_reachable_inv: "scheduler_reachable cap_max budget st \<Longrightarrow> scheduler_inv cap_max st"
proof (induction rule: scheduler_reachable.induct)
  case (init s)
  then show ?case
    by (auto simp: callback_scheduler_new_def scheduler_inv_def split: if_splits)
next
  case (step st st')
  then show ?case using scheduler_step_inv by blast
qed

text \<open>What a scheduling attempt does, on every branch.\<close>

lemma schedule_Accepted_iff:
  "sr_disposition (snd (scheduler_schedule s r cap t)) = Accepted \<longleftrightarrow>
     all_available cap (cg_required r) \<and> registration_label r \<notin> set (sc_active_or_pending s)
     \<and> length (sc_pending s) < sc_max_pending s"
  using first_blocking_error_None_iff [of cap "cg_required r"]
  by (auto simp: scheduler_schedule_def schedule_result_def Let_def
      split: option.splits callback_overload_policy.splits)

lemma schedule_refused_unchanged:
  "sr_disposition (snd (scheduler_schedule s r cap t)) \<noteq> Accepted \<Longrightarrow>
   fst (scheduler_schedule s r cap t) = s"
  by (auto simp: scheduler_schedule_def schedule_result_def Let_def split: option.splits)

section \<open>The batch\<close>

definition batch_ok :: "rust_operation_batch \<Rightarrow> bool" where
  "batch_ok b \<longleftrightarrow> length (rb_requests b) \<le> rb_max_pending b
     \<and> map si_sequence (rb_requests b)
       = [rb_next_sequence b - length (rb_requests b)..<rb_next_sequence b]
     \<and> length (rb_requests b) \<le> rb_next_sequence b"

lemma batch_enqueue_ok:
  "batch_ok b \<Longrightarrow> batch_enqueue_input b a cap = (b', r) \<Longrightarrow> batch_ok b'"
  by (auto simp: batch_ok_def batch_enqueue_input_def synthesized_input_request_new_def
      upt_Suc_append Suc_diff_le split: option.splits if_splits)

lemma batch_drain_ok: "batch_ok b \<Longrightarrow> batch_drain b = (b', rs) \<Longrightarrow> batch_ok b' \<and> rb_requests b' = []"
  by (auto simp: batch_ok_def batch_drain_def)

lemma enqueue_actions_ok:
  "batch_ok b \<Longrightarrow> enqueue_actions as cap b = (b', r) \<Longrightarrow> batch_ok b'"
proof (induction as arbitrary: b)
  case (Cons a as)
  obtain b1 r1 where e: "batch_enqueue_input b a cap = (b1, r1)" by fastforce
  with Cons batch_enqueue_ok [OF Cons.prems(1) e] show ?case
    by (auto split: sum.splits)
qed simp

text \<open>
  The actions of a callback are queued in order until the queue is full; without the capability
  nothing is queued.
\<close>

lemma enqueue_actions_effect:
  assumes "all_available cap (capability_set_new [SynthesizedInput])"
    and "enqueue_actions as cap b = (b', r)" and "length (rb_requests b) \<le> rb_max_pending b"
  shows "map si_action (rb_requests b') = map si_action (rb_requests b)
      @ take (rb_max_pending b - length (rb_requests b)) as
    \<and> (r = Inr () \<longleftrightarrow> length as \<le> rb_max_pending b - length (rb_requests b))"
  using assms(2,3)
proof (induction as arbitrary: b)
  case Nil
  then show ?case by simp
next
  case (Cons a as)
  have ok: "first_blocking_error cap (capability_set_new [SynthesizedInput]) = None"
    using assms(1) first_blocking_error_None_iff by blast
  show ?case
  proof (cases "rb_max_pending b \<le> length (rb_requests b)")
    case True
    with Cons.prems ok show ?thesis by (auto simp: batch_enqueue_input_def)
  next
    case False
    let ?b1 = "b\<lparr>rb_next_sequence := rb_next_sequence b + 1, rb_requests := rb_requests b
      @ [synthesized_input_request_new a (rb_next_sequence b)]\<rparr>"
    have "enqueue_actions as cap ?b1 = (b', r)"
      using Cons.prems ok False by (simp add: batch_enqueue_input_def)
    from Cons.IH [OF this] False show ?thesis
      by (simp add: synthesized_input_request_new_def take_Cons' Suc_diff_Suc less_eq_Suc_le)
        (auto simp: not_le Suc_diff_Suc)
  qed
qed

lemma enqueue_actions_denied:
  assumes "\<not> all_available cap (capability_set_new [SynthesizedInput])" and "as \<noteq> []"
  shows "\<exists>e. enqueue_actions as cap b = (b, Inl e)"
  using assms first_blocking_error_None_iff
  by (cases as) (fastforce simp: batch_enqueue_input_def split: option.splits)+

end
