(* ===== verification/Stats.thy ===== *)
theory Stats imports Containers begin

text \<open>
  \<open>signal-auras-core/src/stats.rs\<close>: the runtime's counters, which are \<open>u64\<close> values that wrap
  in a release build, its latency histograms and the final summary. The lemmas show that a
  histogram holds exactly the recorded samples and what its percentiles mean.
\<close>

section \<open>Counters\<close>

datatype shutdown_reason = CtrlC | SignalTerm | StartupError | RuntimeError

record runtime_stats =
  rs_started_at :: instant
  rs_registration_attempts :: u64
  rs_registration_successes :: u64
  rs_registration_failures :: u64
  rs_trigger_count_by_hotkey :: "(string \<times> u64) list"
  rs_macro_success_count :: u64
  rs_macro_failure_count :: u64
  rs_denied_action_count :: u64
  rs_permission_failure_count :: u64
  rs_scope_mismatch_count :: u64
  rs_capability_probe_success_count :: u64
  rs_capability_probe_failure_count :: u64
  rs_shortcut_event_ignored_count :: u64
  rs_callback_event_received_count :: u64
  rs_callback_event_dispatched_count :: u64
  rs_callback_event_dropped_count :: u64
  rs_lua_callback_preempted_count :: u64
  rs_max_callback_dispatch_latency_ms :: u64
  rs_callback_dispatch_latency_total_ms :: u64
  rs_callback_dispatch_latency_buckets :: "u64 list"
  rs_active_process_match_count :: u64
  rs_active_process_non_match_count :: u64
  rs_metadata_unavailable_count :: u64
  rs_synthesized_input_emitted_count :: u64
  rs_synthesized_input_denied_count :: u64
  rs_consumed_trigger_event_count :: u64
  rs_passthrough_trigger_event_count :: u64
  rs_motion_input_event_count :: u64
  rs_motion_repeat_tick_count :: u64
  rs_motion_repeat_skipped_count :: u64
  rs_motion_repeat_cancel_count :: u64
  rs_motion_discard_count :: u64
  rs_non_repeat_trigger_skipped_count :: u64
  rs_max_motion_dispatch_latency_ms :: u64
  rs_motion_dispatch_latency_total_ms :: u64
  rs_motion_dispatch_latency_buckets :: "u64 list"
  rs_motion_event_age_sample_count :: u64
  rs_motion_event_age_unavailable_count :: u64
  rs_max_motion_event_age_ms :: u64
  rs_motion_event_age_total_ms :: u64
  rs_motion_event_age_buckets :: "u64 list"
  rs_event_loop_wakeup_count :: u64
  rs_hotplug_add_count :: u64
  rs_hotplug_remove_count :: u64
  rs_output_queue_failure_count :: u64
  rs_cancelled_macro_run_count :: u64
  rs_max_output_queue_depth :: u64
  rs_kde_bridge_setup_count :: u64
  rs_kde_bridge_cleanup_count :: u64
  rs_cleanup_success_count :: u64
  rs_cleanup_failure_count :: u64

definition runtime_stats_new :: "instant \<Rightarrow> runtime_stats" where
  "runtime_stats_new now = \<lparr>
     rs_started_at = now,
     rs_registration_attempts = 0,
     rs_registration_successes = 0,
     rs_registration_failures = 0,
     rs_trigger_count_by_hotkey = [],
     rs_macro_success_count = 0,
     rs_macro_failure_count = 0,
     rs_denied_action_count = 0,
     rs_permission_failure_count = 0,
     rs_scope_mismatch_count = 0,
     rs_capability_probe_success_count = 0,
     rs_capability_probe_failure_count = 0,
     rs_shortcut_event_ignored_count = 0,
     rs_callback_event_received_count = 0,
     rs_callback_event_dispatched_count = 0,
     rs_callback_event_dropped_count = 0,
     rs_lua_callback_preempted_count = 0,
     rs_max_callback_dispatch_latency_ms = 0,
     rs_callback_dispatch_latency_total_ms = 0,
     rs_callback_dispatch_latency_buckets = replicate 9 0,
     rs_active_process_match_count = 0,
     rs_active_process_non_match_count = 0,
     rs_metadata_unavailable_count = 0,
     rs_synthesized_input_emitted_count = 0,
     rs_synthesized_input_denied_count = 0,
     rs_consumed_trigger_event_count = 0,
     rs_passthrough_trigger_event_count = 0,
     rs_motion_input_event_count = 0,
     rs_motion_repeat_tick_count = 0,
     rs_motion_repeat_skipped_count = 0,
     rs_motion_repeat_cancel_count = 0,
     rs_motion_discard_count = 0,
     rs_non_repeat_trigger_skipped_count = 0,
     rs_max_motion_dispatch_latency_ms = 0,
     rs_motion_dispatch_latency_total_ms = 0,
     rs_motion_dispatch_latency_buckets = replicate 9 0,
     rs_motion_event_age_sample_count = 0,
     rs_motion_event_age_unavailable_count = 0,
     rs_max_motion_event_age_ms = 0,
     rs_motion_event_age_total_ms = 0,
     rs_motion_event_age_buckets = replicate 9 0,
     rs_event_loop_wakeup_count = 0,
     rs_hotplug_add_count = 0,
     rs_hotplug_remove_count = 0,
     rs_output_queue_failure_count = 0,
     rs_cancelled_macro_run_count = 0,
     rs_max_output_queue_depth = 0,
     rs_kde_bridge_setup_count = 0,
     rs_kde_bridge_cleanup_count = 0,
     rs_cleanup_success_count = 0,
     rs_cleanup_failure_count = 0\<rparr>"

text \<open>The upper bounds of the three histograms; the last one is \<open>u64::MAX\<close>.\<close>

definition latency_buckets_ms :: "u64 list" where
  "latency_buckets_ms = [1, 2, 5, 10, 20, 50, 100, 250, 18446744073709551615]"

definition bucket_of :: "u64 \<Rightarrow> nat" where
  "bucket_of ms =
     (case position (\<lambda>upper_bound. ms \<le> upper_bound) latency_buckets_ms of
        Some i \<Rightarrow> i | None \<Rightarrow> length latency_buckets_ms - 1)"

definition bump :: "u64 list \<Rightarrow> nat \<Rightarrow> u64 list" where
  "bump buckets i = buckets[i := buckets ! i + 1]"

definition div_ceil :: "u64 \<Rightarrow> u64 \<Rightarrow> u64" where
  "div_ceil a b = (if 0 < a mod b then a div b + 1 else a div b)"

fun percentile_scan :: "u64 \<Rightarrow> u64 \<Rightarrow> (u64 \<times> u64) list \<Rightarrow> u64 option" where
  "percentile_scan rank seen [] = None"
| "percentile_scan rank seen ((bucket, upper_bound) # rest) =
     (let seen' = seen + bucket
      in if rank \<le> seen' then Some upper_bound else percentile_scan rank seen' rest)"

definition percentile_ms :: "u64 \<Rightarrow> u64 list \<Rightarrow> u64 \<Rightarrow> u64 \<Rightarrow> u64" where
  "percentile_ms count buckets max_ms percentile =
     (if count = 0 then 0
      else case percentile_scan (div_ceil (count * percentile) 100) 0
                  (zip buckets latency_buckets_ms) of
             Some upper_bound \<Rightarrow> upper_bound | None \<Rightarrow> max_ms)"

definition average_ms :: "u64 \<Rightarrow> u64 \<Rightarrow> u64" where
  "average_ms total_ms count = (if count = 0 then 0 else total_ms div count)"

section \<open>The operations\<close>

definition elapsed_runtime :: "runtime_stats \<Rightarrow> instant \<Rightarrow> duration" where
  "elapsed_runtime s now = now - rs_started_at s"

definition record_trigger :: "string \<Rightarrow> runtime_stats \<Rightarrow> runtime_stats" where
  "record_trigger hotkey s =
     s\<lparr>rs_trigger_count_by_hotkey :=
         bm_insert hotkey (case bm_get (rs_trigger_count_by_hotkey s) hotkey of
                             None \<Rightarrow> 1 | Some n \<Rightarrow> n + 1) (rs_trigger_count_by_hotkey s)\<rparr>"

definition total_triggers :: "runtime_stats \<Rightarrow> u64" where
  "total_triggers s = sum_list (bm_values (rs_trigger_count_by_hotkey s))"

definition record_registration_attempt :: "runtime_stats \<Rightarrow> runtime_stats" where
  "record_registration_attempt s = s\<lparr>rs_registration_attempts := rs_registration_attempts s + 1\<rparr>"

definition record_registration_success :: "runtime_stats \<Rightarrow> runtime_stats" where
  "record_registration_success s = s\<lparr>rs_registration_successes := rs_registration_successes s + 1\<rparr>"

definition record_registration_failure :: "runtime_stats \<Rightarrow> runtime_stats" where
  "record_registration_failure s = s\<lparr>rs_registration_failures := rs_registration_failures s + 1\<rparr>"

definition record_permission_failure :: "runtime_stats \<Rightarrow> runtime_stats" where
  "record_permission_failure s = s\<lparr>rs_permission_failure_count := rs_permission_failure_count s + 1\<rparr>"

definition record_capability_probe_success :: "runtime_stats \<Rightarrow> runtime_stats" where
  "record_capability_probe_success s = s\<lparr>rs_capability_probe_success_count := rs_capability_probe_success_count s + 1\<rparr>"

definition record_capability_probe_failure :: "runtime_stats \<Rightarrow> runtime_stats" where
  "record_capability_probe_failure s = s\<lparr>rs_capability_probe_failure_count := rs_capability_probe_failure_count s + 1\<rparr>"

definition record_callback_received :: "runtime_stats \<Rightarrow> runtime_stats" where
  "record_callback_received s = s\<lparr>rs_callback_event_received_count := rs_callback_event_received_count s + 1\<rparr>"

definition record_callback_dispatched :: "u64 \<Rightarrow> runtime_stats \<Rightarrow> runtime_stats" where
  "record_callback_dispatched ms s =
     s\<lparr>rs_callback_event_dispatched_count := rs_callback_event_dispatched_count s + 1,
       rs_max_callback_dispatch_latency_ms := max (rs_max_callback_dispatch_latency_ms s) ms,
       rs_callback_dispatch_latency_total_ms := rs_callback_dispatch_latency_total_ms s + ms,
       rs_callback_dispatch_latency_buckets := bump (rs_callback_dispatch_latency_buckets s) (bucket_of ms)\<rparr>"

definition record_callback_dropped :: "u64 \<Rightarrow> runtime_stats \<Rightarrow> runtime_stats" where
  "record_callback_dropped count s = s\<lparr>rs_callback_event_dropped_count := rs_callback_event_dropped_count s + count\<rparr>"

definition record_lua_callback_preempted :: "runtime_stats \<Rightarrow> runtime_stats" where
  "record_lua_callback_preempted s = s\<lparr>rs_lua_callback_preempted_count := rs_lua_callback_preempted_count s + 1\<rparr>"

definition record_shortcut_ignored :: "runtime_stats \<Rightarrow> runtime_stats" where
  "record_shortcut_ignored s = s\<lparr>rs_shortcut_event_ignored_count := rs_shortcut_event_ignored_count s + 1\<rparr>"

definition record_active_process_match :: "runtime_stats \<Rightarrow> runtime_stats" where
  "record_active_process_match s = s\<lparr>rs_active_process_match_count := rs_active_process_match_count s + 1\<rparr>"

definition record_active_process_non_match :: "runtime_stats \<Rightarrow> runtime_stats" where
  "record_active_process_non_match s = s\<lparr>rs_active_process_non_match_count := rs_active_process_non_match_count s + 1\<rparr>"

definition record_metadata_unavailable :: "runtime_stats \<Rightarrow> runtime_stats" where
  "record_metadata_unavailable s = s\<lparr>rs_metadata_unavailable_count := rs_metadata_unavailable_count s + 1\<rparr>"

definition record_synthesized_input_emitted :: "runtime_stats \<Rightarrow> runtime_stats" where
  "record_synthesized_input_emitted s = s\<lparr>rs_synthesized_input_emitted_count := rs_synthesized_input_emitted_count s + 1\<rparr>"

definition record_synthesized_input_denied :: "runtime_stats \<Rightarrow> runtime_stats" where
  "record_synthesized_input_denied s = s\<lparr>rs_synthesized_input_denied_count := rs_synthesized_input_denied_count s + 1\<rparr>"

definition record_consumed_trigger_event :: "runtime_stats \<Rightarrow> runtime_stats" where
  "record_consumed_trigger_event s = s\<lparr>rs_consumed_trigger_event_count := rs_consumed_trigger_event_count s + 1\<rparr>"

definition record_passthrough_trigger_event :: "runtime_stats \<Rightarrow> runtime_stats" where
  "record_passthrough_trigger_event s = s\<lparr>rs_passthrough_trigger_event_count := rs_passthrough_trigger_event_count s + 1\<rparr>"

definition record_motion_input_event :: "u64 \<Rightarrow> runtime_stats \<Rightarrow> runtime_stats" where
  "record_motion_input_event ms s =
     s\<lparr>rs_motion_input_event_count := rs_motion_input_event_count s + 1,
       rs_max_motion_dispatch_latency_ms := max (rs_max_motion_dispatch_latency_ms s) ms,
       rs_motion_dispatch_latency_total_ms := rs_motion_dispatch_latency_total_ms s + ms,
       rs_motion_dispatch_latency_buckets := bump (rs_motion_dispatch_latency_buckets s) (bucket_of ms)\<rparr>"

definition record_motion_event_age :: "u64 \<Rightarrow> runtime_stats \<Rightarrow> runtime_stats" where
  "record_motion_event_age ms s =
     s\<lparr>rs_motion_event_age_sample_count := rs_motion_event_age_sample_count s + 1,
       rs_max_motion_event_age_ms := max (rs_max_motion_event_age_ms s) ms,
       rs_motion_event_age_total_ms := rs_motion_event_age_total_ms s + ms,
       rs_motion_event_age_buckets := bump (rs_motion_event_age_buckets s) (bucket_of ms)\<rparr>"

definition record_motion_event_age_unavailable :: "runtime_stats \<Rightarrow> runtime_stats" where
  "record_motion_event_age_unavailable s = s\<lparr>rs_motion_event_age_unavailable_count := rs_motion_event_age_unavailable_count s + 1\<rparr>"

definition record_motion_repeat_tick :: "runtime_stats \<Rightarrow> runtime_stats" where
  "record_motion_repeat_tick s = s\<lparr>rs_motion_repeat_tick_count := rs_motion_repeat_tick_count s + 1\<rparr>"

definition record_motion_repeat_skipped :: "u64 \<Rightarrow> runtime_stats \<Rightarrow> runtime_stats" where
  "record_motion_repeat_skipped count s = s\<lparr>rs_motion_repeat_skipped_count := rs_motion_repeat_skipped_count s + count\<rparr>"

definition record_motion_repeat_cancel :: "runtime_stats \<Rightarrow> runtime_stats" where
  "record_motion_repeat_cancel s = s\<lparr>rs_motion_repeat_cancel_count := rs_motion_repeat_cancel_count s + 1\<rparr>"

definition record_motion_discard :: "runtime_stats \<Rightarrow> runtime_stats" where
  "record_motion_discard s = s\<lparr>rs_motion_discard_count := rs_motion_discard_count s + 1\<rparr>"

definition record_non_repeat_trigger_skipped :: "runtime_stats \<Rightarrow> runtime_stats" where
  "record_non_repeat_trigger_skipped s = s\<lparr>rs_non_repeat_trigger_skipped_count := rs_non_repeat_trigger_skipped_count s + 1\<rparr>"

definition record_event_loop_wakeup :: "runtime_stats \<Rightarrow> runtime_stats" where
  "record_event_loop_wakeup s = s\<lparr>rs_event_loop_wakeup_count := rs_event_loop_wakeup_count s + 1\<rparr>"

definition record_hotplug_add :: "runtime_stats \<Rightarrow> runtime_stats" where
  "record_hotplug_add s = s\<lparr>rs_hotplug_add_count := rs_hotplug_add_count s + 1\<rparr>"

definition record_hotplug_remove :: "runtime_stats \<Rightarrow> runtime_stats" where
  "record_hotplug_remove s = s\<lparr>rs_hotplug_remove_count := rs_hotplug_remove_count s + 1\<rparr>"

definition record_output_queue_failure :: "runtime_stats \<Rightarrow> runtime_stats" where
  "record_output_queue_failure s = s\<lparr>rs_output_queue_failure_count := rs_output_queue_failure_count s + 1\<rparr>"

definition record_cancelled_macro_runs :: "u64 \<Rightarrow> runtime_stats \<Rightarrow> runtime_stats" where
  "record_cancelled_macro_runs count s = s\<lparr>rs_cancelled_macro_run_count := rs_cancelled_macro_run_count s + count\<rparr>"

definition record_output_queue_depth :: "u64 \<Rightarrow> runtime_stats \<Rightarrow> runtime_stats" where
  "record_output_queue_depth depth s =
     s\<lparr>rs_max_output_queue_depth := max (rs_max_output_queue_depth s) depth\<rparr>"

definition record_kde_bridge_setup :: "runtime_stats \<Rightarrow> runtime_stats" where
  "record_kde_bridge_setup s = s\<lparr>rs_kde_bridge_setup_count := rs_kde_bridge_setup_count s + 1\<rparr>"

definition record_kde_bridge_cleanup :: "runtime_stats \<Rightarrow> runtime_stats" where
  "record_kde_bridge_cleanup s = s\<lparr>rs_kde_bridge_cleanup_count := rs_kde_bridge_cleanup_count s + 1\<rparr>"

definition record_cleanup_success :: "runtime_stats \<Rightarrow> runtime_stats" where
  "record_cleanup_success s = s\<lparr>rs_cleanup_success_count := rs_cleanup_success_count s + 1\<rparr>"

definition record_cleanup_failure :: "runtime_stats \<Rightarrow> runtime_stats" where
  "record_cleanup_failure s = s\<lparr>rs_cleanup_failure_count := rs_cleanup_failure_count s + 1\<rparr>"

definition average_callback_dispatch_latency_ms :: "runtime_stats \<Rightarrow> u64" where
  "average_callback_dispatch_latency_ms s = average_ms (rs_callback_dispatch_latency_total_ms s) (rs_callback_event_dispatched_count s)"

definition callback_dispatch_latency_percentile_ms :: "runtime_stats \<Rightarrow> u64 \<Rightarrow> u64" where
  "callback_dispatch_latency_percentile_ms s percentile =
     percentile_ms (rs_callback_event_dispatched_count s) (rs_callback_dispatch_latency_buckets s)
       (rs_max_callback_dispatch_latency_ms s) percentile"

definition callback_dispatch_latency_p95_ms :: "runtime_stats \<Rightarrow> u64" where
  "callback_dispatch_latency_p95_ms s = callback_dispatch_latency_percentile_ms s 95"

definition callback_dispatch_latency_p99_ms :: "runtime_stats \<Rightarrow> u64" where
  "callback_dispatch_latency_p99_ms s = callback_dispatch_latency_percentile_ms s 99"

definition average_motion_dispatch_latency_ms :: "runtime_stats \<Rightarrow> u64" where
  "average_motion_dispatch_latency_ms s = average_ms (rs_motion_dispatch_latency_total_ms s) (rs_motion_input_event_count s)"

definition motion_dispatch_latency_percentile_ms :: "runtime_stats \<Rightarrow> u64 \<Rightarrow> u64" where
  "motion_dispatch_latency_percentile_ms s percentile =
     percentile_ms (rs_motion_input_event_count s) (rs_motion_dispatch_latency_buckets s)
       (rs_max_motion_dispatch_latency_ms s) percentile"

definition motion_dispatch_latency_p95_ms :: "runtime_stats \<Rightarrow> u64" where
  "motion_dispatch_latency_p95_ms s = motion_dispatch_latency_percentile_ms s 95"

definition motion_dispatch_latency_p99_ms :: "runtime_stats \<Rightarrow> u64" where
  "motion_dispatch_latency_p99_ms s = motion_dispatch_latency_percentile_ms s 99"

definition average_motion_event_age_ms :: "runtime_stats \<Rightarrow> u64" where
  "average_motion_event_age_ms s = average_ms (rs_motion_event_age_total_ms s) (rs_motion_event_age_sample_count s)"

definition motion_event_age_percentile_ms :: "runtime_stats \<Rightarrow> u64 \<Rightarrow> u64" where
  "motion_event_age_percentile_ms s percentile =
     percentile_ms (rs_motion_event_age_sample_count s) (rs_motion_event_age_buckets s)
       (rs_max_motion_event_age_ms s) percentile"

definition motion_event_age_p95_ms :: "runtime_stats \<Rightarrow> u64" where
  "motion_event_age_p95_ms s = motion_event_age_percentile_ms s 95"

definition motion_event_age_p99_ms :: "runtime_stats \<Rightarrow> u64" where
  "motion_event_age_p99_ms s = motion_event_age_percentile_ms s 99"

text \<open>The \<open>Debug\<close> name of a reason, and the summary line.\<close>

fun show_shutdown_reason :: "shutdown_reason \<Rightarrow> string" where
  "show_shutdown_reason CtrlC = ''CtrlC''"
| "show_shutdown_reason SignalTerm = ''SignalTerm''"
| "show_shutdown_reason StartupError = ''StartupError''"
| "show_shutdown_reason RuntimeError = ''RuntimeError''"

definition show_u64 :: "u64 \<Rightarrow> string" where
  "show_u64 n = show_nat (unat n)"

definition summary_fields :: "runtime_stats \<Rightarrow> instant \<Rightarrow> (string \<times> string) list" where
  "summary_fields s now = [
     (''elapsed_ms'', show_nat (as_millis (elapsed_runtime s now))),
     (''triggers'', show_u64 (total_triggers s)),
     (''successes'', show_u64 (rs_macro_success_count s)),
     (''failures'', show_u64 (rs_macro_failure_count s)),
     (''denials'', show_u64 (rs_denied_action_count s)),
     (''permission_failures'', show_u64 (rs_permission_failure_count s)),
     (''scope_mismatches'', show_u64 (rs_scope_mismatch_count s)),
     (''capability_probe_successes'', show_u64 (rs_capability_probe_success_count s)),
     (''capability_probe_failures'', show_u64 (rs_capability_probe_failure_count s)),
     (''ignored_events'', show_u64 (rs_shortcut_event_ignored_count s)),
     (''callbacks_received'', show_u64 (rs_callback_event_received_count s)),
     (''callbacks_dispatched'', show_u64 (rs_callback_event_dispatched_count s)),
     (''callbacks_dropped'', show_u64 (rs_callback_event_dropped_count s)),
     (''lua_callbacks_preempted'', show_u64 (rs_lua_callback_preempted_count s)),
     (''avg_callback_dispatch_latency_ms'', show_u64 (average_callback_dispatch_latency_ms s)),
     (''p95_callback_dispatch_latency_ms'', show_u64 (callback_dispatch_latency_p95_ms s)),
     (''p99_callback_dispatch_latency_ms'', show_u64 (callback_dispatch_latency_p99_ms s)),
     (''max_callback_dispatch_latency_ms'', show_u64 (rs_max_callback_dispatch_latency_ms s)),
     (''active_process_matches'', show_u64 (rs_active_process_match_count s)),
     (''active_process_non_matches'', show_u64 (rs_active_process_non_match_count s)),
     (''metadata_unavailable'', show_u64 (rs_metadata_unavailable_count s)),
     (''input_emitted'', show_u64 (rs_synthesized_input_emitted_count s)),
     (''input_denied'', show_u64 (rs_synthesized_input_denied_count s)),
     (''consumed_events'', show_u64 (rs_consumed_trigger_event_count s)),
     (''passthrough_events'', show_u64 (rs_passthrough_trigger_event_count s)),
     (''motion_inputs'', show_u64 (rs_motion_input_event_count s)),
     (''repeat_ticks'', show_u64 (rs_motion_repeat_tick_count s)),
     (''repeat_skipped_or_coalesced'', show_u64 (rs_motion_repeat_skipped_count s)),
     (''repeat_cancels'', show_u64 (rs_motion_repeat_cancel_count s)),
     (''motion_discards'', show_u64 (rs_motion_discard_count s)),
     (''non_repeat_skipped_or_denied'', show_u64 (rs_non_repeat_trigger_skipped_count s)),
     (''avg_motion_dispatch_latency_ms'', show_u64 (average_motion_dispatch_latency_ms s)),
     (''p95_motion_dispatch_latency_ms'', show_u64 (motion_dispatch_latency_p95_ms s)),
     (''p99_motion_dispatch_latency_ms'', show_u64 (motion_dispatch_latency_p99_ms s)),
     (''max_motion_dispatch_latency_ms'', show_u64 (rs_max_motion_dispatch_latency_ms s)),
     (''motion_event_age_samples'', show_u64 (rs_motion_event_age_sample_count s)),
     (''motion_event_age_unavailable'', show_u64 (rs_motion_event_age_unavailable_count s)),
     (''avg_motion_event_age_ms'', show_u64 (average_motion_event_age_ms s)),
     (''p95_motion_event_age_ms'', show_u64 (motion_event_age_p95_ms s)),
     (''p99_motion_event_age_ms'', show_u64 (motion_event_age_p99_ms s)),
     (''max_motion_event_age_ms'', show_u64 (rs_max_motion_event_age_ms s)),
     (''event_loop_wakeups'', show_u64 (rs_event_loop_wakeup_count s)),
     (''hotplug_adds'', show_u64 (rs_hotplug_add_count s)),
     (''hotplug_removes'', show_u64 (rs_hotplug_remove_count s)),
     (''output_queue_failures'', show_u64 (rs_output_queue_failure_count s)),
     (''cancelled_macro_runs'', show_u64 (rs_cancelled_macro_run_count s)),
     (''max_output_queue_depth'', show_u64 (rs_max_output_queue_depth s)),
     (''kde_bridge_setups'', show_u64 (rs_kde_bridge_setup_count s)),
     (''kde_bridge_cleanups'', show_u64 (rs_kde_bridge_cleanup_count s)),
     (''cleanup_successes'', show_u64 (rs_cleanup_success_count s)),
     (''cleanup_failures'', show_u64 (rs_cleanup_failure_count s))]"

definition render_summary :: "runtime_stats \<Rightarrow> shutdown_reason \<Rightarrow> instant \<Rightarrow> string" where
  "render_summary s reason now =
     ''final_summary reason='' @ show_shutdown_reason reason @ '' ''
     @ join '' '' (map (\<lambda>(k, v). k @ ''='' @ v) (summary_fields s now))"

section \<open>What a histogram holds\<close>

text \<open>The buckets after recording the samples in order.\<close>

definition histogram :: "u64 list \<Rightarrow> u64 list" where
  "histogram xs = foldl (\<lambda>b ms. bump b (bucket_of ms)) (replicate 9 0) xs"

definition at_most :: "u64 \<Rightarrow> u64 list \<Rightarrow> nat" where
  "at_most u xs = length (filter (\<lambda>x. x \<le> u) xs)"

lemma bounds_length [simp]: "length latency_buckets_ms = 9"
  by (simp add: latency_buckets_ms_def)

lemma bounds_sorted: "sorted latency_buckets_ms"
  by (simp add: latency_buckets_ms_def)

lemma bounds_last: "latency_buckets_ms ! 8 = 18446744073709551615"
  by (simp add: latency_buckets_ms_def)

lemma le_last_bound: "x \<le> latency_buckets_ms ! 8"
proof -
  have "(18446744073709551615 :: u64) = - 1" by simp
  then show ?thesis unfolding bounds_last by (metis word_n1_ge)
qed

lemma bucket_of_spec:
  "bucket_of x < 9 \<and> x \<le> latency_buckets_ms ! bucket_of x
   \<and> (\<forall>j<bucket_of x. latency_buckets_ms ! j < x)"
proof -
  have "position (\<lambda>u. x \<le> u) latency_buckets_ms \<noteq> None"
    using le_last_bound [of x] nth_mem [of 8 latency_buckets_ms]
    by (auto simp: position_None_iff)
  then obtain i where i: "position (\<lambda>u. x \<le> u) latency_buckets_ms = Some i" by blast
  then have "bucket_of x = i" by (simp add: bucket_of_def)
  with i show ?thesis by (simp add: position_Some not_le)
qed

lemma bucket_of_le_iff: "k < 9 \<Longrightarrow> bucket_of x \<le> k \<longleftrightarrow> x \<le> latency_buckets_ms ! k"
proof
  assume k: "k < 9" and "bucket_of x \<le> k"
  then have "latency_buckets_ms ! bucket_of x \<le> latency_buckets_ms ! k"
    using sorted_nth_mono [OF bounds_sorted] by simp
  then show "x \<le> latency_buckets_ms ! k" using bucket_of_spec [of x] by (meson order_trans)
next
  assume "x \<le> latency_buckets_ms ! k"
  then show "bucket_of x \<le> k" using bucket_of_spec [of x] by (meson leD not_le_imp_less)
qed

lemma histogram_snoc: "histogram (xs @ [x]) = bump (histogram xs) (bucket_of x)"
  by (simp add: histogram_def)

lemma histogram_length [simp]: "length (histogram xs) = 9"
  by (induction xs rule: rev_induct) (simp_all add: histogram_snoc bump_def, simp add: histogram_def)

lemma histogram_nth:
  "i < 9 \<Longrightarrow> histogram xs ! i = of_nat (length (filter (\<lambda>x. bucket_of x = i) xs))"
proof (induction xs rule: rev_induct)
  case Nil
  then show ?case by (simp add: histogram_def)
next
  case (snoc x xs)
  then show ?case by (auto simp: histogram_snoc bump_def nth_list_update)
qed

lemma histogram_prefix_sum:
  "k < 9 \<Longrightarrow> sum_list (take (Suc k) (histogram xs)) = of_nat (at_most (latency_buckets_ms ! k) xs)"
proof -
  assume k: "k < 9"
  have "j \<le> 9 \<Longrightarrow> sum_list (take j (histogram xs)) = of_nat (length (filter (\<lambda>x. bucket_of x < j) xs))"
    for j
  proof (induction j)
    case (Suc j)
    have "filter (\<lambda>x. bucket_of x < Suc j) xs = filter (\<lambda>x. bucket_of x < j \<or> bucket_of x = j) xs"
      by (rule filter_cong) auto
    moreover have "length (filter (\<lambda>x. bucket_of x < j \<or> bucket_of x = j) ys)
        = length (filter (\<lambda>x. bucket_of x < j) ys) + length (filter (\<lambda>x. bucket_of x = j) ys)" for ys
      by (induction ys) auto
    ultimately show ?case
      using Suc by (simp add: take_Suc_conv_app_nth histogram_nth)
  qed simp
  from this [of "Suc k"] k have "sum_list (take (Suc k) (histogram xs))
      = of_nat (length (filter (\<lambda>x. bucket_of x \<le> k) xs))" by (simp add: less_Suc_eq_le)
  then show ?thesis using bucket_of_le_iff [OF k] by (simp add: at_most_def)
qed

section \<open>What a percentile means\<close>

lemma percentile_scan_Some:
  assumes "length bs = length us"
  shows "percentile_scan rank seen (zip bs us) = Some u \<longleftrightarrow>
    (\<exists>k<length us. u = us ! k \<and> rank \<le> seen + sum_list (take (Suc k) bs)
       \<and> (\<forall>j<k. \<not> rank \<le> seen + sum_list (take (Suc j) bs)))"
  using assms
proof (induction bs us arbitrary: seen rule: list_induct2)
  case (Cons b bs u' us)
  show ?case
  proof (cases "rank \<le> seen + b")
    case True
    then show ?thesis by (auto simp: Let_def intro!: exI [of _ 0] dest: spec [of _ 0])
  next
    case False
    have "percentile_scan rank seen (zip (b # bs) (u' # us)) = Some u \<longleftrightarrow>
        percentile_scan rank (seen + b) (zip bs us) = Some u"
      using False by simp
    also have "\<dots> \<longleftrightarrow> (\<exists>k<length us. u = us ! k \<and> rank \<le> seen + b + sum_list (take (Suc k) bs)
       \<and> (\<forall>j<k. \<not> rank \<le> seen + b + sum_list (take (Suc j) bs)))"
      by (rule Cons.IH)
    also have "\<dots> \<longleftrightarrow> (\<exists>k<length (u' # us). u = (u' # us) ! k
       \<and> rank \<le> seen + sum_list (take (Suc k) (b # bs))
       \<and> (\<forall>j<k. \<not> rank \<le> seen + sum_list (take (Suc j) (b # bs))))"
      using False by (simp add: Ex_less_Suc2 All_less_Suc2 add.assoc)
    finally show ?thesis .
  qed
qed simp

lemma ceil_le_iff: "(if 0 < n mod 100 then n div 100 + 1 else n div 100) \<le> c \<longleftrightarrow> n \<le> 100 * (c::nat)"
proof -
  have "n = 100 * (n div 100) + n mod 100" and "n mod 100 < 100" by simp_all
  then show ?thesis by (cases "n mod 100 = 0"; simp; linarith)
qed

lemma unat_u64: "n < 2 ^ 64 \<Longrightarrow> unat (of_nat n :: u64) = n"
  by (simp add: unat_of_nat)

lemma rank_le_iff:
  assumes "n * p < 2 ^ 64" and "n < 2 ^ 64" and "p < 2 ^ 64" and "c < 2 ^ 64"
  shows "div_ceil (of_nat n * of_nat p) 100 \<le> (of_nat c :: u64) \<longleftrightarrow> n * p \<le> 100 * c"
proof -
  have np: "unat (of_nat n * of_nat p :: u64) = n * p"
    using unat_u64 [OF assms(1)] by simp
  have c: "unat (of_nat c :: u64) = c" using assms(4) by (rule unat_u64)
  let ?w = "of_nat n * of_nat p :: u64"
  have d: "unat (?w div 100) = n * p div 100" and m: "unat (?w mod 100) = n * p mod 100"
    using np by (simp_all add: unat_div unat_mod)
  have small: "n * p div 100 + 1 < 2 ^ 64" using assms(1) by simp
  have "unat (?w div 100 + 1) = n * p div 100 + 1"
    using small d by (simp add: unat_word_ariths)
  moreover have "0 < ?w mod 100 \<longleftrightarrow> 0 < n * p mod 100"
    using m by (simp add: word_less_nat_alt)
  ultimately have "unat (div_ceil ?w 100)
      = (if 0 < n * p mod 100 then n * p div 100 + 1 else n * p div 100)"
    using d by (simp add: div_ceil_def)
  then have "div_ceil ?w 100 \<le> of_nat c \<longleftrightarrow>
      (if 0 < n * p mod 100 then n * p div 100 + 1 else n * p div 100) \<le> c"
    using c by (simp add: word_le_nat_alt)
  then show ?thesis using ceil_le_iff by simp
qed

lemma percentile_meaning:
  assumes ne: "xs \<noteq> []" and small: "length xs * 100 < 2 ^ 64" and p: "p \<le> 100"
    and u_eq: "u = percentile_ms (of_nat (length xs)) (histogram xs) mx (of_nat p)"
  shows "length xs * p \<le> 100 * at_most u xs"
    and "u \<in> set latency_buckets_ms"
    and "b \<in> set latency_buckets_ms \<Longrightarrow> b < u \<Longrightarrow> 100 * at_most b xs < length xs * p"
proof -
  let ?n = "length xs" let ?us = latency_buckets_ms
  let ?scan = "percentile_scan (div_ceil (of_nat ?n * of_nat p) 100) 0 (zip (histogram xs) ?us)"
  have np: "?n * p < 2 ^ 64" using small p by (meson le_less_trans mult_le_mono2)
  have n: "?n < 2 ^ 64" using small by simp
  have am: "at_most v xs \<le> ?n" for v by (simp add: at_most_def)
  then have c: "at_most v xs < 2 ^ 64" for v using n by (rule le_less_trans)
  have rank: "div_ceil (of_nat ?n * of_nat p) 100 \<le> 0 + sum_list (take (Suc k) (histogram xs))
      \<longleftrightarrow> ?n * p \<le> 100 * at_most (?us ! k) xs" if "k < 9" for k
    using rank_le_iff [OF np n _ c] p that by (simp add: histogram_prefix_sum)
  define P where "P k \<longleftrightarrow> ?n * p \<le> 100 * at_most (?us ! k) xs" for k
  have P8: "P 8"
    unfolding P_def using le_last_bound p by (simp add: at_most_def mult.commute)
  define k where "k = (LEAST k. P k)"
  have Pk: "P k" and k9: "k < 9" and least: "j < k \<Longrightarrow> \<not> P j" for j
    unfolding k_def using LeastI [of P 8] Least_le [of P 8] not_less_Least P8 by (auto dest: le_less_trans)
  have "?scan = Some (?us ! k)"
  proof -
    have "?scan = Some (?us ! k) \<longleftrightarrow> (\<exists>k'<9. ?us ! k = ?us ! k'
        \<and> ?n * p \<le> 100 * at_most (?us ! k') xs \<and> (\<forall>j<k'. \<not> ?n * p \<le> 100 * at_most (?us ! j) xs))"
      using rank by (subst percentile_scan_Some) (auto 4 4 dest: less_trans)
    with Pk k9 least show ?thesis unfolding P_def by blast
  qed
  moreover have "(of_nat ?n :: u64) \<noteq> 0"
  proof -
    have "unat (of_nat ?n :: u64) = ?n" using n by (rule unat_u64)
    with ne show ?thesis by (metis length_0_conv unat_0)
  qed
  ultimately have u: "u = ?us ! k" by (simp add: u_eq percentile_ms_def)
  show "?n * p \<le> 100 * at_most u xs" using Pk unfolding u P_def .
  show "u \<in> set ?us" unfolding u using k9 by simp
  show "100 * at_most b xs < ?n * p" if "b \<in> set ?us" "b < u"
  proof -
    from that(1) obtain j where j: "j < 9" "b = ?us ! j" by (auto simp: in_set_conv_nth)
    have "j < k"
    proof (rule ccontr)
      assume "\<not> j < k"
      then have "?us ! k \<le> ?us ! j" using j(1) by (intro sorted_nth_mono [OF bounds_sorted]) auto
      with that(2) u j(2) show False by simp
    qed
    with least show ?thesis unfolding P_def j(2) by (simp add: not_le)
  qed
qed

text \<open>The statistics of a run that records the latencies of its callbacks.\<close>

lemma callback_histogram:
  "rs_callback_event_dispatched_count (fold record_callback_dispatched xs (runtime_stats_new now))
     = of_nat (length xs)
   \<and> rs_callback_dispatch_latency_buckets (fold record_callback_dispatched xs (runtime_stats_new now))
     = histogram xs"
  by (induction xs rule: rev_induct)
    (simp_all add: runtime_stats_new_def record_callback_dispatched_def histogram_snoc,
      simp add: histogram_def)

lemma triggers_counted:
  "bm_get (rs_trigger_count_by_hotkey (fold record_trigger hs (runtime_stats_new now))) h
     = (if h \<in> set hs then Some (of_nat (count_list hs h)) else None)"
  by (induction hs rule: rev_induct)
    (auto simp: runtime_stats_new_def record_trigger_def count_list_0_iff)

end
