(* ===== verification/MacroQueue.thy ===== *)
theory MacroQueue imports Controllers Stats begin

text \<open>
  The live macro queue and the focus tracker of \<open>signal-auras-cli/src/runner.rs\<close>
  (\<open>LiveMacroQueue\<close>, \<open>ScopedFocusTracker\<close>): macros are admitted one per trigger label and
  advanced a step at a time by \<open>drive_ready\<close>. The executor is a parameter over a world \<open>'w\<close>;
  each read of \<open>Instant::now()\<close> is a parameter.
\<close>

section \<open>The queue\<close>

record live_macro_run =
  lr_trigger_label :: string
  lr_scope :: scope_selection
  lr_state :: macro_run_state

record live_macro_queue =
  mq_next_id :: nat
  mq_active_triggers :: "string list"
  mq_repeat_skip_counts :: "(string \<times> u64) list"
  mq_runs :: "live_macro_run list"

definition macro_queue_default :: live_macro_queue where
  "macro_queue_default =
     \<lparr>mq_next_id = 0, mq_active_triggers = [], mq_repeat_skip_counts = [], mq_runs = []\<rparr>"

definition record_non_repeat_collision_skip :: "runtime_stats \<Rightarrow> runtime_stats" where
  "record_non_repeat_collision_skip st =
     record_non_repeat_trigger_skipped
       (st\<lparr>rs_denied_action_count := rs_denied_action_count st + 1\<rparr>)"

definition queue_schedule ::
  "live_macro_queue \<Rightarrow> string \<Rightarrow> scope_selection \<Rightarrow> macro_definition \<Rightarrow> nat \<Rightarrow> runtime_stats \<Rightarrow> instant
   \<Rightarrow> live_macro_queue \<times> runtime_stats \<times> nat option" where
  "queue_schedule q label scope d inter_ms st now =
     (if List.member (mq_active_triggers q) label
      then (q, record_non_repeat_collision_skip st, None)
      else
        let q1 = q\<lparr>mq_active_triggers := bs_insert label (mq_active_triggers q),
                   mq_next_id := mq_next_id q + 1\<rparr>;
            rid = mq_next_id q1;
            q2 = q1\<lparr>mq_runs := mq_runs q1 @ [\<lparr>lr_trigger_label = label, lr_scope = scope,
                     lr_state = macro_run_new rid d inter_ms now\<rparr>]\<rparr>
        in (q2, record_output_queue_depth (of_nat (length (mq_runs q2))) st, Some rid))"

definition trigger_is_pending_or_active :: "live_macro_queue \<Rightarrow> string \<Rightarrow> bool" where
  "trigger_is_pending_or_active q label = List.member (mq_active_triggers q) label"

definition record_repeat_skip ::
  "live_macro_queue \<Rightarrow> string \<Rightarrow> runtime_stats \<Rightarrow> live_macro_queue \<times> runtime_stats \<times> u64" where
  "record_repeat_skip q label st =
     (let n = (case bm_get (mq_repeat_skip_counts q) label of None \<Rightarrow> 1 | Some n \<Rightarrow> n + 1)
      in (q\<lparr>mq_repeat_skip_counts := bm_insert label n (mq_repeat_skip_counts q)\<rparr>,
          record_motion_repeat_skipped 1 st, n))"

text \<open>The loops over the runs that cancel those a predicate selects, and count them.\<close>

definition cancel_runs ::
  "(live_macro_run \<Rightarrow> bool) \<Rightarrow> live_macro_queue \<Rightarrow> live_macro_queue \<times> nat" where
  "cancel_runs p q =
     (let hit = (\<lambda>r. p r \<and> \<not> mr_cancelled (lr_state r))
      in (q\<lparr>mq_runs := map (\<lambda>r. if hit r then r\<lparr>lr_state := macro_run_cancel (lr_state r)\<rparr> else r)
                        (mq_runs q)\<rparr>,
          length (filter hit (mq_runs q))))"

definition cancel_trigger :: "live_macro_queue \<Rightarrow> string \<Rightarrow> live_macro_queue \<times> nat" where
  "cancel_trigger q label = cancel_runs (\<lambda>r. lr_trigger_label r = label) q"

definition cancel_repeat :: "live_macro_queue \<Rightarrow> string \<Rightarrow> live_macro_queue \<times> nat" where
  "cancel_repeat q label = cancel_trigger q label"

definition cancel_process_scoped :: "live_macro_queue \<Rightarrow> live_macro_queue \<times> nat" where
  "cancel_process_scoped q = cancel_runs (\<lambda>r. is_process_list (lr_scope r)) q"

definition idle_wait_timeout :: duration where
  "idle_wait_timeout = from_millis 300000"

definition queue_next_wait_timeout :: "live_macro_queue \<Rightarrow> instant \<Rightarrow> duration" where
  "queue_next_wait_timeout q now =
     (case map (\<lambda>d. d - now)
             (List.map_filter (\<lambda>r. macro_run_next_deadline (lr_state r)) (mq_runs q)) of
        [] \<Rightarrow> idle_wait_timeout | d # ds \<Rightarrow> foldl min d ds)"

section \<open>Driving the runs\<close>

type_synonym 'w executor = "synthesized_input_request \<Rightarrow> 'w \<Rightarrow> 'w \<times> input_emission result"

text \<open>The outcome of an emission for the statistics and the result of the loop.\<close>

fun emission_result :: "input_emission \<Rightarrow> runtime_stats \<Rightarrow> runtime_stats \<times> unit result" where
  "emission_result input_emission.Emitted st = (record_synthesized_input_emitted st, Ok ())"
| "emission_result input_emission.Denied st =
     (record_synthesized_input_denied st,
      Err (diagnosable_error_new MacroExecution ''synthesized input was denied''))"
| "emission_result input_emission.Failed st =
     (st, Err (diagnosable_error_new MacroExecution ''synthesized input failed''))"
| "emission_result input_emission.Cancelled st =
     (st, Err (diagnosable_error_new error_phase.Shutdown ''synthesized input was cancelled''))"

text \<open>
  The loop of \<open>drive_ready\<close>: \<open>done\<close> holds the runs before the index, the second list those from
  the index on, \<open>act\<close> the active labels. An error of the executor leaves the loop.
\<close>

fun drive_runs ::
  "'w executor \<Rightarrow> instant \<Rightarrow> live_macro_run list \<Rightarrow> live_macro_run list \<Rightarrow> string list
   \<Rightarrow> runtime_stats \<Rightarrow> 'w
   \<Rightarrow> live_macro_run list \<times> string list \<times> runtime_stats \<times> 'w \<times> unit result" where
  "drive_runs exec now done [] act st w = (done, act, st, w, Ok ())"
| "drive_runs exec now done (r # rs) act st w =
     (case macro_run_poll_at (lr_state r) now of
        (s, macro_run_poll.Ready req) \<Rightarrow>
          (case exec req w of
             (w', Inl e) \<Rightarrow> (done @ r\<lparr>lr_state := s\<rparr> # rs, act, st, w', Err e)
           | (w', Inr em) \<Rightarrow>
               (case emission_result em st of
                  (st', Inl e) \<Rightarrow> (done @ r\<lparr>lr_state := s\<rparr> # rs, act, st', w', Err e)
                | (st', Inr _) \<Rightarrow>
                    drive_runs exec now (done @ [r\<lparr>lr_state := s\<rparr>]) rs act st' w'))
      | (s, macro_run_poll.Pending d) \<Rightarrow> drive_runs exec now (done @ [r\<lparr>lr_state := s\<rparr>]) rs act st w
      | (s, macro_run_poll.Complete) \<Rightarrow>
          drive_runs exec now done rs (bs_remove (lr_trigger_label r) act)
            (st\<lparr>rs_macro_success_count := rs_macro_success_count st + 1\<rparr>) w
      | (s, macro_run_poll.Cancelled) \<Rightarrow>
          drive_runs exec now done rs (bs_remove (lr_trigger_label r) act) st w)"

definition drive_ready ::
  "'w executor \<Rightarrow> live_macro_queue \<Rightarrow> runtime_stats \<Rightarrow> instant \<Rightarrow> 'w
   \<Rightarrow> live_macro_queue \<times> runtime_stats \<times> 'w \<times> unit result" where
  "drive_ready exec q st now w =
     (case drive_runs exec now [] (mq_runs q) (mq_active_triggers q) st w of
        (runs, act, st', w', res) \<Rightarrow>
          (q\<lparr>mq_runs := runs, mq_active_triggers := act\<rparr>, st', w', res))"

section \<open>The focus tracker\<close>

record scoped_focus_tracker =
  ft_active :: "bool option"
  ft_deactivated :: bool

definition focus_tracker_default :: scoped_focus_tracker where
  "focus_tracker_default = \<lparr>ft_active = None, ft_deactivated = False\<rparr>"

definition runtime_focus_policy :: freshness_policy where
  "runtime_focus_policy = freshness_policy_default"

definition tracker_observe ::
  "scoped_focus_tracker \<Rightarrow> scope_selection \<Rightarrow> active_process_context \<Rightarrow> freshness_policy \<Rightarrow> instant
   \<Rightarrow> scoped_focus_tracker \<times> bool" where
  "tracker_observe ft scope c policy now =
     (if scope = ExplicitGlobal then (ft, False)
      else
        let active = sf_active (scoped_focus_state_at_with_policy scope c now policy);
            previous = ft_active ft;
            ft1 = ft\<lparr>ft_active := Some active\<rparr>
        in if previous = Some active then (ft1, False)
           else let deactivated = (previous = Some True \<and> \<not> active)
                in (if deactivated then ft1\<lparr>ft_deactivated := True\<rparr> else ft1, deactivated))"

definition take_deactivation :: "scoped_focus_tracker \<Rightarrow> scoped_focus_tracker \<times> bool" where
  "take_deactivation ft = (ft\<lparr>ft_deactivated := False\<rparr>, ft_deactivated ft)"

definition record_scope_denial :: "runtime_stats \<Rightarrow> scope_denial \<Rightarrow> runtime_stats" where
  "record_scope_denial st d =
     (let st1 = record_active_process_non_match
                  (st\<lparr>rs_denied_action_count := rs_denied_action_count st + 1,
                      rs_scope_mismatch_count := rs_scope_mismatch_count st + 1\<rparr>)
      in if counts_as_metadata_unavailable d then record_metadata_unavailable st1 else st1)"

section \<open>The queue's invariant\<close>

definition run_labels :: "live_macro_run list \<Rightarrow> string list" where
  "run_labels rs = map lr_trigger_label rs"

definition run_ids :: "live_macro_run list \<Rightarrow> nat list" where
  "run_ids rs = map (\<lambda>r. mr_id (lr_state r)) rs"

lemma run_labels_simps [simp]:
  "run_labels [] = []" "run_labels (r # rs) = lr_trigger_label r # run_labels rs"
  "run_labels (rs @ ss) = run_labels rs @ run_labels ss"
  by (simp_all add: run_labels_def)

lemma run_ids_simps [simp]:
  "run_ids [] = []" "run_ids (r # rs) = mr_id (lr_state r) # run_ids rs"
  "run_ids (rs @ ss) = run_ids rs @ run_ids ss"
  by (simp_all add: run_ids_def)

text \<open>The active labels are exactly those of the runs, one run each; ids ascend.\<close>

definition runs_ok :: "live_macro_run list \<Rightarrow> string list \<Rightarrow> bool" where
  "runs_ok rs act \<longleftrightarrow> distinct (run_labels rs) \<and> set act = set (run_labels rs) \<and> bs_ok act
     \<and> sorted_wrt (<) (run_ids rs)"

definition queue_ok :: "live_macro_queue \<Rightarrow> bool" where
  "queue_ok q \<longleftrightarrow> runs_ok (mq_runs q) (mq_active_triggers q)
     \<and> (\<forall>i\<in>set (run_ids (mq_runs q)). i \<le> mq_next_id q)"

lemma queue_ok_default: "queue_ok macro_queue_default"
  by (simp add: queue_ok_def runs_ok_def macro_queue_default_def)

lemma queue_schedule_ok [inv_intros]:
  "queue_ok q \<Longrightarrow> queue_schedule q l sc d ms st now = (q', st', rid) \<Longrightarrow> queue_ok q'"
  by (fastforce simp: queue_ok_def runs_ok_def queue_schedule_def Let_def macro_run_new_def
      sorted_wrt_append split: if_splits)

lemma cancel_runs_labels [simp]:
  "run_labels (mq_runs (fst (cancel_runs p q))) = run_labels (mq_runs q)"
  "run_ids (mq_runs (fst (cancel_runs p q))) = run_ids (mq_runs q)"
  "mq_active_triggers (fst (cancel_runs p q)) = mq_active_triggers q"
  "mq_next_id (fst (cancel_runs p q)) = mq_next_id q"
  by (auto simp: cancel_runs_def Let_def run_labels_def run_ids_def macro_run_cancel_def)

lemma cancel_runs_ok [inv_intros]: "queue_ok q \<Longrightarrow> queue_ok (fst (cancel_runs p q))"
  by (simp add: queue_ok_def runs_ok_def)

lemma cancel_process_scoped_ok [inv_intros]:
  "queue_ok q \<Longrightarrow> queue_ok (fst (cancel_process_scoped q))"
  unfolding cancel_process_scoped_def by (rule cancel_runs_ok)

lemma cancel_trigger_ok [inv_intros]: "queue_ok q \<Longrightarrow> queue_ok (fst (cancel_trigger q l))"
  unfolding cancel_trigger_def by (rule cancel_runs_ok)

lemma runs_ok_poll:
  assumes "runs_ok (done @ r # rs) act" and "macro_run_poll_at (lr_state r) now = (s, p)"
  shows "runs_ok (done @ r\<lparr>lr_state := s\<rparr> # rs) act"
  using assms poll_keeps [OF assms(2)] by (auto simp: runs_ok_def)

lemma runs_ok_remove:
  "runs_ok (done @ r # rs) act \<Longrightarrow> runs_ok (done @ rs) (bs_remove (lr_trigger_label r) act)"
  by (auto simp: runs_ok_def sorted_wrt_append)

lemma drive_runs_ok:
  "runs_ok (done @ rs) act \<Longrightarrow>
   drive_runs exec now done rs act st w = (rs', act', st', w', res) \<Longrightarrow>
   runs_ok rs' act' \<and> set (run_ids rs') \<subseteq> set (run_ids (done @ rs))"
proof (induction exec now "done" rs act st w rule: drive_runs.induct)
  case (2 exec now dn r rs act st w)
  obtain s p where p: "macro_run_poll_at (lr_state r) now = (s, p)" by fastforce
  note keep = runs_ok_poll [OF "2.prems"(1) p] and gone = runs_ok_remove [OF "2.prems"(1)]
  have sid: "mr_id s = mr_id (lr_state r)" using poll_keeps [OF p] by simp
  show ?case
  proof (cases p)
    case (Ready req)
    obtain w1 em where e: "exec req w = (w1, em)" by fastforce
    show ?thesis
    proof (cases em)
      case (Inl err)
      with "2.prems"(2) p Ready e keep sid show ?thesis by auto
    next
      case (Inr v)
      obtain st1 r1 where st1: "emission_result v st = (st1, r1)" by fastforce
      show ?thesis
      proof (cases r1)
        case (Inl err)
        with "2.prems"(2) p Ready e Inr st1 keep sid show ?thesis by auto
      next
        case ok: (Inr u)
        from "2.IH"(1) [OF p [symmetric] Ready e [symmetric] Inr st1 [symmetric] ok]
        show ?thesis using "2.prems"(2) p Ready e Inr st1 ok keep sid by simp
      qed
    qed
  next
    case (Pending d)
    from "2.IH"(2) [OF p [symmetric] Pending] "2.prems"(2) p Pending keep sid show ?thesis by simp
  next
    case Complete
    from "2.IH"(3) [OF p [symmetric] Complete gone] "2.prems"(2) p Complete show ?thesis by auto
  next
    case Cancelled
    from "2.IH"(4) [OF p [symmetric] Cancelled gone] "2.prems"(2) p Cancelled show ?thesis by auto
  qed
qed auto

lemma drive_ready_ok [inv_intros]:
  assumes "queue_ok q" and "drive_ready exec q st now w = (q', st', w', res)"
  shows "queue_ok q'"
proof -
  obtain rs act where d: "drive_runs exec now [] (mq_runs q) (mq_active_triggers q) st w
      = (rs, act, st', w', res)" and q': "q' = q\<lparr>mq_runs := rs, mq_active_triggers := act\<rparr>"
    using assms(2) by (auto simp: drive_ready_def split: prod.splits)
  from assms(1) have ok: "runs_ok ([] @ mq_runs q) (mq_active_triggers q)"
    and ids: "\<And>i. i \<in> set (run_ids (mq_runs q)) \<Longrightarrow> i \<le> mq_next_id q"
    by (simp_all add: queue_ok_def)
  from drive_runs_ok [OF ok d] ids show ?thesis unfolding q' by (auto simp: queue_ok_def)
qed


section \<open>What one drive emits\<close>

text \<open>The request a run is due at an instant; a logging executor around any executor.\<close>

definition due_request :: "instant \<Rightarrow> live_macro_run \<Rightarrow> synthesized_input_request option" where
  "due_request now r =
     (case snd (macro_run_poll_at (lr_state r) now) of
        macro_run_poll.Ready req \<Rightarrow> Some req | _ \<Rightarrow> None)"

fun logged ::
  "'w executor \<Rightarrow> (synthesized_input_request list \<times> 'w) executor" where
  "logged exec req (l, w) = (case exec req w of (w', res) \<Rightarrow> ((l @ [req], w'), res))"

lemma due_request_cases:
  assumes "macro_run_poll_at (lr_state r) now = (s, p)"
  shows "due_request now r = (case p of macro_run_poll.Ready req \<Rightarrow> Some req | _ \<Rightarrow> None)"
  using assms by (simp add: due_request_def)

lemma drive_runs_log:
  "drive_runs (logged exec) now dn rs act st (l, w) = (rs', act', st', (l', w'), res) \<Longrightarrow>
   \<exists>n. l' = l @ take n (List.map_filter (due_request now) rs)
       \<and> (res = Ok () \<longrightarrow> n = length (List.map_filter (due_request now) rs))"
proof (induction rs arbitrary: dn act st l w)
  case Nil
  then show ?case by auto
next
  case (Cons r rs)
  obtain s p where p: "macro_run_poll_at (lr_state r) now = (s, p)" by fastforce
  note due = due_request_cases [OF p]
  show ?case
  proof (cases p)
    case (Ready req)
    have mf: "List.map_filter (due_request now) (r # rs)
        = req # List.map_filter (due_request now) rs"
      using due Ready by (simp add: map_filter_simps)
    obtain w1 em where e: "exec req w = (w1, em)" by fastforce
    consider (stop) e' where "l' = l @ [req]" "res = Err e'"
      | (go) st1 where "drive_runs (logged exec) now (dn @ [r\<lparr>lr_state := s\<rparr>]) rs act st1
          (l @ [req], w1) = (rs', act', st', (l', w'), res)"
    proof (cases em)
      case (Inl err)
      from Cons.prems p Ready e Inl have "l' = l @ [req]" "res = Err err" by auto
      then show ?thesis by (rule stop)
    next
      case (Inr v)
      obtain st1 r1 where "emission_result v st = (st1, r1)" by fastforce
      show ?thesis
      proof (cases r1)
        case (Inl err)
        from Cons.prems p Ready e Inr Inl \<open>emission_result v st = (st1, r1)\<close>
        have "l' = l @ [req]" "res = Err err" by auto
        then show ?thesis by (rule stop)
      next
        case ok: (Inr u)
        from Cons.prems p Ready e Inr ok \<open>emission_result v st = (st1, r1)\<close>
        show ?thesis by (intro go) simp
      qed
    qed
    then show ?thesis
    proof cases
      case stop
      with mf show ?thesis by (intro exI [of _ 1]) simp
    next
      case go
      from Cons.IH [OF go] obtain n where
        "l' = (l @ [req]) @ take n (List.map_filter (due_request now) rs)"
        "res = Ok () \<longrightarrow> n = length (List.map_filter (due_request now) rs)" by blast
      with mf show ?thesis by (intro exI [of _ "Suc n"]) simp
    qed
  next
    case (Pending d)
    with due have "List.map_filter (due_request now) (r # rs) = List.map_filter (due_request now) rs"
      by (simp add: map_filter_simps)
    moreover from Cons.prems p Pending have "drive_runs (logged exec) now (dn @ [r\<lparr>lr_state := s\<rparr>])
        rs act st (l, w) = (rs', act', st', (l', w'), res)" by simp
    ultimately show ?thesis using Cons.IH by simp
  next
    case Complete
    with due have "List.map_filter (due_request now) (r # rs) = List.map_filter (due_request now) rs"
      by (simp add: map_filter_simps)
    moreover from Cons.prems p Complete obtain act1 st1 where "drive_runs (logged exec) now dn
        rs act1 st1 (l, w) = (rs', act', st', (l', w'), res)" by simp
    ultimately show ?thesis using Cons.IH by simp
  next
    case Cancelled
    with due have "List.map_filter (due_request now) (r # rs) = List.map_filter (due_request now) rs"
      by (simp add: map_filter_simps)
    moreover from Cons.prems p Cancelled obtain act1 where "drive_runs (logged exec) now dn
        rs act1 st (l, w) = (rs', act', st', (l', w'), res)" by simp
    ultimately show ?thesis using Cons.IH by simp
  qed
qed

text \<open>A drive that succeeds keeps only runs that were neither cancelled nor complete before.\<close>

definition run_live :: "live_macro_run \<Rightarrow> bool" where
  "run_live r \<longleftrightarrow> \<not> mr_cancelled (lr_state r)
     \<and> mr_next_action (lr_state r) < length (mr_actions (lr_state r))"

lemma poll_over_iff:
  assumes "macro_run_poll_at (lr_state r) now = (s, p)"
  shows "p = macro_run_poll.Complete \<or> p = macro_run_poll.Cancelled \<longleftrightarrow> \<not> run_live r"
  using assms
  by (auto simp: run_live_def macro_run_poll_at_def Let_def split: if_splits macro_action.splits)

lemma drive_runs_ids:
  "drive_runs exec now dn rs act st w = (rs', act', st', w', Ok ()) \<Longrightarrow>
   run_ids rs' = run_ids dn @ run_ids (filter run_live rs)
   \<and> run_labels rs' = run_labels dn @ run_labels (filter run_live rs)"
proof (induction rs arbitrary: dn act st w)
  case Nil
  then show ?case by auto
next
  case (Cons r rs)
  obtain s p where p: "macro_run_poll_at (lr_state r) now = (s, p)" by fastforce
  have sid: "mr_id s = mr_id (lr_state r)" using poll_keeps [OF p] by simp
  note over = poll_over_iff [OF p]
  show ?case
  proof (cases "run_live r")
    case True
    with over have "(\<exists>req. p = macro_run_poll.Ready req) \<or> (\<exists>d. p = macro_run_poll.Pending d)"
      by (cases p) auto
    then obtain st1 w1 where "drive_runs exec now (dn @ [r\<lparr>lr_state := s\<rparr>]) rs act st1 w1
        = (rs', act', st', w', Ok ())"
      using Cons.prems p by (auto split: prod.splits sum.splits)
    from Cons.IH [OF this] sid True show ?thesis by simp
  next
    case False
    with over Cons.prems p obtain act1 st1 where
      "drive_runs exec now dn rs act1 st1 w = (rs', act', st', w', Ok ())" by auto
    from Cons.IH [OF this] False show ?thesis by simp
  qed
qed

lemma drive_ready_split:
  assumes "drive_ready exec q st now w = (q', st', w', res)"
  obtains rs act where "drive_runs exec now [] (mq_runs q) (mq_active_triggers q) st w
      = (rs, act, st', w', res)" and "q' = q\<lparr>mq_runs := rs, mq_active_triggers := act\<rparr>"
  using assms by (auto simp: drive_ready_def split: prod.splits)

text \<open>
  A run that has emitted its last action and is not yet polled again: it has no deadline, and its
  label still refuses a new run.
\<close>

lemma over_run_blocks:
  assumes "queue_ok q" and "r \<in> set (mq_runs q)" and "\<not> run_live r"
  shows "macro_run_next_deadline (lr_state r) = None
    \<and> queue_schedule q (lr_trigger_label r) sc d ms st now
      = (q, record_non_repeat_collision_skip st, None)"
proof -
  have "lr_trigger_label r \<in> set (mq_active_triggers q)"
    using assms(1,2) by (auto simp: queue_ok_def runs_ok_def run_labels_def)
  moreover have "macro_run_next_deadline (lr_state r) = None"
    using assms(3) by (auto simp: run_live_def macro_run_next_deadline_def)
  ultimately show ?thesis by (simp add: queue_schedule_def)
qed

lemma idle_when_all_over:
  assumes "\<forall>r\<in>set (mq_runs q). \<not> run_live r"
  shows "queue_next_wait_timeout q now = idle_wait_timeout"
proof -
  have "macro_run_next_deadline (lr_state r) = None" if "r \<in> set (mq_runs q)" for r
    using assms that by (auto simp: run_live_def macro_run_next_deadline_def)
  then have "List.map_filter (\<lambda>r. macro_run_next_deadline (lr_state r)) (mq_runs q) = []"
    by (simp add: List.map_filter_def)
  then show ?thesis by (simp add: queue_next_wait_timeout_def)
qed

section \<open>Waiting\<close>

lemma foldl_min_le: "foldl min d ds \<le> d" for d :: nat
proof (induction ds arbitrary: d)
  case (Cons x xs)
  from Cons.IH [of "min d x"] show ?case by simp
qed simp

lemma foldl_min_mem: "e \<in> set ds \<Longrightarrow> foldl min d ds \<le> e" for d :: nat
proof (induction ds arbitrary: d)
  case (Cons x xs)
  then show ?case using foldl_min_le [of "min d x" xs] by auto
qed simp

lemma foldl_min_in: "foldl min d ds \<in> insert d (set ds)" for d :: nat
  by (induction ds arbitrary: d) (auto simp: min_def)

text \<open>The wait never passes the deadline of a run, and it is zero once a run is due.\<close>

lemma wait_le_deadline:
  assumes "r \<in> set (mq_runs q)" and "macro_run_next_deadline (lr_state r) = Some t"
  shows "queue_next_wait_timeout q now \<le> t - now"
proof -
  let ?ds = "map (\<lambda>d. d - now)
    (List.map_filter (\<lambda>r. macro_run_next_deadline (lr_state r)) (mq_runs q))"
  have "t - now \<in> set ?ds"
    using assms by (force simp: List.map_filter_def)
  then show ?thesis
    by (cases ?ds) (auto simp: queue_next_wait_timeout_def foldl_min_le intro: foldl_min_mem)
qed

section \<open>Focus\<close>

lemma tracker_observe_True_iff:
  "snd (tracker_observe ft scope c policy now) \<longleftrightarrow>
     scope \<noteq> ExplicitGlobal \<and> ft_active ft = Some True
     \<and> \<not> sf_active (scoped_focus_state_at_with_policy scope c now policy)"
  by (auto simp: tracker_observe_def Let_def)

lemma tracker_observe_deactivated:
  "ft_deactivated (fst (tracker_observe ft scope c policy now)) \<longleftrightarrow>
     ft_deactivated ft \<or> snd (tracker_observe ft scope c policy now)"
  by (auto simp: tracker_observe_def Let_def)

lemma cancelled_process_runs:
  "r \<in> set (mq_runs (fst (cancel_process_scoped q))) \<Longrightarrow> is_process_list (lr_scope r) \<Longrightarrow>
   mr_cancelled (lr_state r)"
  by (auto simp: cancel_process_scoped_def cancel_runs_def Let_def macro_run_cancel_def
      split: if_splits)

end
