(* ===== verification/Effects.thy ===== *)
theory Effects imports Prelude begin

text \<open>
  The effect of the live event loop: a state is threaded, an operation may return an error with
  the state it left behind, and an operation with an unbounded loop may not return (\<open>None\<close>).
  \<open>Result<T, E>\<close> with the \<open>?\<close> operator over mutable state is \<open>sbind\<close>. The predicate \<open>keeps\<close>
  says that an operation keeps a property of the state on its successful and its failing exits.
\<close>

type_synonym ('s, 'e, 'a) effect = "'s \<Rightarrow> ('s \<times> ('e + 'a)) option"

definition sreturn :: "'a \<Rightarrow> ('s, 'e, 'a) effect" where
  "sreturn a s = Some (s, Ok a)"

definition sfail :: "'e \<Rightarrow> ('s, 'e, 'a) effect" where
  "sfail e s = Some (s, Err e)"

definition sbind ::
  "('s, 'e, 'a) effect \<Rightarrow> ('a \<Rightarrow> ('s, 'e, 'b) effect) \<Rightarrow> ('s, 'e, 'b) effect" where
  "sbind m f s = (case m s of
     None \<Rightarrow> None
   | Some (s1, Inl e) \<Rightarrow> Some (s1, Err e)
   | Some (s1, Inr a) \<Rightarrow> f a s1)"

definition sthen :: "('s, 'e, unit) effect \<Rightarrow> ('s, 'e, 'b) effect \<Rightarrow> ('s, 'e, 'b) effect" where
  "sthen m k = sbind m (\<lambda>_. k)"

text \<open>Lifting: a read, an infallible update, and an update that may fail.\<close>

definition sget :: "('s \<Rightarrow> 'a) \<Rightarrow> ('s, 'e, 'a) effect" where
  "sget f s = Some (s, Ok (f s))"

definition supd :: "('s \<Rightarrow> 's) \<Rightarrow> ('s, 'e, unit) effect" where
  "supd f s = Some (f s, Ok ())"

definition srun :: "('s \<Rightarrow> 's \<times> 'a) \<Rightarrow> ('s, 'e, 'a) effect" where
  "srun f s = (case f s of (s1, a) \<Rightarrow> Some (s1, Ok a))"

definition stry :: "('s \<Rightarrow> 's \<times> ('e + 'a)) \<Rightarrow> ('s, 'e, 'a) effect" where
  "stry f s = Some (f s)"

definition swhen :: "bool \<Rightarrow> ('s, 'e, unit) effect \<Rightarrow> ('s, 'e, unit) effect" where
  "swhen b m = (if b then m else sreturn ())"

text \<open>\<open>for x in xs\<close> with a body that may fail.\<close>

fun seach :: "('a \<Rightarrow> ('s, 'e, unit) effect) \<Rightarrow> 'a list \<Rightarrow> ('s, 'e, unit) effect" where
  "seach f [] = sreturn ()"
| "seach f (x # xs) = sthen (f x) (seach f xs)"

text \<open>\<open>for x in xs\<close> with an accumulator, as \<open>consumed |= f(x)?\<close> does.\<close>

fun sfold :: "('a \<Rightarrow> 'b \<Rightarrow> ('s, 'e, 'b) effect) \<Rightarrow> 'a list \<Rightarrow> 'b \<Rightarrow> ('s, 'e, 'b) effect" where
  "sfold f [] b = sreturn b"
| "sfold f (x # xs) b = sbind (f x b) (sfold f xs)"

lemmas effect_defs =
  sreturn_def sfail_def sbind_def sthen_def sget_def supd_def srun_def stry_def swhen_def

lemma sbind_sreturn [simp]: "sbind (sreturn a) f = f a"
  by (simp add: fun_eq_iff sbind_def sreturn_def)

lemma sbind_sget [simp]: "sbind (sget g) f s = f (g s) s"
  by (simp add: sbind_def sget_def)

lemma sbind_supd [simp]: "sbind (supd g) f s = f () (g s)"
  by (simp add: sbind_def supd_def)

lemma sthen_supd [simp]: "sthen (supd g) k s = k (g s)"
  by (simp add: sthen_def)

lemma sbind_Some_Ok:
  "sbind m f s = Some (s', Inr b) \<longleftrightarrow>
     (\<exists>s1 a. m s = Some (s1, Inr a) \<and> f a s1 = Some (s', Inr b))"
  by (auto simp: sbind_def split: option.splits sum.splits prod.splits)

lemma sbind_Some:
  "sbind m f s = Some (s', r) \<longleftrightarrow>
     (\<exists>e. m s = Some (s', Inl e) \<and> r = Inl e)
     \<or> (\<exists>s1 a. m s = Some (s1, Inr a) \<and> f a s1 = Some (s', r))"
  by (auto simp: sbind_def split: option.splits sum.splits prod.splits)

lemma sbind_mono [partial_function_mono]:
  assumes "\<And>a s. mono_option (\<lambda>g. B g a s)"
  shows "mono_option (\<lambda>g. sbind m (\<lambda>a. B g a) s)"
proof (cases "m s")
  case None
  then show ?thesis by (simp add: sbind_def monotone_on_def flat_ord_def)
next
  case (Some p)
  then show ?thesis using assms
    by (cases p; cases "snd p") (auto simp: sbind_def monotone_on_def flat_ord_def)
qed

lemma sthen_mono [partial_function_mono]:
  assumes "\<And>s. mono_option (\<lambda>g. B g s)"
  shows "mono_option (\<lambda>g. sthen m (B g) s)"
  unfolding sthen_def by (rule sbind_mono) (rule assms)

section \<open>Properties kept by an operation\<close>

named_theorems keeps_intros \<open>operations that keep a property of the state\<close>

definition keeps :: "('s \<Rightarrow> bool) \<Rightarrow> ('s, 'e, 'a) effect \<Rightarrow> bool" where
  "keeps I m \<longleftrightarrow> (\<forall>s s' r. I s \<longrightarrow> m s = Some (s', r) \<longrightarrow> I s')"

lemma keepsI: "(\<And>s s' r. I s \<Longrightarrow> m s = Some (s', r) \<Longrightarrow> I s') \<Longrightarrow> keeps I m"
  by (simp add: keeps_def)

lemma keepsD: "keeps I m \<Longrightarrow> I s \<Longrightarrow> m s = Some (s', r) \<Longrightarrow> I s'"
  by (auto simp: keeps_def)

lemma keeps_sreturn [keeps_intros]: "keeps I (sreturn a)"
  by (simp add: keeps_def sreturn_def)

lemma keeps_sfail [keeps_intros]: "keeps I (sfail e)"
  by (simp add: keeps_def sfail_def)

lemma keeps_sget [keeps_intros]: "keeps I (sget f)"
  by (simp add: keeps_def sget_def)

lemma keeps_sbind [keeps_intros]:
  "keeps I m \<Longrightarrow> (\<And>a. keeps I (f a)) \<Longrightarrow> keeps I (sbind m f)"
  unfolding keeps_def sbind_Some by metis

lemma keeps_sthen [keeps_intros]: "keeps I m \<Longrightarrow> keeps I k \<Longrightarrow> keeps I (sthen m k)"
  unfolding sthen_def by (rule keeps_sbind)

lemma keeps_supd: "(\<And>s. I s \<Longrightarrow> I (f s)) \<Longrightarrow> keeps I (supd f)"
  by (simp add: keeps_def supd_def)

lemma keeps_srun: "(\<And>s. I s \<Longrightarrow> I (fst (f s))) \<Longrightarrow> keeps I (srun f)"
  by (auto simp: keeps_def srun_def split: prod.splits) (metis fst_conv)

lemma keeps_stry: "(\<And>s. I s \<Longrightarrow> I (fst (f s))) \<Longrightarrow> keeps I (stry f)"
  by (auto simp: keeps_def stry_def) (metis fst_conv)

lemma keeps_swhen [keeps_intros]: "keeps I m \<Longrightarrow> keeps I (swhen b m)"
  by (simp add: swhen_def keeps_sreturn)

lemma keeps_if [keeps_intros]:
  "keeps I m \<Longrightarrow> keeps I k \<Longrightarrow> keeps I (if b then m else k)"
  by simp

lemma keeps_option [keeps_intros]:
  "keeps I m \<Longrightarrow> (\<And>x. keeps I (f x)) \<Longrightarrow> keeps I (case o' of None \<Rightarrow> m | Some x \<Rightarrow> f x)"
  by (cases o') simp_all

lemma keeps_option_at [keeps_intros]:
  "keeps I m \<Longrightarrow> (\<And>x. keeps I (f x)) \<Longrightarrow>
   keeps I (\<lambda>s. case o' of None \<Rightarrow> m s | Some x \<Rightarrow> f x s)"
  by (cases o') simp_all

text \<open>
  A loop that is a partial function keeps what one unfolding of it keeps: the premise is the
  step of its \<open>raw_induct\<close> rule.
\<close>

lemma keeps_returned: "(\<And>s y. m s = Some y \<Longrightarrow> I s \<longrightarrow> I (fst y)) \<Longrightarrow> keeps I m"
  by (auto simp: keeps_def)

lemma keeps_seach [keeps_intros]: "(\<And>x. keeps I (f x)) \<Longrightarrow> keeps I (seach f xs)"
  by (induction xs) (auto intro: keeps_intros)

lemma keeps_sfold [keeps_intros]: "(\<And>x b. keeps I (f x b)) \<Longrightarrow> keeps I (sfold f xs b)"
  by (induction xs arbitrary: b) (auto intro: keeps_intros)

text \<open>Two properties are kept together.\<close>

lemma keeps_conj: "keeps I m \<Longrightarrow> keeps J m \<Longrightarrow> keeps (\<lambda>s. I s \<and> J s) m"
  by (auto simp: keeps_def)

section \<open>What an operation returns\<close>

named_theorems returns_intros \<open>rules for the value an operation returns\<close>

definition returns :: "('s, 'e, 'a) effect \<Rightarrow> ('a \<Rightarrow> bool) \<Rightarrow> bool" where
  "returns m P \<longleftrightarrow> (\<forall>s s' a. m s = Some (s', Inr a) \<longrightarrow> P a)"

lemma returnsD: "returns m P \<Longrightarrow> m s = Some (s', Inr a) \<Longrightarrow> P a"
  by (auto simp: returns_def)

lemma returns_sreturn [returns_intros]: "P a \<Longrightarrow> returns (sreturn a) P"
  by (simp add: returns_def sreturn_def)

lemma returns_sfail [returns_intros]: "returns (sfail e) P"
  by (simp add: returns_def sfail_def)

lemma returns_sbind:
  "returns m Q \<Longrightarrow> (\<And>a. Q a \<Longrightarrow> returns (f a) P) \<Longrightarrow> returns (sbind m f) P"
  unfolding returns_def sbind_Some_Ok by metis

lemma returns_sbind_any [returns_intros]: "(\<And>a. returns (f a) P) \<Longrightarrow> returns (sbind m f) P"
  by (rule returns_sbind [of _ "\<lambda>_. True"]) (simp_all add: returns_def)

lemma returns_sthen [returns_intros]: "returns k P \<Longrightarrow> returns (sthen m k) P"
  unfolding sthen_def by (rule returns_sbind_any)

lemma returns_sfold:
  "P b \<Longrightarrow> (\<And>x b. x \<in> set xs \<Longrightarrow> P b \<Longrightarrow> returns (f x b) P) \<Longrightarrow> returns (sfold f xs b) P"
  by (induction xs arbitrary: b) (auto intro: returns_intros returns_sbind)

text \<open>The continuation of \<open>sbind\<close> runs only on values the first operation returns.\<close>

lemma keeps_sbind_returned:
  "keeps I m \<Longrightarrow> returns m Q \<Longrightarrow> (\<And>a. Q a \<Longrightarrow> keeps I (f a)) \<Longrightarrow> keeps I (sbind m f)"
  unfolding keeps_def returns_def sbind_Some by metis

lemma keeps_sfold_all:
  "(\<And>x b. x \<in> set xs \<Longrightarrow> keeps I (f x b)) \<Longrightarrow> keeps I (sfold f xs b)"
  by (induction xs arbitrary: b) (auto intro: keeps_intros)

section \<open>What holds on the two exits\<close>

text \<open>
  \<open>upholds I J m\<close>: from a state with \<open>I\<close> the operation ends in one with \<open>I\<close> when it succeeds, and
  in one with \<open>J\<close> when it fails.
\<close>

named_theorems upholds_intros \<open>rules for what holds on the exits of an operation\<close>

fun exits :: "('s \<Rightarrow> bool) \<Rightarrow> ('s \<Rightarrow> bool) \<Rightarrow> 's \<times> ('e + 'a) \<Rightarrow> bool" where
  "exits I J (s, Inl e) = J s"
| "exits I J (s, Inr a) = I s"

definition upholds :: "('s \<Rightarrow> bool) \<Rightarrow> ('s \<Rightarrow> bool) \<Rightarrow> ('s, 'e, 'a) effect \<Rightarrow> bool" where
  "upholds I J m \<longleftrightarrow> (\<forall>s y. I s \<longrightarrow> m s = Some y \<longrightarrow> exits I J y)"

lemma upholdsI: "(\<And>s y. m s = Some y \<Longrightarrow> I s \<longrightarrow> exits I J y) \<Longrightarrow> upholds I J m"
  unfolding upholds_def by blast

lemma upholdsD: "upholds I J m \<Longrightarrow> m s = Some y \<Longrightarrow> I s \<longrightarrow> exits I J y"
  unfolding upholds_def by blast

lemma upholdsD_ok: "upholds I J m \<Longrightarrow> I s \<Longrightarrow> m s = Some (s', Inr a) \<Longrightarrow> I s'"
  using upholdsD by fastforce

lemma upholdsD_err: "upholds I J m \<Longrightarrow> I s \<Longrightarrow> m s = Some (s', Inl e) \<Longrightarrow> J s'"
  using upholdsD by fastforce

lemma upholds_sreturn [upholds_intros]: "upholds I J (sreturn a)"
  by (simp add: upholds_def sreturn_def)

lemma upholds_sfail: "(\<And>s. I s \<Longrightarrow> J s) \<Longrightarrow> upholds I J (sfail e)"
  by (simp add: upholds_def sfail_def)

lemma upholds_sget [upholds_intros]: "upholds I J (sget f)"
  by (simp add: upholds_def sget_def)

lemma upholds_keeps: "keeps I m \<Longrightarrow> (\<And>s. I s \<Longrightarrow> J s) \<Longrightarrow> upholds I J m"
  unfolding upholds_def by (metis keepsD exits.elims(3))

lemma upholds_sbind [upholds_intros]:
  assumes m: "upholds I J m" and f: "\<And>a. upholds I J (f a)"
  shows "upholds I J (sbind m f)"
proof (rule upholdsI, rule impI)
  fix s y
  assume y: "sbind m f s = Some y" and I: "I s"
  obtain s' r where r: "y = (s', r)" by fastforce
  from y [unfolded r sbind_Some] show "exits I J y"
  proof (elim disjE exE conjE)
    fix e assume "m s = Some (s', Inl e)" "r = Inl e"
    with upholdsD_err [OF m I] show ?thesis by (simp add: r)
  next
    fix s1 a assume "m s = Some (s1, Inr a)" and fa: "f a s1 = Some (s', r)"
    with upholdsD_ok [OF m I] have "I s1" by simp
    with upholdsD [OF f fa] show ?thesis by (simp add: r)
  qed
qed

lemma upholds_sthen [upholds_intros]:
  "upholds I J m \<Longrightarrow> upholds I J k \<Longrightarrow> upholds I J (sthen m k)"
  unfolding sthen_def by (rule upholds_sbind)

lemma upholds_sbind_sget:
  "(\<And>s. I s \<Longrightarrow> upholds I J (f (g s))) \<Longrightarrow> upholds I J (sbind (sget g) f)"
  by (simp add: upholds_def)

lemma upholds_swhen [upholds_intros]: "upholds I J m \<Longrightarrow> upholds I J (swhen b m)"
  by (simp add: swhen_def upholds_sreturn)

lemma upholds_option [upholds_intros]:
  "upholds I J m \<Longrightarrow> (\<And>x. o' = Some x \<Longrightarrow> upholds I J (f x)) \<Longrightarrow>
   upholds I J (case o' of None \<Rightarrow> m | Some x \<Rightarrow> f x)"
  by (cases o') simp_all

lemma upholds_if [upholds_intros]:
  "(b \<Longrightarrow> upholds I J m) \<Longrightarrow> (\<not> b \<Longrightarrow> upholds I J k) \<Longrightarrow> upholds I J (if b then m else k)"
  by simp

lemma upholds_seach [upholds_intros]:
  "(\<And>x. x \<in> set xs \<Longrightarrow> upholds I J (f x)) \<Longrightarrow> upholds I J (seach f xs)"
  by (induction xs) (auto intro: upholds_intros)

end
