(* ===== verification/LiveState.thy ===== *)
theory LiveState imports MacroQueue Effects begin

text \<open>
  What the live event loops of \<open>signal-auras-cli/src/runner.rs\<close> work on: the observed input
  events of \<open>signal-auras-wayland/src/evdev.rs\<close>, the operations of the adapter, the state, and
  \<open>runner/runtime_loop.rs\<close> (the wake-up file descriptors and the time to wait).

  The adapter (\<open>RealWaylandAdapter\<close>, the timer and signal descriptors, the clocks) is the world
  \<open>'w\<close>; each of its calls is a field of \<open>live_adapter\<close>. Log lines are not modelled.
\<close>

section \<open>Observed input\<close>

datatype kernel_event_timestamp = Unavailable | Monotonic duration

definition event_age_at :: "kernel_event_timestamp \<Rightarrow> duration \<Rightarrow> duration option" where
  "event_age_at ts now =
     (case ts of kernel_event_timestamp.Unavailable \<Rightarrow> None | Monotonic t \<Rightarrow> checked_sub now t)"

definition from_timeval :: "int \<Rightarrow> int \<Rightarrow> kernel_event_timestamp" where
  "from_timeval seconds microseconds =
     (if seconds < 0 \<or> \<not> (0 \<le> microseconds \<and> microseconds < 1000000)
         \<or> (seconds = 0 \<and> microseconds = 0)
      then kernel_event_timestamp.Unavailable
      else Monotonic (nat seconds * 1000000000 + nat microseconds * 1000))"

record raw_input_event =
  re_event_type :: "16 word"
  re_code :: "16 word"
  re_value :: "32 word"
  re_kernel_timestamp :: kernel_event_timestamp

definition should_passthrough :: "raw_input_event \<Rightarrow> bool" where
  "should_passthrough e = (re_event_type e \<in> {0, 1, 2})"

record observed_input_event =
  oi_raw :: raw_input_event
  oi_event :: "motion_input_event option"
  oi_source :: path
  oi_grabbed :: bool
  oi_observed_at :: instant

record observed_motion_input_event =
  om_event :: motion_input_event
  om_source :: path
  om_kernel_timestamp :: kernel_event_timestamp
  om_observed_at :: instant

record observed_shortcut_event =
  se_hotkey :: hotkey_id
  se_received_at :: instant

section \<open>Wake-ups\<close>

type_synonym raw_fd = int

datatype evdev_input_wait_outcome = Input observed_input_event | RuntimeFd raw_fd | Timeout

datatype runtime_wake = Signal | Timer | Callback | Unknown

record runtime_wake_fds =
  wf_signal_fd :: raw_fd
  wf_timer_fd :: raw_fd
  wf_callback_fd :: "raw_fd option"

datatype runtime_wait_outcome =
    Input observed_input_event | Signal | Timer | Callback | Timeout | UnknownRuntimeFd

definition poll_fds :: "runtime_wake_fds \<Rightarrow> raw_fd list" where
  "poll_fds w = [wf_signal_fd w, wf_timer_fd w]
     @ (case wf_callback_fd w of None \<Rightarrow> [] | Some fd \<Rightarrow> [fd])"

definition wake_classify :: "runtime_wake_fds \<Rightarrow> raw_fd \<Rightarrow> runtime_wake" where
  "wake_classify w fd =
     (if fd = wf_signal_fd w then runtime_wake.Signal
      else if fd = wf_timer_fd w then runtime_wake.Timer
      else if wf_callback_fd w = Some fd then runtime_wake.Callback
      else Unknown)"

definition classify_wait_outcome ::
  "evdev_input_wait_outcome \<Rightarrow> runtime_wake_fds \<Rightarrow> runtime_wait_outcome" where
  "classify_wait_outcome outcome w =
     (case outcome of
        evdev_input_wait_outcome.Input e \<Rightarrow> Input e
      | RuntimeFd fd \<Rightarrow>
          (case wake_classify w fd of
             runtime_wake.Signal \<Rightarrow> Signal
           | runtime_wake.Timer \<Rightarrow> Timer
           | runtime_wake.Callback \<Rightarrow> Callback
           | Unknown \<Rightarrow> UnknownRuntimeFd)
      | evdev_input_wait_outcome.Timeout \<Rightarrow> Timeout)"

type_synonym tick_times = "(motion_trigger \<times> instant) list"

text \<open>One pass of the loop of \<open>next_live_wait_timeout\<close>.\<close>

definition repeat_due_in :: "instant \<Rightarrow> tick_times \<Rightarrow> motion_trigger \<Rightarrow> nat \<Rightarrow> duration" where
  "repeat_due_in now ticked t interval_ms =
     (case bm_get ticked t of
        Some tick \<Rightarrow> from_millis interval_ms - (now - tick)
      | None \<Rightarrow> 0)"

definition next_live_wait_timeout ::
  "(motion_trigger \<times> nat) list \<Rightarrow> tick_times \<Rightarrow> motion_runtime \<Rightarrow> instant \<Rightarrow> duration" where
  "next_live_wait_timeout ticks ticked rt now =
     foldl (\<lambda>timeout (t, ms). if \<not> loop_is_active rt t then timeout
                              else min timeout (repeat_due_in now ticked t ms))
       idle_wait_timeout ticks"

section \<open>The adapter\<close>

type_synonym registration_id = string

record ('w, 't) live_adapter =
  ad_now :: "'w \<Rightarrow> 'w \<times> instant"
  ad_monotonic_clock_time :: "'w \<Rightarrow> 'w \<times> duration option"
  ad_active_process_context :: "'w \<Rightarrow> 'w \<times> active_process_context result"
  ad_execute_input_request :: "'w executor"
  ad_passthrough_raw_input :: "raw_input_event \<Rightarrow> 'w \<Rightarrow> 'w \<times> unit result"
  ad_arm_input_grab :: "'w \<Rightarrow> 'w \<times> unit result"
  ad_release_input_grab :: "'w \<Rightarrow> 'w \<times> unit result"
  ad_take_callback_dropped_count :: "'w \<Rightarrow> 'w \<times> u64"
  ad_next_shortcut_event :: "'w \<Rightarrow> 'w \<times> observed_shortcut_event option"
  ad_next_input_event :: "'w \<Rightarrow> 'w \<times> observed_input_event option result"
  ad_wait_next_input_or_runtime_fd ::
    "duration \<Rightarrow> raw_fd list \<Rightarrow> 'w \<Rightarrow> 'w \<times> evdev_input_wait_outcome result"
  ad_wake_fds :: "'w \<Rightarrow> runtime_wake_fds"
  ad_arm_timer_after :: "duration \<Rightarrow> 'w \<Rightarrow> 'w \<times> unit result"
  ad_drain_timer :: "'w \<Rightarrow> 'w \<times> unit result"
  ad_drain_callback_wake_fd :: "'w \<Rightarrow> 'w \<times> unit result"
  ad_drain_shutdown_reason :: "'w \<Rightarrow> 'w \<times> shutdown_reason option result"
  ad_register_internal_hotkey :: "hotkey_id \<Rightarrow> 'w \<Rightarrow> 'w \<times> registration_id result"
  ad_unregister_internal_hotkey :: "registration_id \<Rightarrow> 'w \<Rightarrow> 'w \<times> unit result"
  ad_pointer_diagnostic :: "'w \<Rightarrow> 'w \<times> unit result"
  ad_render_tracker_ghosts :: "'t list \<Rightarrow> 'w \<Rightarrow> 'w \<times> unit result"
  ad_cleanup_overlay :: "string \<Rightarrow> 'w \<Rightarrow> 'w \<times> unit result"

section \<open>The state\<close>

text \<open>\<open>DeveloperDiagnosticRuntime\<close>; \<open>'t\<close> is the definition of a state tracker.\<close>

record 't dev_runtime =
  dr_enabled :: bool
  dr_trackers :: "'t list option"
  dr_toggle_registration :: "registration_id option"
  dr_pointer_registration :: "registration_id option"
  dr_ghost_registration :: "registration_id option"
  dr_ghost_visible :: bool

definition dev_runtime_default :: "'t dev_runtime" where
  "dev_runtime_default =
     \<lparr>dr_enabled = False, dr_trackers = None, dr_toggle_registration = None,
      dr_pointer_registration = None, dr_ghost_registration = None, dr_ghost_visible = False\<rparr>"

definition dev_with_trackers :: "'t list \<Rightarrow> 't dev_runtime" where
  "dev_with_trackers ts = dev_runtime_default\<lparr>dr_trackers := Some ts\<rparr>"

text \<open>What both event loops keep, and the loop over macros.\<close>

record ('w, 't) live_core =
  lc_world :: 'w
  lc_dev :: "'t dev_runtime"
  lc_stats :: runtime_stats
  lc_motion_runtime :: motion_runtime
  lc_last_repeat_ticks :: tick_times

record ('w, 't) live_state = "('w, 't) live_core" +
  ls_queue :: live_macro_queue
  ls_focus :: scoped_focus_tracker

type_synonym ('w, 't, 'z, 'a) core_effect =
  "(('w, 't, 'z) live_core_scheme, diagnosable_error, 'a) effect"

type_synonym ('w, 't, 'a) live_effect = "(('w, 't) live_state, diagnosable_error, 'a) effect"

section \<open>Calls of the adapter\<close>

definition world_call :: "('w \<Rightarrow> 'w \<times> 'a) \<Rightarrow> ('w, 't, 'z, 'a) core_effect" where
  "world_call f = srun (\<lambda>s. case f (lc_world s) of (w, a) \<Rightarrow> (s\<lparr>lc_world := w\<rparr>, a))"

definition world_try :: "('w \<Rightarrow> 'w \<times> 'a result) \<Rightarrow> ('w, 't, 'z, 'a) core_effect" where
  "world_try f = stry (\<lambda>s. case f (lc_world s) of (w, r) \<Rightarrow> (s\<lparr>lc_world := w\<rparr>, r))"

text \<open>A call whose error the code matches on instead of returning it.\<close>

definition world_result :: "('w \<Rightarrow> 'w \<times> 'a result) \<Rightarrow> ('w, 't, 'z, 'a result) core_effect" where
  "world_result f = world_call f"

definition count :: "(runtime_stats \<Rightarrow> runtime_stats) \<Rightarrow> ('w, 't, 'z, unit) core_effect" where
  "count f = supd (\<lambda>s. s\<lparr>lc_stats := f (lc_stats s)\<rparr>)"

definition check :: "'a result \<Rightarrow> ('w, 't, 'z, 'a) core_effect" where
  "check r = (case r of Inl e \<Rightarrow> sfail e | Inr a \<Rightarrow> sreturn a)"

named_theorems world_intros \<open>parts that keep what does not depend on the world and the counters\<close>

text \<open>A property of the state that no call of the adapter and no counter can break.\<close>

definition world_free :: "(('w, 't, 'z) live_core_scheme \<Rightarrow> bool) \<Rightarrow> bool" where
  "world_free I \<longleftrightarrow>
     (\<forall>s w st. I s \<longrightarrow> I (s\<lparr>lc_world := w\<rparr>) \<and> I (s\<lparr>lc_stats := st\<rparr>))"

lemma keeps_world_call [world_intros]: "world_free I \<Longrightarrow> keeps I (world_call f)"
  unfolding world_call_def by (rule keeps_srun) (auto simp: world_free_def split: prod.splits)

lemma keeps_world_try [world_intros]: "world_free I \<Longrightarrow> keeps I (world_try f)"
  unfolding world_try_def by (rule keeps_stry) (auto simp: world_free_def split: prod.splits)

lemma keeps_world_result [world_intros]: "world_free I \<Longrightarrow> keeps I (world_result f)"
  unfolding world_result_def by (rule keeps_world_call)

lemma keeps_count [world_intros]: "world_free I \<Longrightarrow> keeps I (count f)"
  unfolding count_def by (rule keeps_supd) (auto simp: world_free_def)

lemma keeps_check [keeps_intros]: "keeps I (check r)"
  by (cases r) (auto simp: check_def intro: keeps_intros)

section \<open>Waiting for the next event\<close>

lemma foldl_timeout_le:
  "foldl (\<lambda>timeout (t, ms). if \<not> P t then timeout else min timeout (f t ms)) b ticks \<le> (b :: nat)"
proof (induction ticks arbitrary: b)
  case (Cons x xs)
  obtain t ms where x: "x = (t, ms)" by fastforce
  show ?case
  proof (cases "P t")
    case True
    from Cons.IH [of "min b (f t ms)"] x True show ?thesis by simp
  next
    case False
    from Cons.IH [of b] x False show ?thesis by simp
  qed
qed simp

lemma foldl_timeout_due:
  "(t, ms) \<in> set ticks \<Longrightarrow> P t \<Longrightarrow>
   foldl (\<lambda>timeout (t, ms). if \<not> P t then timeout else min timeout (f t ms)) b ticks
     \<le> (f t ms :: nat)"
proof (induction ticks arbitrary: b)
  case (Cons x xs)
  show ?case
  proof (cases "x = (t, ms)")
    case True
    from foldl_timeout_le [of P f "min b (f t ms)" xs] Cons.prems(2) True show ?thesis by simp
  next
    case False
    with Cons.prems Cons.IH show ?thesis by (cases x) auto
  qed
qed simp

lemma next_live_wait_timeout_le: "next_live_wait_timeout ticks ticked rt now \<le> idle_wait_timeout"
  unfolding next_live_wait_timeout_def by (rule foldl_timeout_le)

lemma next_live_wait_timeout_due:
  "(t, ms) \<in> set ticks \<Longrightarrow> loop_is_active rt t \<Longrightarrow>
   next_live_wait_timeout ticks ticked rt now \<le> repeat_due_in now ticked t ms"
  unfolding next_live_wait_timeout_def by (rule foldl_timeout_due)

lemma wake_classify_unknown_iff:
  "wake_classify w fd = Unknown \<longleftrightarrow> fd \<notin> set (poll_fds w)"
  by (auto simp: wake_classify_def poll_fds_def split: option.splits)

end
