(* ===== verification/DevMode.thy ===== *)
theory DevMode imports LiveState begin

text \<open>
  The developer diagnostics: the shortcuts of \<open>signal-auras-core/src/dev_diagnostics.rs\<close> and
  \<open>DeveloperDiagnosticRuntime\<close> of \<open>runner.rs\<close>, which registers the diagnostic shortcuts while the
  mode is on and releases them when it is turned off.
\<close>

section \<open>Shortcuts\<close>

definition dev_mode_toggle_hotkey :: hotkey_id where
  "dev_mode_toggle_hotkey = ''Num0+NumEnter''"

definition toggle_hotkey :: "hotkey_id result" where
  "toggle_hotkey = Ok dev_mode_toggle_hotkey"

definition pointer_diagnostic_hotkey :: "hotkey_id result" where
  "pointer_diagnostic_hotkey = hotkey_parse ''Num1''"

definition tracker_ghost_hotkey :: "hotkey_id result" where
  "tracker_ghost_hotkey = hotkey_parse ''Num2''"

datatype dev_shortcut = ToggleDevMode | PointerUnderMouse | TrackerGhostAuras

definition dev_shortcut_from_hotkey :: "bool \<Rightarrow> hotkey_id \<Rightarrow> dev_shortcut option result" where
  "dev_shortcut_from_hotkey enabled hotkey =
     rbind toggle_hotkey (\<lambda>t.
       if hotkey = t then Ok (Some ToggleDevMode)
       else if \<not> enabled then Ok None
       else rbind pointer_diagnostic_hotkey (\<lambda>p.
         if hotkey = p then Ok (Some PointerUnderMouse)
         else rbind tracker_ghost_hotkey (\<lambda>g.
           if hotkey = g then Ok (Some TrackerGhostAuras) else Ok None)))"

section \<open>The runtime\<close>

definition dev_upd :: "('t dev_runtime \<Rightarrow> 't dev_runtime) \<Rightarrow> ('w, 't, 'z, unit) core_effect" where
  "dev_upd f = supd (\<lambda>s. s\<lparr>lc_dev := f (lc_dev s)\<rparr>)"

text \<open>A failed registration is logged; the registration stays unset.\<close>

definition or_log ::
  "'a result \<Rightarrow> ('a \<Rightarrow> ('w, 't, 'z, unit) core_effect) \<Rightarrow> ('w, 't, 'z, unit) core_effect" where
  "or_log r f = (case r of Inl _ \<Rightarrow> sreturn () | Inr x \<Rightarrow> f x)"

definition register_toggle ::
  "('w, 't) live_adapter \<Rightarrow> ('w, 't, 'z, unit) core_effect" where
  "register_toggle A =
     (case toggle_hotkey of
        Inl _ \<Rightarrow> sreturn ()
      | Inr h \<Rightarrow> sbind (world_result (ad_register_internal_hotkey A h)) (\<lambda>r.
         or_log r (\<lambda>rid. dev_upd (\<lambda>d. d\<lparr>dr_toggle_registration := Some rid\<rparr>))))"

definition enable_pointer_shortcut ::
  "('w, 't) live_adapter \<Rightarrow> ('w, 't, 'z, unit) core_effect" where
  "enable_pointer_shortcut A = sbind (sget (dr_pointer_registration \<circ> lc_dev)) (\<lambda>reg.
     if reg \<noteq> None then sreturn ()
     else sbind (check pointer_diagnostic_hotkey) (\<lambda>h.
       sbind (world_result (ad_register_internal_hotkey A h)) (\<lambda>r.
         or_log r (\<lambda>rid. dev_upd (\<lambda>d. d\<lparr>dr_pointer_registration := Some rid\<rparr>)))))"

definition disable_pointer_shortcut ::
  "('w, 't) live_adapter \<Rightarrow> ('w, 't, 'z, unit) core_effect" where
  "disable_pointer_shortcut A = sbind (sget (dr_pointer_registration \<circ> lc_dev)) (\<lambda>reg.
     case reg of
       None \<Rightarrow> sreturn ()
     | Some rid \<Rightarrow>
         sthen (dev_upd (\<lambda>d. d\<lparr>dr_pointer_registration := None\<rparr>))
           (world_try (ad_unregister_internal_hotkey A rid)))"

definition enable_ghost_shortcut ::
  "('w, 't) live_adapter \<Rightarrow> ('w, 't, 'z, unit) core_effect" where
  "enable_ghost_shortcut A = sbind (sget (dr_ghost_registration \<circ> lc_dev)) (\<lambda>reg.
     if reg \<noteq> None then sreturn ()
     else sbind (check tracker_ghost_hotkey) (\<lambda>h.
       sbind (world_result (ad_register_internal_hotkey A h)) (\<lambda>r.
         or_log r (\<lambda>rid. dev_upd (\<lambda>d. d\<lparr>dr_ghost_registration := Some rid\<rparr>)))))"

definition disable_ghost_shortcut ::
  "('w, 't) live_adapter \<Rightarrow> ('w, 't, 'z, unit) core_effect" where
  "disable_ghost_shortcut A = sbind (sget (dr_ghost_registration \<circ> lc_dev)) (\<lambda>reg.
     case reg of
       None \<Rightarrow> sreturn ()
     | Some rid \<Rightarrow>
         sthen (dev_upd (\<lambda>d. d\<lparr>dr_ghost_registration := None\<rparr>))
           (world_try (ad_unregister_internal_hotkey A rid)))"

definition show_tracker_ghosts ::
  "('w, 't) live_adapter \<Rightarrow> ('w, 't, 'z, unit) core_effect" where
  "show_tracker_ghosts A = sbind (sget (dr_trackers \<circ> lc_dev)) (\<lambda>trackers.
     case trackers of
       None \<Rightarrow> sreturn ()
     | Some ts \<Rightarrow>
         if ts = [] then sreturn ()
         else sthen (world_try (ad_render_tracker_ghosts A ts))
                (dev_upd (\<lambda>d. d\<lparr>dr_ghost_visible := True\<rparr>)))"

definition tracker_ghost_overlay_id :: string where
  "tracker_ghost_overlay_id = ''signal_auras_tracker_ghosts''"

definition hide_tracker_ghosts ::
  "('w, 't) live_adapter \<Rightarrow> ('w, 't, 'z, unit) core_effect" where
  "hide_tracker_ghosts A = sbind (sget (dr_ghost_visible \<circ> lc_dev)) (\<lambda>visible.
     if \<not> visible then sreturn ()
     else sthen (world_try (ad_cleanup_overlay A tracker_ghost_overlay_id))
            (dev_upd (\<lambda>d. d\<lparr>dr_ghost_visible := False\<rparr>)))"

definition toggle_dev_mode ::
  "('w, 't) live_adapter \<Rightarrow> ('w, 't, 'z, unit) core_effect" where
  "toggle_dev_mode A =
     sthen (dev_upd (\<lambda>d. d\<lparr>dr_enabled := \<not> dr_enabled d\<rparr>))
       (sbind (sget (dr_enabled \<circ> lc_dev)) (\<lambda>enabled.
          if enabled then sthen (enable_pointer_shortcut A) (enable_ghost_shortcut A)
          else sthen (hide_tracker_ghosts A)
                 (sthen (disable_pointer_shortcut A) (disable_ghost_shortcut A))))"

definition dev_handle_shortcut ::
  "('w, 't) live_adapter \<Rightarrow> hotkey_id \<Rightarrow> ('w, 't, 'z, bool) core_effect" where
  "dev_handle_shortcut A hotkey = sbind (sget (dr_enabled \<circ> lc_dev)) (\<lambda>enabled.
     sbind (check (dev_shortcut_from_hotkey enabled hotkey)) (\<lambda>shortcut.
       case shortcut of
         None \<Rightarrow> sreturn False
       | Some ToggleDevMode \<Rightarrow> sthen (toggle_dev_mode A) (sreturn True)
       | Some PointerUnderMouse \<Rightarrow>
           if \<not> enabled then sreturn True
           else sbind (world_result (ad_pointer_diagnostic A)) (\<lambda>_. sreturn True)
       | Some TrackerGhostAuras \<Rightarrow>
           if \<not> enabled then sreturn True
           else sbind (sget (dr_ghost_visible \<circ> lc_dev)) (\<lambda>visible.
             sthen (if visible then hide_tracker_ghosts A else show_tracker_ghosts A)
               (sreturn True))))"

lemmas dev_ops =
  register_toggle_def enable_pointer_shortcut_def disable_pointer_shortcut_def
  enable_ghost_shortcut_def disable_ghost_shortcut_def show_tracker_ghosts_def
  hide_tracker_ghosts_def toggle_dev_mode_def dev_handle_shortcut_def

section \<open>The diagnostics are off unless the mode is on\<close>

text \<open>Between two events: no diagnostic shortcut is registered and no ghost shown while off.\<close>

definition dev_ok :: "'t dev_runtime \<Rightarrow> bool" where
  "dev_ok d \<longleftrightarrow> (\<not> dr_enabled d \<longrightarrow> \<not> dr_ghost_visible d
     \<and> dr_pointer_registration d = None \<and> dr_ghost_registration d = None)"

lemma dev_ok_default: "dev_ok dev_runtime_default" "dev_ok (dev_with_trackers ts)"
  by (simp_all add: dev_ok_def dev_runtime_default_def dev_with_trackers_def)

text \<open>The state after a successful call of the adapter differs only in the world.\<close>

lemma world_try_Ok:
  "world_try f s = Some (s', Inr a) \<longleftrightarrow>
     (\<exists>w. f (lc_world s) = (w, Inr a) \<and> s' = s\<lparr>lc_world := w\<rparr>)"
  by (auto simp: world_try_def stry_def split: prod.splits)

lemma world_call_Ok:
  "world_call f s = Some (s', r) \<longleftrightarrow>
     (\<exists>w a. f (lc_world s) = (w, a) \<and> s' = s\<lparr>lc_world := w\<rparr> \<and> r = Inr a)"
  by (auto simp: world_call_def srun_def split: prod.splits)

lemma check_Ok: "check r s = Some (s', Inr a) \<longleftrightarrow> r = Inr a \<and> s' = s"
  by (auto simp: check_def sfail_def sreturn_def split: sum.splits)

lemma or_log_Ok:
  "or_log r f s = Some (s', Inr u) \<longleftrightarrow>
     ((\<exists>e. r = Inl e) \<and> s' = s) \<or> (\<exists>x. r = Inr x \<and> f x s = Some (s', Inr u))"
  by (auto simp: or_log_def sreturn_def split: sum.splits)

lemma keeps_or_log [keeps_intros]: "(\<And>x. keeps I (f x)) \<Longrightarrow> keeps I (or_log r f)"
  by (cases r) (auto simp: or_log_def intro: keeps_intros)

lemmas effect_Ok = check_Ok or_log_Ok sbind_Some_Ok sthen_def world_try_Ok world_call_Ok world_result_def

lemma dev_off_enables:
  "enable_pointer_shortcut A s = Some (s', Inr u) \<Longrightarrow>
     dr_enabled (lc_dev s') = dr_enabled (lc_dev s)"
  "enable_ghost_shortcut A s = Some (s', Inr u) \<Longrightarrow>
     dr_enabled (lc_dev s') = dr_enabled (lc_dev s)"
  by (auto simp: enable_pointer_shortcut_def enable_ghost_shortcut_def effect_Ok dev_upd_def
      supd_def sreturn_def sget_def split: if_splits sum.splits)

lemma dev_off_disables:
  "hide_tracker_ghosts A s = Some (s', Inr u) \<Longrightarrow>
     lc_dev s' = (lc_dev s)\<lparr>dr_ghost_visible := False\<rparr>"
  "disable_pointer_shortcut A s = Some (s', Inr u) \<Longrightarrow>
     lc_dev s' = (lc_dev s)\<lparr>dr_pointer_registration := None\<rparr>"
  "disable_ghost_shortcut A s = Some (s', Inr u) \<Longrightarrow>
     lc_dev s' = (lc_dev s)\<lparr>dr_ghost_registration := None\<rparr>"
  by (auto simp: hide_tracker_ghosts_def disable_pointer_shortcut_def disable_ghost_shortcut_def
      effect_Ok dev_upd_def supd_def sreturn_def sget_def split: if_splits option.splits)

lemma toggle_dev_mode_Ok:
  assumes "toggle_dev_mode A s = Some (s', Inr u)"
  shows "dr_enabled (lc_dev s') = (\<not> dr_enabled (lc_dev s)) \<and> dev_ok (lc_dev s')"
  using assms
  by (auto simp: toggle_dev_mode_def effect_Ok dev_upd_def supd_def sget_def dev_ok_def
      split: if_splits dest!: dev_off_enables dev_off_disables)

lemma show_tracker_ghosts_Ok:
  "show_tracker_ghosts A s = Some (s', Inr u) \<Longrightarrow>
     dr_enabled (lc_dev s') = dr_enabled (lc_dev s)"
  by (auto simp: show_tracker_ghosts_def effect_Ok dev_upd_def supd_def sreturn_def sget_def
      split: if_splits option.splits)

lemma dev_handle_shortcut_ok:
  assumes "dev_ok (lc_dev s)" and "dev_handle_shortcut A h s = Some (s', Inr b)"
  shows "dev_ok (lc_dev s')"
proof -
  from assms(2) obtain sc where sc: "dev_shortcut_from_hotkey (dr_enabled (lc_dev s)) h = Inr sc"
    by (auto simp: dev_handle_shortcut_def effect_Ok)
  note step = assms(2) [unfolded dev_handle_shortcut_def sbind_sget comp_apply effect_Ok sc]
  show ?thesis
  proof (cases sc)
    case None
    with step assms(1) show ?thesis by (auto simp: sreturn_def)
  next
    case (Some d)
    then show ?thesis
    proof (cases d)
      case ToggleDevMode
      with step Some show ?thesis by (auto simp: effect_Ok sreturn_def dest: toggle_dev_mode_Ok)
    next
      case PointerUnderMouse
      with step Some assms(1) show ?thesis by (auto simp: effect_Ok sreturn_def split: if_splits)
    next
      case TrackerGhostAuras
      with step Some assms(1) show ?thesis
        by (auto simp: effect_Ok sreturn_def dev_ok_def split: if_splits
            dest!: show_tracker_ghosts_Ok dev_off_disables(1))
    qed
  qed
qed

text \<open>While the mode is off every shortcut but the toggle is left to the bindings.\<close>

lemma dev_off_passes:
  assumes "\<not> dr_enabled (lc_dev s)" and "h \<noteq> dev_mode_toggle_hotkey"
  shows "dev_handle_shortcut A h s = Some (s, Ok False)"
  using assms
  by (simp add: dev_handle_shortcut_def dev_shortcut_from_hotkey_def toggle_hotkey_def check_def)
    (simp add: sreturn_def)

text \<open>The operations keep what does not depend on the diagnostics, the world or the counters.\<close>

definition dev_free :: "(('w, 't, 'z) live_core_scheme \<Rightarrow> bool) \<Rightarrow> bool" where
  "dev_free I \<longleftrightarrow> world_free I \<and> (\<forall>s d. I s \<longrightarrow> I (s\<lparr>lc_dev := d\<rparr>))"

lemma keeps_dev_upd [world_intros]: "dev_free I \<Longrightarrow> keeps I (dev_upd f)"
  unfolding dev_upd_def by (rule keeps_supd) (simp add: dev_free_def)

lemma dev_free_world [world_intros]: "dev_free I \<Longrightarrow> world_free I"
  by (simp add: dev_free_def)

lemma keeps_dev_handle_shortcut [world_intros]:
  assumes "dev_free I"
  shows "keeps I (dev_handle_shortcut A h)"
  unfolding dev_ops
  by (auto intro!: keeps_intros world_intros assms split: option.splits dev_shortcut.splits sum.splits)

end
