(* ===== verification/Runner.thy ===== *)
theory Runner imports DevMode begin

text \<open>
  The live event loop over macros of \<open>signal-auras-cli/src/runner.rs\<close>: the handlers from
  \<open>drain_live_shortcut_callbacks\<close> to \<open>schedule_live_motion_repeat_tick\<close> and the loop
  \<open>run_live_real_lifecycle\<close>, over the state of \<open>LiveState\<close>. Each read of \<open>Instant::now()\<close> is
  a call of the adapter; a clock that is read on a branch where its value is not used is read
  here on both branches.
\<close>

unbundle bit_operations_syntax

section \<open>Parts the handlers share\<close>

definition read_now :: "('w, 't) live_adapter \<Rightarrow> ('w, 't, 'z, instant) core_effect" where
  "read_now A = world_call (ad_now A)"

definition schedule_macro ::
  "('w, 't) live_adapter \<Rightarrow> string \<Rightarrow> scope_selection \<Rightarrow> macro_definition \<Rightarrow> nat
   \<Rightarrow> ('w, 't, unit) live_effect" where
  "schedule_macro A label scope d ms = sbind (read_now A) (\<lambda>now. supd (\<lambda>s.
     case queue_schedule (ls_queue s) label scope d ms (lc_stats s) now of
       (q, st, _) \<Rightarrow> s\<lparr>ls_queue := q, lc_stats := st\<rparr>))"

definition drive_queue :: "('w, 't) live_adapter \<Rightarrow> ('w, 't, unit) live_effect" where
  "drive_queue A = sbind (read_now A) (\<lambda>now. stry (\<lambda>s.
     case drive_ready (ad_execute_input_request A) (ls_queue s) (lc_stats s) now (lc_world s) of
       (q, st, w, res) \<Rightarrow> (s\<lparr>ls_queue := q, lc_stats := st, lc_world := w\<rparr>, res)))"

text \<open>\<open>focus_tracker.observe(..)\<close> and the cancellation that follows a deactivation.\<close>

definition observe_focus ::
  "('w, 't) live_adapter \<Rightarrow> scope_selection \<Rightarrow> active_process_context
   \<Rightarrow> ('w, 't, unit) live_effect" where
  "observe_focus A scope c = sbind (read_now A) (\<lambda>now. supd (\<lambda>s.
     case tracker_observe (ls_focus s) scope c runtime_focus_policy now of
       (ft, deactivated) \<Rightarrow>
         if deactivated
         then (case cancel_process_scoped (ls_queue s) of (q, n) \<Rightarrow>
                 s\<lparr>ls_focus := ft, ls_queue := q,
                   lc_stats := record_cancelled_macro_runs (of_nat n) (lc_stats s)\<rparr>)
         else s\<lparr>ls_focus := ft\<rparr>))"

definition focus_state ::
  "('w, 't) live_adapter \<Rightarrow> scope_selection \<Rightarrow> active_process_context
   \<Rightarrow> ('w, 't, 'z, scoped_focus_state) core_effect" where
  "focus_state A scope c = sbind (read_now A) (\<lambda>now.
     sreturn (scoped_focus_state_at_with_policy scope c now runtime_focus_policy))"

definition count_denial :: "scoped_focus_state \<Rightarrow> ('w, 't, 'z, unit) core_effect" where
  "count_denial state =
     (case sf_diagnostic state of
        None \<Rightarrow> sreturn ()
      | Some d \<Rightarrow> count (\<lambda>st. record_scope_denial st d))"

definition count_trigger :: "string \<Rightarrow> binding_mode \<Rightarrow> runtime_stats \<Rightarrow> runtime_stats" where
  "count_trigger label mode st =
     record_active_process_match
       (case mode of
          Consume \<Rightarrow> record_consumed_trigger_event (record_trigger label st)
        | Passthrough \<Rightarrow> record_passthrough_trigger_event (record_trigger label st))"

definition cancel_labelled :: "string \<Rightarrow> ('w, 't, nat) live_effect" where
  "cancel_labelled label = srun (\<lambda>s.
     case cancel_trigger (ls_queue s) label of (q, n) \<Rightarrow> (s\<lparr>ls_queue := q\<rparr>, n))"

section \<open>Hotkeys and presses\<close>

definition schedule_live_binding ::
  "('w, 't) live_adapter \<Rightarrow> hotkey_binding \<Rightarrow> active_process_context
   \<Rightarrow> ('w, 't, unit) live_effect" where
  "schedule_live_binding A b c =
     (let label = trigger_label b
      in sthen (observe_focus A (hb_scope b) c)
           (sbind (focus_state A (hb_scope b) c) (\<lambda>state.
              if \<not> sf_active state then count_denial state
              else sthen (count (count_trigger label (hb_mode b)))
                     (schedule_macro A label (hb_scope b) (hb_macro b) 0))))"

definition matching_press ::
  "motion_input_event \<Rightarrow> runtime_press list \<Rightarrow> motion_runtime \<Rightarrow> runtime_press option" where
  "matching_press ev presses rt =
     (if me_state ev \<noteq> Pressed then None
      else List.find (\<lambda>p. pd_trigger (rp_definition p) = me_token ev
                       \<and> held_satisfies rt (pd_requires_held (rp_definition p))) presses)"

definition press_label :: "runtime_press \<Rightarrow> string" where
  "press_label p = ''press '' @ token_describe (pd_trigger (rp_definition p))"

definition schedule_live_press ::
  "('w, 't) live_adapter \<Rightarrow> runtime_press \<Rightarrow> active_process_context
   \<Rightarrow> ('w, 't, bool) live_effect" where
  "schedule_live_press A p c =
     (let d = rp_definition p
      in sthen (observe_focus A (rp_scope p) c)
           (sbind (focus_state A (rp_scope p) c) (\<lambda>state.
              if \<not> sf_active state then sthen (count_denial state) (sreturn False)
              else sthen (count (count_trigger (press_label p) (pd_mode d)))
                     (sthen (schedule_macro A (press_label p) (rp_scope p) (pd_macro d)
                               (pd_inter_action_delay_ms d))
                        (sreturn (pd_mode d = Consume))))))"

section \<open>Motions\<close>

definition motion_label :: "motion_trigger \<Rightarrow> string \<Rightarrow> string" where
  "motion_label t part = trigger_describe t @ '' '' @ part"

definition find_motion :: "motion_trigger \<Rightarrow> runtime_motion list \<Rightarrow> runtime_motion option" where
  "find_motion t motions = List.find (\<lambda>m. mo_trigger (rm_definition m) = t) motions"

definition schedule_live_motion_loop_after ::
  "('w, 't) live_adapter \<Rightarrow> runtime_motion list \<Rightarrow> motion_trigger
   \<Rightarrow> ('w, 't, unit) live_effect" where
  "schedule_live_motion_loop_after A motions t =
     (case find_motion t motions of
        None \<Rightarrow> sreturn ()
      | Some m \<Rightarrow>
          (case Option.bind (mo_loop (rm_definition m)) ld_after of
             None \<Rightarrow> sreturn ()
           | Some after \<Rightarrow>
               schedule_macro A (motion_label t ''loop_after'') (rm_scope m) after
                 (mo_inter_action_delay_ms (rm_definition m))))"

definition combine_optional_and_required ::
  "macro_definition option \<Rightarrow> macro_definition \<Rightarrow> macro_definition result" where
  "combine_optional_and_required before body =
     macro_definition_new
       ((case before of None \<Rightarrow> [] | Some b \<Rightarrow> md_actions b) @ md_actions body)"

definition schedule_live_motion_loop_start ::
  "('w, 't) live_adapter \<Rightarrow> runtime_motion \<Rightarrow> ('w, 't, unit) live_effect" where
  "schedule_live_motion_loop_start A m =
     (let d = rm_definition m; ms = mo_inter_action_delay_ms d
      in case mo_loop d of
           None \<Rightarrow> sreturn ()
         | Some l \<Rightarrow>
             (case ld_body l of
                Once body \<Rightarrow>
                  sbind (check (combine_optional_and_required (ld_before l) body)) (\<lambda>def.
                    schedule_macro A (motion_label (mo_trigger d) ''loop_once'') (rm_scope m) def ms)
              | Repeat _ \<Rightarrow>
                  (case ld_before l of
                     None \<Rightarrow> sreturn ()
                   | Some before \<Rightarrow>
                       schedule_macro A (motion_label (mo_trigger d) ''loop_before'') (rm_scope m)
                         before ms)))"

definition schedule_live_motion_trigger ::
  "('w, 't) live_adapter \<Rightarrow> runtime_motion \<Rightarrow> active_process_context \<Rightarrow> bool
   \<Rightarrow> ('w, 't, bool) live_effect" where
  "schedule_live_motion_trigger A m c starts_loop =
     (let d = rm_definition m; label = trigger_describe (mo_trigger d)
      in sthen (observe_focus A (rm_scope m) c)
           (sbind (focus_state A (rm_scope m) c) (\<lambda>state.
              if \<not> sf_active state then sthen (count_denial state) (sreturn False)
              else sthen (count (count_trigger label (mo_mode d)))
                (sthen (case mo_macro d of
                          None \<Rightarrow> sreturn ()
                        | Some md \<Rightarrow>
                            schedule_macro A label (rm_scope m) md (mo_inter_action_delay_ms d))
                   (sthen (swhen starts_loop (schedule_live_motion_loop_start A m))
                      (sreturn True))))))"

definition schedule_live_motion_runtime_event ::
  "('w, 't) live_adapter \<Rightarrow> runtime_motion list \<Rightarrow> motion_runtime_event
   \<Rightarrow> active_process_context \<Rightarrow> ('w, 't, bool) live_effect" where
  "schedule_live_motion_runtime_event A motions ev c =
     (case ev of
        Triggered t starts_loop \<Rightarrow>
          (case find_motion t motions of
             None \<Rightarrow> sreturn False
           | Some m \<Rightarrow> schedule_live_motion_trigger A m c starts_loop)
      | LoopCancelled t \<Rightarrow>
          sthen (count record_motion_repeat_cancel)
            (sbind (cancel_labelled (motion_label t ''repeat'')) (\<lambda>n1.
             sbind (cancel_labelled (motion_label t ''loop_before'')) (\<lambda>n2.
             sbind (cancel_labelled (motion_label t ''loop_once'')) (\<lambda>n3.
               sthen (count (record_cancelled_macro_runs (of_nat (n1 + n2 + n3))))
                 (sthen (schedule_live_motion_loop_after A motions t) (sreturn True))))))
      | MotionDiscarded _ \<Rightarrow> sthen (count record_motion_discard) (sreturn False))"

definition take_focus_deactivation :: "('w, 't, bool) live_effect" where
  "take_focus_deactivation = srun (\<lambda>s.
     case take_deactivation (ls_focus s) of (ft, b) \<Rightarrow> (s\<lparr>ls_focus := ft\<rparr>, b))"

definition end_active_loops :: "('w, 't, 'z, motion_trigger list) core_effect" where
  "end_active_loops = srun (\<lambda>s.
     case cancel_active_loops (lc_motion_runtime s) of
       (rt, ts) \<Rightarrow> (s\<lparr>lc_motion_runtime := rt\<rparr>, ts))"

text \<open>The loops that end when scoped focus has become inactive.\<close>

definition cancel_loops_on_deactivation ::
  "('w, 't) live_adapter \<Rightarrow> runtime_motion list \<Rightarrow> ('w, 't, unit) live_effect" where
  "cancel_loops_on_deactivation A motions =
     sbind take_focus_deactivation
       (\<lambda>deactivated. swhen deactivated
          (sbind end_active_loops
             (seach (\<lambda>t. sthen (count record_motion_repeat_cancel)
                           (schedule_live_motion_loop_after A motions t)))))"

section \<open>Observed input\<close>

definition motion_runtime_event_time ::
  "kernel_event_timestamp \<Rightarrow> instant \<Rightarrow> instant \<Rightarrow> duration" where
  "motion_runtime_event_time ts observed_at time_base =
     (case ts of
        Monotonic t \<Rightarrow> t
      | kernel_event_timestamp.Unavailable \<Rightarrow>
          (case checked_sub observed_at time_base of None \<Rightarrow> 0 | Some d \<Rightarrow> d))"

definition duration_millis_u64 :: "duration \<Rightarrow> u64" where
  "duration_millis_u64 d = of_nat (if as_millis d \<le> u64_max then as_millis d else u64_max)"

definition record_motion_latency_metrics ::
  "('w, 't) live_adapter \<Rightarrow> instant \<Rightarrow> kernel_event_timestamp \<Rightarrow> ('w, 't, 'z, unit) core_effect"
  where
  "record_motion_latency_metrics A observed_at ts =
     sbind (read_now A) (\<lambda>now.
     sthen (count (record_motion_input_event (duration_millis_u64 (now - observed_at))))
       (sbind (world_call (ad_monotonic_clock_time A)) (\<lambda>clock.
          count (case Option.bind clock (event_age_at ts) of
                   Some age \<Rightarrow> record_motion_event_age (duration_millis_u64 age)
                 | None \<Rightarrow> record_motion_event_age_unavailable))))"

definition feed_motion_runtime ::
  "motion_input_event \<Rightarrow> duration \<Rightarrow> ('w, 't, 'z, motion_runtime_event list) core_effect" where
  "feed_motion_runtime ev event_time = srun (\<lambda>s.
     case handle_input_at (lc_motion_runtime s) ev event_time of
       (rt, evs) \<Rightarrow> (s\<lparr>lc_motion_runtime := rt\<rparr>, evs))"

definition handle_motion_event ::
  "('w, 't) live_adapter \<Rightarrow> runtime_motion list \<Rightarrow> motion_runtime_event \<Rightarrow> bool
   \<Rightarrow> ('w, 't, bool) live_effect" where
  "handle_motion_event A motions ev consumed =
     (case ev of
        MotionDiscarded _ \<Rightarrow> sthen (count record_motion_discard) (sreturn consumed)
      | _ \<Rightarrow>
          sbind (world_try (ad_active_process_context A)) (\<lambda>c.
          sbind (schedule_live_motion_runtime_event A motions ev c) (\<lambda>b.
            sthen (cancel_loops_on_deactivation A motions) (sreturn (consumed \<or> b)))))"

definition handle_observed_motion_input ::
  "('w, 't) live_adapter \<Rightarrow> runtime_motion list \<Rightarrow> runtime_press list \<Rightarrow> instant
   \<Rightarrow> observed_motion_input_event \<Rightarrow> ('w, 't, bool) live_effect" where
  "handle_observed_motion_input A motions presses time_base ob =
     sthen (record_motion_latency_metrics A (om_observed_at ob) (om_kernel_timestamp ob))
       (sbind (feed_motion_runtime (om_event ob)
                 (motion_runtime_event_time (om_kernel_timestamp ob) (om_observed_at ob) time_base))
          (\<lambda>evs.
        sbind (sget (\<lambda>s. matching_press (om_event ob) presses (lc_motion_runtime s))) (\<lambda>press.
        sbind (case press of
                 None \<Rightarrow> sreturn False
               | Some p \<Rightarrow>
                   sbind (world_try (ad_active_process_context A)) (\<lambda>c.
                   sbind (schedule_live_press A p c) (\<lambda>b.
                     sthen (cancel_loops_on_deactivation A motions) (sreturn b))))
          (sfold (handle_motion_event A motions) evs))))"

definition handle_observed_input ::
  "('w, 't) live_adapter \<Rightarrow> runtime_motion list \<Rightarrow> runtime_press list \<Rightarrow> instant
   \<Rightarrow> observed_input_event \<Rightarrow> ('w, 't, unit) live_effect" where
  "handle_observed_input A motions presses time_base ob =
     (case oi_event ob of
        None \<Rightarrow> swhen (oi_grabbed ob) (world_try (ad_passthrough_raw_input A (oi_raw ob)))
      | Some ev \<Rightarrow>
          sthen (swhen (me_token ev = Leader \<and> me_state ev = Pressed)
                   (world_try (ad_arm_input_grab A)))
            (sbind (handle_observed_motion_input A motions presses time_base
                      \<lparr>om_event = ev, om_source = oi_source ob,
                       om_kernel_timestamp = re_kernel_timestamp (oi_raw ob),
                       om_observed_at = oi_observed_at ob\<rparr>) (\<lambda>consumed.
               sthen (swhen (oi_grabbed ob \<and> \<not> consumed)
                        (world_try (ad_passthrough_raw_input A (oi_raw ob))))
                 (swhen (me_token ev = Leader \<and> me_state ev = Released)
                    (world_try (ad_release_input_grab A))))))"

section \<open>Repeat ticks\<close>

definition should_log_repeat_overload_skip :: "u64 \<Rightarrow> bool" where
  "should_log_repeat_overload_skip n = (n = 1 \<or> (n \<noteq> 0 \<and> n AND (n - 1) = 0))"

definition skip_repeat :: "string \<Rightarrow> ('w, 't, unit) live_effect" where
  "skip_repeat label = supd (\<lambda>s.
     case record_repeat_skip (ls_queue s) label (lc_stats s) of
       (q, st, _) \<Rightarrow> s\<lparr>ls_queue := q, lc_stats := st\<rparr>)"

definition schedule_live_motion_repeat_tick ::
  "('w, 't) live_adapter \<Rightarrow> runtime_motion \<Rightarrow> active_process_context
   \<Rightarrow> ('w, 't, unit) live_effect" where
  "schedule_live_motion_repeat_tick A m c =
     (let d = rm_definition m; label = motion_label (mo_trigger d) ''repeat'';
          before_label = motion_label (mo_trigger d) ''loop_before''
      in case Option.bind (mo_loop d) loop_repeat_of of
           None \<Rightarrow> sreturn ()
         | Some rep \<Rightarrow>
             sbind (sget ls_queue) (\<lambda>q.
               if trigger_is_pending_or_active q before_label then sreturn ()
               else if trigger_is_pending_or_active q label
               then skip_repeat label
               else
                 sthen (observe_focus A (rm_scope m) c)
                   (sbind (focus_state A (rm_scope m) c) (\<lambda>state.
                      if \<not> sf_active state then count_denial state
                      else sthen (count (\<lambda>st. record_motion_repeat_tick
                                               (record_active_process_match st)))
                             (schedule_macro A label (rm_scope m) (lr_macro rep)
                                (mo_inter_action_delay_ms d))))))"

definition repeat_ticks_of :: "runtime_motion list \<Rightarrow> (motion_trigger \<times> nat) list" where
  "repeat_ticks_of motions = List.map_filter (\<lambda>m.
     map_option (\<lambda>rep. (mo_trigger (rm_definition m), li_every_ms (lr_interval rep)))
       (Option.bind (mo_loop (rm_definition m)) loop_repeat_of)) motions"

definition set_last_tick ::
  "motion_trigger \<Rightarrow> instant \<Rightarrow> ('w, 't, 'z, unit) core_effect" where
  "set_last_tick t now =
     supd (\<lambda>s. s\<lparr>lc_last_repeat_ticks := bm_insert t now (lc_last_repeat_ticks s)\<rparr>)"

definition forget_last_tick :: "motion_trigger \<Rightarrow> ('w, 't, 'z, unit) core_effect" where
  "forget_last_tick t =
     supd (\<lambda>s. s\<lparr>lc_last_repeat_ticks := bm_remove t (lc_last_repeat_ticks s)\<rparr>)"

definition repeat_due :: "instant \<Rightarrow> tick_times \<Rightarrow> motion_trigger \<Rightarrow> nat \<Rightarrow> bool" where
  "repeat_due now ticked t interval_ms =
     (case bm_get ticked t of
        None \<Rightarrow> True | Some tick \<Rightarrow> interval_ms \<le> as_millis (now - tick))"

definition live_repeat_tick ::
  "('w, 't) live_adapter \<Rightarrow> runtime_motion list \<Rightarrow> instant \<Rightarrow> motion_trigger \<times> nat
   \<Rightarrow> ('w, 't, unit) live_effect" where
  "live_repeat_tick A motions now tick =
     (case tick of (t, interval_ms) \<Rightarrow>
        sbind (sget (\<lambda>s. loop_is_active (lc_motion_runtime s) t)) (\<lambda>active.
          if \<not> active
          then forget_last_tick t
          else sbind (sget (\<lambda>s. repeat_due now (lc_last_repeat_ticks s) t interval_ms)) (\<lambda>due.
            swhen due
              (sthen (case find_motion t motions of
                        None \<Rightarrow> sreturn ()
                      | Some m \<Rightarrow>
                          sbind (world_try (ad_active_process_context A)) (\<lambda>c.
                            sthen (schedule_live_motion_repeat_tick A m c)
                              (cancel_loops_on_deactivation A motions)))
                 (set_last_tick t now)))))"

section \<open>The event loop\<close>

text \<open>
  The program of a run: the bindings, motions and presses of the configuration and the instant
  \<open>motion_time_base\<close>. The loops over the adapter's queues end when the adapter says so.
\<close>

record live_program =
  lp_bindings :: "hotkey_binding list"
  lp_motions :: "runtime_motion list"
  lp_presses :: "runtime_press list"
  lp_motion_time_base :: instant

definition handle_shortcut_callback ::
  "('w, 't) live_adapter \<Rightarrow> hotkey_binding list \<Rightarrow> observed_shortcut_event
   \<Rightarrow> ('w, 't, unit) live_effect" where
  "handle_shortcut_callback A bindings ev =
     sthen (count record_callback_received)
       (sbind (read_now A) (\<lambda>now.
        sthen (count (record_callback_dispatched (of_nat (as_millis (now - se_received_at ev)))))
          (sbind (dev_handle_shortcut A (se_hotkey ev)) (\<lambda>handled.
             if handled then sreturn ()
             else case List.find (\<lambda>b. hb_trigger b = Keyboard (se_hotkey ev)) bindings of
                    None \<Rightarrow> count record_shortcut_ignored
                  | Some b \<Rightarrow>
                      sbind (world_try (ad_active_process_context A)) (\<lambda>c.
                        schedule_live_binding A b c)))))"

partial_function (option) drain_shortcut_events ::
  "('w, 't) live_adapter \<Rightarrow> hotkey_binding list \<Rightarrow> ('w, 't, unit) live_effect" where
  "drain_shortcut_events A bindings s =
     sbind (world_call (ad_next_shortcut_event A)) (\<lambda>next_ev s1.
       case next_ev of
         None \<Rightarrow> sreturn () s1
       | Some ev \<Rightarrow>
           sthen (handle_shortcut_callback A bindings ev)
             (\<lambda>s2. drain_shortcut_events A bindings s2) s1) s"

definition drain_live_shortcut_callbacks ::
  "('w, 't) live_adapter \<Rightarrow> hotkey_binding list \<Rightarrow> ('w, 't, unit) live_effect" where
  "drain_live_shortcut_callbacks A bindings =
     sbind (world_call (ad_take_callback_dropped_count A)) (\<lambda>dropped.
       sthen (swhen (0 < dropped) (count (record_callback_dropped dropped)))
         (drain_shortcut_events A bindings))"

partial_function (option) drain_input_events ::
  "('w, 't) live_adapter \<Rightarrow> live_program \<Rightarrow> ('w, 't, unit) live_effect" where
  "drain_input_events A p s =
     sbind (world_try (ad_next_input_event A)) (\<lambda>next_ev s1.
       case next_ev of
         None \<Rightarrow> sreturn () s1
       | Some ev \<Rightarrow>
           sthen (handle_observed_input A (lp_motions p) (lp_presses p) (lp_motion_time_base p) ev)
             (\<lambda>s2. drain_input_events A p s2) s1) s"

definition live_wait_timeout ::
  "('w, 't) live_adapter \<Rightarrow> live_program \<Rightarrow> ('w, 't, duration) live_effect" where
  "live_wait_timeout A p =
     sbind (read_now A) (\<lambda>now1. sbind (read_now A) (\<lambda>now2. sget (\<lambda>s.
       min (next_live_wait_timeout (repeat_ticks_of (lp_motions p)) (lc_last_repeat_ticks s)
              (lc_motion_runtime s) now1)
         (queue_next_wait_timeout (ls_queue s) now2))))"

definition wait_for_event ::
  "('w, 't) live_adapter \<Rightarrow> live_program \<Rightarrow> ('w, 't, runtime_wait_outcome) live_effect" where
  "wait_for_event A p =
     sbind (live_wait_timeout A p) (\<lambda>timeout.
     sthen (world_try (ad_arm_timer_after A timeout))
       (sbind (sget (ad_wake_fds A \<circ> lc_world)) (\<lambda>fds.
        sbind (world_try (ad_wait_next_input_or_runtime_fd A timeout (poll_fds fds)))
          (\<lambda>outcome. sreturn (classify_wait_outcome outcome fds)))))"

text \<open>The first match of the loop: a reason ends the run, \<open>None\<close> goes on.\<close>

definition handle_wait_outcome ::
  "('w, 't) live_adapter \<Rightarrow> live_program \<Rightarrow> runtime_wait_outcome
   \<Rightarrow> ('w, 't, shutdown_reason option) live_effect" where
  "handle_wait_outcome A p outcome =
     (case outcome of
        Input ev \<Rightarrow>
          sthen (handle_observed_input A (lp_motions p) (lp_presses p) (lp_motion_time_base p) ev)
            (sreturn None)
      | Signal \<Rightarrow>
          sbind (world_try (ad_drain_shutdown_reason A)) (\<lambda>reason.
            case reason of
              None \<Rightarrow> sreturn None
            | Some r \<Rightarrow>
                sbind end_active_loops (\<lambda>ts.
                sthen (seach (\<lambda>t. sthen (count record_motion_repeat_cancel)
                                  (schedule_live_motion_loop_after A (lp_motions p) t)) ts)
                  (sthen (drive_queue A) (sreturn (Some r)))))
      | Timer \<Rightarrow> sthen (world_try (ad_drain_timer A)) (sreturn None)
      | Callback \<Rightarrow>
          sthen (world_try (ad_drain_callback_wake_fd A))
            (sthen (drain_live_shortcut_callbacks A (lp_bindings p)) (sreturn None))
      | UnknownRuntimeFd \<Rightarrow> sreturn None
      | Timeout \<Rightarrow> sreturn None)"

definition live_iteration ::
  "('w, 't) live_adapter \<Rightarrow> live_program \<Rightarrow> ('w, 't, shutdown_reason option) live_effect" where
  "live_iteration A p =
     sthen (count record_event_loop_wakeup)
     (sthen (drive_queue A)
     (sthen (drain_live_shortcut_callbacks A (lp_bindings p))
     (sbind (wait_for_event A p) (\<lambda>outcome.
      sbind (handle_wait_outcome A p outcome) (\<lambda>reason.
        if reason \<noteq> None then sreturn reason
        else
          sthen (drain_input_events A p)
          (sthen (drive_queue A)
          (sbind (read_now A) (\<lambda>now.
           sthen (seach (live_repeat_tick A (lp_motions p) now) (repeat_ticks_of (lp_motions p)))
             (sthen (drive_queue A) (sreturn None))))))))))"

partial_function (option) live_loop ::
  "('w, 't) live_adapter \<Rightarrow> live_program \<Rightarrow> ('w, 't, shutdown_reason) live_effect" where
  "live_loop A p s =
     sbind (live_iteration A p) (\<lambda>reason s1.
       case reason of Some r \<Rightarrow> sreturn r s1 | None \<Rightarrow> live_loop A p s1) s"

definition live_state_new ::
  "'w \<Rightarrow> 't dev_runtime \<Rightarrow> runtime_stats \<Rightarrow> runtime_motion list \<Rightarrow> ('w, 't) live_state" where
  "live_state_new w dev st motions =
     \<lparr>lc_world = w, lc_dev = dev, lc_stats = st,
      lc_motion_runtime = motion_runtime_new (map rm_definition motions),
      lc_last_repeat_ticks = [], ls_queue = macro_queue_default, ls_focus = focus_tracker_default\<rparr>"

definition run_live_real_lifecycle ::
  "('w, 't) live_adapter \<Rightarrow> hotkey_binding list \<Rightarrow> runtime_motion list \<Rightarrow> runtime_press list
   \<Rightarrow> instant \<Rightarrow> 't dev_runtime \<Rightarrow> runtime_stats \<Rightarrow> 'w
   \<Rightarrow> (('w, 't) live_state \<times> shutdown_reason result) option" where
  "run_live_real_lifecycle A bindings motions presses time_base dev st w =
     live_loop A \<lparr>lp_bindings = bindings, lp_motions = motions, lp_presses = presses,
                  lp_motion_time_base = time_base\<rparr> (live_state_new w dev st motions)"

end
