(* ===== verification/LiveInvariants.thy ===== *)
theory LiveInvariants imports Runner begin

text \<open>
  What the live event loop keeps. The locale \<open>live_invariant\<close> states what a property of the
  state has to satisfy for the parts the handlers are composed of; every handler, every
  iteration and the whole loop then keep it, whatever the adapter answers. It is interpreted
  for the invariant of the macro queue and for that of the motion runtime.
\<close>

section \<open>The contracts\<close>

text \<open>What the handlers of one event need, for one adapter.\<close>

locale live_handlers =
  fixes A :: "('w, 't) live_adapter" and I :: "('w, 't) live_state \<Rightarrow> bool"
  assumes counted: "\<And>f. keeps I (count f)"
    and now: "keeps I (read_now A)"
    and clock: "keeps I (world_call (ad_monotonic_clock_time A))"
    and cxt: "keeps I (world_try (ad_active_process_context A))"
    and schedule: "\<And>l sc d ms. keeps I (schedule_macro A l sc d ms)"
    and observe: "\<And>sc c. keeps I (observe_focus A sc c)"
    and cancel: "\<And>l. keeps I (cancel_labelled l)"
    and deactivation: "keeps I take_focus_deactivation"
    and end_loops: "keeps I end_active_loops"
    and feed: "\<And>ev t. keeps I (feed_motion_runtime ev t)"
begin

lemmas kept = keeps_intros counted now clock cxt schedule observe cancel deactivation end_loops feed

lemma focus: "keeps I (focus_state A sc c)"
  unfolding focus_state_def by (intro kept)

lemma denial: "keeps I (count_denial st)"
  unfolding count_denial_def by (intro kept)

lemma binding: "keeps I (schedule_live_binding A b c)"
  unfolding schedule_live_binding_def Let_def by (intro kept focus denial)

lemma press: "keeps I (schedule_live_press A p c)"
  unfolding schedule_live_press_def Let_def by (intro kept focus denial)

lemma loop_after: "keeps I (schedule_live_motion_loop_after A ms t)"
  unfolding schedule_live_motion_loop_after_def by (intro kept)

lemma loop_start: "keeps I (schedule_live_motion_loop_start A m)"
  unfolding schedule_live_motion_loop_start_def Let_def
  by (auto intro!: kept split: loop_body.splits option.splits)

lemma trigger: "keeps I (schedule_live_motion_trigger A m c b)"
  unfolding schedule_live_motion_trigger_def Let_def by (intro kept focus denial loop_start)

lemma runtime_event: "keeps I (schedule_live_motion_runtime_event A ms ev c)"
  unfolding schedule_live_motion_runtime_event_def
  by (cases ev) (auto intro!: kept trigger loop_after split: option.splits)

lemma deactivated: "keeps I (cancel_loops_on_deactivation A ms)"
  unfolding cancel_loops_on_deactivation_def by (intro kept loop_after)

lemma latency: "keeps I (record_motion_latency_metrics A t ts)"
  unfolding record_motion_latency_metrics_def by (intro kept)

lemma motion_event: "keeps I (handle_motion_event A ms ev b)"
  unfolding handle_motion_event_def
  by (cases ev) (auto intro!: kept runtime_event deactivated)

lemma motion_input: "keeps I (handle_observed_motion_input A ms ps t ob)"
  unfolding handle_observed_motion_input_def
  by (intro kept latency press deactivated motion_event)

lemma input_event_calls:
  assumes "keeps I (world_try (ad_arm_input_grab A))"
    and "keeps I (world_try (ad_release_input_grab A))"
    and "\<And>raw. keeps I (world_try (ad_passthrough_raw_input A raw))"
  shows "keeps I (handle_observed_input A ms ps t ob)"
  unfolding handle_observed_input_def by (intro kept motion_input assms)

end

text \<open>What the loop needs on top: every call of the adapter, the diagnostics and the ticks.\<close>

locale live_invariant = live_handlers A I
  for A :: "('w, 't) live_adapter" and I :: "('w, 't) live_state \<Rightarrow> bool" +
  assumes world: "\<And>s w. I s \<Longrightarrow> I (s\<lparr>lc_world := w\<rparr>)"
    and dev: "\<And>s d. I s \<Longrightarrow> I (s\<lparr>lc_dev := d\<rparr>)"
    and drive: "keeps I (drive_queue A)"
    and skip: "\<And>l. keeps I (skip_repeat l)"
    and tick: "\<And>t now. keeps I (set_last_tick t now)"
    and no_tick: "\<And>t. keeps I (forget_last_tick t)"
begin

lemma stats: "I s \<Longrightarrow> I (s\<lparr>lc_stats := st\<rparr>)"
  using keepsD [OF counted [of "\<lambda>_. st"], of s] by (simp add: count_def supd_def)

lemma free: "dev_free I"
  by (simp add: dev_free_def world_free_def world stats dev)

lemmas kept' = kept world_intros free drive skip tick no_tick

lemma input_event: "keeps I (handle_observed_input A ms ps t ob)"
  by (rule input_event_calls) (intro kept')+

lemma repeat_tick: "keeps I (schedule_live_motion_repeat_tick A m c)"
  unfolding schedule_live_motion_repeat_tick_def Let_def by (intro kept' focus denial)

lemma live_tick: "keeps I (live_repeat_tick A ms now tk)"
  unfolding live_repeat_tick_def
  by (cases tk) (auto intro!: kept' repeat_tick deactivated)

lemma shortcut: "keeps I (handle_shortcut_callback A bs ev)"
  unfolding handle_shortcut_callback_def by (intro kept' binding)

lemma shortcuts: "keeps I (drain_shortcut_events A bs)"
proof (rule keeps_returned)
  fix s y
  assume "drain_shortcut_events A bs s = Some y"
  then have "A = A \<longrightarrow> I s \<longrightarrow> I (fst y)"
  proof (rule drain_shortcut_events.raw_induct
      [where P = "\<lambda>A' bs s y. A' = A \<longrightarrow> I s \<longrightarrow> I (fst y)", rotated])
    fix f A' bs s and y :: "('w, 't) live_state \<times> unit result"
    assume "\<And>A' bs s y. f A' bs s = Some y \<Longrightarrow> A' = A \<longrightarrow> I s \<longrightarrow> I (fst y)"
      and eq: "sbind (world_call (ad_next_shortcut_event A')) (\<lambda>next_ev s1. case next_ev of
        None \<Rightarrow> sreturn () s1
      | Some ev \<Rightarrow> sthen (handle_shortcut_callback A' bs ev) (f A' bs) s1) s = Some y"
    then have "keeps I (f A bs)" by (intro keeps_returned) blast
    then have "keeps I (sbind (world_call (ad_next_shortcut_event A)) (\<lambda>next_ev s1. case next_ev of
        None \<Rightarrow> sreturn () s1
      | Some ev \<Rightarrow> sthen (handle_shortcut_callback A bs ev) (f A bs) s1))"
      by (intro kept' shortcut)
    with eq show "A' = A \<longrightarrow> I s \<longrightarrow> I (fst y)" by (cases y) (auto dest: keepsD)
  qed
  then show "I s \<longrightarrow> I (fst y)" by simp
qed

lemma callbacks: "keeps I (drain_live_shortcut_callbacks A bs)"
  unfolding drain_live_shortcut_callbacks_def by (intro kept' shortcuts)

lemma inputs: "keeps I (drain_input_events A p)"
proof (rule keeps_returned)
  fix s y
  assume "drain_input_events A p s = Some y"
  then have "A = A \<longrightarrow> I s \<longrightarrow> I (fst y)"
  proof (rule drain_input_events.raw_induct
      [where P = "\<lambda>A' p s y. A' = A \<longrightarrow> I s \<longrightarrow> I (fst y)", rotated])
    fix f A' p s and y :: "('w, 't) live_state \<times> unit result"
    assume "\<And>A' p s y. f A' p s = Some y \<Longrightarrow> A' = A \<longrightarrow> I s \<longrightarrow> I (fst y)"
      and eq: "sbind (world_try (ad_next_input_event A')) (\<lambda>next_ev s1. case next_ev of
        None \<Rightarrow> sreturn () s1
      | Some ev \<Rightarrow> sthen (handle_observed_input A' (lp_motions p) (lp_presses p)
          (lp_motion_time_base p) ev) (f A' p) s1) s = Some y"
    then have "keeps I (f A p)" by (intro keeps_returned) blast
    then have "keeps I (sbind (world_try (ad_next_input_event A)) (\<lambda>next_ev s1. case next_ev of
        None \<Rightarrow> sreturn () s1
      | Some ev \<Rightarrow> sthen (handle_observed_input A (lp_motions p) (lp_presses p)
          (lp_motion_time_base p) ev) (f A p) s1))"
      by (intro kept' input_event)
    with eq show "A' = A \<longrightarrow> I s \<longrightarrow> I (fst y)" by (cases y) (auto dest: keepsD)
  qed
  then show "I s \<longrightarrow> I (fst y)" by simp
qed

lemma wait: "keeps I (wait_for_event A p)"
  unfolding wait_for_event_def live_wait_timeout_def by (intro kept')

lemma outcome: "keeps I (handle_wait_outcome A p oc)"
  unfolding handle_wait_outcome_def
  by (cases oc) (auto intro!: kept' input_event callbacks loop_after)

lemma iteration: "keeps I (live_iteration A p)"
  unfolding live_iteration_def by (intro kept' callbacks wait outcome inputs live_tick)

lemma loop: "keeps I (live_loop A p)"
proof (rule keeps_returned)
  fix s y
  assume "live_loop A p s = Some y"
  then have "A = A \<longrightarrow> I s \<longrightarrow> I (fst y)"
  proof (rule live_loop.raw_induct
      [where P = "\<lambda>A' p s y. A' = A \<longrightarrow> I s \<longrightarrow> I (fst y)", rotated])
    fix f A' p s and y :: "('w, 't) live_state \<times> shutdown_reason result"
    assume "\<And>A' p s y. f A' p s = Some y \<Longrightarrow> A' = A \<longrightarrow> I s \<longrightarrow> I (fst y)"
      and eq: "sbind (live_iteration A' p) (\<lambda>reason s1. case reason of
        None \<Rightarrow> f A' p s1 | Some r \<Rightarrow> sreturn r s1) s = Some y"
    then have "keeps I (f A p)" by (intro keeps_returned) blast
    then have "keeps I (sbind (live_iteration A p) (\<lambda>reason s1. case reason of
        None \<Rightarrow> f A p s1 | Some r \<Rightarrow> sreturn r s1))"
      by (intro kept' iteration)
    with eq show "A' = A \<longrightarrow> I s \<longrightarrow> I (fst y)" by (cases y) (auto dest: keepsD)
  qed
  then show "I s \<longrightarrow> I (fst y)" by simp
qed

lemma lifecycle:
  assumes "I (live_state_new w dev st ms)"
    and "run_live_real_lifecycle A bs ms ps t dev st w = Some (s, r)"
  shows "I s"
  using assms keepsD [OF loop] unfolding run_live_real_lifecycle_def by blast

end

section \<open>The queue and the motion runtime\<close>

lemma dev_freeI:
  "(\<And>s w st d. I s \<Longrightarrow> I (s\<lparr>lc_world := w\<rparr>) \<and> I (s\<lparr>lc_stats := st\<rparr>) \<and> I (s\<lparr>lc_dev := d\<rparr>)) \<Longrightarrow>
   dev_free I"
  by (simp add: dev_free_def world_free_def)

lemma keeps_schedule_macro:
  assumes "keeps I (read_now A)" and "\<And>s now q st rid. I s \<Longrightarrow>
    queue_schedule (ls_queue s) l sc d ms (lc_stats s) now = (q, st, rid) \<Longrightarrow>
    I (s\<lparr>ls_queue := q, lc_stats := st\<rparr>)"
  shows "keeps I (schedule_macro A l sc d ms)"
  unfolding schedule_macro_def
  by (intro keeps_intros keeps_supd assms(1)) (auto intro: assms(2) split: prod.splits)

lemma keeps_observe_focus:
  assumes "keeps I (read_now A)" and "\<And>s ft. I s \<Longrightarrow> I (s\<lparr>ls_focus := ft\<rparr>)"
    and "\<And>s ft q n st. I s \<Longrightarrow> cancel_process_scoped (ls_queue s) = (q, n) \<Longrightarrow>
      I (s\<lparr>ls_focus := ft, ls_queue := q, lc_stats := st\<rparr>)"
  shows "keeps I (observe_focus A sc c)"
  unfolding observe_focus_def
  by (intro keeps_intros keeps_supd assms(1)) (auto intro: assms(2,3) split: prod.splits)

lemma keeps_drive_queue:
  assumes "keeps I (read_now A)" and "\<And>s now q st w res. I s \<Longrightarrow>
    drive_ready (ad_execute_input_request A) (ls_queue s) (lc_stats s) now (lc_world s)
      = (q, st, w, res) \<Longrightarrow> I (s\<lparr>ls_queue := q, lc_stats := st, lc_world := w\<rparr>)"
  shows "keeps I (drive_queue A)"
  unfolding drive_queue_def
  by (intro keeps_intros keeps_stry assms(1)) (auto intro: assms(2) split: prod.splits)

lemmas part_defs = read_now_def take_focus_deactivation_def end_active_loops_def
  feed_motion_runtime_def set_last_tick_def forget_last_tick_def cancel_labelled_def
  skip_repeat_def

interpretation queue_inv: live_invariant A "\<lambda>s. queue_ok (ls_queue s)"
  for A :: "('w, 't) live_adapter"
proof -
  have "dev_free (\<lambda>s :: ('w, 't) live_state. queue_ok (ls_queue s))"
    by (rule dev_freeI) simp
  note world = world_intros this
  have now: "keeps (\<lambda>s :: ('w, 't) live_state. queue_ok (ls_queue s)) (read_now A)"
    unfolding read_now_def by (intro world)
  show "live_invariant A (\<lambda>s. queue_ok (ls_queue s))"
  proof unfold_locales
    show "keeps (\<lambda>s. queue_ok (ls_queue s)) (schedule_macro A l sc d ms)" for l sc d ms
      by (rule keeps_schedule_macro [OF now]) (auto intro: queue_schedule_ok)
    show "keeps (\<lambda>s. queue_ok (ls_queue s)) (drive_queue A)"
      by (rule keeps_drive_queue [OF now]) (auto intro: drive_ready_ok)
    show "keeps (\<lambda>s. queue_ok (ls_queue s)) (observe_focus A sc c)" for sc c
      by (rule keeps_observe_focus [OF now]) (auto dest: cancel_process_scoped_ok)
    show "keeps (\<lambda>s. queue_ok (ls_queue s)) (cancel_labelled l)" for l
      unfolding cancel_labelled_def
      by (intro keeps_srun) (auto split: prod.splits dest: cancel_trigger_ok [of _ l])
    show "keeps (\<lambda>s. queue_ok (ls_queue s)) (skip_repeat l)" for l
      unfolding skip_repeat_def
      by (intro keeps_supd) (auto simp: record_repeat_skip_def queue_ok_def Let_def)
  qed (auto simp: part_defs intro!: world keeps_srun keeps_supd split: prod.splits)
qed

text \<open>The motion runtime: the same motions, and its own invariant for some history.\<close>

definition motions_ok :: "motion_runtime \<Rightarrow> motion_runtime \<Rightarrow> bool" where
  "motions_ok rt0 rt \<longleftrightarrow> rt_motions rt = rt_motions rt0 \<and> (\<exists>h. runtime_ok h rt)"

lemma motions_ok_feed:
  "motions_ok rt0 rt \<Longrightarrow> handle_input_at rt ev t = (rt', evs) \<Longrightarrow> motions_ok rt0 rt'"
  unfolding motions_ok_def using handle_input_ok [of _ rt "(ev, t)"] by fastforce

lemma motions_ok_end: "motions_ok rt0 rt \<Longrightarrow> motions_ok rt0 (rt\<lparr>rt_loops := []\<rparr>)"
  by (auto simp: motions_ok_def runtime_ok_def sets_ok_def loops_ok_def attempt_ok_def)

interpretation motion_inv: live_invariant A "\<lambda>s. motions_ok rt0 (lc_motion_runtime s)"
  for A :: "('w, 't) live_adapter" and rt0
proof -
  have "dev_free (\<lambda>s :: ('w, 't) live_state. motions_ok rt0 (lc_motion_runtime s))"
    by (rule dev_freeI) simp
  note world = world_intros this
  have now: "keeps (\<lambda>s :: ('w, 't) live_state. motions_ok rt0 (lc_motion_runtime s)) (read_now A)"
    unfolding read_now_def by (intro world)
  show "live_invariant A (\<lambda>s. motions_ok rt0 (lc_motion_runtime s))"
    by unfold_locales
      (auto simp: part_defs cancel_active_loops_def
        intro!: world now keeps_srun keeps_supd keeps_schedule_macro keeps_drive_queue
          keeps_observe_focus motions_ok_end
        intro: motions_ok_feed split: prod.splits)
qed

section \<open>The loops return\<close>

lemma drain_shortcut_empty:
  "ad_next_shortcut_event A (lc_world s) = (w, None) \<Longrightarrow>
   drain_shortcut_events A bs s = Some (s\<lparr>lc_world := w\<rparr>, Ok ())"
  by (subst drain_shortcut_events.simps) (simp add: sbind_def world_call_def srun_def sreturn_def)

lemma live_loop_stop:
  "live_iteration A p s = Some (s', Ok (Some r)) \<Longrightarrow> live_loop A p s = Some (s', Ok r)"
  by (subst live_loop.simps) (simp add: sbind_def sreturn_def)

lemma live_loop_error:
  "live_iteration A p s = Some (s', Err e) \<Longrightarrow> live_loop A p s = Some (s', Err e)"
  by (subst live_loop.simps) (simp add: sbind_def)

text \<open>An operation that returns from every state; sequencing keeps it.\<close>

definition returning :: "('s, 'e, 'a) effect \<Rightarrow> bool" where
  "returning m \<longleftrightarrow> (\<forall>s. m s \<noteq> None)"

named_theorems returning_intros \<open>operations without unbounded loops return\<close>

lemma returning_basic [returning_intros]:
  "returning (sreturn a)" "returning (sfail e)" "returning (sget f)" "returning (supd u)"
  "returning (srun g)" "returning (stry h)" "returning (world_call i)" "returning (world_try j)"
  "returning (world_result j)" "returning (count k)" "returning (check r)" "returning (dev_upd l)"
  by (auto simp: returning_def effect_defs world_call_def world_try_def world_result_def count_def
      check_def dev_upd_def split: prod.splits sum.splits)

lemma returning_sbind [returning_intros]:
  "returning m \<Longrightarrow> (\<And>a. returning (f a)) \<Longrightarrow> returning (sbind m f)"
  unfolding returning_def sbind_def by (auto split: option.splits sum.splits)

lemma returning_sthen [returning_intros]: "returning m \<Longrightarrow> returning k \<Longrightarrow> returning (sthen m k)"
  unfolding sthen_def by (rule returning_sbind)

lemma returning_swhen [returning_intros]: "returning m \<Longrightarrow> returning (swhen b m)"
  by (simp add: swhen_def returning_basic)

lemma returning_if [returning_intros]:
  "returning m \<Longrightarrow> returning k \<Longrightarrow> returning (if b then m else k)"
  by simp

lemma returning_option [returning_intros]:
  "returning m \<Longrightarrow> (\<And>x. returning (f x)) \<Longrightarrow> returning (case o' of None \<Rightarrow> m | Some x \<Rightarrow> f x)"
  by (cases o') simp_all

lemma returning_seach [returning_intros]: "(\<And>x. returning (f x)) \<Longrightarrow> returning (seach f xs)"
  by (induction xs) (auto intro: returning_intros)

lemma returning_sfold [returning_intros]:
  "(\<And>x b. returning (f x b)) \<Longrightarrow> returning (sfold f xs b)"
  by (induction xs arbitrary: b) (auto intro: returning_intros)

lemma returning_or_log [returning_intros]: "(\<And>x. returning (f x)) \<Longrightarrow> returning (or_log r f)"
  by (cases r) (auto simp: or_log_def intro: returning_intros)

lemma returning_dev: "returning (dev_handle_shortcut A h)"
  unfolding dev_ops
  by (auto intro!: returning_intros split: option.splits dev_shortcut.splits)

lemma returning_parts [returning_intros]:
  "returning (schedule_macro A l sc d ms)" "returning (observe_focus A sc c)"
  "returning (focus_state A sc c)" "returning (count_denial st)" "returning (cancel_labelled l)"
  "returning (drive_queue A)" "returning (read_now A)" "returning (feed_motion_runtime ev t)"
  "returning end_active_loops" "returning take_focus_deactivation"
  unfolding schedule_macro_def observe_focus_def focus_state_def count_denial_def
    drive_queue_def part_defs
  by (intro returning_intros)+

lemma returning_binding: "returning (schedule_live_binding A b c)"
  unfolding schedule_live_binding_def Let_def by (intro returning_intros)

lemma returning_shortcut: "returning (handle_shortcut_callback A bs ev)"
  unfolding handle_shortcut_callback_def
  by (intro returning_intros returning_dev returning_binding)

lemma returning_loop_after: "returning (schedule_live_motion_loop_after A ms t)"
  unfolding schedule_live_motion_loop_after_def by (intro returning_intros)

lemma returning_loop_start: "returning (schedule_live_motion_loop_start A m)"
  unfolding schedule_live_motion_loop_start_def Let_def
  by (auto intro!: returning_intros split: loop_body.splits option.splits)

lemma returning_runtime_event: "returning (schedule_live_motion_runtime_event A ms ev c)"
  unfolding schedule_live_motion_runtime_event_def schedule_live_motion_trigger_def Let_def
  by (cases ev)
    (auto intro!: returning_intros returning_loop_after returning_loop_start split: option.splits)

lemma returning_input: "returning (handle_observed_input A ms ps t ob)"
proof -
  have deact: "returning (cancel_loops_on_deactivation A ms)"
    unfolding cancel_loops_on_deactivation_def by (intro returning_intros returning_loop_after)
  have ev: "returning (handle_motion_event A ms ev b)" for ev b
    unfolding handle_motion_event_def
    by (cases ev) (auto intro!: returning_intros deact returning_runtime_event)
  show ?thesis
    unfolding handle_observed_input_def handle_observed_motion_input_def
      record_motion_latency_metrics_def schedule_live_press_def Let_def
    by (intro returning_intros deact ev)
qed

text \<open>
  The loop over the input events returns when a measure of the world falls with every event it
  takes and no other call of the adapter raises it: the events that wait in the device's queue.
\<close>

definition never_raises :: "('w \<Rightarrow> nat) \<Rightarrow> ('w \<Rightarrow> 'w \<times> 'a) \<Rightarrow> bool" where
  "never_raises m f \<longleftrightarrow> (\<forall>w. m (fst (f w)) \<le> m w)"

definition input_queue :: "('w \<Rightarrow> nat) \<Rightarrow> ('w, 't) live_adapter \<Rightarrow> bool" where
  "input_queue m A \<longleftrightarrow>
     (\<forall>w w' ev. ad_next_input_event A w = (w', Inr (Some ev)) \<longrightarrow> m w' < m w)
     \<and> never_raises m (ad_now A) \<and> never_raises m (ad_monotonic_clock_time A)
     \<and> never_raises m (ad_active_process_context A) \<and> never_raises m (ad_arm_input_grab A)
     \<and> never_raises m (ad_release_input_grab A)
     \<and> (\<forall>raw. never_raises m (ad_passthrough_raw_input A raw))"

lemma never_raisesD: "never_raises m f \<Longrightarrow> f w = (w', a) \<Longrightarrow> m w \<le> k \<Longrightarrow> m w' \<le> k"
  unfolding never_raises_def by (metis fst_conv order_trans)

lemma never_raises_call:
  "never_raises m f \<Longrightarrow> keeps (\<lambda>s. m (lc_world s) \<le> k) (world_call f)"
  unfolding world_call_def
  by (intro keeps_srun) (auto split: prod.splits dest: never_raisesD)

lemma never_raises_try:
  "never_raises m f \<Longrightarrow> keeps (\<lambda>s. m (lc_world s) \<le> k) (world_try f)"
  unfolding world_try_def
  by (intro keeps_stry) (auto split: prod.splits dest: never_raisesD)

lemma input_queue_handler:
  assumes "input_queue m A"
  shows "keeps (\<lambda>s. m (lc_world s) \<le> k) (handle_observed_input A ms ps t ev)"
proof -
  have now: "keeps (\<lambda>s. m (lc_world s) \<le> k) (read_now A)"
    unfolding read_now_def using assms by (intro never_raises_call) (simp add: input_queue_def)
  have "live_handlers A (\<lambda>s. m (lc_world s) \<le> k)"
    by unfold_locales
      (use assms in \<open>auto simp: part_defs(2-) count_def input_queue_def
        intro!: now never_raises_call never_raises_try keeps_srun keeps_supd keeps_schedule_macro
          keeps_observe_focus split: prod.splits\<close>)
  then show ?thesis
    by (rule live_handlers.input_event_calls)
      (use assms in \<open>auto simp: input_queue_def intro!: never_raises_try\<close>)
qed

lemma drain_input_events_returns:
  assumes "input_queue m A"
  shows "drain_input_events A p s \<noteq> None"
proof (induction "m (lc_world s)" arbitrary: s rule: less_induct)
  case less
  obtain w r where n: "ad_next_input_event A (lc_world s) = (w, r)" by fastforce
  let ?s1 = "s\<lparr>lc_world := w\<rparr>"
  have step: "world_try (ad_next_input_event A) s = Some (?s1, r)"
    using n by (simp add: world_try_def stry_def)
  show ?case
  proof (cases r)
    case (Inl e)
    then show ?thesis by (subst drain_input_events.simps) (simp add: sbind_def step)
  next
    case (Inr next_ev)
    show ?thesis
    proof (cases next_ev)
      case None
      with Inr show ?thesis
        by (subst drain_input_events.simps) (simp add: sbind_def step sreturn_def)
    next
      case (Some ev)
      let ?h = "handle_observed_input A (lp_motions p) (lp_presses p) (lp_motion_time_base p) ev"
      obtain s2 u where h: "?h ?s1 = Some (s2, u)"
        using returning_input unfolding returning_def by fastforce
      have lt: "m w < m (lc_world s)"
        using assms n Inr Some by (auto simp: input_queue_def)
      from keepsD [OF input_queue_handler [OF assms, of "m w"] _ h] have "m (lc_world s2) \<le> m w" by simp
      with lt less have "drain_input_events A p s2 \<noteq> None" by simp
      with Inr Some h show ?thesis
        by (subst drain_input_events.simps) (cases u; simp add: sbind_def sthen_def step)
    qed
  qed
qed

end
