(* ===== verification/LiveSafety.thy ===== *)
theory LiveSafety imports LiveInvariants begin

text \<open>
  What the handlers do while scoped focus is inactive, and what becomes of the original input:
  no macro run is started by a hotkey, a press, a motion or a repeat tick, and an event of a
  grabbed device is passed through at most once. The branches that do start a run while focus
  is inactive (the \<open>after\<close> macro of a loop that ends) are shown too.
\<close>

section \<open>Inactive focus\<close>

text \<open>The context is not one the scope is active in, whenever it is looked at.\<close>

definition inactive :: "scope_selection \<Rightarrow> active_process_context \<Rightarrow> bool" where
  "inactive sc c \<longleftrightarrow>
     (\<forall>now. \<not> sf_active (scoped_focus_state_at_with_policy sc c now runtime_focus_policy))"

definition started_runs :: "('w, 't) live_state \<Rightarrow> nat list" where
  "started_runs s = run_ids (mq_runs (ls_queue s))"

text \<open>The log of the world and the runs of the queue are those of before.\<close>

definition untouched :: "('w \<Rightarrow> 'l) \<Rightarrow> 'l \<Rightarrow> nat list \<Rightarrow> ('w, 't) live_state \<Rightarrow> bool" where
  "untouched log l ids s \<longleftrightarrow> log (lc_world s) = l \<and> started_runs s = ids"

text \<open>
  The log records the raw events that are passed through: no other call the handlers of an input
  event make changes it.
\<close>

definition keeps_log :: "('w \<Rightarrow> 'l) \<Rightarrow> ('w \<Rightarrow> 'w \<times> 'a) \<Rightarrow> bool" where
  "keeps_log log f \<longleftrightarrow> (\<forall>w. log (fst (f w)) = log w)"

definition logs_passthrough ::
  "('w, 't) live_adapter \<Rightarrow> ('w \<Rightarrow> raw_input_event list) \<Rightarrow> bool" where
  "logs_passthrough A log \<longleftrightarrow>
     keeps_log log (ad_now A) \<and> keeps_log log (ad_monotonic_clock_time A)
     \<and> keeps_log log (ad_active_process_context A) \<and> keeps_log log (ad_arm_input_grab A)
     \<and> keeps_log log (ad_release_input_grab A)
     \<and> (\<forall>raw w. log (fst (ad_passthrough_raw_input A raw w)) = log w @ [raw])"

lemma keeps_logD: "keeps_log log f \<Longrightarrow> f w = (w', a) \<Longrightarrow> log w' = log w"
  unfolding keeps_log_def by (metis fst_conv)

lemma log_world_call:
  "keeps_log log f \<Longrightarrow> keeps (untouched log l ids) (world_call f)"
  unfolding world_call_def
  by (rule keeps_srun)
    (auto simp: untouched_def started_runs_def split: prod.splits dest: keeps_logD)

lemma log_world_try:
  "keeps_log log f \<Longrightarrow> keeps (untouched log l ids) (world_try f)"
  unfolding world_try_def
  by (rule keeps_stry)
    (auto simp: untouched_def started_runs_def split: prod.splits dest: keeps_logD)

text \<open>The parts of the handlers that start no run.\<close>

lemma started_runs_cancel [simp]:
  "run_ids (mq_runs (fst (cancel_process_scoped q))) = run_ids (mq_runs q)"
  "run_ids (mq_runs (fst (cancel_trigger q l))) = run_ids (mq_runs q)"
  by (simp_all add: cancel_process_scoped_def cancel_trigger_def)

lemma started_runs_cancelD:
  "cancel_process_scoped q = (q', n) \<Longrightarrow> run_ids (mq_runs q') = run_ids (mq_runs q)"
  "cancel_trigger q l = (q', n) \<Longrightarrow> run_ids (mq_runs q') = run_ids (mq_runs q)"
  using started_runs_cancel(1) [of q] started_runs_cancel(2) [of q l] by simp_all

lemma untouched_parts:
  "keeps (untouched log l ids) (count f)"
  "keeps (untouched log l ids) take_focus_deactivation"
  "keeps (untouched log l ids) end_active_loops"
  "keeps (untouched log l ids) (feed_motion_runtime ev t)"
  "keeps (untouched log l ids) (cancel_labelled lab)"
  by (auto simp: part_defs count_def untouched_def started_runs_def
      intro!: keeps_srun keeps_supd split: prod.splits dest: started_runs_cancelD)

lemma untouched_observe:
  fixes A :: "('w, 't) live_adapter"
  assumes "keeps_log log (ad_now A)"
  shows "keeps (untouched log l ids) (observe_focus A sc c)"
proof (rule keeps_observe_focus)
  show "keeps (untouched log l ids) (read_now A)"
    unfolding read_now_def by (rule log_world_call) (rule assms)
next
  fix s :: "('w, 't) live_state" and ft q n st
  assume s: "untouched log l ids s" and q: "cancel_process_scoped (ls_queue s) = (q, n)"
  with started_runs_cancelD(1) [OF q] show "untouched log l ids (s\<lparr>ls_focus := ft, ls_queue := q, lc_stats := st\<rparr>)"
    by (simp add: untouched_def started_runs_def)
qed (simp add: untouched_def started_runs_def)

lemma focus_state_inactive:
  assumes "inactive sc c"
  shows "returns (focus_state A sc c) (\<lambda>st. \<not> sf_active st)"
  using assms unfolding focus_state_def inactive_def by (intro returns_intros) simp

lemma logs_passthrough_now: "logs_passthrough A log \<Longrightarrow> keeps_log log (ad_now A)"
  by (simp add: logs_passthrough_def)

lemma untouched_inactive:
  assumes now: "keeps_log log (ad_now A)" and "inactive sc c"
    and "\<And>st. keeps (untouched log l ids) (m st)"
  shows "keeps (untouched log l ids) (sthen (observe_focus A sc c)
    (sbind (focus_state A sc c) (\<lambda>st. if \<not> sf_active st then m st else k st)))"
proof -
  have "keeps (untouched log l ids) (focus_state A sc c)"
    unfolding focus_state_def read_now_def by (intro keeps_intros log_world_call now)
  then show ?thesis
    by (intro keeps_sthen untouched_observe now keeps_sbind_returned
        [OF _ focus_state_inactive [OF assms(2)]]) (auto intro: assms(3))
qed

lemma untouched_denial: "keeps (untouched log l ids) (count_denial st)"
  unfolding count_denial_def by (intro keeps_intros untouched_parts)

lemma untouched_binding:
  assumes "keeps_log log (ad_now A)" and "inactive (hb_scope b) c"
  shows "keeps (untouched log l ids) (schedule_live_binding A b c)"
  unfolding schedule_live_binding_def Let_def
  by (rule untouched_inactive [OF assms]) (rule untouched_denial)

lemma untouched_press:
  assumes "keeps_log log (ad_now A)" and "inactive (rp_scope p) c"
  shows "keeps (untouched log l ids) (schedule_live_press A p c)"
  unfolding schedule_live_press_def Let_def
  by (rule untouched_inactive [OF assms]) (intro keeps_intros untouched_denial)

lemma untouched_trigger:
  assumes "keeps_log log (ad_now A)" and "inactive (rm_scope m) c"
  shows "keeps (untouched log l ids) (schedule_live_motion_trigger A m c b)"
  unfolding schedule_live_motion_trigger_def Let_def
  by (rule untouched_inactive [OF assms]) (intro keeps_intros untouched_denial)

lemma untouched_repeat_tick:
  assumes "keeps_log log (ad_now A)" and "inactive (rm_scope m) c"
  shows "keeps (untouched log l ids) (schedule_live_motion_repeat_tick A m c)"
proof -
  have skip: "keeps (untouched log l ids) (skip_repeat lab)" for lab
    unfolding skip_repeat_def
    by (rule keeps_supd)
      (simp add: untouched_def started_runs_def record_repeat_skip_def Let_def)
  show ?thesis
    unfolding schedule_live_motion_repeat_tick_def Let_def
    by (intro keeps_intros skip untouched_inactive [OF assms] untouched_denial)
qed

section \<open>A press while focus is inactive\<close>

lemma returns_press:
  "inactive (rp_scope p) c \<Longrightarrow> returns (schedule_live_press A p c) Not"
  unfolding schedule_live_press_def Let_def
  by (intro returns_sthen returns_sbind [OF focus_state_inactive]) (auto intro: returns_intros)

lemma returns_trigger:
  "inactive (rm_scope m) c \<Longrightarrow> returns (schedule_live_motion_trigger A m c b) Not"
  unfolding schedule_live_motion_trigger_def Let_def
  by (intro returns_sthen returns_sbind [OF focus_state_inactive]) (auto intro: returns_intros)

text \<open>A press gives no cancelled loops.\<close>

lemma handle_press_events:
  "handle_press rt k t = (rt', evs) \<Longrightarrow> LoopCancelled u \<notin> set evs"
  by (auto simp: handle_press_def start_attempt_def complete_trigger_def trigger_event_def Let_def
      split: if_splits option.splits prod.splits)

definition no_after :: "runtime_motion list \<Rightarrow> bool" where
  "no_after ms \<longleftrightarrow>
     list_all (\<lambda>m. Option.bind (mo_loop (rm_definition m)) ld_after = None) ms"

lemma untouched_loop_after:
  assumes "no_after ms"
  shows "keeps I (schedule_live_motion_loop_after A ms t)"
proof (cases "find_motion t ms")
  case None
  then show ?thesis by (simp add: schedule_live_motion_loop_after_def keeps_sreturn)
next
  case (Some m)
  then have "m \<in> set ms"
    by (auto simp: find_motion_def find_Some_iff dest: nth_mem)
  with assms Some show ?thesis
    by (simp add: schedule_live_motion_loop_after_def no_after_def list_all_iff keeps_sreturn)
qed

lemma untouched_deactivation:
  assumes "no_after ms"
  shows "keeps (untouched log l ids) (cancel_loops_on_deactivation A ms)"
  unfolding cancel_loops_on_deactivation_def
  by (intro keeps_intros untouched_parts untouched_loop_after assms)

text \<open>The adapter reports only contexts in which the scope is inactive.\<close>

definition always_inactive :: "('w, 't) live_adapter \<Rightarrow> scope_selection \<Rightarrow> bool" where
  "always_inactive A sc \<longleftrightarrow>
     (\<forall>w. case snd (ad_active_process_context A w) of Inl _ \<Rightarrow> True | Inr c \<Rightarrow> inactive sc c)"

lemma always_inactive_context:
  "always_inactive A sc \<Longrightarrow> returns (world_try (ad_active_process_context A)) (inactive sc)"
  by (auto simp: always_inactive_def returns_def world_try_Ok) (metis snd_conv sum.case(2))

text \<open>All motions and presses of a run have the scope of the run.\<close>

definition scoped :: "scope_selection \<Rightarrow> runtime_motion list \<Rightarrow> runtime_press list \<Rightarrow> bool" where
  "scoped sc ms ps \<longleftrightarrow> list_all (\<lambda>m. rm_scope m = sc) ms \<and> list_all (\<lambda>p. rp_scope p = sc) ps"

lemma find_motion_scope: "scoped sc ms ps \<Longrightarrow> find_motion t ms = Some m \<Longrightarrow> rm_scope m = sc"
  by (auto simp: scoped_def find_motion_def find_Some_iff list_all_iff dest: nth_mem)

lemma matching_press_scope:
  "scoped sc ms ps \<Longrightarrow> matching_press ev ps rt = Some p \<Longrightarrow> rp_scope p = sc"
  by (auto simp: scoped_def matching_press_def find_Some_iff list_all_iff
      split: if_splits dest: nth_mem)

text \<open>An event of a press: nothing is started, and it is not consumed.\<close>

lemma event_inactive:
  assumes A: "logs_passthrough A log" "always_inactive A sc" and sc: "scoped sc ms ps"
    and after: "no_after ms" and ev: "\<And>t. ev \<noteq> LoopCancelled t"
  shows "keeps (untouched log l ids) (handle_motion_event A ms ev b)"
    and "\<not> b \<Longrightarrow> returns (handle_motion_event A ms ev b) Not"
proof -
  have "keeps (untouched log l ids) (schedule_live_motion_runtime_event A ms ev c)
      \<and> returns (schedule_live_motion_runtime_event A ms ev c) Not" if c: "inactive sc c" for c
  proof (cases ev)
    case (Triggered t starts)
    show ?thesis
    proof (cases "find_motion t ms")
      case None
      with Triggered show ?thesis
        by (simp add: schedule_live_motion_runtime_event_def keeps_sreturn returns_sreturn)
    next
      case (Some m)
      with c have "inactive (rm_scope m) c" using find_motion_scope [OF sc] by simp
      with untouched_trigger [OF logs_passthrough_now [OF A(1)] this] returns_trigger [OF this] Triggered Some
      show ?thesis by (simp add: schedule_live_motion_runtime_event_def)
    qed
  next
    case (MotionDiscarded r)
    then show ?thesis
      by (auto simp: schedule_live_motion_runtime_event_def
          intro!: keeps_intros returns_intros untouched_parts)
  qed (use ev in simp)
  note ok = this [THEN conjunct1] and res = this [THEN conjunct2]
  have cxt: "keeps (untouched log l ids) (world_try (ad_active_process_context A))"
    by (rule log_world_try) (use A(1) in \<open>simp add: logs_passthrough_def\<close>)
  note deact = untouched_deactivation [OF after]
  have eq: "handle_motion_event A ms ev b = (if \<exists>r. ev = MotionDiscarded r
      then sthen (count record_motion_discard) (sreturn b)
      else sbind (world_try (ad_active_process_context A)) (\<lambda>c.
        sbind (schedule_live_motion_runtime_event A ms ev c) (\<lambda>b'.
          sthen (cancel_loops_on_deactivation A ms) (sreturn (b \<or> b')))))"
    by (cases ev) (simp_all add: handle_motion_event_def)
  show "keeps (untouched log l ids) (handle_motion_event A ms ev b)"
    unfolding eq by (intro keeps_if keeps_sthen keeps_sbind keeps_sreturn untouched_parts deact
        keeps_sbind_returned [OF cxt always_inactive_context [OF A(2)]] ok)
  show "returns (handle_motion_event A ms ev b) Not" if "\<not> b"
    unfolding eq using that
    by (auto intro!: returns_sthen returns_sreturn
        returns_sbind [OF always_inactive_context [OF A(2)]] returns_sbind [OF res])
qed

lemma feed_press:
  assumes "me_state ev = Pressed"
  shows "returns (feed_motion_runtime ev t) (\<lambda>evs. \<forall>u. LoopCancelled u \<notin> set evs)"
  using assms
  by (auto simp: returns_def feed_motion_runtime_def srun_def handle_input_at_def
      split: prod.splits dest: handle_press_events)

lemma get_press:
  assumes "scoped sc ms ps"
  shows "returns (sget (\<lambda>s. matching_press ev ps (lc_motion_runtime s)))
    (\<lambda>p. \<forall>q. p = Some q \<longrightarrow> rp_scope q = sc)"
  using matching_press_scope [OF assms] by (auto simp: returns_def sget_def)

lemma press_inactive:
  assumes A: "logs_passthrough A log" "always_inactive A sc" and sc: "scoped sc ms ps"
    and after: "no_after ms" and press: "\<forall>q. p = Some q \<longrightarrow> rp_scope q = sc"
  defines "m \<equiv> (case p of
      None \<Rightarrow> sreturn False
    | Some p \<Rightarrow> sbind (world_try (ad_active_process_context A)) (\<lambda>c.
        sbind (schedule_live_press A p c) (\<lambda>b.
          sthen (cancel_loops_on_deactivation A ms) (sreturn b))))"
  shows "keeps (untouched log l ids) m" and "returns m Not"
proof -
  have cxt: "keeps (untouched log l ids) (world_try (ad_active_process_context A))"
    by (rule log_world_try) (use A(1) in \<open>simp add: logs_passthrough_def\<close>)
  note deact = untouched_deactivation [OF after]
  show "keeps (untouched log l ids) m"
    unfolding m_def
    by (cases p) (use press in \<open>auto intro!: keeps_intros deact untouched_press [OF logs_passthrough_now [OF A(1)]]
        keeps_sbind_returned [OF cxt always_inactive_context [OF A(2)]]\<close>)
  show "returns m Not"
    unfolding m_def
    by (cases p) (use press in \<open>auto intro!: returns_sreturn returns_sthen
        returns_sbind [OF always_inactive_context [OF A(2)]] returns_sbind [OF returns_press]\<close>)
qed

lemma motion_input_inactive:
  assumes A: "logs_passthrough A log" "always_inactive A sc" and sc: "scoped sc ms ps"
    and after: "no_after ms" and press: "me_state (om_event ob) = Pressed"
  shows "keeps (untouched log l ids) (handle_observed_motion_input A ms ps tb ob)"
    and "returns (handle_observed_motion_input A ms ps tb ob) Not"
proof -
  have log: "keeps_log log (ad_now A)" "keeps_log log (ad_monotonic_clock_time A)"
    using A(1) by (simp_all add: logs_passthrough_def)
  have latency: "keeps (untouched log l ids) (record_motion_latency_metrics A t ts)" for t ts
    unfolding record_motion_latency_metrics_def read_now_def
    by (intro keeps_intros untouched_parts log_world_call log)
  show "keeps (untouched log l ids) (handle_observed_motion_input A ms ps tb ob)"
    unfolding handle_observed_motion_input_def
    by (rule keeps_sthen [OF latency], rule keeps_sbind_returned [OF _ feed_press [OF press]])
      (auto intro!: untouched_parts keeps_sbind_returned [OF keeps_sget get_press [OF sc]]
        keeps_sbind press_inactive(1) [OF A sc after] keeps_sfold_all
        event_inactive(1) [OF A sc after])
  show "returns (handle_observed_motion_input A ms ps tb ob) Not"
    unfolding handle_observed_motion_input_def
    by (rule returns_sthen, rule returns_sbind [OF feed_press [OF press]],
        rule returns_sbind [OF get_press [OF sc]],
        rule returns_sbind [OF press_inactive(2) [OF A sc after]])
      (auto intro!: returns_sfold event_inactive(2) [OF A sc after])
qed

text \<open>
  A pressed event of a grabbed device, while scoped focus is inactive and no motion has an
  \<open>after\<close> macro: it is passed through exactly once and starts no run.
\<close>

lemma press_passes_through:
  assumes A: "logs_passthrough A log" "always_inactive A sc" and sc: "scoped sc ms ps"
    and after: "no_after ms" and ev: "oi_event ob = Some ev" "me_state ev = Pressed"
    and run: "handle_observed_input A ms ps tb ob s = Some (s', Inr ())"
  shows "started_runs s' = started_runs s
    \<and> log (lc_world s') = log (lc_world s) @ (if oi_grabbed ob then [oi_raw ob] else [])"
proof -
  let ?om = "\<lparr>om_event = ev, om_source = oi_source ob,
    om_kernel_timestamp = re_kernel_timestamp (oi_raw ob), om_observed_at = oi_observed_at ob\<rparr>"
  let ?I = "untouched log (log (lc_world s)) (started_runs s)"
  have start: "?I s" by (simp add: untouched_def)
  from run ev obtain s1 s2 b where
    1: "swhen (me_token ev = Leader \<and> me_state ev = Pressed)
         (world_try (ad_arm_input_grab A)) s = Some (s1, Inr ())"
    and 2: "handle_observed_motion_input A ms ps tb ?om s1 = Some (s2, Inr b)"
    and 3: "swhen (oi_grabbed ob \<and> \<not> b) (world_try (ad_passthrough_raw_input A (oi_raw ob))) s2
         = Some (s', Inr ())"
    by (auto simp: handle_observed_input_def sthen_def sbind_Some_Ok swhen_def sreturn_def)
  have "keeps ?I (swhen (me_token ev = Leader \<and> me_state ev = Pressed)
      (world_try (ad_arm_input_grab A)))"
    by (intro keeps_swhen log_world_try) (use A(1) in \<open>simp add: logs_passthrough_def\<close>)
  from keepsD [OF this start 1] have "?I s1" .
  from keepsD [OF motion_input_inactive(1) [OF A sc after] this 2] ev have I2: "?I s2" by simp
  from returnsD [OF motion_input_inactive(2) [OF A sc after] 2] ev have "\<not> b" by simp
  with 3 I2 A(1) show ?thesis
    by (auto simp: swhen_def sreturn_def world_try_Ok untouched_def started_runs_def
        logs_passthrough_def split: if_splits) (metis fst_conv)+
qed

section \<open>At most once\<close>

text \<open>Whatever the focus is: an event is passed through at most once, and only when grabbed.\<close>

lemma log_handlers:
  assumes "logs_passthrough A log"
  shows "live_handlers A (\<lambda>s. log (lc_world s) = l)"
proof -
  have call: "keeps (\<lambda>s. log (lc_world s) = l) (world_call f)" if "keeps_log log f"
    for f :: "'a \<Rightarrow> 'a \<times> 'x"
    unfolding world_call_def using that
    by (intro keeps_srun) (auto split: prod.splits dest: keeps_logD)
  have tried: "keeps (\<lambda>s. log (lc_world s) = l) (world_try f)" if "keeps_log log f"
    for f :: "'a \<Rightarrow> 'a \<times> 'y result"
    unfolding world_try_def using that
    by (intro keeps_stry) (auto split: prod.splits dest: keeps_logD)
  have logs: "keeps_log log (ad_now A)" "keeps_log log (ad_monotonic_clock_time A)"
    "keeps_log log (ad_active_process_context A)"
    using assms by (simp_all add: logs_passthrough_def)
  have now: "keeps (\<lambda>s. log (lc_world s) = l) (read_now A)"
    unfolding read_now_def by (rule call) (rule logs)
  show ?thesis
    by unfold_locales
      (auto simp: part_defs(2-) count_def intro!: now call tried logs keeps_srun keeps_supd
        keeps_schedule_macro keeps_observe_focus split: prod.splits)
qed

lemma log_arm_release:
  assumes "logs_passthrough A log"
  shows "keeps (\<lambda>s. log (lc_world s) = l) (world_try (ad_arm_input_grab A))"
    and "keeps (\<lambda>s. log (lc_world s) = l) (world_try (ad_release_input_grab A))"
  using assms
  by (auto simp: world_try_def logs_passthrough_def intro!: keeps_stry
      split: prod.splits dest: keeps_logD)

lemma input_at_most_once:
  assumes A: "logs_passthrough A log"
    and run: "handle_observed_input A ms ps tb ob s = Some (s', r)"
  shows "log (lc_world s') = log (lc_world s)
    \<or> oi_grabbed ob \<and> log (lc_world s') = log (lc_world s) @ [oi_raw ob]"
proof -
  let ?l = "log (lc_world s)"
  let ?I = "\<lambda>s :: ('a, 'b) live_state. log (lc_world s) = ?l"
  let ?J = "\<lambda>s :: ('a, 'b) live_state. log (lc_world s) = ?l @ [oi_raw ob]"
  have pass: "?I s2 \<or> oi_grabbed ob \<and> ?J s2"
    if "swhen (oi_grabbed ob \<and> b) (world_try (ad_passthrough_raw_input A (oi_raw ob))) s1
          = Some (s2, r)" and "?I s1" for s1 s2 b and r :: "unit result"
    using that A
    by (auto simp: swhen_def sreturn_def world_try_def stry_def logs_passthrough_def
        split: if_splits prod.splits) (metis fst_conv)
  show ?thesis
  proof (cases "oi_event ob")
    case None
    with run pass [of True s s' r] show ?thesis by (simp add: handle_observed_input_def)
  next
    case (Some ev)
    let ?arm = "swhen (me_token ev = Leader \<and> me_state ev = Pressed)
      (world_try (ad_arm_input_grab A))"
    let ?rel = "swhen (me_token ev = Leader \<and> me_state ev = Released)
      (world_try (ad_release_input_grab A))"
    let ?handle = "handle_observed_motion_input A ms ps tb \<lparr>om_event = ev,
      om_source = oi_source ob, om_kernel_timestamp = re_kernel_timestamp (oi_raw ob),
      om_observed_at = oi_observed_at ob\<rparr>"
    have kI: "keeps ?I ?arm" "keeps ?I ?handle" "keeps ?I ?rel" and kJ: "keeps ?J ?rel"
      by (intro keeps_swhen log_arm_release A live_handlers.motion_input log_handlers)+
    from run Some have "sthen ?arm (sbind ?handle (\<lambda>c. sthen
        (swhen (oi_grabbed ob \<and> \<not> c) (world_try (ad_passthrough_raw_input A (oi_raw ob)))) ?rel)) s
      = Some (s', r)" by (simp add: handle_observed_input_def)
    then consider "?I s'"
      | (three) s1 c s2 r2 where "?I s1"
        "swhen (oi_grabbed ob \<and> \<not> c) (world_try (ad_passthrough_raw_input A (oi_raw ob))) s1
          = Some (s2, r2)" "s' = s2 \<or> ?rel s2 = Some (s', r)"
      unfolding sthen_def sbind_Some
      using keepsD [OF kI(1) refl] keepsD [OF kI(2)] by blast
    then show ?thesis
    proof cases
      case three
      from pass [OF three(2,1)] show ?thesis
        using three(3) keepsD [OF kI(3), of s2] keepsD [OF kJ, of s2] by blast
    qed simp
  qed
qed


section \<open>What is started while focus is inactive\<close>

text \<open>
  The end of a loop starts the \<open>after\<close> macro and reports the event as consumed without looking
  at the context.
\<close>

lemma fresh_schedule_starts:
  assumes "label \<notin> set (mq_active_triggers (ls_queue s))"
    and "schedule_macro A label sc d ms s = Some (s', r)"
  shows "r = Ok () \<and> started_runs s' = started_runs s @ [mq_next_id (ls_queue s) + 1]
    \<and> mq_active_triggers (ls_queue s') = bs_insert label (mq_active_triggers (ls_queue s))"
  using assms
  by (auto simp: schedule_macro_def read_now_def world_call_def srun_def sbind_def supd_def
      queue_schedule_def started_runs_def Let_def macro_run_new_def split: prod.splits)

lemma cancel_trigger_queue:
  "cancel_trigger q l = (q', n) \<Longrightarrow> mq_active_triggers q' = mq_active_triggers q
    \<and> mq_next_id q' = mq_next_id q \<and> run_ids (mq_runs q') = run_ids (mq_runs q)"
  unfolding cancel_trigger_def using cancel_runs_labels [of "\<lambda>r. lr_trigger_label r = l" q] by auto

lemma loop_end_ignores_focus:
  assumes "find_motion t ms = Some m" and "Option.bind (mo_loop (rm_definition m)) ld_after = Some d"
    and "motion_label t ''loop_after'' \<notin> set (mq_active_triggers (ls_queue s))"
    and "schedule_live_motion_runtime_event A ms (LoopCancelled t) c s = Some (s', r)"
  shows "r = Ok True \<and> started_runs s' = started_runs s @ [mq_next_id (ls_queue s) + 1]"
proof -
  obtain q1 n1 where c1: "cancel_trigger (ls_queue s) (motion_label t ''repeat'') = (q1, n1)"
    by fastforce
  obtain q2 n2 where c2: "cancel_trigger q1 (motion_label t ''loop_before'') = (q2, n2)" by fastforce
  obtain q3 n3 where c3: "cancel_trigger q2 (motion_label t ''loop_once'') = (q3, n3)" by fastforce
  define s3 where "s3 = s\<lparr>ls_queue := q3, lc_stats :=
    record_cancelled_macro_runs (of_nat (n1 + n2 + n3)) (record_motion_repeat_cancel (lc_stats s))\<rparr>"
  have q: "mq_active_triggers (ls_queue s3) = mq_active_triggers (ls_queue s)"
      "mq_next_id (ls_queue s3) = mq_next_id (ls_queue s)" "started_runs s3 = started_runs s"
    using cancel_trigger_queue [OF c1] cancel_trigger_queue [OF c2] cancel_trigger_queue [OF c3]
    by (simp_all add: s3_def started_runs_def)
  have step: "sthen (schedule_macro A (motion_label t ''loop_after'') (rm_scope m) d
      (mo_inter_action_delay_ms (rm_definition m))) (sreturn True) s3 = Some (s', r)"
    using assms(1,2,4)
    by (simp add: schedule_live_motion_runtime_event_def schedule_live_motion_loop_after_def
        sthen_def sbind_def count_def supd_def cancel_labelled_def srun_def c1 c2 c3 s3_def)
  from step obtain s4 r4 where 4: "schedule_macro A (motion_label t ''loop_after'') (rm_scope m) d
      (mo_inter_action_delay_ms (rm_definition m)) s3 = Some (s4, r4)"
    by (auto simp: sthen_def sbind_def split: option.splits)
  from fresh_schedule_starts [OF _ 4] assms(3) q have "r4 = Ok ()"
    "started_runs s4 = started_runs s @ [mq_next_id (ls_queue s) + 1]" by simp_all
  with step 4 show ?thesis by (auto simp: sthen_def sbind_def sreturn_def)
qed

text \<open>An active motion is reported as consumed in either binding mode.\<close>

lemma motion_consumes_in_any_mode:
  assumes "\<forall>now. sf_active (scoped_focus_state_at_with_policy (rm_scope m) c now runtime_focus_policy)"
  shows "returns (schedule_live_motion_trigger A m c b) (\<lambda>consumed. consumed)"
proof -
  have "returns (focus_state A (rm_scope m) c) sf_active"
    using assms unfolding focus_state_def by (intro returns_intros) simp
  then show ?thesis
    unfolding schedule_live_motion_trigger_def Let_def
    by (intro returns_sthen returns_sbind [OF \<open>returns (focus_state A (rm_scope m) c) sf_active\<close>])
      (auto intro!: returns_sthen returns_sreturn)
qed

lemma press_consumes_in_consume_mode:
  "returns (schedule_live_press A p c) (\<lambda>consumed. consumed \<longrightarrow> pd_mode (rp_definition p) = Consume)"
  unfolding schedule_live_press_def Let_def
  by (intro returns_sthen returns_sbind_any) (auto intro!: returns_sthen returns_sreturn)

end
