(* ===== verification/Scenarios.thy ===== *)
theory Scenarios imports LiveSafety begin

text \<open>
  Small concrete programs and an adapter that answers from a fixed context and logs the raw
  events it passes through: the inputs the closed examples of the development are evaluated on.
\<close>

section \<open>An adapter\<close>

definition quiet_adapter ::
  "active_process_context \<Rightarrow> (raw_input_event list, 't) live_adapter" where
  "quiet_adapter c =
     \<lparr>ad_now = (\<lambda>w. (w, 7000000)), ad_monotonic_clock_time = (\<lambda>w. (w, None)),
      ad_active_process_context = (\<lambda>w. (w, Ok c)),
      ad_execute_input_request = (\<lambda>req w. (w, Ok input_emission.Emitted)),
      ad_passthrough_raw_input = (\<lambda>raw w. (w @ [raw], Ok ())),
      ad_arm_input_grab = (\<lambda>w. (w, Ok ())), ad_release_input_grab = (\<lambda>w. (w, Ok ())),
      ad_take_callback_dropped_count = (\<lambda>w. (w, 0)), ad_next_shortcut_event = (\<lambda>w. (w, None)),
      ad_next_input_event = (\<lambda>w. (w, Ok None)),
      ad_wait_next_input_or_runtime_fd = (\<lambda>d fds w. (w, Ok (RuntimeFd 3))),
      ad_wake_fds = (\<lambda>w. \<lparr>wf_signal_fd = 3, wf_timer_fd = 4, wf_callback_fd = None\<rparr>),
      ad_arm_timer_after = (\<lambda>d w. (w, Ok ())), ad_drain_timer = (\<lambda>w. (w, Ok ())),
      ad_drain_callback_wake_fd = (\<lambda>w. (w, Ok ())),
      ad_drain_shutdown_reason = (\<lambda>w. (w, Ok (Some CtrlC))),
      ad_register_internal_hotkey = (\<lambda>h w. (w, Ok h)),
      ad_unregister_internal_hotkey = (\<lambda>i w. (w, Ok ())),
      ad_pointer_diagnostic = (\<lambda>w. (w, Ok ())),
      ad_render_tracker_ghosts = (\<lambda>ts w. (w, Ok ())), ad_cleanup_overlay = (\<lambda>i w. (w, Ok ()))\<rparr>"

lemma quiet_adapter_logs: "logs_passthrough (quiet_adapter c) (\<lambda>w. w)"
  by (simp add: logs_passthrough_def keeps_log_def quiet_adapter_def)

section \<open>Focus\<close>

definition kate :: scope_selection where
  "kate = ProcessList [''kate'']"

definition kate_focused :: active_process_context where
  "kate_focused = context_name_only ''kate'' 0"

definition konsole_focused :: active_process_context where
  "konsole_focused = context_name_only ''konsole'' 0"

lemma konsole_inactive: "inactive kate konsole_focused"
  by (simp add: inactive_def focus_state_active_iff decide_context_Allowed_iff kate_def
      konsole_focused_def context_name_only_def)

lemma quiet_konsole: "always_inactive (quiet_adapter konsole_focused) kate"
  by (simp add: always_inactive_def quiet_adapter_def konsole_inactive)

section \<open>A program\<close>

definition press_a :: macro_definition where
  "press_a = \<lparr>md_actions = [KeyPress ''A'']\<rparr>"

definition three_keys :: macro_definition where
  "three_keys = \<lparr>md_actions = [KeyPress ''A'', Delay 5, KeyPress ''B'', KeyPress ''C'']\<rparr>"

definition leader_q :: motion_trigger where
  "leader_q = [Leader, Key ''Q'']"

text \<open>\<open><Leader> Q\<close> repeats while \<open>Q\<close> is held; the optional macro runs when the loop ends.\<close>

definition loop_motion :: "binding_mode \<Rightarrow> macro_definition option \<Rightarrow> motion_definition" where
  "loop_motion mode after =
     \<lparr>mo_requires_held = [], mo_trigger = leader_q, mo_mode = mode, mo_macro = None,
      mo_loop = Some \<lparr>ld_while_held = [Key ''Q''], ld_before = None,
                      ld_body = Repeat \<lparr>lr_interval = \<lparr>li_every_ms = 50\<rparr>, lr_macro = press_a\<rparr>,
                      ld_after = after\<rparr>,
      mo_within_ms = 500, mo_inter_action_delay_ms = 0\<rparr>"

definition kate_motion :: "binding_mode \<Rightarrow> macro_definition option \<Rightarrow> runtime_motion" where
  "kate_motion mode after = \<lparr>rm_definition = loop_motion mode after, rm_scope = kate\<rparr>"

definition kate_binding :: hotkey_binding where
  "kate_binding = \<lparr>hb_trigger = Keyboard ''F6'', hb_scope = kate, hb_mode = Consume,
     hb_macro = press_a, hb_registration_state = Pending\<rparr>"

definition start_state ::
  "runtime_motion list \<Rightarrow> (raw_input_event list, unit) live_state" where
  "start_state ms = live_state_new [] dev_runtime_default (runtime_stats_new 0) ms"

definition raw_key :: "32 word \<Rightarrow> raw_input_event" where
  "raw_key v = \<lparr>re_event_type = 1, re_code = 16, re_value = v,
     re_kernel_timestamp = Monotonic 5000000\<rparr>"

definition observed_key :: "motion_token \<Rightarrow> motion_input_state \<Rightarrow> observed_input_event" where
  "observed_key t st =
     \<lparr>oi_raw = raw_key (case st of Pressed \<Rightarrow> 1 | Released \<Rightarrow> 0),
      oi_event = Some \<lparr>me_token = t, me_state = st\<rparr>, oi_source = ''/dev/input/event3'',
      oi_grabbed = True, oi_observed_at = 6000000\<rparr>"

lemmas scenario_defs = quiet_adapter_def kate_def kate_focused_def konsole_focused_def press_a_def
  three_keys_def leader_q_def loop_motion_def kate_motion_def kate_binding_def start_state_def
  raw_key_def observed_key_def

end
