(* ===== verification/ComponentProperties.thy ===== *)
theory ComponentProperties imports Scenarios Capabilities KeyTable Hotkeys begin

text \<open>
  The properties of the single components, each with a closed example: the recognition of
  motions, the timing of macro runs, the queue, the scope decision, the configuration, the
  capability gate, the textual identifiers, the callback scheduler and the statistics.
\<close>

section \<open>Motions\<close>

text \<open>
  C6: From a fresh runtime and after any input, a motion is triggered only when its tokens are
  the last presses, inside its time window and with its required tokens held.
\<close>

theorem triggered_only_if_recognised:
  assumes "handle_input_at (foldl runtime_step (motion_runtime_new ms) is) ev now = (rt', evs)"
    and "Triggered t b \<in> set evs"
  shows "recognised (history_of is @ press_of (ev, now)) rt' t"
proof -
  have "runtime_ok (history_of is) (foldl runtime_step (motion_runtime_new ms) is)"
    using history_ok [OF runtime_ok_new] by fastforce
  from handle_input_ok [OF this, of "(ev, now)"] assms show ?thesis by auto
qed

definition press_at :: "motion_token \<Rightarrow> nat \<Rightarrow> timed_input" where
  "press_at k ms = (\<lparr>me_token = k, me_state = Pressed\<rparr>, from_millis ms)"

lemma scenario_motion:
  "handle_input_at (foldl runtime_step (motion_runtime_new [loop_motion Consume None])
       [press_at Leader 0]) \<lparr>me_token = Key ''Q'', me_state = Pressed\<rparr> (from_millis 400)
     = (\<lparr>rt_motions = [(leader_q, loop_motion Consume None)], rt_attempt = None,
         rt_held = [Leader, Key ''Q''], rt_loops = [leader_q]\<rparr>, [Triggered leader_q True])"
  by code_simp

theorem triggered_only_if_recognised_witness:
  "recognised [(Leader, from_millis 0), (Key ''Q'', from_millis 400)]
     \<lparr>rt_motions = [(leader_q, loop_motion Consume None)], rt_attempt = None,
      rt_held = [Leader, Key ''Q''], rt_loops = [leader_q]\<rparr> leader_q"
  using triggered_only_if_recognised [OF scenario_motion, of leader_q True]
  by (simp add: history_of_def press_of_def press_at_def)



text \<open>
  C8: After any input a loop is active only while its \<open>while_held\<close> and its required tokens are
  held, and the held tokens are those pressed and not released since.
\<close>

theorem active_loops_are_held:
  assumes "t \<in> set (rt_loops (foldl runtime_step (motion_runtime_new ms) is))"
  shows "\<exists>m l. runtime_motion (motion_runtime_new ms) t = Some m \<and> mo_loop m = Some l
    \<and> set (ld_while_held l) \<union> set (mo_requires_held m) \<subseteq> held_after {} is"
proof -
  have "runtime_ok (history_of is) (foldl runtime_step (motion_runtime_new ms) is)"
    using history_ok [OF runtime_ok_new] by fastforce
  with assms run_held [OF runtime_ok_new, of ms "is"] show ?thesis
    by (auto simp: runtime_ok_def loops_ok_def runtime_motion_def motion_runtime_new_def)
qed

theorem active_loops_are_held_witness:
  "\<exists>m l. runtime_motion (motion_runtime_new [loop_motion Consume None]) leader_q = Some m
     \<and> mo_loop m = Some l \<and> set (ld_while_held l) \<union> set (mo_requires_held m)
         \<subseteq> held_after {} [press_at Leader 0, press_at (Key ''Q'') 400]"
proof (rule active_loops_are_held)
  have "rt_loops (foldl runtime_step (motion_runtime_new [loop_motion Consume None])
      [press_at Leader 0, press_at (Key ''Q'') 400]) = [leader_q]" by code_simp
  then show "leader_q \<in> set (rt_loops (foldl runtime_step
      (motion_runtime_new [loop_motion Consume None])
      [press_at Leader 0, press_at (Key ''Q'') 400]))" by simp
qed

section \<open>Macro runs\<close>

text \<open>
  C9: A run that is polled at its own deadlines hands over the actions of the plan at exactly the
  instants at which the blocking execution performs them, numbered from 1.
\<close>

theorem polled_run_is_blocking_run:
  assumes "2 * length (md_actions d) < fuel"
  shows "\<exists>em. run_at_deadlines fuel (macro_run_new i d ia t) = Some em
    \<and> map (\<lambda>e. (fst e, si_action (snd e))) em
        = snd (fst (execute_plan_with_inter_action_delay clock_sleep d ia clock_exec (t, [])))
    \<and> map (si_sequence \<circ> snd) em = [1..<Suc (length em)]"
  using run_at_deadlines_new [OF assms]
  by (simp add: execute_plan_with_inter_action_delay_def execute_actions_trace)

theorem polled_run_is_blocking_run_witness:
  "\<exists>em. run_at_deadlines 9 (macro_run_new 1 three_keys 20 0) = Some em
    \<and> map (\<lambda>e. (fst e, si_action (snd e))) em
        = snd (fst (execute_plan_with_inter_action_delay clock_sleep three_keys 20 clock_exec (0, [])))
    \<and> map (si_sequence \<circ> snd) em = [1..<Suc (length em)]"
  by (rule polled_run_is_blocking_run) (simp add: three_keys_def)

text \<open>
  However late a run is polled, it hands over a prefix of the plan's actions in order, none
  before the instant of the plan.
\<close>

theorem late_polls_are_never_early:
  assumes "run_polls (macro_run_new i d ia t) ts = (r, em)"
  shows "map (si_action \<circ> snd) em = take (length em) (filter (\<lambda>a. \<not> is_delay a) (md_actions d))
    \<and> (\<forall>k<length em. fst (plan_trace ia 0 t (md_actions d) ! k) \<le> fst (em ! k))"
proof -
  have "follows_plan (\<le>) t (macro_run_new i d ia t) []" by (rule follows_plan_new) simp
  from follows_plan_run_polls [OF this assms] have inv: "follows_plan (\<le>) t r em" by simp
  have "mr_actions r = md_actions d" "mr_inter_action_delay_ms r = ia"
    using run_polls_keeps [OF assms] by (simp_all add: macro_run_new_def)
  with follows_plan_prefix(1,3) [OF inv] show ?thesis by auto
qed

theorem late_polls_are_never_early_witness:
  "map (si_action \<circ> snd) (snd (run_polls (macro_run_new 1 three_keys 20 0)
     [0, 3000000, 6000000, 30000000, 90000000])) = take 2 [KeyPress ''A'', KeyPress ''B'', KeyPress ''C'']"
proof -
  have len: "length (snd (run_polls (macro_run_new 1 three_keys 20 0)
     [0, 3000000, 6000000, 30000000, 90000000])) = 2" by code_simp
  obtain r em where "run_polls (macro_run_new 1 three_keys 20 0)
     [0, 3000000, 6000000, 30000000, 90000000] = (r, em)" by fastforce
  with late_polls_are_never_early [OF this] len show ?thesis
    by (simp add: three_keys_def is_delay_def)
qed

section \<open>The macro queue\<close>

text \<open>
  One drive of the queue hands to the executor at most one request of each run, those of the
  runs that are due in the order the runs were scheduled, and all of them when it succeeds.
\<close>

theorem drive_hands_over_due_requests:
  assumes "drive_ready (logged exec) q st now ([], w) = (q', st', (l, w'), res)"
  shows "\<exists>n. l = take n (List.map_filter (due_request now) (mq_runs q))
    \<and> (res = Ok () \<longrightarrow> l = List.map_filter (due_request now) (mq_runs q)
         \<and> run_ids (mq_runs q') = run_ids (filter run_live (mq_runs q)))"
proof -
  obtain rs act where run: "drive_runs (logged exec) now [] (mq_runs q) (mq_active_triggers q) st
      ([], w) = (rs, act, st', (l, w'), res)" and q': "mq_runs q' = rs"
    by (rule drive_ready_split [OF assms]) simp
  from drive_runs_log [OF run] obtain n where "l = take n (List.map_filter (due_request now) (mq_runs q))"
    "res = Ok () \<longrightarrow> n = length (List.map_filter (due_request now) (mq_runs q))" by auto
  moreover have "res = Ok () \<Longrightarrow> run_ids rs = run_ids (filter run_live (mq_runs q))"
    using drive_runs_ids run by fastforce
  ultimately show ?thesis using q' by (intro exI [of _ n]) simp
qed

definition two_runs :: live_macro_queue where
  "two_runs = fst (queue_schedule (fst (queue_schedule macro_queue_default ''F6'' ExplicitGlobal
     press_a 0 (runtime_stats_new 0) 0)) ''F7'' ExplicitGlobal three_keys 0 (runtime_stats_new 0) 0)"

definition emit_all :: "unit executor" where
  "emit_all req w = (w, Ok input_emission.Emitted)"

theorem drive_hands_over_due_requests_witness:
  "fst (fst (snd (snd (drive_ready (logged emit_all) two_runs (runtime_stats_new 0) 5 ([], ())))))
     = List.map_filter (due_request 5) (mq_runs two_runs)"
proof -
  have ok: "snd (snd (snd (drive_ready (logged emit_all) two_runs (runtime_stats_new 0) 5 ([], ()))))
      = Ok ()" by code_simp
  obtain q' st' l w' res where "drive_ready (logged emit_all) two_runs (runtime_stats_new 0) 5
      ([], ()) = (q', st', (l, w'), res)" by (metis prod_cases4 surj_pair)
  with drive_hands_over_due_requests [OF this] ok show ?thesis by auto
qed

text \<open>
  A run that has emitted its last action stays in the queue until it is polled once more:
  meanwhile its label refuses a new run, and when all runs are over the loop waits the idle time.
\<close>

theorem finished_run_blocks_its_trigger:
  assumes "queue_ok q" and "r \<in> set (mq_runs q)" and "\<forall>r\<in>set (mq_runs q). \<not> run_live r"
  shows "queue_schedule q (lr_trigger_label r) sc d ms st now
      = (q, record_non_repeat_collision_skip st, None)
    \<and> queue_next_wait_timeout q now = from_millis 300000"
  using over_run_blocks [OF assms(1,2)] assms(2,3) idle_when_all_over [OF assms(3)]
  by (simp add: idle_wait_timeout_def)

definition driven_once :: live_macro_queue where
  "driven_once = fst (drive_ready emit_all (fst (queue_schedule macro_queue_default ''F6''
     ExplicitGlobal press_a 0 (runtime_stats_new 0) 0)) (runtime_stats_new 0) 0 ())"

lemma driven_once_eq:
  "driven_once = \<lparr>mq_next_id = 1, mq_active_triggers = [''F6''], mq_repeat_skip_counts = [],
     mq_runs = [\<lparr>lr_trigger_label = ''F6'', lr_scope = ExplicitGlobal,
       lr_state = \<lparr>mr_id = 1, mr_actions = [KeyPress ''A''], mr_next_action = 1,
         mr_generated_actions = 1, mr_inter_action_delay_ms = 0,
         mr_inter_action_delay_armed = True, mr_ready_at = 0, mr_cancelled = False\<rparr>\<rparr>]\<rparr>"
  by code_simp

theorem finished_run_blocks_its_trigger_witness:
  "queue_schedule driven_once ''F6'' ExplicitGlobal press_a 0 (runtime_stats_new 0) 1000000000
      = (driven_once, record_non_repeat_collision_skip (runtime_stats_new 0), None)
   \<and> queue_next_wait_timeout driven_once 1000000000 = from_millis 300000"
proof -
  let ?r = "hd (mq_runs driven_once)"
  have "queue_ok driven_once" "?r \<in> set (mq_runs driven_once)"
    "\<forall>r\<in>set (mq_runs driven_once). \<not> run_live r" "lr_trigger_label ?r = ''F6''"
    by (simp_all add: driven_once_eq queue_ok_def runs_ok_def run_live_def bs_ok_iff)
  with finished_run_blocks_its_trigger [of driven_once ?r] show ?thesis by simp
qed

section \<open>Scope and consent\<close>

text \<open>
  C10: A context is allowed exactly when the scope is the confirmed global one, or the visible
  process is one of the scope's, reported with confidence, and neither stale nor from the future.
\<close>

theorem scope_allows_iff:
  "decide_context_at_with_policy s c now policy = Allowed \<longleftrightarrow>
     s = ExplicitGlobal
     \<or> (\<exists>ps p. s = ProcessList ps \<and> p \<in> set ps \<and> ap_visible_name c = Some p
           \<and> (ap_confidence c = Exact \<or> ap_confidence c = NameOnly)
           \<and> ap_captured_at c \<le> now \<and> now - ap_captured_at c \<le> fp_stale_threshold policy)"
  by (rule decide_context_Allowed_iff)

text \<open>
  Consent gives the global scope only when it was confirmed, and grabbing all devices needs
  the literal acknowledgement.
\<close>

theorem dangerous_choices_are_acknowledged:
  "(consent_into_scope d = Inr (Some ExplicitGlobal) \<longleftrightarrow> d = ExplicitGlobalConfirmed)
   \<and> (provider_evdev_all Grab output risk = Inr c \<longleftrightarrow>
        risk = Some ''GRAB_ALL_INPUTS''
        \<and> c = \<lparr>ip_backend = Evdev, ip_mode = Grab, ip_output = output, ip_devices = [],
               ip_all_devices = True, ip_interactive_devices = False\<rparr>)"
  by (intro conjI consent_global_only_if_confirmed evdev_all_grab_acknowledged)

section \<open>The configuration and its capabilities\<close>

text \<open>
  C11: A configuration is accepted exactly when it is not empty, no trigger is given twice, and no
  motion's trigger is a prefix of another's.
\<close>

theorem configuration_accepted_exactly:
  "(\<exists>c. with_bindings_and_motions scope leader defaults provider bs ms ps = Inr c) \<longleftrightarrow>
     \<not> (bs = [] \<and> ms = [] \<and> ps = []) \<and> distinct (map bd_trigger bs)
     \<and> distinct (map mo_trigger ms) \<and> distinct (map pd_trigger ps)
     \<and> no_overlap (mo_trigger ` set ms)"
  by (simp only: configuration_accepted_iff de_Morgan_conj)

text \<open>
  The capabilities of a configuration in a scope are those of its bindings, motions and
  presses and, in a process scope, the metadata of the active process.
\<close>

theorem required_capabilities:
  "set (for_configuration_scope c s) =
     (\<Union>b\<in>set (bindings_for_scope c s). set (binding_requires b))
     \<union> (\<Union>m\<in>snd ` set (lc_motions c). set (motion_requires m))
     \<union> (\<Union>p\<in>snd ` set (lc_presses c). set (press_requires p))
     \<union> (if \<not> (lc_motions c = [] \<and> lc_presses c = []) \<and> is_process_list s
        then {ActiveProcessMetadata} else {})"
  by (simp only: for_configuration_scope_iff de_Morgan_conj)

text \<open>
  The report of a KDE environment lets a set of required capabilities pass exactly when the
  set is empty, or the session is KDE on Wayland and its services support each of them.
\<close>

theorem capability_gate:
  "first_blocking_error (kde_capability_report required env) required = None \<longleftrightarrow>
     required = [] \<or> (is_kde_wayland env \<and> (\<forall>k\<in>set required. kind_supported (ke_services env) k))"
  by (simp add: first_blocking_error_None_iff kde_report_available_iff)

theorem capability_gate_witness:
  "first_blocking_error (kde_capability_report [GlobalShortcut]
       \<lparr>ke_wayland_display = Some ''wayland-0'', ke_session_type = Some ''wayland'',
        ke_current_desktop = Some ''KDE'', ke_services = services_available\<rparr>) [GlobalShortcut]
     = None"
proof -
  let ?env = "\<lparr>ke_wayland_display = Some ''wayland-0'', ke_session_type = Some ''wayland'',
        ke_current_desktop = Some ''KDE'', ke_services = services_available\<rparr>"
  have "is_kde_wayland ?env \<and> (\<forall>k\<in>set [GlobalShortcut]. kind_supported (ke_services ?env) k)"
    by code_simp
  then show ?thesis using capability_gate [of "[GlobalShortcut]" ?env] by blast
qed

section \<open>Textual identifiers\<close>

text \<open>Two keys of the table, for the closed examples.\<close>

lemma listed_entry:
  assumes "l \<in> set key_table_lines" and "parse_key_line l = Some e"
  shows "e \<in> set key_entries"
  using assms by (force simp: key_entries_def List.map_filter_def)

lemma f6_listed: "\<lparr>ke_code = 64, ke_linux_name = ''F6''\<rparr> \<in> set key_entries"
proof (rule listed_entry)
  show "''64 F6'' \<in> set key_table_lines" by (simp add: key_table_lines_def key_lines_3_def)
  show "parse_key_line ''64 F6'' = Some \<lparr>ke_code = 64, ke_linux_name = ''F6''\<rparr>" by code_simp
qed

lemma kpplus_listed: "\<lparr>ke_code = 78, ke_linux_name = ''KPPLUS''\<rparr> \<in> set key_entries"
proof (rule listed_entry)
  show "''78 KPPLUS'' \<in> set key_table_lines" by (simp add: key_table_lines_def key_lines_4_def)
  show "parse_key_line ''78 KPPLUS'' = Some \<lparr>ke_code = 78, ke_linux_name = ''KPPLUS''\<rparr>"
    by code_simp
qed

lemma f6_parses: "key_token_parse ''F6'' = Inr (entry_token \<lparr>ke_code = 64, ke_linux_name = ''F6''\<rparr>)"
  using parse_key_token_entry [OF f6_listed, of "''F6''"]
  by (simp add: key_token_parse_Ok_iff trim_def is_ws_def)

lemma kpplus_parses:
  "key_token_parse ''KPPLUS'' = Inr (entry_token \<lparr>ke_code = 78, ke_linux_name = ''KPPLUS''\<rparr>)"
  using parse_key_token_entry [OF kpplus_listed, of "''KPPLUS''"]
  by (simp add: key_token_parse_Ok_iff trim_def is_ws_def)

lemma f6_name: "kt_name (entry_token \<lparr>ke_code = 64, ke_linux_name = ''F6''\<rparr>) = ''F6''" by code_simp
lemma kpplus_name: "kt_name (entry_token \<lparr>ke_code = 78, ke_linux_name = ''KPPLUS''\<rparr>) = ''+''" by code_simp

lemma single_key_hotkey:
  assumes "key_token_parse n = Inr t" and "trim n = n" and "CHR ''+'' \<notin> set n"
  shows "hotkey_parse n = Inr (kt_name t)"
proof -
  have "n \<noteq> []" using assms(1,2) by (auto simp: key_token_parse_Ok_iff)
  moreover have "split_on (CHR ''+'') n = [n]" using split_on_join [of "[n]" "CHR ''+''"] assms(3) by simp
  ultimately show ?thesis using assms(1,2)
    by (simp add: hotkey_parse_def modifier_set_new_fix)
qed
text \<open>
  The name of a parsed key parses to the same key, its code looks it up, and the code is
  positive.
\<close>

theorem key_round_trip:
  assumes "key_token_parse n = Inr t"
  shows "key_token_parse (kt_name t) = Inr t \<and> from_evdev_code (kt_code t) = Some t
    \<and> 1 \<le> kt_code t"
  using parsed_name_reparses [OF assms] parsed_code_looks_up [OF assms]
    key_code_bounds [OF parsed_code_looks_up [OF assms]] by blast

theorem key_round_trip_witness:
  "key_token_parse (kt_name (entry_token \<lparr>ke_code = 64, ke_linux_name = ''F6''\<rparr>))
     = Inr (entry_token \<lparr>ke_code = 64, ke_linux_name = ''F6''\<rparr>)"
  using key_round_trip [OF f6_parses] by blast



text \<open>
  The exception is real: the plus key of the keypad parses to the hotkey \<open>+\<close>, which does
  not parse.
\<close>

theorem keypad_plus_does_not_reparse:
  "hotkey_parse ''KPPLUS'' = Inr ''+'' \<and> (\<exists>e. hotkey_parse ''+'' = Inl e)"
proof
  have "trim ''KPPLUS'' = ''KPPLUS''" by code_simp
  then show "hotkey_parse ''KPPLUS'' = Inr ''+''"
    using single_key_hotkey [OF kpplus_parses] kpplus_name by simp
  have "split_on (CHR ''+'') (trim ''+'') = [[], []]" "trim ''+'' = ''+''" "trim [] = []"
    by code_simp+
  then show "\<exists>e. hotkey_parse ''+'' = Inl e" by (simp add: hotkey_parse_def)
qed

section \<open>Callbacks\<close>



text \<open>
  A callback is accepted exactly when its capabilities are available, its label is not in
  flight and the queue has room; otherwise the scheduler is unchanged.
\<close>

theorem callback_admission_exact:
  "(sr_disposition (snd (scheduler_schedule s r cap t)) = Accepted \<longleftrightarrow>
     all_available cap (cg_required r) \<and> registration_label r \<notin> set (sc_active_or_pending s)
     \<and> length (sc_pending s) < sc_max_pending s)
   \<and> (sr_disposition (snd (scheduler_schedule s r cap t)) = Accepted
        \<or> fst (scheduler_schedule s r cap t) = s)"
  using schedule_Accepted_iff [of s r cap t] schedule_refused_unchanged [of s r cap t] by blast

text \<open>
  With the capability granted, a batch takes as many of the actions as it has room for, in
  order, and reports an error exactly when some did not fit.
\<close>

theorem batch_takes_what_fits:
  assumes "all_available cap (capability_set_new [SynthesizedInput])"
    and "enqueue_actions as cap b = (b', r)" and "length (rb_requests b) \<le> rb_max_pending b"
  shows "map si_action (rb_requests b') = map si_action (rb_requests b)
      @ take (rb_max_pending b - length (rb_requests b)) as
    \<and> (r = Inr () \<longleftrightarrow> length as \<le> rb_max_pending b - length (rb_requests b))"
  using assms by (rule enqueue_actions_effect)

theorem batch_takes_what_fits_witness:
  "\<exists>b' r. enqueue_actions [KeyPress ''A'', KeyPress ''B'']
       (report_from_statuses [status_available SynthesizedInput ''portal''])
       \<lparr>rb_max_pending = 1, rb_requests = [], rb_next_sequence = 1\<rparr> = (b', r)
     \<and> map si_action (rb_requests b') = [KeyPress ''A''] \<and> r \<noteq> Inr ()"
proof -
  let ?cap = "report_from_statuses [status_available SynthesizedInput ''portal'']"
  obtain b' r where run: "enqueue_actions [KeyPress ''A'', KeyPress ''B''] ?cap
       \<lparr>rb_max_pending = 1, rb_requests = [], rb_next_sequence = 1\<rparr> = (b', r)" by fastforce
  have "all_available ?cap (capability_set_new [SynthesizedInput])" by code_simp
  from batch_takes_what_fits [OF this run] run show ?thesis by auto
qed

section \<open>Statistics\<close>

text \<open>
  The reported percentile of a histogram is the least bucket bound below which that share of
  the recorded values lies.
\<close>

theorem percentile_is_least_bound:
  assumes "xs \<noteq> []" and "length xs * 100 < 2 ^ 64" and "p \<le> 100"
    and "u = percentile_ms (of_nat (length xs)) (histogram xs) mx (of_nat p)"
  shows "u \<in> set latency_buckets_ms \<and> length xs * p \<le> 100 * at_most u xs
    \<and> (\<forall>b\<in>set latency_buckets_ms. b < u \<longrightarrow> 100 * at_most b xs < length xs * p)"
  using percentile_meaning [OF assms] by blast

theorem percentile_is_least_bound_witness:
  "percentile_ms 4 (histogram [3, 8, 9, 300]) 300 50 \<in> set latency_buckets_ms
   \<and> 4 * 50 \<le> 100 * at_most (percentile_ms 4 (histogram [3, 8, 9, 300]) 300 50) [3, 8, 9, 300]"
  using percentile_is_least_bound [of "[3, 8, 9, 300]" 50
      "percentile_ms 4 (histogram [3, 8, 9, 300]) 300 50" 300] by simp

text \<open>
  After any sequence of triggers the count of each label is the number of its occurrences,
  and the callback histogram counts every dispatched callback.
\<close>

theorem counters_count:
  "bm_get (rs_trigger_count_by_hotkey (fold record_trigger hs (runtime_stats_new now))) h
     = (if h \<in> set hs then Some (of_nat (count_list hs h)) else None)
   \<and> rs_callback_dispatch_latency_buckets (fold record_callback_dispatched xs (runtime_stats_new now))
     = histogram xs"
  using triggers_counted callback_histogram by blast

section \<open>Developer diagnostics\<close>



end
