(* ===== verification/Floats.thy ===== *)
theory Floats imports Prelude begin

text \<open>
  The operations on \<open>f32\<close> and \<open>f64\<close> that the screen and overlay code uses. What a float is and
  how it rounds belongs to the machine and its mathematical library, so a type of floats is the
  record of its operations, an argument of the definitions that use it.
\<close>

record 'f float_ops =
  fl_literal :: "int \<Rightarrow> int \<Rightarrow> 'f"
  fl_of_nat :: "nat \<Rightarrow> 'f"
  fl_add :: "'f \<Rightarrow> 'f \<Rightarrow> 'f"
  fl_sub :: "'f \<Rightarrow> 'f \<Rightarrow> 'f"
  fl_mul :: "'f \<Rightarrow> 'f \<Rightarrow> 'f"
  fl_div :: "'f \<Rightarrow> 'f \<Rightarrow> 'f"
  fl_neg :: "'f \<Rightarrow> 'f"
  fl_abs :: "'f \<Rightarrow> 'f"
  fl_less :: "'f \<Rightarrow> 'f \<Rightarrow> bool"
  fl_le :: "'f \<Rightarrow> 'f \<Rightarrow> bool"
  fl_is_finite :: "'f \<Rightarrow> bool"
  fl_round :: "'f \<Rightarrow> 'f"
  fl_floor :: "'f \<Rightarrow> 'f"
  fl_sqrt :: "'f \<Rightarrow> 'f"
  fl_sin :: "'f \<Rightarrow> 'f"
  fl_cos :: "'f \<Rightarrow> 'f"
  fl_atan2 :: "'f \<Rightarrow> 'f \<Rightarrow> 'f"
  fl_to_radians :: "'f \<Rightarrow> 'f"
  fl_to_degrees :: "'f \<Rightarrow> 'f"
  fl_rem_euclid :: "'f \<Rightarrow> 'f \<Rightarrow> 'f"
  fl_cast :: "int \<Rightarrow> int \<Rightarrow> 'f \<Rightarrow> int"
  fl_epsilon :: 'f

text \<open>
  \<open>fl_literal n d\<close> is the literal for \<open>n / d\<close>, \<open>fl_of_nat\<close> the conversion of an unsigned integer
  (\<open>as f32\<close>, \<open>f32::from\<close>, \<open>f64::from\<close>) and \<open>fl_cast lo hi\<close> the cast \<open>as\<close> to the integer type with the
  bounds \<open>lo\<close> and \<open>hi\<close>, which saturates and takes a value that is not a number to 0.
\<close>

definition fl_clamp :: "'f float_ops \<Rightarrow> 'f \<Rightarrow> 'f \<Rightarrow> 'f \<Rightarrow> 'f" where
  "fl_clamp F lo hi x =
     (let y = (if fl_less F x lo then lo else x) in if fl_less F hi y then hi else y)"

text \<open>\<open>f32::max\<close>: when one argument is not a number, the other one.\<close>

definition fl_max :: "'f float_ops \<Rightarrow> 'f \<Rightarrow> 'f \<Rightarrow> 'f" where
  "fl_max F a b = (if \<not> fl_le F a a then b else if fl_less F a b then b else a)"

definition cast_u8 :: "'f float_ops \<Rightarrow> 'f \<Rightarrow> nat" where
  "cast_u8 F x = nat (fl_cast F 0 255 x)"

definition cast_u32 :: "'f float_ops \<Rightarrow> 'f \<Rightarrow> nat" where
  "cast_u32 F x = nat (fl_cast F 0 (int u32_max) x)"

definition cast_i64 :: "'f float_ops \<Rightarrow> 'f \<Rightarrow> int" where
  "cast_i64 F x = fl_cast F (- 9223372036854775808) 9223372036854775807 x"

text \<open>What the language says of the casts.\<close>

definition casts_saturate :: "'f float_ops \<Rightarrow> bool" where
  "casts_saturate F \<longleftrightarrow>
     (\<forall>lo hi x. lo \<le> 0 \<longrightarrow> 0 \<le> hi \<longrightarrow> lo \<le> fl_cast F lo hi x \<and> fl_cast F lo hi x \<le> hi)"

lemma cast_bounds: "casts_saturate F \<Longrightarrow> 0 \<le> hi \<Longrightarrow> fl_cast F 0 hi x \<le> hi"
  by (simp add: casts_saturate_def)

lemma cast_u8_le: "casts_saturate F \<Longrightarrow> cast_u8 F x \<le> 255"
  using cast_bounds [of F 255 x] by (simp add: cast_u8_def nat_le_iff)

lemma cast_u32_le: "casts_saturate F \<Longrightarrow> cast_u32 F x \<le> u32_max"
  using cast_bounds [of F "int u32_max" x] by (simp add: cast_u32_def nat_le_iff)

text \<open>What comparisons must satisfy for a clamped value to lie between its bounds.\<close>

definition comparisons_ok :: "'f float_ops \<Rightarrow> bool" where
  "comparisons_ok F \<longleftrightarrow>
     (\<forall>x y. fl_less F x y \<longrightarrow> fl_le F x y)
   \<and> (\<forall>x y. fl_le F x x \<longrightarrow> fl_le F y y \<longrightarrow> \<not> fl_less F x y \<longrightarrow> fl_le F y x)
   \<and> (\<forall>x y. fl_less F x y \<longrightarrow> fl_le F x x \<and> fl_le F y y)"

lemma fl_clamp_bounds:
  assumes "comparisons_ok F" and "fl_le F lo hi" "fl_le F lo lo" "fl_le F hi hi" and "fl_le F x x"
  shows "fl_le F lo (fl_clamp F lo hi x) \<and> fl_le F (fl_clamp F lo hi x) hi"
proof -
  define y where "y = (if fl_less F x lo then lo else x)"
  have less: "fl_less F a b \<Longrightarrow> fl_le F a b" for a b
    using assms(1) by (simp add: comparisons_ok_def)
  have total: "fl_le F a a \<Longrightarrow> fl_le F b b \<Longrightarrow> \<not> fl_less F a b \<Longrightarrow> fl_le F b a" for a b
    using assms(1) by (simp add: comparisons_ok_def)
  have y: "fl_le F y y" "fl_le F lo y"
    using assms(3,5) total [OF assms(5,3)] by (simp_all add: y_def)
  show ?thesis
  proof (cases "fl_less F hi y")
    case True
    then show ?thesis using assms(2,4) by (simp add: fl_clamp_def y_def [symmetric] Let_def)
  next
    case False
    then show ?thesis
      using y total [OF assms(4) y(1) False] by (simp add: fl_clamp_def y_def [symmetric] Let_def)
  qed
qed

end
