(* ===== verification/Screens.thy ===== *)
theory Screens imports Floats Scopes begin

text \<open>
  The first half of \<open>signal-auras-core/src/screen_state.rs\<close> and the pixel colours of
  \<open>dev_diagnostics.rs\<close>: regions of interest and their scaling, the detectors with the phase rules
  of a radial cooldown and their checks, screen samples, and what a sample shows in a region. The
  type \<open>'f\<close> is \<open>f32\<close> and \<open>'d\<close> is \<open>f64\<close>, with their operations \<open>F\<close> and \<open>D\<close>.
\<close>

section \<open>Regions of interest and their scaling\<close>

record roi =
  roi_x :: nat
  roi_y :: nat
  roi_w :: nat
  roi_h :: nat

definition validation_error :: "string \<Rightarrow> 'a result" where
  "validation_error message = Err (diagnosable_error_new ScriptValidation message)"

definition roi_new :: "nat \<Rightarrow> nat \<Rightarrow> nat \<Rightarrow> nat \<Rightarrow> roi result" where
  "roi_new x y w h =
     (if w = 0 \<or> h = 0
      then validation_error ''screen state tracker ROI width and height must be positive''
      else Ok \<lparr>roi_x = x, roi_y = y, roi_w = w, roi_h = h\<rparr>)"

definition roi_pixels :: "roi \<Rightarrow> nat" where
  "roi_pixels r = u32_saturating_mul (roi_w r) (roi_h r)"

record 'd coordinate_scale =
  sc_x :: 'd
  sc_y :: 'd

definition scale_identity :: "'d float_ops \<Rightarrow> 'd coordinate_scale" where
  "scale_identity D = \<lparr>sc_x = fl_literal D 1 1, sc_y = fl_literal D 1 1\<rparr>"

definition scale_new :: "'d float_ops \<Rightarrow> 'd \<Rightarrow> 'd \<Rightarrow> 'd coordinate_scale option" where
  "scale_new D x y =
     (if fl_is_finite D x \<and> fl_is_finite D y \<and> fl_less D (fl_literal D 0 1) x
         \<and> fl_less D (fl_literal D 0 1) y
      then Some \<lparr>sc_x = x, sc_y = y\<rparr> else None)"

definition scale_is_identity :: "'d float_ops \<Rightarrow> 'd coordinate_scale \<Rightarrow> bool" where
  "scale_is_identity D s \<longleftrightarrow>
     fl_less D (fl_abs D (fl_sub D (sc_x s) (fl_literal D 1 1))) (fl_epsilon D)
     \<and> fl_less D (fl_abs D (fl_sub D (sc_y s) (fl_literal D 1 1))) (fl_epsilon D)"

definition scale_value :: "'d float_ops \<Rightarrow> 'd \<Rightarrow> nat \<Rightarrow> nat" where
  "scale_value D factor v =
     cast_u32 D (fl_clamp D (fl_literal D 0 1) (fl_of_nat D u32_max)
       (fl_round D (fl_mul D (fl_of_nat D v) factor)))"

definition scale_x_u32 :: "'d float_ops \<Rightarrow> 'd coordinate_scale \<Rightarrow> nat \<Rightarrow> nat" where
  "scale_x_u32 D s v = scale_value D (sc_x s) v"

definition scale_y_u32 :: "'d float_ops \<Rightarrow> 'd coordinate_scale \<Rightarrow> nat \<Rightarrow> nat" where
  "scale_y_u32 D s v = scale_value D (sc_y s) v"

definition scale_uniform_u32 :: "'d float_ops \<Rightarrow> 'd coordinate_scale \<Rightarrow> nat \<Rightarrow> nat" where
  "scale_uniform_u32 D s v =
     scale_value D (fl_div D (fl_add D (sc_x s) (sc_y s)) (fl_literal D 2 1)) v"

definition roi_scaled :: "'d float_ops \<Rightarrow> 'd coordinate_scale \<Rightarrow> roi \<Rightarrow> roi" where
  "roi_scaled D s r =
     \<lparr>roi_x = scale_x_u32 D s (roi_x r), roi_y = scale_y_u32 D s (roi_y r),
      roi_w = max (scale_x_u32 D s (roi_w r)) 1, roi_h = max (scale_y_u32 D s (roi_h r)) 1\<rparr>"

section \<open>Radial cooldowns\<close>

datatype radial_cooldown_phase = Ready | Activated | Active | Recovering | Unknown
datatype radial_rule_metric = Average | BrightRatio
datatype radial_progress_fill = Empty | Fraction | Full

datatype 'f radial_sample_region =
    ClockProbe (cp_angle_deg: 'f) (cp_radius_px: nat) (cp_w: nat) (cp_h: nat)
  | AnnulusArc (aa_inner_radius_px: nat) (aa_outer_radius_px: nat) (aa_start_deg: 'f)
      (aa_end_deg: 'f)
  | is_AggregateMask: AggregateMask

record 'f radial_phase_rule =
  pr_phase :: radial_cooldown_phase
  pr_sample :: "'f radial_sample_region"
  pr_min_luminance_percent :: "nat option"
  pr_max_luminance_percent :: "nat option"
  pr_min_saturation :: "nat option"
  pr_max_saturation :: "nat option"
  pr_metric :: radial_rule_metric
  pr_metric_scale :: "'f option"
  pr_progress_fill :: radial_progress_fill
  pr_max_fill_until_ready :: "'f option"

record cooldown_prediction =
  cd_duration_ms :: nat
  cd_stable_after_ms :: nat

definition prediction_validate :: "cooldown_prediction \<Rightarrow> unit result" where
  "prediction_validate p =
     (if cd_duration_ms p = 0
      then validation_error ''radial_cooldown prediction duration_ms must be positive''
      else if cd_duration_ms p < cd_stable_after_ms p
      then validation_error ''radial_cooldown prediction stable_after_ms cannot exceed duration_ms''
      else Ok ())"

definition prediction_new :: "nat \<Rightarrow> nat \<Rightarrow> cooldown_prediction result" where
  "prediction_new duration stable_after =
     (let p = \<lparr>cd_duration_ms = duration, cd_stable_after_ms = stable_after\<rparr>
      in rbind (prediction_validate p) (\<lambda>_. Ok p))"

record 'f radial_cooldown_phases =
  ph_order :: "'f radial_phase_rule list"
  ph_fallback :: radial_cooldown_phase
  ph_prediction :: "cooldown_prediction option"

definition phases_new ::
  "'f radial_phase_rule list \<Rightarrow> radial_cooldown_phase \<Rightarrow> 'f radial_cooldown_phases result" where
  "phases_new order fallback =
     (if order = [] then validation_error ''radial_cooldown phases order cannot be empty''
      else if fallback \<noteq> Unknown
      then validation_error
        (''radial_cooldown phases fallback must be '' @ [CHR 0x22] @ ''unknown'' @ [CHR 0x22])
      else Ok \<lparr>ph_order = order, ph_fallback = fallback, ph_prediction = None\<rparr>)"

definition phases_with_prediction ::
  "'f radial_cooldown_phases \<Rightarrow> cooldown_prediction \<Rightarrow> 'f radial_cooldown_phases result" where
  "phases_with_prediction ph p =
     rbind (prediction_validate p) (\<lambda>_. Ok (ph\<lparr>ph_prediction := Some p\<rparr>))"

text \<open>The rules of \<open>refutation_default\<close>, in their order.\<close>

definition default_ready_rule :: "'f float_ops \<Rightarrow> 'f radial_phase_rule" where
  "default_ready_rule F =
     \<lparr>pr_phase = Ready, pr_sample = ClockProbe (fl_literal F 352 1) 15 3 3,
      pr_min_luminance_percent = Some 44, pr_max_luminance_percent = None,
      pr_min_saturation = Some 85, pr_max_saturation = None, pr_metric = Average,
      pr_metric_scale = None, pr_progress_fill = Full, pr_max_fill_until_ready = None\<rparr>"

definition default_activated_rule :: "'f float_ops \<Rightarrow> 'f radial_phase_rule" where
  "default_activated_rule F =
     \<lparr>pr_phase = Activated, pr_sample = ClockProbe (fl_literal F 8 1) 15 3 3,
      pr_min_luminance_percent = None, pr_max_luminance_percent = Some 12,
      pr_min_saturation = None, pr_max_saturation = Some 20, pr_metric = Average,
      pr_metric_scale = None, pr_progress_fill = Empty, pr_max_fill_until_ready = None\<rparr>"

definition default_active_rule :: "'f float_ops \<Rightarrow> 'f radial_phase_rule" where
  "default_active_rule F =
     \<lparr>pr_phase = Active, pr_sample = ClockProbe (fl_literal F 8 1) 15 3 3,
      pr_min_luminance_percent = None, pr_max_luminance_percent = Some 34,
      pr_min_saturation = None, pr_max_saturation = Some 75, pr_metric = Average,
      pr_metric_scale = None, pr_progress_fill = Empty, pr_max_fill_until_ready = None\<rparr>"

definition default_recovering_rule :: "'f float_ops \<Rightarrow> 'f radial_phase_rule" where
  "default_recovering_rule F =
     \<lparr>pr_phase = Recovering,
      pr_sample = AnnulusArc 13 17 (fl_literal F 20 1) (fl_literal F 340 1),
      pr_min_luminance_percent = Some 40, pr_max_luminance_percent = None,
      pr_min_saturation = Some 80, pr_max_saturation = None, pr_metric = BrightRatio,
      pr_metric_scale = Some (fl_literal F 3 2), pr_progress_fill = Fraction,
      pr_max_fill_until_ready = Some (fl_literal F 19 20)\<rparr>"

definition refutation_default :: "'f float_ops \<Rightarrow> 'f radial_cooldown_phases result" where
  "refutation_default F = phases_new
     [default_ready_rule F, default_activated_rule F, default_active_rule F,
      default_recovering_rule F] Unknown"

definition region_scaled ::
  "'d float_ops \<Rightarrow> 'd coordinate_scale \<Rightarrow> 'f radial_sample_region \<Rightarrow> 'f radial_sample_region" where
  "region_scaled D s region =
     (case region of
        ClockProbe angle radius w h \<Rightarrow>
          ClockProbe angle (max (scale_uniform_u32 D s radius) 1) (max (scale_x_u32 D s w) 1)
            (max (scale_y_u32 D s h) 1)
      | AnnulusArc inner outer start_deg end_deg \<Rightarrow>
          AnnulusArc (max (scale_uniform_u32 D s inner) 1) (max (scale_uniform_u32 D s outer) 1)
            start_deg end_deg
      | AggregateMask \<Rightarrow> AggregateMask)"

definition rule_scaled ::
  "'d float_ops \<Rightarrow> 'd coordinate_scale \<Rightarrow> 'f radial_phase_rule \<Rightarrow> 'f radial_phase_rule" where
  "rule_scaled D s r = r\<lparr>pr_sample := region_scaled D s (pr_sample r)\<rparr>"

definition phases_scaled ::
  "'d float_ops \<Rightarrow> 'd coordinate_scale \<Rightarrow> 'f radial_cooldown_phases \<Rightarrow> 'f radial_cooldown_phases" where
  "phases_scaled D s ph =
     \<lparr>ph_order = map (rule_scaled D s) (ph_order ph), ph_fallback = ph_fallback ph,
      ph_prediction = ph_prediction ph\<rparr>"

section \<open>Detectors\<close>

datatype progress_fill_direction = LeftToRight

text \<open>\<open>CircularMask\<close> is its inset.\<close>

type_synonym circular_mask = nat

datatype 'f detector_definition =
    RadialCooldown roi "circular_mask option" "'f radial_cooldown_phases"
  | HorizontalProgressBar roi progress_fill_direction

definition detector_kind :: "'f detector_definition \<Rightarrow> string" where
  "detector_kind d =
     (case d of
        RadialCooldown _ _ _ \<Rightarrow> ''radial_cooldown''
      | HorizontalProgressBar _ _ \<Rightarrow> ''horizontal_progress_bar'')"

definition detector_roi :: "'f detector_definition \<Rightarrow> roi" where
  "detector_roi d =
     (case d of RadialCooldown r _ _ \<Rightarrow> r | HorizontalProgressBar r _ \<Rightarrow> r)"

definition scaled_for_sample ::
  "'d float_ops \<Rightarrow> 'd coordinate_scale \<Rightarrow> 'f detector_definition \<Rightarrow> 'f detector_definition" where
  "scaled_for_sample D s d =
     (if scale_is_identity D s then d
      else case d of
             RadialCooldown r msk ph \<Rightarrow>
               RadialCooldown (roi_scaled D s r) (map_option (scale_uniform_u32 D s) msk)
                 (phases_scaled D s ph)
           | HorizontalProgressBar r dir \<Rightarrow> HorizontalProgressBar (roi_scaled D s r) dir)"

section \<open>Geometry of the sample regions\<close>

definition pixel_in_circular_mask :: "circular_mask option \<Rightarrow> roi \<Rightarrow> nat \<Rightarrow> nat \<Rightarrow> bool" where
  "pixel_in_circular_mask msk r x y =
     (case msk of
        None \<Rightarrow> True
      | Some m \<Rightarrow>
          let inset = min (min m (roi_w r div 2)) (roi_h r div 2);
              inner_w = roi_w r - inset * 2; inner_h = roi_h r - inset * 2
          in if inner_w = 0 \<or> inner_h = 0 then False
             else
               let dx2 = int (x - roi_x r) * 2 - int (roi_w r - 1);
                   dy2 = int (y - roi_y r) * 2 - int (roi_h r - 1);
                   rx2 = int inner_w; ry2 = int inner_h
               in (of_int (dx2 * dx2 * ry2 * ry2 + dy2 * dy2 * rx2 * rx2) :: 64 word)
                    \<le>s of_int (rx2 * rx2 * ry2 * ry2))"

text \<open>The \<open>i64\<close> products wrap, as in a release build; they are equal to those of the integers
  wrapped once.\<close>

definition clock_probe_rect ::
  "'f float_ops \<Rightarrow> roi \<Rightarrow> 'f \<Rightarrow> nat \<Rightarrow> nat \<Rightarrow> nat \<Rightarrow> (nat \<times> nat \<times> nat \<times> nat) option" where
  "clock_probe_rect F r angle_deg radius w h =
     (if radius = 0 \<or> w = 0 \<or> h = 0 \<or> \<not> fl_is_finite F angle_deg then None
      else
        let one = fl_literal F 1 1; two = fl_literal F 2 1;
            angle = fl_to_radians F angle_deg;
            half = (\<lambda>n. fl_div F (fl_sub F (fl_of_nat F n) one) two);
            center_x = fl_add F (fl_of_nat F (roi_x r)) (half (roi_w r));
            center_y = fl_add F (fl_of_nat F (roi_y r)) (half (roi_h r));
            probe_x = fl_add F center_x (fl_mul F (fl_sin F angle) (fl_of_nat F radius));
            probe_y = fl_sub F center_y (fl_mul F (fl_cos F angle) (fl_of_nat F radius));
            left = cast_i64 F (fl_round F (fl_sub F probe_x (half w)));
            upper = cast_i64 F (fl_round F (fl_sub F probe_y (half h)));
            right = left + int w; lower = upper + int h
        in case u32_checked_add (roi_x r) (roi_w r) of
             None \<Rightarrow> None
           | Some roi_right \<Rightarrow>
               (case u32_checked_add (roi_y r) (roi_h r) of
                  None \<Rightarrow> None
                | Some roi_bottom \<Rightarrow>
                    if left < int (roi_x r) \<or> upper < int (roi_y r) \<or> int roi_right < right
                       \<or> int roi_bottom < lower
                    then None
                    else Some (nat left, nat upper, nat right, nat lower)))"

definition local_center_delta :: "'f float_ops \<Rightarrow> roi \<Rightarrow> nat \<Rightarrow> nat \<Rightarrow> 'f \<times> 'f" where
  "local_center_delta F r x y =
     (let half = (\<lambda>n. fl_div F (fl_sub F (fl_of_nat F n) (fl_literal F 1 1)) (fl_literal F 2 1));
          center_x = fl_add F (fl_of_nat F (roi_x r)) (half (roi_w r));
          center_y = fl_add F (fl_of_nat F (roi_y r)) (half (roi_h r))
      in (fl_sub F (fl_of_nat F x) center_x, fl_sub F (fl_of_nat F y) center_y))"

definition clock_degrees :: "'f float_ops \<Rightarrow> 'f \<Rightarrow> 'f \<Rightarrow> 'f" where
  "clock_degrees F dx dy =
     (let degrees = fl_to_degrees F (fl_atan2 F dx (fl_neg F dy))
      in if fl_less F degrees (fl_literal F 0 1) then fl_add F degrees (fl_literal F 360 1)
         else degrees)"

definition normalize_degrees :: "'f float_ops \<Rightarrow> 'f \<Rightarrow> 'f" where
  "normalize_degrees F v = fl_rem_euclid F v (fl_literal F 360 1)"

definition angle_in_clock_arc :: "'f float_ops \<Rightarrow> 'f \<Rightarrow> 'f \<Rightarrow> 'f \<Rightarrow> bool" where
  "angle_in_clock_arc F angle start_deg end_deg =
     (let a = normalize_degrees F angle; s = normalize_degrees F start_deg;
          e = normalize_degrees F end_deg
      in if fl_le F s e then fl_le F s a \<and> fl_le F a e else fl_le F s a \<or> fl_le F a e)"

definition pixel_in_sample_region ::
  "'f float_ops \<Rightarrow> 'f radial_sample_region \<Rightarrow> roi \<Rightarrow> nat \<Rightarrow> nat \<Rightarrow> bool" where
  "pixel_in_sample_region F region r x y =
     (case region of
        ClockProbe angle radius w h \<Rightarrow>
          (case clock_probe_rect F r angle radius w h of
             None \<Rightarrow> False
           | Some (left, upper, right, lower) \<Rightarrow> left \<le> x \<and> x < right \<and> upper \<le> y \<and> y < lower)
      | AnnulusArc inner outer start_deg end_deg \<Rightarrow>
          (case local_center_delta F r x y of
             (dx, dy) \<Rightarrow>
               let distance = fl_sqrt F (fl_add F (fl_mul F dx dx) (fl_mul F dy dy))
               in if fl_less F distance (fl_of_nat F inner) \<or> fl_less F (fl_of_nat F outer) distance
                  then False
                  else angle_in_clock_arc F (clock_degrees F dx dy) start_deg end_deg)
      | AggregateMask \<Rightarrow> True)"

section \<open>Checks of the rules\<close>

definition validate_luminance_threshold :: "nat \<Rightarrow> unit result" where
  "validate_luminance_threshold v =
     (if v \<le> 100 then Ok ()
      else validation_error ''radial_cooldown luminance threshold must be between 0 and 100'')"

definition validate_saturation_threshold :: "nat \<Rightarrow> unit result" where
  "validate_saturation_threshold v = Ok ()"

definition check_option :: "('a \<Rightarrow> unit result) \<Rightarrow> 'a option \<Rightarrow> unit result" where
  "check_option f v = (case v of None \<Rightarrow> Ok () | Some a \<Rightarrow> f a)"

definition region_validate_for_roi ::
  "'f float_ops \<Rightarrow> 'f radial_sample_region \<Rightarrow> roi \<Rightarrow> unit result" where
  "region_validate_for_roi F region r =
     (case region of
        ClockProbe angle radius w h \<Rightarrow>
          if \<not> fl_is_finite F angle then validation_error ''clock_probe angle_deg must be finite''
          else if radius = 0 \<or> w = 0 \<or> h = 0
          then validation_error ''clock_probe radius_px, w, and h must be positive''
          else if clock_probe_rect F r angle radius w h = None
          then validation_error ''clock_probe must fit inside the radial_cooldown ROI''
          else Ok ()
      | AnnulusArc inner outer start_deg end_deg \<Rightarrow>
          if outer \<le> inner
          then validation_error ''annulus_arc inner_radius_px must be less than outer_radius_px''
          else if \<not> fl_is_finite F start_deg \<or> \<not> fl_is_finite F end_deg
          then validation_error ''annulus_arc start_deg and end_deg must be finite''
          else if fl_less F (fl_div F (fl_of_nat F (min (roi_w r) (roi_h r))) (fl_literal F 2 1))
                    (fl_of_nat F outer)
          then validation_error
            ''annulus_arc outer_radius_px must fit inside the radial_cooldown ROI''
          else Ok ()
      | AggregateMask \<Rightarrow> Ok ())"

definition rule_validate_for_roi ::
  "'f float_ops \<Rightarrow> 'f radial_phase_rule \<Rightarrow> roi \<Rightarrow> unit result" where
  "rule_validate_for_roi F rule r =
     rbind (check_option validate_luminance_threshold (pr_min_luminance_percent rule)) (\<lambda>_.
     rbind (check_option validate_luminance_threshold (pr_max_luminance_percent rule)) (\<lambda>_.
     rbind (check_option validate_saturation_threshold (pr_min_saturation rule)) (\<lambda>_.
     rbind (check_option validate_saturation_threshold (pr_max_saturation rule)) (\<lambda>_.
     rbind (check_option (\<lambda>s. if \<not> fl_is_finite F s \<or> fl_le F s (fl_literal F 0 1)
                then validation_error ''radial_cooldown phase metric_scale must be positive''
                else Ok ()) (pr_metric_scale rule)) (\<lambda>_.
       region_validate_for_roi F (pr_sample rule) r)))))"

fun rules_validate_for_roi ::
  "'f float_ops \<Rightarrow> 'f radial_phase_rule list \<Rightarrow> roi \<Rightarrow> unit result" where
  "rules_validate_for_roi F [] r = Ok ()"
| "rules_validate_for_roi F (rule # rules) r =
     rbind (rule_validate_for_roi F rule r) (\<lambda>_. rules_validate_for_roi F rules r)"

definition phases_validate_for_roi ::
  "'f float_ops \<Rightarrow> 'f radial_cooldown_phases \<Rightarrow> roi \<Rightarrow> unit result" where
  "phases_validate_for_roi F ph r = rules_validate_for_roi F (ph_order ph) r"

section \<open>Samples\<close>

datatype screen_pixel_format =
  Luma8 | Rgb888 | Bgr888 | Rgba8888 | Bgra8888 | Rgbx8888 | Bgrx8888

fun bytes_per_pixel :: "screen_pixel_format \<Rightarrow> nat" where
  "bytes_per_pixel Luma8 = 1"
| "bytes_per_pixel Rgb888 = 3"
| "bytes_per_pixel Bgr888 = 3"
| "bytes_per_pixel _ = 4"

type_synonym u8 = "8 word"

record screen_sample =
  ss_width :: nat
  ss_height :: nat
  ss_stride :: nat
  ss_pixel_format :: screen_pixel_format
  ss_captured_at_ms :: nat
  ss_pixels :: "u8 list"

text \<open>\<open>pixels.len() as u32\<close> keeps the low 32 bits.\<close>

definition screen_sample_new :: "nat \<Rightarrow> u8 list \<Rightarrow> screen_sample" where
  "screen_sample_new captured_at_ms pixels =
     (let n = length pixels mod (u32_max + 1)
      in \<lparr>ss_width = n, ss_height = (if pixels = [] then 0 else 1), ss_stride = n,
          ss_pixel_format = Luma8, ss_captured_at_ms = captured_at_ms, ss_pixels = pixels\<rparr>)"

definition from_pixels ::
  "nat \<Rightarrow> nat \<Rightarrow> nat \<Rightarrow> screen_pixel_format \<Rightarrow> nat \<Rightarrow> u8 list \<Rightarrow> screen_sample" where
  "from_pixels width height stride format captured_at_ms pixels =
     \<lparr>ss_width = width, ss_height = height, ss_stride = stride, ss_pixel_format = format,
      ss_captured_at_ms = captured_at_ms, ss_pixels = pixels\<rparr>"

definition synthetic_percent :: "nat \<Rightarrow> u8 \<Rightarrow> screen_sample" where
  "synthetic_percent captured_at_ms percent = screen_sample_new captured_at_ms [min percent 100]"

record screen_pixel_color =
  px_r :: u8
  px_g :: u8
  px_b :: u8
  px_a :: u8

definition color_rgb :: "u8 \<Rightarrow> u8 \<Rightarrow> u8 \<Rightarrow> screen_pixel_color" where
  "color_rgb r g b = \<lparr>px_r = r, px_g = g, px_b = b, px_a = 255\<rparr>"

definition color_rgba :: "u8 \<Rightarrow> u8 \<Rightarrow> u8 \<Rightarrow> u8 \<Rightarrow> screen_pixel_color" where
  "color_rgba r g b a = \<lparr>px_r = r, px_g = g, px_b = b, px_a = a\<rparr>"

text \<open>\<open>pixels.get(offset..offset + bytes_per_pixel)\<close> of a pixel.\<close>

definition pixel_bytes :: "screen_sample \<Rightarrow> nat \<Rightarrow> nat \<Rightarrow> u8 list option" where
  "pixel_bytes s x y =
     (let bpp = bytes_per_pixel (ss_pixel_format s); offset = y * ss_stride s + x * bpp
      in if offset + bpp \<le> length (ss_pixels s)
         then Some (take bpp (drop offset (ss_pixels s))) else None)"

definition pixel_color :: "screen_sample \<Rightarrow> nat \<Rightarrow> nat \<Rightarrow> screen_pixel_color option" where
  "pixel_color s x y =
     (if ss_width s \<le> x \<or> ss_height s \<le> y then None
      else if ss_stride s < ss_width s * bytes_per_pixel (ss_pixel_format s) then None
      else map_option (\<lambda>p. case ss_pixel_format s of
             Luma8 \<Rightarrow> color_rgb (p ! 0) (p ! 0) (p ! 0)
           | Rgb888 \<Rightarrow> color_rgb (p ! 0) (p ! 1) (p ! 2)
           | Rgbx8888 \<Rightarrow> color_rgb (p ! 0) (p ! 1) (p ! 2)
           | Bgr888 \<Rightarrow> color_rgb (p ! 2) (p ! 1) (p ! 0)
           | Bgrx8888 \<Rightarrow> color_rgb (p ! 2) (p ! 1) (p ! 0)
           | Rgba8888 \<Rightarrow> color_rgba (p ! 0) (p ! 1) (p ! 2) (p ! 3)
           | Bgra8888 \<Rightarrow> color_rgba (p ! 2) (p ! 1) (p ! 0) (p ! 3)) (pixel_bytes s x y))"

definition pixel_rgb :: "u8 list \<Rightarrow> screen_pixel_format \<Rightarrow> (u8 \<times> u8 \<times> u8) option" where
  "pixel_rgb p format =
     (if format = Luma8 then (case p of [] \<Rightarrow> None | v # _ \<Rightarrow> Some (v, v, v))
      else if format \<in> {Rgb888, Rgba8888, Rgbx8888} then Some (p ! 0, p ! 1, p ! 2)
      else Some (p ! 2, p ! 1, p ! 0))"

definition rgb_luminance :: "u8 \<Rightarrow> u8 \<Rightarrow> u8 \<Rightarrow> nat" where
  "rgb_luminance r g b = (unat r * 299 + unat g * 587 + unat b * 114) div 1000"

definition rgb_saturation :: "u8 \<Rightarrow> u8 \<Rightarrow> u8 \<Rightarrow> nat" where
  "rgb_saturation r g b = unat (max (max r g) b - min (min r g) b)"

definition luminance_percent :: "screen_pixel_format \<Rightarrow> nat \<Rightarrow> nat" where
  "luminance_percent format l = (if format = Luma8 then min l 100 else min (l * 100 div 255) 100)"

definition pixel_percent :: "u8 list \<Rightarrow> screen_pixel_format \<Rightarrow> nat option" where
  "pixel_percent p format =
     map_option (\<lambda>(r, g, b). luminance_percent format (rgb_luminance r g b)) (pixel_rgb p format)"

definition horizontal_progress_pixel_filled ::
  "u8 list \<Rightarrow> screen_pixel_format \<Rightarrow> bool option" where
  "horizontal_progress_pixel_filled p format =
     map_option (\<lambda>(r, g, b).
       let l = rgb_luminance r g b; warm_bias = (unat r + unat g) div 2 - unat b
       in 220 \<le> l \<or> (35 < l \<and> 8 < warm_bias)) (pixel_rgb p format)"

definition confidence_for_sample :: "screen_sample \<Rightarrow> nat" where
  "confidence_for_sample s =
     (if ss_pixels s = [] then 0
      else if ss_pixel_format s = Luma8 \<and> length (ss_pixels s) = 1 then 90 else 95)"

end
