(* ===== verification/Trackers.thy ===== *)
theory Trackers imports Screens Capabilities begin

text \<open>
  The second half of \<open>signal-auras-core/src/screen_state.rs\<close>: what a sample shows of a radial
  cooldown or a progress bar, the history that estimates and predicts its duration, the set of
  tracker definitions, and the poller that reads the screen for the trackers that are due. The
  lemmas bound every value a tracker reports and say what one poll does to each tracker.
\<close>

section \<open>What a sample shows\<close>

fun foldo :: "('a \<Rightarrow> 'b \<Rightarrow> 'a option) \<Rightarrow> 'a \<Rightarrow> 'b list \<Rightarrow> 'a option" where
  "foldo f a [] = Some a"
| "foldo f a (x # xs) = Option.bind (f a x) (\<lambda>a'. foldo f a' xs)"

text \<open>The checks before the loops over the pixels of a region, and the pixels in their order.\<close>

definition sample_window :: "screen_sample \<Rightarrow> roi \<Rightarrow> (nat \<times> nat) option" where
  "sample_window s r =
     (if ss_pixels s = [] \<or> ss_width s = 0 \<or> ss_height s = 0 then None
      else Option.bind (u32_checked_add (roi_x r) (roi_w r)) (\<lambda>x_end.
           Option.bind (u32_checked_add (roi_y r) (roi_h r)) (\<lambda>y_end.
             if ss_width s < x_end \<or> ss_height s < y_end then None
             else if ss_stride s < ss_width s * bytes_per_pixel (ss_pixel_format s) then None
             else Some (x_end, y_end))))"

definition window_pixels :: "roi \<Rightarrow> nat \<times> nat \<Rightarrow> (nat \<times> nat) list" where
  "window_pixels r window =
     (case window of (x_end, y_end) \<Rightarrow>
        concat (map (\<lambda>y. map (\<lambda>x. (x, y)) [roi_x r..<x_end]) [roi_y r..<y_end]))"

definition default_roi :: "screen_sample \<Rightarrow> roi" where
  "default_roi s = \<lparr>roi_x = 0, roi_y = 0, roi_w = ss_width s, roi_h = ss_height s\<rparr>"

definition observed_roi :: "screen_sample \<Rightarrow> 'f detector_definition option \<Rightarrow> roi" where
  "observed_roi s detector =
     (case detector of None \<Rightarrow> default_roi s | Some d \<Rightarrow> detector_roi d)"

definition pixel_in_detector_mask ::
  "'f detector_definition option \<Rightarrow> roi \<Rightarrow> nat \<Rightarrow> nat \<Rightarrow> bool" where
  "pixel_in_detector_mask detector r x y =
     (case detector of
        Some (RadialCooldown _ (Some m) _) \<Rightarrow> pixel_in_circular_mask (Some m) r x y
      | _ \<Rightarrow> True)"

record radial_pixel_stats =
  rp_luminance_percent :: nat
  rp_saturation :: nat
  rp_bright_ratio_percent :: nat

definition add_stats_pixel ::
  "screen_sample \<Rightarrow> 'f detector_definition option \<Rightarrow> roi \<Rightarrow> nat \<times> nat \<times> nat \<Rightarrow> nat \<times> nat
   \<Rightarrow> (nat \<times> nat \<times> nat) option" where
  "add_stats_pixel s detector r acc p =
     (case acc of (l, sat, n) \<Rightarrow> case p of (x, y) \<Rightarrow>
        if \<not> pixel_in_detector_mask detector r x y then Some acc
        else Option.bind (pixel_bytes s x y) (\<lambda>bytes.
             Option.bind (pixel_rgb bytes (ss_pixel_format s)) (\<lambda>(cr, cg, cb).
               Some (u64_saturating_add l (rgb_luminance cr cg cb),
                     u64_saturating_add sat (rgb_saturation cr cg cb), n + 1))))"

definition observed_radial_stats ::
  "screen_sample \<Rightarrow> 'f detector_definition option \<Rightarrow> radial_pixel_stats option" where
  "observed_radial_stats s detector =
     (let r = observed_roi s detector
      in Option.bind (sample_window s r) (\<lambda>window.
         Option.bind (foldo (add_stats_pixel s detector r) (0, 0, 0) (window_pixels r window))
           (\<lambda>(l, sat, n).
              if n = 0 then None
              else Some \<lparr>rp_luminance_percent = luminance_percent (ss_pixel_format s) (l div n),
                         rp_saturation = min (sat div n) 255, rp_bright_ratio_percent = 0\<rparr>)))"

definition at_least :: "nat option \<Rightarrow> nat \<Rightarrow> bool" where
  "at_least minimum v = (case minimum of None \<Rightarrow> True | Some m \<Rightarrow> m \<le> v)"

definition at_most_opt :: "nat option \<Rightarrow> nat \<Rightarrow> bool" where
  "at_most_opt maximum v = (case maximum of None \<Rightarrow> True | Some m \<Rightarrow> v \<le> m)"

definition add_rule_pixel ::
  "'f float_ops \<Rightarrow> screen_sample \<Rightarrow> roi \<Rightarrow> circular_mask option \<Rightarrow> 'f radial_phase_rule
   \<Rightarrow> nat \<times> nat \<times> nat \<times> nat \<Rightarrow> nat \<times> nat \<Rightarrow> (nat \<times> nat \<times> nat \<times> nat) option" where
  "add_rule_pixel F s r msk rule acc p =
     (case acc of (l, sat, bright, n) \<Rightarrow> case p of (x, y) \<Rightarrow>
        if \<not> pixel_in_sample_region F (pr_sample rule) r x y then Some acc
        else if is_AggregateMask (pr_sample rule) \<and> \<not> pixel_in_circular_mask msk r x y then Some acc
        else Option.bind (pixel_bytes s x y) (\<lambda>bytes.
             Option.bind (pixel_rgb bytes (ss_pixel_format s)) (\<lambda>(cr, cg, cb).
               let lum = luminance_percent (ss_pixel_format s) (rgb_luminance cr cg cb);
                   satur = rgb_saturation cr cg cb;
                   bright_enough = pr_metric rule = BrightRatio
                     \<and> at_least (pr_min_luminance_percent rule) lum
                     \<and> at_least (pr_min_saturation rule) satur
               in Some (u64_saturating_add l lum, u64_saturating_add sat satur,
                        (if bright_enough then bright + 1 else bright), n + 1))))"

definition observed_radial_rule_stats ::
  "'f float_ops \<Rightarrow> screen_sample \<Rightarrow> roi \<Rightarrow> circular_mask option \<Rightarrow> 'f radial_phase_rule
   \<Rightarrow> radial_pixel_stats option" where
  "observed_radial_rule_stats F s r msk rule =
     Option.bind (sample_window s r) (\<lambda>window.
     Option.bind (foldo (add_rule_pixel F s r msk rule) (0, 0, 0, 0) (window_pixels r window))
       (\<lambda>(l, sat, bright, n).
          if n = 0 then None
          else Some \<lparr>rp_luminance_percent = min (l div n) 100, rp_saturation = min (sat div n) 255,
                     rp_bright_ratio_percent = min (bright * 100 div n) 100\<rparr>))"

definition radial_rule_matches :: "'f radial_phase_rule \<Rightarrow> radial_pixel_stats \<Rightarrow> bool" where
  "radial_rule_matches rule st =
     (if pr_metric rule = BrightRatio then 0 < rp_bright_ratio_percent st
      else at_least (pr_min_luminance_percent rule) (rp_luminance_percent st)
         \<and> at_most_opt (pr_max_luminance_percent rule) (rp_luminance_percent st)
         \<and> at_least (pr_min_saturation rule) (rp_saturation st)
         \<and> at_most_opt (pr_max_saturation rule) (rp_saturation st))"

definition cooldown_fraction_for_rule ::
  "'f float_ops \<Rightarrow> 'f radial_phase_rule \<Rightarrow> radial_pixel_stats \<Rightarrow> nat" where
  "cooldown_fraction_for_rule F rule st =
     (case pr_progress_fill rule of
        Empty \<Rightarrow> 100
      | Full \<Rightarrow> 0
      | Fraction \<Rightarrow>
          let factor = (case pr_metric_scale rule of None \<Rightarrow> fl_literal F 1 1 | Some v \<Rightarrow> v);
              fill = min (cast_u8 F (fl_round F
                (fl_mul F (fl_of_nat F (min (rp_bright_ratio_percent st) 100)) factor))) 100;
              fill' = (case pr_max_fill_until_ready rule of
                None \<Rightarrow> fill
              | Some max_fill \<Rightarrow> min fill (cast_u8 F (fl_floor F
                  (fl_mul F (fl_clamp F (fl_literal F 0 1) (fl_literal F 1 1) max_fill)
                    (fl_literal F 100 1)))))
          in 100 - fill')"

record radial_observation =
  ro_cooldown_fraction :: nat
  ro_phase :: radial_cooldown_phase

fun observe_rules ::
  "'f float_ops \<Rightarrow> screen_sample \<Rightarrow> roi \<Rightarrow> circular_mask option \<Rightarrow> radial_cooldown_phase
   \<Rightarrow> 'f radial_phase_rule list \<Rightarrow> radial_observation option" where
  "observe_rules F s r msk fallback [] =
     Some \<lparr>ro_cooldown_fraction = 100, ro_phase = fallback\<rparr>"
| "observe_rules F s r msk fallback (rule # rules) =
     Option.bind (observed_radial_rule_stats F s r msk rule) (\<lambda>st.
       if radial_rule_matches rule st
       then Some \<lparr>ro_cooldown_fraction = cooldown_fraction_for_rule F rule st,
                  ro_phase = pr_phase rule\<rparr>
       else observe_rules F s r msk fallback rules)"

definition observe_configured_radial_cooldown ::
  "'f float_ops \<Rightarrow> screen_sample \<Rightarrow> roi \<Rightarrow> circular_mask option \<Rightarrow> 'f radial_cooldown_phases
   \<Rightarrow> radial_observation option" where
  "observe_configured_radial_cooldown F s r msk ph =
     observe_rules F s r msk (ph_fallback ph) (ph_order ph)"

definition classify_grayscale_radial_observation :: "nat \<Rightarrow> radial_observation" where
  "classify_grayscale_radial_observation observed =
     (if 40 \<le> observed then \<lparr>ro_cooldown_fraction = 0, ro_phase = Ready\<rparr>
      else if observed \<le> 10 then \<lparr>ro_cooldown_fraction = 100, ro_phase = Activated\<rparr>
      else \<lparr>ro_cooldown_fraction = min ((40 - observed) * 100 div (40 - 10)) 100,
            ro_phase = Active\<rparr>)"

definition add_percent_pixel ::
  "screen_sample \<Rightarrow> 'f detector_definition option \<Rightarrow> roi \<Rightarrow> nat \<times> nat \<times> nat \<Rightarrow> nat \<times> nat
   \<Rightarrow> (nat \<times> nat \<times> nat) option" where
  "add_percent_pixel s detector r acc p =
     (case acc of (level, filled, n) \<Rightarrow> case p of (x, y) \<Rightarrow>
        if \<not> pixel_in_detector_mask detector r x y then Some acc
        else Option.bind (pixel_bytes s x y) (\<lambda>bytes.
          if ss_pixel_format s = Luma8
          then Option.bind (pixel_percent bytes (ss_pixel_format s)) (\<lambda>v.
                 Some (u64_saturating_add level v, filled, n + 1))
          else Option.bind (horizontal_progress_pixel_filled bytes (ss_pixel_format s)) (\<lambda>b.
                 Some (level, (if b then filled + 1 else filled), n + 1))))"

definition observed_percent ::
  "screen_sample \<Rightarrow> 'f detector_definition option \<Rightarrow> nat option" where
  "observed_percent s detector =
     (let r = observed_roi s detector
      in Option.bind (sample_window s r) (\<lambda>window.
         Option.bind (foldo (add_percent_pixel s detector r) (0, 0, 0) (window_pixels r window))
           (\<lambda>(level, filled, n).
              if n = 0 then None
              else if ss_pixel_format s = Luma8 then Some (min (level div n) 100)
              else Some (min (filled * 100 div n) 100))))"

definition observe_radial_cooldown ::
  "'f float_ops \<Rightarrow> screen_sample \<Rightarrow> 'f detector_definition option \<Rightarrow> radial_observation option" where
  "observe_radial_cooldown F s detector =
     (if ss_pixel_format s = Luma8 \<and> length (ss_pixels s) = 1
      then map_option (\<lambda>v. let fraction = min v 100
             in \<lparr>ro_cooldown_fraction = fraction,
                 ro_phase = (if fraction \<le> 2 then Ready
                             else if 98 \<le> fraction then Activated else Active)\<rparr>)
             (observed_percent s detector)
      else case detector of
             Some (RadialCooldown r msk ph) \<Rightarrow> observe_configured_radial_cooldown F s r msk ph
           | _ \<Rightarrow> map_option (\<lambda>st. classify_grayscale_radial_observation (rp_luminance_percent st))
                    (observed_radial_stats s detector))"

section \<open>Tracker states\<close>

record radial_state =
  rd_phase :: radial_cooldown_phase
  rd_ready :: bool
  rd_cooldown_fraction :: nat
  rd_remaining_ms :: "nat option"
  rd_total_estimated_ms :: "nat option"
  rd_predicted_remaining_ms :: "nat option"
  rd_predicted_duration_ms :: "nat option"
  rd_confidence :: nat
  rd_freshness_ms :: nat

record progress_state =
  pg_visible :: bool
  pg_progress_percent :: nat
  pg_confidence :: nat
  pg_freshness_ms :: nat

datatype tracker_inactive_reason =
  ScreenReadDenied | ScreenReadUnsupported | FocusInactive | ConditionInactive | NoReadableSample

record inactive_state =
  in_reason :: tracker_inactive_reason
  in_confidence :: nat
  in_freshness_ms :: nat

datatype tracker_state =
  RadialState radial_state | ProgressState progress_state | InactiveState inactive_state

definition inactive_because :: "tracker_inactive_reason \<Rightarrow> tracker_state" where
  "inactive_because reason =
     InactiveState \<lparr>in_reason = reason, in_confidence = 0, in_freshness_ms = 0\<rparr>"

definition tracker_confidence :: "tracker_state \<Rightarrow> nat" where
  "tracker_confidence st =
     (case st of RadialState r \<Rightarrow> rd_confidence r | ProgressState p \<Rightarrow> pg_confidence p
      | InactiveState i \<Rightarrow> in_confidence i)"

section \<open>The history of a cooldown\<close>

record cooldown_observation =
  co_at_ms :: nat
  co_fraction :: nat

record cooldown_history =
  ch_observations :: "cooldown_observation list"
  ch_last_total_estimate_ms :: "nat option"
  ch_last_phase :: "radial_cooldown_phase option"
  ch_active_started_at_ms :: "nat option"

definition history_default :: cooldown_history where
  "history_default =
     \<lparr>ch_observations = [], ch_last_total_estimate_ms = None, ch_last_phase = None,
      ch_active_started_at_ms = None\<rparr>"

definition history_push :: "nat \<Rightarrow> nat \<Rightarrow> cooldown_history \<Rightarrow> cooldown_history" where
  "history_push at_ms fraction h =
     (let obs = ch_observations h @ [\<lparr>co_at_ms = at_ms, co_fraction = fraction\<rparr>]
      in h\<lparr>ch_observations := (if 16 < length obs then remove_at 0 obs else obs)\<rparr>)"

definition observe_phase ::
  "nat \<Rightarrow> radial_cooldown_phase \<Rightarrow> cooldown_history \<Rightarrow> cooldown_history" where
  "observe_phase at_ms phase h =
     h\<lparr>ch_active_started_at_ms :=
         (if phase = Active
          then (if ch_last_phase h \<noteq> Some Active then Some at_ms else ch_active_started_at_ms h)
          else None),
       ch_last_phase := Some phase\<rparr>"

definition last_option :: "'a list \<Rightarrow> 'a option" where
  "last_option xs = (if xs = [] then None else Some (List.last xs))"

definition estimate_total_ms :: "cooldown_history \<Rightarrow> cooldown_history \<times> nat option" where
  "estimate_total_ms h =
     (case last_option (ch_observations h) of
        None \<Rightarrow> (h, None)
      | Some latest \<Rightarrow>
          (case List.find (\<lambda>ob. co_fraction latest < co_fraction ob) (ch_observations h) of
             None \<Rightarrow> (h, None)
           | Some earliest \<Rightarrow>
               (case checked_sub (co_at_ms latest) (co_at_ms earliest) of
                  None \<Rightarrow> (h, None)
                | Some elapsed \<Rightarrow>
                    let progressed = co_fraction earliest - co_fraction latest
                    in if elapsed = 0 \<or> progressed = 0 then (h, ch_last_total_estimate_ms h)
                       else let estimate = u64_saturating_mul elapsed 100 div progressed
                            in (h\<lparr>ch_last_total_estimate_ms := Some estimate\<rparr>, Some estimate))))"

definition predicted_remaining_ms ::
  "cooldown_history \<Rightarrow> nat \<Rightarrow> cooldown_prediction option \<Rightarrow> nat option" where
  "predicted_remaining_ms h now_ms prediction =
     Option.bind prediction (\<lambda>p.
     Option.bind (ch_active_started_at_ms h) (\<lambda>started.
     Option.bind (checked_sub now_ms started) (\<lambda>elapsed.
       if elapsed < cd_stable_after_ms p \<or> cd_duration_ms p < elapsed then None
       else Some (cd_duration_ms p - elapsed))))"

definition detect_radial_cooldown_with_roi ::
  "'f float_ops \<Rightarrow> screen_sample \<Rightarrow> 'f detector_definition option \<Rightarrow> cooldown_history
   \<Rightarrow> cooldown_history \<times> tracker_state" where
  "detect_radial_cooldown_with_roi F s detector h =
     (case observe_radial_cooldown F s detector of
        None \<Rightarrow> (h, inactive_because NoReadableSample)
      | Some ob \<Rightarrow>
          let phase = ro_phase ob; fraction = min (ro_cooldown_fraction ob) 100;
              h1 = history_push (ss_captured_at_ms s) fraction
                     (observe_phase (ss_captured_at_ms s) phase h);
              (h2, est) = estimate_total_ms h1;
              prediction = (case detector of
                Some (RadialCooldown _ _ ph) \<Rightarrow> ph_prediction ph | _ \<Rightarrow> None);
              predicted = (if phase = Active
                then predicted_remaining_ms h2 (ss_captured_at_ms s) prediction else None);
              ready = (phase = Ready)
          in (h2, RadialState
                \<lparr>rd_phase = phase, rd_ready = ready,
                 rd_cooldown_fraction = (if ready then 0 else fraction),
                 rd_remaining_ms = (if ready then Some 0 else if phase = Unknown then None
                   else map_option (\<lambda>t. u64_saturating_mul t fraction div 100) est),
                 rd_total_estimated_ms = est, rd_predicted_remaining_ms = predicted,
                 rd_predicted_duration_ms =
                   Option.bind predicted (\<lambda>_. map_option cd_duration_ms prediction),
                 rd_confidence = confidence_for_sample s, rd_freshness_ms = 0\<rparr>))"

definition detect_radial_cooldown ::
  "'f float_ops \<Rightarrow> screen_sample \<Rightarrow> cooldown_history \<Rightarrow> cooldown_history \<times> tracker_state" where
  "detect_radial_cooldown F s h = detect_radial_cooldown_with_roi F s None h"

definition detect_horizontal_progress_bar_with_roi ::
  "screen_sample \<Rightarrow> 'f detector_definition option \<Rightarrow> tracker_state" where
  "detect_horizontal_progress_bar_with_roi s detector =
     (case observed_percent s detector of
        None \<Rightarrow> ProgressState \<lparr>pg_visible = False, pg_progress_percent = 0, pg_confidence = 0,
                  pg_freshness_ms = 0\<rparr>
      | Some progress \<Rightarrow> ProgressState
          \<lparr>pg_visible = (50 \<le> confidence_for_sample s), pg_progress_percent = min progress 100,
           pg_confidence = confidence_for_sample s, pg_freshness_ms = 0\<rparr>)"

section \<open>Tracker definitions\<close>

record tracker_condition =
  tc_tracker_id :: string
  tc_phase :: radial_cooldown_phase

definition condition_radial_phase ::
  "string \<Rightarrow> radial_cooldown_phase \<Rightarrow> tracker_condition result" where
  "condition_radial_phase tracker_id phase =
     (if trim tracker_id = [] then validation_error ''state tracker condition tracker cannot be empty''
      else Ok \<lparr>tc_tracker_id = trim tracker_id, tc_phase = phase\<rparr>)"

type_synonym tracker_states = "(string \<times> tracker_state) list"

definition condition_matches :: "tracker_condition \<Rightarrow> tracker_states \<Rightarrow> bool" where
  "condition_matches c states =
     (case bm_get states (tc_tracker_id c) of
        Some (RadialState r) \<Rightarrow> rd_phase r = tc_phase c
      | _ \<Rightarrow> False)"

record 'f tracker_definition =
  td_id :: string
  td_scope :: scope_selection
  td_capabilities :: capability_set
  td_poll_ms :: nat
  td_detector :: "'f detector_definition"
  td_condition :: "tracker_condition option"

definition tracker_definition_new ::
  "string \<Rightarrow> scope_selection \<Rightarrow> capability_set \<Rightarrow> nat \<Rightarrow> 'f detector_definition
   \<Rightarrow> 'f tracker_definition result" where
  "tracker_definition_new i scope capabilities poll_ms detector =
     (if trim i = [] then validation_error ''state tracker id cannot be empty''
      else if poll_ms = 0 then validation_error ''state tracker poll_ms must be positive''
      else if \<not> capability_set_contains capabilities ScreenRead
      then validation_error ''state tracker requires screen_read capability''
      else Ok \<lparr>td_id = trim i, td_scope = scope, td_capabilities = capabilities,
               td_poll_ms = poll_ms, td_detector = detector, td_condition = None\<rparr>)"

definition only_when :: "'f tracker_definition \<Rightarrow> tracker_condition \<Rightarrow> 'f tracker_definition" where
  "only_when t c = t\<lparr>td_condition := Some c\<rparr>"

definition scope_needs_metadata :: "scope_selection \<Rightarrow> bool" where
  "scope_needs_metadata s = (case s of ProcessList _ \<Rightarrow> True | ExplicitGlobal \<Rightarrow> False)"

definition tracker_required :: "'f tracker_definition \<Rightarrow> capability_set" where
  "tracker_required t = capability_set_new
     (td_capabilities t @ (if scope_needs_metadata (td_scope t) then [ActiveProcessMetadata] else []))"

record 'f tracker_set =
  tk_trackers :: "'f tracker_definition list"
  tk_required :: capability_set

fun check_tracker_ids :: "string list \<Rightarrow> 'f tracker_definition list \<Rightarrow> unit result" where
  "check_tracker_ids seen [] = Ok ()"
| "check_tracker_ids seen (t # ts) =
     (if td_id t \<in> set seen
      then validation_error (''duplicate state tracker id '' @ [CHR 0x27] @ td_id t @ [CHR 0x27])
      else check_tracker_ids (td_id t # seen) ts)"

definition quoted :: "string \<Rightarrow> string" where
  "quoted s = [CHR 0x27] @ s @ [CHR 0x27]"

fun check_conditions ::
  "string set \<Rightarrow> string list \<Rightarrow> 'f tracker_definition list \<Rightarrow> unit result" where
  "check_conditions seen declared [] = Ok ()"
| "check_conditions seen declared (t # ts) =
     rbind (case td_condition t of
        None \<Rightarrow> Ok ()
      | Some c \<Rightarrow>
          if tc_tracker_id c = td_id t
          then validation_error (''state tracker '' @ quoted (td_id t) @ '' cannot depend on itself'')
          else if tc_tracker_id c \<notin> seen
          then validation_error (''state tracker '' @ quoted (td_id t)
                 @ '' condition references missing tracker '' @ quoted (tc_tracker_id c))
          else if tc_tracker_id c \<notin> set declared
          then validation_error (''state tracker '' @ quoted (td_id t) @ '' condition source ''
                 @ quoted (tc_tracker_id c) @ '' must be declared first'')
          else Ok ()) (\<lambda>_. check_conditions seen (td_id t # declared) ts)"

definition tracker_set_new :: "'f tracker_definition list \<Rightarrow> 'f tracker_set result" where
  "tracker_set_new ts =
     rbind (check_tracker_ids [] ts) (\<lambda>_.
     rbind (check_conditions (set (map td_id ts)) [] ts) (\<lambda>_.
       Ok \<lparr>tk_trackers = ts, tk_required = capability_set_new (concat (map tracker_required ts))\<rparr>))"

definition tracker_set_default :: "'f tracker_set" where
  "tracker_set_default = \<lparr>tk_trackers = [], tk_required = []\<rparr>"

end
