(* ===== verification/Overlays.thy ===== *)
theory Overlays imports Trackers Motions begin

text \<open>
  \<open>signal-auras-core/src/overlay.rs\<close>: overlay definitions over the screen state trackers, their
  checks, and the snapshot of an overlay that is drawn or closed with a diagnostic; and the ghost
  auras of \<open>dev_diagnostics.rs\<close>, the outlines of the trackers' regions. The type \<open>'f\<close> is \<open>f32\<close>.
\<close>

section \<open>Providers, rectangles and styles\<close>

datatype renderer_provider_id = Native | WebView | TauriWindow | ToolWindow

fun provider_as_str :: "renderer_provider_id \<Rightarrow> string" where
  "provider_as_str Native = ''native''"
| "provider_as_str WebView = ''webview''"
| "provider_as_str TauriWindow = ''tauri_window''"
| "provider_as_str ToolWindow = ''tool_window''"

definition provider_parse :: "string \<Rightarrow> renderer_provider_id result" where
  "provider_parse value =
     (if value = ''native'' then Ok Native
      else if value = ''webview'' then Ok WebView
      else if value = ''tauri_window'' then Ok TauriWindow
      else if value = ''tool_window'' then Ok ToolWindow
      else validation_error (''unknown overlay provider '' @ quoted value))"

datatype overlay_surface_kind = Overlay

definition surface_parse :: "string option \<Rightarrow> overlay_surface_kind result" where
  "surface_parse value =
     (let v = (case value of None \<Rightarrow> ''overlay'' | Some s \<Rightarrow> s)
      in if v = ''overlay'' then Ok Overlay
         else validation_error (''unsupported overlay surface '' @ quoted v))"

record overlay_toggle_hotkey =
  ot_trigger :: hotkey_id
  ot_mode :: binding_mode

record overlay_rect =
  or_x :: nat
  or_y :: nat
  or_w :: nat
  or_h :: nat

text \<open>\<open>as u32\<close> keeps the low 32 bits of the \<open>i64\<close>.\<close>

definition as_u32 :: "int \<Rightarrow> nat" where
  "as_u32 v = nat (v mod 2 ^ 32)"

definition overlay_rect_new :: "int \<Rightarrow> int \<Rightarrow> int \<Rightarrow> int \<Rightarrow> overlay_rect result" where
  "overlay_rect_new x y w h =
     (if x < 0 \<or> y < 0 then validation_error ''overlay rect coordinates cannot be negative''
      else if w \<le> 0 \<or> h \<le> 0
      then validation_error ''overlay rect width and height must be positive''
      else Ok \<lparr>or_x = as_u32 x, or_y = as_u32 y, or_w = as_u32 w, or_h = as_u32 h\<rparr>)"

definition validate_opacity :: "'f float_ops \<Rightarrow> 'f \<Rightarrow> unit result" where
  "validate_opacity F opacity =
     (if \<not> (fl_le F (fl_literal F 0 1) opacity \<and> fl_le F opacity (fl_literal F 1 1))
      then validation_error ''overlay opacity must be between 0.0 and 1.0'' else Ok ())"

definition is_hexdigit :: "char \<Rightarrow> bool" where
  "is_hexdigit ch \<longleftrightarrow>
     (let n = (of_char ch :: nat)
      in (48 \<le> n \<and> n \<le> 57) \<or> (65 \<le> n \<and> n \<le> 70) \<or> (97 \<le> n \<and> n \<le> 102))"

definition validate_color :: "string \<Rightarrow> string result" where
  "validate_color color =
     (if length color = 7 \<and> color ! 0 = CHR 0x23 \<and> list_all is_hexdigit (drop 1 color)
      then Ok color
      else validation_error (''overlay color '' @ quoted color @ '' must be #RRGGBB''))"

definition normalize_id :: "string \<Rightarrow> string \<Rightarrow> string result" where
  "normalize_id value field =
     (if trim value = [] then validation_error (field @ '' cannot be empty'') else Ok (trim value))"

record 'f overlay_style =
  os_fill :: "string option"
  os_background :: "string option"
  os_opacity :: "'f option"
  os_label_visible :: "bool option"

definition validate_optional :: "('a \<Rightarrow> 'b result) \<Rightarrow> 'a option \<Rightarrow> 'b option result" where
  "validate_optional f v =
     (case v of None \<Rightarrow> Ok None | Some a \<Rightarrow> rbind (f a) (\<lambda>b. Ok (Some b)))"

definition overlay_style_new ::
  "'f float_ops \<Rightarrow> string option \<Rightarrow> string option \<Rightarrow> 'f option \<Rightarrow> bool option
   \<Rightarrow> 'f overlay_style result" where
  "overlay_style_new F fill background opacity label_visible =
     rbind (check_option (validate_opacity F) opacity) (\<lambda>_.
     rbind (validate_optional validate_color fill) (\<lambda>fl.
     rbind (validate_optional validate_color background) (\<lambda>bg.
       Ok \<lparr>os_fill = fl, os_background = bg, os_opacity = opacity,
           os_label_visible = label_visible\<rparr>)))"

section \<open>Bindings and visuals\<close>

datatype state_field = ProgressPercent | RemainingMs

fun field_as_str :: "state_field \<Rightarrow> string" where
  "field_as_str ProgressPercent = ''progress_percent''"
| "field_as_str RemainingMs = ''remaining_ms''"

definition field_parse :: "string \<Rightarrow> state_field result" where
  "field_parse value =
     (if value = ''progress_percent'' then Ok ProgressPercent
      else if value = ''remaining_ms'' then Ok RemainingMs
      else validation_error (''unknown overlay state field '' @ quoted value))"

record state_binding =
  sb_tracker_id :: string
  sb_field :: state_field

definition state_binding_new :: "string \<Rightarrow> state_field \<Rightarrow> state_binding result" where
  "state_binding_new tracker_id field =
     rbind (normalize_id tracker_id ''overlay state binding tracker'') (\<lambda>i.
       Ok \<lparr>sb_tracker_id = i, sb_field = field\<rparr>)"

record 'f progress_bar_visual =
  pb_id :: string
  pb_binding :: state_binding
  pb_rect :: overlay_rect
  pb_opacity :: 'f
  pb_fill :: string
  pb_background :: string
  pb_label_visible :: bool
  pb_ready_style :: "'f overlay_style option"
  pb_activated_style :: "'f overlay_style option"
  pb_active_style :: "'f overlay_style option"
  pb_inactive_style :: "'f overlay_style option"

definition progress_bar_visual_new ::
  "'f float_ops \<Rightarrow> string \<Rightarrow> state_binding \<Rightarrow> overlay_rect \<Rightarrow> 'f \<Rightarrow> string \<Rightarrow> string \<Rightarrow> bool
   \<Rightarrow> 'f overlay_style option \<Rightarrow> 'f overlay_style option \<Rightarrow> 'f overlay_style option
   \<Rightarrow> 'f overlay_style option \<Rightarrow> 'f progress_bar_visual result" where
  "progress_bar_visual_new F i binding rect opacity fill background label_visible
     ready_style activated_style active_style inactive_style =
     rbind (validate_opacity F opacity) (\<lambda>_.
     rbind (normalize_id i ''overlay visual id'') (\<lambda>i'.
     rbind (validate_color fill) (\<lambda>fl.
     rbind (validate_color background) (\<lambda>bg.
       Ok \<lparr>pb_id = i', pb_binding = binding, pb_rect = rect, pb_opacity = opacity, pb_fill = fl,
           pb_background = bg, pb_label_visible = label_visible, pb_ready_style = ready_style,
           pb_activated_style = activated_style, pb_active_style = active_style,
           pb_inactive_style = inactive_style\<rparr>))))"

text \<open>\<open>VisualDefinition\<close> has one constructor.\<close>

datatype 'f visual_definition = ProgressBar "'f progress_bar_visual"

fun progress_bar_of :: "'f visual_definition \<Rightarrow> 'f progress_bar_visual" where
  "progress_bar_of (ProgressBar v) = v"

definition visual_id :: "'f visual_definition \<Rightarrow> string" where
  "visual_id v = pb_id (progress_bar_of v)"

definition visual_binding :: "'f visual_definition \<Rightarrow> state_binding" where
  "visual_binding v = pb_binding (progress_bar_of v)"

section \<open>Overlay definitions\<close>

record 'f overlay_definition =
  od_id :: string
  od_scope :: scope_selection
  od_surface_kind :: overlay_surface_kind
  od_provider :: renderer_provider_id
  od_toggle_hotkey :: "overlay_toggle_hotkey option"
  od_visuals :: "'f visual_definition list"

fun check_visual_ids :: "string list \<Rightarrow> 'f visual_definition list \<Rightarrow> unit result" where
  "check_visual_ids seen [] = Ok ()"
| "check_visual_ids seen (v # vs) =
     (if visual_id v \<in> set seen
      then validation_error (''duplicate overlay visual id '' @ quoted (visual_id v))
      else check_visual_ids (visual_id v # seen) vs)"

definition overlay_definition_new ::
  "string \<Rightarrow> scope_selection \<Rightarrow> overlay_surface_kind \<Rightarrow> renderer_provider_id
   \<Rightarrow> overlay_toggle_hotkey option \<Rightarrow> 'f visual_definition list \<Rightarrow> 'f overlay_definition result" where
  "overlay_definition_new i scope surface_kind provider toggle_hotkey visuals =
     (if visuals = [] then validation_error ''overlay requires at least one visual''
      else rbind (check_visual_ids [] visuals) (\<lambda>_.
           rbind (normalize_id i ''overlay id'') (\<lambda>i'.
             Ok \<lparr>od_id = i', od_scope = scope, od_surface_kind = surface_kind,
                 od_provider = provider, od_toggle_hotkey = toggle_hotkey, od_visuals = visuals\<rparr>)))"

definition overlay_required :: "'f overlay_definition \<Rightarrow> capability_set" where
  "overlay_required ov =
     (if scope_needs_metadata (od_scope ov) then capability_set_new [ActiveProcessMetadata] else [])"

definition field_fits :: "'f detector_definition \<Rightarrow> state_field \<Rightarrow> bool" where
  "field_fits d field =
     (case d of
        HorizontalProgressBar _ _ \<Rightarrow> field = ProgressPercent
      | RadialCooldown _ _ _ \<Rightarrow> field = RemainingMs)"

definition is_radial :: "'f detector_definition \<Rightarrow> bool" where
  "is_radial d = (case d of RadialCooldown _ _ _ \<Rightarrow> True | HorizontalProgressBar _ _ \<Rightarrow> False)"

definition validate_visual_binding ::
  "'f tracker_set \<Rightarrow> 'f visual_definition \<Rightarrow> unit result" where
  "validate_visual_binding ts v =
     (let b = visual_binding v
      in case List.find (\<lambda>t. td_id t = sb_tracker_id b) (tk_trackers ts) of
           None \<Rightarrow> validation_error (''overlay visual '' @ quoted (visual_id v)
             @ '' references missing state tracker '' @ quoted (sb_tracker_id b))
         | Some t \<Rightarrow>
             if \<not> field_fits (td_detector t) (sb_field b)
             then validation_error (''overlay visual '' @ quoted (visual_id v)
               @ '' cannot bind field '' @ quoted (field_as_str (sb_field b))
               @ '' from tracker '' @ quoted (sb_tracker_id b))
             else if \<not> is_radial (td_detector t)
               \<and> (pb_activated_style (progress_bar_of v) \<noteq> None
                  \<or> pb_active_style (progress_bar_of v) \<noteq> None)
             then validation_error (''overlay visual '' @ quoted (pb_id (progress_bar_of v))
               @ '' phase styles require a radial_cooldown remaining_ms binding'')
             else Ok ())"

fun validate_bindings :: "'f tracker_set \<Rightarrow> 'f visual_definition list \<Rightarrow> unit result" where
  "validate_bindings ts [] = Ok ()"
| "validate_bindings ts (v # vs) =
     rbind (validate_visual_binding ts v) (\<lambda>_. validate_bindings ts vs)"

definition validate_overlay_bindings ::
  "'f overlay_definition \<Rightarrow> 'f tracker_set \<Rightarrow> unit result" where
  "validate_overlay_bindings ov ts = validate_bindings ts (od_visuals ov)"

record 'f overlay_set =
  ol_overlays :: "'f overlay_definition list"
  ol_required :: capability_set

fun check_overlays ::
  "'f tracker_set \<Rightarrow> string list \<Rightarrow> 'f overlay_definition list \<Rightarrow> unit result" where
  "check_overlays ts seen [] = Ok ()"
| "check_overlays ts seen (ov # ovs) =
     (if od_id ov \<in> set seen
      then validation_error (''duplicate overlay id '' @ quoted (od_id ov))
      else rbind (validate_overlay_bindings ov ts) (\<lambda>_. check_overlays ts (od_id ov # seen) ovs))"

definition overlay_set_new ::
  "'f overlay_definition list \<Rightarrow> 'f tracker_set \<Rightarrow> 'f overlay_set result" where
  "overlay_set_new ovs ts =
     rbind (check_overlays ts [] ovs) (\<lambda>_.
       Ok \<lparr>ol_overlays = ovs, ol_required = capability_set_new (concat (map overlay_required ovs))\<rparr>)"

definition overlay_set_default :: "'f overlay_set" where
  "overlay_set_default = \<lparr>ol_overlays = [], ol_required = []\<rparr>"

section \<open>Providers\<close>

record overlay_provider_status =
  ps_provider :: renderer_provider_id
  ps_availability :: capability_availability
  ps_diagnostic :: "adapter_diagnostic option"

definition provider_available :: "renderer_provider_id \<Rightarrow> overlay_provider_status" where
  "provider_available p =
     \<lparr>ps_provider = p, ps_availability = capability_availability.Available, ps_diagnostic = None\<rparr>"

definition provider_unavailable :: "renderer_provider_id \<Rightarrow> string \<Rightarrow> overlay_provider_status" where
  "provider_unavailable p message =
     \<lparr>ps_provider = p, ps_availability = capability_availability.Unsupported,
      ps_diagnostic = Some (adapter_diagnostic_new CapabilityProbe message)\<rparr>"

type_synonym overlay_provider_report = "renderer_provider_id \<Rightarrow> overlay_provider_status option"

definition providers_from_statuses ::
  "overlay_provider_status list \<Rightarrow> overlay_provider_report" where
  "providers_from_statuses sts = foldl (\<lambda>m s. m(ps_provider s \<mapsto> s)) (\<lambda>_. None) sts"

definition native_available :: overlay_provider_report where
  "native_available = providers_from_statuses [provider_available Native]"

definition provider_status ::
  "overlay_provider_report \<Rightarrow> renderer_provider_id \<Rightarrow> overlay_provider_status" where
  "provider_status report p =
     (case report p of
        Some s \<Rightarrow> s
      | None \<Rightarrow> provider_unavailable p
          (''overlay provider '' @ quoted (provider_as_str p) @ '' is unavailable''))"

section \<open>Snapshots\<close>

datatype overlay_lifecycle_state =
  Registered | Available | Active | Inactive | Denied | Stale | Unavailable | Failed | CleanedUp

datatype overlay_diagnostic_reason =
    ProviderUnavailable | PermissionDenied | FocusInactive | MissingStateSource | StaleStateSource
  | UnsupportedState

record overlay_diagnostic =
  og_overlay_id :: string
  og_provider :: renderer_provider_id
  og_lifecycle :: overlay_lifecycle_state
  og_reason :: overlay_diagnostic_reason
  og_tracker_id :: "string option"
  og_field :: "state_field option"
  og_message :: string

datatype visual_shape = Rect | Circle (center_dot: bool)

record 'f visual_snapshot =
  vs_visual_id :: string
  vs_shape :: visual_shape
  vs_rect :: overlay_rect
  vs_opacity :: 'f
  vs_fill :: string
  vs_background :: string
  vs_label_visible :: bool
  vs_fill_fraction :: 'f
  vs_active :: bool
  vs_ready :: bool

record 'f overlay_snapshot =
  sn_overlay_id :: string
  sn_provider :: renderer_provider_id
  sn_lifecycle :: overlay_lifecycle_state
  sn_visuals :: "'f visual_snapshot list"
  sn_diagnostic :: "overlay_diagnostic option"

definition snapshot_is_active :: "'f overlay_snapshot \<Rightarrow> bool" where
  "snapshot_is_active sn \<longleftrightarrow> sn_lifecycle sn = Active"

definition style_apply :: "'f overlay_style \<Rightarrow> 'f visual_snapshot \<Rightarrow> 'f visual_snapshot" where
  "style_apply st sn =
     sn\<lparr>vs_fill := (case os_fill st of None \<Rightarrow> vs_fill sn | Some v \<Rightarrow> v),
        vs_background := (case os_background st of None \<Rightarrow> vs_background sn | Some v \<Rightarrow> v),
        vs_opacity := (case os_opacity st of None \<Rightarrow> vs_opacity sn | Some v \<Rightarrow> v),
        vs_label_visible := (case os_label_visible st of None \<Rightarrow> vs_label_visible sn | Some v \<Rightarrow> v)\<rparr>"

definition apply_optional ::
  "'f overlay_style option \<Rightarrow> 'f visual_snapshot \<Rightarrow> 'f visual_snapshot" where
  "apply_optional st sn = (case st of None \<Rightarrow> sn | Some s \<Rightarrow> style_apply s sn)"

definition base_visual_snapshot ::
  "'f float_ops \<Rightarrow> 'f progress_bar_visual \<Rightarrow> 'f \<Rightarrow> bool \<Rightarrow> bool \<Rightarrow> 'f visual_snapshot" where
  "base_visual_snapshot F v fraction active ready =
     \<lparr>vs_visual_id = pb_id v, vs_shape = Rect, vs_rect = pb_rect v, vs_opacity = pb_opacity v,
      vs_fill = pb_fill v, vs_background = pb_background v, vs_label_visible = pb_label_visible v,
      vs_fill_fraction = fl_clamp F (fl_literal F 0 1) (fl_literal F 1 1) fraction,
      vs_active = active, vs_ready = ready\<rparr>"

definition apply_inactive_style ::
  "'f progress_bar_visual \<Rightarrow> 'f visual_snapshot \<Rightarrow> 'f visual_snapshot" where
  "apply_inactive_style v sn = (apply_optional (pb_inactive_style v) sn)\<lparr>vs_active := False\<rparr>"

definition apply_activated_style ::
  "'f float_ops \<Rightarrow> 'f progress_bar_visual \<Rightarrow> 'f visual_snapshot \<Rightarrow> 'f visual_snapshot" where
  "apply_activated_style F v sn =
     (case pb_activated_style v of
        Some st \<Rightarrow> style_apply st sn
      | None \<Rightarrow> sn\<lparr>vs_fill := ''#f97316'', vs_background := ''#7f1d1d'',
                  vs_opacity := fl_max F (vs_opacity sn) (fl_literal F 17 20)\<rparr>)"

definition apply_active_style ::
  "'f float_ops \<Rightarrow> 'f progress_bar_visual \<Rightarrow> 'f visual_snapshot \<Rightarrow> 'f visual_snapshot" where
  "apply_active_style F v sn =
     (case pb_active_style v of
        Some st \<Rightarrow> style_apply st sn
      | None \<Rightarrow> sn\<lparr>vs_fill := ''#38bdf8'', vs_background := ''#082f49'',
                  vs_opacity := fl_max F (vs_opacity sn) (fl_literal F 4 5)\<rparr>)"

definition percent_fraction :: "'f float_ops \<Rightarrow> nat \<Rightarrow> 'f" where
  "percent_fraction F v =
     fl_div F (fl_clamp F (fl_literal F 0 1) (fl_literal F 100 1) (fl_of_nat F v)) (fl_literal F 100 1)"

definition radial_fill_fraction :: "'f float_ops \<Rightarrow> radial_state \<Rightarrow> 'f" where
  "radial_fill_fraction F r =
     (case rd_phase r of
        radial_cooldown_phase.Ready \<Rightarrow> fl_literal F 1 1
      | radial_cooldown_phase.Recovering \<Rightarrow>
          fl_sub F (fl_literal F 1 1) (percent_fraction F (rd_cooldown_fraction r))
      | radial_cooldown_phase.Active \<Rightarrow>
          (case (rd_predicted_remaining_ms r, rd_predicted_duration_ms r) of
             (Some remaining, Some duration) \<Rightarrow>
               if 0 < duration
               then fl_clamp F (fl_literal F 0 1) (fl_literal F 1 1)
                      (fl_div F (fl_of_nat F remaining) (fl_of_nat F duration))
               else fl_literal F 0 1
           | _ \<Rightarrow> fl_literal F 0 1)
      | radial_cooldown_phase.Activated \<Rightarrow> fl_literal F 0 1
      | radial_cooldown_phase.Unknown \<Rightarrow> fl_literal F 0 1)"

definition visual_snapshot ::
  "'f float_ops \<Rightarrow> 'f visual_definition \<Rightarrow> tracker_state \<Rightarrow> 'f visual_snapshot option" where
  "visual_snapshot F visual st =
     (let v = progress_bar_of visual
      in case st of
           ProgressState p \<Rightarrow>
             if sb_field (pb_binding v) \<noteq> ProgressPercent then None
             else let sn = base_visual_snapshot F v (percent_fraction F (pg_progress_percent p))
                             (pg_visible p) False
                  in Some (if \<not> pg_visible p then apply_inactive_style v sn else sn)
         | RadialState r \<Rightarrow>
             if sb_field (pb_binding v) \<noteq> RemainingMs then None
             else let sn = base_visual_snapshot F v (radial_fill_fraction F r) True (rd_ready r)
                  in Some (case rd_phase r of
                       radial_cooldown_phase.Ready \<Rightarrow> apply_optional (pb_ready_style v) sn
                     | radial_cooldown_phase.Activated \<Rightarrow> apply_activated_style F v sn
                     | radial_cooldown_phase.Active \<Rightarrow> apply_active_style F v sn
                     | radial_cooldown_phase.Unknown \<Rightarrow> apply_inactive_style v sn
                     | radial_cooldown_phase.Recovering \<Rightarrow> sn)
         | InactiveState i \<Rightarrow>
             Some (apply_inactive_style v
               (base_visual_snapshot F v (fl_literal F 0 1) False False)))"

definition closed_snapshot ::
  "'f overlay_definition \<Rightarrow> overlay_lifecycle_state \<Rightarrow> overlay_diagnostic_reason
   \<Rightarrow> string option \<Rightarrow> state_field option \<Rightarrow> string \<Rightarrow> 'f overlay_snapshot" where
  "closed_snapshot ov lifecycle reason tracker_id field message =
     \<lparr>sn_overlay_id = od_id ov, sn_provider = od_provider ov, sn_lifecycle = lifecycle,
      sn_visuals = [],
      sn_diagnostic = Some \<lparr>og_overlay_id = od_id ov, og_provider = od_provider ov,
        og_lifecycle = lifecycle, og_reason = reason, og_tracker_id = tracker_id,
        og_field = field, og_message = message\<rparr>\<rparr>"

definition state_freshness_ms :: "tracker_state \<Rightarrow> nat" where
  "state_freshness_ms st =
     (case st of RadialState r \<Rightarrow> rd_freshness_ms r | ProgressState p \<Rightarrow> pg_freshness_ms p
      | InactiveState i \<Rightarrow> in_freshness_ms i)"

text \<open>The loop over the visuals; it stops at the first one without a usable state.\<close>

fun visual_snapshots ::
  "'f float_ops \<Rightarrow> 'f overlay_definition \<Rightarrow> tracker_states \<Rightarrow> 'f visual_snapshot list
   \<Rightarrow> 'f visual_definition list \<Rightarrow> 'f overlay_snapshot + 'f visual_snapshot list" where
  "visual_snapshots F ov states shown [] = Inr shown"
| "visual_snapshots F ov states shown (v # vs) =
     (let b = visual_binding v;
          closed = (\<lambda>lifecycle reason message. Inl (closed_snapshot ov lifecycle reason
                      (Some (sb_tracker_id b)) (Some (sb_field b)) message))
      in case bm_get states (sb_tracker_id b) of
           None \<Rightarrow> closed Stale MissingStateSource ''overlay state source is missing''
         | Some st \<Rightarrow>
             if 250 < state_freshness_ms st
             then closed Stale StaleStateSource ''overlay state source is stale''
             else (case visual_snapshot F v st of
                     None \<Rightarrow> closed Inactive UnsupportedState
                       ''overlay state source cannot drive this visual''
                   | Some sn \<Rightarrow> visual_snapshots F ov states (shown @ [sn]) vs))"

text \<open>\<open>now\<close> is the clock when the scope is decided.\<close>

definition overlay_snapshot ::
  "'f float_ops \<Rightarrow> instant \<Rightarrow> 'f overlay_definition \<Rightarrow> capability_report \<Rightarrow> active_process_context
   \<Rightarrow> tracker_states \<Rightarrow> overlay_provider_report \<Rightarrow> 'f overlay_snapshot" where
  "overlay_snapshot F now ov capabilities c states providers =
     (let status = provider_status providers (od_provider ov)
      in if \<not> allows_activation (ps_availability status)
         then closed_snapshot ov Unavailable ProviderUnavailable None None
           (case ps_diagnostic status of
              None \<Rightarrow> ''overlay provider is unavailable'' | Some d \<Rightarrow> ad_message d)
         else case first_blocking_error capabilities (overlay_required ov) of
                Some e \<Rightarrow> closed_snapshot ov Denied PermissionDenied None None (er_message e)
              | None \<Rightarrow>
                  if decide_context_at (od_scope ov) c now \<noteq> Allowed
                  then closed_snapshot ov Inactive FocusInactive None None
                    ''overlay focus is inactive or untrusted''
                  else (case visual_snapshots F ov states [] (od_visuals ov) of
                          Inl closed \<Rightarrow> closed
                        | Inr visuals \<Rightarrow>
                            \<lparr>sn_overlay_id = od_id ov, sn_provider = od_provider ov,
                             sn_lifecycle = Active, sn_visuals = visuals, sn_diagnostic = None\<rparr>))"

text \<open>\<open>clock n\<close> is the clock when the \<open>n\<close>-th overlay that is not hidden decides its scope.\<close>

definition snapshots_with_hidden ::
  "'f float_ops \<Rightarrow> (nat \<Rightarrow> instant) \<Rightarrow> 'f overlay_set \<Rightarrow> capability_report
   \<Rightarrow> active_process_context \<Rightarrow> tracker_states \<Rightarrow> overlay_provider_report \<Rightarrow> string set
   \<Rightarrow> 'f overlay_snapshot list" where
  "snapshots_with_hidden F clock ovs capabilities c states providers hidden =
     map (\<lambda>(n, ov). overlay_snapshot F (clock n) ov capabilities c states providers)
       (List.enumerate 0 (filter (\<lambda>ov. od_id ov \<notin> hidden) (ol_overlays ovs)))"

definition snapshots ::
  "'f float_ops \<Rightarrow> (nat \<Rightarrow> instant) \<Rightarrow> 'f overlay_set \<Rightarrow> capability_report
   \<Rightarrow> active_process_context \<Rightarrow> tracker_states \<Rightarrow> overlay_provider_report
   \<Rightarrow> 'f overlay_snapshot list" where
  "snapshots F clock ovs capabilities c states providers =
     snapshots_with_hidden F clock ovs capabilities c states providers {}"

section \<open>Ghost auras\<close>

datatype tracker_ghost_aura_kind = Circle (mark_center: bool) | Rect

record tracker_ghost_aura =
  ga_tracker_id :: string
  ga_detector_kind :: string
  ga_roi :: roi
  ga_kind :: tracker_ghost_aura_kind

definition ghost_kind :: "'f detector_definition \<Rightarrow> tracker_ghost_aura_kind" where
  "ghost_kind d =
     (case d of
        RadialCooldown _ _ _ \<Rightarrow> tracker_ghost_aura_kind.Circle True
      | HorizontalProgressBar _ _ \<Rightarrow> tracker_ghost_aura_kind.Rect)"

definition tracker_ghost_auras :: "'f tracker_set \<Rightarrow> tracker_ghost_aura list" where
  "tracker_ghost_auras ts = map (\<lambda>t.
     \<lparr>ga_tracker_id = td_id t, ga_detector_kind = detector_kind (td_detector t),
      ga_roi = detector_roi (td_detector t), ga_kind = ghost_kind (td_detector t)\<rparr>) (tk_trackers ts)"

end
