(* ===== verification/ControllerPrograms.thy ===== *)
theory ControllerPrograms imports Overlays Controllers begin

text \<open>
  \<open>ControllerProgram\<close> of \<open>signal-auras-core/src/controller.rs\<close>, and the motions, repeat ticks and
  registrations that \<open>signal-auras-cli/src/runner.rs\<close> reads from one for its live loop.
\<close>

section \<open>Programs\<close>

record 'f controller_program =
  cp_registrations :: registration_set
  cp_callbacks :: "(string \<times> controller_callback) list"
  cp_required :: capability_set
  cp_input_provider :: "input_provider_config option"
  cp_leader :: "motion_token option"
  cp_state_trackers :: "'f tracker_set"
  cp_overlays :: "'f overlay_set"

text \<open>The callbacks a loop policy names, in the order in which they are checked.\<close>

definition loop_callbacks :: "controller_loop_policy \<Rightarrow> string list" where
  "loop_callbacks l =
     (case lp_before_callback l of None \<Rightarrow> [] | Some c \<Rightarrow> [c]) @ [lp_repeat_callback l]
     @ (case lp_after_callback l of None \<Rightarrow> [] | Some c \<Rightarrow> [c])"

definition program_error :: "string \<Rightarrow> string \<Rightarrow> 'a result" where
  "program_error what name = Err (diagnosable_error_new ScriptValidation
     (what @ quoted name @ '' is registered but not defined''))"

fun check_loop_callbacks ::
  "(string \<times> controller_callback) list \<Rightarrow> string list \<Rightarrow> unit result" where
  "check_loop_callbacks cbs [] = Ok ()"
| "check_loop_callbacks cbs (c # cs) =
     (if \<not> bm_contains cbs c then program_error ''controller loop callback '' c
      else check_loop_callbacks cbs cs)"

fun check_registered_callbacks ::
  "(string \<times> controller_callback) list \<Rightarrow> controller_registration list \<Rightarrow> unit result" where
  "check_registered_callbacks cbs [] = Ok ()"
| "check_registered_callbacks cbs (r # rs) =
     (if \<not> bm_contains cbs (cg_callback r) then program_error ''controller callback '' (cg_callback r)
      else rbind (case cg_loop_policy r of
             None \<Rightarrow> Ok () | Some l \<Rightarrow> check_loop_callbacks cbs (loop_callbacks l)) (\<lambda>_.
           check_registered_callbacks cbs rs))"

definition controller_program_new ::
  "registration_set \<Rightarrow> controller_callback list \<Rightarrow> 'f controller_program result" where
  "controller_program_new registrations callbacks =
     (let cbs = bm_from (map (\<lambda>c. (cb_name c, c)) callbacks)
      in rbind (check_registered_callbacks cbs (rg_registrations registrations)) (\<lambda>_.
         Ok \<lparr>cp_registrations = registrations, cp_callbacks = cbs,
             cp_required = capability_set_new
               (rg_required registrations @ concat (map callback_required (bm_values cbs))),
             cp_input_provider = None, cp_leader = None,
             cp_state_trackers = tracker_set_default, cp_overlays = overlay_set_default\<rparr>))"

definition with_runtime_options ::
  "input_provider_config option \<Rightarrow> motion_token option \<Rightarrow> 'f controller_program
   \<Rightarrow> 'f controller_program" where
  "with_runtime_options provider leader p = p\<lparr>cp_input_provider := provider, cp_leader := leader\<rparr>"

definition with_state_trackers ::
  "'f tracker_set \<Rightarrow> 'f controller_program \<Rightarrow> 'f controller_program" where
  "with_state_trackers ts p =
     p\<lparr>cp_required := capability_set_new (cp_required p @ tk_required ts), cp_state_trackers := ts\<rparr>"

definition with_overlay_definitions ::
  "'f overlay_set \<Rightarrow> 'f controller_program \<Rightarrow> 'f controller_program" where
  "with_overlay_definitions ovs p =
     p\<lparr>cp_required := capability_set_new (cp_required p @ ol_required ovs), cp_overlays := ovs\<rparr>"

definition program_callback :: "'f controller_program \<Rightarrow> string \<Rightarrow> controller_callback option" where
  "program_callback p name = bm_get (cp_callbacks p) name"

definition validate_program_capabilities ::
  "'f controller_program \<Rightarrow> capability_report \<Rightarrow> unit result" where
  "validate_program_capabilities p report = validate_capabilities (cp_required p) report"

definition program_registrations :: "'f controller_program \<Rightarrow> controller_registration list" where
  "program_registrations p = rg_registrations (cp_registrations p)"

section \<open>What the live loop reads from a program\<close>

definition registrations_of_kind ::
  "controller_registration_kind \<Rightarrow> 'f controller_program \<Rightarrow> controller_registration list" where
  "registrations_of_kind k p = filter (\<lambda>r. cg_kind r = k) (program_registrations p)"

definition controller_motion_trigger :: "controller_registration \<Rightarrow> motion_trigger result" where
  "controller_motion_trigger r = motion_trigger_parse (split_whitespace (cg_trigger r))"

definition controller_press_token :: "controller_registration \<Rightarrow> motion_token result" where
  "controller_press_token r = motion_token_parse (cg_trigger r)"

definition controller_dummy_macro :: "macro_definition result" where
  "controller_dummy_macro = rbind (macro_delay 1) (\<lambda>d. macro_definition_new [d])"

text \<open>\<open>as_ref().map(|_| controller_dummy_macro()).transpose()\<close>.\<close>

definition dummy_if :: "string option \<Rightarrow> macro_definition option result" where
  "dummy_if c =
     (case c of None \<Rightarrow> Ok None | Some _ \<Rightarrow> rbind controller_dummy_macro (\<lambda>m. Ok (Some m)))"

definition controller_loop_definition :: "controller_loop_policy \<Rightarrow> loop_definition result" where
  "controller_loop_definition l =
     rbind (dummy_if (lp_before_callback l)) (\<lambda>before.
     rbind (loop_interval_new (lp_repeat_every_ms l)) (\<lambda>interval.
     rbind controller_dummy_macro (\<lambda>body.
     rbind (dummy_if (lp_after_callback l)) (\<lambda>after.
       Ok \<lparr>ld_while_held = lp_while_held l, ld_before = before,
           ld_body = Repeat \<lparr>lr_interval = interval, lr_macro = body\<rparr>, ld_after = after\<rparr>))))"

definition controller_motion_definition :: "controller_registration \<Rightarrow> motion_definition result" where
  "controller_motion_definition r =
     rbind (controller_motion_trigger r) (\<lambda>t.
     rbind (case cg_loop_policy r of
              None \<Rightarrow> rbind controller_dummy_macro (\<lambda>m. Ok (Some m)) | Some _ \<Rightarrow> Ok None) (\<lambda>m.
     rbind (case cg_loop_policy r of
              None \<Rightarrow> Ok None
            | Some l \<Rightarrow> rbind (controller_loop_definition l) (\<lambda>d. Ok (Some d))) (\<lambda>l.
       motion_with_requires_held (cg_requires_held r) t (cg_mode r) m l
         (as_millis default_motion_duration) 0)))"

definition controller_motion_definitions :: "'f controller_program \<Rightarrow> motion_definition list result" where
  "controller_motion_definitions p =
     collect_results controller_motion_definition (registrations_of_kind Motion p)"

definition controller_repeat_ticks ::
  "'f controller_program \<Rightarrow> (motion_trigger \<times> nat) list result" where
  "controller_repeat_ticks p = collect_results
     (\<lambda>(r, l). rbind (controller_motion_trigger r) (\<lambda>t. Ok (t, lp_repeat_every_ms l)))
     (List.map_filter (\<lambda>r. map_option (Pair r) (cg_loop_policy r)) (registrations_of_kind Motion p))"

definition controller_registration_for_hotkey ::
  "'f controller_program \<Rightarrow> hotkey_id \<Rightarrow> controller_registration option" where
  "controller_registration_for_hotkey p h = List.find
     (\<lambda>r. cg_kind r = Hotkey \<and> hotkey_parse (cg_trigger r) = Ok h) (program_registrations p)"

fun first_press ::
  "motion_input_event \<Rightarrow> motion_runtime \<Rightarrow> controller_registration list
   \<Rightarrow> controller_registration option result" where
  "first_press ev rt [] = Ok None"
| "first_press ev rt (r # rs) =
     rbind (controller_press_token r) (\<lambda>t.
       if t = me_token ev \<and> held_satisfies rt (cg_requires_held r) then Ok (Some r)
       else first_press ev rt rs)"

definition matching_controller_press_registration ::
  "'f controller_program \<Rightarrow> motion_input_event \<Rightarrow> motion_runtime
   \<Rightarrow> controller_registration option result" where
  "matching_controller_press_registration p ev rt = first_press ev rt (registrations_of_kind Press p)"

fun first_motion ::
  "motion_trigger \<Rightarrow> controller_registration list \<Rightarrow> controller_registration option result" where
  "first_motion t [] = Ok None"
| "first_motion t (r # rs) =
     rbind (controller_motion_trigger r) (\<lambda>t'. if t' = t then Ok (Some r) else first_motion t rs)"

definition matching_controller_motion_registration ::
  "'f controller_program \<Rightarrow> motion_trigger \<Rightarrow> controller_registration option result" where
  "matching_controller_motion_registration p t = first_motion t (registrations_of_kind Motion p)"

section \<open>Toggles of the overlays\<close>

definition overlay_for_toggle_hotkey ::
  "'f controller_program \<Rightarrow> hotkey_id \<Rightarrow> 'f overlay_definition option" where
  "overlay_for_toggle_hotkey p h = List.find
     (\<lambda>ov. case od_toggle_hotkey ov of None \<Rightarrow> False | Some t \<Rightarrow> ot_trigger t = h)
     (ol_overlays (cp_overlays p))"

text \<open>\<open>split('+')\<close> gives at least one part; the last one is the trigger.\<close>

definition overlay_toggle_tokens :: "hotkey_id \<Rightarrow> (held_condition \<times> motion_token) result" where
  "overlay_toggle_tokens h =
     (let parts = split_on (CHR ''+'') h
      in if parts = []
         then Err (diagnosable_error_new ScriptValidation ''overlay hotkey requires trigger'')
         else rbind (collect_results motion_token_parse (butlast parts)) (\<lambda>held.
              rbind (held_condition_new held) (\<lambda>required.
              rbind (motion_token_parse (List.last parts)) (\<lambda>primary. Ok (required, primary)))))"

definition overlay_toggle_matches_input ::
  "motion_input_event \<Rightarrow> motion_runtime \<Rightarrow> 'f overlay_definition \<Rightarrow> bool" where
  "overlay_toggle_matches_input ev rt ov \<longleftrightarrow>
     me_state ev = Pressed
     \<and> (case od_toggle_hotkey ov of
          None \<Rightarrow> False
        | Some toggle \<Rightarrow>
            (case overlay_toggle_tokens (ot_trigger toggle) of
               Inl _ \<Rightarrow> False
             | Inr (required, primary) \<Rightarrow>
                 me_token ev = primary \<and> held_satisfies rt required))"

end
