(* ===== verification/Polling.thy ===== *)
theory Polling imports Trackers begin

text \<open>
  The poller of \<open>signal-auras-core/src/screen_state.rs\<close>: which trackers are due, when the screen is
  read for them, and what a poll leaves in the poller's maps. Reading the screen and asking for the
  coordinate scale are calls on a world of any type \<open>'w\<close>.
\<close>

section \<open>The poller\<close>

record 'f tracker_poller =
  po_trackers :: "'f tracker_set"
  po_last_poll_ms :: "(string \<times> nat) list"
  po_latest :: tracker_states
  po_history :: "(string \<times> cooldown_history) list"

record screen_sample_diagnostic =
  sd_width :: nat
  sd_height :: nat
  sd_stride :: nat
  sd_pixel_format :: screen_pixel_format

record poll_outcome =
  pu_due_trackers :: nat
  pu_screen_samples :: nat
  pu_updated :: "string list"
  pu_sample :: "screen_sample_diagnostic option"

record ('w, 'd) sample_provider =
  sp_capture :: "'w \<Rightarrow> 'w \<times> screen_sample result"
  sp_scale :: "screen_sample \<Rightarrow> active_process_context \<Rightarrow> 'w \<Rightarrow> 'w \<times> 'd coordinate_scale"

definition sample_diagnostic :: "screen_sample \<Rightarrow> screen_sample_diagnostic" where
  "sample_diagnostic s =
     \<lparr>sd_width = ss_width s, sd_height = ss_height s, sd_stride = ss_stride s,
      sd_pixel_format = ss_pixel_format s\<rparr>"

definition poller_new :: "'f tracker_set \<Rightarrow> 'f tracker_poller" where
  "poller_new ts = \<lparr>po_trackers = ts, po_last_poll_ms = [], po_latest = [], po_history = []\<rparr>"

definition latest_state :: "'f tracker_poller \<Rightarrow> string \<Rightarrow> tracker_state option" where
  "latest_state p i = bm_get (po_latest p) i"

definition tracker_due_in :: "'f tracker_poller \<Rightarrow> nat \<Rightarrow> 'f tracker_definition \<Rightarrow> nat" where
  "tracker_due_in p now_ms t =
     (case bm_get (po_last_poll_ms p) (td_id t) of
        None \<Rightarrow> 0 | Some polled \<Rightarrow> td_poll_ms t - (now_ms - polled))"

definition next_due_in_ms :: "'f tracker_poller \<Rightarrow> nat \<Rightarrow> nat option" where
  "next_due_in_ms p now_ms =
     (case map (tracker_due_in p now_ms) (tk_trackers (po_trackers p)) of
        [] \<Rightarrow> None | d # ds \<Rightarrow> Some (foldl min d ds))"

definition tracker_is_due :: "'f tracker_poller \<Rightarrow> nat \<Rightarrow> 'f tracker_definition \<Rightarrow> bool" where
  "tracker_is_due p now_ms t =
     (case bm_get (po_last_poll_ms p) (td_id t) of
        None \<Rightarrow> True | Some polled \<Rightarrow> td_poll_ms t \<le> now_ms - polled)"

definition due_ids :: "'f tracker_poller \<Rightarrow> nat \<Rightarrow> string list" where
  "due_ids p now_ms = map td_id (filter (tracker_is_due p now_ms) (tk_trackers (po_trackers p)))"

definition find_tracker :: "'f tracker_definition list \<Rightarrow> string \<Rightarrow> 'f tracker_definition option" where
  "find_tracker ts i = List.find (\<lambda>t. td_id t = i) ts"

text \<open>\<open>latest\<close> and \<open>last_poll_ms\<close> are written together.\<close>

definition set_state :: "nat \<Rightarrow> string \<Rightarrow> tracker_state \<Rightarrow> 'f tracker_poller \<Rightarrow> 'f tracker_poller" where
  "set_state now_ms i st p =
     p\<lparr>po_latest := bm_insert i st (po_latest p),
       po_last_poll_ms := bm_insert i now_ms (po_last_poll_ms p)\<rparr>"

definition mark_inactive ::
  "'f tracker_poller \<Rightarrow> nat \<Rightarrow> string list \<Rightarrow> tracker_inactive_reason
   \<Rightarrow> 'f tracker_poller \<times> poll_outcome" where
  "mark_inactive p now_ms ids reason =
     (foldl (\<lambda>q i. set_state now_ms i (inactive_because reason) q) p ids,
      \<lparr>pu_due_trackers = length ids, pu_screen_samples = 0, pu_updated = ids, pu_sample = None\<rparr>)"

text \<open>
  Each due tracker reads the clock once when its scope is decided; \<open>clock n\<close> is the \<open>n\<close>-th of
  these reads.
\<close>

fun split_by_focus ::
  "'f tracker_definition list \<Rightarrow> active_process_context \<Rightarrow> (nat \<Rightarrow> instant) \<Rightarrow> nat \<Rightarrow> string list
   \<Rightarrow> string list \<times> string list" where
  "split_by_focus ts c clock n [] = ([], [])"
| "split_by_focus ts c clock n (i # ids) =
     (case find_tracker ts i of
        None \<Rightarrow> split_by_focus ts c clock n ids
      | Some t \<Rightarrow>
          (case split_by_focus ts c clock (Suc n) ids of
             (active, inactive) \<Rightarrow>
               (case decide_context_at (td_scope t) c (clock n) of
                  Allowed \<Rightarrow> (i # active, inactive)
                | scope_decision.Denied _ _ \<Rightarrow> (active, i # inactive))))"

definition detect_tracker ::
  "'f float_ops \<Rightarrow> 'd float_ops \<Rightarrow> screen_sample \<Rightarrow> 'd coordinate_scale \<Rightarrow> 'f tracker_definition
   \<Rightarrow> 'f tracker_poller \<Rightarrow> 'f tracker_poller \<times> tracker_state" where
  "detect_tracker F D s scale t p =
     (let detector = scaled_for_sample D scale (td_detector t)
      in case detector of
           RadialCooldown _ _ _ \<Rightarrow>
             (case detect_radial_cooldown_with_roi F s (Some detector)
                     (case bm_get (po_history p) (td_id t) of
                        None \<Rightarrow> history_default | Some h \<Rightarrow> h) of
                (h, st) \<Rightarrow> (p\<lparr>po_history := bm_insert (td_id t) h (po_history p)\<rparr>, st))
         | HorizontalProgressBar _ _ \<Rightarrow>
             (p, detect_horizontal_progress_bar_with_roi s (Some detector)))"

definition poll_tracker ::
  "'f float_ops \<Rightarrow> 'd float_ops \<Rightarrow> nat \<Rightarrow> screen_sample \<Rightarrow> 'd coordinate_scale
   \<Rightarrow> 'f tracker_poller \<times> string list \<Rightarrow> string \<Rightarrow> 'f tracker_poller \<times> string list" where
  "poll_tracker F D now_ms s scale acc i =
     (case acc of (p, updated) \<Rightarrow>
        case find_tracker (tk_trackers (po_trackers p)) i of
          None \<Rightarrow> (p, updated)
        | Some t \<Rightarrow>
            if (case td_condition t of None \<Rightarrow> False
                | Some c \<Rightarrow> \<not> condition_matches c (po_latest p))
            then (set_state now_ms i (inactive_because ConditionInactive) p, updated @ [i])
            else (case detect_tracker F D s scale t p of
                    (q, st) \<Rightarrow> (set_state now_ms i st q, updated @ [i])))"

definition screen_read_denial :: "capability_report \<Rightarrow> tracker_inactive_reason option" where
  "screen_read_denial capabilities =
     map_option (\<lambda>e. if contains_str ''unsupported'' (er_message e) then ScreenReadUnsupported
                     else ScreenReadDenied)
       (first_blocking_error capabilities (capability_set_new [ScreenRead]))"

definition poll_active ::
  "'f float_ops \<Rightarrow> 'd float_ops \<Rightarrow> ('w, 'd) sample_provider \<Rightarrow> nat \<Rightarrow> active_process_context
   \<Rightarrow> nat \<Rightarrow> string list \<Rightarrow> string list \<Rightarrow> 'f tracker_poller \<Rightarrow> 'w
   \<Rightarrow> 'f tracker_poller \<times> poll_outcome \<times> 'w" where
  "poll_active F D sp now_ms c due updated active p w =
     (case sp_capture sp w of
        (w1, Inl _) \<Rightarrow>
          (case mark_inactive p now_ms active NoReadableSample of
             (q, out) \<Rightarrow> (q, \<lparr>pu_due_trackers = due, pu_screen_samples = 0,
                             pu_updated = updated @ pu_updated out, pu_sample = None\<rparr>, w1))
      | (w1, Inr s) \<Rightarrow>
          (case sp_scale sp s c w1 of
             (w2, scale) \<Rightarrow>
               (case foldl (poll_tracker F D now_ms s scale) (p, updated) active of
                  (q, updated') \<Rightarrow>
                    (q, \<lparr>pu_due_trackers = due, pu_screen_samples = 1, pu_updated = updated',
                         pu_sample = Some (sample_diagnostic s)\<rparr>, w2))))"

definition poll_due ::
  "'f float_ops \<Rightarrow> 'd float_ops \<Rightarrow> ('w, 'd) sample_provider \<Rightarrow> (nat \<Rightarrow> instant) \<Rightarrow> nat
   \<Rightarrow> capability_report \<Rightarrow> active_process_context \<Rightarrow> 'f tracker_poller \<Rightarrow> 'w
   \<Rightarrow> 'f tracker_poller \<times> poll_outcome \<times> 'w" where
  "poll_due F D sp clock now_ms capabilities c p w =
     (let ids = due_ids p now_ms
      in if ids = []
         then (p, \<lparr>pu_due_trackers = 0, pu_screen_samples = 0, pu_updated = [], pu_sample = None\<rparr>, w)
         else case screen_read_denial capabilities of
                Some reason \<Rightarrow>
                  (case mark_inactive p now_ms ids reason of (q, out) \<Rightarrow> (q, out, w))
              | None \<Rightarrow>
                  (case split_by_focus (tk_trackers (po_trackers p)) c clock 0 ids of
                     (active, inactive) \<Rightarrow>
                       (case (if inactive = [] then (p, [])
                              else (case mark_inactive p now_ms inactive FocusInactive of
                                      (q, out) \<Rightarrow> (q, pu_updated out))) of
                          (p1, updated) \<Rightarrow>
                            if active = []
                            then (p1, \<lparr>pu_due_trackers = length ids, pu_screen_samples = 0,
                                       pu_updated = updated, pu_sample = None\<rparr>, w)
                            else poll_active F D sp now_ms c (length ids) updated active p1 w)))"

definition screen_read_denied_report :: "string \<Rightarrow> capability_report" where
  "screen_read_denied_report message = report_from_statuses
     [status_unavailable ScreenRead capability_availability.Denied
        (ad_with_capability ScreenRead (adapter_diagnostic_new CapabilityProbe message))]"

end
