(* ===== verification/LuaRuntime.thy ===== *)
theory LuaRuntime imports Controllers Effects begin

text \<open>
  \<open>signal-auras-lua/src/runtime.rs\<close>: the requests a Lua callback yields to the host, the execution
  budget, and the controller that starts and resumes callbacks as coroutines. The interpreter is
  the package \<open>mlua\<close>: its calls are the fields of a record over a world of any type, its errors
  are their messages.
\<close>

section \<open>Requests and responses\<close>

datatype lua_log_level = Debug | Info | Warn

definition log_level_parse :: "string \<Rightarrow> lua_log_level result" where
  "log_level_parse level =
     (let v = trim level
      in if v = ''debug'' then Ok Debug
         else if v = ''info'' then Ok Info
         else if v = ''warn'' \<or> v = ''warning'' then Ok Warn
         else Err (diagnosable_error_new ScriptValidation
                (''unsupported Lua log level '' @ [CHR 0x27] @ v @ [CHR 0x27])))"

datatype lua_host_request =
    Sleep nat
  | Log lua_log_level string
  | ActiveWindow bool
  | FindWindow "string list"
  | ActivateWindow string
  | WaitActive string nat
  | Input macro_action

definition required_capability :: "lua_host_request \<Rightarrow> capability_kind option" where
  "required_capability request =
     (case request of
        Sleep _ \<Rightarrow> Some capability_kind.Timer
      | Log _ _ \<Rightarrow> None
      | ActiveWindow _ \<Rightarrow> Some capability_kind.ActiveWindowMetadata
      | FindWindow _ \<Rightarrow> Some capability_kind.WindowActivation
      | ActivateWindow _ \<Rightarrow> Some capability_kind.WindowActivation
      | WaitActive _ _ \<Rightarrow> Some capability_kind.WindowActivation
      | Input _ \<Rightarrow> Some capability_kind.SynthesizedInput)"

record active_window_metadata =
  aw_title :: "string option"

datatype lua_host_response =
    Unit
  | Bool bool
  | WindowMetadata active_window_metadata
  | WindowHandle "string option"

datatype lua_callback_step = Yielded lua_host_request | Complete | Preempted

section \<open>The budget\<close>

record lua_execution_budget =
  lb_max_active_duration :: duration
  lb_hook_instruction_interval :: nat

definition default_hook_instruction_interval :: nat where
  "default_hook_instruction_interval = 1000"

definition execution_budget_new :: "duration \<Rightarrow> nat \<Rightarrow> lua_execution_budget result" where
  "execution_budget_new max_active interval =
     (if max_active = 0
      then Err (diagnosable_error_new ScriptValidation
             ''Lua callback execution budget must be greater than zero'')
      else if interval = 0
      then Err (diagnosable_error_new ScriptValidation
             ''Lua callback hook instruction interval must be greater than zero'')
      else Ok \<lparr>lb_max_active_duration = max_active, lb_hook_instruction_interval = interval\<rparr>)"

definition with_default_hook_interval :: "duration \<Rightarrow> lua_execution_budget result" where
  "with_default_hook_interval max_active =
     execution_budget_new max_active default_hook_instruction_interval"

definition execution_budget_default :: lua_execution_budget where
  "execution_budget_default =
     \<lparr>lb_max_active_duration = default_lua_callback_budget,
      lb_hook_instruction_interval = default_hook_instruction_interval\<rparr>"

section \<open>The interpreter\<close>

text \<open>
  \<open>ml_resume co v deadline interval\<close> resumes a coroutine with a hook that fires once the clock has
  reached the deadline, every \<open>interval\<close> instructions; it says whether the hook fired and whether
  the error that ended the run is the one the hook raised.
\<close>

datatype 'v resume_outcome = Returned 'v | Raised (hook_error: bool) string

record ('w, 'fn, 'co, 'v) mlua =
  ml_now :: "'w \<Rightarrow> 'w \<times> instant"
  ml_create_thread :: "'fn \<Rightarrow> 'w \<Rightarrow> 'w \<times> (string + 'co)"
  ml_finished :: "'co \<Rightarrow> 'w \<Rightarrow> bool"
  ml_resume :: "'co \<Rightarrow> 'v \<Rightarrow> instant \<Rightarrow> nat \<Rightarrow> 'w \<Rightarrow> 'w \<times> bool \<times> 'v resume_outcome"
  ml_nil :: 'v
  ml_boolean :: "bool \<Rightarrow> 'v"
  ml_create_string :: "string \<Rightarrow> 'w \<Rightarrow> 'w \<times> (string + 'v)"
  ml_create_title_table :: "string option \<Rightarrow> 'w \<Rightarrow> 'w \<times> (string + 'v)"
  ml_is_table :: "'v \<Rightarrow> bool"
  ml_get_value :: "'v \<Rightarrow> string \<Rightarrow> 'w \<Rightarrow> 'w \<times> (string + 'v)"
  ml_get_string :: "'v \<Rightarrow> string \<Rightarrow> 'w \<Rightarrow> 'w \<times> (string + string)"
  ml_get_u64 :: "'v \<Rightarrow> string \<Rightarrow> 'w \<Rightarrow> 'w \<times> (string + nat)"
  ml_get_optional_bool :: "'v \<Rightarrow> string \<Rightarrow> 'w \<Rightarrow> 'w \<times> (string + bool option)"
  ml_get_optional_string :: "'v \<Rightarrow> string \<Rightarrow> 'w \<Rightarrow> 'w \<times> (string + string option)"
  ml_sequence :: "'v \<Rightarrow> 'w \<Rightarrow> 'w \<times> (string + string) list"

type_synonym ('w, 'a) lua_effect = "('w, diagnosable_error, 'a) effect"

definition lua_error :: "string \<Rightarrow> diagnosable_error" where
  "lua_error message = diagnosable_error_new ScriptValidation message"

text \<open>\<open>map_err(lua_error)?\<close> after a call of the interpreter.\<close>

definition lua_try :: "('w \<Rightarrow> 'w \<times> (string + 'a)) \<Rightarrow> ('w, 'a) lua_effect" where
  "lua_try f = stry (\<lambda>w. case f w of (w', r) \<Rightarrow>
     (w', case r of Inl message \<Rightarrow> Err (lua_error message) | Inr a \<Rightarrow> Ok a))"

definition of_result :: "'a result \<Rightarrow> ('w, 'a) lua_effect" where
  "of_result r = (case r of Inl e \<Rightarrow> sfail e | Inr a \<Rightarrow> sreturn a)"

definition string_array :: "('w, 'fn, 'co, 'v) mlua \<Rightarrow> 'v \<Rightarrow> ('w, string list) lua_effect" where
  "string_array M v = stry (\<lambda>w. case ml_sequence M v w of (w', rs) \<Rightarrow>
     (w', collect_results
       (\<lambda>r. case r of Inl message \<Rightarrow> Err (lua_error message) | Inr s \<Rightarrow> Ok s) rs))"

definition lua_response ::
  "('w, 'fn, 'co, 'v) mlua \<Rightarrow> lua_host_response \<Rightarrow> ('w, 'v) lua_effect" where
  "lua_response M response =
     (case response of
        Unit \<Rightarrow> sreturn (ml_nil M)
      | Bool b \<Rightarrow> sreturn (ml_boolean M b)
      | WindowHandle (Some handle) \<Rightarrow> lua_try (ml_create_string M handle)
      | WindowHandle None \<Rightarrow> sreturn (ml_nil M)
      | WindowMetadata metadata \<Rightarrow> lua_try (ml_create_title_table M (aw_title metadata)))"

definition input_request ::
  "('w, 'fn, 'co, 'v) mlua \<Rightarrow> 'v \<Rightarrow> string \<Rightarrow> (string \<Rightarrow> macro_action result)
   \<Rightarrow> ('w, lua_host_request) lua_effect" where
  "input_request M table field action =
     sbind (lua_try (ml_get_string M table field)) (\<lambda>s.
     sbind (of_result (action s)) (\<lambda>a. sreturn (Input a)))"

definition parse_host_request ::
  "('w, 'fn, 'co, 'v) mlua \<Rightarrow> 'v \<Rightarrow> ('w, lua_host_request) lua_effect" where
  "parse_host_request M v =
     (if \<not> ml_is_table M v
      then sfail (diagnosable_error_new ScriptValidation
             ''Lua callback yielded an unsupported host request'')
      else sbind (lua_try (ml_get_string M v ''op'')) (\<lambda>op.
        if op = ''sleep'' then
          sbind (lua_try (ml_get_u64 M v ''ms'')) (\<lambda>ms. sreturn (Sleep ms))
        else if op = ''log'' then
          sbind (lua_try (ml_get_string M v ''level'')) (\<lambda>l.
          sbind (of_result (log_level_parse l)) (\<lambda>level.
          sbind (lua_try (ml_get_string M v ''message'')) (\<lambda>m. sreturn (Log level m))))
        else if op = ''window_active'' then
          sbind (lua_try (ml_get_optional_bool M v ''title'')) (\<lambda>t.
            sreturn (ActiveWindow (case t of None \<Rightarrow> False | Some b \<Rightarrow> b)))
        else if op = ''window_find'' then
          sbind (lua_try (ml_get_value M v ''processes'')) (\<lambda>ps.
            if ml_is_table M ps
            then sbind (string_array M ps) (\<lambda>names. sreturn (FindWindow names))
            else sreturn (FindWindow []))
        else if op = ''window_activate'' then
          sbind (lua_try (ml_get_string M v ''handle'')) (\<lambda>h. sreturn (ActivateWindow h))
        else if op = ''window_wait_active'' then
          sbind (lua_try (ml_get_string M v ''handle'')) (\<lambda>h.
          sbind (lua_try (ml_get_u64 M v ''timeout_ms'')) (\<lambda>ms. sreturn (WaitActive h ms)))
        else if op = ''input_key'' then input_request M v ''key'' macro_key
        else if op = ''input_text'' then input_request M v ''text'' macro_text
        else if op = ''input_key_down'' then input_request M v ''key'' macro_key_down
        else if op = ''input_key_up'' then input_request M v ''key'' macro_key_up
        else if op = ''input_mouse_click'' then
          input_request M v ''button''
            (\<lambda>s. rbind (mouse_button_parse s) (\<lambda>b. Ok (macro_mouse_click b)))
        else sfail (diagnosable_error_new ScriptValidation
               (''unsupported Lua host request '' @ [CHR 0x27] @ op @ [CHR 0x27]))))"

section \<open>The controller\<close>

record 'fn imperative_controller =
  ic_registrations :: registration_set
  ic_callbacks :: "(string \<times> 'fn) list"

definition start_callback ::
  "('w, 'fn, 'co, 'v) mlua \<Rightarrow> 'fn imperative_controller \<Rightarrow> string \<Rightarrow> ('w, 'co) lua_effect" where
  "start_callback M ic name =
     (case bm_get (ic_callbacks ic) name of
        None \<Rightarrow> sfail (diagnosable_error_new ScriptValidation
                  (''Lua callback '' @ [CHR 0x27] @ name @ [CHR 0x27] @ '' is not defined''))
      | Some f \<Rightarrow> lua_try (ml_create_thread M f))"

text \<open>The declared capabilities are checked before the request is handed to the host.\<close>

definition declared_request ::
  "capability_set \<Rightarrow> lua_host_request \<Rightarrow> lua_callback_step result" where
  "declared_request capabilities request =
     (case required_capability request of
        None \<Rightarrow> Ok (Yielded request)
      | Some required \<Rightarrow>
          if \<not> capability_set_contains capabilities required
          then Err (with_capability (legacy_capability required)
                 (diagnosable_error_new CapabilityProbe
                   (''Lua host API requires capability '' @ [CHR 0x27]
                     @ show_capability_kind required @ [CHR 0x27])))
          else Ok (Yielded request))"

definition resume_callback_with_budget ::
  "('w, 'fn, 'co, 'v) mlua \<Rightarrow> 'co \<Rightarrow> lua_host_response \<Rightarrow> capability_set \<Rightarrow> lua_execution_budget
   \<Rightarrow> ('w, lua_callback_step) lua_effect" where
  "resume_callback_with_budget M co response capabilities budget =
     sbind (sget (ml_finished M co)) (\<lambda>finished.
       if finished then sreturn Complete
       else
         sbind (lua_response M response) (\<lambda>v.
         sbind (srun (ml_now M)) (\<lambda>now.
         sbind (srun (\<lambda>w. ml_resume M co v (now + lb_max_active_duration budget)
                            (lb_hook_instruction_interval budget) w)) (\<lambda>(fired, outcome).
           case outcome of
             Raised hook message \<Rightarrow>
               if fired \<and> hook then sreturn Preempted else sfail (lua_error message)
           | Returned value \<Rightarrow>
               sbind (sget (ml_finished M co)) (\<lambda>finished.
                 if finished then sreturn Complete
                 else sbind (parse_host_request M value) (\<lambda>request.
                        of_result (declared_request capabilities request)))))))"

definition resume_callback ::
  "('w, 'fn, 'co, 'v) mlua \<Rightarrow> 'co \<Rightarrow> lua_host_response \<Rightarrow> capability_set
   \<Rightarrow> ('w, lua_callback_step) lua_effect" where
  "resume_callback M co response capabilities =
     resume_callback_with_budget M co response capabilities execution_budget_default"

section \<open>Registration tables\<close>

text \<open>What a script says of a registration, read from the table it passes.\<close>

definition parse_capability_name :: "string \<Rightarrow> capability_kind result" where
  "parse_capability_name name =
     (case List.find (\<lambda>k. show_capability_kind k = trim name)
        [GlobalShortcut, CompositePointerObservation, CompositePointerConsumption,
         ActiveProcessMetadata, capability_kind.ActiveWindowMetadata, WindowActivation,
         SynthesizedInput, capability_kind.Timer, ScreenRead] of
        Some k \<Rightarrow> Ok k
      | None \<Rightarrow> Err (diagnosable_error_new ScriptValidation
          (''unknown Lua controller capability '' @ [CHR 0x27] @ trim name @ [CHR 0x27])))"

definition fallback_required_capabilities ::
  "controller_registration_kind \<Rightarrow> binding_mode \<Rightarrow> scope_selection \<Rightarrow> capability_set" where
  "fallback_required_capabilities kind mode scope = capability_set_new
     ((case kind of
         Hotkey \<Rightarrow> [GlobalShortcut]
       | Motion \<Rightarrow> CompositePointerObservation
           # (if mode = Consume then [CompositePointerConsumption] else [])
       | Press \<Rightarrow> CompositePointerObservation
           # (if mode = Consume then [CompositePointerConsumption] else [])
       | controller_registration_kind.Timer \<Rightarrow> [capability_kind.Timer]
       | controller_registration_kind.Shutdown \<Rightarrow> [])
      @ (case scope of ProcessList _ \<Rightarrow> [ActiveProcessMetadata] | ExplicitGlobal \<Rightarrow> []))"

definition or_empty :: "('w, 'a list) lua_effect \<Rightarrow> ('w, 'a list) lua_effect" where
  "or_empty m w = (case m w of Some (w', Inl _) \<Rightarrow> Some (w', Inr []) | r \<Rightarrow> r)"

definition parse_scope_field ::
  "('w, 'fn, 'co, 'v) mlua \<Rightarrow> 'v \<Rightarrow> ('w, scope_selection) lua_effect" where
  "parse_scope_field M v =
     (if \<not> ml_is_table M v then sreturn ExplicitGlobal
      else sbind (lua_try (ml_get_optional_bool M v ''global'')) (\<lambda>g.
        if g = Some True then sreturn ExplicitGlobal
        else sbind (lua_try (ml_get_value M v ''processes'')) (\<lambda>ps.
             sbind (if ml_is_table M ps
                    then sbind (or_empty (string_array M ps)) (\<lambda>names.
                           of_result (collect_results process_name_parse names))
                    else sreturn []) (\<lambda>processes.
               if processes = [] then sreturn ExplicitGlobal
               else of_result (scope_process_list processes)))))"

definition explicit_capabilities ::
  "('w, 'fn, 'co, 'v) mlua \<Rightarrow> 'v \<Rightarrow> ('w, capability_set option) lua_effect" where
  "explicit_capabilities M table =
     sbind (lua_try (ml_get_value M table ''capabilities'')) (\<lambda>v.
       if ml_is_table M v
       then sbind (string_array M v) (\<lambda>names.
            sbind (of_result (collect_results parse_capability_name names)) (\<lambda>kinds.
              sreturn (Some (capability_set_new kinds))))
       else sreturn None)"

definition parse_registration_table ::
  "('w, 'fn, 'co, 'v) mlua \<Rightarrow> controller_registration_kind \<Rightarrow> 'v
   \<Rightarrow> ('w, controller_registration) lua_effect" where
  "parse_registration_table M kind table =
     sbind (lua_try (ml_get_optional_string M table ''trigger'')) (\<lambda>t.
     sbind (lua_try (ml_get_optional_string M table ''callback'')) (\<lambda>c.
     sbind (lua_try (ml_get_optional_string M table ''handler'')) (\<lambda>h.
     sbind (of_result (case (case c of Some _ \<Rightarrow> c | None \<Rightarrow> h) of
              None \<Rightarrow> Err (diagnosable_error_new ScriptValidation ''controller callback is required'')
            | Some name \<Rightarrow> Ok name)) (\<lambda>callback.
     sbind (lua_try (ml_get_optional_string M table ''mode'')) (\<lambda>m.
     sbind (of_result (binding_mode_parse m)) (\<lambda>mode.
     sbind (lua_try (ml_get_value M table ''scope'')) (\<lambda>s.
     sbind (parse_scope_field M s) (\<lambda>scope.
     sbind (explicit_capabilities M table) (\<lambda>explicit.
     sbind (lua_try (ml_get_value M table ''requires_held'')) (\<lambda>held.
     sbind (if ml_is_table M held
            then sbind (or_empty (string_array M held)) (\<lambda>names.
                   of_result (held_condition_parse names))
            else of_result (held_condition_new [])) (\<lambda>requires_held.
     sbind (of_result (registration_new kind
              (case t of Some v \<Rightarrow> v
               | None \<Rightarrow> if kind = controller_registration_kind.Shutdown then ''shutdown'' else [])
              scope mode callback
              (case explicit of Some required \<Rightarrow> required
               | None \<Rightarrow> fallback_required_capabilities kind mode scope))) (\<lambda>r.
       sreturn (with_requires_held requires_held r)))))))))))))"

end
