(* ===== verification/LiveOverlays.thy ===== *)
theory LiveOverlays imports ControllerPrograms Polling LuaRuntime Runner begin

text \<open>
  What the live loop of a controller keeps beside the core of \<open>LiveState\<close>, and two of its parts in
  \<open>signal-auras-cli/src/runner.rs\<close>: the overlays a user has hidden with a toggle hotkey
  (\<open>OverlayToggleRuntime\<close>), and the polling of the screen state trackers with the overlays that are
  drawn from them (\<open>LiveStateTrackerRuntime\<close>, \<open>poll_live_state_trackers\<close>, \<open>poll_live_overlays\<close>).
\<close>

section \<open>The adapter and the state\<close>

text \<open>
  \<open>ca_clock\<close> gives the reads of the clock that one poll or one round of snapshots makes. The window
  calls are those of \<open>ControllerHost\<close>.
\<close>

record ('w, 'f, 'd) controller_adapter =
  ca_live :: "('w, 'f tracker_definition) live_adapter"
  ca_f32 :: "'f float_ops"
  ca_f64 :: "'d float_ops"
  ca_clock :: "'w \<Rightarrow> 'w \<times> (nat \<Rightarrow> instant)"
  ca_samples :: "('w, 'd) sample_provider"
  ca_overlay_provider_report :: "'w \<Rightarrow> 'w \<times> overlay_provider_report"
  ca_render_overlay_snapshot :: "'f overlay_snapshot \<Rightarrow> 'w \<Rightarrow> 'w \<times> unit result"
  ca_sleep :: "duration \<Rightarrow> 'w \<Rightarrow> 'w \<times> unit result"
  ca_active_window :: "bool \<Rightarrow> 'w \<Rightarrow> 'w \<times> active_window_metadata result"
  ca_find_window :: "string list \<Rightarrow> 'w \<Rightarrow> 'w \<times> string option result"
  ca_activate_window :: "string \<Rightarrow> 'w \<Rightarrow> 'w \<times> bool result"
  ca_wait_active_window :: "string \<Rightarrow> duration \<Rightarrow> 'w \<Rightarrow> 'w \<times> bool result"

record 'f live_tracker_runtime =
  lt_poller :: "'f tracker_poller"
  lt_last_summaries :: "(string \<times> string) list"
  lt_last_focus_denials :: "(string \<times> string) list"

text \<open>\<open>PendingControllerCallback\<close> of \<open>runner/controller.rs\<close>.\<close>

record 'co pending_callback =
  pk_task :: lua_callback_task
  pk_coroutine :: 'co
  pk_response :: lua_host_response
  pk_ready_at :: instant
  pk_elapsed :: duration

record ('w, 'f, 'co) controller_state = "('w, 'f tracker_definition) live_core" +
  cs_scheduler :: callback_scheduler
  cs_continuations :: "'co pending_callback list"
  cs_trackers :: "'f live_tracker_runtime option"
  cs_hidden_overlays :: "string set"

type_synonym ('w, 'f, 'co, 'a) controller_effect =
  "(('w, 'f, 'co) controller_state, diagnosable_error, 'a) effect"

section \<open>Overlay toggles\<close>

record overlay_toggle_handling =
  oh_handled :: bool
  oh_consumed :: bool

definition toggle_unhandled :: overlay_toggle_handling where
  "toggle_unhandled = \<lparr>oh_handled = False, oh_consumed = False\<rparr>"

definition overlay_toggle_label :: "'f overlay_definition \<Rightarrow> string" where
  "overlay_toggle_label ov = ''overlay '' @ od_id ov @ '' toggle''"

text \<open>A hidden overlay is shown again; a shown one is hidden and taken from the screen.\<close>

definition flip_overlay ::
  "('w, 'f, 'd) controller_adapter \<Rightarrow> string \<Rightarrow> ('w, 'f, 'co, unit) controller_effect" where
  "flip_overlay A i = sbind (sget (\<lambda>s. i \<in> cs_hidden_overlays s)) (\<lambda>hidden.
     if hidden
     then supd (\<lambda>s. s\<lparr>cs_hidden_overlays := cs_hidden_overlays s - {i}\<rparr>)
     else sthen (supd (\<lambda>s. s\<lparr>cs_hidden_overlays := insert i (cs_hidden_overlays s)\<rparr>))
            (world_try (ad_cleanup_overlay (ca_live A) i)))"

definition toggle_overlay ::
  "('w, 'f, 'd) controller_adapter \<Rightarrow> 'f overlay_definition \<Rightarrow> active_process_context
   \<Rightarrow> ('w, 'f, 'co, overlay_toggle_handling) controller_effect" where
  "toggle_overlay A ov c =
     (case od_toggle_hotkey ov of
        None \<Rightarrow> sreturn toggle_unhandled
      | Some toggle \<Rightarrow>
          sbind (focus_state (ca_live A) (od_scope ov) c) (\<lambda>state.
            if \<not> sf_active state
            then sthen (count_denial state) (sreturn \<lparr>oh_handled = True, oh_consumed = False\<rparr>)
            else sthen (count (count_trigger (overlay_toggle_label ov) (ot_mode toggle)))
              (sthen (flip_overlay A (od_id ov))
                 (sreturn \<lparr>oh_handled = True, oh_consumed = (ot_mode toggle = Consume)\<rparr>))))"

definition toggle_handle_shortcut ::
  "('w, 'f, 'd) controller_adapter \<Rightarrow> 'f controller_program \<Rightarrow> hotkey_id
   \<Rightarrow> ('w, 'f, 'co, overlay_toggle_handling) controller_effect" where
  "toggle_handle_shortcut A p h =
     (case overlay_for_toggle_hotkey p h of
        None \<Rightarrow> sreturn toggle_unhandled
      | Some ov \<Rightarrow>
          sbind (world_try (ad_active_process_context (ca_live A))) (\<lambda>c. toggle_overlay A ov c))"

definition toggle_handle_observed_input ::
  "('w, 'f, 'd) controller_adapter \<Rightarrow> 'f controller_program \<Rightarrow> motion_input_event
   \<Rightarrow> ('w, 'f, 'co, overlay_toggle_handling) controller_effect" where
  "toggle_handle_observed_input A p ev =
     sbind (sget (\<lambda>s. List.find (overlay_toggle_matches_input ev (lc_motion_runtime s))
                        (ol_overlays (cp_overlays p)))) (\<lambda>found.
       case found of
         None \<Rightarrow> sreturn toggle_unhandled
       | Some ov \<Rightarrow>
           sbind (world_try (ad_active_process_context (ca_live A))) (\<lambda>c. toggle_overlay A ov c))"

section \<open>Tracker updates and their log levels\<close>

fun show_radial_phase :: "radial_cooldown_phase \<Rightarrow> string" where
  "show_radial_phase radial_cooldown_phase.Ready = ''Ready''"
| "show_radial_phase radial_cooldown_phase.Activated = ''Activated''"
| "show_radial_phase radial_cooldown_phase.Active = ''Active''"
| "show_radial_phase radial_cooldown_phase.Recovering = ''Recovering''"
| "show_radial_phase radial_cooldown_phase.Unknown = ''Unknown''"

fun show_inactive_reason :: "tracker_inactive_reason \<Rightarrow> string" where
  "show_inactive_reason ScreenReadDenied = ''ScreenReadDenied''"
| "show_inactive_reason ScreenReadUnsupported = ''ScreenReadUnsupported''"
| "show_inactive_reason tracker_inactive_reason.FocusInactive = ''FocusInactive''"
| "show_inactive_reason ConditionInactive = ''ConditionInactive''"
| "show_inactive_reason NoReadableSample = ''NoReadableSample''"

definition show_bool :: "bool \<Rightarrow> string" where
  "show_bool b = (if b then ''true'' else ''false'')"

definition show_option_nat :: "nat option \<Rightarrow> string" where
  "show_option_nat v =
     (case v of None \<Rightarrow> ''None'' | Some n \<Rightarrow> ''Some('' @ show_nat n @ '')'')"

definition tracker_summary :: "tracker_state \<Rightarrow> string" where
  "tracker_summary st =
     (case st of
        RadialState r \<Rightarrow> ''radial_cooldown phase='' @ show_radial_phase (rd_phase r)
          @ '' ready='' @ show_bool (rd_ready r)
          @ '' fraction='' @ show_nat (rd_cooldown_fraction r)
          @ '' remaining_ms='' @ show_option_nat (rd_remaining_ms r)
          @ '' predicted_remaining_ms='' @ show_option_nat (rd_predicted_remaining_ms r)
          @ '' confidence='' @ show_nat (rd_confidence r)
      | ProgressState p \<Rightarrow> ''horizontal_progress_bar visible='' @ show_bool (pg_visible p)
          @ '' progress='' @ show_nat (pg_progress_percent p)
          @ '' confidence='' @ show_nat (pg_confidence p)
      | InactiveState i \<Rightarrow> ''inactive reason='' @ show_inactive_reason (in_reason i)
          @ '' confidence='' @ show_nat (in_confidence i))"

datatype state_tracker_update_log_level = Info | Trace

definition live_tracker_runtime_new :: "'f tracker_poller \<Rightarrow> 'f live_tracker_runtime" where
  "live_tracker_runtime_new p =
     \<lparr>lt_poller = p, lt_last_summaries = [], lt_last_focus_denials = []\<rparr>"

definition log_level_for_update ::
  "'f live_tracker_runtime \<Rightarrow> string \<Rightarrow> tracker_state
   \<Rightarrow> 'f live_tracker_runtime \<times> state_tracker_update_log_level" where
  "log_level_for_update lt i st =
     (let unchanged = bm_get (lt_last_summaries lt) i = Some (tracker_summary st);
          is_inactive = (case st of InactiveState _ \<Rightarrow> True | _ \<Rightarrow> False)
      in (lt\<lparr>lt_last_summaries := bm_insert i (tracker_summary st) (lt_last_summaries lt)\<rparr>,
          if unchanged \<or> \<not> is_inactive then Trace else Info))"

definition focus_denial_changed ::
  "'f live_tracker_runtime \<Rightarrow> string \<Rightarrow> string \<Rightarrow> 'f live_tracker_runtime \<times> bool" where
  "focus_denial_changed lt i denial =
     (lt\<lparr>lt_last_focus_denials := bm_insert i denial (lt_last_focus_denials lt)\<rparr>,
      bm_get (lt_last_focus_denials lt) i \<noteq> Some denial)"

section \<open>Polling\<close>

definition on_trackers ::
  "('f live_tracker_runtime \<Rightarrow> 'f live_tracker_runtime) \<Rightarrow> ('w, 'f, 'co, unit) controller_effect" where
  "on_trackers f = supd (\<lambda>s. s\<lparr>cs_trackers := map_option f (cs_trackers s)\<rparr>)"

text \<open>What the loop over the updated trackers keeps; its lines of the log are left out.\<close>

definition note_update ::
  "('w, 'f, 'd) controller_adapter \<Rightarrow> 'f controller_program \<Rightarrow> active_process_context \<Rightarrow> string
   \<Rightarrow> ('w, 'f, 'co, unit) controller_effect" where
  "note_update A p c i =
     sbind (sget (\<lambda>s. Option.bind (cs_trackers s) (\<lambda>lt. latest_state (lt_poller lt) i))) (\<lambda>latest.
       case latest of
         None \<Rightarrow> sreturn ()
       | Some st \<Rightarrow>
           sthen (on_trackers (\<lambda>lt. fst (log_level_for_update lt i st)))
             (case (st, find_tracker (tk_trackers (cp_state_trackers p)) i) of
                (InactiveState ina, Some t) \<Rightarrow>
                  if in_reason ina = tracker_inactive_reason.FocusInactive
                  then sbind (focus_state (ca_live A) (td_scope t) c) (\<lambda>state.
                         on_trackers (\<lambda>lt. fst (focus_denial_changed lt i (transition_fields state))))
                  else sreturn ()
              | _ \<Rightarrow> sreturn ()))"

definition overlay_snapshots_now ::
  "('w, 'f, 'd) controller_adapter \<Rightarrow> 'f controller_program \<Rightarrow> capability_report
   \<Rightarrow> active_process_context \<Rightarrow> ('w, 'f, 'co, 'f overlay_snapshot list) controller_effect" where
  "overlay_snapshots_now A p cap c =
     sbind (world_call (ca_overlay_provider_report A)) (\<lambda>providers.
     sbind (world_call (ca_clock A)) (\<lambda>clock.
       sget (\<lambda>s. snapshots_with_hidden (ca_f32 A) clock (cp_overlays p) cap c
         (case cs_trackers s of None \<Rightarrow> [] | Some lt \<Rightarrow> po_latest (lt_poller lt))
         providers (cs_hidden_overlays s))))"

definition poll_live_overlays ::
  "('w, 'f, 'd) controller_adapter \<Rightarrow> 'f controller_program \<Rightarrow> capability_report
   \<Rightarrow> active_process_context \<Rightarrow> ('w, 'f, 'co, unit) controller_effect" where
  "poll_live_overlays A p cap c =
     (if ol_overlays (cp_overlays p) = [] then sreturn ()
      else sbind (overlay_snapshots_now A p cap c)
             (seach (\<lambda>sn. world_try (ca_render_overlay_snapshot A sn))))"

definition elapsed_ms :: "instant \<Rightarrow> instant \<Rightarrow> nat" where
  "elapsed_ms base now = as_millis (now - base) mod (u64_max + 1)"

text \<open>The call of \<open>poll_due\<close>; it returns the outcome.\<close>

definition poll_trackers_now ::
  "('w, 'f, 'd) controller_adapter \<Rightarrow> capability_report \<Rightarrow> active_process_context \<Rightarrow> nat
   \<Rightarrow> ('w, 'f, 'co, poll_outcome option) controller_effect" where
  "poll_trackers_now A cap c now_ms =
     sbind (world_call (ca_clock A)) (\<lambda>clock. srun (\<lambda>s.
       case cs_trackers s of
         None \<Rightarrow> (s, None)
       | Some lt \<Rightarrow>
           (case poll_due (ca_f32 A) (ca_f64 A) (ca_samples A) clock now_ms cap c (lt_poller lt)
                   (lc_world s) of
              (q, out, w) \<Rightarrow>
                (s\<lparr>cs_trackers := Some (lt\<lparr>lt_poller := q\<rparr>), lc_world := w\<rparr>, Some out))))"

definition poll_live_state_trackers ::
  "('w, 'f, 'd) controller_adapter \<Rightarrow> 'f controller_program \<Rightarrow> capability_report \<Rightarrow> instant
   \<Rightarrow> ('w, 'f, 'co, unit) controller_effect" where
  "poll_live_state_trackers A p cap time_base =
     sbind (sget cs_trackers) (\<lambda>trackers.
       case trackers of
         None \<Rightarrow> sreturn ()
       | Some lt \<Rightarrow>
           sbind (read_now (ca_live A)) (\<lambda>now.
             let now_ms = elapsed_ms time_base now
             in case next_due_in_ms (lt_poller lt) now_ms of
                  None \<Rightarrow> sreturn ()
                | Some due_in_ms \<Rightarrow>
                    if 0 < due_in_ms then sreturn ()
                    else
                      sbind (world_try (ad_active_process_context (ca_live A))) (\<lambda>c.
                      sbind (poll_trackers_now A cap c now_ms) (\<lambda>out.
                        sthen (seach (note_update A p c)
                                 (case out of None \<Rightarrow> [] | Some ok \<Rightarrow> pu_updated ok))
                          (poll_live_overlays A p cap c)))))"

definition next_live_state_tracker_wait_timeout ::
  "'f live_tracker_runtime option \<Rightarrow> instant \<Rightarrow> instant \<Rightarrow> duration" where
  "next_live_state_tracker_wait_timeout trackers time_base now =
     (case trackers of
        None \<Rightarrow> idle_wait_timeout
      | Some lt \<Rightarrow>
          (case next_due_in_ms (lt_poller lt) (elapsed_ms time_base now) of
             None \<Rightarrow> idle_wait_timeout | Some ms \<Rightarrow> from_millis ms))"

end
