(* ===== verification/ControllerTasks.thy ===== *)
theory ControllerTasks imports LiveOverlays begin

text \<open>
  \<open>signal-auras-cli/src/runner/controller.rs\<close>: the tasks of the callback scheduler are run, a
  coroutine that sleeps becomes a continuation and is resumed when it is ready, and a callback that
  has used up its budget is preempted.
\<close>

section \<open>Continuations\<close>

definition push_continuation :: "'co pending_callback \<Rightarrow> ('w, 'f, 'co, unit) controller_effect" where
  "push_continuation pc = supd (\<lambda>s. s\<lparr>cs_continuations := cs_continuations s @ [pc]\<rparr>)"

definition pop_ready_at ::
  "instant \<Rightarrow> 'co pending_callback list \<Rightarrow> 'co pending_callback list \<times> 'co pending_callback option" where
  "pop_ready_at now pcs =
     (case position (\<lambda>pc. pk_ready_at pc \<le> now) pcs of
        None \<Rightarrow> (pcs, None)
      | Some i \<Rightarrow> (remove_at i pcs, Some (pcs ! i)))"

definition pop_ready ::
  "('w, 'f, 'd) controller_adapter \<Rightarrow> ('w, 'f, 'co, 'co pending_callback option) controller_effect" where
  "pop_ready A = sbind (read_now (ca_live A)) (\<lambda>now. srun (\<lambda>s.
     case pop_ready_at now (cs_continuations s) of
       (pcs, pc) \<Rightarrow> (s\<lparr>cs_continuations := pcs\<rparr>, pc)))"

definition continuations_next_wait_timeout :: "'co pending_callback list \<Rightarrow> instant \<Rightarrow> duration" where
  "continuations_next_wait_timeout pcs now =
     (case map (\<lambda>pc. pk_ready_at pc - now) pcs of
        [] \<Rightarrow> idle_wait_timeout | d # ds \<Rightarrow> foldl min d ds)"

definition force_ready :: "instant \<Rightarrow> 'co pending_callback list \<Rightarrow> 'co pending_callback list" where
  "force_ready now pcs = map (\<lambda>pc. pc\<lparr>pk_ready_at := now\<rparr>) pcs"

fun cancel_continuations ::
  "'co pending_callback list \<Rightarrow> callback_scheduler \<Rightarrow> nat \<Rightarrow> callback_scheduler \<times> nat" where
  "cancel_continuations [] sch n = (sch, n)"
| "cancel_continuations (pc # pcs) sch n =
     (case scheduler_cancel_task sch (pk_task pc) of
        (sch', d) \<Rightarrow> cancel_continuations pcs sch' (if d = callback_disposition.Cancelled then n + 1 else n))"

section \<open>Requests of a callback\<close>

definition macro_execution_error :: "string \<Rightarrow> diagnosable_error" where
  "macro_execution_error message = diagnosable_error_new MacroExecution message"

text \<open>What an emission does to the counters, and the error it ends the callback with.\<close>

definition emission_outcome ::
  "input_emission \<Rightarrow> ('w, 'f, 'co, unit) controller_effect" where
  "emission_outcome e =
     (case e of
        input_emission.Emitted \<Rightarrow> count record_synthesized_input_emitted
      | input_emission.Denied \<Rightarrow> sthen (count record_synthesized_input_denied)
          (sfail (macro_execution_error ''controller synthesized input was denied''))
      | input_emission.Failed \<Rightarrow>
          sfail (macro_execution_error ''controller synthesized input failed'')
      | input_emission.Cancelled \<Rightarrow>
          sfail (diagnosable_error_new error_phase.Shutdown
            ''controller synthesized input was cancelled''))"

definition execute_lua_host_request ::
  "('w, 'f, 'd) controller_adapter \<Rightarrow> lua_host_request
   \<Rightarrow> ('w, 'f, 'co, lua_host_response) controller_effect" where
  "execute_lua_host_request A request =
     (case request of
        Sleep ms \<Rightarrow> sthen (world_try (ca_sleep A (from_millis ms))) (sreturn Unit)
      | Log _ _ \<Rightarrow> sreturn Unit
      | ActiveWindow title \<Rightarrow>
          sbind (world_try (ca_active_window A title)) (\<lambda>m. sreturn (WindowMetadata m))
      | FindWindow processes \<Rightarrow>
          sbind (world_try (ca_find_window A processes)) (\<lambda>h. sreturn (WindowHandle h))
      | ActivateWindow h \<Rightarrow>
          sbind (world_try (ca_activate_window A h)) (\<lambda>b. sreturn (Bool b))
      | WaitActive h ms \<Rightarrow>
          sbind (world_try (ca_wait_active_window A h (from_millis ms))) (\<lambda>b. sreturn (Bool b))
      | lua_host_request.Input action \<Rightarrow>
          sbind (world_try (ad_execute_input_request (ca_live A)
                   (synthesized_input_request_new action 0))) (\<lambda>e.
            sthen (emission_outcome e) (sreturn Unit)))"

section \<open>Running a callback\<close>

datatype 'co task_execution =
    Complete duration
  | Preempted duration
  | PendingSleep 'co lua_host_response instant duration

text \<open>An effect on the world alone, such as a call of the interpreter.\<close>

definition on_world :: "('w, 'a) lua_effect \<Rightarrow> ('w, 't, 'z, 'a) core_effect" where
  "on_world m s = map_option (\<lambda>(w, r). (s\<lparr>lc_world := w\<rparr>, r)) (m (lc_world s))"

text \<open>\<open>step?\<close> after the clock was read again: the error of the resumption is returned then.\<close>

definition on_world_result :: "('w, 'a) lua_effect \<Rightarrow> ('w, 't, 'z, 'a result) core_effect" where
  "on_world_result m s = map_option (\<lambda>(w, r). (s\<lparr>lc_world := w\<rparr>, Ok r)) (m (lc_world s))"

definition count_success :: "runtime_stats \<Rightarrow> runtime_stats" where
  "count_success st = st\<lparr>rs_macro_success_count := rs_macro_success_count st + 1\<rparr>"

definition count_blocked :: "runtime_stats \<Rightarrow> runtime_stats" where
  "count_blocked st =
     (let st' = record_permission_failure st
      in st'\<lparr>rs_denied_action_count := rs_denied_action_count st' + 1\<rparr>)"

definition request_blocked :: "capability_report \<Rightarrow> lua_host_request \<Rightarrow> diagnosable_error option" where
  "request_blocked cap request =
     Option.bind (required_capability request)
       (\<lambda>k. first_blocking_error cap (capability_set_new [k]))"

text \<open>
  The Lua runtime of a program: the interpreter and the controller loaded into it. One resumption
  reads the clock before and after it; the elapsed time is taken from the remaining budget.
\<close>

record ('w, 'fn, 'co, 'v) lua_runtime =
  lu_mlua :: "('w, 'fn, 'co, 'v) mlua"
  lu_controller :: "'fn imperative_controller"

definition timed_resume ::
  "('w, 'f, 'd) controller_adapter \<Rightarrow> ('w, 'fn, 'co, 'v) lua_runtime \<Rightarrow> 'co \<Rightarrow> lua_host_response
   \<Rightarrow> duration \<Rightarrow> ('w, 'f, 'co, duration \<times> lua_callback_step result) controller_effect" where
  "timed_resume A L co response remaining =
     sbind (check (with_default_hook_interval remaining)) (\<lambda>budget.
     sbind (read_now (ca_live A)) (\<lambda>started.
     sbind (on_world_result (resume_callback_with_budget (lu_mlua L) co response
              (rg_required (ic_registrations (lu_controller L))) budget)) (\<lambda>r.
     sbind (read_now (ca_live A)) (\<lambda>ended. sreturn (ended - started, r)))))"

partial_function (option) resume_imperative_controller_task ::
  "('w, 'f, 'd) controller_adapter \<Rightarrow> ('w, 'fn, 'co, 'v) lua_runtime \<Rightarrow> capability_report
   \<Rightarrow> 'co \<Rightarrow> lua_host_response \<Rightarrow> duration \<Rightarrow> duration
   \<Rightarrow> ('w, 'f, 'co, 'co task_execution) controller_effect" where
  "resume_imperative_controller_task A L cap co response remaining active_elapsed s =
     (if remaining = 0 then sreturn (task_execution.Preempted active_elapsed) s
      else sbind (timed_resume A L co response remaining) (\<lambda>tr s1.
        sbind (check (snd tr)) (\<lambda>step s2.
          case step of
            lua_callback_step.Complete \<Rightarrow>
              sthen (count count_success)
                (sreturn (task_execution.Complete (active_elapsed + fst tr))) s2
          | lua_callback_step.Preempted \<Rightarrow>
              sreturn (task_execution.Preempted (active_elapsed + fst tr)) s2
          | Yielded request \<Rightarrow>
              if remaining - fst tr = 0
              then sreturn (task_execution.Preempted (active_elapsed + fst tr)) s2
              else
                (case request_blocked cap request of
                   Some e \<Rightarrow> sthen (count count_blocked) (sfail e) s2
                 | None \<Rightarrow>
                     (case request of
                        Sleep ms \<Rightarrow>
                          sbind (read_now (ca_live A)) (\<lambda>now.
                            sreturn (PendingSleep co Unit (now + from_millis ms)
                              (active_elapsed + fst tr))) s2
                      | _ \<Rightarrow>
                          sbind (execute_lua_host_request A request) (\<lambda>response' s3.
                            resume_imperative_controller_task A L cap co response'
                              (remaining - fst tr) (active_elapsed + fst tr) s3) s2))) s1) s)"

definition execute_imperative_controller_task ::
  "('w, 'f, 'd) controller_adapter \<Rightarrow> ('w, 'fn, 'co, 'v) lua_runtime \<Rightarrow> capability_report
   \<Rightarrow> lua_callback_task \<Rightarrow> ('w, 'f, 'co, 'co task_execution) controller_effect" where
  "execute_imperative_controller_task A L cap task =
     sbind (on_world (start_callback (lu_mlua L) (lu_controller L) (tk_callback task))) (\<lambda>co.
       resume_imperative_controller_task A L cap co Unit (tk_budget task) 0)"

text \<open>The requests of a declarative callback, in the order of the batch.\<close>

definition execute_batch ::
  "('w, 'f, 'd) controller_adapter \<Rightarrow> synthesized_input_request list
   \<Rightarrow> ('w, 'f, 'co, unit) controller_effect" where
  "execute_batch A rs = seach (\<lambda>r.
     sbind (world_try (ad_execute_input_request (ca_live A) r)) emission_outcome) rs"

definition execute_declarative_task ::
  "('w, 'f, 'd) controller_adapter \<Rightarrow> controller_callback \<Rightarrow> capability_report \<Rightarrow> instant
   \<Rightarrow> ('w, 'f, 'co, 'co task_execution) controller_effect" where
  "execute_declarative_task A cb cap started =
     sbind (check (batch_new 256)) (\<lambda>b0.
       case queue_controller_callback_outputs cb cap b0 of
         (b, r) \<Rightarrow>
           sthen (check r)
          (sthen (count (record_output_queue_depth (of_nat (length (rb_requests b)))))
          (sthen (execute_batch A (snd (batch_drain b)))
          (sthen (count count_success)
             (sbind (read_now (ca_live A)) (\<lambda>now. sreturn (task_execution.Complete (now - started))))))))"

definition execute_controller_task ::
  "('w, 'f, 'd) controller_adapter \<Rightarrow> 'f controller_program \<Rightarrow> ('w, 'fn, 'co, 'v) lua_runtime option
   \<Rightarrow> capability_report \<Rightarrow> lua_callback_task \<Rightarrow> ('w, 'f, 'co, 'co task_execution) controller_effect" where
  "execute_controller_task A p runtime cap task =
     sbind (read_now (ca_live A)) (\<lambda>started.
       case program_callback p (tk_callback task) of
         None \<Rightarrow> sfail (diagnosable_error_new ScriptValidation
           (''controller callback '' @ quoted (tk_callback task) @ '' is unavailable''))
       | Some cb \<Rightarrow>
           (case (cb_actions cb, runtime) of
              ([], Some L) \<Rightarrow> execute_imperative_controller_task A L cap task
            | _ \<Rightarrow> execute_declarative_task A cb cap started))"

section \<open>Draining the callbacks\<close>

definition on_scheduler ::
  "(callback_scheduler \<Rightarrow> callback_scheduler) \<Rightarrow> ('w, 'f, 'co, unit) controller_effect" where
  "on_scheduler f = supd (\<lambda>s. s\<lparr>cs_scheduler := f (cs_scheduler s)\<rparr>)"

definition finish_task ::
  "lua_callback_task \<Rightarrow> duration \<Rightarrow> ('w, 'f, 'co, unit) controller_effect" where
  "finish_task task elapsed = on_scheduler (\<lambda>sch. fst (scheduler_finish_task sch task elapsed))"

definition record_preempted_callback ::
  "lua_callback_task \<Rightarrow> ('w, 'f, 'co, unit) controller_effect" where
  "record_preempted_callback task =
     sthen (on_scheduler (\<lambda>sch. fst (scheduler_preempt_task sch task)))
       (count (\<lambda>st. let st' = record_lua_callback_preempted st
                    in st'\<lparr>rs_macro_failure_count := rs_macro_failure_count st' + 1\<rparr>))"

text \<open>What follows the execution of a task that has run for \<open>before\<close> already.\<close>

definition settle_execution ::
  "lua_callback_task \<Rightarrow> duration \<Rightarrow> 'co task_execution \<Rightarrow> ('w, 'f, 'co, unit) controller_effect" where
  "settle_execution task before ex =
     (case ex of
        task_execution.Complete d \<Rightarrow> finish_task task (before + d)
      | task_execution.Preempted d \<Rightarrow> record_preempted_callback task
      | PendingSleep co response ready_at d \<Rightarrow>
          push_continuation \<lparr>pk_task = task, pk_coroutine = co, pk_response = response,
            pk_ready_at = ready_at, pk_elapsed = before + d\<rparr>)"

definition resume_pending ::
  "('w, 'f, 'd) controller_adapter \<Rightarrow> ('w, 'fn, 'co, 'v) lua_runtime option \<Rightarrow> capability_report
   \<Rightarrow> 'co pending_callback \<Rightarrow> ('w, 'f, 'co, unit) controller_effect" where
  "resume_pending A runtime cap pc =
     (case runtime of
        None \<Rightarrow> sfail (diagnosable_error_new ScriptValidation
          (''controller callback '' @ quoted (tk_callback (pk_task pc))
           @ '' has no imperative runtime''))
      | Some L \<Rightarrow>
          sbind (resume_imperative_controller_task A L cap (pk_coroutine pc) (pk_response pc)
                   (tk_budget (pk_task pc) - pk_elapsed pc) 0)
            (settle_execution (pk_task pc) (pk_elapsed pc)))"

partial_function (option) drain_ready_continuations ::
  "('w, 'f, 'd) controller_adapter \<Rightarrow> ('w, 'fn, 'co, 'v) lua_runtime option \<Rightarrow> capability_report
   \<Rightarrow> ('w, 'f, 'co, unit) controller_effect" where
  "drain_ready_continuations A runtime cap s =
     sbind (pop_ready A) (\<lambda>next_pc s1.
       case next_pc of
         None \<Rightarrow> sreturn () s1
       | Some pc \<Rightarrow>
           sthen (resume_pending A runtime cap pc)
             (\<lambda>s2. drain_ready_continuations A runtime cap s2) s1) s"

definition pop_task :: "('w, 'f, 'co, lua_callback_task option) controller_effect" where
  "pop_task = srun (\<lambda>s. case scheduler_pop_next (cs_scheduler s) of
     (sch, t) \<Rightarrow> (s\<lparr>cs_scheduler := sch\<rparr>, t))"

partial_function (option) drain_scheduled_tasks ::
  "('w, 'f, 'd) controller_adapter \<Rightarrow> 'f controller_program \<Rightarrow> ('w, 'fn, 'co, 'v) lua_runtime option
   \<Rightarrow> capability_report \<Rightarrow> ('w, 'f, 'co, unit) controller_effect" where
  "drain_scheduled_tasks A p runtime cap s =
     sbind pop_task (\<lambda>next_task s1.
       case next_task of
         None \<Rightarrow> sreturn () s1
       | Some task \<Rightarrow>
           sthen (sbind (execute_controller_task A p runtime cap task) (settle_execution task 0))
             (\<lambda>s2. drain_scheduled_tasks A p runtime cap s2) s1) s"

definition drain_controller_callbacks ::
  "('w, 'f, 'd) controller_adapter \<Rightarrow> 'f controller_program \<Rightarrow> ('w, 'fn, 'co, 'v) lua_runtime option
   \<Rightarrow> capability_report \<Rightarrow> ('w, 'f, 'co, unit) controller_effect" where
  "drain_controller_callbacks A p runtime cap =
     sthen (drain_ready_continuations A runtime cap) (drain_scheduled_tasks A p runtime cap)"

end
