(* ===== verification/ControllerLoop.thy ===== *)
theory ControllerLoop imports ControllerTasks begin

text \<open>
  The live event loop of a controller, \<open>run_live_real_controller_lifecycle\<close> of
  \<open>signal-auras-cli/src/runner.rs\<close>, with its handlers: the scheduling of callbacks under scoped
  focus, observed input, shortcut callbacks and repeat ticks. Lines of the log are left out.
\<close>

section \<open>Scheduling callbacks\<close>

definition note_disposition :: "callback_schedule_result \<Rightarrow> runtime_stats \<Rightarrow> runtime_stats" where
  "note_disposition res st =
     (if sr_disposition res \<in> {Skipped, Dropped}
      then record_callback_dropped 1 (record_non_repeat_collision_skip st)
      else if sr_disposition res = callback_disposition.Denied
      then (let st' = st\<lparr>rs_denied_action_count := rs_denied_action_count st + 1\<rparr>
            in if sr_diagnostic res \<noteq> None then record_permission_failure st' else st')
      else st)"

definition schedule_registration ::
  "controller_registration \<Rightarrow> capability_report \<Rightarrow> instant
   \<Rightarrow> ('w, 'f, 'co, bool) controller_effect" where
  "schedule_registration r cap accepted_at = srun (\<lambda>s.
     case scheduler_schedule (cs_scheduler s) r cap accepted_at of
       (sch, res) \<Rightarrow>
         (s\<lparr>cs_scheduler := sch,
            lc_stats := record_output_queue_depth (of_nat (length (sc_pending sch)))
              (note_disposition res (lc_stats s))\<rparr>,
          sr_disposition res = Accepted \<and> cg_mode r = Consume))"

definition schedule_controller_callback_name ::
  "('w, 'f, 'd) controller_adapter \<Rightarrow> capability_report \<Rightarrow> controller_registration \<Rightarrow> string
   \<Rightarrow> instant \<Rightarrow> ('w, 'f, 'co, bool) controller_effect" where
  "schedule_controller_callback_name A cap r name accepted_at =
     sbind (world_try (ad_active_process_context (ca_live A))) (\<lambda>c.
     sbind (focus_state (ca_live A) (cg_scope r) c) (\<lambda>state.
       if \<not> sf_active state then sthen (count_denial state) (sreturn False)
       else sthen (count (count_trigger (cg_trigger r) (cg_mode r)))
              (sbind (check (with_callback name r)) (\<lambda>scheduled.
                 schedule_registration scheduled cap accepted_at))))"

definition schedule_controller_callback ::
  "('w, 'f, 'd) controller_adapter \<Rightarrow> capability_report \<Rightarrow> controller_registration
   \<Rightarrow> instant \<Rightarrow> ('w, 'f, 'co, bool) controller_effect" where
  "schedule_controller_callback A cap r accepted_at =
     schedule_controller_callback_name A cap r (cg_callback r) accepted_at"

section \<open>Observed input\<close>

definition schedule_press_callback ::
  "('w, 'f, 'd) controller_adapter \<Rightarrow> 'f controller_program \<Rightarrow> capability_report
   \<Rightarrow> motion_input_event \<Rightarrow> instant \<Rightarrow> ('w, 'f, 'co, bool) controller_effect" where
  "schedule_press_callback A p cap ev observed_at =
     (if me_state ev \<noteq> Pressed then sreturn False
      else sbind (sget lc_motion_runtime) (\<lambda>rt.
           sbind (check (matching_controller_press_registration p ev rt)) (\<lambda>found.
             case found of
               None \<Rightarrow> sreturn False
             | Some r \<Rightarrow> schedule_controller_callback A cap r observed_at)))"

definition optional_callback ::
  "('w, 'f, 'd) controller_adapter \<Rightarrow> capability_report \<Rightarrow> controller_registration
   \<Rightarrow> string option \<Rightarrow> instant \<Rightarrow> ('w, 'f, 'co, bool) controller_effect" where
  "optional_callback A cap r name observed_at =
     (case name of
        None \<Rightarrow> sreturn False
      | Some c \<Rightarrow> schedule_controller_callback_name A cap r c observed_at)"

definition controller_motion_event ::
  "('w, 'f, 'd) controller_adapter \<Rightarrow> 'f controller_program \<Rightarrow> capability_report \<Rightarrow> instant
   \<Rightarrow> motion_runtime_event \<Rightarrow> ('w, 'f, 'co, bool) controller_effect" where
  "controller_motion_event A p cap observed_at ev =
     (case ev of
        Triggered t starts_loop \<Rightarrow>
          sbind (check (matching_controller_motion_registration p t)) (\<lambda>found.
            case found of
              None \<Rightarrow> sreturn False
            | Some r \<Rightarrow>
                if starts_loop
                then (case cg_loop_policy r of
                        None \<Rightarrow> sreturn False
                      | Some l \<Rightarrow>
                          sbind (optional_callback A cap r (lp_before_callback l) observed_at) (\<lambda>b.
                          sbind (read_now (ca_live A)) (\<lambda>now.
                            sthen (set_last_tick t now) (sreturn b))))
                else if cg_loop_policy r = None
                then schedule_controller_callback A cap r observed_at
                else sreturn False)
      | LoopCancelled t \<Rightarrow>
          sthen (count record_motion_repeat_cancel)
         (sthen (forget_last_tick t)
            (sbind (check (matching_controller_motion_registration p t)) (\<lambda>found.
               case found of
                 None \<Rightarrow> sreturn False
               | Some r \<Rightarrow>
                   optional_callback A cap r (Option.bind (cg_loop_policy r) lp_after_callback)
                     observed_at)))
      | MotionDiscarded _ \<Rightarrow> sthen (count record_motion_discard) (sreturn False))"

definition leader_released :: "motion_input_event \<Rightarrow> bool" where
  "leader_released ev \<longleftrightarrow> me_token ev = Leader \<and> me_state ev = Released"

definition leader_pressed :: "motion_input_event \<Rightarrow> bool" where
  "leader_pressed ev \<longleftrightarrow> me_token ev = Leader \<and> me_state ev = Pressed"

text \<open>The end of the handler: the raw event of a grabbed device that was not consumed goes on.\<close>

definition finish_observed_input ::
  "('w, 'f, 'd) controller_adapter \<Rightarrow> observed_input_event \<Rightarrow> motion_input_event \<Rightarrow> bool
   \<Rightarrow> ('w, 'f, 'co, unit) controller_effect" where
  "finish_observed_input A ob ev consumed =
     sthen (swhen (oi_grabbed ob \<and> \<not> consumed)
              (world_try (ad_passthrough_raw_input (ca_live A) (oi_raw ob))))
       (swhen (leader_released ev) (world_try (ad_release_input_grab (ca_live A))))"

definition schedule_observed_input ::
  "('w, 'f, 'd) controller_adapter \<Rightarrow> 'f controller_program \<Rightarrow> capability_report \<Rightarrow> instant
   \<Rightarrow> motion_input_event \<Rightarrow> motion_runtime_event list \<Rightarrow> ('w, 'f, 'co, bool) controller_effect" where
  "schedule_observed_input A p cap observed_at ev evs =
     sbind (schedule_press_callback A p cap ev observed_at)
       (sfold (\<lambda>e consumed. sbind (controller_motion_event A p cap observed_at e)
                 (\<lambda>b. sreturn (consumed \<or> b))) evs)"

definition handle_controller_event ::
  "('w, 'f, 'd) controller_adapter \<Rightarrow> 'f controller_program \<Rightarrow> capability_report \<Rightarrow> instant
   \<Rightarrow> observed_input_event \<Rightarrow> motion_input_event \<Rightarrow> ('w, 'f, 'co, unit) controller_effect" where
  "handle_controller_event A p cap time_base ob ev =
     sthen (swhen (leader_pressed ev) (world_try (ad_arm_input_grab (ca_live A))))
    (sthen (record_motion_latency_metrics (ca_live A) (oi_observed_at ob)
              (re_kernel_timestamp (oi_raw ob)))
       (sbind (feed_motion_runtime ev (motion_runtime_event_time
                 (re_kernel_timestamp (oi_raw ob)) (oi_observed_at ob) time_base)) (\<lambda>evs.
        sbind (toggle_handle_observed_input A p ev) (\<lambda>toggle.
          if oh_handled toggle then finish_observed_input A ob ev (oh_consumed toggle)
          else sbind (schedule_observed_input A p cap (oi_observed_at ob) ev evs)
                 (finish_observed_input A ob ev)))))"

definition handle_live_controller_observed_input ::
  "('w, 'f, 'd) controller_adapter \<Rightarrow> 'f controller_program \<Rightarrow> capability_report \<Rightarrow> instant
   \<Rightarrow> observed_input_event \<Rightarrow> ('w, 'f, 'co, unit) controller_effect" where
  "handle_live_controller_observed_input A p cap time_base ob =
     (case oi_event ob of
        None \<Rightarrow> swhen (oi_grabbed ob)
          (world_try (ad_passthrough_raw_input (ca_live A) (oi_raw ob)))
      | Some ev \<Rightarrow> handle_controller_event A p cap time_base ob ev)"

section \<open>Shortcut callbacks\<close>

definition handle_controller_shortcut ::
  "('w, 'f, 'd) controller_adapter \<Rightarrow> 'f controller_program \<Rightarrow> capability_report
   \<Rightarrow> observed_shortcut_event \<Rightarrow> ('w, 'f, 'co, unit) controller_effect" where
  "handle_controller_shortcut A p cap ev =
     sthen (count record_callback_received)
       (sbind (read_now (ca_live A)) (\<lambda>now.
        sthen (count (record_callback_dispatched (of_nat (as_millis (now - se_received_at ev)))))
          (sbind (dev_handle_shortcut (ca_live A) (se_hotkey ev)) (\<lambda>handled.
             if handled then sreturn ()
             else sbind (toggle_handle_shortcut A p (se_hotkey ev)) (\<lambda>toggle.
                    if oh_handled toggle then sreturn ()
                    else case controller_registration_for_hotkey p (se_hotkey ev) of
                           None \<Rightarrow> count record_shortcut_ignored
                         | Some r \<Rightarrow>
                             sbind (schedule_controller_callback A cap r (se_received_at ev))
                               (\<lambda>_. sreturn ()))))))"

partial_function (option) drain_controller_shortcuts ::
  "('w, 'f, 'd) controller_adapter \<Rightarrow> 'f controller_program \<Rightarrow> capability_report
   \<Rightarrow> ('w, 'f, 'co, unit) controller_effect" where
  "drain_controller_shortcuts A p cap s =
     sbind (world_call (ad_next_shortcut_event (ca_live A))) (\<lambda>next_ev s1.
       case next_ev of
         None \<Rightarrow> sreturn () s1
       | Some ev \<Rightarrow>
           sthen (handle_controller_shortcut A p cap ev)
             (\<lambda>s2. drain_controller_shortcuts A p cap s2) s1) s"

definition drain_live_controller_shortcut_callbacks ::
  "('w, 'f, 'd) controller_adapter \<Rightarrow> 'f controller_program \<Rightarrow> capability_report
   \<Rightarrow> ('w, 'f, 'co, unit) controller_effect" where
  "drain_live_controller_shortcut_callbacks A p cap =
     sbind (world_call (ad_take_callback_dropped_count (ca_live A))) (\<lambda>dropped.
       sthen (swhen (0 < dropped) (count (record_callback_dropped dropped)))
         (drain_controller_shortcuts A p cap))"

section \<open>Repeat ticks\<close>

definition schedule_repeat_callback ::
  "('w, 'f, 'd) controller_adapter \<Rightarrow> 'f controller_program \<Rightarrow> capability_report \<Rightarrow> instant
   \<Rightarrow> motion_trigger \<Rightarrow> ('w, 'f, 'co, unit) controller_effect" where
  "schedule_repeat_callback A p cap now t =
     sbind (check (matching_controller_motion_registration p t)) (\<lambda>found.
       case found of
         None \<Rightarrow> sreturn ()
       | Some r \<Rightarrow>
           (case cg_loop_policy r of
              None \<Rightarrow> sreturn ()
            | Some l \<Rightarrow>
                sbind (schedule_controller_callback_name A cap r (lp_repeat_callback l) now)
                  (\<lambda>_. count record_motion_repeat_tick)))"

definition controller_repeat_tick ::
  "('w, 'f, 'd) controller_adapter \<Rightarrow> 'f controller_program \<Rightarrow> capability_report \<Rightarrow> instant
   \<Rightarrow> motion_trigger \<times> nat \<Rightarrow> ('w, 'f, 'co, unit) controller_effect" where
  "controller_repeat_tick A p cap now tick =
     (case tick of (t, interval_ms) \<Rightarrow>
        sbind (sget (\<lambda>s. loop_is_active (lc_motion_runtime s) t)) (\<lambda>active.
          if \<not> active then forget_last_tick t
          else sbind (sget (\<lambda>s. repeat_due now (lc_last_repeat_ticks s) t interval_ms)) (\<lambda>due.
                 swhen due
                   (sthen (schedule_repeat_callback A p cap now t) (set_last_tick t now)))))"

section \<open>The event loop\<close>

text \<open>What a run is given beside the adapter, and the two time bases it takes at its start.\<close>

record ('w, 'f, 'fn, 'co, 'v) controller_run =
  cr_program :: "'f controller_program"
  cr_runtime :: "('w, 'fn, 'co, 'v) lua_runtime option"
  cr_capabilities :: capability_report
  cr_repeat_ticks :: "(motion_trigger \<times> nat) list"
  cr_motion_time_base :: instant
  cr_tracker_time_base :: instant

partial_function (option) drain_controller_input ::
  "('w, 'f, 'd) controller_adapter \<Rightarrow> ('w, 'f, 'fn, 'co, 'v) controller_run
   \<Rightarrow> ('w, 'f, 'co, unit) controller_effect" where
  "drain_controller_input A R s =
     sbind (world_try (ad_next_input_event (ca_live A))) (\<lambda>next_ev s1.
       case next_ev of
         None \<Rightarrow> sreturn () s1
       | Some ob \<Rightarrow>
           sthen (handle_live_controller_observed_input A (cr_program R) (cr_capabilities R)
                    (cr_motion_time_base R) ob)
             (\<lambda>s2. drain_controller_input A R s2) s1) s"

definition controller_wait_timeout ::
  "('w, 'f, 'd) controller_adapter \<Rightarrow> ('w, 'f, 'fn, 'co, 'v) controller_run
   \<Rightarrow> ('w, 'f, 'co, duration) controller_effect" where
  "controller_wait_timeout A R =
     sbind (read_now (ca_live A)) (\<lambda>now1.
     sbind (read_now (ca_live A)) (\<lambda>now2.
     sbind (read_now (ca_live A)) (\<lambda>now3. sget (\<lambda>s.
       min (min (next_live_wait_timeout (cr_repeat_ticks R) (lc_last_repeat_ticks s)
                   (lc_motion_runtime s) now1)
              (next_live_state_tracker_wait_timeout (cs_trackers s) (cr_tracker_time_base R) now2))
         (continuations_next_wait_timeout (cs_continuations s) now3)))))"

definition controller_wait_for_event ::
  "('w, 'f, 'd) controller_adapter \<Rightarrow> ('w, 'f, 'fn, 'co, 'v) controller_run
   \<Rightarrow> ('w, 'f, 'co, runtime_wait_outcome) controller_effect" where
  "controller_wait_for_event A R =
     sbind (controller_wait_timeout A R) (\<lambda>timeout.
     sthen (world_try (ad_arm_timer_after (ca_live A) timeout))
       (sbind (sget (ad_wake_fds (ca_live A) \<circ> lc_world)) (\<lambda>fds.
        sbind (world_try (ad_wait_next_input_or_runtime_fd (ca_live A) timeout (poll_fds fds)))
          (\<lambda>outcome. sreturn (classify_wait_outcome outcome fds)))))"

text \<open>The shutdown: the queue and the continuations are cancelled and counted.\<close>

definition cancel_controller_callbacks :: "('w, 'f, 'co, unit) controller_effect" where
  "cancel_controller_callbacks = supd (\<lambda>s.
     case scheduler_cancel_all (cs_scheduler s) of
       (sch, n) \<Rightarrow>
         (case cancel_continuations (cs_continuations s) sch 0 of
            (sch', m) \<Rightarrow>
              s\<lparr>cs_scheduler := sch', cs_continuations := [],
                lc_stats := (if 0 < n + m then record_cancelled_macro_runs (of_nat (n + m)) (lc_stats s)
                             else lc_stats s)\<rparr>))"

definition controller_wait_outcome ::
  "('w, 'f, 'd) controller_adapter \<Rightarrow> ('w, 'f, 'fn, 'co, 'v) controller_run
   \<Rightarrow> runtime_wait_outcome \<Rightarrow> ('w, 'f, 'co, shutdown_reason option) controller_effect" where
  "controller_wait_outcome A R outcome =
     (case outcome of
        Signal \<Rightarrow>
          sbind (world_try (ad_drain_shutdown_reason (ca_live A))) (\<lambda>reason.
            case reason of
              None \<Rightarrow> sreturn None
            | Some r \<Rightarrow> sthen cancel_controller_callbacks (sreturn (Some r)))
      | Timer \<Rightarrow> sthen (world_try (ad_drain_timer (ca_live A))) (sreturn None)
      | Callback \<Rightarrow>
          sthen (world_try (ad_drain_callback_wake_fd (ca_live A)))
            (sthen (drain_live_controller_shortcut_callbacks A (cr_program R) (cr_capabilities R))
               (sreturn None))
      | runtime_wait_outcome.Input ob \<Rightarrow>
          sthen (handle_live_controller_observed_input A (cr_program R) (cr_capabilities R)
                   (cr_motion_time_base R) ob) (sreturn None)
      | UnknownRuntimeFd \<Rightarrow> sreturn None
      | Timeout \<Rightarrow> sreturn None)"

definition run_callbacks ::
  "('w, 'f, 'd) controller_adapter \<Rightarrow> ('w, 'f, 'fn, 'co, 'v) controller_run
   \<Rightarrow> ('w, 'f, 'co, unit) controller_effect" where
  "run_callbacks A R = drain_controller_callbacks A (cr_program R) (cr_runtime R) (cr_capabilities R)"

definition poll_screen ::
  "('w, 'f, 'd) controller_adapter \<Rightarrow> ('w, 'f, 'fn, 'co, 'v) controller_run
   \<Rightarrow> ('w, 'f, 'co, unit) controller_effect" where
  "poll_screen A R =
     poll_live_state_trackers A (cr_program R) (cr_capabilities R) (cr_tracker_time_base R)"

definition controller_iteration ::
  "('w, 'f, 'd) controller_adapter \<Rightarrow> ('w, 'f, 'fn, 'co, 'v) controller_run
   \<Rightarrow> ('w, 'f, 'co, shutdown_reason option) controller_effect" where
  "controller_iteration A R =
     sthen (count record_event_loop_wakeup)
    (sthen (drain_live_controller_shortcut_callbacks A (cr_program R) (cr_capabilities R))
    (sthen (poll_screen A R)
    (sthen (run_callbacks A R)
    (sbind (controller_wait_for_event A R) (\<lambda>outcome.
     sbind (controller_wait_outcome A R outcome) (\<lambda>reason.
       if reason \<noteq> None then sreturn reason
       else
         sthen (drain_controller_input A R)
        (sthen (poll_screen A R)
        (sthen (run_callbacks A R)
           (sbind (read_now (ca_live A)) (\<lambda>now.
            sthen (seach (controller_repeat_tick A (cr_program R) (cr_capabilities R) now)
                     (cr_repeat_ticks R))
              (sthen (run_callbacks A R) (sreturn None))))))))))))"

partial_function (option) controller_loop ::
  "('w, 'f, 'd) controller_adapter \<Rightarrow> ('w, 'f, 'fn, 'co, 'v) controller_run
   \<Rightarrow> ('w, 'f, 'co, shutdown_reason) controller_effect" where
  "controller_loop A R s =
     sbind (controller_iteration A R) (\<lambda>reason s1.
       case reason of Some r \<Rightarrow> sreturn r s1 | None \<Rightarrow> controller_loop A R s1) s"

definition controller_state_new ::
  "'w \<Rightarrow> 'f tracker_definition dev_runtime \<Rightarrow> runtime_stats \<Rightarrow> motion_definition list
   \<Rightarrow> callback_scheduler \<Rightarrow> 'f tracker_set \<Rightarrow> ('w, 'f, 'co) controller_state" where
  "controller_state_new w dev st motions sch ts =
     \<lparr>lc_world = w, lc_dev = dev, lc_stats = st, lc_motion_runtime = motion_runtime_new motions,
      lc_last_repeat_ticks = [], cs_scheduler = sch, cs_continuations = [],
      cs_trackers = (if tk_trackers ts = [] then None
                     else Some (live_tracker_runtime_new (poller_new ts))),
      cs_hidden_overlays = {}\<rparr>"

definition run_live_real_controller_lifecycle ::
  "('w, 'f, 'd) controller_adapter \<Rightarrow> 'f controller_program \<Rightarrow> ('w, 'fn, 'co, 'v) lua_runtime option
   \<Rightarrow> capability_report \<Rightarrow> instant \<Rightarrow> instant \<Rightarrow> 'f tracker_definition dev_runtime
   \<Rightarrow> runtime_stats \<Rightarrow> 'w
   \<Rightarrow> ((('w, 'f, 'co) controller_state option) \<times> shutdown_reason result) option" where
  "run_live_real_controller_lifecycle A p runtime cap motion_base tracker_base dev st w =
     (case rbind (callback_scheduler_new 64 default_lua_callback_budget) (\<lambda>sch.
           rbind (controller_motion_definitions p) (\<lambda>motions.
           rbind (controller_repeat_ticks p) (\<lambda>ticks. Ok (sch, motions, ticks)))) of
        Inl e \<Rightarrow> Some (None, Err e)
      | Inr (sch, motions, ticks) \<Rightarrow>
          map_option (\<lambda>(s, r). (Some s, r))
            (controller_loop A
               \<lparr>cr_program = p, cr_runtime = runtime, cr_capabilities = cap,
                cr_repeat_ticks = ticks, cr_motion_time_base = motion_base,
                cr_tracker_time_base = tracker_base\<rparr>
               (controller_state_new w dev st motions sch (cp_state_trackers p))))"

end
