(* ===== verification/TrackerLaws.thy ===== *)
theory TrackerLaws imports Polling begin

text \<open>
  What the trackers promise: the values of a reported state are bounded, an accepted set of
  definitions has distinct names and conditions on earlier trackers, and one poll updates exactly
  the due trackers, reads the screen only for one of them that is in focus, and leaves a
  conditional tracker consistent with the tracker it depends on.
\<close>

section \<open>Accepted sets of trackers\<close>

lemma check_tracker_ids_Ok_iff:
  "check_tracker_ids seen ts = Inr () \<longleftrightarrow>
     distinct (map td_id ts) \<and> set seen \<inter> td_id ` set ts = {}"
  by (induction seen ts rule: check_tracker_ids.induct) (auto simp: validation_error_def)

definition declared_earlier :: "string set \<Rightarrow> 'f tracker_definition list \<Rightarrow> bool" where
  "declared_earlier declared ts \<longleftrightarrow>
     (\<forall>i<length ts. \<forall>c. td_condition (ts ! i) = Some c \<longrightarrow>
        tc_tracker_id c \<in> declared \<union> td_id ` set (take i ts))"

lemma declared_earlier_Cons:
  "declared_earlier declared (t # ts) \<longleftrightarrow>
     (\<forall>c. td_condition t = Some c \<longrightarrow> tc_tracker_id c \<in> declared)
     \<and> declared_earlier (insert (td_id t) declared) ts"
  unfolding declared_earlier_def by (simp add: All_less_Suc2 disj_left_commute)

lemma check_conditions_Ok_iff:
  assumes "distinct (map td_id ts)" and "set declared \<inter> td_id ` set ts = {}"
    and "set declared \<union> td_id ` set ts \<subseteq> seen"
  shows "check_conditions seen declared ts = Inr () \<longleftrightarrow> declared_earlier (set declared) ts"
  using assms
proof (induction seen declared ts rule: check_conditions.induct)
  case (1 seen declared)
  then show ?case by (simp add: declared_earlier_def)
next
  case (2 seen declared t ts)
  have IH: "check_conditions seen (td_id t # declared) ts = Inr ()
      \<longleftrightarrow> declared_earlier (insert (td_id t) (set declared)) ts"
    using "2.IH" "2.prems" by auto
  show ?case
    using "2.prems" IH
    by (cases "td_condition t") (auto simp: declared_earlier_Cons rbind.simps validation_error_def)
qed

lemma tracker_set_accepted:
  "(\<exists>s. tracker_set_new ts = Inr s) \<longleftrightarrow> distinct (map td_id ts) \<and> declared_earlier {} ts"
proof (cases "distinct (map td_id ts)")
  case True
  then have ids: "check_tracker_ids [] ts = Inr ()" by (simp add: check_tracker_ids_Ok_iff)
  have "check_conditions (set (map td_id ts)) [] ts = Inr () \<longleftrightarrow> declared_earlier {} ts"
    using check_conditions_Ok_iff [of ts "[]" "set (map td_id ts)"] True by simp
  then show ?thesis
    using True ids
    by (cases "check_conditions (set (map td_id ts)) [] ts") (auto simp: tracker_set_new_def rbind.simps)
next
  case False
  then have "check_tracker_ids [] ts \<noteq> Inr ()" by (simp add: check_tracker_ids_Ok_iff)
  then show ?thesis
    using False by (cases "check_tracker_ids [] ts") (auto simp: tracker_set_new_def rbind.simps)
qed

lemma tracker_set_contents: "tracker_set_new ts = Inr s \<Longrightarrow> tk_trackers s = ts"
  by (auto simp: tracker_set_new_def rbind.simps split: sum.splits)

lemma find_tracker_unique:
  "distinct (map td_id ts) \<Longrightarrow> t \<in> set ts \<Longrightarrow> find_tracker ts (td_id t) = Some t"
  unfolding find_tracker_def by (rule find_unique) (auto simp: distinct_map inj_on_def)

section \<open>Bounds of the reported values\<close>

definition option_le :: "nat option \<Rightarrow> nat option \<Rightarrow> bool" where
  "option_le a b \<longleftrightarrow> (\<forall>x y. a = Some x \<longrightarrow> b = Some y \<longrightarrow> x \<le> y)"

definition state_ok :: "tracker_state \<Rightarrow> bool" where
  "state_ok st =
     (case st of
        RadialState r \<Rightarrow>
          rd_cooldown_fraction r \<le> 100 \<and> rd_confidence r \<le> 95 \<and> rd_freshness_ms r = 0
          \<and> rd_ready r = (rd_phase r = Ready)
          \<and> (rd_ready r \<longrightarrow> rd_remaining_ms r = Some 0 \<and> rd_cooldown_fraction r = 0)
          \<and> option_le (rd_remaining_ms r) (rd_total_estimated_ms r)
          \<and> option_le (rd_predicted_remaining_ms r) (rd_predicted_duration_ms r)
          \<and> (rd_predicted_remaining_ms r \<noteq> None \<longrightarrow> rd_phase r = Active)
      | ProgressState p \<Rightarrow>
          pg_progress_percent p \<le> 100 \<and> pg_confidence p \<le> 95 \<and> pg_freshness_ms p = 0
      | InactiveState i \<Rightarrow> in_confidence i = 0 \<and> in_freshness_ms i = 0)"

definition history_ok :: "cooldown_history \<Rightarrow> bool" where
  "history_ok h \<longleftrightarrow> length (ch_observations h) \<le> 16
     \<and> (\<forall>ob\<in>set (ch_observations h). co_fraction ob \<le> 100)"

lemma saturating_share_le:
  assumes "f \<le> 100" shows "u64_saturating_mul t f div 100 \<le> t"
proof -
  have "u64_saturating_mul t f \<le> t * f" by (simp add: u64_saturating_mul_def)
  also have "\<dots> \<le> t * 100" using assms by simp
  finally have "u64_saturating_mul t f div 100 \<le> t * 100 div 100" by (rule div_le_mono)
  then show ?thesis by simp
qed

lemma inactive_ok: "state_ok (inactive_because reason)"
  by (simp add: state_ok_def inactive_because_def)

lemma confidence_le: "confidence_for_sample s \<le> 95"
  by (simp add: confidence_for_sample_def)

lemma progress_ok: "state_ok (detect_horizontal_progress_bar_with_roi s d)"
  by (simp add: state_ok_def detect_horizontal_progress_bar_with_roi_def confidence_le
      split: option.splits)

lemma history_push_ok:
  assumes "history_ok h" and "f \<le> 100" shows "history_ok (history_push t f h)"
proof -
  let ?obs = "ch_observations h @ [\<lparr>co_at_ms = t, co_fraction = f\<rparr>]"
  have "\<forall>ob\<in>set ?obs. co_fraction ob \<le> 100" using assms by (auto simp: history_ok_def)
  moreover have "length ?obs \<le> 17" using assms by (simp add: history_ok_def)
  moreover have "set (remove_at 0 ?obs) \<subseteq> set ?obs" by (rule set_remove_at_subset)
  ultimately show ?thesis
    by (auto simp: history_ok_def history_push_def Let_def remove_at_def)
qed

lemma observe_phase_ok [simp]: "history_ok (observe_phase t ph h) = history_ok h"
  by (simp add: history_ok_def observe_phase_def)

lemma estimate_observations: "ch_observations (fst (estimate_total_ms h)) = ch_observations h"
  by (auto simp: estimate_total_ms_def Let_def split: option.splits)

lemma predicted_remaining_le:
  "predicted_remaining_ms h now (Some p) = Some r \<Longrightarrow> r \<le> cd_duration_ms p"
  by (auto simp: predicted_remaining_ms_def bind_eq_Some_conv split: if_splits)

lemma detect_radial_ok:
  assumes "history_ok h" and "detect_radial_cooldown_with_roi F s d h = (h', st)"
  shows "history_ok h' \<and> state_ok st"
proof (cases "observe_radial_cooldown F s d")
  case None
  with assms show ?thesis by (auto simp: detect_radial_cooldown_with_roi_def inactive_ok)
next
  case (Some ob)
  define f where "f = min (ro_cooldown_fraction ob) 100"
  define h1 where "h1 = history_push (ss_captured_at_ms s) f
    (observe_phase (ss_captured_at_ms s) (ro_phase ob) h)"
  define pred where "pred = (case d of Some (RadialCooldown _ _ ph) \<Rightarrow> ph_prediction ph | _ \<Rightarrow> None)"
  obtain h2 est where e: "estimate_total_ms h1 = (h2, est)" by fastforce
  have f: "f \<le> 100" by (simp add: f_def)
  have "history_ok h1" unfolding h1_def by (rule history_push_ok) (use assms(1) f in simp_all)
  then have h2: "history_ok h2"
    using estimate_observations [of h1] e by (simp add: history_ok_def)
  have res: "h' = h2" "st = RadialState
      \<lparr>rd_phase = ro_phase ob, rd_ready = (ro_phase ob = Ready),
       rd_cooldown_fraction = (if ro_phase ob = Ready then 0 else f),
       rd_remaining_ms = (if ro_phase ob = Ready then Some 0 else if ro_phase ob = Unknown then None
         else map_option (\<lambda>t. u64_saturating_mul t f div 100) est),
       rd_total_estimated_ms = est,
       rd_predicted_remaining_ms = (if ro_phase ob = Active
         then predicted_remaining_ms h2 (ss_captured_at_ms s) pred else None),
       rd_predicted_duration_ms = Option.bind (if ro_phase ob = Active
         then predicted_remaining_ms h2 (ss_captured_at_ms s) pred else None)
           (\<lambda>_. map_option cd_duration_ms pred),
       rd_confidence = confidence_for_sample s, rd_freshness_ms = 0\<rparr>"
    using assms(2) Some e
    by (auto simp: detect_radial_cooldown_with_roi_def Let_def h1_def f_def pred_def)
  have est: "option_le (map_option (\<lambda>t. u64_saturating_mul t f div 100) est) est"
    using saturating_share_le [OF f] by (auto simp: option_le_def)
  have le: "option_le (if ro_phase ob = Active
         then predicted_remaining_ms h2 (ss_captured_at_ms s) pred else None)
      (Option.bind (if ro_phase ob = Active
         then predicted_remaining_ms h2 (ss_captured_at_ms s) pred else None)
           (\<lambda>_. map_option cd_duration_ms pred))"
    using predicted_remaining_le
    by (cases pred) (auto simp: option_le_def bind_eq_Some_conv predicted_remaining_ms_def split: if_splits)
  have "option_le (Some 0) est" "option_le None est" by (auto simp: option_le_def)
  with est le f h2 res show ?thesis by (simp add: state_ok_def confidence_le)
qed

section \<open>What one poll does\<close>

text \<open>A poller after the trackers in \<open>I\<close> were written at \<open>now\<close>, the others left alone.\<close>

definition polled ::
  "nat \<Rightarrow> string set \<Rightarrow> 'f tracker_poller \<Rightarrow> 'f tracker_poller \<Rightarrow> bool" where
  "polled now I p q \<longleftrightarrow> po_trackers q = po_trackers p
     \<and> (\<forall>i. bm_get (po_last_poll_ms q) i
            = (if i \<in> I then Some now else bm_get (po_last_poll_ms p) i))
     \<and> (\<forall>i. i \<notin> I \<longrightarrow> latest_state q i = latest_state p i)
     \<and> (\<forall>i\<in>I. latest_state q i \<noteq> None)"

lemma polled_refl: "polled now {} p p"
  by (simp add: polled_def)

lemma polled_trans: "polled now I p q \<Longrightarrow> polled now J q r \<Longrightarrow> polled now (I \<union> J) p r"
  unfolding polled_def by (metis Un_iff)

lemma polled_set_state: "polled now {i} p (set_state now i st p)"
  by (simp add: polled_def set_state_def latest_state_def)

lemma polled_history: "polled now I (p\<lparr>po_history := h\<rparr>) q \<Longrightarrow> polled now I p q"
  by (simp add: polled_def latest_state_def)

lemma polled_mark:
  "polled now (set ids) p (foldl (\<lambda>q i. set_state now i st q) p ids)"
proof (induction ids rule: rev_induct)
  case (snoc i ids)
  show ?case using polled_trans [OF snoc polled_set_state, of i st] by simp
qed (simp add: polled_refl)

lemma mark_inactive_polled:
  "mark_inactive p now ids reason = (q, out) \<Longrightarrow> polled now (set ids) p q \<and> pu_updated out = ids"
  using polled_mark by (auto simp: mark_inactive_def)

lemma poll_tracker_polled:
  assumes "find_tracker (tk_trackers (po_trackers p)) i = Some t"
    and "poll_tracker F D now s scale (p, u) i = (q, u')"
  shows "polled now {i} p q \<and> u' = u @ [i]"
proof (cases "case td_condition t of None \<Rightarrow> False | Some c \<Rightarrow> \<not> condition_matches c (po_latest p)")
  case True
  then show ?thesis
    using assms by (auto simp: poll_tracker_def polled_set_state)
next
  case False
  obtain q0 st where d: "detect_tracker F D s scale t p = (q0, st)" by fastforce
  have "\<exists>h. q0 = p\<lparr>po_history := h\<rparr>"
  proof (cases "scaled_for_sample D scale (td_detector t)")
    case (RadialCooldown r msk ph)
    with d show ?thesis by (auto simp: detect_tracker_def Let_def split: prod.splits)
  next
    case (HorizontalProgressBar r dir)
    with d show ?thesis
      by (auto simp: detect_tracker_def Let_def intro: exI [of _ "po_history p"])
  qed
  then obtain h where h: "q0 = p\<lparr>po_history := h\<rparr>" ..
  have "polled now {i} p (set_state now i st q0)"
    using polled_history [OF polled_set_state] h by simp
  then show ?thesis using assms False d by (auto simp: poll_tracker_def)
qed

lemma fold_poll_polled:
  assumes "\<forall>i\<in>set ids. find_tracker (tk_trackers (po_trackers p)) i \<noteq> None"
    and "foldl (poll_tracker F D now s scale) (p, u) ids = (q, u')"
  shows "polled now (set ids) p q \<and> u' = u @ ids"
  using assms
proof (induction ids arbitrary: q u' rule: rev_induct)
  case (snoc i ids)
  obtain q0 u0 where q0: "foldl (poll_tracker F D now s scale) (p, u) ids = (q0, u0)" by fastforce
  have IH: "polled now (set ids) p q0" "u0 = u @ ids" using snoc q0 by simp_all
  have ts: "po_trackers q0 = po_trackers p" using IH(1) by (simp add: polled_def)
  obtain t where t: "find_tracker (tk_trackers (po_trackers q0)) i = Some t"
    using snoc.prems(1) ts by auto
  have step: "poll_tracker F D now s scale (q0, u0) i = (q, u')" using snoc.prems(2) q0 by simp
  show ?case
    using polled_trans [OF IH(1), of "{i}" q] poll_tracker_polled [OF t step] IH(2) by simp
qed (simp add: polled_refl)

lemma split_by_focus_sets:
  assumes "split_by_focus ts c clock n ids = (active, inactive)"
    and "\<forall>i\<in>set ids. find_tracker ts i \<noteq> None"
  shows "set active \<union> set inactive = set ids
    \<and> (\<forall>i\<in>set active. \<exists>t m. find_tracker ts i = Some t \<and> decide_context_at (td_scope t) c (clock m) = Allowed)"
  using assms
proof (induction ts c clock n ids arbitrary: active inactive rule: split_by_focus.induct)
  case (2 ts c clock n i ids)
  then obtain t where t: "find_tracker ts i = Some t" by auto
  obtain a b where ab: "split_by_focus ts c clock (Suc n) ids = (a, b)" by fastforce
  have IH: "set a \<union> set b = set ids \<and> (\<forall>i\<in>set a. \<exists>t m. find_tracker ts i = Some t
      \<and> decide_context_at (td_scope t) c (clock m) = Allowed)"
    using "2.IH"(2) [OF t] ab "2.prems"(2) by simp
  show ?case
  proof (cases "decide_context_at (td_scope t) c (clock n)")
    case Allowed
    with "2.prems"(1) t ab have "active = i # a" "inactive = b" by simp_all
    with IH t Allowed show ?thesis by auto
  next
    case (Denied r d)
    with "2.prems"(1) t ab have "active = a" "inactive = i # b" by simp_all
    with IH show ?thesis by auto
  qed
qed auto

lemma due_ids_found: "i \<in> set (due_ids p now) \<Longrightarrow> find_tracker (tk_trackers (po_trackers p)) i \<noteq> None"
  unfolding due_ids_def find_tracker_def by (auto simp: find_None_iff_ball)

lemma due_after_poll:
  assumes "polled now (set (due_ids p now)) p q"
    and "\<forall>t\<in>set (tk_trackers (po_trackers p)). 0 < td_poll_ms t"
  shows "due_ids q now = []"
proof -
  have "\<not> tracker_is_due q now t" if t: "t \<in> set (tk_trackers (po_trackers p))" for t
  proof (cases "tracker_is_due p now t")
    case True
    with t have "td_id t \<in> set (due_ids p now)" by (simp add: due_ids_def)
    with assms t show ?thesis by (simp add: polled_def tracker_is_due_def)
  next
    case False
    show ?thesis
    proof (cases "td_id t \<in> set (due_ids p now)")
      case True
      with assms t show ?thesis by (simp add: polled_def tracker_is_due_def)
    next
      case False
      with \<open>\<not> tracker_is_due p now t\<close> assms(1) show ?thesis
        by (simp add: polled_def tracker_is_due_def)
    qed
  qed
  then show ?thesis using assms(1) by (simp add: polled_def due_ids_def filter_empty_conv)
qed

text \<open>
  The three ways a poll goes on: nothing is due, the screen may not be read, or the due trackers
  are split into those in focus and the others.
\<close>

lemma poll_due_cases:
  assumes run: "poll_due F D sp clock now cap c p w = (q, out, w')"
  obtains (idle) "due_ids p now = []" "q = p" "pu_updated out = []" "w' = w"
  | (denied) reason where "screen_read_denial cap = Some reason" "w' = w"
      "mark_inactive p now (due_ids p now) reason = (q, out)"
  | (unfocused) p1 inactive where "screen_read_denial cap = None" "w' = w" "q = p1"
      "split_by_focus (tk_trackers (po_trackers p)) c clock 0 (due_ids p now) = ([], inactive)"
      "pu_updated out = inactive"
      "p1 = foldl (\<lambda>q i. set_state now i (inactive_because FocusInactive) q) p inactive"
  | (sampled) p1 active inactive where "screen_read_denial cap = None" "active \<noteq> []"
      "split_by_focus (tk_trackers (po_trackers p)) c clock 0 (due_ids p now) = (active, inactive)"
      "p1 = foldl (\<lambda>q i. set_state now i (inactive_because FocusInactive) q) p inactive"
      "poll_active F D sp now c (length (due_ids p now)) inactive active p1 w = (q, out, w')"
proof (cases "due_ids p now = []")
  case True
  have "q = p" "pu_updated out = []" "w' = w"
    using run True by (auto simp: poll_due_def Let_def)
  then show ?thesis using idle True by simp
next
  case due: False
  show ?thesis
  proof (cases "screen_read_denial cap")
    case (Some reason)
    obtain q0 out0 where m: "mark_inactive p now (due_ids p now) reason = (q0, out0)" by fastforce
    have "(q0, out0, w) = (q, out, w')" using run due Some m by (simp add: poll_due_def Let_def)
    then have "mark_inactive p now (due_ids p now) reason = (q, out)" "w' = w" using m by simp_all
    from denied [OF Some this(2,1)] show ?thesis .
  next
    case None
    obtain active inactive where split: "split_by_focus (tk_trackers (po_trackers p)) c clock 0
        (due_ids p now) = (active, inactive)" by fastforce
    let ?p1 = "foldl (\<lambda>q i. set_state now i (inactive_because FocusInactive) q) p inactive"
    have mark: "(if inactive = [] then (p, []) else case mark_inactive p now inactive FocusInactive of
        (q, out) \<Rightarrow> (q, pu_updated out)) = (?p1, inactive)"
      by (simp add: mark_inactive_def)
    show ?thesis
    proof (cases "active = []")
      case True
      then have r: "q = ?p1" "pu_updated out = inactive" "w' = w"
        using run due None split mark by (auto simp: poll_due_def Let_def)
      have "split_by_focus (tk_trackers (po_trackers p)) c clock 0 (due_ids p now) = ([], inactive)"
        using split True by simp
      from unfocused [OF None r(3,1) this r(2)] show ?thesis by simp
    next
      case False
      then have "poll_active F D sp now c (length (due_ids p now)) inactive active ?p1 w = (q, out, w')"
        using run due None split mark by (simp add: poll_due_def Let_def)
      from sampled [OF None False split _ this] show ?thesis by simp
    qed
  qed
qed

lemma poll_active_polled:
  assumes run: "poll_active F D sp now c due u active p w = (q, out, w')"
    and found: "\<forall>i\<in>set active. find_tracker (tk_trackers (po_trackers p)) i \<noteq> None"
  shows "polled now (set active) p q \<and> pu_updated out = u @ active"
proof (cases "sp_capture sp w")
  case (Pair w1 r)
  show ?thesis
  proof (cases r)
    case (Inl e)
    then show ?thesis
      using run Pair polled_mark [of now active p] by (auto simp: poll_active_def mark_inactive_def)
  next
    case (Inr s)
    obtain w2 scale where sc: "sp_scale sp s c w1 = (w2, scale)" by fastforce
    obtain q0 u0 where f: "foldl (poll_tracker F D now s scale) (p, u) active = (q0, u0)" by fastforce
    have "q = q0" "pu_updated out = u0" using run Pair Inr sc f by (auto simp: poll_active_def)
    with fold_poll_polled [OF found f] show ?thesis by simp
  qed
qed

lemma poll_due_polled:
  assumes "poll_due F D sp clock now cap c p w = (q, out, w')"
  shows "polled now (set (due_ids p now)) p q \<and> set (pu_updated out) = set (due_ids p now)"
  using assms
proof (cases rule: poll_due_cases)
  case idle
  then show ?thesis by (simp add: polled_refl)
next
  case denied
  show ?thesis using mark_inactive_polled [OF denied(3)] by simp
next
  case (unfocused p1 inactive)
  have "set inactive = set (due_ids p now)"
    using split_by_focus_sets [OF unfocused(4)] due_ids_found by auto
  then show ?thesis
    using polled_mark [of now inactive p] unfocused(3,5,6) by simp
next
  case (sampled p1 active inactive)
  have sets: "set active \<union> set inactive = set (due_ids p now)"
    using split_by_focus_sets [OF sampled(3)] due_ids_found by blast
  have p1: "polled now (set inactive) p p1" unfolding sampled(4) by (rule polled_mark)
  have "find_tracker (tk_trackers (po_trackers p1)) i \<noteq> None" if "i \<in> set active" for i
  proof -
    have "i \<in> set (due_ids p now)" using sets that by blast
    from due_ids_found [OF this] p1 show ?thesis by (simp add: polled_def)
  qed
  then have "\<forall>i\<in>set active. find_tracker (tk_trackers (po_trackers p1)) i \<noteq> None" by blast
  from poll_active_polled [OF sampled(5) this] polled_trans [OF p1] sets
  show ?thesis by (metis Un_commute set_append)
qed

text \<open>When the screen is read.\<close>

lemma poll_due_reads:
  assumes "poll_due F D sp clock now cap c p w = (q, out, w')"
  shows "w' = w \<or> screen_read_denial cap = None
    \<and> (\<exists>t\<in>set (tk_trackers (po_trackers p)). \<exists>m. td_id t \<in> set (due_ids p now)
         \<and> decide_context_at (td_scope t) c (clock m) = Allowed)
    \<and> (w' = fst (sp_capture sp w)
       \<or> (\<exists>s. snd (sp_capture sp w) = Inr s \<and> w' = fst (sp_scale sp s c (fst (sp_capture sp w)))))"
  using assms
proof (cases rule: poll_due_cases)
  case (sampled p1 active inactive)
  obtain i where i: "i \<in> set active" using sampled(2) by (cases active) auto
  have sets: "set active \<union> set inactive = set (due_ids p now)"
    "\<forall>i\<in>set active. \<exists>t m. find_tracker (tk_trackers (po_trackers p)) i = Some t
        \<and> decide_context_at (td_scope t) c (clock m) = Allowed"
    using split_by_focus_sets [OF sampled(3)] due_ids_found by blast+
  with i obtain t m where t: "find_tracker (tk_trackers (po_trackers p)) i = Some t"
    "decide_context_at (td_scope t) c (clock m) = Allowed" by blast
  then have "t \<in> set (tk_trackers (po_trackers p))" "td_id t = i"
    by (auto simp: find_tracker_def dest: find_Some_iff2)
  moreover have "w' = fst (sp_capture sp w)
       \<or> (\<exists>s. snd (sp_capture sp w) = Inr s \<and> w' = fst (sp_scale sp s c (fst (sp_capture sp w))))"
    using sampled(5)
    by (auto simp: poll_active_def mark_inactive_def split: prod.splits sum.splits)
  ultimately show ?thesis using sampled(1) t(2) i sets(1) by blast
qed auto

section \<open>Every kept state is bounded\<close>

definition poller_ok :: "'f tracker_poller \<Rightarrow> bool" where
  "poller_ok p \<longleftrightarrow> (\<forall>i st. latest_state p i = Some st \<longrightarrow> state_ok st)
     \<and> (\<forall>i h. bm_get (po_history p) i = Some h \<longrightarrow> history_ok h)"

lemma poller_ok_new: "poller_ok (poller_new ts)"
  by (simp add: poller_ok_def poller_new_def latest_state_def)

lemma history_ok_default: "history_ok history_default"
  by (simp add: history_ok_def history_default_def)

lemma set_state_poller_ok: "poller_ok p \<Longrightarrow> state_ok st \<Longrightarrow> poller_ok (set_state now i st p)"
  by (simp add: poller_ok_def set_state_def latest_state_def)

lemma detect_tracker_ok:
  assumes "poller_ok p" and "detect_tracker F D s scale t p = (q, st)"
  shows "poller_ok q \<and> state_ok st"
proof (cases "scaled_for_sample D scale (td_detector t)")
  case (RadialCooldown r msk ph)
  define h where "h = (case bm_get (po_history p) (td_id t) of None \<Rightarrow> history_default | Some h \<Rightarrow> h)"
  have h: "history_ok h"
    using assms(1) history_ok_default by (auto simp: h_def poller_ok_def split: option.splits)
  obtain h' st' where d: "detect_radial_cooldown_with_roi F s
      (Some (scaled_for_sample D scale (td_detector t))) h = (h', st')" by fastforce
  have "q = p\<lparr>po_history := bm_insert (td_id t) h' (po_history p)\<rparr>" "st = st'"
    using assms(2) RadialCooldown d by (simp_all add: detect_tracker_def Let_def h_def)
  with detect_radial_ok [OF h d] assms(1) show ?thesis
    by (simp add: poller_ok_def latest_state_def)
next
  case (HorizontalProgressBar r dir)
  then show ?thesis using assms progress_ok by (auto simp: detect_tracker_def Let_def)
qed

text \<open>
  What a poll keeps of a poller: a property that survives marking a tracker inactive and writing
  what a detector found survives every poll.
\<close>

locale poll_invariant =
  fixes F :: "'f float_ops" and D :: "'d float_ops" and I :: "'f tracker_poller \<Rightarrow> bool"
  assumes inactive_kept: "I p \<Longrightarrow> I (set_state now i (inactive_because reason) p)"
    and detected_kept: "I p \<Longrightarrow> find_tracker (tk_trackers (po_trackers p)) i = Some t \<Longrightarrow>
      detect_tracker F D s scale t p = (q, st) \<Longrightarrow> I (set_state now i st q)"
begin

lemma mark_kept: "I p \<Longrightarrow> I (foldl (\<lambda>q i. set_state now i (inactive_because reason) q) p ids)"
  by (induction ids arbitrary: p) (simp_all add: inactive_kept)

lemma tracker_kept:
  assumes "I (fst acc)" shows "I (fst (poll_tracker F D now s scale acc i))"
proof (cases acc)
  case (Pair p u)
  show ?thesis
  proof (cases "find_tracker (tk_trackers (po_trackers p)) i")
    case None
    then show ?thesis using assms Pair by (simp add: poll_tracker_def)
  next
    case (Some t)
    obtain q st where d: "detect_tracker F D s scale t p = (q, st)" by fastforce
    have "I (set_state now i st q)" using detected_kept [OF _ Some d] assms Pair by simp
    then show ?thesis
      using assms Pair Some d by (simp add: poll_tracker_def inactive_kept)
  qed
qed

lemma fold_kept: "I (fst acc) \<Longrightarrow> I (fst (foldl (poll_tracker F D now s scale) acc ids))"
  by (induction ids arbitrary: acc) (simp_all add: tracker_kept)

lemma active_kept:
  assumes "I p" and "poll_active F D sp now c due u active p w = (q, out, w')"
  shows "I q"
proof (cases "sp_capture sp w")
  case (Pair w1 r)
  show ?thesis
  proof (cases r)
    case (Inl e)
    then have "q = foldl (\<lambda>q i. set_state now i (inactive_because NoReadableSample) q) p active"
      using assms(2) Pair by (simp add: poll_active_def mark_inactive_def)
    with mark_kept [OF assms(1)] show ?thesis by simp
  next
    case (Inr s)
    obtain w2 scale where sc: "sp_scale sp s c w1 = (w2, scale)" by fastforce
    obtain q0 u0 where f: "foldl (poll_tracker F D now s scale) (p, u) active = (q0, u0)" by fastforce
    have "q = q0" using assms(2) Pair Inr sc f by (simp add: poll_active_def)
    with fold_kept [of "(p, u)" now s scale active] f assms(1) show ?thesis by simp
  qed
qed

lemma poll_kept:
  assumes "I p" and "poll_due F D sp clock now cap c p w = (q, out, w')"
  shows "I q"
  using assms(2)
proof (cases rule: poll_due_cases)
  case idle
  then show ?thesis using assms(1) by simp
next
  case (denied reason)
  then have "q = foldl (\<lambda>q i. set_state now i (inactive_because reason) q) p (due_ids p now)"
    by (simp add: mark_inactive_def)
  then show ?thesis using mark_kept [OF assms(1)] by simp
next
  case (unfocused p1 inactive)
  then show ?thesis using mark_kept [OF assms(1)] by simp
next
  case (sampled p1 active inactive)
  have "I p1" using sampled(4) mark_kept [OF assms(1)] by simp
  from active_kept [OF this sampled(5)] show ?thesis .
qed

end

interpretation bounded: poll_invariant F D poller_ok for F D
proof
  show "poller_ok (set_state now i (inactive_because reason) p)" if "poller_ok p" for p now i reason
    using set_state_poller_ok [OF that inactive_ok] .
  show "poller_ok (set_state now i st q)"
    if "poller_ok p" "detect_tracker F D s scale t p = (q, st)" for p i t s scale q st now
    using detect_tracker_ok [OF that] set_state_poller_ok by blast
qed

section \<open>Conditions\<close>

definition is_inactive :: "tracker_state option \<Rightarrow> bool" where
  "is_inactive st \<longleftrightarrow> (\<exists>i. st = Some (InactiveState i))"

lemma subseq_subset: "subseq xs ys \<Longrightarrow> set xs \<subseteq> set ys"
  by (induction rule: list_emb.induct) auto

lemma split_by_focus_order:
  assumes "split_by_focus ts c clock n ids = (active, inactive)"
  shows "subseq active ids \<and> set inactive \<subseteq> set ids
    \<and> (distinct ids \<longrightarrow> set active \<inter> set inactive = {})"
  using assms
proof (induction ts c clock n ids arbitrary: active inactive rule: split_by_focus.induct)
  case (2 ts c clock n i ids)
  show ?case
  proof (cases "find_tracker ts i")
    case None
    from "2.IH"(1) [OF None] "2.prems" None show ?thesis by auto
  next
    case (Some t)
    obtain a b where ab: "split_by_focus ts c clock (Suc n) ids = (a, b)" by fastforce
    have IH: "subseq a ids" "set b \<subseteq> set ids" "distinct ids \<Longrightarrow> set a \<inter> set b = {}"
      using "2.IH"(2) [OF Some ab] by simp_all
    have sub: "set a \<subseteq> set ids" using IH(1) by (auto dest: subseq_subset)
    show ?thesis
      using "2.prems" Some ab IH sub
      by (cases "decide_context_at (td_scope t) c (clock n)") (auto dest: subseq_Cons')
  qed
qed simp

lemma subseq_after:
  assumes "subseq (us @ i # vs) (A @ i # B)" and "distinct (A @ i # B)"
  shows "set vs \<subseteq> set B"
proof -
  obtain Z1 Z2 where Z: "A @ i # B = Z1 @ Z2" "subseq (i # vs) Z2"
    using list_emb_appendD [OF assms(1)] by blast
  obtain Y1 Y2 where Y: "Z2 = Y1 @ i # Y2" "subseq vs Y2"
    using list_emb_ConsD [OF Z(2)] by blast
  have "A @ i # B = (Z1 @ Y1) @ i # Y2" using Z(1) Y(1) by simp
  moreover have "i \<notin> set A" "i \<notin> set B" using assms(2) by auto
  ultimately have "Y2 = B" using append_Cons_eq_iff [of i A B "Z1 @ Y1" Y2] by simp
  with Y(2) show ?thesis by (auto dest: subseq_subset)
qed

text \<open>
  A tracker that is polled while its condition holds finds the state it depends on, and later
  trackers of the same poll do not change that state.
\<close>

definition condition_kept :: "'f tracker_definition \<Rightarrow> 'f tracker_poller \<Rightarrow> bool" where
  "condition_kept t p \<longleftrightarrow> (\<forall>c. td_condition t = Some c \<longrightarrow>
     is_inactive (latest_state p (td_id t)) \<or> condition_matches c (po_latest p))"

lemma poll_tracker_condition:
  assumes "find_tracker (tk_trackers (po_trackers p)) (td_id t) = Some t"
    and "poll_tracker F D now s scale (p, u) (td_id t) = (q, u')"
    and "\<And>c. td_condition t = Some c \<Longrightarrow> tc_tracker_id c \<noteq> td_id t"
  shows "condition_kept t q"
proof (cases "td_condition t")
  case None
  then show ?thesis by (simp add: condition_kept_def)
next
  case (Some c)
  have pol: "polled now {td_id t} p q" using poll_tracker_polled [OF assms(1,2)] by simp
  show ?thesis
  proof (cases "condition_matches c (po_latest p)")
    case True
    have "latest_state q (tc_tracker_id c) = latest_state p (tc_tracker_id c)"
      using pol assms(3) [OF Some] by (simp add: polled_def)
    with True Some show ?thesis by (simp add: condition_kept_def condition_matches_def latest_state_def)
  next
    case False
    then have "q = set_state now (td_id t) (inactive_because ConditionInactive) p"
      using assms(1,2) Some by (simp add: poll_tracker_def)
    then show ?thesis
      using Some by (simp add: condition_kept_def is_inactive_def set_state_def latest_state_def
          inactive_because_def)
  qed
qed

lemma condition_kept_polled:
  assumes "condition_kept t p" and "polled now I p q" and "td_id t \<notin> I"
    and "\<And>c. td_condition t = Some c \<Longrightarrow> tc_tracker_id c \<notin> I"
  shows "condition_kept t q"
proof -
  have "latest_state q (td_id t) = latest_state p (td_id t)"
    using assms(2,3) by (simp add: polled_def)
  moreover have "condition_matches c (po_latest q) = condition_matches c (po_latest p)"
    if "td_condition t = Some c" for c
    using assms(2) assms(4) [OF that]
    by (simp add: polled_def condition_matches_def latest_state_def)
  ultimately show ?thesis using assms(1) by (simp add: condition_kept_def)
qed

lemma fold_poll_condition:
  assumes run: "foldl (poll_tracker F D now s scale) (p, u) (us @ td_id t # vs) = (q, u')"
    and found: "\<forall>i\<in>set (us @ td_id t # vs). find_tracker (tk_trackers (po_trackers p)) i \<noteq> None"
    and t: "find_tracker (tk_trackers (po_trackers p)) (td_id t) = Some t"
    and c: "\<And>c. td_condition t = Some c \<Longrightarrow> tc_tracker_id c \<notin> insert (td_id t) (set vs)"
    and v: "td_id t \<notin> set vs"
  shows "condition_kept t q"
proof -
  obtain p1 u1 where 1: "foldl (poll_tracker F D now s scale) (p, u) us = (p1, u1)" by fastforce
  have ts1: "po_trackers p1 = po_trackers p"
    using fold_poll_polled [OF _ 1] found by (simp add: polled_def)
  obtain p2 u2 where 2: "poll_tracker F D now s scale (p1, u1) (td_id t) = (p2, u2)" by fastforce
  have t1: "find_tracker (tk_trackers (po_trackers p1)) (td_id t) = Some t" using t ts1 by simp
  have ts2: "po_trackers p2 = po_trackers p"
    using poll_tracker_polled [OF t1 2] ts1 by (simp add: polled_def)
  have 3: "foldl (poll_tracker F D now s scale) (p2, u2) vs = (q, u')" using run 1 2 by simp
  have pol: "polled now (set vs) p2 q" using fold_poll_polled [OF _ 3] found ts2 by simp
  have "condition_kept t p2" using poll_tracker_condition [OF t1 2] c by blast
  from condition_kept_polled [OF this pol v] c show ?thesis by blast
qed

lemma inactive_marked:
  "i \<in> set ids \<Longrightarrow> is_inactive (latest_state
     (foldl (\<lambda>q i. set_state now i (inactive_because reason) q) p ids) i)"
  by (induction ids arbitrary: p rule: rev_induct)
    (auto simp: is_inactive_def set_state_def latest_state_def inactive_because_def)

lemma declared_earlier_split:
  assumes "declared_earlier {} (us @ t # vs)" and "td_condition t = Some c"
  shows "tc_tracker_id c \<in> td_id ` set us"
  using assms(1)[unfolded declared_earlier_def, rule_format, of "length us" c] assms(2) by simp

lemma due_ids_subseq: "subseq (due_ids p now) (map td_id (tk_trackers (po_trackers p)))"
  unfolding due_ids_def by (intro subseq_map subseq_filter_left)

lemma poll_due_condition:
  assumes run: "poll_due F D sp clock now cap c p w = (q, out, w')"
    and ids: "distinct (map td_id (tk_trackers (po_trackers p)))"
    and earlier: "declared_earlier {} (tk_trackers (po_trackers p))"
    and t: "t \<in> set (tk_trackers (po_trackers p))" and due: "td_id t \<in> set (due_ids p now)"
  shows "condition_kept t q"
  using run
proof (cases rule: poll_due_cases)
  case idle
  then show ?thesis using due by simp
next
  case (denied reason)
  then have "q = foldl (\<lambda>q i. set_state now i (inactive_because reason) q) p (due_ids p now)"
    by (simp add: mark_inactive_def)
  then show ?thesis using inactive_marked [OF due, where p = p] by (simp add: condition_kept_def)
next
  case (unfocused p1 inactive)
  have "td_id t \<in> set inactive"
    using split_by_focus_sets [OF unfocused(4)] due_ids_found due by auto
  then show ?thesis
    using inactive_marked [of "td_id t" inactive, where p = p] unfocused(3,6) by (simp add: condition_kept_def)
next
  case (sampled p1 active inactive)
  have sets: "set active \<union> set inactive = set (due_ids p now)"
    using split_by_focus_sets [OF sampled(3)] due_ids_found by blast
  have p1: "polled now (set inactive) p p1" unfolding sampled(4) by (rule polled_mark)
  have found1: "find_tracker (tk_trackers (po_trackers p1)) i \<noteq> None" if "i \<in> set active" for i
  proof -
    have "i \<in> set (due_ids p now)" using sets that by blast
    from due_ids_found [OF this] p1 show ?thesis by (simp add: polled_def)
  qed
  have sub: "subseq active (map td_id (tk_trackers (po_trackers p)))"
    using split_by_focus_order [OF sampled(3)] due_ids_subseq subseq_order.trans by blast
  show ?thesis
  proof (cases "td_id t \<in> set active")
    case False
    then have "td_id t \<in> set inactive" using sets due by blast
    then have "is_inactive (latest_state p1 (td_id t))" unfolding sampled(4) by (rule inactive_marked)
    moreover have "polled now (set active) p1 q"
      using poll_active_polled [OF sampled(5)] found1 by blast
    ultimately show ?thesis using False by (simp add: polled_def condition_kept_def)
  next
    case True
    show ?thesis
    proof (cases "sp_capture sp w")
      case (Pair w1 r)
      show ?thesis
      proof (cases r)
        case (Inl e)
        then have "q = foldl (\<lambda>q i. set_state now i (inactive_because NoReadableSample) q) p1 active"
          using sampled(5) Pair by (simp add: poll_active_def mark_inactive_def)
        then show ?thesis using inactive_marked [OF True, where p = p1] by (simp add: condition_kept_def)
      next
        case (Inr s)
        obtain us vs where av: "active = us @ td_id t # vs" using split_list [OF True] by blast
        obtain xs ys where ts: "tk_trackers (po_trackers p) = xs @ t # ys"
          using split_list [OF t] by blast
        have d: "distinct (map td_id xs @ td_id t # map td_id ys)" using ids ts by simp
        have vs: "set vs \<subseteq> set (map td_id ys)"
          by (rule subseq_after [OF _ d, of us]) (use sub av ts in simp)
        obtain w2 scale where sc: "sp_scale sp s c w1 = (w2, scale)" by fastforce
        obtain q0 u0 where f: "foldl (poll_tracker F D now s scale) (p1, inactive)
            (us @ td_id t # vs) = (q0, u0)" by fastforce
        have q0: "q = q0" using sampled(5) Pair Inr sc f av by (simp add: poll_active_def)
        have "condition_kept t q0"
        proof (rule fold_poll_condition [OF f])
          show "\<forall>i\<in>set (us @ td_id t # vs). find_tracker (tk_trackers (po_trackers p1)) i \<noteq> None"
            using found1 av by blast
          show "find_tracker (tk_trackers (po_trackers p1)) (td_id t) = Some t"
            using find_tracker_unique [OF ids t] p1 by (simp add: polled_def)
          show "td_id t \<notin> set vs" using vs d by auto
          show "tc_tracker_id k \<notin> insert (td_id t) (set vs)" if "td_condition t = Some k" for k
            using declared_earlier_split [of xs t ys k] earlier ts that vs d by auto
        qed
        then show ?thesis using q0 by simp
      qed
    qed
  qed
qed

section \<open>The reason a screen may not be read\<close>

lemma blocking_message:
  assumes "first_blocking_error R [k] = Some e"
  shows "(report_status R k = None \<and> er_message e = ''required capability '' @ [CHR 0x27]
        @ show_capability_kind k @ [CHR 0x27] @ '' was not probed'')
    \<or> (\<exists>st. report_status R k = Some st \<and> \<not> allows_activation (cs_availability st)
         \<and> (\<forall>d. cs_diagnostic st = Some d \<longrightarrow> er_message e = ad_message d))"
proof (cases "report_status R k")
  case None
  with assms have "e = with_capability (legacy_capability k)
     (diagnosable_error_new CapabilityProbe (''required capability '' @ [CHR 0x27]
        @ show_capability_kind k @ [CHR 0x27] @ '' was not probed''))" by simp
  with None show ?thesis by (simp add: with_capability_def diagnosable_error_new_def)
next
  case (Some st)
  with assms have "\<not> allows_activation (cs_availability st)" by (auto split: if_splits)
  moreover have "er_message e = ad_message d" if "cs_diagnostic st = Some d" for d
    using assms Some calculation that by (auto simp: error_defs)
  ultimately show ?thesis using Some by blast
qed

lemma kde_denial_never_unsupported:
  "screen_read_denial (kde_capability_report required env) \<noteq> Some ScreenReadUnsupported"
proof -
  let ?R = "kde_capability_report required env"
  let ?m1 = "''required KDE Plasma Wayland capability '' @ [CHR 0x27] @ show_capability_kind ScreenRead
      @ [CHR 0x27] @ '' is unavailable''"
  let ?m2 = "''KDE ScreenCast portal is unavailable''"
  let ?m3 = "''required capability '' @ [CHR 0x27] @ show_capability_kind ScreenRead @ [CHR 0x27]
      @ '' was not probed''"
  have no: "\<not> contains_str ''unsupported'' ?m1" "\<not> contains_str ''unsupported'' ?m2"
    "\<not> contains_str ''unsupported'' ?m3"
    by code_simp+
  have unsup: "\<exists>d. cs_diagnostic st = Some d \<and> ad_message d = ?m1"
    if "report_status (unsupported_report required source) ScreenRead = Some st" for source st
    using that unfolding unsupported_report_status
    by (auto simp: error_defs status_unavailable_def simp del: show_capability_kind.simps
        split: if_splits)
  have kde: "\<exists>d. cs_diagnostic st = Some d \<and> ad_message d = ?m2"
    if "report_status (report_from_statuses (map (kde_kind_status sv) required)) ScreenRead = Some st"
      and "\<not> allows_activation (cs_availability st)" for sv st
  proof -
    have "st = kde_kind_status sv ScreenRead"
      using that(1) by (subst (asm) report_of_kinds) (auto split: if_splits)
    with that(2) show ?thesis
      by (auto simp: unavailable_kind_def status_available_def status_unavailable_def error_defs
          allows_activation_def split: if_splits)
  qed
  have three: "?R = unsupported_report required ''no KDE Plasma Wayland session''
      \<or> ?R = unsupported_report required ''non-KDE Wayland session''
      \<or> ?R = report_from_statuses (map (kde_kind_status (ke_services env)) required)"
    by (simp add: kde_capability_report_def Let_def)
  have diag: "\<exists>d. cs_diagnostic st = Some d \<and> ad_message d \<in> {?m1, ?m2}"
    if "report_status ?R ScreenRead = Some st" and "\<not> allows_activation (cs_availability st)" for st
    using three
  proof (elim disjE)
    assume "?R = unsupported_report required ''no KDE Plasma Wayland session''"
    with unsup [of "''no KDE Plasma Wayland session''" st] that(1) show ?thesis by auto
  next
    assume "?R = unsupported_report required ''non-KDE Wayland session''"
    with unsup [of "''non-KDE Wayland session''" st] that(1) show ?thesis by auto
  next
    assume "?R = report_from_statuses (map (kde_kind_status (ke_services env)) required)"
    with kde [of "ke_services env" st] that show ?thesis by auto
  qed
  have "\<not> contains_str ''unsupported'' (er_message e)"
    if "first_blocking_error ?R [ScreenRead] = Some e" for e
    using blocking_message [OF that]
  proof (elim disjE exE conjE)
    assume "er_message e = ?m3"
    then show ?thesis using no(3) by (simp only: not_False_eq_True)
  next
    fix st
    assume st: "report_status ?R ScreenRead = Some st" "\<not> allows_activation (cs_availability st)"
      "\<forall>d. cs_diagnostic st = Some d \<longrightarrow> er_message e = ad_message d"
    from diag [OF st(1,2)] st(3) have "er_message e = ?m1 \<or> er_message e = ?m2" by auto
    then show ?thesis
    proof
      assume m: "er_message e = ?m1"
      show ?thesis unfolding m by (rule no(1))
    next
      assume m: "er_message e = ?m2"
      show ?thesis unfolding m by (rule no(2))
    qed
  qed
  moreover have "capability_set_new [ScreenRead] = [ScreenRead]"
    by (simp add: capability_set_new_def sort_dedup_def)
  ultimately show ?thesis by (auto simp: screen_read_denial_def split: if_splits)
qed

end
