(* ===== verification/OverlayLaws.thy ===== *)
theory OverlayLaws imports Overlays TrackerLaws begin

text \<open>
  Lemmas on overlays: which sets are accepted, when an overlay is drawn, and the kind of state each
  tracker keeps, by which an accepted overlay always finds a state it can draw.
\<close>

section \<open>Accepted overlay sets\<close>

definition binding_ok :: "'f tracker_set \<Rightarrow> 'f visual_definition \<Rightarrow> bool" where
  "binding_ok ts v \<longleftrightarrow>
     (\<exists>t. find_tracker (tk_trackers ts) (sb_tracker_id (visual_binding v)) = Some t
        \<and> field_fits (td_detector t) (sb_field (visual_binding v))
        \<and> (is_radial (td_detector t) \<or> pb_activated_style (progress_bar_of v) = None
             \<and> pb_active_style (progress_bar_of v) = None))"

lemma validate_visual_binding_Ok [simp]:
  "validate_visual_binding ts v = Inr () \<longleftrightarrow> binding_ok ts v"
  by (auto simp: validate_visual_binding_def binding_ok_def find_tracker_def Let_def
      validation_error_def split: option.splits)

lemma validate_bindings_Ok: "validate_bindings ts vs = Inr () \<longleftrightarrow> (\<forall>v\<in>set vs. binding_ok ts v)"
proof (induction vs)
  case (Cons v vs)
  then show ?case
    using validate_visual_binding_Ok [of ts v]
    by (cases "validate_visual_binding ts v") (auto simp: rbind.simps)
qed simp

lemma check_overlays_Ok:
  "check_overlays ts seen ovs = Inr () \<longleftrightarrow>
     distinct (map od_id ovs) \<and> set seen \<inter> od_id ` set ovs = {}
     \<and> (\<forall>ov\<in>set ovs. \<forall>v\<in>set (od_visuals ov). binding_ok ts v)"
proof (induction ts seen ovs rule: check_overlays.induct)
  case (2 ts seen ov ovs)
  show ?case
  proof (cases "od_id ov \<in> set seen")
    case False
    show ?thesis
      using "2.IH" [OF False] False validate_bindings_Ok [of ts "od_visuals ov"]
      by (cases "validate_overlay_bindings ov ts") (auto simp: rbind.simps validate_overlay_bindings_def)
  qed (simp add: validation_error_def)
qed simp

lemma overlay_set_accepted:
  "(\<exists>s. overlay_set_new ovs ts = Inr s) \<longleftrightarrow>
     distinct (map od_id ovs) \<and> (\<forall>ov\<in>set ovs. \<forall>v\<in>set (od_visuals ov). binding_ok ts v)"
  using check_overlays_Ok [of ts "[]" ovs]
  by (cases "check_overlays ts [] ovs") (auto simp: overlay_set_new_def rbind.simps)

lemma overlay_set_contents: "overlay_set_new ovs ts = Inr s \<Longrightarrow> ol_overlays s = ovs"
  by (auto simp: overlay_set_new_def rbind.simps split: sum.splits)

section \<open>The kind of state a tracker keeps\<close>

definition kind_fits :: "'f detector_definition \<Rightarrow> tracker_state \<Rightarrow> bool" where
  "kind_fits d st = (case st of RadialState _ \<Rightarrow> is_radial d | ProgressState _ \<Rightarrow> \<not> is_radial d
     | InactiveState _ \<Rightarrow> True)"

definition kinds_kept :: "'f tracker_poller \<Rightarrow> bool" where
  "kinds_kept p \<longleftrightarrow> (\<forall>i t st. find_tracker (tk_trackers (po_trackers p)) i = Some t \<longrightarrow>
     latest_state p i = Some st \<longrightarrow> kind_fits (td_detector t) st)"

lemma kinds_kept_new: "kinds_kept (poller_new ts)"
  by (simp add: kinds_kept_def poller_new_def latest_state_def)

lemma is_radial_scaled [simp]: "is_radial (scaled_for_sample D scale d) = is_radial d"
  by (cases d) (simp_all add: is_radial_def scaled_for_sample_def)

lemma kind_inactive [simp]: "kind_fits d (inactive_because reason)"
  by (simp add: kind_fits_def inactive_because_def)

lemma kinds_set_state:
  assumes "kinds_kept p"
    and "\<And>t. find_tracker (tk_trackers (po_trackers p)) i = Some t \<Longrightarrow> kind_fits (td_detector t) st"
  shows "kinds_kept (set_state now i st p)"
  using assms by (auto simp: kinds_kept_def set_state_def latest_state_def)

lemma kinds_mark:
  "kinds_kept p \<Longrightarrow> kinds_kept (foldl (\<lambda>q i. set_state now i (inactive_because reason) q) p ids)"
  by (induction ids arbitrary: p) (simp_all add: kinds_set_state)

lemma radial_detected_kind:
  "kind_fits d st" if "is_radial d" "detect_radial_cooldown_with_roi F s x h = (h', st)"
  using that
  by (auto simp: kind_fits_def detect_radial_cooldown_with_roi_def Let_def inactive_because_def
      split: option.splits prod.splits)

lemma progress_detected_kind:
  "\<not> is_radial d \<Longrightarrow> kind_fits d (detect_horizontal_progress_bar_with_roi s x)"
  by (simp add: kind_fits_def detect_horizontal_progress_bar_with_roi_def split: option.splits)

lemma detect_tracker_kind:
  assumes "detect_tracker F D s scale t p = (q, st)" shows "kind_fits (td_detector t) st"
proof (cases "scaled_for_sample D scale (td_detector t)")
  case (RadialCooldown r msk ph)
  then have "is_radial (td_detector t)"
    using is_radial_scaled [of D scale "td_detector t"] by (simp add: is_radial_def)
  with RadialCooldown assms show ?thesis
    by (auto simp: detect_tracker_def Let_def radial_detected_kind split: prod.splits)
next
  case (HorizontalProgressBar r dir)
  then have "\<not> is_radial (td_detector t)"
    using is_radial_scaled [of D scale "td_detector t"] by (simp add: is_radial_def)
  with HorizontalProgressBar assms show ?thesis
    by (auto simp: detect_tracker_def Let_def progress_detected_kind)
qed

text \<open>Every poll leaves each tracker a state of its detector's kind, for the same set of trackers.\<close>

lemma detect_tracker_keeps:
  assumes "detect_tracker F D s scale t p = (q, st)"
  shows "po_trackers q = po_trackers p \<and> po_latest q = po_latest p"
proof (cases "scaled_for_sample D scale (td_detector t)")
  case (RadialCooldown r msk ph)
  with assms show ?thesis by (auto simp: detect_tracker_def Let_def split: prod.splits)
next
  case (HorizontalProgressBar r dir)
  with assms show ?thesis by (auto simp: detect_tracker_def Let_def)
qed

definition kinds_of :: "'f tracker_set \<Rightarrow> 'f tracker_poller \<Rightarrow> bool" where
  "kinds_of ts p \<longleftrightarrow> po_trackers p = ts \<and> kinds_kept p"

interpretation kinds: poll_invariant F D "kinds_of ts" for F D ts
proof
  show "kinds_of ts (set_state now i (inactive_because reason) p)" if "kinds_of ts p"
    for p now i reason
    using that by (simp add: kinds_of_def kinds_set_state) (simp add: set_state_def)
  show "kinds_of ts (set_state now i st q)"
    if p: "kinds_of ts p" and t: "find_tracker (tk_trackers (po_trackers p)) i = Some t"
      and d: "detect_tracker F D s scale t p = (q, st)" for p i t s scale q st now
  proof -
    have q: "po_trackers q = po_trackers p" "po_latest q = po_latest p"
      using detect_tracker_keeps [OF d] by simp_all
    then have "kinds_kept q" using p by (simp add: kinds_of_def kinds_kept_def latest_state_def)
    then have "kinds_kept (set_state now i st q)"
      by (rule kinds_set_state) (use q t detect_tracker_kind [OF d] in simp)
    then show ?thesis using p q by (simp add: kinds_of_def set_state_def)
  qed
qed

section \<open>When an overlay is drawn\<close>

definition drives :: "'f float_ops \<Rightarrow> tracker_states \<Rightarrow> 'f visual_definition \<Rightarrow> bool" where
  "drives F states v \<longleftrightarrow>
     (\<exists>st. bm_get states (sb_tracker_id (visual_binding v)) = Some st
        \<and> state_freshness_ms st \<le> 250 \<and> visual_snapshot F v st \<noteq> None)"

lemma visual_snapshots_Inr:
  "(\<exists>sns. visual_snapshots F ov states shown vs = Inr sns) \<longleftrightarrow> (\<forall>v\<in>set vs. drives F states v)"
  by (induction F ov states shown vs rule: visual_snapshots.induct)
    (auto simp: drives_def Let_def split: option.splits)

lemma style_apply_id [simp]: "vs_visual_id (style_apply st sn) = vs_visual_id sn"
  by (simp add: style_apply_def)

lemma apply_optional_id [simp]: "vs_visual_id (apply_optional st sn) = vs_visual_id sn"
  by (simp add: apply_optional_def split: option.split)

lemmas style_defs = apply_inactive_style_def apply_activated_style_def apply_active_style_def

lemma visual_snapshot_id: "visual_snapshot F v st = Some sn \<Longrightarrow> vs_visual_id sn = visual_id v"
  by (auto simp: visual_snapshot_def Let_def visual_id_def base_visual_snapshot_def style_defs
      split: tracker_state.splits if_splits radial_cooldown_phase.splits option.splits)

lemma visual_snapshots_order:
  "visual_snapshots F ov states shown vs = Inr sns \<Longrightarrow>
   map vs_visual_id sns = map vs_visual_id shown @ map visual_id vs"
  by (induction F ov states shown vs rule: visual_snapshots.induct)
    (auto simp: Let_def visual_snapshot_id split: option.splits if_splits)

lemma visual_snapshots_Inl:
  "visual_snapshots F ov states shown vs = Inl sn \<Longrightarrow>
   sn_visuals sn = [] \<and> \<not> snapshot_is_active sn \<and> (\<exists>d. sn_diagnostic sn = Some d
     \<and> og_reason d \<in> {MissingStateSource, StaleStateSource, UnsupportedState})"
  by (induction F ov states shown vs rule: visual_snapshots.induct)
    (auto simp: closed_snapshot_def snapshot_is_active_def Let_def split: option.splits if_splits)

lemma overlay_active_iff:
  "snapshot_is_active (overlay_snapshot F now ov cap c states pr) \<longleftrightarrow>
     allows_activation (ps_availability (provider_status pr (od_provider ov)))
     \<and> first_blocking_error cap (overlay_required ov) = None
     \<and> decide_context_at (od_scope ov) c now = Allowed
     \<and> (\<forall>v\<in>set (od_visuals ov). drives F states v)"
  using visual_snapshots_Inr [of F ov states "[]" "od_visuals ov"]
  by (auto simp: overlay_snapshot_def Let_def snapshot_is_active_def closed_snapshot_def
      split: option.splits sum.splits dest: visual_snapshots_Inl)

lemma overlay_drawn:
  assumes "snapshot_is_active (overlay_snapshot F now ov cap c states pr)"
  shows "map vs_visual_id (sn_visuals (overlay_snapshot F now ov cap c states pr))
      = map visual_id (od_visuals ov)
    \<and> sn_diagnostic (overlay_snapshot F now ov cap c states pr) = None"
  using assms visual_snapshots_order [of F ov states "[]" "od_visuals ov"]
  by (auto simp: overlay_snapshot_def Let_def snapshot_is_active_def closed_snapshot_def
      split: option.splits sum.splits if_splits dest: visual_snapshots_Inl)

lemma overlay_closed:
  assumes "\<not> snapshot_is_active (overlay_snapshot F now ov cap c states pr)"
  shows "sn_visuals (overlay_snapshot F now ov cap c states pr) = []
    \<and> sn_diagnostic (overlay_snapshot F now ov cap c states pr) \<noteq> None"
  using assms
  by (auto simp: overlay_snapshot_def Let_def snapshot_is_active_def closed_snapshot_def
      split: option.splits sum.splits if_splits dest: visual_snapshots_Inl)

section \<open>Overlays over polled states\<close>

lemma state_ok_fresh: "state_ok st \<Longrightarrow> state_freshness_ms st = 0"
  by (simp add: state_ok_def state_freshness_ms_def split: tracker_state.splits)

lemma fitting_state_drawn:
  assumes "field_fits d (sb_field (visual_binding v))" and "kind_fits d st"
  shows "visual_snapshot F v st \<noteq> None"
  using assms
  by (auto simp: visual_snapshot_def Let_def visual_binding_def field_fits_def kind_fits_def
      is_radial_def split: tracker_state.splits detector_definition.splits)

lemma polled_state_drives:
  assumes "kinds_of ts p" and "poller_ok p" and "binding_ok ts v"
  shows "drives F (po_latest p) v \<longleftrightarrow> latest_state p (sb_tracker_id (visual_binding v)) \<noteq> None"
proof
  assume "latest_state p (sb_tracker_id (visual_binding v)) \<noteq> None"
  then obtain st where st: "latest_state p (sb_tracker_id (visual_binding v)) = Some st" by blast
  obtain t where t: "find_tracker (tk_trackers ts) (sb_tracker_id (visual_binding v)) = Some t"
    "field_fits (td_detector t) (sb_field (visual_binding v))"
    using assms(3) by (auto simp: binding_ok_def)
  have "kind_fits (td_detector t) st"
    using assms(1) t(1) st by (auto simp: kinds_of_def kinds_kept_def)
  moreover have "state_freshness_ms st = 0"
    using assms(2) st state_ok_fresh by (auto simp: poller_ok_def)
  ultimately show "drives F (po_latest p) v"
    using st fitting_state_drawn [OF t(2)] by (auto simp: drives_def latest_state_def)
qed (auto simp: drives_def latest_state_def)

lemma polled_visuals_closed:
  assumes "\<And>v. v \<in> set vs \<Longrightarrow> binding_ok ts v" and "kinds_of ts p" and "poller_ok p"
    and "visual_snapshots F ov (po_latest p) shown vs = Inl sn"
  shows "\<exists>v\<in>set vs. latest_state p (sb_tracker_id (visual_binding v)) = None
    \<and> (\<exists>d. sn_diagnostic sn = Some d \<and> og_reason d = MissingStateSource)"
  using assms(1,4)
proof (induction vs arbitrary: shown)
  case (Cons v vs)
  show ?case
  proof (cases "latest_state p (sb_tracker_id (visual_binding v))")
    case None
    with Cons.prems(2) show ?thesis by (auto simp: closed_snapshot_def latest_state_def Let_def)
  next
    case (Some st)
    then have "drives F (po_latest p) v"
      using polled_state_drives [OF assms(2,3)] Cons.prems(1) by simp
    then obtain vsn where "state_freshness_ms st \<le> 250" "visual_snapshot F v st = Some vsn"
      using Some by (auto simp: drives_def latest_state_def)
    with Cons.prems(2) Some have "visual_snapshots F ov (po_latest p) (shown @ [vsn]) vs = Inl sn"
      by (simp add: latest_state_def Let_def)
    from Cons.IH [OF _ this] Cons.prems(1) show ?thesis by auto
  qed
qed simp

section \<open>Drawn fractions\<close>

lemma style_apply_fraction [simp]: "vs_fill_fraction (style_apply st sn) = vs_fill_fraction sn"
  by (simp add: style_apply_def)

lemma apply_optional_fraction [simp]:
  "vs_fill_fraction (apply_optional st sn) = vs_fill_fraction sn"
  by (simp add: apply_optional_def split: option.split)

lemma visual_snapshot_fraction:
  assumes "visual_snapshot F v st = Some sn"
  shows "\<exists>x. vs_fill_fraction sn = fl_clamp F (fl_literal F 0 1) (fl_literal F 1 1) x"
  using assms
  by (auto simp: visual_snapshot_def Let_def base_visual_snapshot_def style_defs
      split: tracker_state.splits if_splits radial_cooldown_phase.splits option.splits)

end
