(* ===== verification/ControllerInvariants.thy ===== *)
theory ControllerInvariants imports ControllerLoop LiveInvariants OverlayLaws begin

text \<open>
  What the live loop of a controller keeps, whatever the adapter and the interpreter answer. A
  property may hold after every outcome, or only while nothing fails: \<open>keeps_if b\<close> says which. The
  locales state what a property has to satisfy for the parts the handlers are composed of; they are
  interpreted for the motion runtime, for the screen state trackers and for the callbacks in flight.
\<close>

section \<open>Properties kept after every outcome or after success\<close>

named_theorems keeps_if_intros \<open>operations that keep a property of the state, or keep it on success\<close>

definition keeps_if :: "bool \<Rightarrow> ('s \<Rightarrow> bool) \<Rightarrow> ('s, 'e, 'a) effect \<Rightarrow> bool" where
  "keeps_if b I m \<longleftrightarrow>
     (\<forall>s s' r. I s \<longrightarrow> m s = Some (s', r) \<longrightarrow> (b \<longrightarrow> is_ok r) \<longrightarrow> I s')"

lemma keeps_ifI:
  "(\<And>s s' r. I s \<Longrightarrow> m s = Some (s', r) \<Longrightarrow> (b \<longrightarrow> is_ok r) \<Longrightarrow> I s') \<Longrightarrow> keeps_if b I m"
  by (simp add: keeps_if_def)

lemma keeps_ifD: "keeps_if b I m \<Longrightarrow> I s \<Longrightarrow> m s = Some (s', r) \<Longrightarrow> (b \<longrightarrow> is_ok r) \<Longrightarrow> I s'"
  by (auto simp: keeps_if_def)

lemma keeps_if_ok: "keeps_if b I m \<Longrightarrow> I s \<Longrightarrow> m s = Some (s', Inr a) \<Longrightarrow> I s'"
  by (auto simp: keeps_if_def)

lemma keeps_keeps_if: "keeps I m \<Longrightarrow> keeps_if b I m"
  by (auto simp: keeps_if_def keeps_def)

lemma keeps_if_False: "keeps_if False I m \<longleftrightarrow> keeps I m"
  by (auto simp: keeps_if_def keeps_def)

lemma keeps_if_basic [keeps_if_intros]:
  "keeps_if b I (sreturn a)" "keeps_if b I (sfail e)" "keeps_if b I (sget f)"
  by (intro keeps_keeps_if keeps_intros)+

lemma keeps_if_check [keeps_if_intros]: "keeps_if b I (check r)"
  by (intro keeps_keeps_if keeps_intros)

lemma keeps_if_supd: "(\<And>s. I s \<Longrightarrow> I (f s)) \<Longrightarrow> keeps_if b I (supd f)"
  by (intro keeps_keeps_if keeps_supd)

lemma keeps_if_srun: "(\<And>s. I s \<Longrightarrow> I (fst (f s))) \<Longrightarrow> keeps_if b I (srun f)"
  by (intro keeps_keeps_if keeps_srun)

lemma keeps_if_sbind [keeps_if_intros]:
  assumes "keeps_if b I m" and "\<And>a. keeps_if b I (f a)" shows "keeps_if b I (sbind m f)"
proof (rule keeps_ifI)
  fix s s' r
  assume s: "I s" and run: "sbind m f s = Some (s', r)" and ok: "b \<longrightarrow> is_ok r"
  from run consider (err) e where "m s = Some (s', Inl e)" "r = Inl e"
    | (ok) s1 a where "m s = Some (s1, Inr a)" "f a s1 = Some (s', r)"
    unfolding sbind_Some by blast
  then show "I s'"
  proof cases
    case err
    then have "\<not> b" using ok by auto
    then show ?thesis using keeps_ifD [OF assms(1) s err(1)] by blast
  next
    case (ok s1 a)
    then have "I s1" using keeps_if_ok [OF assms(1) s] by blast
    then show ?thesis using keeps_ifD [OF assms(2) _ ok(2)] \<open>b \<longrightarrow> is_ok r\<close> by blast
  qed
qed

lemma keeps_if_sthen [keeps_if_intros]:
  "keeps_if b I m \<Longrightarrow> keeps_if b I k \<Longrightarrow> keeps_if b I (sthen m k)"
  unfolding sthen_def by (rule keeps_if_sbind)

lemma keeps_if_swhen [keeps_if_intros]: "keeps_if b I m \<Longrightarrow> keeps_if b I (swhen c m)"
  by (simp add: swhen_def keeps_if_basic)

lemma keeps_if_if [keeps_if_intros]:
  "keeps_if b I m \<Longrightarrow> keeps_if b I k \<Longrightarrow> keeps_if b I (if c then m else k)"
  by simp

lemma keeps_if_option [keeps_if_intros]:
  "keeps_if b I m \<Longrightarrow> (\<And>x. keeps_if b I (f x)) \<Longrightarrow>
   keeps_if b I (case o' of None \<Rightarrow> m | Some x \<Rightarrow> f x)"
  by (cases o') simp_all

lemma keeps_if_option_at [keeps_if_intros]:
  "keeps_if b I m \<Longrightarrow> (\<And>x. keeps_if b I (f x)) \<Longrightarrow>
   keeps_if b I (\<lambda>s. case o' of None \<Rightarrow> m s | Some x \<Rightarrow> f x s)"
  by (cases o') simp_all

lemma keeps_if_seach [keeps_if_intros]: "(\<And>x. keeps_if b I (f x)) \<Longrightarrow> keeps_if b I (seach f xs)"
  by (induction xs) (auto intro: keeps_if_intros)

lemma keeps_if_sfold [keeps_if_intros]:
  "(\<And>x a. keeps_if b I (f x a)) \<Longrightarrow> keeps_if b I (sfold f xs a)"
  by (induction xs arbitrary: a) (auto intro: keeps_if_intros)

text \<open>A loop that is a partial function keeps what one unfolding of it keeps.\<close>

lemma keeps_if_returned:
  "(\<And>s y. m s = Some y \<Longrightarrow> I s \<longrightarrow> (b \<longrightarrow> is_ok (snd y)) \<longrightarrow> I (fst y)) \<Longrightarrow> keeps_if b I m"
  by (auto simp: keeps_if_def)

lemma keeps_if_unfolded:
  "keeps_if b I m \<Longrightarrow> m s = Some y \<Longrightarrow> I s \<longrightarrow> (b \<longrightarrow> is_ok (snd y)) \<longrightarrow> I (fst y)"
  by (cases y) (auto dest: keeps_ifD)

section \<open>One observed event\<close>

locale controller_handlers =
  fixes b :: bool and A :: "('w, 'f, 'd) controller_adapter"
    and I :: "('w, 'f, 'co) controller_state \<Rightarrow> bool"
  assumes counted: "\<And>f. keeps_if b I (count f)"
    and now: "keeps_if b I (read_now (ca_live A))"
    and clock: "keeps_if b I (world_call (ad_monotonic_clock_time (ca_live A)))"
    and cxt: "keeps_if b I (world_try (ad_active_process_context (ca_live A)))"
    and feed: "\<And>ev t. keeps_if b I (feed_motion_runtime ev t)"
    and schedule: "\<And>r cap t. keeps_if b I (schedule_registration r cap t)"
    and ticked: "\<And>t x. keeps_if b I (set_last_tick t x)"
    and unticked: "\<And>t. keeps_if b I (forget_last_tick t)"
    and flip: "\<And>i. keeps_if b I (flip_overlay A i)"
begin

lemmas kept = keeps_if_intros counted now clock cxt feed schedule ticked unticked flip

lemma focus: "keeps_if b I (focus_state (ca_live A) sc c)"
  unfolding focus_state_def by (intro kept)

lemma denial: "keeps_if b I (count_denial st)"
  unfolding count_denial_def by (intro kept)

lemma callback_name: "keeps_if b I (schedule_controller_callback_name A cap r n t)"
  unfolding schedule_controller_callback_name_def by (intro kept focus denial)

lemma callback: "keeps_if b I (schedule_controller_callback A cap r t)"
  unfolding schedule_controller_callback_def by (rule callback_name)

lemma optional: "keeps_if b I (optional_callback A cap r n t)"
  unfolding optional_callback_def by (intro kept callback_name)

lemma press: "keeps_if b I (schedule_press_callback A p cap ev t)"
  unfolding schedule_press_callback_def by (intro kept callback)

lemma motion_event: "keeps_if b I (controller_motion_event A p cap t ev)"
  unfolding controller_motion_event_def
  by (cases ev) (auto intro!: kept callback optional)

lemma observed: "keeps_if b I (schedule_observed_input A p cap t ev evs)"
  unfolding schedule_observed_input_def by (intro kept press motion_event)

lemma toggle: "keeps_if b I (toggle_overlay A ov c)"
  unfolding toggle_overlay_def by (intro kept focus denial)

lemma toggle_shortcut: "keeps_if b I (toggle_handle_shortcut A p h)"
  unfolding toggle_handle_shortcut_def by (intro kept toggle)

lemma toggle_input: "keeps_if b I (toggle_handle_observed_input A p ev)"
  unfolding toggle_handle_observed_input_def by (intro kept toggle)

lemma latency: "keeps_if b I (record_motion_latency_metrics (ca_live A) t ts)"
  unfolding record_motion_latency_metrics_def by (intro kept)

lemma event_calls:
  assumes "keeps_if b I (world_try (ad_arm_input_grab (ca_live A)))"
    and "\<And>c. keeps_if b I (finish_observed_input A ob ev c)"
  shows "keeps_if b I (handle_controller_event A p cap t ob ev)"
  unfolding handle_controller_event_def by (intro kept assms latency toggle_input observed)

end

section \<open>The loop\<close>

text \<open>The step of the two loops over callbacks: what is taken is run and settled.\<close>

definition ready_step ::
  "('w, 'f, 'd) controller_adapter \<Rightarrow> ('w, 'fn, 'co, 'v) lua_runtime option \<Rightarrow> capability_report
   \<Rightarrow> ('w, 'f, 'co, unit) controller_effect \<Rightarrow> ('w, 'f, 'co, unit) controller_effect" where
  "ready_step A L cap k = sbind (pop_ready A) (\<lambda>next_pc s1.
     case next_pc of None \<Rightarrow> sreturn () s1 | Some pc \<Rightarrow> sthen (resume_pending A L cap pc) k s1)"

definition task_step ::
  "('w, 'f, 'd) controller_adapter \<Rightarrow> 'f controller_program \<Rightarrow> ('w, 'fn, 'co, 'v) lua_runtime option
   \<Rightarrow> capability_report \<Rightarrow> ('w, 'f, 'co, unit) controller_effect
   \<Rightarrow> ('w, 'f, 'co, unit) controller_effect" where
  "task_step A p L cap k = sbind pop_task (\<lambda>next_task s1.
     case next_task of None \<Rightarrow> sreturn () s1
     | Some task \<Rightarrow>
         sthen (sbind (execute_controller_task A p L cap task) (settle_execution task 0)) k s1)"

locale controller_invariant = controller_handlers b A I
  for b :: bool and A :: "('w, 'f, 'd) controller_adapter"
    and I :: "('w, 'f, 'co) controller_state \<Rightarrow> bool" +
  fixes L :: "('w, 'fn, 'co, 'v) lua_runtime option"
  assumes world: "\<And>s w. I s \<Longrightarrow> I (s\<lparr>lc_world := w\<rparr>)"
    and dev: "\<And>s d. I s \<Longrightarrow> I (s\<lparr>lc_dev := d\<rparr>)"
    and polled: "\<And>cap c ms. keeps_if b I (poll_trackers_now A cap c ms)"
    and noted: "\<And>f. (\<And>lt. lt_poller (f lt) = lt_poller lt) \<Longrightarrow> keeps_if b I (on_trackers f)"
    and ready: "\<And>cap k. keeps_if b I k \<Longrightarrow> keeps_if b I (ready_step A L cap k)"
    and task: "\<And>p cap k. keeps_if b I k \<Longrightarrow> keeps_if b I (task_step A p L cap k)"
    and cancelled: "keeps_if b I cancel_controller_callbacks"
begin

lemma stats: "I s \<Longrightarrow> I (s\<lparr>lc_stats := st\<rparr>)"
  using keeps_if_ok [OF counted [of "\<lambda>_. st"], of s] by (simp add: count_def supd_def)

lemma free: "dev_free I" "world_free I"
  by (simp_all add: dev_free_def world_free_def world stats dev)

lemma called: "keeps_if b I (world_call f)" "keeps_if b I (world_try g)"
  by (intro keeps_keeps_if world_intros free)+

lemma developer: "keeps_if b I (dev_handle_shortcut A' h)"
  by (intro keeps_keeps_if world_intros free)

lemmas kept' = kept called developer polled cancelled

lemma input_event: "keeps_if b I (handle_live_controller_observed_input A p cap t ob)"
  unfolding handle_live_controller_observed_input_def finish_observed_input_def
  by (intro kept' event_calls [unfolded finish_observed_input_def])

lemma shortcut: "keeps_if b I (handle_controller_shortcut A p cap ev)"
  unfolding handle_controller_shortcut_def by (intro kept' toggle_shortcut callback)

lemma shortcuts: "keeps_if b I (drain_controller_shortcuts A p cap)"
proof (rule keeps_if_returned)
  fix s :: "('w, 'f, 'co) controller_state" and y
  assume "drain_controller_shortcuts A p cap s = Some y"
  then have "A = A \<longrightarrow> I s \<longrightarrow> (b \<longrightarrow> is_ok (snd y)) \<longrightarrow> I (fst y)"
  proof (rule drain_controller_shortcuts.raw_induct
      [where P = "\<lambda>A' p cap s y. A' = A \<longrightarrow> I s \<longrightarrow> (b \<longrightarrow> is_ok (snd y)) \<longrightarrow> I (fst y)", rotated])
    fix f A' p cap and s :: "('w, 'f, 'co) controller_state" and y :: "('w, 'f, 'co) controller_state \<times> unit result"
    assume "\<And>A' p cap s y. f A' p cap s = Some y \<Longrightarrow>
        A' = A \<longrightarrow> I s \<longrightarrow> (b \<longrightarrow> is_ok (snd y)) \<longrightarrow> I (fst y)"
      and eq: "sbind (world_call (ad_next_shortcut_event (ca_live A'))) (\<lambda>next_ev s1. case next_ev of
        None \<Rightarrow> sreturn () s1
      | Some ev \<Rightarrow> sthen (handle_controller_shortcut A' p cap ev) (f A' p cap) s1) s = Some y"
    then have "keeps_if b I (f A p cap)" by (intro keeps_if_returned) blast
    then have kept_step: "keeps_if b I (sbind (world_call (ad_next_shortcut_event (ca_live A))) (\<lambda>next_ev s1.
        case next_ev of None \<Rightarrow> sreturn () s1
        | Some ev \<Rightarrow> sthen (handle_controller_shortcut A p cap ev) (f A p cap) s1))"
      by (intro kept' shortcut)
    show "A' = A \<longrightarrow> I s \<longrightarrow> (b \<longrightarrow> is_ok (snd y)) \<longrightarrow> I (fst y)"
    proof (rule impI)
      assume A: "A' = A"
      from eq [unfolded A] show "I s \<longrightarrow> (b \<longrightarrow> is_ok (snd y)) \<longrightarrow> I (fst y)"
        by (rule keeps_if_unfolded [OF kept_step])
    qed
  qed
  then show "I s \<longrightarrow> (b \<longrightarrow> is_ok (snd y)) \<longrightarrow> I (fst y)" by simp
qed

lemma callbacks: "keeps_if b I (drain_live_controller_shortcut_callbacks A p cap)"
  unfolding drain_live_controller_shortcut_callbacks_def by (intro kept' shortcuts)

lemma inputs: "keeps_if b I (drain_controller_input A R)"
proof (rule keeps_if_returned)
  fix s :: "('w, 'f, 'co) controller_state" and y
  assume "drain_controller_input A R s = Some y"
  then have "A = A \<longrightarrow> I s \<longrightarrow> (b \<longrightarrow> is_ok (snd y)) \<longrightarrow> I (fst y)"
  proof (rule drain_controller_input.raw_induct
      [where P = "\<lambda>A' R s y. A' = A \<longrightarrow> I s \<longrightarrow> (b \<longrightarrow> is_ok (snd y)) \<longrightarrow> I (fst y)", rotated])
    fix f A' R and s :: "('w, 'f, 'co) controller_state" and y :: "('w, 'f, 'co) controller_state \<times> unit result"
    assume "\<And>A' R s y. f A' R s = Some y \<Longrightarrow>
        A' = A \<longrightarrow> I s \<longrightarrow> (b \<longrightarrow> is_ok (snd y)) \<longrightarrow> I (fst y)"
      and eq: "sbind (world_try (ad_next_input_event (ca_live A'))) (\<lambda>next_ev s1. case next_ev of
        None \<Rightarrow> sreturn () s1
      | Some ob \<Rightarrow> sthen (handle_live_controller_observed_input A' (cr_program R)
          (cr_capabilities R) (cr_motion_time_base R) ob) (f A' R) s1) s = Some y"
    then have "keeps_if b I (f A R)" by (intro keeps_if_returned) blast
    then have kept_step: "keeps_if b I (sbind (world_try (ad_next_input_event (ca_live A))) (\<lambda>next_ev s1.
        case next_ev of None \<Rightarrow> sreturn () s1
        | Some ob \<Rightarrow> sthen (handle_live_controller_observed_input A (cr_program R)
            (cr_capabilities R) (cr_motion_time_base R) ob) (f A R) s1))"
      by (intro kept' input_event)
    show "A' = A \<longrightarrow> I s \<longrightarrow> (b \<longrightarrow> is_ok (snd y)) \<longrightarrow> I (fst y)"
    proof (rule impI)
      assume A: "A' = A"
      from eq [unfolded A] show "I s \<longrightarrow> (b \<longrightarrow> is_ok (snd y)) \<longrightarrow> I (fst y)"
        by (rule keeps_if_unfolded [OF kept_step])
    qed
  qed
  then show "I s \<longrightarrow> (b \<longrightarrow> is_ok (snd y)) \<longrightarrow> I (fst y)" by simp
qed

lemma ready_callbacks: "keeps_if b I (drain_ready_continuations A L cap)"
proof (rule keeps_if_returned)
  fix s :: "('w, 'f, 'co) controller_state" and y
  assume "drain_ready_continuations A L cap s = Some y"
  then have "A = A \<longrightarrow> L = L \<longrightarrow> I s \<longrightarrow> (b \<longrightarrow> is_ok (snd y)) \<longrightarrow> I (fst y)"
  proof (rule drain_ready_continuations.raw_induct
      [where P = "\<lambda>A' L' cap s y. A' = A \<longrightarrow> L' = L \<longrightarrow> I s \<longrightarrow> (b \<longrightarrow> is_ok (snd y)) \<longrightarrow> I (fst y)",
        rotated])
    fix f A' cap and s :: "('w, 'f, 'co) controller_state" and L' :: "('w, 'fn, 'co, 'v) lua_runtime option"
      and y :: "('w, 'f, 'co) controller_state \<times> unit result"
    assume "\<And>A' L' cap s y. f A' L' cap s = Some y \<Longrightarrow>
        A' = A \<longrightarrow> L' = L \<longrightarrow> I s \<longrightarrow> (b \<longrightarrow> is_ok (snd y)) \<longrightarrow> I (fst y)"
      and eq: "sbind (pop_ready A') (\<lambda>next_pc s1. case next_pc of None \<Rightarrow> sreturn () s1
        | Some pc \<Rightarrow> sthen (resume_pending A' L' cap pc) (f A' L' cap) s1) s = Some y"
    then have "keeps_if b I (f A L cap)" by (intro keeps_if_returned) blast
    note kept_step = ready [OF this, unfolded ready_step_def]
    show "A' = A \<longrightarrow> L' = L \<longrightarrow> I s \<longrightarrow> (b \<longrightarrow> is_ok (snd y)) \<longrightarrow> I (fst y)"
    proof (intro impI)
      assume A: "A' = A" "L' = L" and s: "I s" "b \<longrightarrow> is_ok (snd y)"
      from keeps_if_unfolded [OF kept_step eq [unfolded A]] s show "I (fst y)" by simp
    qed
  qed
  then show "I s \<longrightarrow> (b \<longrightarrow> is_ok (snd y)) \<longrightarrow> I (fst y)" by simp
qed

lemma scheduled_tasks: "keeps_if b I (drain_scheduled_tasks A p L cap)"
proof (rule keeps_if_returned)
  fix s :: "('w, 'f, 'co) controller_state" and y
  assume "drain_scheduled_tasks A p L cap s = Some y"
  then have "A = A \<longrightarrow> L = L \<longrightarrow> I s \<longrightarrow> (b \<longrightarrow> is_ok (snd y)) \<longrightarrow> I (fst y)"
  proof (rule drain_scheduled_tasks.raw_induct
      [where P = "\<lambda>A' p L' cap s y.
          A' = A \<longrightarrow> L' = L \<longrightarrow> I s \<longrightarrow> (b \<longrightarrow> is_ok (snd y)) \<longrightarrow> I (fst y)", rotated])
    fix f A' p cap and s :: "('w, 'f, 'co) controller_state" and L' :: "('w, 'fn, 'co, 'v) lua_runtime option"
      and y :: "('w, 'f, 'co) controller_state \<times> unit result"
    assume "\<And>A' p L' cap s y. f A' p L' cap s = Some y \<Longrightarrow>
        A' = A \<longrightarrow> L' = L \<longrightarrow> I s \<longrightarrow> (b \<longrightarrow> is_ok (snd y)) \<longrightarrow> I (fst y)"
      and eq: "sbind pop_task (\<lambda>next_task s1. case next_task of None \<Rightarrow> sreturn () s1
        | Some task \<Rightarrow> sthen (sbind (execute_controller_task A' p L' cap task)
            (settle_execution task 0)) (f A' p L' cap) s1) s = Some y"
    then have "keeps_if b I (f A p L cap)" by (intro keeps_if_returned) blast
    note kept_step = task [OF this, unfolded task_step_def]
    show "A' = A \<longrightarrow> L' = L \<longrightarrow> I s \<longrightarrow> (b \<longrightarrow> is_ok (snd y)) \<longrightarrow> I (fst y)"
    proof (intro impI)
      assume A: "A' = A" "L' = L" and s: "I s" "b \<longrightarrow> is_ok (snd y)"
      from keeps_if_unfolded [OF kept_step eq [unfolded A]] s show "I (fst y)" by simp
    qed
  qed
  then show "I s \<longrightarrow> (b \<longrightarrow> is_ok (snd y)) \<longrightarrow> I (fst y)" by simp
qed

lemma noted_update: "keeps_if b I (note_update A p c i)"
  unfolding note_update_def
  by (auto intro!: kept' noted focus
      simp: log_level_for_update_def focus_denial_changed_def Let_def
      split: tracker_state.split option.split)

lemma overlays: "keeps_if b I (poll_live_overlays A p cap c)"
  unfolding poll_live_overlays_def overlay_snapshots_now_def by (intro kept')

lemma screen: "keeps_if b I (poll_live_state_trackers A p cap t)"
  unfolding poll_live_state_trackers_def Let_def by (intro kept' noted_update overlays)

lemma tick: "keeps_if b I (controller_repeat_tick A p cap x tk)"
  unfolding controller_repeat_tick_def schedule_repeat_callback_def
  by (cases tk) (auto intro!: kept' callback_name)

lemma wait: "keeps_if b I (controller_wait_for_event A R)"
  unfolding controller_wait_for_event_def controller_wait_timeout_def by (intro kept')

lemma outcome: "keeps_if b I (controller_wait_outcome A R oc)"
  unfolding controller_wait_outcome_def
  by (cases oc) (auto intro!: kept' callbacks input_event)

lemma run:
  assumes "cr_runtime R = L" shows "keeps_if b I (run_callbacks A R)"
  unfolding run_callbacks_def drain_controller_callbacks_def assms
  by (intro kept' ready_callbacks scheduled_tasks)

lemma iteration:
  assumes "cr_runtime R = L" shows "keeps_if b I (controller_iteration A R)"
  unfolding controller_iteration_def poll_screen_def
  by (intro kept' callbacks screen run [OF assms] wait outcome inputs tick)

lemma loop:
  assumes "cr_runtime R = L" shows "keeps_if b I (controller_loop A R)"
proof (rule keeps_if_returned)
  fix s :: "('w, 'f, 'co) controller_state" and y
  assume "controller_loop A R s = Some y"
  then have "A = A \<longrightarrow> cr_runtime R = L \<longrightarrow> I s \<longrightarrow> (b \<longrightarrow> is_ok (snd y)) \<longrightarrow> I (fst y)"
  proof (rule controller_loop.raw_induct
      [where P = "\<lambda>A' R s y.
          A' = A \<longrightarrow> cr_runtime R = L \<longrightarrow> I s \<longrightarrow> (b \<longrightarrow> is_ok (snd y)) \<longrightarrow> I (fst y)", rotated])
    fix f A' s and R :: "('w, 'f, 'fn, 'co, 'v) controller_run"
      and y :: "('w, 'f, 'co) controller_state \<times> shutdown_reason result"
    assume hyp: "\<And>A' R s y. f A' R s = Some y \<Longrightarrow>
        A' = A \<longrightarrow> cr_runtime R = L \<longrightarrow> I s \<longrightarrow> (b \<longrightarrow> is_ok (snd y)) \<longrightarrow> I (fst y)"
      and eq: "sbind (controller_iteration A' R) (\<lambda>reason s1. case reason of
        None \<Rightarrow> f A' R s1 | Some r \<Rightarrow> sreturn r s1) s = Some y"
    show "A' = A \<longrightarrow> cr_runtime R = L \<longrightarrow> I s \<longrightarrow> (b \<longrightarrow> is_ok (snd y)) \<longrightarrow> I (fst y)"
    proof (intro impI)
      assume R: "A' = A" "cr_runtime R = L" and s: "I s" "b \<longrightarrow> is_ok (snd y)"
      have "keeps_if b I (f A R)" by (intro keeps_if_returned) (use hyp R in blast)
      then have kept_step: "keeps_if b I (sbind (controller_iteration A R) (\<lambda>reason s1. case reason of
          None \<Rightarrow> f A R s1 | Some r \<Rightarrow> sreturn r s1))"
        by (intro kept' iteration R)
      from keeps_if_unfolded [OF kept_step eq [unfolded R(1)]] s show "I (fst y)" by simp
    qed
  qed
  then show "I s \<longrightarrow> (b \<longrightarrow> is_ok (snd y)) \<longrightarrow> I (fst y)" using assms by simp
qed

end

end
