(* ===== verification/ControllerLaws.thy ===== *)
theory ControllerLaws imports ControllerInvariants begin

text \<open>
  The invariants of the live loop of a controller: the motion runtime and the screen state trackers
  keep theirs after every outcome, and while nothing fails the labels in flight are exactly those of
  the queued and the sleeping callbacks. A shutdown leaves none in flight.
\<close>

section \<open>What running a callback keeps\<close>

lemma keeps_on_world:
  assumes "world_free I" shows "keeps I (on_world m)" "keeps I (on_world_result m)"
  using assms
  by (auto simp: keeps_def on_world_def on_world_result_def world_free_def split: prod.splits)

lemma keeps_now: "world_free I \<Longrightarrow> keeps I (read_now A)"
  unfolding read_now_def by (rule keeps_world_call)

lemma keeps_emission: "world_free I \<Longrightarrow> keeps I (emission_outcome e)"
  unfolding emission_outcome_def by (cases e) (auto intro: keeps_intros keeps_count)

lemma keeps_host_request: "world_free I \<Longrightarrow> keeps I (execute_lua_host_request A request)"
  unfolding execute_lua_host_request_def
  by (cases request) (auto intro!: keeps_intros keeps_world_try keeps_emission)

lemma keeps_timed_resume: "world_free I \<Longrightarrow> keeps I (timed_resume A L co response remaining)"
  unfolding timed_resume_def by (intro keeps_intros keeps_on_world keeps_now)

lemma keeps_resume:
  fixes I :: "('w, 'f, 'co) controller_state \<Rightarrow> bool"
    and L :: "('w, 'fn, 'co, 'v) lua_runtime" and A :: "('w, 'f, 'd) controller_adapter"
  assumes free: "world_free I"
  shows "keeps I (resume_imperative_controller_task A L cap co response remaining elapsed)"
proof (rule keeps_returned)
  fix s :: "('w, 'f, 'co) controller_state" and y
  assume "resume_imperative_controller_task A L cap co response remaining elapsed s = Some y"
  then show "I s \<longrightarrow> I (fst y)"
  proof (rule resume_imperative_controller_task.raw_induct
      [where P = "\<lambda>A L cap co response remaining elapsed s y. I s \<longrightarrow> I (fst y)", rotated])
    fix f cap co response remaining elapsed and A :: "('w, 'f, 'd) controller_adapter"
      and s :: "('w, 'f, 'co) controller_state"
      and L :: "('w, 'fn, 'co, 'v) lua_runtime"
      and y :: "('w, 'f, 'co) controller_state \<times> 'co task_execution result"
    let ?body = "\<lambda>s. if remaining = 0 then sreturn (task_execution.Preempted elapsed) s
      else sbind (timed_resume A L co response remaining) (\<lambda>tr s1.
        sbind (check (snd tr)) (\<lambda>step s2.
          case step of
            lua_callback_step.Complete \<Rightarrow>
              sthen (count count_success) (sreturn (task_execution.Complete (elapsed + fst tr))) s2
          | lua_callback_step.Preempted \<Rightarrow>
              sreturn (task_execution.Preempted (elapsed + fst tr)) s2
          | Yielded request \<Rightarrow>
              if remaining - fst tr = 0
              then sreturn (task_execution.Preempted (elapsed + fst tr)) s2
              else
                (case request_blocked cap request of
                   Some e \<Rightarrow> sthen (count count_blocked) (sfail e) s2
                 | None \<Rightarrow>
                     (case request of
                        Sleep ms \<Rightarrow>
                          sbind (read_now (ca_live A)) (\<lambda>now.
                            sreturn (PendingSleep co Unit (now + from_millis ms)
                              (elapsed + fst tr))) s2
                      | _ \<Rightarrow>
                          sbind (execute_lua_host_request A request) (\<lambda>response' s3.
                            f A L cap co response' (remaining - fst tr) (elapsed + fst tr) s3) s2))) s1) s"
    assume hyp: "\<And>A L cap co response remaining elapsed s y.
        f A L cap co response remaining elapsed s = Some y \<Longrightarrow> I s \<longrightarrow> I (fst y)"
      and eq: "?body s = Some y"
    have rec: "keeps I (f A L cap co response' r e)" for response' r e
      by (intro keeps_returned) (use hyp in blast)
    note intros = keeps_intros keeps_count [OF free] keeps_now [OF free] keeps_host_request [OF free]
      keeps_timed_resume [OF free] rec
    have step: "keeps I (\<lambda>s2. case step of
            lua_callback_step.Complete \<Rightarrow>
              sthen (count count_success) (sreturn (task_execution.Complete (elapsed + fst tr))) s2
          | lua_callback_step.Preempted \<Rightarrow>
              sreturn (task_execution.Preempted (elapsed + fst tr)) s2
          | Yielded request \<Rightarrow>
              if remaining - fst tr = 0
              then sreturn (task_execution.Preempted (elapsed + fst tr)) s2
              else
                (case request_blocked cap request of
                   Some e \<Rightarrow> sthen (count count_blocked) (sfail e) s2
                 | None \<Rightarrow>
                     (case request of
                        Sleep ms \<Rightarrow>
                          sbind (read_now (ca_live A)) (\<lambda>now.
                            sreturn (PendingSleep co Unit (now + from_millis ms)
                              (elapsed + fst tr))) s2
                      | _ \<Rightarrow>
                          sbind (execute_lua_host_request A request) (\<lambda>response' s3.
                            f A L cap co response' (remaining - fst tr) (elapsed + fst tr) s3) s2)))"
      for step tr
    proof (cases step)
      case (Yielded request)
      have "keeps I (\<lambda>s2. case request of
          Sleep ms \<Rightarrow> sbind (read_now (ca_live A)) (\<lambda>now.
            sreturn (PendingSleep co Unit (now + from_millis ms) (elapsed + fst tr))) s2
        | _ \<Rightarrow> sbind (execute_lua_host_request A request) (\<lambda>response' s3.
            f A L cap co response' (remaining - fst tr) (elapsed + fst tr) s3) s2)"
        by (cases request) (simp_all, (intro intros)+)
      then show ?thesis
        unfolding Yielded
        by (cases "remaining - fst tr = 0"; cases "request_blocked cap request")
          (auto intro: intros)
    qed (simp_all, (intro intros)+)
    have "keeps I ?body"
      by (cases "remaining = 0") (simp_all, (intro intros step)+)
    with eq show "I s \<longrightarrow> I (fst y)" by (cases y) (auto dest: keepsD)
  qed
qed

lemma keeps_execute_batch: "world_free I \<Longrightarrow> keeps I (execute_batch A rs)"
  unfolding execute_batch_def by (intro keeps_intros keeps_world_try keeps_emission)

lemma keeps_declarative: "world_free I \<Longrightarrow> keeps I (execute_declarative_task A cb cap started)"
  unfolding execute_declarative_task_def
  by (auto intro!: keeps_intros keeps_count keeps_now keeps_execute_batch split: prod.split)

lemma keeps_execute:
  assumes "world_free I" shows "keeps I (execute_controller_task A p L cap task)"
proof -
  have imp: "keeps I (execute_imperative_controller_task A L' cap task)" for L'
    unfolding execute_imperative_controller_task_def
    by (intro keeps_intros keeps_on_world keeps_resume assms)
  show ?thesis
    unfolding execute_controller_task_def
    by (auto intro!: keeps_intros keeps_now imp keeps_declarative assms
        split: option.split list.split)
qed

section \<open>What does not depend on the callbacks\<close>

locale controller_free = controller_handlers b A I
  for b :: bool and A :: "('w, 'f, 'd) controller_adapter"
    and I :: "('w, 'f, 'co) controller_state \<Rightarrow> bool" +
  fixes L :: "('w, 'fn, 'co, 'v) lua_runtime option"
  assumes world_kept: "\<And>s w. I s \<Longrightarrow> I (s\<lparr>lc_world := w\<rparr>)"
    and dev_kept: "\<And>s d. I s \<Longrightarrow> I (s\<lparr>lc_dev := d\<rparr>)"
    and stats_kept: "\<And>s st. I s \<Longrightarrow> I (s\<lparr>lc_stats := st\<rparr>)"
    and poll_kept: "\<And>cap c ms. keeps_if b I (poll_trackers_now A cap c ms)"
    and note_kept: "\<And>f. (\<And>lt. lt_poller (f lt) = lt_poller lt) \<Longrightarrow> keeps_if b I (on_trackers f)"
    and scheduler_kept: "\<And>s x. I s \<Longrightarrow> I (s\<lparr>cs_scheduler := x\<rparr>)"
    and continuations_kept: "\<And>s x. I s \<Longrightarrow> I (s\<lparr>cs_continuations := x\<rparr>)"
begin

lemma world_free: "world_free I"
  by (simp add: world_free_def world_kept stats_kept)

lemma on_scheduler: "keeps_if b I (on_scheduler f)"
  unfolding on_scheduler_def by (intro keeps_if_supd) (rule scheduler_kept)

lemma settled: "keeps_if b I (settle_execution task before ex)"
  unfolding settle_execution_def finish_task_def record_preempted_callback_def push_continuation_def
  by (cases ex) (auto intro!: kept on_scheduler keeps_if_supd intro: continuations_kept)

lemma resumed: "keeps_if b I (resume_pending A L cap pc)"
  unfolding resume_pending_def
  by (cases L) (auto intro!: kept settled keeps_keeps_if [OF keeps_resume] world_free)

lemma executed: "keeps_if b I (execute_controller_task A p L cap task)"
  by (intro keeps_keeps_if keeps_execute world_free)

lemma popped_ready: "keeps_if b I (pop_ready A)"
  unfolding pop_ready_def
  by (intro kept keeps_if_srun) (auto split: prod.split intro: continuations_kept)

lemma popped_task: "keeps_if b I pop_task"
  unfolding pop_task_def by (intro keeps_if_srun) (auto split: prod.split intro: scheduler_kept)

end

sublocale controller_free \<subseteq> controller_invariant b A I L
proof
  show "keeps_if b I (ready_step A L cap k)" if "keeps_if b I k" for cap k
    unfolding ready_step_def by (intro kept popped_ready resumed that)
  show "keeps_if b I (task_step A p L cap k)" if "keeps_if b I k" for p cap k
    unfolding task_step_def by (intro kept popped_task executed settled that)
  show "keeps_if b I cancel_controller_callbacks"
    unfolding cancel_controller_callbacks_def
    by (intro keeps_if_supd)
      (auto split: prod.split intro: scheduler_kept continuations_kept stats_kept)
qed (auto intro: world_kept dev_kept poll_kept note_kept)

section \<open>The motion runtime\<close>

lemmas controller_part_defs = read_now_def feed_motion_runtime_def set_last_tick_def
  forget_last_tick_def schedule_registration_def flip_overlay_def count_def world_call_def
  world_try_def on_trackers_def poll_trackers_now_def

lemma keeps_parts:
  assumes "\<And>s w st d. I s \<Longrightarrow> I (s\<lparr>lc_world := w\<rparr>) \<and> I (s\<lparr>lc_stats := st\<rparr>)"
  shows "keeps_if b I (count f)" "keeps_if b I (read_now A')" "keeps_if b I (world_call g)"
    "keeps_if b I (world_try h)"
proof -
  have "world_free I" using assms by (simp add: world_free_def)
  then show "keeps_if b I (count f)" "keeps_if b I (read_now A')" "keeps_if b I (world_call g)"
    "keeps_if b I (world_try h)"
    by (auto intro!: keeps_keeps_if keeps_now keeps_count keeps_world_call keeps_world_try)
qed

interpretation controller_motions: controller_free False A
  "\<lambda>s. motions_ok rt0 (lc_motion_runtime s)" L
  for A :: "('w, 'f, 'd) controller_adapter" and rt0 and L :: "('w, 'fn, 'co, 'v) lua_runtime option"
proof -
  let ?I = "\<lambda>s :: ('w, 'f, 'co) controller_state. motions_ok rt0 (lc_motion_runtime s)"
  note parts = keeps_parts [of ?I False]
  show "controller_free False A ?I"
  proof unfold_locales
    show "keeps_if False ?I (feed_motion_runtime ev t)" for ev t
      unfolding feed_motion_runtime_def
      by (intro keeps_if_srun) (auto split: prod.split intro: motions_ok_feed)
    show "keeps_if False ?I (flip_overlay A i)" for i
      unfolding flip_overlay_def by (intro keeps_if_intros keeps_if_supd parts) simp_all
    show "keeps_if False ?I (poll_trackers_now A cap c ms)" for cap c ms
      unfolding poll_trackers_now_def
      by (intro keeps_if_intros keeps_if_srun parts) (auto split: option.split prod.split)
    show "keeps_if False ?I (schedule_registration r cap t)" for r cap t
      unfolding schedule_registration_def by (intro keeps_if_srun) (auto split: prod.split)
  qed (auto simp: set_last_tick_def forget_last_tick_def on_trackers_def
      intro!: parts keeps_if_supd)
qed

section \<open>The screen state trackers\<close>

definition trackers_ok :: "'f tracker_set \<Rightarrow> 'f live_tracker_runtime option \<Rightarrow> bool" where
  "trackers_ok ts lt \<longleftrightarrow>
     (\<forall>r. lt = Some r \<longrightarrow> poller_ok (lt_poller r) \<and> kinds_of ts (lt_poller r))"

interpretation controller_trackers: controller_free False A
  "\<lambda>s. trackers_ok ts (cs_trackers s)" L
  for A :: "('w, 'f, 'd) controller_adapter" and ts and L :: "('w, 'fn, 'co, 'v) lua_runtime option"
proof -
  let ?I = "\<lambda>s :: ('w, 'f, 'co) controller_state. trackers_ok ts (cs_trackers s)"
  note parts = keeps_parts [of ?I False]
  show "controller_free False A ?I"
  proof unfold_locales
    show "keeps_if False ?I (feed_motion_runtime ev t)" for ev t
      unfolding feed_motion_runtime_def by (intro keeps_if_srun) (auto split: prod.split)
    show "keeps_if False ?I (flip_overlay A i)" for i
      unfolding flip_overlay_def by (intro keeps_if_intros keeps_if_supd parts) simp_all
    show "keeps_if False ?I (poll_trackers_now A cap c ms)" for cap c ms
      unfolding poll_trackers_now_def
      by (intro keeps_if_intros keeps_if_srun parts)
        (auto simp: trackers_ok_def split: option.split prod.split
          dest: bounded.poll_kept kinds.poll_kept)
    show "keeps_if False ?I (schedule_registration r cap t)" for r cap t
      unfolding schedule_registration_def by (intro keeps_if_srun) (auto split: prod.split)
    show "keeps_if False ?I (on_trackers f)" if "\<And>lt. lt_poller (f lt) = lt_poller lt" for f
      unfolding on_trackers_def
      by (intro keeps_if_supd) (auto simp: trackers_ok_def that)
  qed (auto simp: set_last_tick_def forget_last_tick_def intro!: parts keeps_if_supd)
qed

section \<open>The callbacks in flight\<close>

definition callbacks_ok :: "nat \<Rightarrow> ('w, 'f, 'co) controller_state \<Rightarrow> bool" where
  "callbacks_ok n s \<longleftrightarrow> scheduler_inv n (cs_scheduler s, map pk_task (cs_continuations s))"

text \<open>While a task runs it is neither queued nor sleeping.\<close>

definition running_ok :: "nat \<Rightarrow> lua_callback_task \<Rightarrow> ('w, 'f, 'co) controller_state \<Rightarrow> bool" where
  "running_ok n t s \<longleftrightarrow> scheduler_inv n (cs_scheduler s, t # map pk_task (cs_continuations s))"

lemma scheduler_inv_reorder:
  assumes "distinct (labels run) = distinct (labels run')" and "set (labels run) = set (labels run')"
  shows "scheduler_inv n (sch, run) = scheduler_inv n (sch, run')"
  using assms by (auto simp: scheduler_inv_def)

lemma running_settled:
  assumes run: "running_ok n t s" and settled: "settle_execution t before ex s = Some (s', r)"
  shows "callbacks_ok n s'"
proof -
  have rel: "scheduler_inv n (scheduler_release (cs_scheduler s) (tk_label t),
      map pk_task (cs_continuations s))"
    using release_inv [of n "cs_scheduler s" "t # map pk_task (cs_continuations s)" t] run
    by (simp add: running_ok_def)
  have perm: "scheduler_inv n (cs_scheduler s, map pk_task (cs_continuations s) @ [t])"
    using run scheduler_inv_reorder [of "t # map pk_task (cs_continuations s)"
        "map pk_task (cs_continuations s) @ [t]"] by (auto simp: running_ok_def)
  show ?thesis
    using settled rel perm
    by (cases ex)
      (auto simp: settle_execution_def finish_task_def record_preempted_callback_def on_scheduler_def
        push_continuation_def callbacks_ok_def scheduler_finish_task_def scheduler_preempt_task_def
        count_def supd_def)
qed

lemma running_free: "world_free (running_ok n t)" "world_free (callbacks_ok n)"
  by (simp_all add: world_free_def running_ok_def callbacks_ok_def)

lemma running_resumed:
  assumes "running_ok n (pk_task pc) s" and "resume_pending A L cap pc s = Some (s', Inr a)"
  shows "callbacks_ok n s'"
proof (cases L)
  case None
  then show ?thesis using assms(2) by (simp add: resume_pending_def sfail_def)
next
  case (Some R)
  then obtain s1 ex where
    run: "resume_imperative_controller_task A R cap (pk_coroutine pc) (pk_response pc)
        (tk_budget (pk_task pc) - pk_elapsed pc) 0 s = Some (s1, Inr ex)"
    and settled: "settle_execution (pk_task pc) (pk_elapsed pc) ex s1 = Some (s', Inr a)"
    using assms(2) by (auto simp: resume_pending_def sbind_Some_Ok)
  have "running_ok n (pk_task pc) s1"
    using keepsD [OF keeps_resume [OF running_free(1)] assms(1) run] .
  from running_settled [OF this settled] show ?thesis .
qed

lemma running_executed:
  assumes "running_ok n t s"
    and "sbind (execute_controller_task A p L cap t) (settle_execution t 0) s = Some (s', Inr a)"
  shows "callbacks_ok n s'"
proof -
  from assms(2) obtain s1 ex where
    run: "execute_controller_task A p L cap t s = Some (s1, Inr ex)"
    and settled: "settle_execution t 0 ex s1 = Some (s', Inr a)"
    by (auto simp: sbind_Some_Ok)
  have "running_ok n t s1" using keepsD [OF keeps_execute [OF running_free(1)] assms(1) run] .
  from running_settled [OF this settled] show ?thesis .
qed

lemma pop_ready_running:
  assumes "callbacks_ok n s" and "pop_ready A s = Some (s1, Inr pc)"
  shows "case pc of None \<Rightarrow> callbacks_ok n s1 | Some p \<Rightarrow> running_ok n (pk_task p) s1"
proof -
  obtain s0 now where now: "read_now (ca_live A) s = Some (s0, Inr now)"
    and popped: "(case pop_ready_at now (cs_continuations s0) of
       (pcs, pc) \<Rightarrow> (s0\<lparr>cs_continuations := pcs\<rparr>, pc)) = (s1, pc)"
    using assms(2) by (auto simp: pop_ready_def sbind_Some_Ok srun_def split: prod.splits)
  have s0: "callbacks_ok n s0" using keepsD [OF keeps_now [OF running_free(2)] assms(1) now] .
  show ?thesis
  proof (cases "position (\<lambda>pc. pk_ready_at pc \<le> now) (cs_continuations s0)")
    case None
    with popped s0 show ?thesis by (auto simp: pop_ready_at_def)
  next
    case (Some i)
    then have i: "i < length (cs_continuations s0)" using position_Some by blast
    let ?c = "cs_continuations s0"
    have split: "?c = take i ?c @ ?c ! i # drop (Suc i) ?c" using id_take_nth_drop [OF i] .
    have "scheduler_inv n (cs_scheduler s0, map pk_task ?c)
        = scheduler_inv n (cs_scheduler s0, pk_task (?c ! i) # map pk_task (remove_at i ?c))"
    proof (rule scheduler_inv_reorder)
      show "distinct (labels (map pk_task ?c))
          = distinct (labels (pk_task (?c ! i) # map pk_task (remove_at i ?c)))"
        by (subst (1) split) (auto simp: labels_def remove_at_def)
      show "set (labels (map pk_task ?c))
          = set (labels (pk_task (?c ! i) # map pk_task (remove_at i ?c)))"
        by (subst (1) split) (auto simp: labels_def remove_at_def)
    qed
    with popped s0 Some show ?thesis
      by (auto simp: pop_ready_at_def callbacks_ok_def running_ok_def)
  qed
qed

lemma pop_task_running:
  assumes "callbacks_ok n s" and "pop_task s = Some (s1, Inr t)"
  shows "case t of None \<Rightarrow> callbacks_ok n s1 | Some t' \<Rightarrow> running_ok n t' s1"
  using assms
  by (auto simp: pop_task_def srun_def scheduler_pop_next_def callbacks_ok_def running_ok_def
      scheduler_inv_def split: list.splits)

lemma cancel_continuations_empty:
  "sc_active_or_pending sch = [] \<Longrightarrow> cancel_continuations pcs sch k = (sch, k + length pcs)"
proof (induction pcs arbitrary: k)
  case (Cons pc pcs)
  have "scheduler_release sch l = sch" for l
    using Cons.prems by (cases sch) (simp add: scheduler_release_def bs_remove_def)
  with Cons show ?case by (simp add: scheduler_cancel_task_def)
qed simp

lemma cancelled_callbacks:
  assumes "callbacks_ok n s" and "cancel_controller_callbacks s = Some (s', r)"
  shows "callbacks_ok n s' \<and> cs_continuations s' = [] \<and> sc_pending (cs_scheduler s') = []
    \<and> sc_active_or_pending (cs_scheduler s') = []"
  using assms
  by (auto simp: cancel_controller_callbacks_def supd_def callbacks_ok_def scheduler_inv_def
      scheduler_cancel_all_def cancel_continuations_empty labels_def)

interpretation controller_callbacks: controller_invariant True A "callbacks_ok n" L
  for A :: "('w, 'f, 'd) controller_adapter" and n and L :: "('w, 'fn, 'co, 'v) lua_runtime option"
proof -
  let ?I = "callbacks_ok n :: ('w, 'f, 'co) controller_state \<Rightarrow> bool"
  have frees: "?I (s\<lparr>lc_world := w\<rparr>) \<and> ?I (s\<lparr>lc_stats := st\<rparr>)" if "?I s" for s w st
    using that by (simp add: callbacks_ok_def)
  note parts = keeps_parts [of ?I True]
  show "controller_invariant True A ?I L"
  proof unfold_locales
    show "keeps_if True ?I (feed_motion_runtime ev t)" for ev t
      unfolding feed_motion_runtime_def
      by (intro keeps_if_srun) (auto simp: callbacks_ok_def split: prod.split)
    show "keeps_if True ?I (flip_overlay A i)" for i
      unfolding flip_overlay_def
      by (intro keeps_if_intros keeps_if_supd parts) (simp_all add: callbacks_ok_def)
    show "keeps_if True ?I (poll_trackers_now A cap c ms)" for cap c ms
      unfolding poll_trackers_now_def
      by (intro keeps_if_intros keeps_if_srun parts)
        (auto simp: callbacks_ok_def split: option.split prod.split)
    show "keeps_if True ?I (schedule_registration r cap t)" for r cap t
      unfolding schedule_registration_def
      by (intro keeps_if_srun) (auto simp: callbacks_ok_def intro: schedule_inv split: prod.split)
    show "keeps_if True ?I (ready_step A L cap k)" if "keeps_if True ?I k" for cap k
    proof (rule keeps_ifI)
      fix s s' :: "('w, 'f, 'co) controller_state" and r
      assume s: "?I s" and run: "ready_step A L cap k s = Some (s', r)" and ok: "True \<longrightarrow> is_ok r"
      then obtain s1 pc where popped: "pop_ready A s = Some (s1, Inr pc)"
        and rest: "(case pc of None \<Rightarrow> sreturn () s1
          | Some pc' \<Rightarrow> sthen (resume_pending A L cap pc') k s1) = Some (s', r)"
        by (auto simp: ready_step_def sbind_Some)
      from pop_ready_running [OF s popped] rest ok show "?I s'"
        by (cases pc)
          (auto simp: sreturn_def sthen_def sbind_Some dest: running_resumed keeps_if_ok [OF that]
            elim: is_ok.elims)
    qed
    show "keeps_if True ?I (task_step A p L cap k)" if "keeps_if True ?I k" for p cap k
    proof (rule keeps_ifI)
      fix s s' :: "('w, 'f, 'co) controller_state" and r
      assume s: "?I s" and run: "task_step A p L cap k s = Some (s', r)" and ok: "True \<longrightarrow> is_ok r"
      then obtain s1 t where popped: "pop_task s = Some (s1, Inr t)"
        and rest: "(case t of None \<Rightarrow> sreturn () s1
          | Some t' \<Rightarrow> sthen (sbind (execute_controller_task A p L cap t') (settle_execution t' 0)) k s1)
            = Some (s', r)"
        by (auto simp: task_step_def sbind_Some)
      show "?I s'"
      proof (cases t)
        case None
        then show ?thesis using pop_task_running [OF s popped] rest by (simp add: sreturn_def)
      next
        case (Some t')
        from rest [unfolded Some] ok obtain s2 where
          "sbind (execute_controller_task A p L cap t') (settle_execution t' 0) s1 = Some (s2, Inr ())"
          and last: "k s2 = Some (s', r)"
          by (auto simp: sthen_def sbind_Some)
        then have "?I s2"
          using running_executed pop_task_running [OF s popped] Some by (simp add: running_executed)
        from keeps_ifD [OF that this last] ok show ?thesis by simp
      qed
    qed
    show "keeps_if True ?I cancel_controller_callbacks"
      by (rule keeps_ifI) (use cancelled_callbacks in blast)
  qed (auto simp: set_last_tick_def forget_last_tick_def on_trackers_def callbacks_ok_def
      intro!: parts keeps_if_supd frees)
qed
end
