(* ===== verification/ControllerSafety.thy ===== *)
theory ControllerSafety imports ControllerLaws LiveSafety begin

text \<open>
  What the handlers of the controller loop do while scoped focus is inactive, what becomes of the
  original input, and the states the loop starts its iterations in.
\<close>

section \<open>Inactive focus\<close>

text \<open>The scopes of a program: those of its registrations and of its overlays.\<close>

definition program_scopes :: "'f controller_program \<Rightarrow> scope_selection set" where
  "program_scopes p =
     cg_scope ` set (program_registrations p) \<union> od_scope ` set (ol_overlays (cp_overlays p))"

definition focus_inactive :: "('w, 't) live_adapter \<Rightarrow> 'f controller_program \<Rightarrow> bool" where
  "focus_inactive A p \<longleftrightarrow> (\<forall>sc\<in>program_scopes p. always_inactive A sc)"

text \<open>The log of the world, the scheduler and the hidden overlays are those of before.\<close>

definition undisturbed ::
  "('w \<Rightarrow> 'l) \<Rightarrow> 'l \<Rightarrow> callback_scheduler \<Rightarrow> string set \<Rightarrow> ('w, 'f, 'co) controller_state \<Rightarrow> bool" where
  "undisturbed log l sch hidden s \<longleftrightarrow>
     log (lc_world s) = l \<and> cs_scheduler s = sch \<and> cs_hidden_overlays s = hidden"

lemma undisturbed_call: "keeps_log log f \<Longrightarrow> keeps (undisturbed log l sch hidden) (world_call f)"
  unfolding world_call_def
  by (rule keeps_srun) (auto simp: undisturbed_def split: prod.splits dest: keeps_logD)

lemma undisturbed_try: "keeps_log log f \<Longrightarrow> keeps (undisturbed log l sch hidden) (world_try f)"
  unfolding world_try_def
  by (rule keeps_stry) (auto simp: undisturbed_def split: prod.splits dest: keeps_logD)

lemma undisturbed_parts:
  "keeps (undisturbed log l sch hidden) (count f)"
  "keeps (undisturbed log l sch hidden) (feed_motion_runtime ev t)"
  "keeps (undisturbed log l sch hidden) (set_last_tick tr x)"
  "keeps (undisturbed log l sch hidden) (forget_last_tick tr)"
  by (auto simp: count_def feed_motion_runtime_def set_last_tick_def forget_last_tick_def
      undisturbed_def intro!: keeps_srun keeps_supd split: prod.splits)

lemma undisturbed_denial: "keeps (undisturbed log l sch hidden) (count_denial st)"
  unfolding count_denial_def by (intro keeps_intros undisturbed_parts)

lemma undisturbed_now:
  assumes "logs_passthrough A log"
  shows "keeps (undisturbed log l sch hidden) (read_now A)"
    "keeps (undisturbed log l sch hidden) (focus_state A sc c)"
    "keeps (undisturbed log l sch hidden) (world_try (ad_active_process_context A))"
    "keeps (undisturbed log l sch hidden) (record_motion_latency_metrics A t ts)"
  using assms unfolding focus_state_def record_motion_latency_metrics_def read_now_def
  by (auto intro!: keeps_intros undisturbed_parts undisturbed_call undisturbed_try
      simp: logs_passthrough_def)

lemma undisturbed_inactive:
  fixes k' and A :: "('w, 'f tracker_definition) live_adapter" and log :: "'w \<Rightarrow> raw_input_event list"
    and m :: "scoped_focus_state \<Rightarrow> ('w, 'f, 'co, 'a) controller_effect"
  assumes A: "logs_passthrough A log" "always_inactive A sc"
    and m: "\<And>st. keeps (undisturbed log l sch hidden) (m st)" "\<And>st. returns (m st) P"
  defines "k \<equiv> sbind (world_try (ad_active_process_context A)) (\<lambda>c.
      sbind (focus_state A sc c) (\<lambda>st. if \<not> sf_active st then m st else k' c st))"
  shows "keeps (undisturbed log l sch hidden) k" and "returns k P"
proof -
  note cxt = always_inactive_context [OF A(2)]
  note step = keeps_sbind_returned [OF undisturbed_now(2) [OF A(1)] focus_state_inactive]
  show "keeps (undisturbed log l sch hidden) k"
    unfolding k_def
    by (rule keeps_sbind_returned [OF undisturbed_now(3) [OF A(1)] cxt], rule step)
      (auto intro: m)
  show "returns k P"
    unfolding k_def
    by (rule returns_sbind [OF cxt], rule returns_sbind [OF focus_state_inactive]) (auto intro: m)
qed

section \<open>Callbacks and overlay toggles\<close>

lemma callback_name_inactive:
  assumes "logs_passthrough (ca_live A) log" and "always_inactive (ca_live A) (cg_scope r)"
  shows "keeps (undisturbed log l sch hidden) (schedule_controller_callback_name A cap r n t)"
    and "returns (schedule_controller_callback_name A cap r n t) Not"
  unfolding schedule_controller_callback_name_def
  by (rule undisturbed_inactive [OF assms, where P = Not],
      auto intro!: keeps_intros undisturbed_denial returns_sthen returns_sreturn)+

lemma optional_callback_inactive:
  assumes "logs_passthrough (ca_live A) log" and "always_inactive (ca_live A) (cg_scope r)"
  shows "keeps (undisturbed log l sch hidden) (optional_callback A cap r n t)"
    and "returns (optional_callback A cap r n t) Not"
  using callback_name_inactive [OF assms]
  by (auto simp: optional_callback_def intro: keeps_intros returns_intros split: option.split)

lemma toggle_inactive:
  assumes "logs_passthrough (ca_live A) log" and "always_inactive (ca_live A) (od_scope ov)"
  shows "keeps (undisturbed log l sch hidden)
      (sbind (world_try (ad_active_process_context (ca_live A))) (toggle_overlay A ov))"
    and "returns (sbind (world_try (ad_active_process_context (ca_live A))) (toggle_overlay A ov))
      (\<lambda>h. \<not> oh_consumed h)"
proof -
  have "keeps (undisturbed log l sch hidden)
      (sbind (world_try (ad_active_process_context (ca_live A))) (toggle_overlay A ov))
    \<and> returns (sbind (world_try (ad_active_process_context (ca_live A))) (toggle_overlay A ov))
      (\<lambda>h. \<not> oh_consumed h)"
  proof (cases "od_toggle_hotkey ov")
    case None
    then have "toggle_overlay A ov = (\<lambda>_. sreturn toggle_unhandled)"
      by (simp add: fun_eq_iff toggle_overlay_def)
    show ?thesis
      unfolding \<open>toggle_overlay A ov = (\<lambda>_. sreturn toggle_unhandled)\<close>
      by (auto intro!: keeps_intros undisturbed_now [OF assms(1)] returns_intros
          simp: toggle_unhandled_def)
  next
    case (Some toggle)
    note gate = undisturbed_inactive [OF assms, where P = "\<lambda>h. \<not> oh_consumed h"
        and m = "\<lambda>st. sthen (count_denial st) (sreturn \<lparr>oh_handled = True, oh_consumed = False\<rparr>)"]
    show ?thesis
      unfolding toggle_overlay_def [abs_def] Some option.case
      by (intro conjI gate keeps_intros undisturbed_denial returns_sthen returns_sreturn) simp_all
  qed
  then show "keeps (undisturbed log l sch hidden)
      (sbind (world_try (ad_active_process_context (ca_live A))) (toggle_overlay A ov))"
    "returns (sbind (world_try (ad_active_process_context (ca_live A))) (toggle_overlay A ov))
      (\<lambda>h. \<not> oh_consumed h)" by blast+
qed

section \<open>Observed input\<close>

lemma focus_inactive_registration:
  "focus_inactive A p \<Longrightarrow> r \<in> set (program_registrations p) \<Longrightarrow> always_inactive A (cg_scope r)"
  by (auto simp: focus_inactive_def program_scopes_def)

lemma focus_inactive_overlay:
  "focus_inactive A p \<Longrightarrow> ov \<in> set (ol_overlays (cp_overlays p)) \<Longrightarrow> always_inactive A (od_scope ov)"
  by (auto simp: focus_inactive_def program_scopes_def)

lemma first_press_in: "first_press ev rt rs = Inr (Some r) \<Longrightarrow> r \<in> set rs"
  by (induction rs) (auto split: if_splits)

lemma first_motion_in: "first_motion t rs = Inr (Some r) \<Longrightarrow> r \<in> set rs"
  by (induction rs) (auto split: if_splits)

lemma found_registration:
  "returns (check (matching_controller_press_registration p ev rt))
     (\<lambda>f. \<forall>r. f = Some r \<longrightarrow> r \<in> set (program_registrations p))"
  "returns (check (matching_controller_motion_registration p t))
     (\<lambda>f. \<forall>r. f = Some r \<longrightarrow> r \<in> set (program_registrations p))"
  by (auto simp: returns_def check_def matching_controller_press_registration_def
      matching_controller_motion_registration_def registrations_of_kind_def sfail_def sreturn_def
      dest!: first_press_in first_motion_in split: sum.splits)


lemma press_callback_inactive:
  assumes "logs_passthrough (ca_live A) log" and "focus_inactive (ca_live A) p"
  shows "keeps (undisturbed log l sch hidden) (schedule_press_callback A p cap ev t)"
    and "returns (schedule_press_callback A p cap ev t) Not"
proof -
  note gated = callback_name_inactive [OF assms(1) focus_inactive_registration [OF assms(2)],
    folded schedule_controller_callback_def]
  show "keeps (undisturbed log l sch hidden) (schedule_press_callback A p cap ev t)"
    unfolding schedule_press_callback_def
    by (intro keeps_if keeps_sreturn keeps_sbind keeps_sget
        keeps_sbind_returned [OF _ found_registration(1)] keeps_check)
      (auto intro!: keeps_intros gated simp: schedule_controller_callback_def split: option.split)
  show "returns (schedule_press_callback A p cap ev t) Not"
    unfolding schedule_press_callback_def
    by (auto intro!: returns_intros returns_sbind [OF found_registration(1)] gated
        simp: schedule_controller_callback_def split: option.split)
qed

lemma motion_event_inactive:
  assumes "logs_passthrough (ca_live A) log" and "focus_inactive (ca_live A) p"
  shows "keeps (undisturbed log l sch hidden) (controller_motion_event A p cap t ev)"
    and "returns (controller_motion_event A p cap t ev) Not"
proof -
  note reg = focus_inactive_registration [OF assms(2)]
  note gated = callback_name_inactive [OF assms(1) reg] optional_callback_inactive [OF assms(1) reg]
  note quiet = undisturbed_parts undisturbed_now [OF assms(1)]
  show "keeps (undisturbed log l sch hidden) (controller_motion_event A p cap t ev)"
    unfolding controller_motion_event_def schedule_controller_callback_def
    by (cases ev)
      (auto intro!: keeps_sthen keeps_sbind keeps_sreturn quiet gated
        keeps_sbind_returned [OF keeps_check found_registration(2)]
        split: option.split)
  have now: "returns (read_now (ca_live A)) (\<lambda>_. True)" by (simp add: returns_def)
  show "returns (controller_motion_event A p cap t ev) Not"
  proof (cases ev)
    case (Triggered t' starts)
    show ?thesis
      unfolding Triggered controller_motion_event_def motion_runtime_event.case
        schedule_controller_callback_def
      by (rule returns_sbind [OF found_registration(2)])
        (auto intro!: returns_sreturn gated returns_sbind [OF gated(4)] returns_sbind [OF now]
          returns_sthen split: option.split)
  next
    case (LoopCancelled t')
    show ?thesis
      unfolding LoopCancelled controller_motion_event_def motion_runtime_event.case
      by (intro returns_sthen returns_sbind [OF found_registration(2)])
        (auto intro!: returns_sreturn gated split: option.split)
  qed (simp add: controller_motion_event_def returns_sthen returns_sreturn)
qed

text \<open>Any event, pressed or released: nothing is scheduled or toggled, and nothing is consumed.\<close>

lemma observed_input_inactive:
  assumes "logs_passthrough (ca_live A) log" and "focus_inactive (ca_live A) p"
  shows "keeps (undisturbed log l sch hidden) (schedule_observed_input A p cap t ev evs)"
    and "returns (schedule_observed_input A p cap t ev evs) Not"
  unfolding schedule_observed_input_def
  by (intro keeps_sbind keeps_sfold keeps_sreturn press_callback_inactive [OF assms]
      motion_event_inactive [OF assms])
    (rule returns_sbind [OF press_callback_inactive(2) [OF assms]],
      auto intro!: returns_sfold returns_sreturn returns_sbind [OF motion_event_inactive(2) [OF assms]])

lemma toggled_overlay:
  "returns (sget (\<lambda>s. List.find (overlay_toggle_matches_input ev (lc_motion_runtime s)) ovs))
     (\<lambda>f. \<forall>ov. f = Some ov \<longrightarrow> ov \<in> set ovs)"
  by (auto simp: returns_def sget_def find_Some_iff)

lemma toggle_input_inactive:
  assumes "logs_passthrough (ca_live A) log" and "focus_inactive (ca_live A) p"
  shows "keeps (undisturbed log l sch hidden) (toggle_handle_observed_input A p ev)"
    and "returns (toggle_handle_observed_input A p ev) (\<lambda>h. \<not> oh_consumed h)"
proof -
  note toggled = toggle_inactive [OF assms(1) focus_inactive_overlay [OF assms(2)]]
  show "keeps (undisturbed log l sch hidden) (toggle_handle_observed_input A p ev)"
    unfolding toggle_handle_observed_input_def
    by (rule keeps_sbind_returned [OF keeps_sget toggled_overlay])
      (auto intro!: keeps_sreturn toggled split: option.split)
  show "returns (toggle_handle_observed_input A p ev) (\<lambda>h. \<not> oh_consumed h)"
    unfolding toggle_handle_observed_input_def
    by (rule returns_sbind [OF toggled_overlay])
      (auto intro!: returns_sreturn toggled simp: toggle_unhandled_def split: option.split)
qed

lemma finish_passes_through:
  assumes "logs_passthrough (ca_live A) log" and "undisturbed log l sch hidden s"
    and "finish_observed_input A ob ev False s = Some (s', Inr ())"
  shows "undisturbed log (l @ (if oi_grabbed ob then [oi_raw ob] else [])) sch hidden s'"
proof -
  obtain s1 where pass: "swhen (oi_grabbed ob)
      (world_try (ad_passthrough_raw_input (ca_live A) (oi_raw ob))) s = Some (s1, Inr ())"
    and rel: "swhen (leader_released ev) (world_try (ad_release_input_grab (ca_live A))) s1
      = Some (s', Inr ())"
    using assms(3) by (auto simp: finish_observed_input_def sthen_def sbind_Some_Ok)
  have "undisturbed log (l @ (if oi_grabbed ob then [oi_raw ob] else [])) sch hidden s1"
  proof (cases "oi_grabbed ob")
    case True
    then obtain w where w: "ad_passthrough_raw_input (ca_live A) (oi_raw ob) (lc_world s) = (w, Inr ())"
      and s1: "s1 = s\<lparr>lc_world := w\<rparr>"
      using pass by (auto simp: swhen_def world_try_Ok)
    have "log (fst (ad_passthrough_raw_input (ca_live A) (oi_raw ob) (lc_world s)))
        = log (lc_world s) @ [oi_raw ob]"
      using assms(1) by (simp add: logs_passthrough_def)
    with w s1 assms(2) True show ?thesis by (simp add: undisturbed_def)
  qed (use pass assms(2) in \<open>simp add: swhen_def sreturn_def\<close>)
  note s1 = this
  have "keeps (undisturbed log l' sch hidden)
      (swhen (leader_released ev) (world_try (ad_release_input_grab (ca_live A))))" for l'
    by (intro keeps_swhen undisturbed_try) (use assms(1) in \<open>simp add: logs_passthrough_def\<close>)
  from keepsD [OF this s1 rel] show ?thesis .
qed

lemma event_passes_through:
  assumes A: "logs_passthrough (ca_live A) log" "focus_inactive (ca_live A) p"
    and s: "undisturbed log l sch hidden s"
    and run: "handle_controller_event A p cap tb ob ev s = Some (s', Inr ())"
  shows "undisturbed log (l @ (if oi_grabbed ob then [oi_raw ob] else [])) sch hidden s'"
proof -
  let ?I = "undisturbed log l sch hidden"
  have arm: "keeps ?I (swhen (leader_pressed ev) (world_try (ad_arm_input_grab (ca_live A))))"
    by (intro keeps_swhen undisturbed_try) (use A(1) in \<open>simp add: logs_passthrough_def\<close>)
  obtain s1 s2 s3 s4 evs h where
    1: "swhen (leader_pressed ev) (world_try (ad_arm_input_grab (ca_live A))) s = Some (s1, Inr ())"
    and 2: "record_motion_latency_metrics (ca_live A) (oi_observed_at ob)
        (re_kernel_timestamp (oi_raw ob)) s1 = Some (s2, Inr ())"
    and 3: "feed_motion_runtime ev (motion_runtime_event_time (re_kernel_timestamp (oi_raw ob))
        (oi_observed_at ob) tb) s2 = Some (s3, Inr evs)"
    and 4: "toggle_handle_observed_input A p ev s3 = Some (s4, Inr h)"
    and 5: "(if oh_handled h then finish_observed_input A ob ev (oh_consumed h)
        else sbind (schedule_observed_input A p cap (oi_observed_at ob) ev evs)
          (finish_observed_input A ob ev)) s4 = Some (s', Inr ())"
    using run by (auto simp: handle_controller_event_def sthen_def sbind_Some_Ok)
  note s2 = keepsD [OF undisturbed_now(4) [OF A(1)] keepsD [OF arm s 1] 2]
  note s4 = keepsD [OF toggle_input_inactive(1) [OF A] keepsD [OF undisturbed_parts(2) s2 3] 4]
  have h: "\<not> oh_consumed h" using returnsD [OF toggle_input_inactive(2) [OF A] 4] .
  show ?thesis
  proof (cases "oh_handled h")
    case True
    then show ?thesis using 5 h finish_passes_through [OF A(1) s4] by simp
  next
    case False
    then obtain s5 b where
      sched: "schedule_observed_input A p cap (oi_observed_at ob) ev evs s4 = Some (s5, Inr b)"
      and fin: "finish_observed_input A ob ev b s5 = Some (s', Inr ())"
      using 5 by (auto simp: sbind_Some_Ok)
    have "\<not> b" using returnsD [OF observed_input_inactive(2) [OF A] sched] .
    with fin have "finish_observed_input A ob ev False s5 = Some (s', Inr ())" by simp
    from finish_passes_through [OF A(1) keepsD [OF observed_input_inactive(1) [OF A] s4 sched] this]
    show ?thesis .
  qed
qed

text \<open>A repeat tick schedules nothing either; its deadline is moved on all the same.\<close>

lemma repeat_tick_inactive:
  assumes "logs_passthrough (ca_live A) log" and "focus_inactive (ca_live A) p"
  shows "keeps (undisturbed log l sch hidden) (controller_repeat_tick A p cap x tick)"
proof -
  note gated = callback_name_inactive(1) [OF assms(1) focus_inactive_registration [OF assms(2)]]
  have "keeps (undisturbed log l sch hidden) (schedule_repeat_callback A p cap x t)" for t
    unfolding schedule_repeat_callback_def
    by (rule keeps_sbind_returned [OF keeps_check found_registration(2)])
      (auto intro!: keeps_sbind keeps_sreturn undisturbed_parts gated split: option.split)
  then show ?thesis
    unfolding controller_repeat_tick_def
    by (cases tick) (auto intro!: keeps_intros undisturbed_parts)
qed

section \<open>At most once\<close>

text \<open>Whatever the focus is: an event is passed through at most once, and only when grabbed.\<close>

definition logs_controller ::
  "('w, 'f, 'd) controller_adapter \<Rightarrow> ('w \<Rightarrow> raw_input_event list) \<Rightarrow> bool" where
  "logs_controller A log \<longleftrightarrow>
     logs_passthrough (ca_live A) log \<and> (\<forall>i. keeps_log log (ad_cleanup_overlay (ca_live A) i))"

definition logged ::
  "('w \<Rightarrow> 'l) \<Rightarrow> 'l \<Rightarrow> ('w, 'f, 'co) controller_state \<Rightarrow> bool" where
  "logged log l s \<longleftrightarrow> log (lc_world s) = l"

lemma logged_call: "keeps_log log f \<Longrightarrow> keeps (logged log l) (world_call f)"
  unfolding world_call_def
  by (rule keeps_srun) (auto simp: logged_def split: prod.splits dest: keeps_logD)

lemma logged_try: "keeps_log log f \<Longrightarrow> keeps (logged log l) (world_try f)"
  unfolding world_try_def
  by (rule keeps_stry) (auto simp: logged_def split: prod.splits dest: keeps_logD)

lemma logged_handlers:
  fixes A :: "('w, 'f, 'd) controller_adapter"
  assumes "logs_controller A log"
  shows "controller_handlers False A (logged log l :: ('w, 'f, 'co) controller_state \<Rightarrow> bool)"
proof -
  have logs: "keeps_log log (ad_now (ca_live A))" "keeps_log log (ad_monotonic_clock_time (ca_live A))"
    "keeps_log log (ad_active_process_context (ca_live A))"
    "\<And>i. keeps_log log (ad_cleanup_overlay (ca_live A) i)"
    using assms by (simp_all add: logs_controller_def logs_passthrough_def)
  show ?thesis
    unfolding controller_handlers_def keeps_if_False read_now_def flip_overlay_def count_def
      feed_motion_runtime_def schedule_registration_def set_last_tick_def forget_last_tick_def
    by (auto intro!: keeps_intros logged_call logged_try logs keeps_srun keeps_supd
        simp: logged_def split: prod.splits)
qed

text \<open>An operation that leads from states with one property to states with a weaker one.\<close>

definition leads :: "('s \<Rightarrow> bool) \<Rightarrow> ('s, 'e, 'a) effect \<Rightarrow> ('s \<Rightarrow> bool) \<Rightarrow> bool" where
  "leads I m J \<longleftrightarrow> (\<forall>s s' r. I s \<longrightarrow> m s = Some (s', r) \<longrightarrow> J s')"

lemma leads_sbind:
  "keeps I m \<Longrightarrow> (\<And>a. leads I (f a) J) \<Longrightarrow> (\<And>s. I s \<Longrightarrow> J s) \<Longrightarrow> leads I (sbind m f) J"
  unfolding leads_def keeps_def sbind_Some by metis

lemma leads_sthen:
  "keeps I m \<Longrightarrow> leads I k J \<Longrightarrow> (\<And>s. I s \<Longrightarrow> J s) \<Longrightarrow> leads I (sthen m k) J"
  unfolding sthen_def by (rule leads_sbind)

lemma leads_sthen_kept: "leads I m J \<Longrightarrow> keeps J k \<Longrightarrow> leads I (sthen m k) J"
  unfolding leads_def keeps_def sthen_def sbind_Some by metis

lemma leads_if: "leads I m J \<Longrightarrow> leads I k J \<Longrightarrow> leads I (if b then m else k) J"
  by simp

definition passed_once ::
  "('w \<Rightarrow> raw_input_event list) \<Rightarrow> raw_input_event list \<Rightarrow> observed_input_event
   \<Rightarrow> ('w, 'f, 'co) controller_state \<Rightarrow> bool" where
  "passed_once log l ob s \<longleftrightarrow>
     logged log l s \<or> oi_grabbed ob \<and> logged log (l @ [oi_raw ob]) s"

lemma logged_passed: "logged log l s \<Longrightarrow> passed_once log l ob s"
  by (simp add: passed_once_def)

lemma passed_try: "keeps_log log f \<Longrightarrow> keeps (passed_once log l ob) (world_try f)"
  using logged_try [of log f l] logged_try [of log f "l @ [oi_raw ob]"]
  unfolding passed_once_def keeps_def by blast

lemma leads_pass:
  assumes "logs_passthrough A log"
  shows "leads (logged log l) (swhen (oi_grabbed ob \<and> b)
    (world_try (ad_passthrough_raw_input A (oi_raw ob)))) (passed_once log l ob)"
proof -
  have "log (fst (ad_passthrough_raw_input A (oi_raw ob) w)) = log w @ [oi_raw ob]" for w
    using assms by (simp add: logs_passthrough_def)
  then show ?thesis
    by (auto simp: leads_def passed_once_def logged_def swhen_def sreturn_def world_try_def stry_def
        case_prod_beta)
qed

lemma controller_input_at_most_once:
  fixes A :: "('w, 'f, 'd) controller_adapter"
  assumes A: "logs_controller A log"
  shows "leads (logged log l) (handle_live_controller_observed_input A p cap tb ob)
    (passed_once log l ob)"
proof -
  have handlers: "controller_handlers False A (logged log l)"
    using logged_handlers [OF A] .
  have live: "logs_passthrough (ca_live A) log" using A by (simp add: logs_controller_def)
  have grab: "keeps_log log (ad_arm_input_grab (ca_live A))"
    "keeps_log log (ad_release_input_grab (ca_live A))"
    using live by (simp_all add: logs_passthrough_def)
  have finish: "leads (logged log l) (finish_observed_input A ob ev c) (passed_once log l ob)" for ev c
    unfolding finish_observed_input_def
    by (intro leads_sthen_kept leads_pass live keeps_swhen passed_try grab)
  note kept = controller_handlers.latency [OF handlers] controller_handlers.feed [OF handlers]
    controller_handlers.toggle_input [OF handlers] controller_handlers.observed [OF handlers]
  note kept' = kept [unfolded keeps_if_False]
  have event: "leads (logged log l) (handle_controller_event A p cap tb ob ev) (passed_once log l ob)" for ev
    unfolding handle_controller_event_def
    by (intro leads_sthen leads_sbind leads_if finish kept' keeps_swhen logged_try grab logged_passed)
  show ?thesis
    using event leads_pass [OF live, of l ob True]
    by (cases "oi_event ob") (simp_all add: handle_live_controller_observed_input_def)
qed

section \<open>The iterations of the loop\<close>

text \<open>The states in which the loop starts an iteration.\<close>

inductive controller_reached ::
  "('w, 'f, 'd) controller_adapter \<Rightarrow> ('w, 'f, 'fn, 'co, 'v) controller_run
   \<Rightarrow> ('w, 'f, 'co) controller_state \<Rightarrow> ('w, 'f, 'co) controller_state \<Rightarrow> bool"
  for A R s0 where
  start: "controller_reached A R s0 s0"
| iterate: "controller_reached A R s0 s \<Longrightarrow> controller_iteration A R s = Some (s', Inr None) \<Longrightarrow>
    controller_reached A R s0 s'"

lemma reached_callbacks_ok:
  "controller_reached A R s0 s \<Longrightarrow> callbacks_ok n s0 \<Longrightarrow> callbacks_ok n s"
proof (induction rule: controller_reached.induct)
  case (iterate s s')
  then show ?case
    using keeps_if_ok [OF controller_callbacks.iteration [OF refl]] by blast
qed

lemma reached_from_next:
  "controller_reached A R s1 s2 \<Longrightarrow> controller_iteration A R s = Some (s1, Inr None) \<Longrightarrow>
   controller_reached A R s s2"
  by (induction rule: controller_reached.induct)
    (auto intro: controller_reached.start controller_reached.iterate)

text \<open>The loop returns what the iteration of a reached state returns.\<close>

definition last_iteration ::
  "('w, 'f, 'd) controller_adapter \<Rightarrow> ('w, 'f, 'fn, 'co, 'v) controller_run
   \<Rightarrow> ('w, 'f, 'co) controller_state
   \<Rightarrow> ('w, 'f, 'co) controller_state \<times> shutdown_reason result \<Rightarrow> bool" where
  "last_iteration A R s y \<longleftrightarrow>
     (\<exists>s1. controller_reached A R s s1
        \<and> controller_iteration A R s1 = Some (fst y, map_sum id Some (snd y)))"

lemma last_iteration_step:
  assumes "\<And>s y. k s = Some y \<Longrightarrow> last_iteration A R s y"
    and "sbind (controller_iteration A R) (\<lambda>reason s1. case reason of
      None \<Rightarrow> k s1 | Some r \<Rightarrow> sreturn r s1) s = Some y"
  shows "last_iteration A R s y"
proof -
  obtain s' r where y: "y = (s', r)" by (cases y)
  from assms(2) consider
    (err) e where "controller_iteration A R s = Some (s', Inl e)" "r = Inl e"
  | (ok) s1 a where "controller_iteration A R s = Some (s1, Inr a)"
      "(case a of None \<Rightarrow> k s1 | Some r \<Rightarrow> sreturn r s1) = Some (s', r)"
    unfolding y sbind_Some by blast
  then show ?thesis
  proof cases
    case err
    with y show ?thesis by (auto simp: last_iteration_def intro: controller_reached.start)
  next
    case (ok s1 a)
    show ?thesis
    proof (cases a)
      case None
      with ok(2) have "k s1 = Some (s', r)" by simp
      from assms(1) [OF this] obtain s2 where "controller_reached A R s1 s2"
        "controller_iteration A R s2 = Some (s', map_sum id Some r)"
        by (auto simp: last_iteration_def)
      with reached_from_next [OF _ ok(1) [unfolded None]] show ?thesis
        unfolding y last_iteration_def by auto
    next
      case (Some q)
      with ok y show ?thesis
        by (auto simp: last_iteration_def sreturn_def intro: controller_reached.start)
    qed
  qed
qed

lemma loop_last_iteration:
  fixes s :: "('w, 'f, 'co) controller_state"
  assumes "controller_loop A R s = Some y"
  shows "last_iteration A R s y"
  using assms
proof (rule controller_loop.raw_induct [where P = last_iteration, rotated])
  fix f and A :: "('w, 'f, 'd) controller_adapter" and R :: "('w, 'f, 'fn, 'co, 'v) controller_run"
    and s :: "('w, 'f, 'co) controller_state" and y
  assume "\<And>A R s y. f A R s = Some y \<Longrightarrow> last_iteration A R s y"
    and "sbind (controller_iteration A R) (\<lambda>reason s1. case reason of
      None \<Rightarrow> f A R s1 | Some r \<Rightarrow> sreturn r s1) s = Some y"
  then show "last_iteration A R s y" by (rule last_iteration_step)
qed

section \<open>Shutdown\<close>

definition nothing_in_flight :: "('w, 'f, 'co) controller_state \<Rightarrow> bool" where
  "nothing_in_flight s \<longleftrightarrow> cs_continuations s = [] \<and> sc_pending (cs_scheduler s) = []
     \<and> sc_active_or_pending (cs_scheduler s) = []"

lemma wait_outcome_reason:
  assumes "callbacks_ok n s" and "controller_wait_outcome A R outcome s = Some (s', Inr (Some q))"
  shows "nothing_in_flight s'"
proof (cases outcome)
  case Signal
  with assms(2) obtain w s1 where
    w: "s1 = s\<lparr>lc_world := w\<rparr>" and cancel: "cancel_controller_callbacks s1 = Some (s', Inr ())"
    by (auto simp: controller_wait_outcome_def sbind_Some_Ok sthen_def world_try_Ok sreturn_def
        split: option.splits)
  have "callbacks_ok n s1" using assms(1) w by (simp add: callbacks_ok_def)
  from cancelled_callbacks [OF this cancel] show ?thesis by (simp add: nothing_in_flight_def)
qed (use assms(2) in \<open>auto simp: controller_wait_outcome_def sthen_def sbind_Some_Ok sreturn_def\<close>)

lemma iteration_reason:
  assumes "callbacks_ok n s" and "controller_iteration A R s = Some (s', Inr (Some q))"
  shows "nothing_in_flight s'"
proof -
  let ?pre = "sthen (count record_event_loop_wakeup)
    (sthen (drain_live_controller_shortcut_callbacks A (cr_program R) (cr_capabilities R))
    (sthen (poll_screen A R) (run_callbacks A R)))"
  note inv = controller_callbacks.callbacks controller_callbacks.screen
    controller_callbacks.run [OF refl] controller_callbacks.counted
  obtain s1 s2 oc r where pre: "?pre s = Some (s1, Inr ())"
    and wait: "controller_wait_for_event A R s1 = Some (s2, Inr oc)"
    and out: "controller_wait_outcome A R oc s2 = Some (s', Inr (Some q))"
    using assms(2)
    by (auto simp: controller_iteration_def sthen_def sbind_Some_Ok sreturn_def split: if_splits)
  have "keeps_if True (callbacks_ok n) ?pre"
    unfolding poll_screen_def by (intro keeps_if_intros inv)
  from keeps_if_ok [OF controller_callbacks.wait keeps_if_ok [OF this assms(1) pre] wait]
  show ?thesis using wait_outcome_reason out by blast
qed

end
