(* ===== verification/TrackerProperties.thy ===== *)
theory TrackerProperties imports TrackerLaws begin

text \<open>
  What the screen state trackers of \<open>signal-auras-core/src/screen_state.rs\<close> promise: which sets of
  trackers are accepted, what one poll does to each tracker, when the screen is read, and the
  bounds every reported state keeps over any history of polls.
\<close>

section \<open>A concrete setting\<close>

text \<open>Floats that are integers, a screen that always shows one brightness, two trackers.\<close>

definition int_floats :: "int float_ops" where
  "int_floats = \<lparr>fl_literal = (\<lambda>n d. n div d), fl_of_nat = int, fl_add = (+), fl_sub = (-),
     fl_mul = (*), fl_div = (div), fl_neg = uminus, fl_abs = abs, fl_less = (<), fl_le = (\<le>),
     fl_is_finite = (\<lambda>_. True), fl_round = (\<lambda>x. x), fl_floor = (\<lambda>x. x), fl_sqrt = (\<lambda>x. x),
     fl_sin = (\<lambda>x. 0), fl_cos = (\<lambda>x. 1), fl_atan2 = (\<lambda>x y. 0), fl_to_radians = (\<lambda>x. x),
     fl_to_degrees = (\<lambda>x. x), fl_rem_euclid = (mod), fl_cast = (\<lambda>lo hi x. max lo (min hi x)),
     fl_epsilon = 1\<rparr>"

text \<open>The world counts the captures.\<close>

definition bright_screen :: "nat \<Rightarrow> (nat, int) sample_provider" where
  "bright_screen percent = \<lparr>sp_capture = (\<lambda>n. (Suc n, Inr (synthetic_percent 7 (of_nat percent)))),
     sp_scale = (\<lambda>s c n. (n, scale_identity int_floats))\<rparr>"

definition charge_bar :: "int tracker_definition" where
  "charge_bar = \<lparr>td_id = ''bar'', td_scope = ExplicitGlobal, td_capabilities = [ScreenRead],
     td_poll_ms = 50, td_detector = HorizontalProgressBar \<lparr>roi_x = 0, roi_y = 0, roi_w = 1, roi_h = 1\<rparr> LeftToRight,
     td_condition = None\<rparr>"

definition gated_bar :: "int tracker_definition" where
  "gated_bar = charge_bar\<lparr>td_id := ''gated'',
     td_condition := Some \<lparr>tc_tracker_id = ''bar'', tc_phase = Ready\<rparr>\<rparr>"

definition two_bars :: "int tracker_set" where
  "two_bars = \<lparr>tk_trackers = [charge_bar, gated_bar], tk_required = [ScreenRead]\<rparr>"

definition no_focus :: active_process_context where
  "no_focus = context_unavailable ''no focus'' 0"

definition screen_granted :: capability_report where
  "screen_granted = report_from_statuses [status_available ScreenRead ''portal'']"

section \<open>Tracker sets\<close>

text \<open>
  A set of trackers is accepted exactly when no id occurs twice and every condition refers to
  a tracker declared before the one that has it.
\<close>

theorem accepted_tracker_sets:
  "(\<exists>s. tracker_set_new ts = Inr s) \<longleftrightarrow> distinct (map td_id ts) \<and> declared_earlier {} ts"
  by (rule tracker_set_accepted)

section \<open>Polls\<close>

lemma accepted_trackers:
  assumes "tracker_set_new ts = Inr s"
  shows "tk_trackers s = ts \<and> distinct (map td_id ts) \<and> declared_earlier {} ts"
  using assms tracker_set_contents tracker_set_accepted [of ts] by blast

text \<open>
  C21: One poll updates exactly the trackers that are due, leaves the others alone, and nothing is
  due right after it. A tracker with a condition is then inactive or its condition holds in the
  states the poll leaves, also when the tracker it depends on was updated by the same poll.
\<close>

theorem poll_updates_due_trackers:
  assumes "tracker_set_new ts = Inr (po_trackers p)" and "\<forall>t\<in>set ts. 0 < td_poll_ms t"
    and "poll_due F D sp clock now cap c p w = (q, out, w')"
  shows "set (pu_updated out) = set (due_ids p now) \<and> due_ids q now = []
    \<and> (\<forall>i. bm_get (po_last_poll_ms q) i
          = (if i \<in> set (due_ids p now) then Some now else bm_get (po_last_poll_ms p) i))
    \<and> (\<forall>i. i \<notin> set (due_ids p now) \<longrightarrow> latest_state q i = latest_state p i)
    \<and> (\<forall>t\<in>set ts. td_id t \<in> set (due_ids p now) \<longrightarrow> condition_kept t q)"
proof -
  note ts = accepted_trackers [OF assms(1)]
  note pol = poll_due_polled [OF assms(3)]
  have "due_ids q now = []" using due_after_poll pol assms(2) ts by blast
  moreover have "condition_kept t q" if "t \<in> set ts" "td_id t \<in> set (due_ids p now)" for t
    using poll_due_condition [OF assms(3)] ts that by simp
  ultimately show ?thesis using pol by (simp add: polled_def)
qed

lemma two_bars_accepted: "tracker_set_new [charge_bar, gated_bar] = Inr two_bars"
  by code_simp

theorem poll_updates_due_trackers_witness:
  "\<exists>q out w'. poll_due int_floats int_floats (bright_screen 60) (\<lambda>_. 0) 5 screen_granted
       no_focus (poller_new two_bars) 0 = (q, out, w')
     \<and> set (pu_updated out) = {''bar'', ''gated''} \<and> due_ids q 5 = [] \<and> condition_kept gated_bar q"
proof -
  obtain q out w' where run: "poll_due int_floats int_floats (bright_screen 60) (\<lambda>_. 0) 5
      screen_granted no_focus (poller_new two_bars) 0 = (q, out, w')"
    by (cases "poll_due int_floats int_floats (bright_screen 60) (\<lambda>_. 0) 5
      screen_granted no_focus (poller_new two_bars) 0") auto
  have due: "due_ids (poller_new two_bars) 5 = [''bar'', ''gated'']" by code_simp
  have set: "tracker_set_new [charge_bar, gated_bar] = Inr (po_trackers (poller_new two_bars))"
    using two_bars_accepted by (simp add: poller_new_def)
  have gated: "td_id gated_bar = ''gated''" by code_simp
  from poll_updates_due_trackers [OF set _ run] run due gated show ?thesis
    by (simp add: charge_bar_def gated_bar_def)
qed

text \<open>
  A poll reads the screen at most once, and only when reading it is not denied and a tracker
  is due whose scope allows the focused process.
\<close>

theorem screen_read_only_when_needed:
  assumes "poll_due F D sp clock now cap c p w = (q, out, w')" and "w' \<noteq> w"
  shows "screen_read_denial cap = None
    \<and> (\<exists>t\<in>set (tk_trackers (po_trackers p)). \<exists>m. td_id t \<in> set (due_ids p now)
         \<and> decide_context_at (td_scope t) c (clock m) = Allowed)
    \<and> (w' = fst (sp_capture sp w)
       \<or> (\<exists>s. snd (sp_capture sp w) = Inr s \<and> w' = fst (sp_scale sp s c (fst (sp_capture sp w)))))"
  using poll_due_reads [OF assms(1)] assms(2) by blast

theorem screen_read_only_when_needed_witness:
  "\<exists>q out w'. poll_due int_floats int_floats (bright_screen 60) (\<lambda>_. 0) 5 screen_granted
       no_focus (poller_new two_bars) 0 = (q, out, w')
     \<and> w' = 1 \<and> screen_read_denial screen_granted = None"
proof -
  obtain q out w' where run: "poll_due int_floats int_floats (bright_screen 60) (\<lambda>_. 0) 5
      screen_granted no_focus (poller_new two_bars) 0 = (q, out, w')"
    by (cases "poll_due int_floats int_floats (bright_screen 60) (\<lambda>_. 0) 5
      screen_granted no_focus (poller_new two_bars) 0") auto
  have "snd (snd (poll_due int_floats int_floats (bright_screen 60) (\<lambda>_. 0) 5
      screen_granted no_focus (poller_new two_bars) 0)) = 1" by code_simp
  with run have "w' = 1" by simp
  with screen_read_only_when_needed [OF run] run show ?thesis by simp
qed

section \<open>Histories of polls\<close>

text \<open>The inputs of one poll: the clock, the time, the capabilities and the focus.\<close>

type_synonym poll_input =
  "(nat \<Rightarrow> instant) \<times> nat \<times> capability_report \<times> active_process_context"

definition poll_once ::
  "'f float_ops \<Rightarrow> 'd float_ops \<Rightarrow> ('w, 'd) sample_provider \<Rightarrow> poll_input
   \<Rightarrow> 'f tracker_poller \<times> 'w \<Rightarrow> 'f tracker_poller \<times> 'w" where
  "poll_once F D sp input s =
     (case input of (clock, now, cap, c) \<Rightarrow>
        case poll_due F D sp clock now cap c (fst s) (snd s) of (q, out, w) \<Rightarrow> (q, w))"

lemma polls_ok: "poller_ok (fst s) \<Longrightarrow> poller_ok (fst (fold (poll_once F D sp) inputs s))"
proof (induction inputs arbitrary: s)
  case (Cons i inputs)
  obtain clock now cap c where i: "i = (clock, now, cap, c)" by (cases i)
  obtain q out w where run: "poll_due F D sp clock now cap c (fst s) (snd s) = (q, out, w)"
    by (cases "poll_due F D sp clock now cap c (fst s) (snd s)")
  have "poller_ok q" using bounded.poll_kept [OF Cons.prems run] .
  then show ?case using Cons.IH [of "(q, w)"] by (simp add: poll_once_def i run)
qed simp

text \<open>
  C22: Over any history of polls every state a poller keeps is bounded: fractions are percentages,
  the confidence is at most 95, a ready cooldown has no time remaining, what remains is at most the
  estimated total, and a prediction is only made in the active phase and is at most the configured
  duration. The freshness of every kept state is 0: no poll and no time passing makes it older.
\<close>

theorem kept_states_are_bounded:
  assumes "latest_state (fst (fold (poll_once F D sp) inputs (poller_new ts, w))) i = Some st"
  shows "state_ok st"
proof -
  have "poller_ok (fst (fold (poll_once F D sp) inputs (poller_new ts, w)))"
    by (rule polls_ok) (simp add: poller_ok_new)
  then show ?thesis using assms unfolding poller_ok_def by blast
qed

theorem kept_states_are_bounded_witness:
  "\<exists>st. latest_state (fst (fold (poll_once int_floats int_floats (bright_screen 60))
       [((\<lambda>_. 0), 5, screen_granted, no_focus), ((\<lambda>_. 0), 500, screen_granted, no_focus)]
       (poller_new two_bars, 0))) ''bar'' = Some st \<and> state_ok st"
proof -
  have "latest_state (fst (fold (poll_once int_floats int_floats (bright_screen 60))
       [((\<lambda>_. 0), 5, screen_granted, no_focus), ((\<lambda>_. 0), 500, screen_granted, no_focus)]
       (poller_new two_bars, 0))) ''bar''
     = Some (ProgressState \<lparr>pg_visible = True, pg_progress_percent = 60, pg_confidence = 90,
         pg_freshness_ms = 0\<rparr>)" by code_simp
  from this kept_states_are_bounded [OF this] show ?thesis by blast
qed

section \<open>Denied and unsupported screens\<close>

text \<open>
  On every environment the KDE probe describes, a screen that may not be read is reported as
  denied and never as unsupported, although the probe knows desktops without a screen portal: the
  poller looks for a word that no message of the probe contains.
\<close>

theorem unsupported_screen_is_reported_as_denied:
  "screen_read_denial (kde_capability_report required env) \<in> {None, Some ScreenReadDenied}"
  using kde_denial_never_unsupported [of required env]
  unfolding screen_read_denial_def
  by (cases "first_blocking_error (kde_capability_report required env) (capability_set_new [ScreenRead])")
    (auto split: if_splits)

end
