(* ===== verification/ControllerProperties.thy ===== *)
theory ControllerProperties imports ControllerSafety TrackerProperties Scenarios begin

text \<open>
  What the live loop of a controller promises (\<open>signal-auras-cli/src/runner.rs\<close> and
  \<open>runner/controller.rs\<close>): the invariants of a run, the callbacks in flight, input while scoped
  focus is inactive, and the overlays drawn over the polled screen states.
\<close>

section \<open>A concrete setting\<close>

text \<open>The world is the log of the events that are passed through; the screen is never read.\<close>

definition quiet_controller ::
  "active_process_context \<Rightarrow> (raw_input_event list, int, int) controller_adapter" where
  "quiet_controller c =
     \<lparr>ca_live = quiet_adapter c, ca_f32 = int_floats, ca_f64 = int_floats,
      ca_clock = (\<lambda>w. (w, \<lambda>_. 7000000)),
      ca_samples = \<lparr>sp_capture = (\<lambda>w. (w, Inr (synthetic_percent 7 60))),
                    sp_scale = (\<lambda>s c w. (w, scale_identity int_floats))\<rparr>,
      ca_overlay_provider_report = (\<lambda>w. (w, native_available)),
      ca_render_overlay_snapshot = (\<lambda>sn w. (w, Ok ())), ca_sleep = (\<lambda>d w. (w, Ok ())),
      ca_active_window = (\<lambda>b w. (w, Err (macro_execution_error ''no window''))),
      ca_find_window = (\<lambda>ps w. (w, Ok None)), ca_activate_window = (\<lambda>h w. (w, Ok False)),
      ca_wait_active_window = (\<lambda>h d w. (w, Ok False))\<rparr>"

lemma quiet_controller_logs: "logs_controller (quiet_controller c) (\<lambda>w. w)"
  using quiet_adapter_logs [of c]
  by (simp add: logs_controller_def quiet_controller_def quiet_adapter_def keeps_log_def
      logs_passthrough_def)

definition press_left :: controller_registration where
  "press_left = \<lparr>cg_kind = Press, cg_trigger = ''<LClick>'', cg_scope = kate, cg_mode = Consume,
     cg_callback = ''combo'', cg_required = [SynthesizedInput], cg_overload_policy = SkipWhilePending,
     cg_requires_held = [], cg_loop_policy = None\<rparr>"

definition gauge :: "int overlay_definition" where
  "gauge = \<lparr>od_id = ''gauge'', od_scope = kate, od_surface_kind = Overlay, od_provider = Native,
     od_toggle_hotkey = Some \<lparr>ot_trigger = ''<WheelUp>'', ot_mode = Consume\<rparr>,
     od_visuals = [ProgressBar \<lparr>pb_id = ''bar'',
       pb_binding = \<lparr>sb_tracker_id = ''bar'', sb_field = ProgressPercent\<rparr>,
       pb_rect = \<lparr>or_x = 0, or_y = 0, or_w = 10, or_h = 10\<rparr>, pb_opacity = 1,
       pb_fill = ''#fff'', pb_background = ''#000'', pb_label_visible = False,
       pb_ready_style = None, pb_activated_style = None, pb_active_style = None,
       pb_inactive_style = None\<rparr>]\<rparr>"

definition gauges :: "int overlay_set" where
  "gauges = \<lparr>ol_overlays = [gauge], ol_required = [ActiveProcessMetadata]\<rparr>"

definition kate_program :: "int tracker_set \<Rightarrow> int overlay_set \<Rightarrow> int controller_program" where
  "kate_program ts ovs =
     \<lparr>cp_registrations = \<lparr>rg_registrations = [press_left], rg_required = [SynthesizedInput]\<rparr>,
      cp_callbacks = [(''combo'', \<lparr>cb_name = ''combo'', cb_actions = [KeyPress ''A'']\<rparr>)],
      cp_required = [SynthesizedInput], cp_input_provider = None, cp_leader = None,
      cp_state_trackers = ts, cp_overlays = ovs\<rparr>"

definition fresh_scheduler :: callback_scheduler where
  "fresh_scheduler = \<lparr>sc_max_pending = 64, sc_default_budget = default_lua_callback_budget,
     sc_pending = [], sc_active_or_pending = []\<rparr>"

lemma fresh_scheduler: "callback_scheduler_new 64 default_lua_callback_budget = Inr fresh_scheduler"
  by (simp add: callback_scheduler_new_def fresh_scheduler_def default_lua_callback_budget_def
      from_millis_def)

definition fresh_state ::
  "int tracker_set \<Rightarrow> (raw_input_event list, int, unit) controller_state" where
  "fresh_state ts =
     controller_state_new [] dev_runtime_default (runtime_stats_new 0) [] fresh_scheduler ts"

definition kate_run ::
  "int tracker_set \<Rightarrow> int overlay_set \<Rightarrow> (raw_input_event list, int, unit, unit, unit) controller_run" where
  "kate_run ts ovs = \<lparr>cr_program = kate_program ts ovs, cr_runtime = None,
     cr_capabilities = report_from_statuses [], cr_repeat_ticks = [], cr_motion_time_base = 0,
     cr_tracker_time_base = 0\<rparr>"

section \<open>A run of the loop\<close>

lemma run_real:
  assumes "run_live_real_controller_lifecycle A p rt cap mb tb dev st w = Some (Some s, r)"
  obtains sch motions ticks where
    "callback_scheduler_new 64 default_lua_callback_budget = Inr sch"
    "controller_motion_definitions p = Inr motions"
    "controller_loop A \<lparr>cr_program = p, cr_runtime = rt, cr_capabilities = cap,
       cr_repeat_ticks = ticks, cr_motion_time_base = mb, cr_tracker_time_base = tb\<rparr>
       (controller_state_new w dev st motions sch (cp_state_trackers p)) = Some (s, r)"
  using assms
  by (auto simp: run_live_real_controller_lifecycle_def rbind.simps split: sum.splits)

lemma trackers_ok_new:
  "trackers_ok ts (cs_trackers (controller_state_new w dev st motions sch ts))"
  using poller_ok_new [of ts]
  by (simp add: trackers_ok_def controller_state_new_def live_tracker_runtime_new_def kinds_of_def
      kinds_kept_def poller_new_def latest_state_def)

lemma callbacks_ok_new:
  assumes "callback_scheduler_new n d = Inr sch"
  shows "callbacks_ok n (controller_state_new w dev st motions sch ts)"
  using assms
  by (auto simp: callbacks_ok_def controller_state_new_def callback_scheduler_new_def
      scheduler_inv_def labels_def split: if_splits)

text \<open>
  C23: However the adapter and the interpreter answer, and whether a run of a controller ends with
  a shutdown or with an error: the motion runtime has the motions of the program and its invariant,
  and the screen states have the kinds of their trackers and keep their bounds.
\<close>

theorem controller_run_keeps_invariants:
  assumes "run_live_real_controller_lifecycle A p rt cap mb tb dev st w = Some (Some s, r)"
  shows "\<exists>motions. controller_motion_definitions p = Inr motions
    \<and> motions_ok (motion_runtime_new motions) (lc_motion_runtime s)
    \<and> trackers_ok (cp_state_trackers p) (cs_trackers s)"
proof -
  from run_real [OF assms] obtain sch motions ticks where
    motions: "controller_motion_definitions p = Inr motions"
    and run: "controller_loop A \<lparr>cr_program = p, cr_runtime = rt, cr_capabilities = cap,
       cr_repeat_ticks = ticks, cr_motion_time_base = mb, cr_tracker_time_base = tb\<rparr>
       (controller_state_new w dev st motions sch (cp_state_trackers p)) = Some (s, r)" by blast
  have "motions_ok (motion_runtime_new motions)
      (lc_motion_runtime (controller_state_new w dev st motions sch (cp_state_trackers p)))"
    using runtime_ok_new by (auto simp: motions_ok_def controller_state_new_def)
  from keeps_ifD [OF controller_motions.loop [OF refl] this run]
    keeps_ifD [OF controller_trackers.loop [OF refl] trackers_ok_new run] motions
  show ?thesis by simp
qed

text \<open>The example run: one iteration, which polls both trackers and is then shut down.\<close>

lemma quiet_state [simp]: "s\<lparr>lc_world := lc_world s\<rparr> = (s :: ('w, 'f, 'co) controller_state)"
  by (cases s) simp

lemma quiet_calls:
  "read_now (ca_live (quiet_controller c)) s = Some (s, Inr 7000000)"
  "world_call (ad_next_shortcut_event (ca_live (quiet_controller c))) s = Some (s, Inr None)"
  "world_call (ad_take_callback_dropped_count (ca_live (quiet_controller c))) s = Some (s, Inr 0)"
  "world_try (ad_arm_timer_after (ca_live (quiet_controller c)) d) s = Some (s, Inr ())"
  "world_try (ad_drain_shutdown_reason (ca_live (quiet_controller c))) s = Some (s, Inr (Some CtrlC))"
  "world_try (ad_wait_next_input_or_runtime_fd (ca_live (quiet_controller c)) d fds) s
     = Some (s, Inr (RuntimeFd 3))"
  for s :: "(raw_input_event list, int, unit) controller_state"
  by (simp_all add: read_now_def world_call_def world_try_def srun_def stry_def quiet_controller_def
      quiet_adapter_def)

lemma quiet_drains:
  fixes s :: "(raw_input_event list, int, unit) controller_state"
  shows "drain_live_controller_shortcut_callbacks (quiet_controller c) p cap s = Some (s, Inr ())"
    and "cs_continuations s = [] \<Longrightarrow> sc_pending (cs_scheduler s) = [] \<Longrightarrow>
      run_callbacks (quiet_controller c) R s = Some (s, Inr ())"
proof -
  have "drain_controller_shortcuts (quiet_controller c) p cap s = Some (s, Inr ())"
    by (subst drain_controller_shortcuts.simps) (simp add: sbind_def quiet_calls sreturn_def)
  then show "drain_live_controller_shortcut_callbacks (quiet_controller c) p cap s = Some (s, Inr ())"
    by (simp add: drain_live_controller_shortcut_callbacks_def sbind_def sthen_def quiet_calls
        swhen_def sreturn_def)
  assume s: "cs_continuations s = []" "sc_pending (cs_scheduler s) = []"
  then have same: "s\<lparr>cs_continuations := []\<rparr> = s" "s\<lparr>cs_scheduler := cs_scheduler s\<rparr> = s"
    by (cases s; simp)+
  have "drain_ready_continuations (quiet_controller c) (cr_runtime R) cap s = Some (s, Inr ())" for cap
    using s same
    by (subst drain_ready_continuations.simps)
      (simp add: sbind_def pop_ready_def quiet_calls srun_def pop_ready_at_def sreturn_def)
  moreover have "drain_scheduled_tasks (quiet_controller c) p (cr_runtime R) cap s = Some (s, Inr ())" for p cap
    using s same
    by (subst drain_scheduled_tasks.simps)
      (simp add: sbind_def pop_task_def srun_def scheduler_pop_next_def sreturn_def)
  ultimately show "run_callbacks (quiet_controller c) R s = Some (s, Inr ())"
    by (simp add: run_callbacks_def drain_controller_callbacks_def sbind_def sthen_def)
qed

lemma quiet_wait:
  "controller_wait_for_event (quiet_controller c) R s = Some (s, Inr Signal)"
  for s :: "(raw_input_event list, int, unit) controller_state"
  by (simp add: controller_wait_for_event_def controller_wait_timeout_def sbind_def sthen_def
      quiet_calls sget_def sreturn_def)
    (simp add: quiet_controller_def quiet_adapter_def classify_wait_outcome_def wake_classify_def)

lemma scenario_poll:
  "\<exists>s. poll_screen (quiet_controller kate_focused) (kate_run two_bars gauges)
       ((fresh_state two_bars)\<lparr>lc_stats := record_event_loop_wakeup (runtime_stats_new 0)\<rparr>)
     = Some (s, Inr ()) \<and> cs_continuations s = [] \<and> sc_pending (cs_scheduler s) = []"
proof -
  have "map_option (\<lambda>(s, r). (r, cs_continuations s, sc_pending (cs_scheduler s)))
      (poll_screen (quiet_controller kate_focused) (kate_run two_bars gauges)
       ((fresh_state two_bars)\<lparr>lc_stats := record_event_loop_wakeup (runtime_stats_new 0)\<rparr>))
    = Some (Inr (), [], [])"
    by code_simp
  then show ?thesis by auto
qed

lemma scenario_run:
  "\<exists>s. run_live_real_controller_lifecycle (quiet_controller kate_focused)
       (kate_program two_bars gauges) (None :: (raw_input_event list, unit, unit, unit) lua_runtime option)
       (report_from_statuses []) 0 0 dev_runtime_default (runtime_stats_new 0) []
     = Some (Some s, Ok CtrlC)"
proof -
  let ?R = "kate_run two_bars gauges" and ?A = "quiet_controller kate_focused"
  from scenario_poll obtain s where
    poll: "poll_screen ?A ?R
      ((fresh_state two_bars)\<lparr>lc_stats := record_event_loop_wakeup (runtime_stats_new 0)\<rparr>)
      = Some (s, Inr ())"
    and s: "cs_continuations s = []" "sc_pending (cs_scheduler s) = []" by blast
  have stats: "lc_stats (fresh_state two_bars) = runtime_stats_new 0"
    by (simp add: fresh_state_def controller_state_new_def)
  obtain s' where "cancel_controller_callbacks s = Some (s', Inr ())"
    by (simp add: cancel_controller_callbacks_def supd_def)
  then have out: "controller_wait_outcome ?A ?R Signal s = Some (s', Inr (Some CtrlC))"
    by (simp add: controller_wait_outcome_def sbind_def sthen_def quiet_calls sreturn_def)
  have "controller_iteration ?A ?R (fresh_state two_bars) = Some (s', Inr (Some CtrlC))"
    by (simp add: controller_iteration_def sbind_def sthen_def count_def supd_def stats
        quiet_drains poll s quiet_wait out sreturn_def)
  then have "controller_loop ?A ?R (fresh_state two_bars) = Some (s', Inr CtrlC)"
    by (subst controller_loop.simps) (simp add: sbind_def sreturn_def)
  moreover have "controller_motion_definitions (kate_program two_bars gauges) = Inr []"
    "controller_repeat_ticks (kate_program two_bars gauges) = Inr []"
    by (simp_all add: controller_motion_definitions_def controller_repeat_ticks_def
        registrations_of_kind_def program_registrations_def kate_program_def press_left_def
        map_filter_simps)
  moreover have "cp_state_trackers (kate_program two_bars gauges) = two_bars"
    by (simp add: kate_program_def)
  ultimately show ?thesis
    by (simp add: run_live_real_controller_lifecycle_def fresh_scheduler rbind.simps fresh_state_def
        kate_run_def)
qed

theorem controller_run_keeps_invariants_witness:
  "\<exists>s. run_live_real_controller_lifecycle (quiet_controller kate_focused)
       (kate_program two_bars gauges) (None :: (raw_input_event list, unit, unit, unit) lua_runtime option)
       (report_from_statuses []) 0 0 dev_runtime_default (runtime_stats_new 0) []
     = Some (Some s, Ok CtrlC) \<and> trackers_ok two_bars (cs_trackers s)"
proof -
  from scenario_run obtain s where run: "run_live_real_controller_lifecycle
      (quiet_controller kate_focused) (kate_program two_bars gauges)
      (None :: (raw_input_event list, unit, unit, unit) lua_runtime option)
      (report_from_statuses []) 0 0 dev_runtime_default (runtime_stats_new 0) []
     = Some (Some s, Ok CtrlC)" by blast
  with controller_run_keeps_invariants [OF run] show ?thesis by (auto simp: kate_program_def)
qed

section \<open>Callbacks in flight\<close>



text \<open>
  C25: A run that ends with a shutdown leaves no callback in flight: nothing is queued, nothing
  sleeps and no label is taken.
\<close>

theorem shutdown_cancels_callbacks:
  assumes "run_live_real_controller_lifecycle A p rt cap mb tb dev st w = Some (Some s, Inr reason)"
  shows "cs_continuations s = [] \<and> sc_pending (cs_scheduler s) = []
    \<and> sc_active_or_pending (cs_scheduler s) = []"
proof -
  from run_real [OF assms] obtain sch motions ticks where
    sch: "callback_scheduler_new 64 default_lua_callback_budget = Inr sch"
    and run: "controller_loop A \<lparr>cr_program = p, cr_runtime = rt, cr_capabilities = cap,
       cr_repeat_ticks = ticks, cr_motion_time_base = mb, cr_tracker_time_base = tb\<rparr>
       (controller_state_new w dev st motions sch (cp_state_trackers p)) = Some (s, Inr reason)"
      (is "controller_loop A ?R _ = _") by blast
  from loop_last_iteration [OF run] obtain s1 where
    reached: "controller_reached A ?R
      (controller_state_new w dev st motions sch (cp_state_trackers p)) s1"
    and stop: "controller_iteration A ?R s1 = Some (s, Inr (Some reason))"
    by (auto simp: last_iteration_def)
  from iteration_reason [OF reached_callbacks_ok [OF reached callbacks_ok_new [OF sch]] stop]
  show ?thesis by (simp add: nothing_in_flight_def)
qed

theorem shutdown_cancels_callbacks_witness:
  "\<exists>s. run_live_real_controller_lifecycle (quiet_controller kate_focused)
       (kate_program two_bars gauges) (None :: (raw_input_event list, unit, unit, unit) lua_runtime option)
       (report_from_statuses []) 0 0 dev_runtime_default (runtime_stats_new 0) []
     = Some (Some s, Ok CtrlC) \<and> sc_pending (cs_scheduler s) = []"
proof -
  from scenario_run obtain s where run: "run_live_real_controller_lifecycle
      (quiet_controller kate_focused) (kate_program two_bars gauges)
      (None :: (raw_input_event list, unit, unit, unit) lua_runtime option)
      (report_from_statuses []) 0 0 dev_runtime_default (runtime_stats_new 0) []
     = Some (Some s, Ok CtrlC)" by blast
  from shutdown_cancels_callbacks [OF run] run show ?thesis by (intro exI [of _ s]) simp
qed

section \<open>Input\<close>

text \<open>
  C26: While the scopes of a controller's registrations and overlays are inactive, an event of any
  state, the release that ends a loop included, schedules no callback and toggles no overlay, and
  the raw event of a grabbed device is passed through exactly once.
\<close>

theorem inactive_controller_input:
  assumes "logs_passthrough (ca_live A) log" and "focus_inactive (ca_live A) p"
    and "handle_live_controller_observed_input A p cap tb ob s = Some (s', Inr ())"
  shows "cs_scheduler s' = cs_scheduler s \<and> cs_hidden_overlays s' = cs_hidden_overlays s
    \<and> log (lc_world s') = log (lc_world s) @ (if oi_grabbed ob then [oi_raw ob] else [])"
proof -
  have s: "undisturbed log (log (lc_world s)) (cs_scheduler s) (cs_hidden_overlays s) s"
    by (simp add: undisturbed_def)
  have "undisturbed log (log (lc_world s) @ (if oi_grabbed ob then [oi_raw ob] else []))
      (cs_scheduler s) (cs_hidden_overlays s) s'"
  proof (cases "oi_event ob")
    case None
    with assms(3) have "swhen (oi_grabbed ob)
        (world_try (ad_passthrough_raw_input (ca_live A) (oi_raw ob))) s = Some (s', Inr ())"
      by (simp only: handle_live_controller_observed_input_def option.case)
    then have "finish_observed_input A ob \<lparr>me_token = Leader, me_state = Pressed\<rparr> False s
        = Some (s', Inr ())"
      by (simp add: finish_observed_input_def leader_released_def sthen_def sbind_def swhen_def
          sreturn_def)
    from finish_passes_through [OF assms(1) s this] show ?thesis .
  next
    case (Some ev)
    with assms(3) event_passes_through [OF assms(1,2) s] show ?thesis
      by (simp only: handle_live_controller_observed_input_def option.case)
  qed
  then show ?thesis by (simp add: undisturbed_def)
qed

lemma konsole_focus_inactive:
  "focus_inactive (ca_live (quiet_controller konsole_focused)) (kate_program two_bars gauges)"
  using quiet_konsole
  by (simp add: focus_inactive_def program_scopes_def quiet_controller_def kate_program_def
      program_registrations_def press_left_def gauges_def gauge_def)

lemma scenario_input:
  "\<exists>s'. handle_live_controller_observed_input (quiet_controller konsole_focused)
     (kate_program two_bars gauges) (report_from_statuses []) 0
     (observed_key (MouseButton Left) Pressed) (fresh_state two_bars) = Some (s', Inr ())"
proof -
  have "map_option snd (handle_live_controller_observed_input (quiet_controller konsole_focused)
     (kate_program two_bars gauges) (report_from_statuses []) 0
     (observed_key (MouseButton Left) Pressed) (fresh_state two_bars)) = Some (Inr ())"
    by code_simp
  then show ?thesis by auto
qed

theorem inactive_controller_input_witness:
  "\<exists>s'. handle_live_controller_observed_input (quiet_controller konsole_focused)
     (kate_program two_bars gauges) (report_from_statuses []) 0
     (observed_key (MouseButton Left) Pressed) (fresh_state two_bars) = Some (s', Inr ())
   \<and> cs_scheduler s' = fresh_scheduler \<and> lc_world s' = [raw_key 1]"
proof -
  obtain s' where run: "handle_live_controller_observed_input (quiet_controller konsole_focused)
     (kate_program two_bars gauges) (report_from_statuses []) 0
     (observed_key (MouseButton Left) Pressed) (fresh_state two_bars) = Some (s', Inr ())"
    using scenario_input by blast
  have "logs_passthrough (ca_live (quiet_controller konsole_focused)) (\<lambda>w. w)"
    using quiet_controller_logs by (simp add: logs_controller_def)
  from inactive_controller_input [OF this konsole_focus_inactive run] run show ?thesis
    by (simp add: fresh_state_def controller_state_new_def observed_key_def)
qed

text \<open>
  Whatever the focus and the outcome of the handler, an event observed by a controller is
  passed through at most once, and only when its device is grabbed.
\<close>

theorem controller_input_passed_at_most_once:
  assumes "logs_controller A log"
    and "handle_live_controller_observed_input A p cap tb ob s = Some (s', r)"
  shows "log (lc_world s') = log (lc_world s)
    \<or> oi_grabbed ob \<and> log (lc_world s') = log (lc_world s) @ [oi_raw ob]"
  using controller_input_at_most_once [OF assms(1)] assms(2)
  unfolding leads_def passed_once_def logged_def by blast

theorem controller_input_passed_at_most_once_witness:
  "\<exists>s'. handle_live_controller_observed_input (quiet_controller konsole_focused)
     (kate_program two_bars gauges) (report_from_statuses []) 0
     (observed_key (MouseButton Left) Pressed) (fresh_state two_bars) = Some (s', Inr ())
   \<and> (lc_world s' = [] \<or> lc_world s' = [raw_key 1])"
proof -
  obtain s' where run: "handle_live_controller_observed_input (quiet_controller konsole_focused)
     (kate_program two_bars gauges) (report_from_statuses []) 0
     (observed_key (MouseButton Left) Pressed) (fresh_state two_bars) = Some (s', Inr ())"
    using scenario_input by blast
  from controller_input_passed_at_most_once [OF quiet_controller_logs run] run show ?thesis
    by (auto simp: fresh_state_def controller_state_new_def observed_key_def)
qed

section \<open>Overlays\<close>

lemma reached_trackers_ok:
  "controller_reached A R s0 s \<Longrightarrow> trackers_ok ts (cs_trackers s0) \<Longrightarrow> trackers_ok ts (cs_trackers s)"
proof (induction rule: controller_reached.induct)
  case (iterate s s')
  then show ?case
    using keeps_if_ok [OF controller_trackers.iteration [OF refl]] by blast
qed

text \<open>What is known of a snapshot of an overlay over the states of a poller.\<close>

definition snapshot_of ::
  "'f tracker_poller option \<Rightarrow> 'f overlay_snapshot \<Rightarrow> 'f overlay_definition \<Rightarrow> bool" where
  "snapshot_of p sn ov \<longleftrightarrow>
     sn_overlay_id sn = od_id ov
     \<and> (if snapshot_is_active sn
        then map vs_visual_id (sn_visuals sn) = map visual_id (od_visuals ov) \<and> sn_diagnostic sn = None
          \<and> (\<forall>v\<in>set (od_visuals ov). \<exists>q. p = Some q
               \<and> latest_state q (sb_tracker_id (visual_binding v)) \<noteq> None)
        else sn_visuals sn = [] \<and> (\<exists>d. sn_diagnostic sn = Some d \<and> og_reason d
          \<in> {ProviderUnavailable, PermissionDenied, overlay_diagnostic_reason.FocusInactive,
             MissingStateSource}))"

lemma visual_snapshots_id:
  "visual_snapshots F ov states shown vs = Inl sn \<Longrightarrow> sn_overlay_id sn = od_id ov"
  by (induction F ov states shown vs rule: visual_snapshots.induct)
    (auto simp: closed_snapshot_def Let_def split: option.splits if_splits)

lemma overlay_snapshot_id: "sn_overlay_id (overlay_snapshot F now ov cap c states pr) = od_id ov"
  using visual_snapshots_id [of F ov states "[]" "od_visuals ov"]
  by (auto simp: overlay_snapshot_def Let_def closed_snapshot_def split: option.splits sum.splits)

lemma closed_reason:
  assumes "\<not> snapshot_is_active (overlay_snapshot F now ov cap c states pr)"
    and "\<And>sn. visual_snapshots F ov states [] (od_visuals ov) = Inl sn \<Longrightarrow>
      \<exists>d. sn_diagnostic sn = Some d \<and> og_reason d = MissingStateSource"
  shows "\<exists>d. sn_diagnostic (overlay_snapshot F now ov cap c states pr) = Some d \<and> og_reason d
    \<in> {ProviderUnavailable, PermissionDenied, overlay_diagnostic_reason.FocusInactive,
       MissingStateSource}"
  using assms
  by (auto simp: overlay_snapshot_def Let_def snapshot_is_active_def closed_snapshot_def
      split: option.splits sum.splits if_splits)

lemma no_states_closed:
  "visual_snapshots F ov [] shown vs = Inl sn \<Longrightarrow>
   \<exists>d. sn_diagnostic sn = Some d \<and> og_reason d = MissingStateSource"
  by (cases vs) (auto simp: closed_snapshot_def Let_def)

lemma overlay_snapshot_of:
  assumes "\<forall>v\<in>set (od_visuals ov). binding_ok ts v" and "trackers_ok ts lt"
  shows "snapshot_of (map_option lt_poller lt) (overlay_snapshot F now ov cap c
    (case lt of None \<Rightarrow> [] | Some r \<Rightarrow> po_latest (lt_poller r)) pr) ov"
    (is "snapshot_of ?p (overlay_snapshot F now ov cap c ?states pr) ov")
proof (cases "snapshot_is_active (overlay_snapshot F now ov cap c ?states pr)")
  case True
  then have "\<forall>v\<in>set (od_visuals ov). drives F ?states v" by (simp add: overlay_active_iff)
  then have "\<forall>v\<in>set (od_visuals ov). \<exists>q. ?p = Some q
      \<and> latest_state q (sb_tracker_id (visual_binding v)) \<noteq> None"
    by (cases lt) (auto simp: drives_def latest_state_def)
  with True overlay_drawn [OF True] show ?thesis
    by (simp add: snapshot_of_def overlay_snapshot_id)
next
  case False
  have "\<exists>d. sn_diagnostic sn = Some d \<and> og_reason d = MissingStateSource"
    if closed: "visual_snapshots F ov ?states [] (od_visuals ov) = Inl sn" for sn
  proof (cases lt)
    case None
    with closed show ?thesis using no_states_closed by (simp split: option.splits)
  next
    case (Some r)
    with assms(2) have "kinds_of ts (lt_poller r)" "poller_ok (lt_poller r)"
      by (simp_all add: trackers_ok_def)
    from polled_visuals_closed [OF _ this] closed assms(1) Some show ?thesis by fastforce
  qed
  from closed_reason [OF False this] overlay_closed [OF False] False show ?thesis
    by (simp add: snapshot_of_def overlay_snapshot_id)
qed


lemma gauge_accepted: "overlay_set_new [gauge] two_bars = Inr gauges"
  by code_simp


end
