(* ===== verification/LuaText.thy ===== *)
theory LuaText imports Trackers begin

text \<open>
  The text functions of the Lua sandbox: the scanners of \<open>signal-auras-lua/src/sandbox_policy.rs\<close>
  that look for denied names, the field and table readers at the end of
  \<open>signal-auras-lua/src/sandbox.rs\<close>, and the rewriting of keyword table keys in \<open>runtime.rs\<close>.

  An index into a \<open>&str\<close> counts its characters. The sources index bytes: they only ever compare them
  with ASCII characters and cut at the places they found, so that both ways of counting cut a text
  in the same pieces.
\<close>

section \<open>Functions of the standard library on strings\<close>

abbreviation dquote :: char where "dquote \<equiv> CHR 0x22"
abbreviation squote :: char where "squote \<equiv> CHR 0x27"
abbreviation newline :: char where "newline \<equiv> CHR 0x0A"
abbreviation open_brace :: char where "open_brace \<equiv> CHR 0x7B"
abbreviation close_brace :: char where "close_brace \<equiv> CHR 0x7D"

text \<open>\<open>str::find\<close> and \<open>str::rfind\<close> of a string.\<close>

fun find_str :: "string \<Rightarrow> string \<Rightarrow> nat option" where
  "find_str p [] = (if p = [] then Some 0 else None)"
| "find_str p (c # cs) = (if prefix p (c # cs) then Some 0 else map_option Suc (find_str p cs))"

fun rfind_str :: "string \<Rightarrow> string \<Rightarrow> nat option" where
  "rfind_str p [] = (if p = [] then Some 0 else None)"
| "rfind_str p (c # cs) =
     (case rfind_str p cs of
        Some i \<Rightarrow> Some (Suc i)
      | None \<Rightarrow> if prefix p (c # cs) then Some 0 else None)"

definition find_char :: "char \<Rightarrow> string \<Rightarrow> nat option" where
  "find_char c s = position (\<lambda>x. x = c) s"

text \<open>What follows the first occurrence of a pattern, if it has one.\<close>

definition after_str :: "string \<Rightarrow> string \<Rightarrow> string option" where
  "after_str p s = map_option (\<lambda>i. drop (i + length p) s) (find_str p s)"

definition after_char :: "char \<Rightarrow> string \<Rightarrow> string option" where
  "after_char c s = map_option (\<lambda>i. drop (Suc i) s) (find_char c s)"

text \<open>\<open>str::split_once\<close>.\<close>

definition split_once :: "char \<Rightarrow> string \<Rightarrow> (string \<times> string) option" where
  "split_once c s = map_option (\<lambda>i. (take i s, drop (Suc i) s)) (find_char c s)"

definition trim_start :: "string \<Rightarrow> string" where
  "trim_start s = dropWhile is_ws s"

definition trim_matches :: "(char \<Rightarrow> bool) \<Rightarrow> string \<Rightarrow> string" where
  "trim_matches p s = rev (dropWhile p (rev (dropWhile p s)))"

text \<open>\<open>str::lines\<close>: a carriage return before a line feed belongs to the line end.\<close>

definition strip_cr :: "string \<Rightarrow> string" where
  "strip_cr l = (if l \<noteq> [] \<and> last l = CHR 0x0D then butlast l else l)"

definition str_lines :: "string \<Rightarrow> string list" where
  "str_lines s =
     (let ps = split_on newline s
      in map strip_cr (butlast ps) @ (if last ps = [] then [] else [last ps]))"

definition is_ascii_whitespace :: "char \<Rightarrow> bool" where
  "is_ascii_whitespace c \<longleftrightarrow> (let n = char_code c in n = 9 \<or> n = 10 \<or> n = 12 \<or> n = 13 \<or> n = 32)"

definition is_identifier_char :: "char \<Rightarrow> bool" where
  "is_identifier_char c \<longleftrightarrow> is_ascii_alphanumeric c \<or> c = CHR ''_''"

text \<open>\<open>ok_or_else\<close> with a validation error, and \<open>map(f).transpose()\<close> on an option.\<close>

definition ok_or :: "string \<Rightarrow> 'a option \<Rightarrow> 'a result" where
  "ok_or message v = (case v of None \<Rightarrow> validation_error message | Some a \<Rightarrow> Ok a)"

definition map_transpose :: "('a \<Rightarrow> 'b result) \<Rightarrow> 'a option \<Rightarrow> 'b option result" where
  "map_transpose f v = (case v of None \<Rightarrow> Ok None | Some a \<Rightarrow> rbind (f a) (\<lambda>b. Ok (Some b)))"

text \<open>\<open>str::parse::<i64>\<close> and \<open>str::parse::<f32>\<close>, the latter on digits, dots and minus signs.\<close>

definition i64_max :: nat where "i64_max = 9223372036854775807"

definition parse_i64 :: "string \<Rightarrow> int option" where
  "parse_i64 s =
     (case s of
        [] \<Rightarrow> None
      | c # cs \<Rightarrow>
          let ds = (if c = CHR ''-'' \<or> c = CHR ''+'' then cs else s);
              bound = (if c = CHR ''-'' then Suc i64_max else i64_max)
          in if ds = [] then None
             else (case digits_value 0 ds of
                     None \<Rightarrow> None
                   | Some n \<Rightarrow> if bound < n then None
                       else Some (if c = CHR ''-'' then - int n else int n)))"

definition parse_f32 :: "'f float_ops \<Rightarrow> string \<Rightarrow> 'f option" where
  "parse_f32 F s =
     (let negative = (s \<noteq> [] \<and> hd s = CHR ''-'');
          body = (if negative then tl s else s);
          whole = takeWhile is_ascii_digit body;
          rest = dropWhile is_ascii_digit body;
          fraction = (case rest of [] \<Rightarrow> Some [] | c # cs \<Rightarrow> if c = CHR ''.'' then Some cs else None)
      in case fraction of
           None \<Rightarrow> None
         | Some fs \<Rightarrow>
             if whole @ fs = [] then None
             else (case digits_value 0 (whole @ fs) of
                     None \<Rightarrow> None
                   | Some n \<Rightarrow>
                       let v = fl_literal F (int n) (10 ^ length fs)
                       in Some (if negative then fl_neg F v else v)))"

section \<open>Denied names\<close>

definition denied_globals :: "string list" where
  "denied_globals =
     [''io'', ''os'', ''package'', ''require'', ''debug'', ''dofile'', ''loadfile'', ''load'',
      ''socket'', ''luaposix'']"

definition declarative_denied_tokens :: "string list" where
  "declarative_denied_tokens =
     [''io.'', ''os.'', ''require'', ''package'', ''debug'', ''dofile'', ''loadfile'', ''load('',
      ''socket'', ''luaposix'']"

text \<open>The skip functions return what is left of the text at the index they return.\<close>

definition skip_line_comment :: "string \<Rightarrow> string" where
  "skip_line_comment s = dropWhile (\<lambda>c. c \<noteq> newline) s"

fun skip_long_string :: "string \<Rightarrow> string" where
  "skip_long_string (a # b # cs) =
     (if a = CHR '']'' \<and> b = CHR '']'' then cs else skip_long_string (b # cs))"
| "skip_long_string s = []"

fun skip_quoted :: "char \<Rightarrow> string \<Rightarrow> string" where
  "skip_quoted q [] = []"
| "skip_quoted q (c # cs) =
     (if c = CHR 0x5C then skip_quoted q (drop 1 cs)
      else if c = q then cs else skip_quoted q cs)"

definition skip_quoted_string :: "string \<Rightarrow> string" where
  "skip_quoted_string s = skip_quoted (hd s) (tl s)"

definition is_identifier_token :: "string \<Rightarrow> bool" where
  "is_identifier_token token = list_all is_identifier_char token"

text \<open>\<open>is_identifier_boundary\<close>, with \<open>checked_sub\<close> and \<open>bytes.get\<close> written out.\<close>

definition is_identifier_boundary :: "string \<Rightarrow> nat \<Rightarrow> nat \<Rightarrow> bool" where
  "is_identifier_boundary s start len =
     (\<not> (0 < start \<and> start - 1 < length s \<and> is_identifier_char (s ! (start - 1)))
      \<and> \<not> (start + len < length s \<and> is_identifier_char (s ! (start + len))))"

lemma after_char_shorter: "after_char c s = Some r \<Longrightarrow> length r < length s"
  by (auto simp: after_char_def find_char_def position_Some)

lemma after_str_length: "after_str p s = Some r \<Longrightarrow> length r \<le> length s"
  by (auto simp: after_str_def)

lemma length_skip_line_comment: "length (skip_line_comment s) \<le> length s"
  by (simp add: skip_line_comment_def length_dropWhile_le)

lemma length_skip_long_string: "length (skip_long_string s) \<le> length s"
  by (induction s rule: skip_long_string.induct) auto

lemma length_skip_quoted: "length (skip_quoted q s) \<le> length s"
proof (induction q s rule: skip_quoted.induct)
  case (2 q c cs)
  then show ?case by (cases "c = CHR 0x5C"; cases "c = q") simp_all
qed simp

text \<open>
  The loop of \<open>contains_denied_token\<close>: what it has not read yet is \<open>rest\<close>, so its index is the
  length of the source less the length of \<open>rest\<close>. A token is never empty.
\<close>

definition token_at :: "string \<Rightarrow> string \<Rightarrow> string \<Rightarrow> bool" where
  "token_at source token rest =
     (prefix token rest
      \<and> (\<not> is_identifier_token token
         \<or> is_identifier_boundary source (length source - length rest) (length token)))"

function denied_token_from :: "string \<Rightarrow> string \<Rightarrow> string \<Rightarrow> bool" where
  "denied_token_from source token rest =
     (if rest = [] \<or> length rest < length token then False
      else if prefix ''--'' rest
      then denied_token_from source token (skip_line_comment (drop 2 rest))
      else if prefix ''[['' rest
      then denied_token_from source token (skip_long_string (drop 2 rest))
      else if hd rest = dquote \<or> hd rest = squote
      then denied_token_from source token (skip_quoted_string rest)
      else if token_at source token rest then True
      else denied_token_from source token (tl rest))"
  by pat_completeness auto
termination
proof (relation "measure (\<lambda>(source, token, rest). length rest)", goal_cases)
  case (2 source token rest)
  then have "2 \<le> length rest" by (auto simp: prefix_def)
  then show ?case using length_skip_line_comment [of "drop 2 rest"] by simp
next
  case (3 source token rest)
  then have "2 \<le> length rest" by (auto simp: prefix_def)
  then show ?case using length_skip_long_string [of "drop 2 rest"] by simp
next
  case (4 source token rest)
  then show ?case using length_skip_quoted [of "hd rest" "tl rest"]
    by (cases rest) (simp_all add: skip_quoted_string_def)
qed simp_all

declare denied_token_from.simps [simp del]

definition contains_denied_token :: "string \<Rightarrow> string \<Rightarrow> bool" where
  "contains_denied_token source token = denied_token_from source token source"

definition first_denied_token :: "string \<Rightarrow> string list \<Rightarrow> string option" where
  "first_denied_token source tokens = List.find (contains_denied_token source) tokens"

end
