(* ===== verification/LuaTables.thy ===== *)
theory LuaTables imports LuaText begin

text \<open>
  The readers at the end of \<open>signal-auras-lua/src/sandbox.rs\<close>, with which the sandbox finds tables,
  fields and quoted values in the text of a script without running it, and the rewriting of keyword
  table keys in \<open>runtime.rs\<close>.
\<close>

section \<open>Matching braces\<close>

text \<open>The loop of \<open>matching_brace\<close> from an index on, with the depth and the string flag.\<close>

fun brace_end :: "nat \<Rightarrow> nat \<Rightarrow> bool \<Rightarrow> string \<Rightarrow> nat option" where
  "brace_end index depth in_string [] = None"
| "brace_end index depth in_string (c # cs) =
     (if c = dquote then brace_end (Suc index) depth (\<not> in_string) cs
      else if c = open_brace \<and> \<not> in_string then brace_end (Suc index) (Suc depth) in_string cs
      else if c = close_brace \<and> \<not> in_string
      then (case checked_sub depth 1 of
              None \<Rightarrow> None
            | Some d \<Rightarrow> if d = 0 then Some index else brace_end (Suc index) d in_string cs)
      else brace_end (Suc index) depth in_string cs)"

definition matching_brace :: "string \<Rightarrow> nat \<Rightarrow> nat option" where
  "matching_brace source start = brace_end start 0 False (drop start source)"

text \<open>\<open>matching_table_end\<close> has no string flag.\<close>

fun table_end :: "nat \<Rightarrow> nat \<Rightarrow> string \<Rightarrow> nat option" where
  "table_end index depth [] = None"
| "table_end index depth (c # cs) =
     (if c = open_brace then table_end (Suc index) (Suc depth) cs
      else if c = close_brace
      then (case checked_sub depth 1 of
              None \<Rightarrow> None
            | Some d \<Rightarrow> if d = 0 then Some index else table_end (Suc index) d cs)
      else table_end (Suc index) depth cs)"

definition matching_table_end :: "string \<Rightarrow> nat option" where
  "matching_table_end source = table_end 0 0 source"

text \<open>The slice of a text between two indices.\<close>

definition slice :: "nat \<Rightarrow> nat \<Rightarrow> string \<Rightarrow> string" where
  "slice a b s = take (b - a) (drop a s)"

text \<open>
  \<open>top_level_tables\<close>: its cursor stands before \<open>rest\<close>, and what \<open>matching_brace\<close> finds from the
  cursor on depends only on \<open>rest\<close>.
\<close>

fun top_level_tables :: "string \<Rightarrow> string list" where
  "top_level_tables [] = []"
| "top_level_tables (c # cs) =
     (if c = open_brace
      then (case matching_brace (c # cs) 0 of
              Some e \<Rightarrow> slice 1 e (c # cs) # top_level_tables (drop e cs)
            | None \<Rightarrow> top_level_tables cs)
      else top_level_tables cs)"

section \<open>Quoted values\<close>

definition first_quoted :: "string \<Rightarrow> string option" where
  "first_quoted source =
     (case after_char dquote source of
        None \<Rightarrow> None
      | Some rest \<Rightarrow> map_option (\<lambda>e. take e rest) (find_char dquote rest))"

text \<open>The cursor moves behind the first place where the text of the value occurs.\<close>

function quoted_strings :: "string \<Rightarrow> string list" where
  "quoted_strings cursor =
     (case first_quoted cursor of
        None \<Rightarrow> []
      | Some v \<Rightarrow>
          v # quoted_strings
            (drop ((case find_str v cursor of None \<Rightarrow> 0 | Some i \<Rightarrow> i) + length v + 1) cursor))"
  by pat_completeness auto
termination
proof (relation "measure length")
  fix cursor v
  assume "first_quoted cursor = Some v"
  then have "cursor \<noteq> []" by (auto simp: first_quoted_def after_char_def find_char_def)
  then show "(drop ((case find_str v cursor of None \<Rightarrow> 0 | Some i \<Rightarrow> i) + length v + 1) cursor, cursor)
        \<in> measure length"
    by (cases cursor) simp_all
qed simp

declare quoted_strings.simps [simp del]

section \<open>Fields found anywhere in a text\<close>

text \<open>What follows the first equals sign after the first occurrence of the field's name.\<close>

definition after_field_equals :: "string \<Rightarrow> string \<Rightarrow> string option" where
  "after_field_equals source field =
     (case after_str field source of
        None \<Rightarrow> None
      | Some after_field \<Rightarrow> after_char (CHR ''='') after_field)"

definition field_string :: "string \<Rightarrow> string \<Rightarrow> string option" where
  "field_string source field =
     (case after_field_equals source field of None \<Rightarrow> None | Some rest \<Rightarrow> first_quoted rest)"

definition integer_prefix :: "string \<Rightarrow> string" where
  "integer_prefix s = takeWhile (\<lambda>c. is_ascii_digit c \<or> c = CHR ''-'') (trim_start s)"

definition field_u64 :: "string \<Rightarrow> string \<Rightarrow> nat option result" where
  "field_u64 source field =
     (case after_field_equals source field of
        None \<Rightarrow> Ok None
      | Some rest \<Rightarrow>
          if integer_prefix rest = [] then validation_error (field @ '' needs milliseconds'')
          else (case parse_i64 (integer_prefix rest) of
                  None \<Rightarrow> validation_error (field @ '' needs milliseconds'')
                | Some n \<Rightarrow>
                    if n < 0 then validation_error (field @ '' cannot be negative'')
                    else Ok (Some (nat n))))"

definition parse_delay_milliseconds :: "string \<Rightarrow> nat result" where
  "parse_delay_milliseconds source =
     (case parse_unsigned u64_max (trim_matches
             (\<lambda>c. c = CHR ''('' \<or> c = CHR '')'' \<or> c = CHR '','' \<or> is_ws c) source) of
        None \<Rightarrow> validation_error ''delay action needs milliseconds''
      | Some n \<Rightarrow> Ok n)"

section \<open>Fields at the top level of a table\<close>

text \<open>
  The loop of \<open>top_level_field_index\<close>: \<open>rest\<close> is what follows \<open>index\<close> in \<open>source\<close>. The flags are
  updated for the character at the index before a field is looked for there.
\<close>

definition next_in_string :: "char \<Rightarrow> bool \<Rightarrow> bool" where
  "next_in_string c in_string = (if c = dquote then \<not> in_string else in_string)"

definition next_depth :: "char \<Rightarrow> bool \<Rightarrow> nat \<Rightarrow> nat" where
  "next_depth c in_string depth =
     (if c = open_brace \<and> \<not> in_string then Suc depth
      else if c = close_brace \<and> \<not> in_string then depth - 1
      else depth)"

definition field_match_length :: "string \<Rightarrow> string \<Rightarrow> nat \<Rightarrow> string \<Rightarrow> nat option" where
  "field_match_length source field index rest =
     (let bracketed = ''['' @ [dquote] @ field @ [dquote] @ '']''
      in if prefix field rest \<and> is_identifier_boundary source index (length field)
         then Some (length field)
         else if prefix bracketed rest then Some (length bracketed)
         else None)"

definition followed_by_equals :: "string \<Rightarrow> bool" where
  "followed_by_equals s = (List.find (\<lambda>c. \<not> is_ascii_whitespace c) s = Some (CHR ''=''))"

fun field_index_from :: "string \<Rightarrow> string \<Rightarrow> nat \<Rightarrow> nat \<Rightarrow> bool \<Rightarrow> string \<Rightarrow> nat option" where
  "field_index_from source field index depth in_string [] = None"
| "field_index_from source field index depth in_string (c # cs) =
     (let in_string' = next_in_string c in_string;
          depth' = next_depth c in_string depth
      in if \<not> in_string' \<and> depth' = 0
           \<and> (case field_match_length source field index (c # cs) of
                None \<Rightarrow> False
              | Some n \<Rightarrow> followed_by_equals (drop n (c # cs)))
         then Some index
         else field_index_from source field (Suc index) depth' in_string' cs)"

definition top_level_field_index :: "string \<Rightarrow> string \<Rightarrow> nat option" where
  "top_level_field_index source field = field_index_from source field 0 0 False source"

definition has_top_level_field :: "string \<Rightarrow> string \<Rightarrow> bool" where
  "has_top_level_field source field = (top_level_field_index source field \<noteq> None)"

definition after_top_level_field :: "string \<Rightarrow> string \<Rightarrow> string option" where
  "after_top_level_field source field =
     map_option (\<lambda>i. drop (i + length field) source) (top_level_field_index source field)"

definition after_top_level_equals :: "string \<Rightarrow> string \<Rightarrow> string option" where
  "after_top_level_equals source field =
     (case after_top_level_field source field of
        None \<Rightarrow> None
      | Some after_field \<Rightarrow> after_char (CHR ''='') after_field)"

definition field_i64 :: "string \<Rightarrow> string \<Rightarrow> int option result" where
  "field_i64 source field =
     (case after_top_level_equals source field of
        None \<Rightarrow> Ok None
      | Some rest \<Rightarrow>
          if integer_prefix rest = [] then validation_error (field @ '' needs an integer'')
          else (case parse_i64 (integer_prefix rest) of
                  None \<Rightarrow> validation_error (field @ '' needs an integer'')
                | Some n \<Rightarrow> Ok (Some n)))"

definition number_prefix :: "string \<Rightarrow> string" where
  "number_prefix s =
     takeWhile (\<lambda>c. is_ascii_digit c \<or> c = CHR ''-'' \<or> c = CHR ''.'') (trim_start s)"

definition field_f32 :: "'f float_ops \<Rightarrow> string \<Rightarrow> string \<Rightarrow> 'f option result" where
  "field_f32 F source field =
     (case after_top_level_equals source field of
        None \<Rightarrow> Ok None
      | Some rest \<Rightarrow>
          if number_prefix rest = [] then validation_error (field @ '' needs a number'')
          else (case parse_f32 F (number_prefix rest) of
                  None \<Rightarrow> validation_error (field @ '' needs a number'')
                | Some x \<Rightarrow> Ok (Some x)))"

definition field_bool :: "string \<Rightarrow> string \<Rightarrow> bool option" where
  "field_bool source field =
     (case after_top_level_equals source field of
        None \<Rightarrow> None
      | Some rest \<Rightarrow>
          if prefix ''true'' (trim_start rest) then Some True
          else if prefix ''false'' (trim_start rest) then Some False
          else None)"

definition field_identifier :: "string \<Rightarrow> string \<Rightarrow> string option" where
  "field_identifier source field =
     (case after_top_level_equals source field of
        None \<Rightarrow> None
      | Some rest \<Rightarrow>
          let v = trim_start rest;
              identifier = takeWhile
                (\<lambda>c. is_ascii_alphanumeric c \<or> c = CHR ''_'' \<or> c = CHR ''-'') v
          in if prefix [open_brace] v \<or> prefix [dquote] v then None
             else if identifier = [] then None else Some identifier)"

definition top_level_field_uses_table :: "string \<Rightarrow> string \<Rightarrow> bool" where
  "top_level_field_uses_table source field =
     (case after_top_level_equals source field of
        None \<Rightarrow> False
      | Some rest \<Rightarrow> prefix [open_brace] (trim_start rest))"

section \<open>The body of a table\<close>

definition table_body_in :: "string \<Rightarrow> string \<Rightarrow> string result" where
  "table_body_in field after_field =
     (case find_char open_brace after_field of
        None \<Rightarrow> validation_error (field @ '' must use table constructor'')
      | Some b \<Rightarrow> (case matching_brace after_field b of
            None \<Rightarrow> validation_error (field @ '' table is not closed'')
          | Some e \<Rightarrow> Ok (slice (Suc b) e after_field)))"

definition table_body_after :: "string \<Rightarrow> string \<Rightarrow> string option result" where
  "table_body_after source field =
     (case after_str field source of
        None \<Rightarrow> Ok None
      | Some after_field \<Rightarrow> rbind (table_body_in field after_field) (\<lambda>b. Ok (Some b)))"

definition table_body_field_after :: "string \<Rightarrow> string \<Rightarrow> string option result" where
  "table_body_field_after source field =
     (case after_top_level_field source field of
        None \<Rightarrow> Ok None
      | Some after_field \<Rightarrow> rbind (table_body_in field after_field) (\<lambda>b. Ok (Some b)))"

definition top_level_table_body :: "string \<Rightarrow> string \<Rightarrow> string option result" where
  "top_level_table_body source field =
     (case after_top_level_field source field of
        None \<Rightarrow> Ok None
      | Some after_field \<Rightarrow> rbind (table_body_in field after_field) (\<lambda>b. Ok (Some b)))"

section \<open>Keyword table keys\<close>

text \<open>
  \<open>rewrite_lua_keyword_table_key\<close>, on a source of ASCII characters: it pushes each byte as a
  character of its own. \<open>quote\<close> is the quote the loop is inside of.
\<close>

definition next_non_whitespace :: "string \<Rightarrow> char option" where
  "next_non_whitespace s = List.find (\<lambda>c. \<not> is_ascii_whitespace c) s"

definition is_keyword_key :: "string \<Rightarrow> string \<Rightarrow> string \<Rightarrow> bool" where
  "is_keyword_key source keyword rest =
     (prefix keyword rest
      \<and> is_identifier_boundary source (length source - length rest) (length keyword)
      \<and> next_non_whitespace (drop (length keyword) rest) = Some (CHR ''=''))"

function rewrite_key_from :: "string \<Rightarrow> string \<Rightarrow> char option \<Rightarrow> string \<Rightarrow> string" where
  "rewrite_key_from source keyword quote [] = []"
| "rewrite_key_from source keyword (Some q) (c # cs) =
     (if c = CHR 0x5C
      then (case cs of
              [] \<Rightarrow> [c]
            | d # ds \<Rightarrow> c # d # rewrite_key_from source keyword (Some q) ds)
      else c # rewrite_key_from source keyword (if c = q then None else Some q) cs)"
| "rewrite_key_from source keyword None (c # cs) =
     (if c = dquote \<or> c = squote then c # rewrite_key_from source keyword (Some c) cs
      else if keyword \<noteq> [] \<and> is_keyword_key source keyword (c # cs)
      then ''['' @ [dquote] @ keyword @ [dquote] @ '']''
           @ rewrite_key_from source keyword None (drop (length keyword) (c # cs))
      else c # rewrite_key_from source keyword None cs)"
  by pat_completeness auto
termination
  by (relation "measure (\<lambda>(source, keyword, quote, rest). length rest)") auto

definition rewrite_lua_keyword_table_key :: "string \<Rightarrow> string \<Rightarrow> string" where
  "rewrite_lua_keyword_table_key source keyword = rewrite_key_from source keyword None source"

definition lua_compatible_controller_source :: "string \<Rightarrow> string" where
  "lua_compatible_controller_source source = rewrite_lua_keyword_table_key source ''repeat''"

end
