(* ===== verification/LuaConfig.thy ===== *)
theory LuaConfig imports LuaTables Config begin

text \<open>
  The declarative configuration of \<open>signal-auras-lua/src/sandbox.rs\<close>: \<open>load_lua_source\<close> and the
  parsers it calls. They read the text of a script with the functions of \<open>LuaTables\<close> and build the
  definitions of \<open>Config\<close>.
\<close>

section \<open>Macros\<close>

text \<open>One trimmed line of a macro's body; a line with a brace adds no action.\<close>

definition quoted_argument :: "string \<Rightarrow> string \<Rightarrow> string result" where
  "quoted_argument action rest = ok_or (action @ '' action needs a string'') (first_quoted rest)"

definition parse_action_line :: "string \<Rightarrow> macro_action option result" where
  "parse_action_line line =
     (case strip_prefix ''key '' line of
        Some rest \<Rightarrow>
          rbind (quoted_argument ''key'' rest) (\<lambda>k. rbind (macro_key k) (\<lambda>a. Ok (Some a)))
      | None \<Rightarrow> (case strip_prefix ''key_down '' line of
        Some rest \<Rightarrow>
          rbind (quoted_argument ''key_down'' rest) (\<lambda>k. rbind (macro_key_down k) (\<lambda>a. Ok (Some a)))
      | None \<Rightarrow> (case strip_prefix ''key_up '' line of
        Some rest \<Rightarrow>
          rbind (quoted_argument ''key_up'' rest) (\<lambda>k. rbind (macro_key_up k) (\<lambda>a. Ok (Some a)))
      | None \<Rightarrow> (case strip_prefix ''text '' line of
        Some rest \<Rightarrow>
          rbind (quoted_argument ''text'' rest) (\<lambda>k. rbind (macro_text k) (\<lambda>a. Ok (Some a)))
      | None \<Rightarrow> (case strip_prefix ''mouse_click '' line of
        Some rest \<Rightarrow>
          rbind (quoted_argument ''mouse_click'' rest) (\<lambda>k.
          rbind (mouse_button_parse k) (\<lambda>b. Ok (Some (macro_mouse_click b))))
      | None \<Rightarrow> (case strip_prefix ''delay'' line of
        Some rest \<Rightarrow>
          rbind (parse_delay_milliseconds rest) (\<lambda>n. rbind (macro_delay n) (\<lambda>a. Ok (Some a)))
      | None \<Rightarrow>
          if prefix [close_brace] line \<or> prefix [open_brace] line then Ok None
          else validation_error (''unsupported macro action '' @ quoted line)))))))"

definition code_lines :: "string \<Rightarrow> string list" where
  "code_lines source =
     filter (\<lambda>line. line \<noteq> [] \<and> \<not> prefix ''--'' line) (map trim (str_lines source))"

definition parse_actions :: "string \<Rightarrow> macro_action list result" where
  "parse_actions source =
     rbind (collect_results parse_action_line (code_lines source)) (\<lambda>as.
       Ok (List.map_filter id as))"

definition parse_macro_field :: "string \<Rightarrow> macro_definition result" where
  "parse_macro_field source =
     (case find_str ''macro'' source of
        None \<Rightarrow> validation_error ''binding must map to a macro''
      | Some m \<Rightarrow>
          let macro_source = drop m source
          in (case find_char open_brace macro_source of
                None \<Rightarrow> validation_error ''macro must use table constructor''
              | Some b \<Rightarrow> (case matching_brace macro_source b of
                    None \<Rightarrow> validation_error ''macro table is not closed''
                  | Some e \<Rightarrow>
                      rbind (parse_actions (slice (Suc b) e macro_source)) macro_definition_new)))"

definition parse_macro_named_field :: "string \<Rightarrow> string \<Rightarrow> macro_definition result" where
  "parse_macro_named_field source field =
     (case after_top_level_field source field of
        None \<Rightarrow> validation_error (field @ '' must map to a macro'')
      | Some after_field \<Rightarrow> (case find_str ''macro'' after_field of
            None \<Rightarrow> validation_error (field @ '' must map to a macro'')
          | Some m \<Rightarrow> parse_macro_field (drop m after_field)))"

definition parse_optional_macro_named_field ::
  "string \<Rightarrow> string \<Rightarrow> macro_definition option result" where
  "parse_optional_macro_named_field source field =
     (if has_top_level_field source field
      then rbind (parse_macro_named_field source field) (\<lambda>m. Ok (Some m))
      else Ok None)"

section \<open>Scope, defaults, leader and input provider\<close>

definition parse_scope :: "string \<Rightarrow> script_scope option result" where
  "parse_scope source =
     (case find_str ''scope'' source of
        None \<Rightarrow> Ok None
      | Some scope_index \<Rightarrow>
          let later = filter (\<lambda>i. scope_index < i)
                (List.map_filter (\<lambda>field. find_str field source)
                  [''defaults'', ''input_provider'', ''hotkeys'', ''bindings'', ''motions'',
                   ''presses'']);
              end_index = (if later = [] then length source else Min (set later));
              scope_source = slice scope_index end_index source
          in if contains_str ''global'' scope_source
             then validation_error ''script-declared global scope is not accepted in v1''
             else rbind (collect_results process_name_parse (quoted_strings scope_source)) (\<lambda>ps.
                  rbind (script_scope_processes ps) (\<lambda>s. Ok (Some s))))"

definition parse_defaults :: "string \<Rightarrow> automation_defaults result" where
  "parse_defaults source =
     rbind (table_body_after source ''defaults'') (\<lambda>body. case body of
        None \<Rightarrow> Ok automation_defaults_default
      | Some defaults_body \<Rightarrow>
          rbind (field_u64 defaults_body ''inter_action_delay_ms'') (\<lambda>ms.
            Ok (automation_defaults_new (unwrap_or ms 0))))"

definition is_key_token :: "motion_token \<Rightarrow> bool" where
  "is_key_token t = (case t of Key _ \<Rightarrow> True | _ \<Rightarrow> False)"

definition parse_leader :: "string \<Rightarrow> motion_token option result" where
  "parse_leader source =
     rbind (map_transpose motion_token_parse (field_string source ''leader'')) (\<lambda>leader.
       if (case leader of None \<Rightarrow> False | Some t \<Rightarrow> \<not> is_key_token t)
       then validation_error ''leader must be a concrete key token''
       else Ok leader)"

definition parse_input_provider :: "string \<Rightarrow> input_provider_config option result" where
  "parse_input_provider source =
     rbind (table_body_after source ''input_provider'') (\<lambda>provider_body. case provider_body of
        None \<Rightarrow> Ok None
      | Some body \<Rightarrow>
          rbind (ok_or ''input_provider requires backend'' (field_string body ''backend'')) (\<lambda>b.
          rbind (backend_parse b) (\<lambda>backend.
          rbind (provider_mode_parse (field_string body ''mode'')) (\<lambda>mode.
          rbind (provider_output_parse (field_string body ''output'')) (\<lambda>output.
            let acknowledge_risk = field_string body ''acknowledge_risk''
            in if field_string body ''devices'' = Some ''interactive''
               then rbind (provider_evdev_interactive mode output) (\<lambda>c. Ok (Some c))
               else if field_string body ''devices'' = Some ''all''
               then rbind (provider_evdev_all mode output acknowledge_risk) (\<lambda>c. Ok (Some c))
               else rbind (table_body_after body ''devices'') (\<lambda>devices.
                    rbind (ok_or ''input_provider requires devices'' devices) (\<lambda>devices_body.
                    rbind (provider_evdev (quoted_strings devices_body) mode output) (\<lambda>c.
                      Ok (Some c)))))))))"

section \<open>Hotkeys\<close>

text \<open>
  The loop of \<open>parse_hotkeys\<close> in two passes: the texts of the entries with the result of the scan
  that found them, and the entries in their order. An error of an entry comes before the errors of
  what follows it, and the name of a hotkey is read before its macro is looked for.
\<close>

function hotkey_texts :: "string \<Rightarrow> (string \<times> string) list \<times> unit result" where
  "hotkey_texts cursor =
     (case after_str (''['' @ [dquote]) cursor of
        None \<Rightarrow> ([], Ok ())
      | Some name_on \<Rightarrow> (case find_str ([dquote] @ '']'') name_on of
          None \<Rightarrow> ([], Ok ())
        | Some e \<Rightarrow>
            let hotkey = take e name_on;
                rest = drop (e + 2) name_on
            in (case find_str ''macro'' rest of
                  None \<Rightarrow> ([], rbind (hotkey_parse hotkey) (\<lambda>_.
                    validation_error ''hotkey must map to a macro''))
                | Some m \<Rightarrow> (case after_char open_brace (drop m rest) of
                    None \<Rightarrow> ([], rbind (hotkey_parse hotkey) (\<lambda>_.
                      validation_error ''macro must use table constructor''))
                  | Some inside \<Rightarrow> (case hotkey_texts inside of
                      (entries, r) \<Rightarrow>
                        ((hotkey, takeWhile (\<lambda>c. c \<noteq> close_brace) inside) # entries, r))))))"
  by pat_completeness auto
termination
  by (relation "measure length") (auto dest!: after_char_shorter after_str_length)

declare hotkey_texts.simps [simp del]

definition parse_hotkey_entry ::
  "string \<times> string \<Rightarrow> (hotkey_id \<times> macro_definition) result" where
  "parse_hotkey_entry = (\<lambda>(hotkey, macro_body).
     rbind (hotkey_parse hotkey) (\<lambda>h.
     rbind (parse_actions macro_body) (\<lambda>actions.
     rbind (macro_definition_new actions) (\<lambda>m. Ok (h, m)))))"

definition parse_hotkeys :: "string \<Rightarrow> (hotkey_id \<times> macro_definition) list result" where
  "parse_hotkeys source =
     (case hotkey_texts source of (entries, r) \<Rightarrow>
        rbind (collect_results parse_hotkey_entry entries) (\<lambda>hs. rbind r (\<lambda>_. Ok hs)))"

section \<open>Bindings\<close>

definition count_true :: "bool list \<Rightarrow> nat" where
  "count_true bs = length (filter id bs)"

definition parse_binding_trigger :: "string \<Rightarrow> binding_trigger result" where
  "parse_binding_trigger source =
     rbind (table_body_after source ''modifiers'') (\<lambda>modifiers_body.
     rbind (map_transpose (\<lambda>body. modifier_set_parse (quoted_strings body)) modifiers_body) (\<lambda>ms.
     rbind (table_body_after source ''mouse'') (\<lambda>mouse_body.
       let key = field_string source ''key'';
           button = Option.bind mouse_body (\<lambda>body. field_string body ''button'');
           wheel = Option.bind mouse_body (\<lambda>body. field_string body ''wheel'')
       in if count_true [key \<noteq> None, button \<noteq> None, wheel \<noteq> None] \<noteq> 1
          then validation_error ''binding trigger must contain exactly one primary trigger''
          else (case key of
                  Some k \<Rightarrow> rbind (hotkey_parse k) (\<lambda>h. Ok (Keyboard h))
                | None \<Rightarrow>
                    rbind (case button of
                             Some b \<Rightarrow> rbind (mouse_button_parse b) (\<lambda>b'. Ok (Button b'))
                           | None \<Rightarrow> rbind (wheel_parse (the wheel)) (\<lambda>w.
                               Ok (mouse_trigger.Wheel w))) (\<lambda>primary.
                      Ok (Composite \<lparr>ct_modifiers = unwrap_or ms [], ct_primary = primary\<rparr>))))))"

definition parse_binding_entry :: "string \<Rightarrow> binding_definition result" where
  "parse_binding_entry source =
     rbind (binding_mode_parse (field_string source ''mode'')) (\<lambda>mode.
     rbind (table_body_after source ''trigger'') (\<lambda>body.
     rbind (ok_or ''binding requires trigger'' body) (\<lambda>trigger_body.
     rbind (parse_binding_trigger trigger_body) (\<lambda>trigger.
     rbind (parse_macro_field source) (\<lambda>m.
       Ok \<lparr>bd_trigger = trigger, bd_mode = mode, bd_macro = m\<rparr>)))))"

text \<open>The entries of a field that holds a table of tables.\<close>

definition parse_entries :: "string \<Rightarrow> string \<Rightarrow> (string \<Rightarrow> 'a result) \<Rightarrow> 'a list result" where
  "parse_entries source field entry =
     rbind (table_body_after source field) (\<lambda>body. case body of
        None \<Rightarrow> Ok []
      | Some b \<Rightarrow> collect_results entry (top_level_tables b))"

definition parse_bindings :: "string \<Rightarrow> binding_definition list result" where
  "parse_bindings source = parse_entries source ''bindings'' parse_binding_entry"

section \<open>Motions and presses\<close>

definition parse_requires_held :: "string \<Rightarrow> bool \<Rightarrow> held_condition result" where
  "parse_requires_held source leader_defined =
     rbind (table_body_field_after source ''requires_held'') (\<lambda>body. case body of
        None \<Rightarrow> held_condition_new []
      | Some b \<Rightarrow> rbind (held_condition_parse (quoted_strings b)) (\<lambda>condition.
          if tokens_contain_leader condition \<and> \<not> leader_defined
          then validation_error ''requires_held uses <Leader> but leader is not configured''
          else Ok condition))"

definition parse_loop_body :: "string \<Rightarrow> bool \<Rightarrow> loop_body result" where
  "parse_loop_body source has_once =
     (if has_once then rbind (parse_macro_named_field source ''once'') (\<lambda>m. Ok (Once m))
      else
        rbind (table_body_field_after source ''repeat'') (\<lambda>body.
        rbind (ok_or ''loop repeat must use table constructor'' body) (\<lambda>repeat_body.
        rbind (field_u64 repeat_body ''every_ms'') (\<lambda>ms.
        rbind (ok_or ''loop repeat requires every_ms'' ms) (\<lambda>every_ms.
        rbind (loop_interval_new every_ms) (\<lambda>interval.
        rbind (parse_macro_field repeat_body) (\<lambda>m.
          Ok (Repeat \<lparr>lr_interval = interval, lr_macro = m\<rparr>))))))))"

definition parse_loop_definition :: "string \<Rightarrow> loop_definition result" where
  "parse_loop_definition source =
     (if contains_str ''function'' source
      then validation_error ''callback loop bodies are reserved for a later design''
      else
        rbind (table_body_field_after source ''while_held'') (\<lambda>body.
        rbind (ok_or ''loop requires while_held'' body) (\<lambda>while_held_body.
        rbind (parse_optional_macro_named_field source ''before'') (\<lambda>before.
        rbind (parse_optional_macro_named_field source ''after'') (\<lambda>after.
          let has_once = has_top_level_field source ''once'';
              has_repeat = has_top_level_field source ''repeat''
          in if has_top_level_field source ''next''
             then validation_error ''callback loop bodies are reserved for a later design''
             else if count_true [has_once, has_repeat] \<noteq> 1
             then validation_error ''loop must define exactly one body: once or repeat''
             else
               rbind (parse_loop_body source has_once) (\<lambda>loop_body.
               rbind (motion_trigger_parse (quoted_strings while_held_body)) (\<lambda>while_held.
                 Ok \<lparr>ld_while_held = while_held, ld_before = before, ld_body = loop_body,
                     ld_after = after\<rparr>)))))))"

definition parse_motion_entry ::
  "automation_defaults \<Rightarrow> bool \<Rightarrow> string \<Rightarrow> motion_definition result" where
  "parse_motion_entry defaults leader_defined source =
     rbind (binding_mode_parse (field_string source ''mode'')) (\<lambda>mode.
     rbind (table_body_after source ''trigger'') (\<lambda>body.
     rbind (ok_or ''motion requires trigger'' body) (\<lambda>trigger_body.
     rbind (motion_trigger_parse (quoted_strings trigger_body)) (\<lambda>trigger.
       if tokens_contain_leader trigger \<and> \<not> leader_defined
       then validation_error ''motion trigger uses <Leader> but leader is not configured''
       else
         rbind (parse_requires_held source leader_defined) (\<lambda>requires_held.
         rbind (field_u64 source ''inter_action_delay_ms'') (\<lambda>delay.
         rbind (field_u64 source ''within_ms'') (\<lambda>within.
           if has_top_level_field source ''repeat''
           then validation_error ''motions[].repeat was removed; use motions[].loop.repeat.every_ms''
           else
             let before_loop = (case top_level_field_index source ''loop'' of
                   None \<Rightarrow> source | Some i \<Rightarrow> take i source)
             in rbind (if has_top_level_field before_loop ''macro''
                       then rbind (parse_macro_field before_loop) (\<lambda>m. Ok (Some m))
                       else Ok None) (\<lambda>md.
                rbind (table_body_field_after source ''loop'') (\<lambda>loop_body.
                rbind (map_transpose parse_loop_definition loop_body) (\<lambda>ld.
                  motion_with_requires_held requires_held trigger mode md ld
                    (unwrap_or within (as_millis default_motion_duration))
                    (unwrap_or delay (ad_inter_action_delay_ms defaults))))))))))))"

definition parse_press_entry ::
  "automation_defaults \<Rightarrow> bool \<Rightarrow> string \<Rightarrow> press_definition result" where
  "parse_press_entry defaults leader_defined source =
     rbind (binding_mode_parse (field_string source ''mode'')) (\<lambda>mode.
       if top_level_field_uses_table source ''trigger''
       then validation_error ''press trigger must be a single token string''
       else
         rbind (ok_or ''press requires trigger'' (field_string source ''trigger'')) (\<lambda>t.
         rbind (motion_token_parse t) (\<lambda>trigger.
           if trigger = Leader \<and> \<not> leader_defined
           then validation_error ''press trigger uses <Leader> but leader is not configured''
           else
             rbind (parse_requires_held source leader_defined) (\<lambda>requires_held.
             rbind (field_u64 source ''inter_action_delay_ms'') (\<lambda>delay.
             rbind (parse_macro_field source) (\<lambda>m.
               Ok \<lparr>pd_requires_held = requires_held, pd_trigger = trigger, pd_mode = mode,
                   pd_macro = m, pd_inter_action_delay_ms =
                     unwrap_or delay (ad_inter_action_delay_ms defaults)\<rparr>))))))"

definition parse_motions ::
  "string \<Rightarrow> automation_defaults \<Rightarrow> bool \<Rightarrow> motion_definition list result" where
  "parse_motions source defaults leader_defined =
     parse_entries source ''motions'' (parse_motion_entry defaults leader_defined)"

definition parse_presses ::
  "string \<Rightarrow> automation_defaults \<Rightarrow> bool \<Rightarrow> press_definition list result" where
  "parse_presses source defaults leader_defined =
     parse_entries source ''presses'' (parse_press_entry defaults leader_defined)"

section \<open>Loading a declarative source\<close>

definition hotkey_binding_definition :: "hotkey_id \<times> macro_definition \<Rightarrow> binding_definition" where
  "hotkey_binding_definition = (\<lambda>(hotkey, m).
     \<lparr>bd_trigger = Keyboard hotkey, bd_mode = Consume, bd_macro = m\<rparr>)"

definition returns_a_table :: "string \<Rightarrow> bool" where
  "returns_a_table source =
     (contains_str ''return'' source
      \<and> list_ex (\<lambda>field. contains_str field source)
          [''hotkeys'', ''bindings'', ''motions'', ''presses''])"

definition load_lua_source :: "string \<Rightarrow> lua_configuration result" where
  "load_lua_source source =
     (case first_denied_token source declarative_denied_tokens of
        Some token \<Rightarrow> validation_error (''Lua sandbox denies ambient API token '' @ quoted token)
      | None \<Rightarrow>
          if \<not> returns_a_table source
          then validation_error
            ''Lua script must return a table with hotkeys, bindings, motions, or presses''
          else
            rbind (parse_scope source) (\<lambda>scope.
            rbind (parse_leader source) (\<lambda>leader.
            rbind (parse_defaults source) (\<lambda>defaults.
            rbind (parse_input_provider source) (\<lambda>provider.
            rbind (parse_hotkeys source) (\<lambda>hotkeys.
            rbind (parse_bindings source) (\<lambda>bindings.
            rbind (parse_motions source defaults (leader \<noteq> None)) (\<lambda>motions.
            rbind (parse_presses source defaults (leader \<noteq> None)) (\<lambda>presses.
              with_bindings_and_motions scope leader defaults provider
                (map hotkey_binding_definition hotkeys @ bindings) motions presses)))))))))"

text \<open>\<open>load_lua_file\<close>, with the outcome of reading the file.\<close>

definition load_lua_file :: "(path \<Rightarrow> string + string) \<Rightarrow> path \<Rightarrow> lua_configuration result" where
  "load_lua_file read_to_string p =
     (case read_to_string p of
        Inl message \<Rightarrow> Err (diagnosable_error_new ScriptLoad
          (''cannot read Lua file '' @ quoted p @ '': '' @ message))
      | Inr source \<Rightarrow> load_lua_source source)"

end
