(* ===== verification/LuaTextLaws.thy ===== *)
theory LuaTextLaws imports LuaTables begin

text \<open>
  What the scanners of the sandbox compute: \<open>find\<close> is the first occurrence, \<open>matching_brace\<close> the end
  of a table in the grammar of balanced texts, \<open>top_level_tables\<close> the bodies of a rendered list of
  tables, \<open>contains_denied_token\<close> a search in the code that a small lexer leaves of a source.
\<close>

section \<open>First occurrences\<close>

lemma prefix_drop_Cons: "(\<exists>j\<le>Suc n. prefix p (drop j (c # cs)))
    \<longleftrightarrow> prefix p (c # cs) \<or> (\<exists>j\<le>n. prefix p (drop j cs))"
  by (metis Suc_le_mono bot_nat_0.extremum drop0 drop_Suc_Cons not0_implies_Suc)

lemma find_str_Some:
  "find_str p s = Some i \<longleftrightarrow>
     i \<le> length s \<and> prefix p (drop i s) \<and> (\<forall>j<i. \<not> prefix p (drop j s))"
proof (induction s arbitrary: i)
  case (Cons c cs)
  show ?case
  proof (cases i)
    case 0
    then show ?thesis by auto
  next
    case (Suc k)
    then show ?thesis by (auto simp: Cons.IH All_less_Suc2)
  qed
qed auto

lemma find_str_None: "find_str p s = None \<longleftrightarrow> \<not> sublist p s"
  by (induction s) (auto simp: sublist_Cons_right)

lemma find_str_skip:
  assumes "\<forall>j<length u. \<not> prefix p (drop j (u @ p @ v))"
  shows "find_str p (u @ p @ v) = Some (length u)"
  using assms by (simp add: find_str_Some)

lemma find_char_append:
  "c \<notin> set u \<Longrightarrow> find_char c (u @ c # v) = Some (length u)"
  by (induction u) (auto simp: find_char_def)

lemma find_char_None: "find_char c s = None \<longleftrightarrow> c \<notin> set s"
  by (auto simp: find_char_def position_None_iff)

lemma after_char_append: "c \<notin> set u \<Longrightarrow> after_char c (u @ c # v) = Some v"
  by (simp add: after_char_def find_char_append)

lemma first_quoted_append:
  "dquote \<notin> set u \<Longrightarrow> dquote \<notin> set v \<Longrightarrow> first_quoted (u @ dquote # v @ dquote # w) = Some v"
  by (simp add: first_quoted_def after_char_append find_char_append)

section \<open>Balanced texts\<close>

inductive balanced :: "string \<Rightarrow> bool" where
  balanced_Nil: "balanced []"
| balanced_plain: "c \<notin> {dquote, open_brace, close_brace} \<Longrightarrow> balanced s \<Longrightarrow> balanced (c # s)"
| balanced_string: "dquote \<notin> set v \<Longrightarrow> balanced s \<Longrightarrow> balanced (dquote # v @ dquote # s)"
| balanced_table: "balanced b \<Longrightarrow> balanced s \<Longrightarrow> balanced (open_brace # b @ close_brace # s)"

lemma brace_end_string:
  "dquote \<notin> set v \<Longrightarrow>
     brace_end i d True (v @ dquote # s) = brace_end (Suc (i + length v)) d False s"
  by (induction v arbitrary: i) auto

lemma brace_end_string_Some:
  "brace_end i d True s = Some e \<Longrightarrow> \<exists>v s'. dquote \<notin> set v \<and> s = v @ dquote # s'"
proof (induction s arbitrary: i)
  case (Cons c cs)
  show ?case
  proof (cases "c = dquote")
    case True
    then show ?thesis by (intro exI [of _ "[]"] exI [of _ cs]) simp
  next
    case False
    then have "brace_end (Suc i) d True cs = Some e" using Cons.prems by simp
    then obtain v s' where "dquote \<notin> set v" "cs = v @ dquote # s'" using Cons.IH by blast
    then show ?thesis using False by (intro exI [of _ "c # v"] exI [of _ s']) simp
  qed
qed simp

lemma brace_end_balanced:
  "balanced b \<Longrightarrow> brace_end i (Suc d) False (b @ s) = brace_end (i + length b) (Suc d) False s"
proof (induction b arbitrary: i d s rule: balanced.induct)
  case (balanced_string v b)
  then show ?case by (simp add: brace_end_string algebra_simps)
next
  case (balanced_table b1 b2)
  then show ?case by (simp add: checked_sub_def algebra_simps)
qed (auto simp: checked_sub_def)

text \<open>From inside \<open>d + 1\<close> tables on: as many balanced texts, each with its closing brace.\<close>

lemma brace_end_Some:
  "brace_end i (Suc d) False s = Some e \<Longrightarrow>
     \<exists>bs r. length bs = Suc d \<and> (\<forall>b\<in>set bs. balanced b)
       \<and> s = concat (map (\<lambda>b. b @ [close_brace]) bs) @ r"
proof (induction "length s" arbitrary: s i d rule: less_induct)
  case less
  show ?case
  proof (cases s)
    case Nil
    then show ?thesis using less.prems by simp
  next
    case (Cons c cs)
    note IH = less.hyps [unfolded Cons]
    consider (quote) "c = dquote" | (open_) "c = open_brace" | (close) "c = close_brace"
      | (plain) "c \<notin> {dquote, open_brace, close_brace}" by auto
    then show ?thesis
    proof cases
      case quote
      with less.prems Cons have q: "brace_end (Suc i) (Suc d) True cs = Some e" by simp
      then obtain v s' where v: "dquote \<notin> set v" "cs = v @ dquote # s'"
        using brace_end_string_Some by blast
      then have "brace_end (Suc (Suc i + length v)) (Suc d) False s' = Some e"
        using q by (simp add: brace_end_string)
      moreover have "length s' < length (c # cs)" using v by simp
      ultimately obtain bs r where bs: "length bs = Suc d" "\<forall>b\<in>set bs. balanced b"
        "s' = concat (map (\<lambda>b. b @ [close_brace]) bs) @ r"
        using IH by blast
      then obtain b bs' where "bs = b # bs'" by (cases bs) auto
      then show ?thesis using bs v Cons quote
        by (intro exI [of _ "(dquote # v @ dquote # b) # bs'"] exI [of _ r])
          (auto intro: balanced.intros)
    next
      case open_
      with less.prems Cons have "brace_end (Suc i) (Suc (Suc d)) False cs = Some e" by simp
      then obtain bs r where bs: "length bs = Suc (Suc d)" "\<forall>b\<in>set bs. balanced b"
        "cs = concat (map (\<lambda>b. b @ [close_brace]) bs) @ r"
        using IH [of cs "Suc i" "Suc d"] by auto
      then obtain b1 b2 bs' where "bs = b1 # b2 # bs'" by (cases bs rule: list.exhaust; cases "tl bs") auto
      then show ?thesis using bs Cons open_
        by (intro exI [of _ "(open_brace # b1 @ close_brace # b2) # bs'"] exI [of _ r])
          (auto intro: balanced.intros)
    next
      case close
      show ?thesis
      proof (cases d)
        case 0
        then show ?thesis using Cons close
          by (intro exI [of _ "[[]]"] exI [of _ cs]) (auto intro: balanced.intros)
      next
        case (Suc d')
        with less.prems Cons close have "brace_end (Suc i) (Suc d') False cs = Some e"
          by (simp add: checked_sub_def)
        then obtain bs r where "length bs = Suc d'" "\<forall>b\<in>set bs. balanced b"
          "cs = concat (map (\<lambda>b. b @ [close_brace]) bs) @ r"
          using IH [of cs "Suc i" d'] by auto
        then show ?thesis using Cons close Suc
          by (intro exI [of _ "[] # bs"] exI [of _ r]) (auto intro: balanced.intros)
      qed
    next
      case plain
      with less.prems Cons have "brace_end (Suc i) (Suc d) False cs = Some e" by simp
      then obtain bs r where bs: "length bs = Suc d" "\<forall>b\<in>set bs. balanced b"
        "cs = concat (map (\<lambda>b. b @ [close_brace]) bs) @ r"
        using IH [of cs "Suc i" d] by auto
      then obtain b bs' where "bs = b # bs'" by (cases bs) auto
      then show ?thesis using bs plain Cons
        by (intro exI [of _ "(c # b) # bs'"] exI [of _ r]) (auto intro: balanced.intros)
    qed
  qed
qed

lemma matching_brace_table:
  "balanced b \<Longrightarrow> matching_brace (u @ open_brace # b @ close_brace # v) (length u)
     = Some (Suc (length u + length b))"
  by (simp add: matching_brace_def brace_end_balanced checked_sub_def)

lemma matching_brace_iff:
  "matching_brace (u @ open_brace # s) (length u) = Some e \<longleftrightarrow>
     (\<exists>b v. s = b @ close_brace # v \<and> balanced b \<and> e = Suc (length u + length b))"
proof
  assume m: "matching_brace (u @ open_brace # s) (length u) = Some e"
  then have "brace_end (Suc (length u)) (Suc 0) False s = Some e"
    by (simp add: matching_brace_def)
  then obtain bs r where bs: "length bs = Suc 0" "\<forall>b\<in>set bs. balanced b"
    "s = concat (map (\<lambda>b. b @ [close_brace]) bs) @ r"
    using brace_end_Some by blast
  then obtain b where "bs = [b]" by (auto simp: length_Suc_conv)
  then have s: "s = b @ close_brace # r" and b: "balanced b" using bs by auto
  then have "e = Suc (length u + length b)" using m matching_brace_table by auto
  then show "\<exists>b v. s = b @ close_brace # v \<and> balanced b \<and> e = Suc (length u + length b)"
    using s b by blast
qed (auto simp: matching_brace_table)

lemma slice_body: "slice (Suc (length u)) (Suc (length u + length b)) (u @ c # b @ v) = b"
  by (simp add: slice_def)

text \<open>\<open>matching_table_end\<close> reads a text as if its double quotes were ordinary characters.\<close>

lemma table_end_brace_end:
  "table_end i d s = brace_end i d False (replace_char dquote (CHR '' '') s)"
  by (induction s arbitrary: i d) (auto simp: replace_char_def split: option.splits)

lemma matching_table_end_no_strings:
  "dquote \<notin> set s \<Longrightarrow> matching_table_end s = matching_brace s 0"
proof -
  assume "dquote \<notin> set s"
  then have "replace_char dquote (CHR '' '') s = s"
    unfolding replace_char_def by (intro map_idI) auto
  then show ?thesis by (simp add: matching_table_end_def matching_brace_def table_end_brace_end)
qed

section \<open>Lists of quoted values\<close>

lemma find_str_quoted:
  assumes "dquote \<notin> set v" and "\<not> sublist v u"
  shows "find_str v (u @ dquote # v @ w) = Some (Suc (length u))"
proof -
  have "\<not> prefix v (drop j (u @ dquote # v @ w))" if "j < Suc (length u)" for j
  proof
    assume p: "prefix v (drop j (u @ dquote # v @ w))"
    have "drop j (u @ dquote # v @ w) = drop j u @ dquote # v @ w" using that by simp
    then obtain x where "v @ x = drop j u @ dquote # v @ w" using p by (metis prefix_def)
    then consider y where "drop j u = v @ y" | y where "v = drop j u @ y" "y @ x = dquote # v @ w"
      by (auto simp: append_eq_append_conv2) metis+
    then show False
    proof cases
      case 1
      then have "sublist v (drop j u)" by (metis prefixI prefix_imp_sublist)
      then show False using assms(2) sublist_drop sublist_order.order_trans by metis
    next
      case 2
      show False
      proof (cases y)
        case Nil
        then show False using 2(1) assms(2) sublist_drop [of j u] by simp
      next
        case (Cons c ys)
        then show False using 2 assms(1) by auto
      qed
    qed
  qed
  then show ?thesis
    using find_str_skip [of "u @ [dquote]" v w] by simp
qed

lemma quoted_strings_Cons:
  assumes "dquote \<notin> set u" "dquote \<notin> set v" and "\<not> sublist v u"
  shows "quoted_strings (u @ dquote # v @ dquote # s) = v # quoted_strings s"
proof -
  have "first_quoted (u @ dquote # v @ dquote # s) = Some v"
    using assms by (intro first_quoted_append)
  moreover have "find_str v (u @ dquote # v @ dquote # s) = Some (Suc (length u))"
    using assms by (intro find_str_quoted)
  ultimately show ?thesis by (subst quoted_strings.simps) simp
qed

lemma quoted_strings_none: "dquote \<notin> set u \<Longrightarrow> quoted_strings u = []"
  by (subst quoted_strings.simps)
    (auto simp: first_quoted_def after_char_def find_char_None [THEN iffD2])

lemma quoted_strings_rendered:
  assumes "\<forall>(u, v)\<in>set es. dquote \<notin> set u \<and> dquote \<notin> set v \<and> \<not> sublist v u" and "dquote \<notin> set w"
  shows "quoted_strings (concat (map (\<lambda>(u, v). u @ dquote # v @ [dquote]) es) @ w) = map snd es"
  using assms(1)
  by (induction es) (auto simp: quoted_strings_Cons quoted_strings_none [OF assms(2)])

section \<open>The tables of a text\<close>

lemma top_level_tables_plain: "open_brace \<notin> set u \<Longrightarrow> top_level_tables (u @ s) = top_level_tables s"
  by (induction u) auto

lemma top_level_tables_table:
  assumes "balanced b"
  shows "top_level_tables (open_brace # b @ close_brace # s) = b # top_level_tables s"
  using matching_brace_table [OF assms, of "[]" s] slice_body [of "[]" b open_brace "close_brace # s"]
  by simp

lemma top_level_tables_rendered:
  assumes "\<forall>(u, b)\<in>set entries. open_brace \<notin> set u \<and> balanced b" and "open_brace \<notin> set v"
  shows "top_level_tables
      (concat (map (\<lambda>(u, b). u @ open_brace # b @ [close_brace]) entries) @ v) = map snd entries"
  using assms(1)
proof (induction entries)
  case Nil
  then show ?case using top_level_tables_plain [OF assms(2), of "[]"] by simp
next
  case (Cons e es)
  then show ?case by (cases e)
      (simp add: top_level_tables_plain top_level_tables_table del: top_level_tables.simps(2))
qed

section \<open>Code and what is hidden from the search\<close>

datatype lua_piece = Code char | Hidden string

fun piece_text :: "lua_piece \<Rightarrow> string" where
  "piece_text (Code c) = [c]"
| "piece_text (Hidden h) = h"

definition pieces_text :: "lua_piece list \<Rightarrow> string" where
  "pieces_text ps = concat (map piece_text ps)"

text \<open>A comment to the end of its line, a text between two brackets, and a quoted text.\<close>

definition skipped :: "string \<Rightarrow> string option" where
  "skipped s =
     (if prefix ''--'' s then Some (skip_line_comment (drop 2 s))
      else if prefix ''[['' s then Some (skip_long_string (drop 2 s))
      else if s \<noteq> [] \<and> (hd s = dquote \<or> hd s = squote) then Some (skip_quoted_string s)
      else None)"

lemma suffix_skip_long_string: "suffix (skip_long_string s) s"
  by (induction s rule: skip_long_string.induct) (auto simp: suffix_Cons)

lemma suffix_skip_quoted: "suffix (skip_quoted q s) s"
proof (induction q s rule: skip_quoted.induct)
  case (2 q c cs)
  have "suffix (drop 1 cs) cs" by (rule suffix_drop)
  then show ?case using 2 by (auto simp: suffix_Cons intro: suffix_order.trans)
qed simp

lemma skipped_suffix:
  assumes "skipped s = Some r"
  shows "suffix r s" and "length r < length s"
proof -
  have drop: "suffix (drop 2 s) s" by (rule suffix_drop)
  have "suffix r s \<and> length r < length s"
  proof (cases "prefix ''--'' s \<or> prefix ''[['' s")
    case True
    then have two: "2 \<le> length s" by (auto simp: prefix_def)
    have "suffix r (drop 2 s)"
      using assms True suffix_skip_long_string suffix_dropWhile
      by (auto simp: skipped_def skip_line_comment_def split: if_splits)
    moreover from this have "length r \<le> length s - 2" by (auto dest: suffix_length_le)
    ultimately show ?thesis using drop two by (auto intro: suffix_order.trans)
  next
    case False
    then obtain q t where s: "s = q # t" "r = skip_quoted q t"
      using assms by (cases s) (auto simp: skipped_def skip_quoted_string_def split: if_splits)
    then show ?thesis using suffix_skip_quoted [of q t] length_skip_quoted [of q t]
      by (simp add: suffix_Cons)
  qed
  then show "suffix r s" and "length r < length s" by blast+
qed

function lua_pieces :: "string \<Rightarrow> lua_piece list" where
  "lua_pieces s =
     (case s of
        [] \<Rightarrow> []
      | c # cs \<Rightarrow> (case skipped s of
            None \<Rightarrow> Code c # lua_pieces cs
          | Some r \<Rightarrow> Hidden (take (length s - length r) s) # lua_pieces r))"
  by pat_completeness auto
termination
  by (relation "measure length") (auto dest: skipped_suffix(2))

declare lua_pieces.simps [simp del]

lemma lua_pieces_Nil [simp]: "lua_pieces [] = []"
  by (subst lua_pieces.simps) simp

lemma lua_pieces_Code:
  "skipped (c # cs) = None \<Longrightarrow> lua_pieces (c # cs) = Code c # lua_pieces cs"
  by (subst lua_pieces.simps) simp

lemma lua_pieces_Hidden:
  "skipped s = Some r \<Longrightarrow> lua_pieces s = Hidden (take (length s - length r) s) # lua_pieces r"
  by (cases s) (simp add: skipped_def, subst lua_pieces.simps, simp)

lemma lua_pieces_text [simp]: "pieces_text (lua_pieces s) = s"
proof (induction s rule: lua_pieces.induct)
  case (1 s)
  show ?case
  proof (cases s)
    case Nil
    then show ?thesis by (simp add: pieces_text_def)
  next
    case (Cons c cs)
    show ?thesis
    proof (cases "skipped s")
      case None
      then show ?thesis using 1(1) [OF Cons None] Cons
        by (simp add: pieces_text_def lua_pieces_Code)
    next
      case (Some r)
      obtain h where h: "s = h @ r" using skipped_suffix(1) [OF Some] by (auto simp: suffix_def)
      show ?thesis using 1(2) [OF Cons Some] lua_pieces_Hidden [OF Some]
        by (simp add: h pieces_text_def)
    qed
  qed
qed

text \<open>A token at a character of the code.\<close>

definition token_in_code :: "string \<Rightarrow> string \<Rightarrow> lua_piece list \<Rightarrow> bool" where
  "token_in_code source token ps \<longleftrightarrow>
     (\<exists>us c vs. ps = us @ Code c # vs \<and> token_at source token (pieces_text (Code c # vs)))"

lemma ex_split_Cons:
  "(\<exists>us v vs. p # ps = us @ v # vs \<and> P v vs) \<longleftrightarrow> P p ps \<or> (\<exists>us v vs. ps = us @ v # vs \<and> P v vs)"
  (is "?l \<longleftrightarrow> ?r")
proof
  assume ?l
  then obtain us v vs where "p # ps = us @ v # vs" "P v vs" by blast
  then show ?r by (cases us) auto
next
  assume ?r
  then show ?l by (metis append_Cons append_Nil)
qed

lemma token_in_code_alt:
  "token_in_code source token ps \<longleftrightarrow>
     (\<exists>us v vs. ps = us @ v # vs
        \<and> ((\<exists>c. v = Code c) \<and> token_at source token (pieces_text (v # vs))))"
  unfolding token_in_code_def by blast

lemma token_in_code_Cons [simp]:
  "token_in_code source token (p # ps) \<longleftrightarrow>
     (\<exists>c. p = Code c) \<and> token_at source token (pieces_text (p # ps))
     \<or> token_in_code source token ps"
  unfolding token_in_code_alt ex_split_Cons by (rule refl)

lemma token_in_code_Nil [simp]: "\<not> token_in_code source token []"
  by (simp add: token_in_code_def)

lemma token_in_code_length:
  "token_in_code source token ps \<Longrightarrow> length token \<le> length (pieces_text ps)"
proof (induction ps)
  case Nil
  then show ?case by (simp add: token_in_code_def)
next
  case (Cons p ps)
  then show ?case
    by (cases p) (auto simp: pieces_text_def token_at_def dest: prefix_length_le)
qed

lemma denied_token_from_iff:
  assumes "token \<noteq> []"
  shows "denied_token_from source token s \<longleftrightarrow> token_in_code source token (lua_pieces s)"
proof (induction s rule: lua_pieces.induct)
  case (1 s)
  show ?case
  proof (cases "s = [] \<or> length s < length token")
    case True
    then have "\<not> token_in_code source token (lua_pieces s)"
      using token_in_code_length [of source token "lua_pieces s"] assms by (cases s) auto
    then show ?thesis using True by (subst denied_token_from.simps) simp
  next
    case False
    then obtain c cs where s: "s = c # cs" by (cases s) auto
    show ?thesis
    proof (cases "skipped s")
      case None
      have "lua_pieces s = Code c # lua_pieces cs"
        using s None by (simp add: lua_pieces_Code)
      moreover have "pieces_text (Code c # lua_pieces cs) = s"
        using lua_pieces_text [of cs] s by (simp add: pieces_text_def)
      ultimately show ?thesis using 1(1) [OF s None] s None False
        by (subst denied_token_from.simps) (auto simp: skipped_def split: if_splits)
    next
      case (Some r)
      have "lua_pieces s = Hidden (take (length s - length r) s) # lua_pieces r"
        by (rule lua_pieces_Hidden [OF Some])
      then show ?thesis using 1(2) [OF s Some] s Some False
        by (subst denied_token_from.simps) (auto simp: skipped_def split: if_splits)
    qed
  qed
qed

lemma contains_denied_token_iff:
  "token \<noteq> [] \<Longrightarrow>
     contains_denied_token source token \<longleftrightarrow> token_in_code source token (lua_pieces source)"
  by (simp add: contains_denied_token_def denied_token_from_iff)

end
