(* ===== verification/LuaConfigLaws.thy ===== *)
theory LuaConfigLaws imports LuaConfig LuaTextLaws begin

text \<open>
  What a declarative source that is accepted has: no denied name in its code, a leader that is a
  key, the leader only where one is configured, and no empty macro.
\<close>

section \<open>Macros\<close>

definition macro_ok :: "macro_definition \<Rightarrow> bool" where
  "macro_ok m \<longleftrightarrow> md_actions m \<noteq> []"

definition option_macro_ok :: "macro_definition option \<Rightarrow> bool" where
  "option_macro_ok m \<longleftrightarrow> (case m of None \<Rightarrow> True | Some d \<Rightarrow> macro_ok d)"

fun loop_body_ok :: "loop_body \<Rightarrow> bool" where
  "loop_body_ok (Once m) = macro_ok m"
| "loop_body_ok (Repeat r) = (macro_ok (lr_macro r) \<and> 0 < li_every_ms (lr_interval r))"

definition loop_ok :: "loop_definition \<Rightarrow> bool" where
  "loop_ok l \<longleftrightarrow> ld_while_held l \<noteq> [] \<and> option_macro_ok (ld_before l) \<and> loop_body_ok (ld_body l)
     \<and> option_macro_ok (ld_after l)"

lemma validation_error_not_Ok [simp]: "validation_error m \<noteq> Inr v" "(Inr v = validation_error m) = False"
  by (simp_all add: validation_error_def)

lemma ok_or_Ok [simp]: "ok_or m v = Inr a \<longleftrightarrow> v = Some a"
  by (simp add: ok_or_def split: option.splits)

lemma map_transpose_Ok:
  "map_transpose f v = Inr b \<longleftrightarrow>
     (v = None \<and> b = None) \<or> (\<exists>a c. v = Some a \<and> f a = Inr c \<and> b = Some c)"
  by (cases v) (auto simp: map_transpose_def)

lemma macro_definition_new_ok: "macro_definition_new as = Inr m \<Longrightarrow> macro_ok m"
  by (auto simp: macro_definition_new_def macro_ok_def split: if_splits)

lemma parse_macro_field_ok: "parse_macro_field s = Inr m \<Longrightarrow> macro_ok m"
  by (auto simp: parse_macro_field_def Let_def split: option.splits intro: macro_definition_new_ok)

lemma parse_macro_named_field_ok: "parse_macro_named_field s f = Inr m \<Longrightarrow> macro_ok m"
  by (auto simp: parse_macro_named_field_def split: option.splits intro: parse_macro_field_ok)

lemma parse_optional_macro_ok:
  "parse_optional_macro_named_field s f = Inr m \<Longrightarrow> option_macro_ok m"
  by (auto simp: parse_optional_macro_named_field_def option_macro_ok_def split: if_splits
      intro: parse_macro_named_field_ok)

lemma parse_loop_body_ok: "parse_loop_body s once = Inr b \<Longrightarrow> loop_body_ok b"
  by (auto simp: parse_loop_body_def loop_interval_new_def split: if_splits
      intro: parse_macro_named_field_ok parse_macro_field_ok)

lemma motion_trigger_parse_ok: "motion_trigger_parse vs = Inr t \<Longrightarrow> t \<noteq> []"
  by (auto simp: motion_trigger_parse_def motion_trigger_new_def split: if_splits)

lemma parse_loop_definition_ok: "parse_loop_definition s = Inr l \<Longrightarrow> loop_ok l"
  by (auto simp: parse_loop_definition_def loop_ok_def Let_def split: if_splits
      dest: parse_optional_macro_ok parse_loop_body_ok motion_trigger_parse_ok)

section \<open>Entries\<close>

definition held_leader_ok :: "bool \<Rightarrow> motion_token list \<Rightarrow> bool" where
  "held_leader_ok leader_defined ts \<longleftrightarrow> (Leader \<in> set ts \<longrightarrow> leader_defined)"

lemma tokens_contain_leader_iff [simp]: "tokens_contain_leader ts \<longleftrightarrow> Leader \<in> set ts"
  by (induction ts) (auto simp: tokens_contain_leader_def)

lemma parse_requires_held_ok:
  "parse_requires_held s leader_defined = Inr h \<Longrightarrow> held_leader_ok leader_defined h"
  by (auto simp: parse_requires_held_def held_leader_ok_def held_condition_new_def
      split: option.splits if_splits)

definition motion_ok :: "bool \<Rightarrow> motion_definition \<Rightarrow> bool" where
  "motion_ok leader_defined m \<longleftrightarrow>
     mo_trigger m \<noteq> [] \<and> held_leader_ok leader_defined (mo_trigger m)
     \<and> held_leader_ok leader_defined (mo_requires_held m) \<and> 0 < mo_within_ms m
     \<and> (mo_macro m \<noteq> None \<or> mo_loop m \<noteq> None) \<and> option_macro_ok (mo_macro m)
     \<and> (case mo_loop m of None \<Rightarrow> True | Some l \<Rightarrow> loop_ok l)"

lemma motion_with_requires_held_ok:
  assumes "motion_with_requires_held held trigger mode md ld within delay = Inr m"
    and "motion_trigger_parse vs = Inr trigger" and "parse_requires_held s leader_defined = Inr held"
    and "held_leader_ok leader_defined trigger" and "option_macro_ok md"
    and "map_transpose parse_loop_definition b = Inr ld"
  shows "motion_ok leader_defined m"
proof -
  have "case ld of None \<Rightarrow> True | Some l \<Rightarrow> loop_ok l"
    using assms(6) by (auto simp: map_transpose_Ok parse_loop_definition_ok)
  then show ?thesis
    using assms(1,4,5) motion_trigger_parse_ok [OF assms(2)] parse_requires_held_ok [OF assms(3)]
    by (auto simp: motion_with_requires_held_def motion_ok_def split: if_splits)
qed

lemma parse_motion_entry_ok:
  "parse_motion_entry defaults leader_defined s = Inr m \<Longrightarrow> motion_ok leader_defined m"
  by (auto simp: parse_motion_entry_def Let_def held_leader_ok_def option_macro_ok_def
      split: if_splits elim!: motion_with_requires_held_ok dest: parse_macro_field_ok)

definition press_ok :: "bool \<Rightarrow> press_definition \<Rightarrow> bool" where
  "press_ok leader_defined p \<longleftrightarrow>
     held_leader_ok leader_defined [pd_trigger p]
     \<and> held_leader_ok leader_defined (pd_requires_held p) \<and> macro_ok (pd_macro p)"

lemma parse_press_entry_ok:
  "parse_press_entry defaults leader_defined s = Inr p \<Longrightarrow> press_ok leader_defined p"
  by (auto simp: parse_press_entry_def press_ok_def held_leader_ok_def [of _ "[_]"]
      split: if_splits dest: parse_requires_held_ok parse_macro_field_ok)

lemma parse_binding_entry_ok: "parse_binding_entry s = Inr b \<Longrightarrow> macro_ok (bd_macro b)"
  by (auto simp: parse_binding_entry_def dest: parse_macro_field_ok)

lemma collect_results_all:
  assumes "collect_results f xs = Inr ys" and "\<And>x y. f x = Inr y \<Longrightarrow> P y"
  shows "\<forall>y\<in>set ys. P y"
proof
  fix y assume "y \<in> set ys"
  then have "Inr y \<in> set (map f xs)"
    using assms(1) by (auto simp: collect_results_Ok_iff)
  then show "P y" using assms(2) by auto
qed

lemma parse_entries_all:
  assumes "parse_entries s field f = Inr ys" and "\<And>x y. f x = Inr y \<Longrightarrow> P y"
  shows "\<forall>y\<in>set ys. P y"
proof -
  obtain body where "(case body of None \<Rightarrow> Inr []
      | Some b \<Rightarrow> collect_results f (top_level_tables b)) = Inr ys"
    using assms(1) by (auto simp: parse_entries_def)
  then show ?thesis
    using collect_results_all [of f _ ys P] assms(2) by (cases body) auto
qed

lemma parse_hotkeys_ok: "parse_hotkeys s = Inr hs \<Longrightarrow> \<forall>(h, m)\<in>set hs. macro_ok m"
  by (auto simp: parse_hotkeys_def parse_hotkey_entry_def split: prod.splits
      dest!: collect_results_all [where P = "\<lambda>(h, m). macro_ok m"] dest: macro_definition_new_ok)

section \<open>Sources\<close>

definition source_configuration_ok :: "lua_configuration \<Rightarrow> bool" where
  "source_configuration_ok c \<longleftrightarrow>
     (case lc_leader c of None \<Rightarrow> True | Some t \<Rightarrow> is_key_token t)
     \<and> (\<forall>(t, b)\<in>set (lc_bindings c). t = bd_trigger b \<and> macro_ok (bd_macro b))
     \<and> (\<forall>(t, m)\<in>set (lc_motions c). t = mo_trigger m \<and> motion_ok (lc_leader c \<noteq> None) m)
     \<and> (\<forall>(t, p)\<in>set (lc_presses c). t = pd_trigger p \<and> press_ok (lc_leader c \<noteq> None) p)"

lemma parse_leader_ok:
  "parse_leader s = Inr l \<Longrightarrow> (case l of None \<Rightarrow> True | Some t \<Rightarrow> is_key_token t)"
  by (auto simp: parse_leader_def split: if_splits option.splits)

lemma insert_unique_entries:
  "insert_unique msg key [] xs = Inr m \<Longrightarrow> (t, x) \<in> set m \<Longrightarrow> t = key x \<and> x \<in> set xs"
  using insert_unique_ok(2) [of msg key "[]" xs m] by auto

lemma with_bindings_and_motions_entries:
  assumes "with_bindings_and_motions scope leader defaults provider bs ms ps = Inr c"
  shows "lc_leader c = leader"
    and "(t, b) \<in> set (lc_bindings c) \<Longrightarrow> t = bd_trigger b \<and> b \<in> set bs"
    and "(l, m) \<in> set (lc_motions c) \<Longrightarrow> l = mo_trigger m \<and> m \<in> set ms"
    and "(k, p) \<in> set (lc_presses c) \<Longrightarrow> k = pd_trigger p \<and> p \<in> set ps"
  using assms
  by (auto simp: with_bindings_and_motions_def split: if_splits dest: insert_unique_entries)

lemma load_lua_source_ok:
  assumes "load_lua_source s = Inr c"
  shows "source_configuration_ok c"
proof -
  from assms obtain scope leader defaults provider hs bs ms ps where
    l: "parse_leader s = Inr leader" and hs: "parse_hotkeys s = Inr hs"
    and bs: "parse_bindings s = Inr bs" and ms: "parse_motions s defaults (leader \<noteq> None) = Inr ms"
    and ps: "parse_presses s defaults (leader \<noteq> None) = Inr ps"
    and c: "with_bindings_and_motions scope leader defaults provider
              (map hotkey_binding_definition hs @ bs) ms ps = Inr c"
    by (auto simp: load_lua_source_def split: option.splits if_splits)
  note entries = with_bindings_and_motions_entries [OF c]
  have "\<forall>b\<in>set bs. macro_ok (bd_macro b)"
    using bs unfolding parse_bindings_def
    by (rule parse_entries_all) (rule parse_binding_entry_ok)
  moreover have "\<forall>b\<in>set (map hotkey_binding_definition hs). macro_ok (bd_macro b)"
    using parse_hotkeys_ok [OF hs] by (auto simp: hotkey_binding_definition_def)
  ultimately have b: "\<forall>(t, b)\<in>set (lc_bindings c). t = bd_trigger b \<and> macro_ok (bd_macro b)"
    using entries(2) by fastforce
  have "\<forall>m\<in>set ms. motion_ok (leader \<noteq> None) m"
    using ms unfolding parse_motions_def by (rule parse_entries_all) (rule parse_motion_entry_ok)
  then have m: "\<forall>(t, m)\<in>set (lc_motions c). t = mo_trigger m \<and> motion_ok (leader \<noteq> None) m"
    using entries(3) by fastforce
  have "\<forall>p\<in>set ps. press_ok (leader \<noteq> None) p"
    using ps unfolding parse_presses_def by (rule parse_entries_all) (rule parse_press_entry_ok)
  then have p: "\<forall>(t, p)\<in>set (lc_presses c). t = pd_trigger p \<and> press_ok (leader \<noteq> None) p"
    using entries(4) by fastforce
  show ?thesis
    unfolding source_configuration_ok_def entries(1) using parse_leader_ok [OF l] b m p by blast
qed

lemma load_lua_source_no_denied_token:
  assumes "load_lua_source s = Inr c" and "token \<in> set declarative_denied_tokens"
  shows "\<not> token_in_code s token (lua_pieces s)"
proof -
  have "first_denied_token s declarative_denied_tokens = None"
    using assms(1) by (auto simp: load_lua_source_def split: option.splits)
  then have "\<not> contains_denied_token s token"
    using assms(2) by (auto simp: first_denied_token_def find_None_iff)
  moreover have "token \<noteq> []" using assms(2) by (auto simp: declarative_denied_tokens_def)
  ultimately show ?thesis by (simp add: contains_denied_token_iff)
qed

end
