(* ===== verification/LuaControllers.thy ===== *)
theory LuaControllers imports LuaConfig Controllers begin

text \<open>
  The controller scripts of \<open>signal-auras-lua/src/sandbox.rs\<close>: the name of the context parameter, the
  registrations, callbacks and runtime options found in the text of a script, and the tree of its
  imports. What a script registers when it runs is in \<open>LuaRuntime\<close>.
\<close>

section \<open>The context parameter\<close>

definition reject_legacy_controller_global :: "string \<Rightarrow> unit result" where
  "reject_legacy_controller_global source =
     (if contains_str ''sa.'' source
      then validation_error (''Lua controller scripts must use the injected context parameter, ''
             @ ''not the legacy '' @ quoted ''sa'' @ '' global'')
      else Ok ())"

definition first_lua_parameter :: "string \<Rightarrow> string option" where
  "first_lua_parameter params =
     (let param = trim (takeWhile (\<lambda>c. c \<noteq> CHR '','') params)
      in if param = [] \<or> param = ''...'' \<or> \<not> list_all is_identifier_char param then None
         else Some param)"

text \<open>The parameter list after \<open>function\<close> or after the name of a local function.\<close>

definition parameter_of :: "string \<Rightarrow> string option" where
  "parameter_of text =
     (case strip_prefix ''('' (trim_start text) of
        None \<Rightarrow> None
      | Some inside \<Rightarrow> (case split_once (CHR '')'') inside of
            None \<Rightarrow> None
          | Some (params, _) \<Rightarrow> first_lua_parameter (trim params)))"

definition returned_anonymous_function_parameter :: "string \<Rightarrow> string option" where
  "returned_anonymous_function_parameter source =
     (case after_str ''return'' source of
        None \<Rightarrow> None
      | Some after_return \<Rightarrow> (case strip_prefix ''function'' (trim_start after_return) of
            None \<Rightarrow> None
          | Some after_function \<Rightarrow> parameter_of after_function))"

definition returned_identifier :: "string \<Rightarrow> string option" where
  "returned_identifier source =
     (case rfind_str ''return'' source of
        None \<Rightarrow> None
      | Some i \<Rightarrow>
          let name = takeWhile is_identifier_char (trim_start (drop (i + length ''return'') source))
          in if name = [] then None else Some name)"

definition local_function_parameter :: "string \<Rightarrow> string \<Rightarrow> string option" where
  "local_function_parameter source name =
     (case after_str (''local function '' @ name) source of
        None \<Rightarrow> None
      | Some after_name \<Rightarrow> parameter_of after_name)"

definition controller_context_name :: "string \<Rightarrow> string result" where
  "controller_context_name source =
     rbind (reject_legacy_controller_global source) (\<lambda>_.
       case returned_anonymous_function_parameter source of
         Some param \<Rightarrow> Ok param
       | None \<Rightarrow>
           ok_or (''Lua controller script must return a function that accepts the Signal Auras ''
                  @ ''controller context'')
             (case returned_identifier source of
                None \<Rightarrow> None
              | Some name \<Rightarrow> local_function_parameter source name))"

definition controller_api_name :: "string \<Rightarrow> string \<Rightarrow> string" where
  "controller_api_name ctx name = ctx @ name"

section \<open>Calls with a table argument\<close>

text \<open>
  The loop that the registrations, trackers, overlays and options share: from each occurrence of the
  name of the API on, the text between the braces of its table. The scan stops at the first call that
  is not followed by a parenthesis, and with an error at the first that has no closed table.
\<close>

function api_tables :: "string \<Rightarrow> string \<Rightarrow> string \<Rightarrow> string list \<times> unit result" where
  "api_tables api what cursor =
     (case after_str api cursor of
        None \<Rightarrow> ([], Ok ())
      | Some after_api \<Rightarrow> (case after_char (CHR ''('') after_api of
          None \<Rightarrow> ([], Ok ())
        | Some arguments \<Rightarrow> (case find_char open_brace arguments of
            None \<Rightarrow> ([], validation_error (api @ '' requires a table argument''))
          | Some block_start \<Rightarrow>
              let block = drop block_start arguments
              in (case matching_table_end block of
                    None \<Rightarrow> ([], validation_error (api @ '' '' @ what @ '' is not closed''))
                  | Some block_end \<Rightarrow>
                      (case api_tables api what (drop (Suc block_end) block) of
                         (blocks, r) \<Rightarrow> (slice 1 block_end block # blocks, r))))))"
  by pat_completeness auto
termination
  by (relation "measure (\<lambda>(api, what, cursor). length cursor)")
    (auto dest!: after_char_shorter after_str_length)

declare api_tables.simps [simp del]

text \<open>The tables of an API, each read before the scan goes on to the next one.\<close>

definition parse_api_tables ::
  "string \<Rightarrow> string \<Rightarrow> (string \<Rightarrow> 'a result) \<Rightarrow> string \<Rightarrow> 'a list result" where
  "parse_api_tables api what entry source =
     (case api_tables api what source of (blocks, r) \<Rightarrow>
        rbind (collect_results entry blocks) (\<lambda>entries. rbind r (\<lambda>_. Ok entries)))"

section \<open>Registrations\<close>

definition parse_controller_capability :: "string \<Rightarrow> capability_kind result" where
  "parse_controller_capability name =
     (let n = trim name
      in if n = ''global_shortcut'' then Ok GlobalShortcut
         else if n = ''composite_pointer_observation'' then Ok CompositePointerObservation
         else if n = ''composite_pointer_consumption'' then Ok CompositePointerConsumption
         else if n = ''active_process_metadata'' then Ok ActiveProcessMetadata
         else if n = ''active_window_metadata'' then Ok capability_kind.ActiveWindowMetadata
         else if n = ''window_activation'' then Ok WindowActivation
         else if n = ''synthesized_input'' then Ok SynthesizedInput
         else if n = ''timer'' then Ok capability_kind.Timer
         else if n = ''screen_read'' then Ok ScreenRead
         else validation_error (''unknown Lua controller capability '' @ quoted n))"

definition parse_controller_capabilities :: "string \<Rightarrow> capability_set option result" where
  "parse_controller_capabilities source =
     rbind (table_body_field_after source ''capabilities'') (\<lambda>body. case body of
        None \<Rightarrow> Ok None
      | Some b \<Rightarrow>
          rbind (collect_results parse_controller_capability (quoted_strings b)) (\<lambda>ks.
            Ok (Some (capability_set_new ks))))"

definition parse_controller_requires_held :: "string \<Rightarrow> held_condition result" where
  "parse_controller_requires_held source =
     rbind (table_body_field_after source ''requires_held'') (\<lambda>body. case body of
        None \<Rightarrow> held_condition_new []
      | Some b \<Rightarrow> held_condition_parse (quoted_strings b))"

definition parse_controller_loop_policy :: "string \<Rightarrow> controller_loop_policy option result" where
  "parse_controller_loop_policy source =
     rbind (table_body_field_after source ''loop'') (\<lambda>body. case body of
        None \<Rightarrow> Ok None
      | Some loop_body \<Rightarrow>
          rbind (table_body_field_after loop_body ''while_held'') (\<lambda>w.
          rbind (ok_or ''controller loop requires while_held'' w) (\<lambda>while_held_body.
          rbind (table_body_field_after loop_body ''repeat'') (\<lambda>r.
          rbind (ok_or ''controller loop requires repeat'' r) (\<lambda>repeat_body.
          rbind (field_u64 repeat_body ''every_ms'') (\<lambda>ms.
          rbind (ok_or ''controller loop repeat requires every_ms'' ms) (\<lambda>every_ms.
          rbind (ok_or ''controller loop repeat requires callback''
                   (field_string repeat_body ''callback'')) (\<lambda>repeat_callback.
          rbind (motion_trigger_parse (quoted_strings while_held_body)) (\<lambda>while_held.
          rbind (loop_policy_new while_held (field_string loop_body ''before'') every_ms
                   repeat_callback (field_string loop_body ''after'')) (\<lambda>policy.
            Ok (Some policy)))))))))))"

definition parse_process_scope_body :: "string \<Rightarrow> scope_selection result" where
  "parse_process_scope_body scope_body =
     (if contains_str ''global'' scope_body then Ok ExplicitGlobal
      else rbind (collect_results process_name_parse (quoted_strings scope_body))
             scope_process_list)"

definition parse_controller_scope :: "string \<Rightarrow> scope_selection result" where
  "parse_controller_scope source =
     rbind (table_body_after source ''scope'') (\<lambda>body. case body of
        None \<Rightarrow> Ok ExplicitGlobal
      | Some scope_body \<Rightarrow> parse_process_scope_body scope_body)"

definition controller_required_capabilities ::
  "controller_registration_kind \<Rightarrow> binding_mode \<Rightarrow> scope_selection \<Rightarrow> capability_set" where
  "controller_required_capabilities kind mode scope = capability_set_new
     ((case kind of
         Hotkey \<Rightarrow> [GlobalShortcut]
       | Motion \<Rightarrow> CompositePointerObservation
           # (if mode = Consume then [CompositePointerConsumption] else [])
       | Press \<Rightarrow> CompositePointerObservation
           # (if mode = Consume then [CompositePointerConsumption] else [])
       | controller_registration_kind.Timer \<Rightarrow> []
       | controller_registration_kind.Shutdown \<Rightarrow> [])
      @ (case scope of ProcessList _ \<Rightarrow> [ActiveProcessMetadata] | ExplicitGlobal \<Rightarrow> []))"

text \<open>\<open>Option::or_else\<close>.\<close>

definition or_else :: "'a option \<Rightarrow> 'a option \<Rightarrow> 'a option" where
  "or_else a b = (case a of None \<Rightarrow> b | Some _ \<Rightarrow> a)"

definition parse_controller_entry ::
  "controller_registration_kind \<Rightarrow> string \<Rightarrow> controller_registration result" where
  "parse_controller_entry kind source =
     rbind (ok_or ''controller trigger is required''
              (or_else (field_string source ''trigger'')
                 (if kind = controller_registration_kind.Shutdown then Some ''shutdown'' else None)))
       (\<lambda>trigger.
     rbind (ok_or ''controller callback is required''
              (or_else (field_string source ''callback'') (field_string source ''handler'')))
       (\<lambda>callback.
     rbind (binding_mode_parse (field_string source ''mode'')) (\<lambda>mode.
     rbind (parse_controller_scope source) (\<lambda>scope.
     rbind (parse_controller_capabilities source) (\<lambda>capabilities.
     rbind (registration_new kind trigger scope mode callback
              (unwrap_or capabilities (controller_required_capabilities kind mode scope)))
       (\<lambda>registration.
     rbind (parse_controller_requires_held source) (\<lambda>held.
     rbind (parse_controller_loop_policy source) (\<lambda>policy.
       Ok (with_loop_policy policy (with_requires_held held registration))))))))))"

definition parse_controller_entries ::
  "string \<Rightarrow> string \<Rightarrow> controller_registration_kind \<Rightarrow> controller_registration list result" where
  "parse_controller_entries source api kind =
     parse_api_tables api ''registration table'' (parse_controller_entry kind) source"

definition parse_controller_registration_set :: "string \<Rightarrow> registration_set result" where
  "parse_controller_registration_set source =
     rbind (controller_context_name source) (\<lambda>ctx.
     rbind (parse_controller_entries source (controller_api_name ctx ''.hotkey'') Hotkey) (\<lambda>hs.
     rbind (parse_controller_entries source (controller_api_name ctx ''.motion'') Motion) (\<lambda>ms.
     rbind (parse_controller_entries source (controller_api_name ctx ''.press'') Press) (\<lambda>ps.
     rbind (parse_controller_entries source (controller_api_name ctx ''.timer'')
              controller_registration_kind.Timer) (\<lambda>ts.
     rbind (parse_controller_entries source (controller_api_name ctx ''.shutdown'')
              controller_registration_kind.Shutdown) (\<lambda>ss.
       registration_set_new (hs @ ms @ ps @ ts @ ss)))))))"

section \<open>Runtime options\<close>

definition reject_legacy_field :: "string \<Rightarrow> string \<Rightarrow> unit result" where
  "reject_legacy_field source field =
     (if has_top_level_field source field
      then validation_error (''Lua controller runtime option '' @ quoted field
             @ '' must be declared with aura.configure({ ... })'')
      else Ok ())"

definition reject_legacy_controller_runtime_options :: "string \<Rightarrow> unit result" where
  "reject_legacy_controller_runtime_options source =
     rbind (reject_legacy_field source ''input_provider'') (\<lambda>_.
       reject_legacy_field source ''leader'')"

definition controller_configure_options_body :: "string \<Rightarrow> string option result" where
  "controller_configure_options_body source =
     rbind (controller_context_name source) (\<lambda>ctx.
       case api_tables (controller_api_name ctx ''.configure'') ''table'' source of
         (blocks, r) \<Rightarrow>
           if 1 < length blocks
           then validation_error ''Lua controller scripts may call aura.configure at most once''
           else rbind r (\<lambda>_. Ok (if blocks = [] then None else Some (hd blocks))))"

definition parse_controller_runtime_options ::
  "string \<Rightarrow> (input_provider_config option \<times> motion_token option) result" where
  "parse_controller_runtime_options source =
     rbind (controller_configure_options_body source) (\<lambda>body. case body of
        None \<Rightarrow> Ok (None, None)
      | Some options_body \<Rightarrow>
          rbind (parse_input_provider options_body) (\<lambda>provider.
          rbind (parse_leader options_body) (\<lambda>leader. Ok (provider, leader))))"

section \<open>Callbacks\<close>

text \<open>The argument of a call, unless it is joined to something else.\<close>

definition controller_call_argument :: "string \<Rightarrow> string \<Rightarrow> string option" where
  "controller_call_argument line api =
     (case strip_prefix api line of
        None \<Rightarrow> None
      | Some rest \<Rightarrow>
          let rest = trim_start rest
          in (case strip_prefix [dquote]
                (trim_start (case strip_prefix ''('' rest of None \<Rightarrow> rest | Some r \<Rightarrow> r)) of
                None \<Rightarrow> None
              | Some inside \<Rightarrow> (case find_char dquote inside of
                  None \<Rightarrow> None
                | Some e \<Rightarrow>
                    if prefix ''..'' (trim_start (drop (Suc e) inside)) then None
                    else Some (take e inside))))"

definition supported_imperative_callback_api :: "string \<Rightarrow> string \<Rightarrow> bool" where
  "supported_imperative_callback_api line ctx =
     list_ex (\<lambda>name. prefix (controller_api_name ctx name) line)
       [''.sleep'', ''.window.active'', ''.window.find'', ''.window.activate'',
        ''.window.wait_active'', ''.input.key'', ''.input.key_down'', ''.input.key_up'',
        ''.input.text'', ''.input.mouse_click'']"

definition parse_callback_line :: "string \<Rightarrow> string \<Rightarrow> macro_action option result" where
  "parse_callback_line ctx line =
     (case controller_call_argument line (controller_api_name ctx ''.input.key'') of
        Some argument \<Rightarrow> rbind (macro_key argument) (\<lambda>a. Ok (Some a))
      | None \<Rightarrow> (case controller_call_argument line (controller_api_name ctx ''.input.key_down'') of
        Some argument \<Rightarrow> rbind (macro_key_down argument) (\<lambda>a. Ok (Some a))
      | None \<Rightarrow> (case controller_call_argument line (controller_api_name ctx ''.input.key_up'') of
        Some argument \<Rightarrow> rbind (macro_key_up argument) (\<lambda>a. Ok (Some a))
      | None \<Rightarrow> (case controller_call_argument line (controller_api_name ctx ''.input.text'') of
        Some argument \<Rightarrow> rbind (macro_text argument) (\<lambda>a. Ok (Some a))
      | None \<Rightarrow> (case controller_call_argument line (controller_api_name ctx ''.input.mouse_click'') of
        Some argument \<Rightarrow> rbind (mouse_button_parse argument) (\<lambda>b. Ok (Some (macro_mouse_click b)))
      | None \<Rightarrow>
          if supported_imperative_callback_api line ctx then Ok None
          else if prefix (ctx @ ''.'') line
          then validation_error (''unsupported Lua controller callback API '' @ quoted line)
          else Ok None)))))"

definition is_imperative_callback :: "string \<Rightarrow> string \<Rightarrow> bool" where
  "is_imperative_callback source ctx =
     (contains_str (controller_api_name ctx ''.sleep'') source
      \<or> contains_str (controller_api_name ctx ''.window.'') source
      \<or> list_ex (\<lambda>word. contains_str word source) [''while '', ''for '', ''if '', ''local '', ''..''])"

definition parse_controller_output_actions :: "string \<Rightarrow> string \<Rightarrow> macro_action list result" where
  "parse_controller_output_actions source ctx =
     (if contains_str (controller_api_name ctx ''.configure'') source
      then validation_error ''aura.configure may only be called during controller startup''
      else case first_denied_token source denied_globals of
        Some token \<Rightarrow> validation_error
          (''Lua controller callback sandbox denies ambient API token '' @ quoted token)
      | None \<Rightarrow>
          if is_imperative_callback source ctx then Ok []
          else rbind (collect_results (parse_callback_line ctx) (code_lines source)) (\<lambda>as.
                 Ok (List.map_filter id as)))"

text \<open>
  The loop of \<open>parse_controller_callbacks\<close>: the name and the body of each callback, with the result
  of the scan. The next search starts behind \<open>end\<close>, at its last letter.
\<close>

function callback_texts :: "string \<Rightarrow> string \<Rightarrow> (string \<times> string) list \<times> unit result" where
  "callback_texts api cursor =
     (case after_str api cursor of
        None \<Rightarrow> ([], Ok ())
      | Some after_api \<Rightarrow> (case after_char (CHR ''('') after_api of
          None \<Rightarrow> ([], Ok ())
        | Some arguments \<Rightarrow> (case first_quoted arguments of
            None \<Rightarrow> ([], validation_error (api @ '' requires a name''))
          | Some name \<Rightarrow> (case after_str ''function'' arguments of
              None \<Rightarrow> ([], validation_error (api @ '' requires a function body''))
            | Some after_function \<Rightarrow> (case after_char (CHR '')'') after_function of
                None \<Rightarrow> ([], validation_error (api @ '' function arguments are not closed''))
              | Some body \<Rightarrow>
                  (case or_else (find_str ([newline] @ ''end'') body) (find_str '' end'' body) of
                     None \<Rightarrow> ([], validation_error (api @ '' function body is not closed''))
                   | Some body_end \<Rightarrow>
                       (case callback_texts api (drop (body_end + length ''end'') body) of
                          (callbacks, r) \<Rightarrow> ((name, take body_end body) # callbacks, r))))))))"
  by pat_completeness auto
termination
  by (relation "measure (\<lambda>(api, cursor). length cursor)")
    (auto dest!: after_char_shorter after_str_length)

declare callback_texts.simps [simp del]

definition parse_callback_text :: "string \<Rightarrow> string \<times> string \<Rightarrow> controller_callback result" where
  "parse_callback_text ctx = (\<lambda>(name, body).
     rbind (parse_controller_output_actions body ctx) (controller_callback_new name))"

definition parse_controller_callbacks :: "string \<Rightarrow> controller_callback list result" where
  "parse_controller_callbacks source =
     rbind (controller_context_name source) (\<lambda>ctx.
       case callback_texts (controller_api_name ctx ''.callback'') source of (callbacks, r) \<Rightarrow>
         rbind (collect_results (parse_callback_text ctx) callbacks) (\<lambda>cs. rbind r (\<lambda>_. Ok cs)))"

section \<open>Imports\<close>

function controller_imports :: "string \<Rightarrow> string list" where
  "controller_imports cursor =
     (case after_str ''.import'' cursor of
        None \<Rightarrow> []
      | Some after_api \<Rightarrow> (case after_char (CHR ''('') after_api of
          None \<Rightarrow> []
        | Some arguments \<Rightarrow> (case after_char dquote arguments of
            None \<Rightarrow> []
          | Some inside \<Rightarrow> (case find_char dquote inside of
              None \<Rightarrow> []
            | Some e \<Rightarrow> take e inside # controller_imports (drop (Suc e) inside)))))"
  by pat_completeness auto
termination
  by (relation "measure length") (auto dest!: after_char_shorter after_str_length)

declare controller_imports.simps [simp del]

end
