(* ===== verification/LuaSources.thy ===== *)
theory LuaSources imports LuaControllers begin

text \<open>
  The tree of a controller's source files, from \<open>signal-auras-lua/src/sandbox.rs\<close>: an import names a
  module under the directory of the script, and the sources are joined in the order in which the
  imports are met. The file system is a record of its two calls, with the messages of their errors.
\<close>

section \<open>Paths\<close>

text \<open>A path is its text, on Unix. \<open>components\<close> without the root and the current directory.\<close>

definition path_components :: "path \<Rightarrow> string list" where
  "path_components p = filter (\<lambda>c. c \<noteq> [] \<and> c \<noteq> ''.'') (split_on (CHR ''/'') p)"

definition is_absolute :: "path \<Rightarrow> bool" where
  "is_absolute p = prefix ''/'' p"

text \<open>\<open>Path::starts_with\<close>, on two canonical paths.\<close>

definition path_starts_with :: "path \<Rightarrow> path \<Rightarrow> bool" where
  "path_starts_with p base =
     ((is_absolute base \<longleftrightarrow> is_absolute p) \<and> prefix (path_components base) (path_components p))"

definition path_join :: "path \<Rightarrow> path \<Rightarrow> path" where
  "path_join base p =
     (if is_absolute p then p
      else if base = [] \<or> last base = CHR ''/'' then base @ p
      else base @ ''/'' @ p)"

definition file_name :: "path \<Rightarrow> string option" where
  "file_name p =
     (let cs = path_components p
      in if cs = [] \<or> last cs = ''..'' then None else Some (last cs))"

text \<open>\<open>Path::extension\<close>: what follows the last dot of the file name, unless it is the first character.\<close>

definition path_extension :: "path \<Rightarrow> string option" where
  "path_extension p =
     (case file_name p of
        None \<Rightarrow> None
      | Some name \<Rightarrow> (case rfind_str ''.'' name of
            None \<Rightarrow> None
          | Some i \<Rightarrow> if i = 0 then None else Some (drop (Suc i) name)))"

text \<open>\<open>set_extension\<close> on a path that has a file name and no extension; slashes at its end go.\<close>

definition add_extension :: "string \<Rightarrow> path \<Rightarrow> path" where
  "add_extension extension p =
     (case file_name p of
        None \<Rightarrow> p
      | Some _ \<Rightarrow> rev (dropWhile (\<lambda>c. c = CHR ''/'') (rev p)) @ ''.'' @ extension)"

text \<open>\<open>Path::parent\<close> of a path that does not end in a slash or in the current directory.\<close>

definition path_parent :: "path \<Rightarrow> path option" where
  "path_parent p =
     (if p = [] \<or> (is_absolute p \<and> path_components p = []) then None
      else (case rfind_str ''/'' p of
              None \<Rightarrow> Some []
            | Some 0 \<Rightarrow> Some ''/''
            | Some i \<Rightarrow> Some (take i p)))"

section \<open>Imports\<close>

definition resolve_controller_import :: "path \<Rightarrow> string \<Rightarrow> path result" where
  "resolve_controller_import root import =
     (if contains_str ''..'' import \<or> prefix ''/'' import \<or> list_ex is_control import
      then validation_error
        ''Lua controller import must be a local module path inside the script root''
      else
        let p = path_join root (replace_char (CHR ''.'') (CHR ''/'') import)
        in Ok (if path_extension p = None then add_extension ''lua'' p else p))"

record file_system =
  fs_canonicalize :: "path \<Rightarrow> string + path"
  fs_read :: "path \<Rightarrow> string + string"

definition load_error :: "string \<Rightarrow> path \<Rightarrow> string \<Rightarrow> diagnosable_error" where
  "load_error what p message = diagnosable_error_new ScriptLoad (what @ quoted p @ '': '' @ message)"

text \<open>
  The body of \<open>load_controller_source_tree\<close> up to the loop over the imports: the canonical root, the
  source text unless the file has been visited, and the visited files.
\<close>

definition enter_source ::
  "file_system \<Rightarrow> path \<Rightarrow> path \<Rightarrow> path list \<Rightarrow> path list \<times> (path \<times> string option) result" where
  "enter_source fs p root visited =
     (case fs_canonicalize fs root of
        Inl message \<Rightarrow> (visited, Err (load_error ''cannot resolve Lua controller root '' root message))
      | Inr canonical_root \<Rightarrow> (case fs_canonicalize fs p of
          Inl message \<Rightarrow> (visited, Err (load_error ''cannot resolve Lua controller file '' p message))
        | Inr canonical_path \<Rightarrow>
            if \<not> path_starts_with canonical_path canonical_root
            then (visited, validation_error (''Lua controller import '' @ quoted canonical_path
                    @ '' is outside script root '' @ quoted canonical_root))
            else if canonical_path \<in> set visited then (visited, Ok (canonical_root, None))
            else (case fs_read fs canonical_path of
                Inl message \<Rightarrow> (canonical_path # visited,
                  Err (load_error ''cannot read Lua controller file '' canonical_path message))
              | Inr source \<Rightarrow> (canonical_path # visited, Ok (canonical_root, Some source)))))"

text \<open>
  The loop over the imports of a file, with the recursive call for each: the visited files and the
  sources of the imports, a line feed after each. A tree whose files never repeat does not return.
\<close>

partial_function (option) load_imports ::
  "file_system \<Rightarrow> path \<Rightarrow> string list \<Rightarrow> path list \<Rightarrow> (path list \<times> string result) option" where
  "load_imports fs root modules visited =
     (case modules of
        [] \<Rightarrow> Some (visited, Ok [])
      | i # ms \<Rightarrow> (case resolve_controller_import root i of
          Inl e \<Rightarrow> Some (visited, Err e)
        | Inr p \<Rightarrow> (case enter_source fs p root visited of
            (visited1, Inl e) \<Rightarrow> Some (visited1, Err e)
          | (visited1, Inr (croot, None)) \<Rightarrow>
              Option.bind (load_imports fs root ms visited1) (\<lambda>(visited2, r).
                Some (visited2, rbind r (\<lambda>s. Ok ([newline] @ s))))
          | (visited1, Inr (croot, Some source)) \<Rightarrow>
              Option.bind (load_imports fs croot (controller_imports source) visited1)
                (\<lambda>(visited2, r1). (case r1 of
                   Inl e \<Rightarrow> Some (visited2, Err e)
                 | Inr s1 \<Rightarrow> Option.bind (load_imports fs root ms visited2) (\<lambda>(visited3, r).
                     Some (visited3, rbind r (\<lambda>s. Ok (s1 @ source @ [newline] @ s)))))))))"

definition load_controller_source_tree ::
  "file_system \<Rightarrow> path \<Rightarrow> path \<Rightarrow> path list \<Rightarrow> (path list \<times> string result) option" where
  "load_controller_source_tree fs p root visited =
     (case enter_source fs p root visited of
        (visited1, Inl e) \<Rightarrow> Some (visited1, Err e)
      | (visited1, Inr (croot, None)) \<Rightarrow> Some (visited1, Ok [])
      | (visited1, Inr (croot, Some source)) \<Rightarrow>
          Option.bind (load_imports fs croot (controller_imports source) visited1) (\<lambda>(visited2, r).
            Some (visited2, rbind r (\<lambda>s. Ok (s @ source)))))"

definition load_controller_source_tree_file :: "file_system \<Rightarrow> path \<Rightarrow> string result option" where
  "load_controller_source_tree_file fs p =
     map_option snd (load_controller_source_tree fs p
       (case path_parent p of None \<Rightarrow> ''.'' | Some d \<Rightarrow> d) [])"

section \<open>The walk ends\<close>

lemma enter_source_visited:
  "enter_source fs p root visited = (visited1, r) \<Longrightarrow> set visited \<subseteq> set visited1"
  by (auto simp: enter_source_def validation_error_def split: sum.splits if_splits)

lemma enter_source_new:
  assumes "enter_source fs p root visited = (visited1, Inr (croot, Some source))"
  obtains q where "visited1 = q # visited" "q \<notin> set visited" "fs_read fs q = Inr source"
  using assms by (auto simp: enter_source_def validation_error_def split: sum.splits if_splits)

text \<open>A file system with finitely many readable files: each is entered at most once.\<close>

definition unvisited :: "file_system \<Rightarrow> path list \<Rightarrow> path set" where
  "unvisited fs visited = {q. is_ok (fs_read fs q)} - set visited"

lemma load_imports_returns:
  assumes "finite {q. is_ok (fs_read fs q)}"
  shows "\<exists>visited' r. load_imports fs root modules visited = Some (visited', r)
           \<and> set visited \<subseteq> set visited'"
proof (induction "card (unvisited fs visited)" arbitrary: root modules visited rule: less_induct)
  case less
  show ?case using less
  proof (induction modules arbitrary: visited)
    case Nil
    then show ?case by (subst load_imports.simps) simp
  next
    case (Cons i ms)
    have fin: "finite (unvisited fs v)" for v using assms by (simp add: unvisited_def)
    have tail: "\<exists>v' r. load_imports fs root ms v = Some (v', r) \<and> set v \<subseteq> set v'"
      if "set visited \<subseteq> set v" for v
    proof -
      have sub: "unvisited fs v \<subseteq> unvisited fs visited" using that by (auto simp: unvisited_def)
      have "card (unvisited fs v) \<le> card (unvisited fs visited)" by (rule card_mono [OF fin sub])
      then show ?thesis by (intro Cons.IH) (rule Cons.prems, simp)
    qed
    show ?case
    proof (cases "resolve_controller_import root i")
      case (Inl e)
      then show ?thesis by (subst load_imports.simps) simp
    next
      case (Inr p)
      note p = this
      obtain visited1 r1 where e: "enter_source fs p root visited = (visited1, r1)" by fastforce
      note sub = enter_source_visited [OF e]
      consider (err) err where "r1 = Inl err" | (seen) croot where "r1 = Inr (croot, None)"
        | (new) croot source where "r1 = Inr (croot, Some source)"
        by (cases r1) (auto, metis option.exhaust)
      then show ?thesis
      proof cases
        case err
        then show ?thesis using p e sub by (subst load_imports.simps) simp
      next
        case seen
        from tail [OF sub] obtain v' r where "load_imports fs root ms visited1 = Some (v', r)"
          "set visited1 \<subseteq> set v'" by blast
        then show ?thesis using p e sub seen by (subst load_imports.simps) auto
      next
        case new
        have "enter_source fs p root visited = (visited1, Inr (croot, Some source))"
          using e new by simp
        then obtain q where q: "visited1 = q # visited" "q \<notin> set visited"
          "fs_read fs q = Inr source" by (rule enter_source_new)
        have "unvisited fs visited1 = unvisited fs visited - {q}" and "q \<in> unvisited fs visited"
          using q by (auto simp: unvisited_def is_ok_iff)
        then have "unvisited fs visited1 \<subset> unvisited fs visited" by blast
        then have "card (unvisited fs visited1) < card (unvisited fs visited)"
          by (rule psubset_card_mono [OF fin])
        then obtain v2 r2 where l: "load_imports fs croot (controller_imports source) visited1
            = Some (v2, r2)" "set visited1 \<subseteq> set v2"
          using Cons.prems by blast
        show ?thesis
        proof (cases r2)
          case (Inl err)
          then show ?thesis using p e sub new l by (subst load_imports.simps) auto
        next
          case (Inr s1)
          from tail [of v2] sub l obtain v3 r3 where
            "load_imports fs root ms v2 = Some (v3, r3)" "set v2 \<subseteq> set v3" by blast
          then show ?thesis using p e sub new l Inr by (subst load_imports.simps) auto
        qed
      qed
    qed
  qed
qed

text \<open>Loading a controller's sources returns, import cycles or not.\<close>

lemma load_source_tree_returns:
  assumes "finite {q. is_ok (fs_read fs q)}"
  shows "\<exists>r. load_controller_source_tree_file fs p = Some r"
proof -
  have "\<exists>v r. load_controller_source_tree fs p root visited = Some (v, r)" for root visited
  proof -
    obtain visited1 r1 where e: "enter_source fs p root visited = (visited1, r1)" by fastforce
    consider "\<exists>err. r1 = Inl err" | "\<exists>croot. r1 = Inr (croot, None)"
      | croot source where "r1 = Inr (croot, Some source)"
      by (cases r1) (auto, metis option.exhaust)
    then show ?thesis
    proof cases
      case 3
      obtain v r where "load_imports fs croot (controller_imports source) visited1 = Some (v, r)"
        using load_imports_returns [OF assms] by blast
      then show ?thesis using e 3 by (simp add: load_controller_source_tree_def)
    qed (use e in \<open>auto simp: load_controller_source_tree_def\<close>)
  qed
  then show ?thesis by (fastforce simp: load_controller_source_tree_file_def)
qed

section \<open>The walk stays under the root\<close>

definition confined :: "path \<Rightarrow> path list \<Rightarrow> bool" where
  "confined root visited \<longleftrightarrow> distinct visited \<and> (\<forall>q\<in>set visited. path_starts_with q root)"

lemma enter_source_confined:
  assumes "enter_source fs p root visited = (visited1, r)" and "fs_canonicalize fs root = Inr croot"
    and "confined croot visited"
  shows "confined croot visited1 \<and> (\<forall>c s. r = Inr (c, s) \<longrightarrow> c = croot)"
  using assms
  by (auto simp: enter_source_def confined_def validation_error_def split: sum.splits if_splits)

lemma entered_cases:
  assumes "\<forall>c s. r = Inr (c, s) \<longrightarrow> c = croot"
  obtains (err) err where "r = Inl err" | (seen) "r = Inr (croot, None)"
    | (new) source where "r = Inr (croot, Some source)"
proof (cases r)
  case (Inr cs)
  obtain c s where "cs = (c, s)" by (cases cs)
  then show ?thesis using assms Inr seen new by (cases s) auto
qed (rule err)

lemma load_imports_confined:
  assumes "load_imports fs root modules visited = Some res"
    and "fs_canonicalize fs root = Inr root" and "confined root visited"
  shows "confined root (fst res)"
  using assms
proof (induction rule: load_imports.raw_induct [rotated, consumes 1, case_names step])
  case (step rec fs root modules visited res)
  note IH = step(1) and canon = step(3) and conf = step(4)
  note step = step(2)
  show ?case
  proof (cases modules)
    case Nil
    then show ?thesis using step conf by auto
  next
    case (Cons i ms)
    show ?thesis
    proof (cases "resolve_controller_import root i")
      case (Inl e)
      then show ?thesis using Cons step conf by auto
    next
      case (Inr p)
      obtain visited1 r1 where e: "enter_source fs p root visited = (visited1, r1)" by fastforce
      note entered = enter_source_confined [OF e canon conf]
      have "\<forall>c s. r1 = Inr (c, s) \<longrightarrow> c = root" using entered by blast
      then show ?thesis
      proof (cases rule: entered_cases)
        case err
        then show ?thesis using step Cons Inr e entered [THEN conjunct1] by auto
      next
        case seen
        then obtain v r where "rec fs root ms visited1 = Some (v, r)" "fst res = v"
          using step Cons Inr e by (auto simp: bind_eq_Some_conv)
        then show ?thesis using IH canon entered [THEN conjunct1] by fastforce
      next
        case (new source)
        with step Cons Inr e obtain v2 r2 where l:
          "rec fs root (controller_imports source) visited1 = Some (v2, r2)"
          and rest: "(case r2 of Inl e \<Rightarrow> Some (v2, Inl e)
            | Inr s1 \<Rightarrow> Option.bind (rec fs root ms v2) (\<lambda>(v3, r).
                Some (v3, rbind r (\<lambda>s. Inr (s1 @ source @ newline # s))))) = Some res"
          by (auto simp: bind_eq_Some_conv)
        have v2: "confined root v2" using IH [OF l canon] entered [THEN conjunct1] by simp
        show ?thesis
        proof (cases r2)
          case (Inl err)
          then show ?thesis using rest v2 by auto
        next
          case (Inr s1)
          then obtain v3 r3 where "rec fs root ms v2 = Some (v3, r3)" "fst res = v3"
            using rest by (auto simp: bind_eq_Some_conv)
          then show ?thesis using IH canon v2 by fastforce
        qed
      qed
    qed
  qed
qed

lemma load_source_tree_confined:
  assumes "load_controller_source_tree fs p root [] = Some (visited, r)"
    and "fs_canonicalize fs root = Inr croot" and "fs_canonicalize fs croot = Inr croot"
  shows "confined croot visited"
proof -
  obtain visited1 r1 where e: "enter_source fs p root [] = (visited1, r1)" by fastforce
  have entered: "confined croot visited1 \<and> (\<forall>c s. r1 = Inr (c, s) \<longrightarrow> c = croot)"
    by (rule enter_source_confined [OF e assms(2)]) (simp add: confined_def)
  then have "\<forall>c s. r1 = Inr (c, s) \<longrightarrow> c = croot" by blast
  then show ?thesis
  proof (cases rule: entered_cases)
    case (new source)
    then obtain res where "load_imports fs croot (controller_imports source) visited1 = Some res"
      "fst res = visited"
      using assms(1) e new by (auto simp: load_controller_source_tree_def bind_eq_Some_conv)
    then show ?thesis using load_imports_confined assms(3) entered [THEN conjunct1] by metis
  next
    case (err x)
    then show ?thesis using assms(1) e entered [THEN conjunct1]
      by (simp add: load_controller_source_tree_def)
  next
    case seen
    then show ?thesis using assms(1) e entered [THEN conjunct1]
      by (simp add: load_controller_source_tree_def)
  qed
qed

end
