(* ===== verification/LuaScreens.thy ===== *)
theory LuaScreens imports LuaSources ControllerPrograms begin

text \<open>
  The screen state trackers and overlays that \<open>signal-auras-lua/src/sandbox.rs\<close> reads from the text
  of a controller script, and \<open>load_lua_controller_program_source\<close>, which puts a program together.
  The type \<open>'f\<close> is \<open>f32\<close>; the run of the script in the validation sandbox is an argument.
\<close>

section \<open>Fields that are not accepted\<close>

text \<open>\<open>what\<close> is the beginning of the message.\<close>

fun reject_fields :: "string \<Rightarrow> string list \<Rightarrow> string \<Rightarrow> unit result" where
  "reject_fields what [] source = Ok ()"
| "reject_fields what (forbidden # fs) source =
     (if has_top_level_field source forbidden
      then validation_error (what @ '' field '' @ quoted forbidden @ '' is not accepted'')
      else reject_fields what fs source)"

definition required_string :: "string \<Rightarrow> string \<Rightarrow> string \<Rightarrow> string result" where
  "required_string source field message = ok_or message (field_string source field)"

definition required_body :: "string \<Rightarrow> string \<Rightarrow> string \<Rightarrow> string result" where
  "required_body source field message =
     rbind (table_body_field_after source field) (ok_or message)"

section \<open>Scopes\<close>

text \<open>\<open>parse_state_tracker_scope\<close> and \<open>parse_overlay_scope\<close>, which differ in their message.\<close>

definition parse_scope_reference :: "string \<Rightarrow> string \<Rightarrow> string \<Rightarrow> scope_selection result" where
  "parse_scope_reference what source full_source =
     (if top_level_field_uses_table source ''scope'' then parse_controller_scope source
      else case field_identifier source ''scope'' of
        Some identifier \<Rightarrow>
          rbind (top_level_table_body full_source identifier) (\<lambda>body.
          rbind (ok_or (what @ '' scope variable '' @ quoted identifier @ '' is not defined'') body)
            parse_process_scope_body)
      | None \<Rightarrow> Ok ExplicitGlobal)"

definition parse_state_tracker_scope :: "string \<Rightarrow> string \<Rightarrow> scope_selection result" where
  "parse_state_tracker_scope = parse_scope_reference ''state tracker''"

definition parse_overlay_scope :: "string \<Rightarrow> string \<Rightarrow> scope_selection result" where
  "parse_overlay_scope = parse_scope_reference ''overlay''"

section \<open>Detectors\<close>

definition parse_required_u32 :: "string \<Rightarrow> string \<Rightarrow> nat result" where
  "parse_required_u32 source field =
     rbind (field_u64 source field) (\<lambda>v.
     rbind (ok_or (''radial_cooldown sample requires '' @ field) v) (\<lambda>n.
       if n \<le> u32_max then Ok n else validation_error (field @ '' must fit in u32'')))"

definition parse_optional_u8 :: "string \<Rightarrow> string \<Rightarrow> nat \<Rightarrow> nat option result" where
  "parse_optional_u8 source field maximum =
     rbind (field_u64 source field) (\<lambda>v. case v of
        None \<Rightarrow> Ok None
      | Some n \<Rightarrow>
          if maximum < n
          then validation_error (field @ '' must be between 0 and '' @ show_nat maximum)
          else Ok (Some (n mod 256)))"

text \<open>\<open>as u32\<close> keeps the low 32 bits.\<close>

definition u64_as_u32 :: "nat \<Rightarrow> nat" where
  "u64_as_u32 n = n mod 4294967296"

definition parse_roi :: "string \<Rightarrow> roi result" where
  "parse_roi source =
     rbind (field_u64 source ''x'') (\<lambda>x.
     rbind (field_u64 source ''y'') (\<lambda>y.
     rbind (field_u64 source ''w'') (\<lambda>w'.
     rbind (ok_or ''ROI requires w'' w') (\<lambda>w.
     rbind (field_u64 source ''h'') (\<lambda>h'.
     rbind (ok_or ''ROI requires h'' h') (\<lambda>h.
       roi_new (u64_as_u32 (unwrap_or x 0)) (u64_as_u32 (unwrap_or y 0)) (u64_as_u32 w)
         (u64_as_u32 h)))))))"

definition parse_circular_mask :: "string \<Rightarrow> circular_mask result" where
  "parse_circular_mask source =
     (if unwrap_or (field_string source ''shape'') ''circle'' \<noteq> ''circle''
      then validation_error ''radial_cooldown mask shape must be circle''
      else rbind (field_u64 source ''inset'') (\<lambda>inset.
             Ok (u64_as_u32 (unwrap_or inset 0))))"

definition parse_radial_phase_name :: "string \<Rightarrow> radial_cooldown_phase result" where
  "parse_radial_phase_name v =
     (if v = ''ready'' then Ok radial_cooldown_phase.Ready
      else if v = ''activated'' then Ok Activated
      else if v = ''active'' then Ok radial_cooldown_phase.Active
      else if v = ''recovering'' then Ok Recovering
      else if v = ''unknown'' then Ok radial_cooldown_phase.Unknown
      else validation_error (''unknown radial_cooldown phase '' @ quoted v))"

definition parse_radial_sample_region :: "'f float_ops \<Rightarrow> string \<Rightarrow> 'f radial_sample_region result" where
  "parse_radial_sample_region F source =
     rbind (required_string source ''kind'' ''radial_cooldown sample requires kind'') (\<lambda>kind.
       if kind = ''clock_probe''
       then rbind (field_f32 F source ''angle_deg'') (\<lambda>a.
            rbind (ok_or ''clock_probe requires angle_deg'' a) (\<lambda>angle_deg.
            rbind (parse_required_u32 source ''radius_px'') (\<lambda>radius_px.
            rbind (parse_required_u32 source ''w'') (\<lambda>w.
            rbind (parse_required_u32 source ''h'') (\<lambda>h.
              Ok (ClockProbe angle_deg radius_px w h))))))
       else if kind = ''annulus_arc''
       then rbind (parse_required_u32 source ''inner_radius_px'') (\<lambda>inner.
            rbind (parse_required_u32 source ''outer_radius_px'') (\<lambda>outer.
            rbind (field_f32 F source ''start_deg'') (\<lambda>s.
            rbind (ok_or ''annulus_arc requires start_deg'' s) (\<lambda>start_deg.
            rbind (field_f32 F source ''end_deg'') (\<lambda>e.
            rbind (ok_or ''annulus_arc requires end_deg'' e) (\<lambda>end_deg.
              Ok (AnnulusArc inner outer start_deg end_deg)))))))
       else if kind = ''aggregate_mask'' then Ok AggregateMask
       else validation_error (''unknown radial_cooldown sample kind '' @ quoted kind))"

definition parse_rule_metric :: "string \<Rightarrow> radial_rule_metric result" where
  "parse_rule_metric source =
     (let v = unwrap_or (field_string source ''metric'') ''average''
      in if v = ''average'' then Ok Average
         else if v = ''bright_ratio'' then Ok BrightRatio
         else validation_error (''unsupported radial_cooldown metric '' @ quoted v))"

definition parse_progress_fill :: "string \<Rightarrow> radial_progress_fill result" where
  "parse_progress_fill source =
     rbind (required_string source ''progress_fill''
              ''radial_cooldown phase requires progress_fill'') (\<lambda>v.
       if v = ''empty'' then Ok Empty
       else if v = ''fraction'' then Ok Fraction
       else if v = ''full'' then Ok Full
       else validation_error (''unsupported radial_cooldown progress_fill '' @ quoted v))"

definition parse_radial_phase_rule ::
  "'f float_ops \<Rightarrow> radial_cooldown_phase \<Rightarrow> string \<Rightarrow> 'f radial_phase_rule result" where
  "parse_radial_phase_rule F phase source =
     rbind (reject_fields ''radial_cooldown phase style'' [''fill'', ''background'', ''opacity'']
              source) (\<lambda>_.
     rbind (required_body source ''sample'' ''radial_cooldown phase requires sample'') (\<lambda>body.
     rbind (parse_radial_sample_region F body) (\<lambda>sample.
     rbind (parse_optional_u8 source ''min_luminance_percent'' 100) (\<lambda>min_luminance.
     rbind (parse_optional_u8 source ''max_luminance_percent'' 100) (\<lambda>max_luminance.
     rbind (parse_optional_u8 source ''min_saturation'' 255) (\<lambda>min_saturation.
     rbind (parse_optional_u8 source ''max_saturation'' 255) (\<lambda>max_saturation.
     rbind (parse_rule_metric source) (\<lambda>metric.
     rbind (field_f32 F source ''metric_scale'') (\<lambda>metric_scale.
     rbind (parse_progress_fill source) (\<lambda>progress_fill.
     rbind (field_f32 F source ''max_fill_until_ready'') (\<lambda>max_fill.
       Ok \<lparr>pr_phase = phase, pr_sample = sample, pr_min_luminance_percent = min_luminance,
           pr_max_luminance_percent = max_luminance, pr_min_saturation = min_saturation,
           pr_max_saturation = max_saturation, pr_metric = metric, pr_metric_scale = metric_scale,
           pr_progress_fill = progress_fill, pr_max_fill_until_ready = max_fill\<rparr>)))))))))))"

definition parse_phase_entry :: "'f float_ops \<Rightarrow> string \<Rightarrow> string \<Rightarrow> 'f radial_phase_rule result" where
  "parse_phase_entry F source phase_name =
     rbind (parse_radial_phase_name phase_name) (\<lambda>phase.
     rbind (required_body source phase_name
              (''radial_cooldown phase '' @ quoted phase_name @ '' is not defined'')) (\<lambda>body.
       parse_radial_phase_rule F phase body))"

definition parse_radial_cooldown_phases ::
  "'f float_ops \<Rightarrow> string \<Rightarrow> 'f radial_cooldown_phases result" where
  "parse_radial_cooldown_phases F source =
     rbind (required_body source ''order'' ''radial_cooldown phases requires order'') (\<lambda>order_body.
       let v = unwrap_or (field_string source ''fallback'') ''unknown''
       in if v \<noteq> ''unknown''
          then validation_error (''unsupported radial_cooldown fallback '' @ quoted v)
          else rbind (collect_results (parse_phase_entry F source) (quoted_strings order_body))
                 (\<lambda>rules. phases_new rules radial_cooldown_phase.Unknown))"

definition parse_radial_cooldown_prediction :: "string \<Rightarrow> cooldown_prediction result" where
  "parse_radial_cooldown_prediction source =
     rbind (field_u64 source ''duration_ms'') (\<lambda>d.
     rbind (ok_or ''radial_cooldown prediction requires duration_ms'' d) (\<lambda>duration_ms.
     rbind (field_u64 source ''stable_after_ms'') (\<lambda>stable_after.
       prediction_new duration_ms (unwrap_or stable_after 0))))"

definition parse_radial_detector :: "'f float_ops \<Rightarrow> roi \<Rightarrow> string \<Rightarrow> 'f detector_definition result" where
  "parse_radial_detector F r source =
     rbind (table_body_field_after source ''mask'') (\<lambda>mask_body.
     rbind (map_transpose parse_circular_mask mask_body) (\<lambda>m.
     rbind (required_body source ''phases'' ''radial_cooldown detector requires phases'') (\<lambda>body.
     rbind (parse_radial_cooldown_phases F body) (\<lambda>base.
     rbind (table_body_field_after source ''prediction'') (\<lambda>prediction_body.
     rbind (case prediction_body of
              None \<Rightarrow> Ok base
            | Some b \<Rightarrow> rbind (parse_radial_cooldown_prediction b) (phases_with_prediction base))
       (\<lambda>phases.
     rbind (phases_validate_for_roi F phases r) (\<lambda>_.
       Ok (RadialCooldown r m phases))))))))"

definition parse_progress_detector :: "roi \<Rightarrow> string \<Rightarrow> 'f detector_definition result" where
  "parse_progress_detector r source =
     rbind (required_body source ''fill'' ''horizontal_progress_bar detector requires fill'')
       (\<lambda>fill_body.
         let v = unwrap_or (field_string fill_body ''direction'') ''left_to_right''
         in if v = ''left_to_right'' then Ok (HorizontalProgressBar r LeftToRight)
            else validation_error (''unsupported progress fill direction '' @ quoted v))"

definition parse_state_detector :: "'f float_ops \<Rightarrow> string \<Rightarrow> 'f detector_definition result" where
  "parse_state_detector F source =
     rbind (required_string source ''kind'' ''state tracker detector requires kind'') (\<lambda>kind.
     rbind (required_body source ''roi'' ''state tracker detector requires roi'') (\<lambda>roi_body.
     rbind (parse_roi roi_body) (\<lambda>r.
       if kind = ''radial_cooldown'' then parse_radial_detector F r source
       else if kind = ''horizontal_progress_bar'' then parse_progress_detector r source
       else validation_error (''unknown state tracker detector kind '' @ quoted kind))))"

section \<open>Trackers\<close>

definition parse_state_tracker_condition :: "string \<Rightarrow> tracker_condition result" where
  "parse_state_tracker_condition source =
     rbind (required_string source ''tracker'' ''state tracker condition requires tracker'')
       (\<lambda>tracker.
     rbind (required_string source ''phase'' ''state tracker condition requires phase'') (\<lambda>name.
     rbind (parse_radial_phase_name name) (condition_radial_phase tracker)))"

definition parse_state_tracker_definition ::
  "'f float_ops \<Rightarrow> string \<Rightarrow> string \<Rightarrow> 'f tracker_definition result" where
  "parse_state_tracker_definition F full_source source =
     rbind (reject_fields ''state tracker''
              [''emits'', ''fixture'', ''source'', ''callback'', ''macro''] source) (\<lambda>_.
     rbind (required_string source ''id'' ''state tracker requires id'') (\<lambda>i.
     rbind (parse_controller_capabilities source) (\<lambda>capabilities.
     rbind (field_u64 source ''poll_ms'') (\<lambda>ms.
     rbind (ok_or ''state tracker requires poll_ms'' ms) (\<lambda>poll_ms.
     rbind (parse_state_tracker_scope source full_source) (\<lambda>scope.
     rbind (required_body source ''detector'' ''state tracker requires detector'') (\<lambda>detector_body.
     rbind (parse_state_detector F detector_body) (\<lambda>detector.
     rbind (tracker_definition_new i scope
              (unwrap_or capabilities (capability_set_new [ScreenRead])) poll_ms detector) (\<lambda>tracker.
     rbind (table_body_field_after source ''when'') (\<lambda>condition_body. case condition_body of
        None \<Rightarrow> Ok tracker
      | Some b \<Rightarrow> rbind (parse_state_tracker_condition b) (\<lambda>c. Ok (only_when tracker c))))))))))))"

definition parse_state_tracker_definition_set :: "'f float_ops \<Rightarrow> string \<Rightarrow> 'f tracker_set result" where
  "parse_state_tracker_definition_set F source =
     rbind (controller_context_name source) (\<lambda>ctx.
     rbind (parse_api_tables (controller_api_name ctx ''.state.track'') ''table''
              (parse_state_tracker_definition F source) source)
       tracker_set_new)"

section \<open>Overlays\<close>

definition parse_overlay_rect :: "string \<Rightarrow> overlay_rect result" where
  "parse_overlay_rect source =
     rbind (field_i64 source ''x'') (\<lambda>x.
     rbind (field_i64 source ''y'') (\<lambda>y.
     rbind (field_i64 source ''w'') (\<lambda>w'.
     rbind (ok_or ''overlay rect requires w'' w') (\<lambda>w.
     rbind (field_i64 source ''h'') (\<lambda>h'.
     rbind (ok_or ''overlay rect requires h'' h') (\<lambda>h.
       overlay_rect_new (unwrap_or x 0) (unwrap_or y 0) w h))))))"

definition parse_overlay_style :: "'f float_ops \<Rightarrow> string \<Rightarrow> 'f overlay_style result" where
  "parse_overlay_style F source =
     rbind (field_f32 F source ''opacity'') (\<lambda>opacity.
       overlay_style_new F (field_string source ''fill'') (field_string source ''background'')
         opacity (or_else (field_bool source ''label_visible'') (field_bool source ''visible'')))"

definition parse_style_field :: "'f float_ops \<Rightarrow> string \<Rightarrow> string \<Rightarrow> 'f overlay_style option result" where
  "parse_style_field F source field =
     rbind (table_body_field_after source field) (map_transpose (parse_overlay_style F))"

definition parse_progress_bar :: "'f float_ops \<Rightarrow> string \<Rightarrow> 'f visual_definition result" where
  "parse_progress_bar F source =
     rbind (required_body source ''bind'' ''overlay progress_bar requires bind'') (\<lambda>bind_body.
     rbind (required_string bind_body ''tracker'' ''overlay binding requires tracker'') (\<lambda>tracker.
     rbind (required_string bind_body ''field'' ''overlay binding requires field'') (\<lambda>f.
     rbind (field_parse f) (\<lambda>field.
     rbind (required_body source ''rect'' ''overlay progress_bar requires rect'') (\<lambda>rect_body.
     rbind (required_string source ''id'' ''overlay visual requires id'') (\<lambda>i.
     rbind (state_binding_new tracker field) (\<lambda>binding.
     rbind (parse_overlay_rect rect_body) (\<lambda>rect.
     rbind (field_f32 F source ''opacity'') (\<lambda>opacity.
     rbind (required_string source ''fill'' ''overlay progress_bar requires fill'') (\<lambda>fill.
     rbind (required_string source ''background'' ''overlay progress_bar requires background'')
       (\<lambda>background.
     rbind (table_body_field_after source ''label'') (\<lambda>label_body.
     rbind (parse_style_field F source ''ready'') (\<lambda>ready.
     rbind (parse_style_field F source ''activated'') (\<lambda>activated.
     rbind (parse_style_field F source ''active'') (\<lambda>active.
     rbind (parse_style_field F source ''inactive'') (\<lambda>inactive.
     rbind (progress_bar_visual_new F i binding rect (unwrap_or opacity (fl_literal F 1 1)) fill
              background
              (unwrap_or (Option.bind label_body (\<lambda>b. field_bool b ''visible'')) False)
              ready activated active inactive) (\<lambda>v.
       Ok (ProgressBar v))))))))))))))))))"

definition parse_overlay_visual :: "'f float_ops \<Rightarrow> string \<Rightarrow> 'f visual_definition result" where
  "parse_overlay_visual F source =
     rbind (reject_fields ''overlay visual''
              [''callback'', ''macro'', ''screen'', ''input'', ''compositor'', ''network''] source)
       (\<lambda>_.
     rbind (required_string source ''kind'' ''overlay visual requires kind'') (\<lambda>kind.
       if kind = ''progress_bar'' then parse_progress_bar F source
       else validation_error (''unsupported overlay visual kind '' @ quoted kind)))"

definition parse_overlay_toggle_hotkey :: "string \<Rightarrow> overlay_toggle_hotkey option result" where
  "parse_overlay_toggle_hotkey source =
     (if \<not> has_top_level_field source ''hotkey'' then Ok None
      else
        rbind (required_body source ''hotkey'' ''overlay hotkey must use table constructor'')
          (\<lambda>hotkey_body.
        rbind (required_string hotkey_body ''trigger'' ''overlay hotkey requires trigger'')
          (\<lambda>trigger.
        rbind (hotkey_parse trigger) (\<lambda>h.
        rbind (binding_mode_parse (field_string hotkey_body ''mode'')) (\<lambda>mode.
          Ok (Some \<lparr>ot_trigger = h, ot_mode = mode\<rparr>))))))"

definition parse_overlay_definition ::
  "'f float_ops \<Rightarrow> string \<Rightarrow> string \<Rightarrow> 'f overlay_definition result" where
  "parse_overlay_definition F full_source source =
     rbind (reject_fields ''overlay''
              [''callback'', ''macro'', ''screen'', ''screen_buffer'', ''input'', ''device'',
               ''compositor'', ''portal'', ''permission'', ''filesystem'', ''network''] source) (\<lambda>_.
     rbind (required_string source ''id'' ''overlay requires id'') (\<lambda>i.
     rbind (required_string source ''provider'' ''overlay requires provider'') (\<lambda>p.
     rbind (provider_parse p) (\<lambda>provider.
     rbind (surface_parse (field_string source ''surface'')) (\<lambda>surface_kind.
     rbind (parse_overlay_toggle_hotkey source) (\<lambda>toggle_hotkey.
     rbind (parse_overlay_scope source full_source) (\<lambda>scope.
     rbind (required_body source ''visuals'' ''overlay requires visuals'') (\<lambda>visuals_body.
     rbind (collect_results (parse_overlay_visual F) (top_level_tables visuals_body)) (\<lambda>visuals.
       overlay_definition_new i scope surface_kind provider toggle_hotkey visuals)))))))))"

definition parse_overlay_definition_set ::
  "'f float_ops \<Rightarrow> string \<Rightarrow> 'f tracker_set \<Rightarrow> 'f overlay_set result" where
  "parse_overlay_definition_set F source trackers =
     rbind (controller_context_name source) (\<lambda>ctx.
     rbind (parse_api_tables (controller_api_name ctx ''.overlay.mount'') ''table''
              (parse_overlay_definition F source) source)
       (\<lambda>overlays. overlay_set_new overlays trackers))"

section \<open>Programs\<close>

text \<open>
  \<open>evaluate\<close> is the interpreter with the validation API: it loads the rewritten source, calls the
  function it returns, and gives the message of the error that ended the run, if one did.
\<close>

definition controller_lua_error :: "string \<Rightarrow> diagnosable_error" where
  "controller_lua_error message = diagnosable_error_new ScriptValidation
     (''Lua controller sandbox rejected source: '' @ message)"

definition validate_controller_sandbox :: "(string \<Rightarrow> string option) \<Rightarrow> string \<Rightarrow> unit result" where
  "validate_controller_sandbox evaluate source =
     rbind (controller_context_name source) (\<lambda>_.
       case evaluate (lua_compatible_controller_source source) of
         Some message \<Rightarrow> Err (controller_lua_error message)
       | None \<Rightarrow> Ok ())"

definition load_lua_controller_source ::
  "(string \<Rightarrow> string option) \<Rightarrow> string \<Rightarrow> registration_set result" where
  "load_lua_controller_source evaluate source =
     rbind (validate_controller_sandbox evaluate source) (\<lambda>_.
       parse_controller_registration_set source)"

definition load_lua_controller_program_source ::
  "'f float_ops \<Rightarrow> (string \<Rightarrow> string option) \<Rightarrow> string \<Rightarrow> 'f controller_program result" where
  "load_lua_controller_program_source F evaluate source =
     rbind (validate_controller_sandbox evaluate source) (\<lambda>_.
     rbind (reject_legacy_controller_runtime_options source) (\<lambda>_.
     rbind (parse_controller_registration_set source) (\<lambda>registrations.
     rbind (parse_state_tracker_definition_set F source) (\<lambda>trackers.
     rbind (parse_overlay_definition_set F source trackers) (\<lambda>overlays.
     rbind (parse_controller_runtime_options source) (\<lambda>(provider, leader).
     rbind (parse_controller_callbacks source) (\<lambda>callbacks.
     rbind (controller_program_new registrations callbacks) (\<lambda>program.
       Ok (with_runtime_options provider leader
             (with_overlay_definitions overlays (with_state_trackers trackers program)))))))))))"

text \<open>The files of a controller, read as one source; \<open>None\<close> when the walk over the imports never ends.\<close>

definition load_lua_controller_file ::
  "file_system \<Rightarrow> (string \<Rightarrow> string option) \<Rightarrow> path \<Rightarrow> registration_set result option" where
  "load_lua_controller_file fs evaluate p =
     map_option (\<lambda>r. rbind r (load_lua_controller_source evaluate))
       (load_controller_source_tree_file fs p)"

definition load_lua_controller_program_file ::
  "file_system \<Rightarrow> 'f float_ops \<Rightarrow> (string \<Rightarrow> string option) \<Rightarrow> path
   \<Rightarrow> 'f controller_program result option" where
  "load_lua_controller_program_file fs F evaluate p =
     map_option (\<lambda>r. rbind r (load_lua_controller_program_source F evaluate))
       (load_controller_source_tree_file fs p)"

definition load_lua_controller_runtime_source_file ::
  "file_system \<Rightarrow> 'f float_ops \<Rightarrow> (string \<Rightarrow> string option) \<Rightarrow> path \<Rightarrow> string result option" where
  "load_lua_controller_runtime_source_file fs F evaluate p =
     map_option (\<lambda>r. rbind r (\<lambda>source.
         rbind (load_lua_controller_program_source F evaluate source) (\<lambda>_. Ok source)))
       (load_controller_source_tree_file fs p)"

end
