(* ===== verification/LuaProperties.thy ===== *)
theory LuaProperties imports LuaConfigLaws LuaScreens LuaSources TrackerProperties begin

text \<open>
  What the Lua sandbox promises: the tables, values and names it finds in the text of a script, the
  configurations and programs it accepts, and the sources it loads.
\<close>

section \<open>The text of a script\<close>

text \<open>
  C15: The end that \<open>matching_brace\<close> finds for a brace closes a balanced text, where braces in
  quoted texts do not count; and every balanced text is closed there.
\<close>

theorem tables_end_where_balanced:
  "matching_brace (u @ open_brace # s) (length u) = Some e \<longleftrightarrow>
     (\<exists>b v. s = b @ close_brace # v \<and> balanced b \<and> e = Suc (length u + length b))"
  by (rule matching_brace_iff)

text \<open>
  The bodies of a list of tables are read back from its text, whatever stands between the tables
  that is not an opening brace.
\<close>

theorem rendered_tables_are_read:
  assumes "\<forall>(u, b)\<in>set entries. open_brace \<notin> set u \<and> balanced b" and "open_brace \<notin> set v"
  shows "top_level_tables
      (concat (map (\<lambda>(u, b). u @ open_brace # b @ [close_brace]) entries) @ v) = map snd entries"
  using assms by (rule top_level_tables_rendered)

theorem rendered_tables_are_read_witness:
  "top_level_tables ([CHR ''a'', open_brace, dquote, close_brace, dquote, close_brace] @ [CHR '','']
      @ [open_brace, open_brace, close_brace, close_brace] @ [CHR '','']) =
     [[dquote, close_brace, dquote], [open_brace, close_brace]]"
proof -
  have "balanced [dquote, close_brace, dquote]"
    using balanced_string [of "[close_brace]" "[]"] by (simp add: balanced_Nil)
  moreover have "balanced [open_brace, close_brace]"
    using balanced_table [of "[]" "[]"] by (simp add: balanced_Nil)
  ultimately show ?thesis
    using rendered_tables_are_read [of "[([CHR ''a''], [dquote, close_brace, dquote]),
        ([CHR '',''], [open_brace, close_brace])]" "[CHR '','']"] by simp
qed

text \<open>
  The values of a list of quoted texts are read back, unless a value also occurs in what
  separates it from the value before.
\<close>

theorem quoted_values_are_read:
  assumes "\<forall>(u, v)\<in>set es. dquote \<notin> set u \<and> dquote \<notin> set v \<and> \<not> sublist v u" and "dquote \<notin> set w"
  shows "quoted_strings (concat (map (\<lambda>(u, v). u @ dquote # v @ [dquote]) es) @ w) = map snd es"
  using assms by (rule quoted_strings_rendered)

theorem quoted_values_are_read_witness:
  "quoted_strings ([dquote] @ ''kate'' @ [dquote] @ '', '' @ [dquote] @ ''konsole'' @ [dquote]) =
     [''kate'', ''konsole'']"
  using quoted_values_are_read [of "[([], ''kate''), ('', '', ''konsole'')]" "[]"]
  by (simp add: sublist_code)

text \<open>A value that occurs in a separator is read twice.\<close>

lemma separator_values_are_read_twice:
  "quoted_strings ([dquote] @ ''a'' @ [dquote] @ '','' @ [dquote] @ '','' @ [dquote] @ '','' @ [dquote]
     @ ''b'' @ [dquote]) = [''a'', '','', '','', ''b'']"
  by code_simp



text \<open>
  A long bracket with an equals sign and a comment of several lines are not seen as such: a quote in
  the first hides what follows it, and the second is searched from its second line on.
\<close>

lemma long_bracket_hides_code:
  "\<not> contains_denied_token (''[=['' @ [dquote] @ '']=] os.time()'') ''os.''"
  by code_simp

lemma comment_lines_are_searched:
  "contains_denied_token (''--[[ '' @ [newline] @ ''os. ]]'') ''os.''"
  by code_simp

section \<open>Declarative sources\<close>


definition click_source :: string where
  "click_source = ''return { presses = { { trigger = '' @ [dquote] @ ''<LClick>'' @ [dquote]
     @ '', macro = macro {'' @ [newline] @ ''text '' @ [dquote] @ ''hi'' @ [dquote] @ [newline]
     @ ''} } } }''"

lemma click_source_loads:
  "load_lua_source click_source = Inr
     \<lparr>lc_scope = None, lc_leader = None, lc_defaults = \<lparr>ad_inter_action_delay_ms = 0\<rparr>,
      lc_input_provider = None, lc_bindings = [], lc_motions = [],
      lc_presses = [(MouseButton Left, \<lparr>pd_requires_held = [], pd_trigger = MouseButton Left,
         pd_mode = Consume, pd_macro = \<lparr>md_actions = [TextInput ''hi'']\<rparr>,
         pd_inter_action_delay_ms = 0\<rparr>)]\<rparr>"
  by code_simp


text \<open>The tokens of \<open>while_held\<close> are not checked: a loop may wait for a leader that is not configured.\<close>

definition leaderless_loop_source :: string where
  "leaderless_loop_source = ''return { motions = { { trigger = {'' @ [dquote] @ ''<LClick>''
     @ [dquote] @ ''}, loop = { while_held = {'' @ [dquote] @ ''<Leader>'' @ [dquote]
     @ ''}, once = macro {'' @ [newline] @ ''text '' @ [dquote] @ ''hi'' @ [dquote] @ [newline]
     @ ''} } } } }''"

lemma leaderless_loop_is_accepted:
  "\<exists>c m l. load_lua_source leaderless_loop_source = Inr c \<and> lc_leader c = None
     \<and> lc_motions c = [([MouseButton Left], m)] \<and> mo_loop m = Some l \<and> ld_while_held l = [Leader]"
proof -
  have "map_sum id (\<lambda>c. (lc_leader c, map (\<lambda>(t, m). (t, map_option ld_while_held (mo_loop m)))
      (lc_motions c))) (load_lua_source leaderless_loop_source)
    = Inr (None, [([MouseButton Left], Some [Leader])])"
    by code_simp
  then show ?thesis
    by (cases "load_lua_source leaderless_loop_source") (auto simp: map_eq_Cons_conv)
qed

section \<open>Controller programs\<close>

lemma check_registered_callbacks_Ok:
  "check_registered_callbacks cbs rs = Inr u \<Longrightarrow> \<forall>r\<in>set rs. bm_contains cbs (cg_callback r)"
  by (induction rs) (auto simp: program_error_def split: if_splits)

lemma controller_program_new_fields:
  assumes "controller_program_new registrations callbacks = Inr p"
  shows "cp_registrations p = registrations
     \<and> (\<forall>r\<in>set (rg_registrations registrations). bm_contains (cp_callbacks p) (cg_callback r))"
  using assms
  by (auto simp: controller_program_new_def Let_def dest: check_registered_callbacks_Ok)

lemma runtime_options_leader:
  "parse_controller_runtime_options s = Inr (provider, leader) \<Longrightarrow>
     (case leader of None \<Rightarrow> True | Some t \<Rightarrow> is_key_token t)"
  by (auto simp: parse_controller_runtime_options_def split: option.splits)
    (use parse_leader_ok in fastforce)


definition shutdown_source :: string where
  "shutdown_source = ''return function(aura)'' @ [newline]
     @ ''aura.shutdown({ callback = '' @ [dquote] @ ''bye'' @ [dquote] @ '' })'' @ [newline]
     @ ''aura.callback('' @ [dquote] @ ''bye'' @ [dquote] @ '', function()'' @ [newline]
     @ ''aura.input.text('' @ [dquote] @ ''hi'' @ [dquote] @ '')'' @ [newline]
     @ ''end)'' @ [newline] @ ''end''"

lemma shutdown_source_loads:
  "\<exists>p. load_lua_controller_program_source int_floats (\<lambda>_. None) shutdown_source = Inr p
     \<and> cp_callbacks p = [(''bye'', \<lparr>cb_name = ''bye'', cb_actions = [TextInput ''hi'']\<rparr>)]
     \<and> map cg_trigger (rg_registrations (cp_registrations p)) = [''shutdown'']"
proof -
  have "map_sum id (\<lambda>p. (cp_callbacks p, map cg_trigger (rg_registrations (cp_registrations p))))
      (load_lua_controller_program_source int_floats (\<lambda>_. None) shutdown_source)
    = Inr ([(''bye'', \<lparr>cb_name = ''bye'', cb_actions = [TextInput ''hi'']\<rparr>)], [''shutdown''])"
    by code_simp
  then show ?thesis
    by (cases "load_lua_controller_program_source int_floats (\<lambda>_. None) shutdown_source") auto
qed


text \<open>An overlay whose provider is written before its id takes the provider for its id.\<close>

lemma id_is_found_in_provider:
  "field_string (''provider = '' @ [dquote] @ ''native'' @ [dquote] @ '', id = '' @ [dquote]
     @ ''hp'' @ [dquote]) ''id'' = Some ''native''"
  by code_simp

text \<open>A closing brace in a quoted text ends the table of a call.\<close>

lemma quoted_brace_ends_table:
  "matching_table_end ([open_brace, dquote, close_brace, dquote, close_brace]) = Some 2
   \<and> matching_brace ([open_brace, dquote, close_brace, dquote, close_brace]) 0 = Some 4"
  by code_simp

text \<open>The sizes of a region are cut to 32 bits.\<close>

lemma wide_region_is_accepted:
  "parse_roi ''w = 4294967297, h = 3'' = Inr \<lparr>roi_x = 0, roi_y = 0, roi_w = 1, roi_h = 3\<rparr>"
  by code_simp

text \<open>An apostrophe in a comment stops the rewriting of keyword keys.\<close>

lemma apostrophe_stops_rewriting:
  "lua_compatible_controller_source (''-- it'' @ [squote] @ ''s'' @ [newline] @ ''x = { repeat = 1 }'')
     = ''-- it'' @ [squote] @ ''s'' @ [newline] @ ''x = { repeat = 1 }''
   \<and> lua_compatible_controller_source ''x = { repeat = 1 }''
     = ''x = { ['' @ [dquote] @ ''repeat'' @ [dquote] @ ''] = 1 }''"
  by code_simp

section \<open>Source trees\<close>

text \<open>
  C16: Where finitely many files can be read, the sources of a controller are loaded or refused, also
  when files import each other.
\<close>

theorem source_trees_are_loaded:
  assumes "finite {q. is_ok (fs_read fs q)}"
  shows "\<exists>r. load_controller_source_tree_file fs p = Some r"
  using assms by (rule load_source_tree_returns)

text \<open>Two files that import each other.\<close>

definition cycle_files :: file_system where
  "cycle_files = \<lparr>fs_canonicalize = (\<lambda>p. if p = [] then Inl ''No such file'' else Inr p),
     fs_read = (\<lambda>p. if p = ''/d/a.lua'' then Inr (''aura.import('' @ [dquote] @ ''b'' @ [dquote] @ '')'')
       else if p = ''/d/b.lua'' then Inr (''aura.import('' @ [dquote] @ ''a'' @ [dquote] @ '')'')
       else Inl ''No such file'')\<rparr>"

theorem source_trees_are_loaded_witness:
  "\<exists>r. load_controller_source_tree_file cycle_files ''/d/a.lua'' = Some r"
proof (rule source_trees_are_loaded)
  have "{q. is_ok (fs_read cycle_files q)} \<subseteq> {''/d/a.lua'', ''/d/b.lua''}"
    by (auto simp: cycle_files_def split: if_splits)
  then show "finite {q. is_ok (fs_read cycle_files q)}"
    by (rule finite_subset) simp
qed

text \<open>
  C17: Every file that is read lies under the canonical directory of the script and is read once.
\<close>

theorem sources_stay_under_root:
  assumes "load_controller_source_tree fs p root [] = Some (visited, r)"
    and "fs_canonicalize fs root = Inr croot" and "fs_canonicalize fs croot = Inr croot"
  shows "distinct visited \<and> (\<forall>q\<in>set visited. path_starts_with q croot)"
  using load_source_tree_confined [OF assms] by (simp add: confined_def)

theorem sources_stay_under_root_witness:
  "\<exists>visited r. load_controller_source_tree cycle_files ''/d/c.lua'' ''/d'' [] = Some (visited, r)
     \<and> distinct visited \<and> list_all (\<lambda>q. path_starts_with q ''/d'') visited"
proof -
  have e: "enter_source cycle_files ''/d/c.lua'' ''/d'' [] = ([''/d/c.lua''],
      Inl (load_error ''cannot read Lua controller file '' ''/d/c.lua'' ''No such file''))"
    by code_simp
  then have "load_controller_source_tree cycle_files ''/d/c.lua'' ''/d'' [] = Some ([''/d/c.lua''],
      Inl (load_error ''cannot read Lua controller file '' ''/d/c.lua'' ''No such file''))"
    by (simp add: load_controller_source_tree_def)
  then show ?thesis
    using sources_stay_under_root [of cycle_files "''/d/c.lua''" "''/d''"]
    by (auto simp: cycle_files_def list_all_iff)
qed

text \<open>
  A controller that is named without a directory is refused where the empty path cannot be
  resolved: its parent is the empty path, not the current directory.
\<close>

theorem bare_file_names_are_refused:
  assumes "p \<noteq> []" and "CHR ''/'' \<notin> set p" and "fs_canonicalize fs [] = Inl message"
  shows "\<exists>e. load_controller_source_tree_file fs p = Some (Inl e) \<and> er_phase e = ScriptLoad"
proof -
  have "\<not> is_absolute p" using assms(2) by (cases p) (auto simp: is_absolute_def)
  moreover have "rfind_str ''/'' p = None" using assms(2) by (induction p) auto
  ultimately have "path_parent p = Some []" using assms(1) by (simp add: path_parent_def)
  then show ?thesis
    using assms(3)
    by (simp add: load_controller_source_tree_file_def load_controller_source_tree_def
        enter_source_def load_error_def diagnosable_error_new_def)
qed

theorem bare_file_names_are_refused_witness:
  "\<exists>e. load_controller_source_tree_file cycle_files ''poe2.lua'' = Some (Inl e)
     \<and> er_phase e = ScriptLoad"
  by (rule bare_file_names_are_refused [of _ _ "''No such file''"]) (simp_all add: cycle_files_def)

end
