(* ===== verification/Blocking.thy ===== *)
theory Blocking imports ControllerLoop begin

text \<open>
  The blocking lifecycles of \<open>signal-auras-cli/src/runner.rs\<close>: \<open>run_lifecycle\<close> takes the events of
  a \<open>RunnerLifecycle\<close> one at a time and executes a macro to its end before it takes the next one;
  \<open>run_controller_lifecycle\<close> schedules the callbacks of a controller and drains them after each
  event.

  Of the adapter only the clocks, the focus and the execution of a request are used; the source of
  the events and \<open>thread::sleep\<close> are the record \<open>runner_host\<close>. Lines of the log are left out.
\<close>

section \<open>Events\<close>

datatype runner_event =
    Hotkey hotkey_id
  | Callback hotkey_id instant
  | Trigger binding_trigger
  | MotionInput motion_input_event
  | ObservedMotionInput motion_input_event kernel_event_timestamp instant
  | MotionRepeatTick motion_trigger
  | TimerElapsed
  | Shutdown shutdown_reason
  | RuntimeError diagnosable_error

record 'w runner_host =
  rh_next_event :: "'w \<Rightarrow> 'w \<times> runner_event result"
  rh_sleep :: "duration \<Rightarrow> 'w \<Rightarrow> 'w"

text \<open>\<open>ImmediateShutdown\<close>.\<close>

definition immediate_shutdown :: "'w \<Rightarrow> 'w \<times> runner_event result" where
  "immediate_shutdown w = (w, Ok (runner_event.Shutdown CtrlC))"

record ('w, 't) blocking_state = "('w, 't) live_core" +
  bk_scheduler :: macro_scheduler

type_synonym ('w, 't, 'a) blocking_effect =
  "(('w, 't) blocking_state, diagnosable_error, 'a) effect"

section \<open>Executing a macro\<close>

text \<open>
  The closure of \<open>execute_macro_definition\<close>: \<open>sequence\<close> counts the requests from 1, and an emission
  other than \<open>Emitted\<close> is an error. It acts on the sequence and the state of the run.
\<close>

definition execute_request ::
  "('w, 't) live_adapter \<Rightarrow> macro_action \<Rightarrow> nat \<times> ('w, 't) blocking_state
   \<Rightarrow> (nat \<times> ('w, 't) blocking_state) \<times> unit result" where
  "execute_request A action ns =
     (case ns of (sequence, s) \<Rightarrow>
        (case ad_execute_input_request A (synthesized_input_request_new action (sequence + 1))
                (lc_world s) of
           (w, Inl e) \<Rightarrow> ((sequence + 1, s\<lparr>lc_world := w\<rparr>), Err e)
         | (w, Inr emission) \<Rightarrow>
             (case emission_result emission (lc_stats s) of
                (st, r) \<Rightarrow> ((sequence + 1, s\<lparr>lc_world := w, lc_stats := st\<rparr>), r))))"

definition sleep_for ::
  "'w runner_host \<Rightarrow> duration \<Rightarrow> nat \<times> ('w, 't) blocking_state \<Rightarrow> nat \<times> ('w, 't) blocking_state"
  where
  "sleep_for H d ns = (case ns of (n, s) \<Rightarrow> (n, s\<lparr>lc_world := rh_sleep H d (lc_world s)\<rparr>))"

definition execute_macro_definition ::
  "('w, 't) live_adapter \<Rightarrow> 'w runner_host \<Rightarrow> macro_definition \<Rightarrow> nat
   \<Rightarrow> ('w, 't) blocking_state \<Rightarrow> ('w, 't) blocking_state \<times> unit result" where
  "execute_macro_definition A H d inter_action_delay_ms s =
     (case execute_plan_with_inter_action_delay (sleep_for H) d inter_action_delay_ms
             (execute_request A) (0, s) of
        ((_, s1), r) \<Rightarrow> (s1, r))"

definition count_macro_result :: "unit result \<Rightarrow> runtime_stats \<Rightarrow> runtime_stats" where
  "count_macro_result r st =
     (case r of
        Inr _ \<Rightarrow> st\<lparr>rs_macro_success_count := rs_macro_success_count st + 1\<rparr>
      | Inl _ \<Rightarrow> st\<lparr>rs_macro_failure_count := rs_macro_failure_count st + 1\<rparr>)"

text \<open>
  The label is entered into the scheduler for the time of the execution; a label that is running
  already is counted as skipped. The end of \<open>handle_trigger_with_context\<close> does the same with a
  delay of 0.
\<close>

definition execute_motion_macro ::
  "('w, 't) live_adapter \<Rightarrow> 'w runner_host \<Rightarrow> string \<Rightarrow> macro_definition \<Rightarrow> nat
   \<Rightarrow> ('w, 't, unit) blocking_effect" where
  "execute_motion_macro A H label d inter_action_delay_ms = stry (\<lambda>s.
     case scheduler_begin (bk_scheduler s) label of
       (sch, Inl _) \<Rightarrow>
         (s\<lparr>bk_scheduler := sch, lc_stats := record_non_repeat_collision_skip (lc_stats s)\<rparr>, Ok ())
     | (sch, Inr guard) \<Rightarrow>
         (case execute_macro_definition A H d inter_action_delay_ms (s\<lparr>bk_scheduler := sch\<rparr>) of
            (s1, r) \<Rightarrow>
              (s1\<lparr>bk_scheduler := scheduler_finish (bk_scheduler s1) guard,
                  lc_stats := count_macro_result r (lc_stats s1)\<rparr>, r)))"

section \<open>Triggers and presses\<close>

text \<open>\<open>scoped_focus_state\<close> and \<open>runtime_focus_policy\<close> both take the default policy.\<close>

definition when_in_focus ::
  "('w, 't) live_adapter \<Rightarrow> scope_selection \<Rightarrow> active_process_context
   \<Rightarrow> ('w, 't, unit) blocking_effect \<Rightarrow> ('w, 't, unit) blocking_effect" where
  "when_in_focus A scope c m =
     sbind (focus_state A scope c) (\<lambda>state. if \<not> sf_active state then count_denial state else m)"

definition handle_trigger_with_context ::
  "('w, 't) live_adapter \<Rightarrow> 'w runner_host \<Rightarrow> hotkey_binding \<Rightarrow> active_process_context
   \<Rightarrow> ('w, 't, unit) blocking_effect" where
  "handle_trigger_with_context A H b c =
     when_in_focus A (hb_scope b) c
       (sthen (count (count_trigger (trigger_label b) (hb_mode b)))
          (execute_motion_macro A H (trigger_label b) (hb_macro b) 0))"

definition handle_trigger ::
  "('w, 't) live_adapter \<Rightarrow> 'w runner_host \<Rightarrow> hotkey_binding \<Rightarrow> ('w, 't, unit) blocking_effect"
  where
  "handle_trigger A H b =
     sbind (world_try (ad_active_process_context A)) (handle_trigger_with_context A H b)"

definition handle_press_with_context ::
  "('w, 't) live_adapter \<Rightarrow> 'w runner_host \<Rightarrow> runtime_press \<Rightarrow> active_process_context
   \<Rightarrow> ('w, 't, unit) blocking_effect" where
  "handle_press_with_context A H p c =
     when_in_focus A (rp_scope p) c
       (sthen (count (count_trigger (press_label p) (pd_mode (rp_definition p))))
          (execute_motion_macro A H (press_label p) (pd_macro (rp_definition p))
             (pd_inter_action_delay_ms (rp_definition p))))"

definition handle_press_input ::
  "('w, 't) live_adapter \<Rightarrow> 'w runner_host \<Rightarrow> motion_input_event \<Rightarrow> runtime_press list
   \<Rightarrow> ('w, 't, unit) blocking_effect" where
  "handle_press_input A H ev presses =
     sbind (sget (\<lambda>s. matching_press ev presses (lc_motion_runtime s))) (\<lambda>press.
       case press of
         None \<Rightarrow> sreturn ()
       | Some p \<Rightarrow>
           sbind (world_try (ad_active_process_context A)) (handle_press_with_context A H p))"

section \<open>Motions\<close>

definition execute_motion_loop_start ::
  "('w, 't) live_adapter \<Rightarrow> 'w runner_host \<Rightarrow> runtime_motion \<Rightarrow> ('w, 't, unit) blocking_effect"
  where
  "execute_motion_loop_start A H m =
     (let d = rm_definition m; ms = mo_inter_action_delay_ms d
      in case mo_loop d of
           None \<Rightarrow> sreturn ()
         | Some l \<Rightarrow>
             (case ld_body l of
                Once body \<Rightarrow>
                  sbind (check (combine_optional_and_required (ld_before l) body)) (\<lambda>def.
                    execute_motion_macro A H (motion_label (mo_trigger d) ''loop_once'') def ms)
              | Repeat _ \<Rightarrow>
                  (case ld_before l of
                     None \<Rightarrow> sreturn ()
                   | Some before \<Rightarrow>
                       execute_motion_macro A H (motion_label (mo_trigger d) ''loop_before'')
                         before ms)))"

definition execute_motion_loop_after ::
  "('w, 't) live_adapter \<Rightarrow> 'w runner_host \<Rightarrow> runtime_motion \<Rightarrow> ('w, 't, unit) blocking_effect"
  where
  "execute_motion_loop_after A H m =
     (case Option.bind (mo_loop (rm_definition m)) ld_after of
        None \<Rightarrow> sreturn ()
      | Some after \<Rightarrow>
          execute_motion_macro A H (motion_label (mo_trigger (rm_definition m)) ''loop_after'') after
            (mo_inter_action_delay_ms (rm_definition m)))"

definition handle_motion_trigger_with_context ::
  "('w, 't) live_adapter \<Rightarrow> 'w runner_host \<Rightarrow> runtime_motion \<Rightarrow> bool \<Rightarrow> active_process_context
   \<Rightarrow> ('w, 't, unit) blocking_effect" where
  "handle_motion_trigger_with_context A H m starts_loop c =
     (let d = rm_definition m; label = trigger_describe (mo_trigger d)
      in when_in_focus A (rm_scope m) c
           (sthen (count (count_trigger label (mo_mode d)))
              (sthen (case mo_macro d of
                        None \<Rightarrow> sreturn ()
                      | Some md \<Rightarrow> execute_motion_macro A H label md (mo_inter_action_delay_ms d))
                 (swhen starts_loop (execute_motion_loop_start A H m)))))"

definition handle_motion_trigger ::
  "('w, 't) live_adapter \<Rightarrow> 'w runner_host \<Rightarrow> runtime_motion \<Rightarrow> bool
   \<Rightarrow> ('w, 't, unit) blocking_effect" where
  "handle_motion_trigger A H m starts_loop =
     sbind (world_try (ad_active_process_context A))
       (handle_motion_trigger_with_context A H m starts_loop)"

definition handle_motion_runtime_event ::
  "('w, 't) live_adapter \<Rightarrow> 'w runner_host \<Rightarrow> runtime_motion list \<Rightarrow> motion_runtime_event
   \<Rightarrow> ('w, 't, unit) blocking_effect" where
  "handle_motion_runtime_event A H motions ev =
     (case ev of
        Triggered t starts_loop \<Rightarrow>
          (case find_motion t motions of
             None \<Rightarrow> sreturn ()
           | Some m \<Rightarrow> handle_motion_trigger A H m starts_loop)
      | LoopCancelled t \<Rightarrow> count record_motion_repeat_cancel
      | MotionDiscarded _ \<Rightarrow> count record_motion_discard)"

definition handle_motion_repeat_tick_with_context ::
  "('w, 't) live_adapter \<Rightarrow> 'w runner_host \<Rightarrow> runtime_motion \<Rightarrow> active_process_context
   \<Rightarrow> ('w, 't, unit) blocking_effect" where
  "handle_motion_repeat_tick_with_context A H m c =
     (case Option.bind (mo_loop (rm_definition m)) loop_repeat_of of
        None \<Rightarrow> sreturn ()
      | Some rep \<Rightarrow>
          when_in_focus A (rm_scope m) c
            (sthen (count (\<lambda>st. record_motion_repeat_tick (record_active_process_match st)))
               (execute_motion_macro A H (motion_label (mo_trigger (rm_definition m)) ''repeat'')
                  (lr_macro rep) (mo_inter_action_delay_ms (rm_definition m)))))"

definition handle_motion_repeat_tick ::
  "('w, 't) live_adapter \<Rightarrow> 'w runner_host \<Rightarrow> runtime_motion \<Rightarrow> ('w, 't, unit) blocking_effect"
  where
  "handle_motion_repeat_tick A H m =
     (if Option.bind (mo_loop (rm_definition m)) loop_repeat_of = None then sreturn ()
      else sbind (world_try (ad_active_process_context A))
             (handle_motion_repeat_tick_with_context A H m))"

section \<open>The lifecycle over macros\<close>

definition trigger_binding ::
  "('w, 't) live_adapter \<Rightarrow> 'w runner_host \<Rightarrow> hotkey_binding list \<Rightarrow> binding_trigger
   \<Rightarrow> ('w, 't, unit) blocking_effect \<Rightarrow> ('w, 't, unit) blocking_effect" where
  "trigger_binding A H bindings t otherwise =
     (case List.find (\<lambda>b. hb_trigger b = t) bindings of
        None \<Rightarrow> otherwise
      | Some b \<Rightarrow> handle_trigger A H b)"

text \<open>The two arms of motion input, after the latency has been recorded.\<close>

definition handle_motion_input ::
  "('w, 't) live_adapter \<Rightarrow> 'w runner_host \<Rightarrow> live_program \<Rightarrow> motion_input_event \<Rightarrow> duration
   \<Rightarrow> ('w, 't, unit) blocking_effect" where
  "handle_motion_input A H p ev event_time =
     sbind (feed_motion_runtime ev event_time) (\<lambda>evs.
       sthen (handle_press_input A H ev (lp_presses p))
         (seach (handle_motion_runtime_event A H (lp_motions p)) evs))"

definition loop_after_of ::
  "('w, 't) live_adapter \<Rightarrow> 'w runner_host \<Rightarrow> runtime_motion list \<Rightarrow> motion_trigger
   \<Rightarrow> ('w, 't, unit) blocking_effect" where
  "loop_after_of A H motions t =
     (case find_motion t motions of
        None \<Rightarrow> sreturn () | Some m \<Rightarrow> execute_motion_loop_after A H m)"

text \<open>One pass of the loop: a reason ends the run.\<close>

definition lifecycle_step ::
  "('w, 't) live_adapter \<Rightarrow> 'w runner_host \<Rightarrow> live_program \<Rightarrow> runner_event
   \<Rightarrow> ('w, 't, shutdown_reason option) blocking_effect" where
  "lifecycle_step A H p ev =
     (case ev of
        runner_event.Hotkey h \<Rightarrow>
          sthen (trigger_binding A H (lp_bindings p) (Keyboard h) (sreturn ())) (sreturn None)
      | runner_event.Callback h received_at \<Rightarrow>
          sthen (count record_callback_received)
         (sbind (read_now A) (\<lambda>now.
          sthen (count (record_callback_dispatched (of_nat (as_millis (now - received_at)))))
            (sthen (trigger_binding A H (lp_bindings p) (Keyboard h) (count record_shortcut_ignored))
               (sreturn None))))
      | runner_event.Trigger t \<Rightarrow>
          sthen (trigger_binding A H (lp_bindings p) t (sreturn ())) (sreturn None)
      | MotionInput e \<Rightarrow>
          sthen (count (\<lambda>st. record_motion_event_age_unavailable (record_motion_input_event 0 st)))
            (sthen (handle_motion_input A H p e 0) (sreturn None))
      | ObservedMotionInput e ts observed_at \<Rightarrow>
          sthen (record_motion_latency_metrics A observed_at ts)
            (sthen (handle_motion_input A H p e
                      (motion_runtime_event_time ts observed_at (lp_motion_time_base p)))
               (sreturn None))
      | MotionRepeatTick t \<Rightarrow>
          sbind (sget (\<lambda>s. loop_is_active (lc_motion_runtime s) t)) (\<lambda>active.
            sthen (if active
                   then (case find_motion t (lp_motions p) of
                           None \<Rightarrow> sreturn () | Some m \<Rightarrow> handle_motion_repeat_tick A H m)
                   else sreturn ())
              (sreturn None))
      | runner_event.Shutdown reason \<Rightarrow>
          sbind end_active_loops (\<lambda>ts.
            sthen (seach (loop_after_of A H (lp_motions p)) ts) (sreturn (Some reason)))
      | RuntimeError e \<Rightarrow> sfail e
      | TimerElapsed \<Rightarrow> sreturn None)"

definition lifecycle_iteration ::
  "('w, 't) live_adapter \<Rightarrow> 'w runner_host \<Rightarrow> live_program
   \<Rightarrow> ('w, 't, shutdown_reason option) blocking_effect" where
  "lifecycle_iteration A H p = sbind (world_try (rh_next_event H)) (lifecycle_step A H p)"

partial_function (option) lifecycle_loop ::
  "('w, 't) live_adapter \<Rightarrow> 'w runner_host \<Rightarrow> live_program
   \<Rightarrow> ('w, 't, shutdown_reason) blocking_effect" where
  "lifecycle_loop A H p s =
     sbind (lifecycle_iteration A H p) (\<lambda>reason s1.
       case reason of Some r \<Rightarrow> sreturn r s1 | None \<Rightarrow> lifecycle_loop A H p s1) s"

definition blocking_state_new ::
  "'w \<Rightarrow> runtime_stats \<Rightarrow> runtime_motion list \<Rightarrow> ('w, 't) blocking_state" where
  "blocking_state_new w st motions =
     \<lparr>lc_world = w, lc_dev = dev_runtime_default, lc_stats = st,
      lc_motion_runtime = motion_runtime_new (map rm_definition motions),
      lc_last_repeat_ticks = [], bk_scheduler = []\<rparr>"

definition run_lifecycle ::
  "('w, 't) live_adapter \<Rightarrow> 'w runner_host \<Rightarrow> hotkey_binding list \<Rightarrow> runtime_motion list
   \<Rightarrow> runtime_press list \<Rightarrow> instant \<Rightarrow> runtime_stats \<Rightarrow> 'w
   \<Rightarrow> (('w, 't) blocking_state \<times> shutdown_reason result) option" where
  "run_lifecycle A H bindings motions presses time_base st w =
     lifecycle_loop A H \<lparr>lp_bindings = bindings, lp_motions = motions, lp_presses = presses,
                          lp_motion_time_base = time_base\<rparr> (blocking_state_new w st motions)"

section \<open>The lifecycle of a controller\<close>

definition schedule_hotkey ::
  "('w, 'f, 'd) controller_adapter \<Rightarrow> 'f controller_program \<Rightarrow> capability_report \<Rightarrow> hotkey_id
   \<Rightarrow> instant \<Rightarrow> ('w, 'f, 'co, unit) controller_effect \<Rightarrow> ('w, 'f, 'co, unit) controller_effect"
  where
  "schedule_hotkey A p cap h accepted_at otherwise =
     (case controller_registration_for_hotkey p h of
        None \<Rightarrow> otherwise
      | Some r \<Rightarrow>
          sbind (schedule_controller_callback A cap r accepted_at) (\<lambda>_. sreturn ()))"

text \<open>The match on the event: \<open>Inl\<close> a reason ends the run, \<open>Inr\<close> is \<open>force_ready\<close>.\<close>

definition controller_lifecycle_step ::
  "('w, 'f, 'd) controller_adapter \<Rightarrow> 'f controller_program \<Rightarrow> capability_report \<Rightarrow> runner_event
   \<Rightarrow> ('w, 'f, 'co, shutdown_reason + bool) controller_effect" where
  "controller_lifecycle_step A p cap ev =
     (case ev of
        runner_event.Hotkey h \<Rightarrow>
          sbind (read_now (ca_live A)) (\<lambda>now.
            sthen (schedule_hotkey A p cap h now (sreturn ())) (sreturn (Inr False)))
      | runner_event.Callback h received_at \<Rightarrow>
          sthen (count record_callback_received)
         (sbind (read_now (ca_live A)) (\<lambda>now.
          sthen (count (record_callback_dispatched (of_nat (as_millis (now - received_at)))))
            (sthen (schedule_hotkey A p cap h received_at (count record_shortcut_ignored))
               (sreturn (Inr False)))))
      | runner_event.Trigger t \<Rightarrow>
          (case t of
             Keyboard h \<Rightarrow>
               sbind (read_now (ca_live A)) (\<lambda>now.
                 sthen (schedule_hotkey A p cap h now (sreturn ())) (sreturn (Inr False)))
           | _ \<Rightarrow> sreturn (Inr False))
      | runner_event.Shutdown reason \<Rightarrow>
          sthen cancel_controller_callbacks (sreturn (Inl reason))
      | RuntimeError e \<Rightarrow> sfail e
      | TimerElapsed \<Rightarrow> sreturn (Inr True)
      | MotionInput _ \<Rightarrow> sreturn (Inr False)
      | ObservedMotionInput _ _ _ \<Rightarrow> sreturn (Inr False)
      | MotionRepeatTick _ \<Rightarrow> sreturn (Inr False))"

definition force_continuations ::
  "('w, 'f, 'd) controller_adapter \<Rightarrow> ('w, 'f, 'co, unit) controller_effect" where
  "force_continuations A = sbind (read_now (ca_live A)) (\<lambda>now.
     supd (\<lambda>s. s\<lparr>cs_continuations := force_ready now (cs_continuations s)\<rparr>))"

definition controller_lifecycle_iteration ::
  "('w, 'f, 'd) controller_adapter \<Rightarrow> 'w runner_host \<Rightarrow> 'f controller_program
   \<Rightarrow> ('w, 'fn, 'co, 'v) lua_runtime option \<Rightarrow> capability_report
   \<Rightarrow> ('w, 'f, 'co, shutdown_reason option) controller_effect" where
  "controller_lifecycle_iteration A H p runtime cap =
     sbind (world_try (rh_next_event H)) (\<lambda>ev.
     sbind (controller_lifecycle_step A p cap ev) (\<lambda>outcome.
       case outcome of
         Inl reason \<Rightarrow> sreturn (Some reason)
       | Inr force \<Rightarrow>
           sthen (swhen force (force_continuations A))
             (sthen (drain_controller_callbacks A p runtime cap) (sreturn None))))"

partial_function (option) controller_lifecycle_loop ::
  "('w, 'f, 'd) controller_adapter \<Rightarrow> 'w runner_host \<Rightarrow> 'f controller_program
   \<Rightarrow> ('w, 'fn, 'co, 'v) lua_runtime option \<Rightarrow> capability_report
   \<Rightarrow> ('w, 'f, 'co, shutdown_reason) controller_effect" where
  "controller_lifecycle_loop A H p runtime cap s =
     sbind (controller_lifecycle_iteration A H p runtime cap) (\<lambda>reason s1.
       case reason of
         Some r \<Rightarrow> sreturn r s1
       | None \<Rightarrow> controller_lifecycle_loop A H p runtime cap s1) s"

text \<open>The run has no trackers, no hidden overlays and no motions.\<close>

definition run_controller_lifecycle ::
  "('w, 'f, 'd) controller_adapter \<Rightarrow> 'w runner_host \<Rightarrow> 'f controller_program
   \<Rightarrow> ('w, 'fn, 'co, 'v) lua_runtime option \<Rightarrow> capability_report \<Rightarrow> runtime_stats \<Rightarrow> 'w
   \<Rightarrow> (('w, 'f, 'co) controller_state option \<times> shutdown_reason result) option" where
  "run_controller_lifecycle A H p runtime cap st w =
     (case callback_scheduler_new 64 default_lua_callback_budget of
        Inl e \<Rightarrow> Some (None, Err e)
      | Inr sch \<Rightarrow>
          map_option (\<lambda>(s, r). (Some s, r))
            (controller_lifecycle_loop A H p runtime cap
               (controller_state_new w dev_runtime_default st [] sch tracker_set_default)))"

end
