(* ===== verification/InputCache.thy ===== *)
theory InputCache imports LuaSources Effects begin

text \<open>
  The cache of the input devices a user has selected for a script,
  \<open>signal-auras-cli/src/input_cache.rs\<close>: its text, its validation against the devices that are
  present, and the selection that fills it.

  Here a Rust \<open>str\<close> is its UTF-8 bytes, one character of a \<^typ>\<open>string\<close> for each. The devices, the
  file system, the prompt and \<open>sudo\<close> are a world \<open>'w\<close>; an operation that panics does not return.
\<close>

section \<open>Hexadecimal fields\<close>

definition cache_error :: "string \<Rightarrow> diagnosable_error" where
  "cache_error message = diagnosable_error_new CapabilityProbe message"

definition cache_parse_error :: diagnosable_error where
  "cache_parse_error = cache_error ''invalid interactive input cache''"

definition hex_digit :: "nat \<Rightarrow> char" where
  "hex_digit n = char_of (if n < 10 then 48 + n else 87 + n)"

definition hex_encode :: "string \<Rightarrow> string" where
  "hex_encode bytes = concat (map (\<lambda>c. let n = char_code c in [hex_digit (n div 16), hex_digit (n mod 16)]) bytes)"

text \<open>\<open>u8::from_str_radix(s, 16)\<close> of two characters: a plus sign may stand first.\<close>

definition parse_hex_pair :: "char \<Rightarrow> char \<Rightarrow> nat option" where
  "parse_hex_pair a b =
     (if a = CHR ''+'' then hex_digit_value b
      else Option.bind (hex_digit_value a) (\<lambda>x. map_option (\<lambda>y. 16 * x + y) (hex_digit_value b)))"

text \<open>\<open>String::from_utf8\<close> accepts the well-formed sequences of one to four bytes.\<close>

definition is_continuation :: "char \<Rightarrow> bool" where
  "is_continuation c \<longleftrightarrow> 0x80 \<le> char_code c \<and> char_code c \<le> 0xBF"

definition in_range :: "nat \<Rightarrow> nat \<Rightarrow> char \<Rightarrow> bool" where
  "in_range lo hi c \<longleftrightarrow> lo \<le> char_code c \<and> char_code c \<le> hi"

fun utf8_ok :: "string \<Rightarrow> bool" where
  "utf8_ok [] = True"
| "utf8_ok (a # s) =
     (if in_range 0 0x7F a then utf8_ok s
      else case s of
        [] \<Rightarrow> False
      | b # s2 \<Rightarrow>
          if in_range 0xC2 0xDF a then is_continuation b \<and> utf8_ok s2
          else (case s2 of
            [] \<Rightarrow> False
          | c # s3 \<Rightarrow>
              if in_range 0xE0 0xE0 a then in_range 0xA0 0xBF b \<and> is_continuation c \<and> utf8_ok s3
              else if in_range 0xE1 0xEC a \<or> in_range 0xEE 0xEF a
                then is_continuation b \<and> is_continuation c \<and> utf8_ok s3
              else if in_range 0xED 0xED a then in_range 0x80 0x9F b \<and> is_continuation c \<and> utf8_ok s3
              else (case s3 of
                [] \<Rightarrow> False
              | d # s4 \<Rightarrow>
                  ((in_range 0xF0 0xF0 a \<and> in_range 0x90 0xBF b
                    \<or> in_range 0xF1 0xF3 a \<and> is_continuation b
                    \<or> in_range 0xF4 0xF4 a \<and> in_range 0x80 0x8F b)
                   \<and> is_continuation c \<and> is_continuation d \<and> utf8_ok s4))))"

text \<open>
  The slices \<open>value[index..index + 2]\<close> up to the first pair that is not hexadecimal: a slice panics
  (\<open>None\<close>) when it starts or ends inside a character of more than one byte.
\<close>

fun hex_pairs :: "string \<Rightarrow> string result option" where
  "hex_pairs [] = Some (Ok [])"
| "hex_pairs [a] = Some (Err cache_parse_error)"
| "hex_pairs (a # b # s) =
     (if is_continuation a \<or> s \<noteq> [] \<and> is_continuation (hd s) then None
      else case parse_hex_pair a b of
        None \<Rightarrow> Some (Err cache_parse_error)
      | Some n \<Rightarrow> map_option (\<lambda>r. rbind r (\<lambda>bytes. Ok (char_of n # bytes))) (hex_pairs s))"

definition hex_decode_string :: "string \<Rightarrow> string result option" where
  "hex_decode_string value =
     (if odd (length value) then Some (Err cache_parse_error)
      else map_option (\<lambda>r. rbind r (\<lambda>bytes.
             if utf8_ok bytes then Ok bytes else Err cache_parse_error)) (hex_pairs value))"

section \<open>The text of the cache\<close>

record evdev_device_identity =
  ed_event_name :: string
  ed_name :: "string option"
  ed_phys :: "string option"
  ed_uniq :: "string option"
  ed_bustype :: "string option"
  ed_vendor :: "string option"
  ed_product :: "string option"
  ed_version :: "string option"

definition stable_parts :: "evdev_device_identity \<Rightarrow> (string \<times> string) list" where
  "stable_parts d = List.map_filter (\<lambda>(name, value). map_option (Pair name) value)
     [(''event'', Some (ed_event_name d)), (''name'', ed_name d), (''phys'', ed_phys d),
      (''uniq'', ed_uniq d), (''bustype'', ed_bustype d), (''vendor'', ed_vendor d),
      (''product'', ed_product d), (''version'', ed_version d)]"

record cached_device =
  cd_path :: path
  cd_identity :: evdev_device_identity

record runtime_device_cache =
  rc_version :: string
  rc_script_path :: path
  rc_mode :: string
  rc_output :: string
  rc_updated_unix_ms :: nat
  rc_devices :: "cached_device list"

definition cache_version :: string where
  "cache_version = ''1''"

definition or_default :: "string option \<Rightarrow> string" where
  "or_default v = (case v of None \<Rightarrow> [] | Some s \<Rightarrow> s)"

definition device_fields :: "cached_device \<Rightarrow> string list" where
  "device_fields d = (let i = cd_identity d in
     [cd_path d, ed_event_name i, or_default (ed_name i), or_default (ed_phys i),
      or_default (ed_uniq i), or_default (ed_bustype i), or_default (ed_vendor i),
      or_default (ed_product i), or_default (ed_version i)])"

definition render_cached_device :: "cached_device \<Rightarrow> string" where
  "render_cached_device d = ''device='' @ join '','' (map hex_encode (device_fields d))"

definition newline_str :: string where
  "newline_str = [newline]"

definition render_cache :: "runtime_device_cache \<Rightarrow> string" where
  "render_cache c = join newline_str
     ([''version='' @ rc_version c,
       ''script='' @ hex_encode (rc_script_path c),
       ''mode='' @ hex_encode (rc_mode c),
       ''output='' @ hex_encode (rc_output c),
       ''updated_unix_ms='' @ show_nat (rc_updated_unix_ms c)]
      @ map render_cached_device (rc_devices c) @ [''''])"

definition nonempty :: "string \<Rightarrow> string option" where
  "nonempty value = (if value = [] then None else Some value)"

text \<open>\<open>map(hex_decode_string).collect::<Result<Vec<_>, _>>()\<close>.\<close>

fun decode_fields :: "string list \<Rightarrow> string list result option" where
  "decode_fields [] = Some (Ok [])"
| "decode_fields (f # fs) =
     (case hex_decode_string f of
        None \<Rightarrow> None
      | Some (Inl e) \<Rightarrow> Some (Err e)
      | Some (Inr v) \<Rightarrow> map_option (\<lambda>r. rbind r (\<lambda>vs. Ok (v # vs))) (decode_fields fs))"

definition device_of_fields :: "string list \<Rightarrow> cached_device result" where
  "device_of_fields fs =
     (case fs of
        [p, event, name, phys, uniq, bustype, vendor, product, version] \<Rightarrow>
          Ok \<lparr>cd_path = p, cd_identity = \<lparr>ed_event_name = event, ed_name = nonempty name,
            ed_phys = nonempty phys, ed_uniq = nonempty uniq, ed_bustype = nonempty bustype,
            ed_vendor = nonempty vendor, ed_product = nonempty product, ed_version = nonempty version\<rparr>\<rparr>
      | _ \<Rightarrow> Err cache_parse_error)"

definition parse_cached_device :: "string \<Rightarrow> cached_device result option" where
  "parse_cached_device value =
     map_option (\<lambda>r. rbind r device_of_fields) (decode_fields (split_on (CHR '','') value))"

text \<open>The local variables of \<open>RuntimeDeviceCache::parse\<close>.\<close>

record partial_cache =
  pc_version :: "string option"
  pc_script_path :: "path option"
  pc_mode :: "string option"
  pc_output :: "string option"
  pc_updated_unix_ms :: "nat option"
  pc_devices :: "cached_device list"

definition partial_cache_empty :: partial_cache where
  "partial_cache_empty = \<lparr>pc_version = None, pc_script_path = None, pc_mode = None,
     pc_output = None, pc_updated_unix_ms = None, pc_devices = []\<rparr>"

definition split_once :: "char \<Rightarrow> string \<Rightarrow> (string \<times> string) option" where
  "split_once d s = (case dropWhile (\<lambda>c. c \<noteq> d) s of
     [] \<Rightarrow> None | _ # rest \<Rightarrow> Some (takeWhile (\<lambda>c. c \<noteq> d) s, rest))"

definition parse_cache_line :: "string \<Rightarrow> partial_cache \<Rightarrow> partial_cache result option" where
  "parse_cache_line line c =
     (case split_once (CHR ''='') line of
        None \<Rightarrow> Some (Ok c)
      | Some (key, value) \<Rightarrow>
          if key = ''version'' then Some (Ok (c\<lparr>pc_version := Some value\<rparr>))
          else if key = ''script''
            then map_option (\<lambda>r. rbind r (\<lambda>v. Ok (c\<lparr>pc_script_path := Some v\<rparr>))) (hex_decode_string value)
          else if key = ''mode''
            then map_option (\<lambda>r. rbind r (\<lambda>v. Ok (c\<lparr>pc_mode := Some v\<rparr>))) (hex_decode_string value)
          else if key = ''output''
            then map_option (\<lambda>r. rbind r (\<lambda>v. Ok (c\<lparr>pc_output := Some v\<rparr>))) (hex_decode_string value)
          else if key = ''updated_unix_ms''
            then Some (Ok (c\<lparr>pc_updated_unix_ms := parse_unsigned (2 ^ 128 - 1) value\<rparr>))
          else if key = ''device''
            then map_option (\<lambda>r. rbind r (\<lambda>d. Ok (c\<lparr>pc_devices := pc_devices c @ [d]\<rparr>)))
              (parse_cached_device value)
          else Some (Ok c))"

fun parse_cache_lines :: "string list \<Rightarrow> partial_cache \<Rightarrow> partial_cache result option" where
  "parse_cache_lines [] c = Some (Ok c)"
| "parse_cache_lines (l # ls) c =
     (case parse_cache_line l c of
        None \<Rightarrow> None
      | Some (Inl e) \<Rightarrow> Some (Err e)
      | Some (Inr c1) \<Rightarrow> parse_cache_lines ls c1)"

definition require_field :: "'a option \<Rightarrow> 'a result" where
  "require_field v = (case v of None \<Rightarrow> Err cache_parse_error | Some a \<Rightarrow> Ok a)"

definition complete_cache :: "partial_cache \<Rightarrow> runtime_device_cache result" where
  "complete_cache c =
     rbind (require_field (pc_version c)) (\<lambda>version.
     rbind (require_field (pc_script_path c)) (\<lambda>script.
     rbind (require_field (pc_mode c)) (\<lambda>mode.
     rbind (require_field (pc_output c)) (\<lambda>out.
       Ok \<lparr>rc_version = version, rc_script_path = script, rc_mode = mode, rc_output = out,
           rc_updated_unix_ms = (case pc_updated_unix_ms c of None \<Rightarrow> 0 | Some n \<Rightarrow> n),
           rc_devices = pc_devices c\<rparr>))))"

definition parse_cache :: "string \<Rightarrow> runtime_device_cache result option" where
  "parse_cache source =
     map_option (\<lambda>r. rbind r complete_cache) (parse_cache_lines (str_lines source) partial_cache_empty)"

section \<open>The name of the cache file\<close>

text \<open>The FNV-1a hash of the bytes, on 64 bits.\<close>

definition fnv_step :: "char \<Rightarrow> 64 word \<Rightarrow> 64 word" where
  "fnv_step c h = xor h (word_of_nat (char_code c)) * 0x100000001b3"

definition cache_hash :: "string \<Rightarrow> 64 word" where
  "cache_hash bytes = fold fnv_step bytes 0xcbf29ce484222325"

text \<open>\<open>{:016x}\<close>.\<close>

fun hex_digits :: "nat \<Rightarrow> nat \<Rightarrow> string" where
  "hex_digits 0 n = []"
| "hex_digits (Suc k) n = hex_digits k (n div 16) @ [hex_digit (n mod 16)]"

definition cache_key :: "string \<Rightarrow> string" where
  "cache_key bytes = hex_digits 16 (unat (cache_hash bytes))"

section \<open>The host\<close>

datatype input_access_status = Accessible | Missing string | Denied string

definition access_label :: "input_access_status \<Rightarrow> string" where
  "access_label a = (case a of Accessible \<Rightarrow> ''ok'' | Missing _ \<Rightarrow> ''missing'' | Denied _ \<Rightarrow> ''denied'')"

datatype device_selection_decision = Selected "path list" | Cancel | NonInteractive

record device_prompt_candidate =
  dp_path :: path
  dp_label :: string
  dp_selected :: bool

text \<open>
  \<open>InputDeviceProbe\<close>, the calls of the standard library on files and on the environment, the prompt
  and \<open>sudo\<close>. An error of the file system is its message; \<open>remove_file\<close> also says whether the file
  was not found, \<open>status()\<close> whether the command was successful.
\<close>

record 'w input_host =
  ih_event_devices :: "'w \<Rightarrow> path list result"
  ih_read_access :: "path \<Rightarrow> 'w \<Rightarrow> input_access_status"
  ih_read_write_access :: "path \<Rightarrow> 'w \<Rightarrow> input_access_status"
  ih_stable_path_for :: "path \<Rightarrow> 'w \<Rightarrow> path option"
  ih_device_name :: "path \<Rightarrow> 'w \<Rightarrow> string option"
  ih_device_identity :: "path \<Rightarrow> 'w \<Rightarrow> evdev_device_identity option"
  ih_env :: "string \<Rightarrow> 'w \<Rightarrow> string option"
  ih_metadata :: "path \<Rightarrow> 'w \<Rightarrow> string + bool \<times> nat"
  ih_canonicalize :: "path \<Rightarrow> 'w \<Rightarrow> string + path"
  ih_exists :: "path \<Rightarrow> 'w \<Rightarrow> bool"
  ih_read_to_string :: "path \<Rightarrow> 'w \<Rightarrow> string + string"
  ih_unix_ms :: "'w \<Rightarrow> nat"
  ih_remove_file :: "path \<Rightarrow> 'w \<Rightarrow> 'w \<times> (bool \<times> string + unit)"
  ih_create_dir_all :: "path \<Rightarrow> 'w \<Rightarrow> 'w \<times> (string + unit)"
  ih_write :: "path \<Rightarrow> string \<Rightarrow> 'w \<Rightarrow> 'w \<times> (string + unit)"
  ih_select_input_devices ::
    "string \<Rightarrow> device_prompt_candidate list \<Rightarrow> 'w \<Rightarrow> 'w \<times> device_selection_decision result"
  ih_confirm_repair :: "path list \<Rightarrow> bool \<Rightarrow> 'w \<Rightarrow> 'w \<times> bool result"
  ih_sudo :: "string list \<Rightarrow> 'w \<Rightarrow> 'w \<times> (string + bool)"

type_synonym ('w, 'a) input_effect = "('w, diagnosable_error, 'a) effect"

definition uinput_path :: path where
  "uinput_path = ''/dev/uinput''"

definition uinput_device_name :: string where
  "uinput_device_name = ''signal-auras-uinput''"

definition file_error :: "string \<Rightarrow> path \<Rightarrow> string \<Rightarrow> diagnosable_error" where
  "file_error what p message = cache_error (what @ quoted p @ '': '' @ message)"

section \<open>The path of the cache\<close>

definition canonical_main_lua_path :: "'w input_host \<Rightarrow> path \<Rightarrow> 'w \<Rightarrow> path result" where
  "canonical_main_lua_path H p w =
     (case ih_canonicalize H p w of
        Inl message \<Rightarrow> Err (load_error ''cannot canonicalize Lua file '' p message)
      | Inr c \<Rightarrow> Ok c)"

definition current_uid :: "'w input_host \<Rightarrow> 'w \<Rightarrow> nat option" where
  "current_uid H w =
     (case ih_read_to_string H ''/proc/self/status'' w of
        Inl _ \<Rightarrow> None
      | Inr s \<Rightarrow>
          Option.bind (case List.map_filter (strip_prefix ''Uid:'') (str_lines s) of
                         [] \<Rightarrow> None | line # _ \<Rightarrow> Some line) (\<lambda>line.
          Option.bind (case split_whitespace line of [] \<Rightarrow> None | uid # _ \<Rightarrow> Some uid)
            (parse_unsigned (2 ^ 32 - 1))))"

definition validate_runtime_dir :: "'w input_host \<Rightarrow> path \<Rightarrow> 'w \<Rightarrow> unit result" where
  "validate_runtime_dir H runtime w =
     (case ih_metadata H runtime w of
        Inl message \<Rightarrow> Err (cache_error (''cannot inspect XDG_RUNTIME_DIR '' @ quoted runtime
          @ '' for interactive input device cache: '' @ message))
      | Inr (is_dir, uid) \<Rightarrow>
          if \<not> is_dir
          then Err (cache_error ''XDG_RUNTIME_DIR must be a directory for interactive input device cache'')
          else if (case current_uid H w of None \<Rightarrow> False | Some u \<Rightarrow> uid \<noteq> u)
          then Err (cache_error
            ''XDG_RUNTIME_DIR must be owned by the current user for interactive input device cache'')
          else Ok ())"

definition runtime_cache_path :: "'w input_host \<Rightarrow> path \<Rightarrow> 'w \<Rightarrow> path result" where
  "runtime_cache_path H lua_file w =
     (case ih_env H ''XDG_RUNTIME_DIR'' w of
        None \<Rightarrow> Err (cache_error ''XDG_RUNTIME_DIR is required for interactive input device cache'')
      | Some runtime \<Rightarrow>
          if \<not> is_absolute runtime
          then Err (cache_error
            ''XDG_RUNTIME_DIR must be an absolute path for interactive input device cache'')
          else rbind (validate_runtime_dir H runtime w) (\<lambda>_.
            rbind (canonical_main_lua_path H lua_file w) (\<lambda>canonical.
              Ok (path_join (path_join (path_join runtime ''signal-auras'') ''input-devices'')
                    (cache_key canonical @ ''.cache'')))))"

section \<open>The selected devices\<close>

definition accessible :: "input_access_status \<Rightarrow> bool" where
  "accessible a \<longleftrightarrow> a = Accessible"

fun check_selected :: "'w input_host \<Rightarrow> 'w \<Rightarrow> path list \<Rightarrow> path list \<Rightarrow> unit result" where
  "check_selected H w seen [] = Ok ()"
| "check_selected H w seen (p # ps) =
     (if p \<in> set seen
      then Err (cache_error (''duplicate selected evdev input device '' @ quoted p))
      else if \<not> accessible (ih_read_access H p w)
      then Err (cache_error (''selected evdev input device '' @ quoted p @ '' is not readable''))
      else if ih_device_name H p w = Some uinput_device_name
      then Err (cache_error (''selected evdev input device '' @ quoted p @ '' is self-generated''))
      else if ih_device_identity H p w = None
      then Err (cache_error (''selected evdev input device '' @ quoted p @ '' has no stable identity''))
      else check_selected H w (p # seen) ps)"

definition validate_selected_devices ::
  "'w input_host \<Rightarrow> path list \<Rightarrow> input_provider_config \<Rightarrow> 'w \<Rightarrow> unit result" where
  "validate_selected_devices H selected provider w =
     (if selected = []
      then Err (cache_error ''interactive input device selection requires at least one selected device'')
      else rbind (check_selected H w [] selected) (\<lambda>_.
        if ip_output provider = Uinput \<and> \<not> accessible (ih_read_write_access H uinput_path w)
        then Err (cache_error ''uinput output requires read/write access to /dev/uinput'')
        else Ok ()))"

section \<open>Validation\<close>

datatype cache_validation_status =
    Accepted
  | Missing
  | Invalid string
  | Stale string
  | PermissionIncomplete string
  | UnsafeRuntimeDir string
  | Cancelled

record cache_validation_report =
  cv_cache_path :: path
  cv_status :: cache_validation_status
  cv_selected_devices :: "path list"

definition cache_report ::
  "path \<Rightarrow> cache_validation_status \<Rightarrow> path list \<Rightarrow> cache_validation_report" where
  "cache_report p st ds = \<lparr>cv_cache_path = p, cv_status = st, cv_selected_devices = ds\<rparr>"

text \<open>\<open>{:?}\<close> of the mode and the output.\<close>

definition debug_mode :: "input_provider_mode \<Rightarrow> string" where
  "debug_mode m = (case m of Observe \<Rightarrow> ''Observe'' | Grab \<Rightarrow> ''Grab'')"

definition debug_output :: "input_provider_output \<Rightarrow> string" where
  "debug_output out = (case out of Portal \<Rightarrow> ''Portal'' | Uinput \<Rightarrow> ''Uinput'')"

fun check_identities ::
  "'w input_host \<Rightarrow> 'w \<Rightarrow> cached_device list \<Rightarrow> cache_validation_status" where
  "check_identities H w [] = Accepted"
| "check_identities H w (d # ds) =
     (case ih_device_identity H (cd_path d) w of
        None \<Rightarrow> Stale (''missing current identity for '' @ quoted (cd_path d))
      | Some current \<Rightarrow>
          if current \<noteq> cd_identity d
          then Stale (''device identity changed for '' @ quoted (cd_path d))
          else check_identities H w ds)"

definition validate_cache ::
  "'w input_host \<Rightarrow> path \<Rightarrow> path \<Rightarrow> input_provider_config \<Rightarrow> runtime_device_cache \<Rightarrow> 'w
   \<Rightarrow> cache_validation_report" where
  "validate_cache H cache_path canonical provider c w =
     (let selected = map cd_path (rc_devices c)
      in if rc_version c \<noteq> cache_version
         then cache_report cache_path (Invalid ''unsupported cache version'') []
         else if rc_script_path c \<noteq> canonical
         then cache_report cache_path (Invalid ''cache belongs to a different script path'') []
         else if rc_mode c \<noteq> debug_mode (ip_mode provider)
           \<or> rc_output c \<noteq> debug_output (ip_output provider)
         then cache_report cache_path (Invalid ''cache provider mode or output changed'') []
         else case validate_selected_devices H selected provider w of
           Inl e \<Rightarrow> cache_report cache_path (PermissionIncomplete (er_message e)) selected
         | Inr _ \<Rightarrow> cache_report cache_path (check_identities H w (rc_devices c)) selected)"

definition read_cache :: "'w input_host \<Rightarrow> path \<Rightarrow> 'w \<Rightarrow> runtime_device_cache result option" where
  "read_cache H p w =
     (case ih_read_to_string H p w of
        Inl message \<Rightarrow> Some (Err (file_error ''cannot read interactive input cache '' p message))
      | Inr source \<Rightarrow> parse_cache source)"

definition validate_cache_file ::
  "'w input_host \<Rightarrow> path \<Rightarrow> path \<Rightarrow> input_provider_config \<Rightarrow> 'w
   \<Rightarrow> cache_validation_report result option" where
  "validate_cache_file H cache_path lua_file provider w =
     (if \<not> ih_exists H cache_path w
      then Some (Ok (cache_report cache_path cache_validation_status.Missing []))
      else map_option (\<lambda>r. rbind r (\<lambda>c.
             rbind (canonical_main_lua_path H lua_file w) (\<lambda>canonical.
               Ok (validate_cache H cache_path canonical provider c w)))) (read_cache H cache_path w))"

definition interactive_cache_report ::
  "'w input_host \<Rightarrow> path \<Rightarrow> input_provider_config \<Rightarrow> 'w \<Rightarrow> cache_validation_report option" where
  "interactive_cache_report H lua_file provider w =
     (case runtime_cache_path H lua_file w of
        Inl e \<Rightarrow> Some (cache_report [] (UnsafeRuntimeDir (er_message e)) [])
      | Inr p \<Rightarrow> map_option (\<lambda>r. case r of
            Inl e \<Rightarrow> cache_report p (Invalid (er_message e)) []
          | Inr report \<Rightarrow> report) (validate_cache_file H p lua_file provider w))"

section \<open>The candidates\<close>

record interactive_device_candidate =
  ic_path :: path
  ic_label :: string
  ic_identity :: "evdev_device_identity option"
  ic_access :: input_access_status
  ic_stable_path :: "path option"
  ic_self_generated :: bool

definition candidate_of :: "'w input_host \<Rightarrow> 'w \<Rightarrow> path \<Rightarrow> interactive_device_candidate" where
  "candidate_of H w p =
     (let identity = ih_device_identity H p w;
          name = (case ih_device_name H p w of
                    Some n \<Rightarrow> Some n | None \<Rightarrow> Option.bind identity ed_name);
          stable = ih_stable_path_for H p w
      in \<lparr>ic_path = p,
          ic_label = ''name='' @ replace_char (CHR '' '') (CHR ''_'')
              (case name of None \<Rightarrow> ''unknown'' | Some n \<Rightarrow> n)
            @ '' access='' @ access_label (ih_read_access H p w)
            @ '' stable='' @ (case stable of None \<Rightarrow> ''none'' | Some s \<Rightarrow> s),
          ic_identity = identity, ic_access = ih_read_access H p w, ic_stable_path = stable,
          ic_self_generated = (name = Some uinput_device_name)\<rparr>)"

text \<open>
  The order of \<open>Path\<close> compares the components; the root, the current and the parent directory come
  before the names.
\<close>

definition path_order :: "path \<Rightarrow> string list" where
  "path_order p =
     (if is_absolute p then [''a''] else if p = ''.'' \<or> prefix ''./'' p then [''b''] else [])
     @ map (\<lambda>c. if c = ''..'' then ''c'' else ''d'' @ c) (path_components p)"

definition interactive_candidates ::
  "'w input_host \<Rightarrow> 'w \<Rightarrow> interactive_device_candidate list result" where
  "interactive_candidates H w =
     rbind (ih_event_devices H w) (\<lambda>ps.
       Ok (sort_key (\<lambda>c. path_order (ic_path c))
             (filter (\<lambda>c. \<not> ic_self_generated c) (map (candidate_of H w) ps))))"

definition prompt_candidate :: "interactive_device_candidate \<Rightarrow> device_prompt_candidate" where
  "prompt_candidate c =
     \<lparr>dp_path = (case ic_stable_path c of None \<Rightarrow> ic_path c | Some p \<Rightarrow> p), dp_label = ic_label c,
      dp_selected = False\<rparr>"

section \<open>Selecting and writing\<close>

definition of_read :: "('w \<Rightarrow> 'a result) \<Rightarrow> ('w, 'a) input_effect" where
  "of_read f = stry (\<lambda>w. (w, f w))"

definition remove_cache_file_if_present :: "'w input_host \<Rightarrow> path \<Rightarrow> ('w, unit) input_effect" where
  "remove_cache_file_if_present H p = stry (\<lambda>w.
     case ih_remove_file H p w of
       (w1, Inr _) \<Rightarrow> (w1, Ok ())
     | (w1, Inl (not_found, message)) \<Rightarrow>
         (w1, if not_found then Ok ()
              else Err (file_error ''cannot reset runtime input cache '' p message)))"

text \<open>\<open>SudoSetfaclRepair\<close>: the outcome of \<open>modprobe\<close> is not looked at.\<close>

definition run_acl_command ::
  "'w input_host \<Rightarrow> string \<Rightarrow> string \<Rightarrow> path \<Rightarrow> ('w, unit) input_effect" where
  "run_acl_command H mode user p = stry (\<lambda>w.
     case ih_sudo H [''setfacl'', ''-m'', ''u:'' @ user @ '':'' @ mode, p] w of
       (w1, Inl message) \<Rightarrow> (w1, Err (file_error ''cannot run sudo setfacl for '' p message))
     | (w1, Inr success) \<Rightarrow>
         (w1, if success then Ok () else Err (cache_error (''sudo setfacl failed for '' @ quoted p))))"

definition repair_permissions :: "'w input_host \<Rightarrow> path list \<Rightarrow> bool \<Rightarrow> ('w, unit) input_effect" where
  "repair_permissions H evdev_paths uinput =
     sthen (swhen uinput (supd (\<lambda>w. fst (ih_sudo H [''modprobe'', ''uinput''] w))))
       (sbind (sget (\<lambda>w. case ih_env H ''USER'' w of None \<Rightarrow> ''unknown'' | Some u \<Rightarrow> u)) (\<lambda>user.
          sthen (seach (run_acl_command H ''r'' user) evdev_paths)
            (swhen uinput (run_acl_command H ''rw'' user uinput_path))))"

fun cached_devices :: "'w input_host \<Rightarrow> 'w \<Rightarrow> path list \<Rightarrow> cached_device list result" where
  "cached_devices H w [] = Ok []"
| "cached_devices H w (p # ps) =
     (case ih_device_identity H p w of
        None \<Rightarrow> Err (cache_error
          (''selected evdev input device '' @ quoted p @ '' has no stable identity''))
      | Some i \<Rightarrow> rbind (cached_devices H w ps) (\<lambda>ds. Ok (\<lparr>cd_path = p, cd_identity = i\<rparr> # ds)))"

definition new_cache ::
  "'w input_host \<Rightarrow> path \<Rightarrow> input_provider_config \<Rightarrow> path list \<Rightarrow> 'w \<Rightarrow> runtime_device_cache result"
  where
  "new_cache H lua_file provider selected w =
     rbind (canonical_main_lua_path H lua_file w) (\<lambda>script.
     rbind (cached_devices H w selected) (\<lambda>ds.
       Ok \<lparr>rc_version = cache_version, rc_script_path = script,
           rc_mode = debug_mode (ip_mode provider), rc_output = debug_output (ip_output provider),
           rc_updated_unix_ms = ih_unix_ms H w, rc_devices = ds\<rparr>))"

definition on_files :: "string \<Rightarrow> ('w \<Rightarrow> 'w \<times> (string + unit)) \<Rightarrow> ('w, unit) input_effect" where
  "on_files what f = stry (\<lambda>w. case f w of
     (w1, Inl message) \<Rightarrow> (w1, Err (cache_error (what @ message))) | (w1, Inr _) \<Rightarrow> (w1, Ok ()))"

definition write_cache_file ::
  "'w input_host \<Rightarrow> path \<Rightarrow> path \<Rightarrow> input_provider_config \<Rightarrow> path list \<Rightarrow> ('w, unit) input_effect" where
  "write_cache_file H cache_path lua_file provider selected =
     (case path_parent cache_path of
        None \<Rightarrow> sfail (cache_error ''cache path has no parent directory'')
      | Some parent \<Rightarrow>
          sthen (on_files ''cannot create interactive input cache directory: ''
                   (ih_create_dir_all H parent))
            (sbind (of_read (new_cache H lua_file provider selected)) (\<lambda>c.
               on_files (''cannot write interactive input cache '' @ quoted cache_path @ '': '')
                 (ih_write H cache_path (render_cache c)))))"

text \<open>What the selection of the user leads to.\<close>

definition accept_selection ::
  "'w input_host \<Rightarrow> path \<Rightarrow> path \<Rightarrow> input_provider_config \<Rightarrow> path list
   \<Rightarrow> ('w, input_provider_config) input_effect" where
  "accept_selection H cache_path lua_file provider selected =
     (let needs_uinput = (ip_output provider = Uinput)
      in sbind (sget (\<lambda>w. list_ex (\<lambda>p. \<not> accessible (ih_read_access H p w)) selected
                   \<or> needs_uinput \<and> \<not> accessible (ih_read_write_access H uinput_path w)))
         (\<lambda>permission_incomplete.
         sbind (if permission_incomplete then stry (ih_confirm_repair H selected needs_uinput)
                else sreturn False) (\<lambda>repair.
         sthen (swhen repair (repair_permissions H selected needs_uinput))
        (sthen (of_read (validate_selected_devices H selected provider))
        (sthen (write_cache_file H cache_path lua_file provider selected)
           (of_read (\<lambda>_. with_selected_devices provider selected)))))))"

definition select_devices ::
  "'w input_host \<Rightarrow> path \<Rightarrow> path \<Rightarrow> input_provider_config
   \<Rightarrow> ('w, input_provider_config) input_effect" where
  "select_devices H cache_path lua_file provider =
     sbind (of_read (interactive_candidates H)) (\<lambda>candidates.
     sbind (stry (ih_select_input_devices H ''missing or stale runtime cache''
              (map prompt_candidate candidates))) (\<lambda>decision.
       case decision of
         Selected paths \<Rightarrow> accept_selection H cache_path lua_file provider paths
       | Cancel \<Rightarrow> sfail (diagnosable_error_new ScopePrompt
           ''interactive input device selection cancelled'')
       | NonInteractive \<Rightarrow> sfail (diagnosable_error_new ScopePrompt
           (''interactive input device selection requires interactive stdin or a valid runtime cache''))))"

text \<open>The devices of an accepted cache; \<open>None\<close> goes on to the prompt.\<close>

definition cached_selection ::
  "'w input_host \<Rightarrow> path \<Rightarrow> path \<Rightarrow> input_provider_config \<Rightarrow> ('w, path list option) input_effect" where
  "cached_selection H cache_path lua_file provider w =
     map_option (\<lambda>r. (w, Ok (case r of
         Inl _ \<Rightarrow> None
       | Inr report \<Rightarrow> if cv_status report = Accepted then Some (cv_selected_devices report) else None)))
       (validate_cache_file H cache_path lua_file provider w)"

definition resolve_interactive_input_provider ::
  "'w input_host \<Rightarrow> path \<Rightarrow> input_provider_config \<Rightarrow> bool
   \<Rightarrow> ('w, input_provider_config) input_effect" where
  "resolve_interactive_input_provider H lua_file provider reset_cache =
     (if \<not> ip_interactive_devices provider then sreturn provider
      else sbind (of_read (runtime_cache_path H lua_file)) (\<lambda>cache_path.
        sbind (if reset_cache
               then sthen (remove_cache_file_if_present H cache_path) (sreturn None)
               else cached_selection H cache_path lua_file provider) (\<lambda>cached.
          case cached of
            Some ds \<Rightarrow> of_read (\<lambda>_. with_selected_devices provider ds)
          | None \<Rightarrow> select_devices H cache_path lua_file provider)))"

end
