(* ===== verification/RunArguments.thy ===== *)
theory RunArguments imports LuaText Errors begin

text \<open>
  The command line of \<open>signal-auras-cli/src/runner.rs\<close> (\<open>parse_run_args\<close>, \<open>parse_doctor_args\<close>) with
  the options of the log, \<open>signal-auras-cli/src/logging.rs\<close>. An argument is compared with ASCII
  texts only.
\<close>

section \<open>Options of the log\<close>

datatype runtime_log_level = Off | Error | Warn | Info | Debug | Trace

datatype runtime_log_format = Auto | Pretty | Compact

datatype color_mode = Auto | Always | Never

record runtime_log_config =
  lg_level :: "runtime_log_level option"
  lg_format :: runtime_log_format
  lg_color_mode :: color_mode
  lg_verbose :: bool

definition runtime_log_config_new :: "bool \<Rightarrow> runtime_log_config" where
  "runtime_log_config_new verbose =
     \<lparr>lg_level = None, lg_format = runtime_log_format.Auto, lg_color_mode = color_mode.Auto,
      lg_verbose = verbose\<rparr>"

definition argument_error :: "string \<Rightarrow> 'a result" where
  "argument_error message = Err (diagnosable_error_new ArgumentValidation message)"

definition log_level_of :: "string \<Rightarrow> runtime_log_level result" where
  "log_level_of value =
     (if value = ''off'' then Ok Off
      else if value = ''error'' then Ok Error
      else if value = ''warn'' then Ok Warn
      else if value = ''info'' then Ok Info
      else if value = ''debug'' then Ok Debug
      else if value = ''trace'' then Ok Trace
      else argument_error (''invalid log level '' @ [CHR 0x27] @ value @ [CHR 0x27]
        @ '', expected off|error|warn|info|debug|trace''))"

definition log_format_of :: "string \<Rightarrow> runtime_log_format result" where
  "log_format_of value =
     (if value = ''auto'' then Ok runtime_log_format.Auto
      else if value = ''pretty'' then Ok Pretty
      else if value = ''compact'' then Ok Compact
      else argument_error (''invalid log format '' @ [CHR 0x27] @ value @ [CHR 0x27]
        @ '', expected auto|pretty|compact''))"

text \<open>\<open>RuntimeLog::verbose\<close>: whether lines of level debug are written.\<close>

definition log_verbose :: "runtime_log_config \<Rightarrow> bool" where
  "log_verbose c \<longleftrightarrow> lg_verbose c \<and> lg_level c = None \<or> lg_level c \<in> {Some Debug, Some Trace}"

text \<open>The fields of a line, \<open>RuntimeLogFields::from_compat_message\<close>.\<close>

definition field_value :: "string \<Rightarrow> string \<Rightarrow> string option" where
  "field_value message field =
     (case List.map_filter (strip_prefix (field @ ''='')) (split_whitespace message) of
        [] \<Rightarrow> None | v # _ \<Rightarrow> Some v)"

definition without_field :: "string \<Rightarrow> string \<Rightarrow> string" where
  "without_field message field =
     join '' '' (filter (\<lambda>part. \<not> prefix (field @ ''='') part) (split_whitespace message))"

definition log_fields :: "string \<Rightarrow> string \<times> string" where
  "log_fields message =
     (case field_value message ''event'' of None \<Rightarrow> ''runtime'' | Some e \<Rightarrow> e,
      without_field message ''event'')"

section \<open>The arguments of a run\<close>

record run_options =
  ro_lua_file :: string
  ro_log :: runtime_log_config
  ro_reset_input_cache :: bool

definition run_usage :: string where
  "run_usage = ''usage: signal-auras run [--verbose|-v] [--reset-input-cache] [--log-level=off|error|warn|info|debug|trace] [--log-format=auto|pretty|compact] [--color=auto|always|never] [--no-color] <lua-file>''"

text \<open>The variables of the loop over the arguments.\<close>

record run_arguments =
  ra_verbose :: bool
  ra_config :: runtime_log_config
  ra_reset :: bool
  ra_paths :: "string list"

definition run_arguments_start :: run_arguments where
  "run_arguments_start =
     \<lparr>ra_verbose = False, ra_config = runtime_log_config_new False, ra_reset = False, ra_paths = []\<rparr>"

definition with_color :: "color_mode \<Rightarrow> run_arguments \<Rightarrow> run_arguments" where
  "with_color c a = a\<lparr>ra_config := (ra_config a)\<lparr>lg_color_mode := c\<rparr>\<rparr>"

definition parse_run_arg :: "string \<Rightarrow> run_arguments \<Rightarrow> run_arguments result" where
  "parse_run_arg arg a =
     (if arg = ''--verbose'' \<or> arg = ''-v'' then Ok (a\<lparr>ra_verbose := True\<rparr>)
      else if arg = ''--reset-input-cache'' \<or> arg = ''--refresh-input-cache'' then Ok (a\<lparr>ra_reset := True\<rparr>)
      else if arg = ''--color=auto'' then Ok (with_color color_mode.Auto a)
      else if arg = ''--color=always'' then Ok (with_color Always a)
      else if arg = ''--color=never'' then Ok (with_color Never a)
      else if arg = ''--no-color'' then Ok (with_color Never a)
      else case strip_prefix ''--log-level='' arg of
        Some level \<Rightarrow> rbind (log_level_of level) (\<lambda>l.
          Ok (a\<lparr>ra_config := (ra_config a)\<lparr>lg_level := Some l\<rparr>\<rparr>))
      | None \<Rightarrow>
          (case strip_prefix ''--log-format='' arg of
             Some format \<Rightarrow> rbind (log_format_of format) (\<lambda>f.
               Ok (a\<lparr>ra_config := (ra_config a)\<lparr>lg_format := f\<rparr>\<rparr>))
           | None \<Rightarrow>
               if prefix ''-'' arg
               then argument_error (''unsupported run option '' @ [CHR 0x27] @ arg @ [CHR 0x27])
               else Ok (a\<lparr>ra_paths := ra_paths a @ [arg]\<rparr>)))"

fun parse_run_arg_list :: "string list \<Rightarrow> run_arguments \<Rightarrow> run_arguments result" where
  "parse_run_arg_list [] a = Ok a"
| "parse_run_arg_list (x # xs) a = rbind (parse_run_arg x a) (parse_run_arg_list xs)"

definition parse_run_args :: "string list \<Rightarrow> run_options result" where
  "parse_run_args args =
     (case args of
        [] \<Rightarrow> argument_error run_usage
      | first # rest \<Rightarrow>
          if first \<noteq> ''run'' then argument_error run_usage
          else rbind (parse_run_arg_list rest run_arguments_start) (\<lambda>a.
            case ra_paths a of
              [p] \<Rightarrow> Ok \<lparr>ro_lua_file = p, ro_log = (ra_config a)\<lparr>lg_verbose := ra_verbose a\<rparr>,
                        ro_reset_input_cache = ra_reset a\<rparr>
            | _ \<Rightarrow> argument_error run_usage))"

section \<open>The arguments of the doctor\<close>

datatype doctor_command = Input | Keys | Overlay | OverlayNested

record doctor_options =
  do_command :: doctor_command
  do_lua_file :: "string option"

definition doctor_usage :: string where
  "doctor_usage = ''usage: signal-auras doctor input <lua-file> | signal-auras doctor keys <lua-file> | signal-auras doctor overlay | signal-auras doctor overlay-nested''"

definition parse_doctor_args :: "string list \<Rightarrow> doctor_options result" where
  "parse_doctor_args args =
     (case args of
        [d, c, f] \<Rightarrow>
          if d = ''doctor'' \<and> c = ''input'' then Ok \<lparr>do_command = Input, do_lua_file = Some f\<rparr>
          else if d = ''doctor'' \<and> c = ''keys'' then Ok \<lparr>do_command = Keys, do_lua_file = Some f\<rparr>
          else argument_error doctor_usage
      | [d, c] \<Rightarrow>
          if d = ''doctor'' \<and> c = ''overlay'' then Ok \<lparr>do_command = Overlay, do_lua_file = None\<rparr>
          else if d = ''doctor'' \<and> c = ''overlay-nested''
          then Ok \<lparr>do_command = OverlayNested, do_lua_file = None\<rparr>
          else argument_error doctor_usage
      | _ \<Rightarrow> argument_error doctor_usage)"

section \<open>What runs a script\<close>

text \<open>\<open>lua_file_looks_like_controller\<close> on the text of the script.\<close>

definition looks_like_controller :: "string \<Rightarrow> bool" where
  "looks_like_controller source \<longleftrightarrow>
     contains_str ''return function'' source
     \<or> contains_str ''return '' source
       \<and> list_ex (\<lambda>field. contains_str field source)
           [''.hotkey'', ''.motion'', ''.press'', ''.timer'', ''.shutdown'', ''.state.track'',
            ''.overlay.mount'', ''.callback'']"

end
