(* ===== verification/Startup.thy ===== *)
theory Startup imports Blocking LuaScreens InputCache RunArguments begin

text \<open>
  How \<open>signal-auras-cli/src/runner.rs\<close> starts a run: the script is loaded, its scope and its input
  devices are resolved, the adapter is configured and probed, the hotkeys are registered, the
  lifecycle runs, and the adapter is cleaned up. \<open>RealAdapterCleanupSession\<close> is that of
  \<open>runner/lifecycle.rs\<close>.

  The session stands for a borrow of the adapter that begins before the adapter is configured. Lines
  of the log are left out; the summary that is printed is a call.
\<close>

section \<open>The host\<close>

text \<open>
  The script's files do not change during a start. \<open>st_load_runtime\<close> is
  \<open>ImperativeLuaController::load_source\<close>; \<open>st_evaluate\<close> is the Lua check of the sandbox.
\<close>

record ('w, 'f, 'd, 'fn, 'co, 'v) startup_host =
  st_adapter :: "('w, 'f, 'd) controller_adapter"
  st_runner :: "'w runner_host"
  st_input :: "'w input_host"
  st_files :: file_system
  st_evaluate :: "string \<Rightarrow> string option"
  st_load_runtime :: "string \<Rightarrow> 'w \<Rightarrow> 'w \<times> ('w, 'fn, 'co, 'v) lua_runtime result"
  st_resolve_missing_scope :: "'w \<Rightarrow> 'w \<times> consent_decision result"
  st_signal_fd :: "'w \<Rightarrow> 'w \<times> unit result"
  st_timer_fd :: "'w \<Rightarrow> 'w \<times> unit result"
  st_configure_input_provider ::
    "input_provider_config option \<Rightarrow> motion_token option \<Rightarrow> 'w \<Rightarrow> 'w \<times> unit result"
  st_probe_capabilities :: "capability_set \<Rightarrow> 'w \<Rightarrow> 'w \<times> capability_report"
  st_ensure_active_process_provider :: "'w \<Rightarrow> 'w \<times> unit result"
  st_register :: "hotkey_binding \<Rightarrow> 'w \<Rightarrow> 'w \<times> registration_id result"
  st_cancel_pending :: "'w \<Rightarrow> 'w \<times> unit result"
  st_unregister_all :: "'w \<Rightarrow> 'w \<times> unit result"
  st_print :: "string \<Rightarrow> 'w \<Rightarrow> 'w"

datatype cleanup_session = NotStarted | Open | Cleaned

record 'w startup_state =
  ss_world :: 'w
  ss_stats :: runtime_stats
  ss_session :: cleanup_session

type_synonym ('w, 'a) startup_effect = "('w startup_state, diagnosable_error, 'a) effect"

definition start_call :: "('w \<Rightarrow> 'w \<times> 'a) \<Rightarrow> ('w, 'a) startup_effect" where
  "start_call f = srun (\<lambda>s. case f (ss_world s) of (w, a) \<Rightarrow> (s\<lparr>ss_world := w\<rparr>, a))"

definition start_try :: "('w \<Rightarrow> 'w \<times> 'a result) \<Rightarrow> ('w, 'a) startup_effect" where
  "start_try f = stry (\<lambda>s. case f (ss_world s) of (w, r) \<Rightarrow> (s\<lparr>ss_world := w\<rparr>, r))"

text \<open>An operation on the world that may not return, and a result that is there already.\<close>

definition start_within :: "('w, 'a) input_effect \<Rightarrow> ('w, 'a) startup_effect" where
  "start_within m s = map_option (\<lambda>(w, r). (s\<lparr>ss_world := w\<rparr>, r)) (m (ss_world s))"

definition start_check :: "'a result \<Rightarrow> ('w, 'a) startup_effect" where
  "start_check r = (case r of Inl e \<Rightarrow> sfail e | Inr a \<Rightarrow> sreturn a)"

definition start_loaded :: "'a result option \<Rightarrow> ('w, 'a) startup_effect" where
  "start_loaded r s = map_option (\<lambda>x. (s, x)) r"

definition start_count :: "(runtime_stats \<Rightarrow> runtime_stats) \<Rightarrow> ('w, unit) startup_effect" where
  "start_count f = supd (\<lambda>s. s\<lparr>ss_stats := f (ss_stats s)\<rparr>)"

section \<open>Cleaning up\<close>

definition cleanup_failed :: "error_phase \<Rightarrow> diagnosable_error \<Rightarrow> diagnosable_error" where
  "cleanup_failed phase e =
     diagnosable_error_new phase (''cleanup failed after runner error: '' @ show_error e)"

text \<open>\<open>cleanup_after_error\<close> of a registrar.\<close>

definition cleanup_registrar ::
  "('w, 'f, 'd, 'fn, 'co, 'v) startup_host \<Rightarrow> error_phase \<Rightarrow> ('w, unit) startup_effect" where
  "cleanup_registrar V phase = start_try (\<lambda>w. case st_unregister_all V w of
     (w1, Inl e) \<Rightarrow> (w1, Err (cleanup_failed phase e)) | (w1, Inr _) \<Rightarrow> (w1, Ok ()))"

text \<open>Both calls are made; the first error is reported.\<close>

definition cleanup_real_adapter_resources ::
  "('w, 'f, 'd, 'fn, 'co, 'v) startup_host \<Rightarrow> error_phase \<Rightarrow> ('w, unit) startup_effect" where
  "cleanup_real_adapter_resources V phase = start_try (\<lambda>w.
     case st_cancel_pending V w of (w1, cancelled) \<Rightarrow>
       (case st_unregister_all V w1 of (w2, unregistered) \<Rightarrow>
          (w2, case cancelled of
                 Inl e \<Rightarrow> Err (cleanup_failed phase e)
               | Inr _ \<Rightarrow> (case unregistered of
                     Inl e \<Rightarrow> Err (cleanup_failed phase e) | Inr _ \<Rightarrow> Ok ()))))"

definition session_cleanup ::
  "('w, 'f, 'd, 'fn, 'co, 'v) startup_host \<Rightarrow> error_phase \<Rightarrow> ('w, unit) startup_effect" where
  "session_cleanup V phase = sbind (sget ss_session) (\<lambda>session.
     if session = Cleaned then sreturn ()
     else sthen (supd (\<lambda>s. s\<lparr>ss_session := Cleaned\<rparr>)) (cleanup_real_adapter_resources V phase))"

definition finish_normal_shutdown ::
  "('w, 'f, 'd, 'fn, 'co, 'v) startup_host \<Rightarrow> ('w, unit) startup_effect" where
  "finish_normal_shutdown V = session_cleanup V error_phase.Shutdown"

definition open_session :: "('w, unit) startup_effect" where
  "open_session = supd (\<lambda>s. s\<lparr>ss_session := Open\<rparr>)"

text \<open>\<open>if let Err(error) = m { cleanup?; return Err(error) }\<close>.\<close>

definition or_cleanup ::
  "('w, unit) startup_effect \<Rightarrow> ('w, 'a) startup_effect \<Rightarrow> ('w, 'a) startup_effect" where
  "or_cleanup cleanup m s =
     (case m s of
        None \<Rightarrow> None
      | Some (s1, Inl e) \<Rightarrow> sthen cleanup (sfail e) s1
      | Some (s1, Inr a) \<Rightarrow> Some (s1, Ok a))"

section \<open>Parts of a start\<close>

definition start_stats ::
  "('w, 'f, 'd, 'fn, 'co, 'v) startup_host \<Rightarrow> ('w, unit) startup_effect" where
  "start_stats V = sbind (start_call (ad_now (ca_live (st_adapter V)))) (\<lambda>now.
     supd (\<lambda>s. s\<lparr>ss_stats := runtime_stats_new now\<rparr>))"

text \<open>A scope of the script, or the answer of the prompt; \<open>None\<close> is a cancelled start.\<close>

definition resolve_scope ::
  "('w, 'f, 'd, 'fn, 'co, 'v) startup_host \<Rightarrow> lua_configuration
   \<Rightarrow> ('w, scope_selection option) startup_effect" where
  "resolve_scope V c =
     (case lc_scope c of
        Some script_scope \<Rightarrow> sreturn (Some (scope_from_script script_scope))
      | None \<Rightarrow> sbind (start_try (st_resolve_missing_scope V)) (\<lambda>d. start_check (consent_into_scope d)))"

definition resolve_real_input_provider ::
  "('w, 'f, 'd, 'fn, 'co, 'v) startup_host \<Rightarrow> path \<Rightarrow> input_provider_config option \<Rightarrow> bool
   \<Rightarrow> ('w, input_provider_config option) startup_effect" where
  "resolve_real_input_provider V lua_file provider reset_cache =
     (case provider of
        None \<Rightarrow> sreturn None
      | Some p \<Rightarrow>
          if \<not> ip_interactive_devices p then sreturn (Some p)
          else sbind (start_within (resolve_interactive_input_provider (st_input V) lua_file p reset_cache))
                 (\<lambda>p. sreturn (Some p)))"

definition register_hotkey ::
  "('w, 'f, 'd, 'fn, 'co, 'v) startup_host \<Rightarrow> ('w, unit) startup_effect \<Rightarrow> hotkey_binding
   \<Rightarrow> ('w, unit) startup_effect" where
  "register_hotkey V cleanup b =
     sthen (start_count record_registration_attempt)
       (sbind (start_call (st_register V b)) (\<lambda>r.
          case r of
            Inr _ \<Rightarrow> start_count record_registration_success
          | Inl e \<Rightarrow> sthen (start_count record_registration_failure) (sthen cleanup (sfail e))))"

definition register_hotkeys ::
  "('w, 'f, 'd, 'fn, 'co, 'v) startup_host \<Rightarrow> ('w, unit) startup_effect \<Rightarrow> hotkey_binding list
   \<Rightarrow> ('w, unit) startup_effect" where
  "register_hotkeys V cleanup bs = seach (register_hotkey V cleanup) bs"

definition configure_adapter ::
  "('w, 'f, 'd, 'fn, 'co, 'v) startup_host \<Rightarrow> input_provider_config option \<Rightarrow> motion_token option
   \<Rightarrow> ('w, unit) startup_effect" where
  "configure_adapter V provider leader =
     or_cleanup (session_cleanup V Registration)
       (start_try (st_configure_input_provider V provider leader))"

text \<open>The test of the report, and the probe followed by its test.\<close>

definition check_probe ::
  "('w, 'f, 'd, 'fn, 'co, 'v) startup_host \<Rightarrow> capability_set \<Rightarrow> capability_report
   \<Rightarrow> ('w, unit) startup_effect" where
  "check_probe V required report =
     (case first_blocking_error report required of
        Some e \<Rightarrow>
          sthen (start_count (\<lambda>st. record_permission_failure (record_capability_probe_failure st)))
            (sthen (session_cleanup V CapabilityProbe) (sfail e))
      | None \<Rightarrow> start_count record_capability_probe_success)"

definition probe_adapter ::
  "('w, 'f, 'd, 'fn, 'co, 'v) startup_host \<Rightarrow> capability_set \<Rightarrow> ('w, unit) startup_effect" where
  "probe_adapter V required =
     sbind (start_call (st_probe_capabilities V required)) (check_probe V required)"

definition ensure_focus_provider ::
  "('w, 'f, 'd, 'fn, 'co, 'v) startup_host \<Rightarrow> capability_set \<Rightarrow> ('w, unit) startup_effect" where
  "ensure_focus_provider V required =
     swhen (List.member required ActiveProcessMetadata)
       (sthen (or_cleanup (session_cleanup V Registration)
                 (start_try (st_ensure_active_process_provider V)))
          (start_count record_kde_bridge_setup))"

definition print_summary ::
  "('w, 'f, 'd, 'fn, 'co, 'v) startup_host \<Rightarrow> shutdown_reason \<Rightarrow> ('w, unit) startup_effect" where
  "print_summary V reason =
     sbind (start_call (ad_now (ca_live (st_adapter V)))) (\<lambda>now.
       supd (\<lambda>s. s\<lparr>ss_world := st_print V (render_summary (ss_stats s) reason now) (ss_world s)\<rparr>))"

text \<open>The end of every start: the lifecycle, the summary and the cleanup of either exit.\<close>

definition run_to_end ::
  "('w, 'f, 'd, 'fn, 'co, 'v) startup_host \<Rightarrow> ('w, unit) startup_effect \<Rightarrow> ('w, unit) startup_effect
   \<Rightarrow> ('w, shutdown_reason) startup_effect \<Rightarrow> ('w, runtime_stats) startup_effect" where
  "run_to_end V after_error after_run lifecycle =
     sbind (or_cleanup (sthen (print_summary V shutdown_reason.RuntimeError) after_error) lifecycle)
       (\<lambda>reason. sthen (print_summary V reason) (sthen after_run (sget ss_stats)))"

section \<open>The lifecycles\<close>

definition core_exit ::
  "'w startup_state \<Rightarrow> ('w, 't, 'z) live_core_scheme \<times> shutdown_reason result
   \<Rightarrow> 'w startup_state \<times> shutdown_reason result" where
  "core_exit s y = (case y of (c, r) \<Rightarrow> (s\<lparr>ss_world := lc_world c, ss_stats := lc_stats c\<rparr>, r))"

definition blocking_lifecycle ::
  "('w, 'f, 'd, 'fn, 'co, 'v) startup_host \<Rightarrow> hotkey_binding list \<Rightarrow> runtime_motion list
   \<Rightarrow> runtime_press list \<Rightarrow> ('w, shutdown_reason) startup_effect" where
  "blocking_lifecycle V bindings motions presses =
     sbind (start_call (ad_now (ca_live (st_adapter V)))) (\<lambda>time_base s.
       map_option (core_exit s)
         (run_lifecycle (ca_live (st_adapter V)) (st_runner V) bindings motions presses time_base
            (ss_stats s) (ss_world s)))"

definition blocking_controller_lifecycle ::
  "('w, 'f, 'd, 'fn, 'co, 'v) startup_host \<Rightarrow> 'f controller_program
   \<Rightarrow> ('w, 'fn, 'co, 'v) lua_runtime option \<Rightarrow> capability_report
   \<Rightarrow> ('w, shutdown_reason) startup_effect" where
  "blocking_controller_lifecycle V p runtime cap s =
     map_option (\<lambda>(c, r). case c of None \<Rightarrow> (s, r) | Some c \<Rightarrow> core_exit s (c, r))
       (run_controller_lifecycle (st_adapter V) (st_runner V) p runtime cap (ss_stats s) (ss_world s))"

text \<open>\<open>DeveloperDiagnosticRuntime::register_toggle\<close> before the live lifecycle.\<close>

definition start_diagnostics ::
  "('w, 'f, 'd, 'fn, 'co, 'v) startup_host \<Rightarrow> 'f tracker_definition dev_runtime
   \<Rightarrow> ('w, 'f tracker_definition dev_runtime) startup_effect" where
  "start_diagnostics V dev s =
     map_option (\<lambda>(c, r :: unit result).
         (s\<lparr>ss_world := lc_world c, ss_stats := lc_stats c\<rparr>, Ok (lc_dev c)))
       (register_toggle (ca_live (st_adapter V))
          \<lparr>lc_world = ss_world s, lc_dev = dev, lc_stats = ss_stats s,
           lc_motion_runtime = motion_runtime_new [], lc_last_repeat_ticks = []\<rparr>)"

definition live_lifecycle ::
  "('w, 'f, 'd, 'fn, 'co, 'v) startup_host \<Rightarrow> hotkey_binding list \<Rightarrow> runtime_motion list
   \<Rightarrow> runtime_press list \<Rightarrow> ('w, shutdown_reason) startup_effect" where
  "live_lifecycle V bindings motions presses =
     sbind (start_diagnostics V dev_runtime_default) (\<lambda>dev.
     sthen (start_try (st_timer_fd V))
    (sbind (start_call (ad_now (ca_live (st_adapter V)))) (\<lambda>time_base s.
       map_option (core_exit s)
         (run_live_real_lifecycle (ca_live (st_adapter V)) bindings motions presses time_base dev
            (ss_stats s) (ss_world s)))))"

definition live_controller_lifecycle ::
  "('w, 'f, 'd, 'fn, 'co, 'v) startup_host \<Rightarrow> 'f controller_program
   \<Rightarrow> ('w, 'fn, 'co, 'v) lua_runtime option \<Rightarrow> capability_report
   \<Rightarrow> ('w, shutdown_reason) startup_effect" where
  "live_controller_lifecycle V p runtime cap =
     sbind (start_diagnostics V (dev_with_trackers (tk_trackers (cp_state_trackers p)))) (\<lambda>dev.
     sthen (start_try (st_timer_fd V))
    (sbind (start_call (ad_now (ca_live (st_adapter V)))) (\<lambda>motion_base.
     sbind (start_call (ad_now (ca_live (st_adapter V)))) (\<lambda>tracker_base s.
       map_option (\<lambda>(c, r). case c of None \<Rightarrow> (s, r) | Some c \<Rightarrow> core_exit s (c, r))
         (run_live_real_controller_lifecycle (st_adapter V) p runtime cap motion_base tracker_base dev
            (ss_stats s) (ss_world s))))))"

end
