(* ===== verification/Starts.thy ===== *)
theory Starts imports Startup begin

text \<open>
  The ways to start a run of \<open>signal-auras-cli/src/runner.rs\<close>: a declarative script or a controller,
  on a registrar, on the real adapter or on the real adapter with the live loop, and the half of
  \<open>run_cli\<close> that runs a script.
\<close>

section \<open>Bindings of a controller\<close>

definition controller_hotkey_binding :: "controller_registration \<Rightarrow> hotkey_binding result" where
  "controller_hotkey_binding r =
     rbind (hotkey_parse (cg_trigger r)) (\<lambda>h.
     rbind controller_dummy_macro (\<lambda>m.
       Ok \<lparr>hb_trigger = Keyboard h, hb_scope = cg_scope r, hb_mode = cg_mode r, hb_macro = m,
           hb_registration_state = registration_state.Pending\<rparr>))"

definition controller_hotkey_bindings :: "'f controller_program \<Rightarrow> hotkey_binding list result" where
  "controller_hotkey_bindings p =
     collect_results controller_hotkey_binding (registrations_of_kind controller_registration_kind.Hotkey p)"

definition overlay_toggle_bindings :: "'f controller_program \<Rightarrow> hotkey_binding list result" where
  "overlay_toggle_bindings p = collect_results
     (\<lambda>(ov, toggle). rbind controller_dummy_macro (\<lambda>m.
        Ok \<lparr>hb_trigger = Keyboard (ot_trigger toggle), hb_scope = od_scope ov, hb_mode = ot_mode toggle,
            hb_macro = m, hb_registration_state = registration_state.Pending\<rparr>))
     (List.map_filter (\<lambda>ov. map_option (\<lambda>toggle. (ov, toggle)) (od_toggle_hotkey ov))
        (ol_overlays (cp_overlays p)))"

section \<open>Loading a script\<close>

definition load_configuration ::
  "('w, 'f, 'd, 'fn, 'co, 'v) startup_host \<Rightarrow> path \<Rightarrow> ('w, lua_configuration) startup_effect" where
  "load_configuration V lua_file = start_check (load_lua_file (fs_read (st_files V)) lua_file)"

definition load_program ::
  "('w, 'f, 'd, 'fn, 'co, 'v) startup_host \<Rightarrow> path \<Rightarrow> ('w, 'f controller_program) startup_effect" where
  "load_program V lua_file = start_loaded
     (load_lua_controller_program_file (st_files V) (ca_f32 (st_adapter V)) (st_evaluate V) lua_file)"

text \<open>A controller that calls no operation of its context at run time needs no interpreter.\<close>

definition load_imperative_controller_runtime ::
  "('w, 'f, 'd, 'fn, 'co, 'v) startup_host \<Rightarrow> path
   \<Rightarrow> ('w, ('w, 'fn, 'co, 'v) lua_runtime option) startup_effect" where
  "load_imperative_controller_runtime V lua_file =
     sbind (start_loaded (load_lua_controller_runtime_source_file
              (st_files V) (ca_f32 (st_adapter V)) (st_evaluate V) lua_file)) (\<lambda>source.
       if \<not> (contains_str ''.sleep'' source \<or> contains_str ''.window.'' source) then sreturn None
       else sbind (start_try (st_load_runtime V source)) (\<lambda>runtime. sreturn (Some runtime)))"

text \<open>The condition of the warning that a held mouse button repeats in observe mode.\<close>

definition observe_mode_mouse_button_repeat ::
  "input_provider_config option \<Rightarrow> motion_definition list \<Rightarrow> bool" where
  "observe_mode_mouse_button_repeat provider motions =
     (case provider of
        None \<Rightarrow> False
      | Some p \<Rightarrow>
          if ip_mode p \<noteq> Observe \<or> ip_output p \<noteq> Uinput then False
          else list_ex (\<lambda>m. case mo_loop m of
                 None \<Rightarrow> False
               | Some l \<Rightarrow> list_ex (\<lambda>t. case t of MouseButton _ \<Rightarrow> True | _ \<Rightarrow> False) (ld_while_held l))
               motions)"

text \<open>A cancelled prompt ends the start with new statistics.\<close>

definition cancelled_start ::
  "('w, 'f, 'd, 'fn, 'co, 'v) startup_host \<Rightarrow> ('w, runtime_stats) startup_effect" where
  "cancelled_start V = sthen (start_stats V) (sget ss_stats)"

section \<open>On a registrar\<close>

definition start_runner_with_lifecycle ::
  "('w, 'f, 'd, 'fn, 'co, 'v) startup_host \<Rightarrow> path \<Rightarrow> ('w, runtime_stats) startup_effect" where
  "start_runner_with_lifecycle V lua_file =
     sbind (load_configuration V lua_file) (\<lambda>config.
     sbind (resolve_scope V config) (\<lambda>answer.
       case answer of
         None \<Rightarrow> cancelled_start V
       | Some scope \<Rightarrow>
           sthen (start_stats V)
          (sthen (register_hotkeys V (cleanup_registrar V Registration) (bindings_for_scope config scope))
             (run_to_end V (cleanup_registrar V error_phase.Shutdown) (start_try (st_unregister_all V))
                (blocking_lifecycle V (bindings_for_scope config scope) (motions_for_scope config scope)
                   (presses_for_scope config scope))))))"

definition start_controller_runner_with_lifecycle ::
  "('w, 'f, 'd, 'fn, 'co, 'v) startup_host \<Rightarrow> path \<Rightarrow> capability_report
   \<Rightarrow> ('w, runtime_stats) startup_effect" where
  "start_controller_runner_with_lifecycle V lua_file capabilities =
     sbind (load_program V lua_file) (\<lambda>program.
     sbind (load_imperative_controller_runtime V lua_file) (\<lambda>runtime.
     sthen (start_check (validate_program_capabilities program capabilities))
    (sthen (start_stats V)
    (sbind (start_check (controller_hotkey_bindings program)) (\<lambda>bindings.
     sthen (register_hotkeys V (cleanup_registrar V Registration) bindings)
       (run_to_end V (cleanup_registrar V error_phase.Shutdown) (start_try (st_unregister_all V))
          (blocking_controller_lifecycle V program runtime capabilities)))))))"

section \<open>On the real adapter\<close>

definition start_real_runner_with_lifecycle ::
  "('w, 'f, 'd, 'fn, 'co, 'v) startup_host \<Rightarrow> path \<Rightarrow> ('w, runtime_stats) startup_effect" where
  "start_real_runner_with_lifecycle V lua_file =
     sbind (load_configuration V lua_file) (\<lambda>config.
     sbind (resolve_scope V config) (\<lambda>answer.
       case answer of
         None \<Rightarrow> cancelled_start V
       | Some scope \<Rightarrow>
           sthen (start_stats V)
          (sbind (resolve_real_input_provider V lua_file (lc_input_provider config) False) (\<lambda>provider.
           sthen open_session
          (sthen (configure_adapter V provider (lc_leader config))
          (sthen (probe_adapter V (for_configuration_scope config scope))
          (sthen (register_hotkeys V (session_cleanup V Registration) (bindings_for_scope config scope))
             (run_to_end V (session_cleanup V error_phase.Shutdown) (finish_normal_shutdown V)
                (blocking_lifecycle V (bindings_for_scope config scope) (motions_for_scope config scope)
                   (presses_for_scope config scope))))))))))"

definition start_real_controller_runner_with_lifecycle ::
  "('w, 'f, 'd, 'fn, 'co, 'v) startup_host \<Rightarrow> path \<Rightarrow> ('w, runtime_stats) startup_effect" where
  "start_real_controller_runner_with_lifecycle V lua_file =
     sbind (load_program V lua_file) (\<lambda>program.
     sbind (load_imperative_controller_runtime V lua_file) (\<lambda>runtime.
     sbind (resolve_real_input_provider V lua_file (cp_input_provider program) False) (\<lambda>provider.
     sthen open_session
    (sthen (configure_adapter V provider (cp_leader program))
    (sbind (start_call (st_probe_capabilities V (cp_required program))) (\<lambda>report.
     sthen (start_stats V)
    (sthen (check_probe V (cp_required program) report)
    (sthen (ensure_focus_provider V (cp_required program))
    (sbind (start_check (controller_hotkey_bindings program)) (\<lambda>bindings.
     sthen (register_hotkeys V (session_cleanup V Registration) bindings)
       (run_to_end V (session_cleanup V error_phase.Shutdown) (finish_normal_shutdown V)
          (blocking_controller_lifecycle V program runtime report))))))))))))"

section \<open>On the real adapter, with the live loop\<close>

definition start_live_real_controller_runner_with_options ::
  "('w, 'f, 'd, 'fn, 'co, 'v) startup_host \<Rightarrow> path \<Rightarrow> bool \<Rightarrow> ('w, runtime_stats) startup_effect" where
  "start_live_real_controller_runner_with_options V lua_file reset_input_cache =
     sbind (load_program V lua_file) (\<lambda>program.
     sbind (load_imperative_controller_runtime V lua_file) (\<lambda>runtime.
     sbind (resolve_real_input_provider V lua_file (cp_input_provider program) reset_input_cache) (\<lambda>provider.
     sthen (start_try (st_signal_fd V))
    (sthen open_session
    (sthen (configure_adapter V provider (cp_leader program))
    (sbind (start_call (st_probe_capabilities V (cp_required program))) (\<lambda>report.
     sthen (start_stats V)
    (sthen (check_probe V (cp_required program) report)
    (sthen (ensure_focus_provider V (cp_required program))
    (sbind (start_check (controller_hotkey_bindings program)) (\<lambda>bindings.
     sthen (register_hotkeys V (session_cleanup V Registration) bindings)
    (sbind (start_check (overlay_toggle_bindings program)) (\<lambda>toggles.
     sthen (register_hotkeys V (session_cleanup V Registration) toggles)
       (run_to_end V (session_cleanup V error_phase.Shutdown) (finish_normal_shutdown V)
          (live_controller_lifecycle V program runtime report)))))))))))))))"

definition start_live_real_runner_with_options ::
  "('w, 'f, 'd, 'fn, 'co, 'v) startup_host \<Rightarrow> path \<Rightarrow> bool \<Rightarrow> ('w, runtime_stats) startup_effect" where
  "start_live_real_runner_with_options V lua_file reset_input_cache =
     sbind (load_configuration V lua_file) (\<lambda>config.
     sbind (resolve_scope V config) (\<lambda>answer.
       case answer of
         None \<Rightarrow> cancelled_start V
       | Some scope \<Rightarrow>
           sthen (start_stats V)
          (sbind (resolve_real_input_provider V lua_file (lc_input_provider config) reset_input_cache) (\<lambda>provider.
           sthen (start_try (st_signal_fd V))
          (sthen open_session
          (sthen (configure_adapter V provider (lc_leader config))
          (sthen (probe_adapter V (for_configuration_scope config scope))
          (sthen (ensure_focus_provider V (for_configuration_scope config scope))
          (sthen (register_hotkeys V (session_cleanup V Registration) (bindings_for_scope config scope))
             (run_to_end V (session_cleanup V error_phase.Shutdown) (finish_normal_shutdown V)
                (live_lifecycle V (bindings_for_scope config scope) (motions_for_scope config scope)
                   (presses_for_scope config scope))))))))))))"

section \<open>The command line\<close>

definition lua_file_looks_like_controller ::
  "('w, 'f, 'd, 'fn, 'co, 'v) startup_host \<Rightarrow> path \<Rightarrow> ('w, bool) startup_effect" where
  "lua_file_looks_like_controller V lua_file = start_check
     (case fs_read (st_files V) lua_file of
        Inl message \<Rightarrow> Err (load_error ''cannot read Lua file '' lua_file message)
      | Inr source \<Rightarrow> Ok (looks_like_controller source))"

text \<open>\<open>run_cli\<close> after the commands of the doctor.\<close>

definition run_script ::
  "('w, 'f, 'd, 'fn, 'co, 'v) startup_host \<Rightarrow> string list \<Rightarrow> ('w, unit) startup_effect" where
  "run_script V args =
     sbind (start_check (parse_run_args args)) (\<lambda>opts.
     sbind (lua_file_looks_like_controller V (ro_lua_file opts)) (\<lambda>controller.
       if controller
       then sbind (start_live_real_controller_runner_with_options V (ro_lua_file opts)
                     (ro_reset_input_cache opts)) (\<lambda>_. sreturn ())
       else sbind (start_live_real_runner_with_options V (ro_lua_file opts)
                     (ro_reset_input_cache opts)) (\<lambda>_. sreturn ())))"

end
