(* ===== verification/Doctor.thy ===== *)
theory Doctor imports Starts begin

text \<open>
  The doctor of \<open>signal-auras-cli/src/runner.rs\<close>: the report on the permissions a script needs, the
  report on the keys that are pressed, and \<open>run_cli\<close>, which runs a doctor or a script.

  \<open>InputPermissionProbe\<close> is a record of what it reads; \<open>{}\<close> of a path is the path itself. The stable
  path of a device is read from the file system and is an operation of the probe.
\<close>

section \<open>What the doctor reads\<close>

datatype input_path_status =
    Accessible
  | Missing string
  | Denied string
  | Duplicate
  | SelfGenerated string

record 'w permission_probe =
  pp_event_devices :: "'w \<Rightarrow> path list result"
  pp_current_user :: "'w \<Rightarrow> string"
  pp_current_groups :: "'w \<Rightarrow> string list"
  pp_read_access :: "path \<Rightarrow> 'w \<Rightarrow> input_path_status"
  pp_read_write_access :: "path \<Rightarrow> 'w \<Rightarrow> input_path_status"
  pp_symlink_target :: "path \<Rightarrow> 'w \<Rightarrow> path option"
  pp_stable_path_for :: "path \<Rightarrow> 'w \<Rightarrow> path option"
  pp_device_name :: "path \<Rightarrow> 'w \<Rightarrow> string option"
  pp_device_identity :: "path \<Rightarrow> 'w \<Rightarrow> evdev_device_identity option"

text \<open>\<open>$USER\<close>, and the groups in the text of \<open>/proc/self/status\<close>.\<close>

definition current_user_of :: "string option \<Rightarrow> string" where
  "current_user_of user = (case user of None \<Rightarrow> ''unknown'' | Some u \<Rightarrow> u)"

definition current_groups_of :: "string option \<Rightarrow> string list" where
  "current_groups_of status =
     (case status of
        None \<Rightarrow> []
      | Some text \<Rightarrow> (case List.map_filter (strip_prefix ''Groups:'') (str_lines text) of
            [] \<Rightarrow> [] | groups # _ \<Rightarrow> split_whitespace groups))"

text \<open>The outcome of opening a file: \<open>Inl (True, _)\<close> is an error of the kind \<open>NotFound\<close>.\<close>

definition path_status_of :: "bool \<times> string + unit \<Rightarrow> input_path_status" where
  "path_status_of opened =
     (case opened of
        Inr _ \<Rightarrow> Accessible
      | Inl (not_found, message) \<Rightarrow> if not_found then Missing message else Denied message)"

fun input_access_of :: "input_path_status \<Rightarrow> input_access_status" where
  "input_access_of Accessible = input_access_status.Accessible"
| "input_access_of (Missing e) = input_access_status.Missing e"
| "input_access_of (Denied e) = input_access_status.Denied e"
| "input_access_of Duplicate = input_access_status.Denied ''duplicate''"
| "input_access_of (SelfGenerated name) =
     input_access_status.Denied (''self-generated device '' @ name)"

text \<open>The probe as an \<open>InputDeviceProbe\<close>, beside the files of a host.\<close>

definition probe_host :: "'w permission_probe \<Rightarrow> 'w input_host \<Rightarrow> 'w input_host" where
  "probe_host P H =
     H\<lparr>ih_event_devices := pp_event_devices P,
       ih_read_access := (\<lambda>p w. input_access_of (pp_read_access P p w)),
       ih_read_write_access := (\<lambda>p w. input_access_of (pp_read_write_access P p w)),
       ih_stable_path_for := pp_stable_path_for P, ih_device_name := pp_device_name P,
       ih_device_identity := pp_device_identity P\<rparr>"

section \<open>Reports\<close>

record doctor_report =
  dr_ok :: bool
  dr_lines :: "string list"

definition render_report :: "doctor_report \<Rightarrow> string" where
  "render_report r = join newline_str (dr_lines r)"

definition shell_token :: "string \<Rightarrow> string" where
  "shell_token value = replace_char (CHR '' '') (CHR ''_'') value"

definition render_input_path_status :: "input_path_status \<Rightarrow> string" where
  "render_input_path_status status =
     (case status of
        Accessible \<Rightarrow> ''status=ok''
      | Missing e \<Rightarrow> ''status=missing error='' @ shell_token e
      | Denied e \<Rightarrow> ''status=denied error='' @ shell_token e
      | Duplicate \<Rightarrow> ''status=duplicate''
      | SelfGenerated name \<Rightarrow> ''status=self_generated excluded=true name='' @ shell_token name)"

definition render_cache_validation_status :: "cache_validation_status \<Rightarrow> string" where
  "render_cache_validation_status status =
     (case status of
        Accepted \<Rightarrow> ''accepted''
      | cache_validation_status.Missing \<Rightarrow> ''missing''
      | Invalid e \<Rightarrow> ''invalid error='' @ shell_token e
      | Stale e \<Rightarrow> ''stale error='' @ shell_token e
      | PermissionIncomplete e \<Rightarrow> ''permission_incomplete error='' @ shell_token e
      | UnsafeRuntimeDir e \<Rightarrow> ''unsafe_runtime_dir error='' @ shell_token e
      | cache_validation_status.Cancelled \<Rightarrow> ''cancelled'')"

definition stable_path_recommendation :: "'w permission_probe \<Rightarrow> path \<Rightarrow> 'w \<Rightarrow> string" where
  "stable_path_recommendation P p w =
     (if path_starts_with p ''/dev/input/by-signal-auras'' then '' preferred=selected_stable_path''
      else case pp_stable_path_for P p w of
        None \<Rightarrow> [] | Some s \<Rightarrow> '' recommendation=use_selected_path_'' @ s)"

text \<open>A report that is being written, as its verdict and its lines.\<close>

type_synonym report_part = "bool \<times> string list"

definition join_parts :: "report_part list \<Rightarrow> report_part" where
  "join_parts parts = (list_all fst parts, concat (map snd parts))"

definition provider_line :: "input_provider_config \<Rightarrow> string" where
  "provider_line p =
     ''input_provider backend=evdev mode='' @ debug_mode (ip_mode p) @ '' output=''
       @ debug_output (ip_output p)"

definition uinput_part ::
  "'w permission_probe \<Rightarrow> input_provider_config \<Rightarrow> 'w \<Rightarrow> report_part" where
  "uinput_part P p w =
     (if ip_output p = Uinput
      then let status = pp_read_write_access P uinput_path w
           in (status = Accessible, [''uinput path=/dev/uinput '' @ render_input_path_status status])
      else (True, [''uinput=not_required output=portal'']))"

section \<open>The input doctor\<close>

text \<open>\<open>seen\<close> holds the paths of the lines before.\<close>

definition device_status :: "'w permission_probe \<Rightarrow> path list \<Rightarrow> path \<Rightarrow> 'w \<Rightarrow> input_path_status" where
  "device_status P seen p w =
     (if p \<in> set seen then Duplicate
      else case pp_device_name P p w of
        Some name \<Rightarrow> if name = uinput_device_name then SelfGenerated name else pp_read_access P p w
      | None \<Rightarrow> pp_read_access P p w)"

fun device_parts :: "'w permission_probe \<Rightarrow> 'w \<Rightarrow> path list \<Rightarrow> path list \<Rightarrow> report_part list" where
  "device_parts P w seen [] = []"
| "device_parts P w seen (p # ps) =
     (let status = device_status P seen p w
      in (status = Accessible,
          [''evdev path='' @ p
           @ (case pp_symlink_target P p w of None \<Rightarrow> [] | Some target \<Rightarrow> '' target='' @ target)
           @ '' '' @ render_input_path_status status @ stable_path_recommendation P p w]))
     # device_parts P w (p # seen) ps"

definition interactive_part :: "cache_validation_report \<Rightarrow> report_part" where
  "interactive_part cache =
     (cv_status cache = Accepted,
      (''interactive_cache path='' @ cv_cache_path cache @ '' status=''
        @ render_cache_validation_status (cv_status cache))
      # map (\<lambda>p. ''interactive_selected path='' @ p) (cv_selected_devices cache))"

text \<open>\<open>None\<close> where the cache of the selected devices makes the doctor panic.\<close>

definition devices_part ::
  "'w permission_probe \<Rightarrow> 'w input_host \<Rightarrow> path \<Rightarrow> input_provider_config \<Rightarrow> 'w \<Rightarrow> report_part option"
  where
  "devices_part P H lua_file p w =
     (if ip_interactive_devices p
      then map_option interactive_part (interactive_cache_report (probe_host P H) lua_file p w)
      else if ip_all_devices p
      then Some (False,
        [''warning=devices_all selected-device permissions require explicit stable device paths'',
         ''evdev=all status=not_checked''])
      else Some (join_parts (device_parts P w [] (ip_devices p))))"

definition input_verdict :: "bool \<Rightarrow> string list" where
  "input_verdict ok =
     (if ok then [''result=ok unsafe input permissions are available'']
      else [''remediation=enable programs.signal-auras.unsafeInput with selected device matches, rebuild NixOS, then start a new login session'',
            ''result=failed unsafe input permissions are incomplete''])"

definition input_report ::
  "'w permission_probe \<Rightarrow> 'w input_host \<Rightarrow> path \<Rightarrow> lua_configuration \<Rightarrow> 'w \<Rightarrow> doctor_report option"
  where
  "input_report P H lua_file c w =
     (let head = [''# Signal Auras input doctor'', ''user='' @ pp_current_user P w,
                  ''groups='' @ join '','' (pp_current_groups P w)]
      in case lc_input_provider c of
           None \<Rightarrow> Some \<lparr>dr_ok = True, dr_lines = head @ [''input_provider=none'',
             ''result=ok no unsafe evdev/uinput permissions required by script'']\<rparr>
         | Some p \<Rightarrow> map_option (\<lambda>devices.
               case join_parts [devices, uinput_part P p w] of (ok, lines) \<Rightarrow>
                 \<lparr>dr_ok = ok, dr_lines = head @ provider_line p # lines @ input_verdict ok\<rparr>)
             (devices_part P H lua_file p w))"

definition input_doctor_report_with_probe ::
  "'w permission_probe \<Rightarrow> 'w input_host \<Rightarrow> (path \<Rightarrow> string + string) \<Rightarrow> path \<Rightarrow> 'w
   \<Rightarrow> doctor_report result option" where
  "input_doctor_report_with_probe P H read lua_file w =
     (case load_lua_file read lua_file of
        Inl e \<Rightarrow> Some (Err e)
      | Inr c \<Rightarrow> map_option Ok (input_report P H lua_file c w))"

section \<open>The key doctor\<close>

record key_discovery_observation =
  kd_device :: path
  kd_raw_code :: "16 word"

definition render_key_discovery_observation ::
  "input_provider_config \<Rightarrow> key_discovery_observation \<Rightarrow> string" where
  "render_key_discovery_observation p ob =
     (''key device='' @ kd_device ob @ '' raw_code='' @ show_nat (unat (kd_raw_code ob))
      @ (case from_evdev_code (unat (kd_raw_code ob)) of
           None \<Rightarrow> '' token=unknown aliases=none triggerability=unsupported emittability=unsupported reason=unknown_key_code''
         | Some t \<Rightarrow>
             '' token='' @ kt_name t
             @ '' aliases='' @ (if key_token_aliases t = [] then ''none'' else join '','' (key_token_aliases t))
             @ '' triggerability=supported emittability=''
             @ (if ip_output p = Uinput then ''supported'' else ''unavailable'')))"

fun key_device_parts :: "'w permission_probe \<Rightarrow> 'w \<Rightarrow> path list \<Rightarrow> path list \<Rightarrow> report_part list" where
  "key_device_parts P w seen [] = []"
| "key_device_parts P w seen (p # ps) =
     (let status = if p \<in> set seen then Duplicate else pp_read_access P p w
      in (status = Accessible, [''evdev path='' @ p @ '' '' @ render_input_path_status status]))
     # key_device_parts P w (p # seen) ps"

definition key_devices_part :: "'w permission_probe \<Rightarrow> input_provider_config \<Rightarrow> 'w \<Rightarrow> report_part" where
  "key_devices_part P p w =
     (if ip_all_devices p then (True, [''evdev=all status=explicit_current_run''])
      else join_parts (key_device_parts P w [] (ip_devices p)))"

definition observations_lines ::
  "input_provider_config \<Rightarrow> key_discovery_observation list \<Rightarrow> string list" where
  "observations_lines p obs =
     (if obs = [] then [''observed=none reason=no_key_events_received''] else [])
     @ map (render_key_discovery_observation p) obs"

definition key_verdict :: "bool \<Rightarrow> string list" where
  "key_verdict ok =
     (if ok then [''result=ok key discovery report is current-run only'']
      else [''result=failed key discovery permissions are incomplete''])"

definition key_report ::
  "'w permission_probe \<Rightarrow> lua_configuration \<Rightarrow> key_discovery_observation list \<Rightarrow> 'w \<Rightarrow> doctor_report"
  where
  "key_report P c obs w =
     (let head = [''# Signal Auras key doctor'', ''user='' @ pp_current_user P w, ''persistence=none'']
      in case lc_input_provider c of
           None \<Rightarrow> \<lparr>dr_ok = False, dr_lines = head @ [''input_provider=none'',
             ''result=failed key discovery requires an explicit evdev input_provider'']\<rparr>
         | Some p \<Rightarrow>
             (case join_parts [key_devices_part P p w, uinput_part P p w] of (ok, lines) \<Rightarrow>
                \<lparr>dr_ok = ok,
                 dr_lines = head @ provider_line p # lines @ observations_lines p obs @ key_verdict ok\<rparr>))"

definition key_doctor_report_with_probe_and_observations ::
  "'w permission_probe \<Rightarrow> (path \<Rightarrow> string + string) \<Rightarrow> path \<Rightarrow> key_discovery_observation list \<Rightarrow> 'w
   \<Rightarrow> doctor_report result" where
  "key_doctor_report_with_probe_and_observations P read lua_file obs w =
     rbind (load_lua_file read lua_file) (\<lambda>c. Ok (key_report P c obs w))"

section \<open>The keys that are pressed\<close>

text \<open>
  The observation provider is part of the world: \<open>dt_open\<close> opens it, \<open>dt_wait\<close> is
  \<open>wait_next_observed_input_event_or_runtime_fd\<close>. The two overlay tests give their rendered report.
\<close>

record 'w doctor_host =
  dt_probe :: "'w permission_probe"
  dt_discover_event_devices :: "'w \<Rightarrow> 'w \<times> path list result"
  dt_open :: "path list \<Rightarrow> input_provider_mode \<Rightarrow> motion_token option \<Rightarrow> bool \<Rightarrow> 'w \<Rightarrow> 'w \<times> unit result"
  dt_now :: "'w \<Rightarrow> 'w \<times> instant"
  dt_wait :: "duration \<Rightarrow> 'w \<Rightarrow> 'w \<times> evdev_input_wait_outcome result"
  dt_overlay_smoke_test :: "'w \<Rightarrow> 'w \<times> string result"
  dt_overlay_nested_smoke_test :: "'w \<Rightarrow> 'w \<times> string result"
  dt_print :: "string \<Rightarrow> 'w \<Rightarrow> 'w"

definition key_doctor_discovery_timeout :: duration where
  "key_doctor_discovery_timeout = from_millis 5000"

definition key_doctor_discovery_limit :: nat where
  "key_doctor_discovery_limit = 64"

definition observation_of :: "evdev_input_wait_outcome \<Rightarrow> key_discovery_observation list" where
  "observation_of outcome =
     (case outcome of
        evdev_input_wait_outcome.Input ev \<Rightarrow>
          if re_event_type (oi_raw ev) = 1
          then [\<lparr>kd_device = oi_source ev, kd_raw_code = re_code (oi_raw ev)\<rparr>] else []
      | RuntimeFd _ \<Rightarrow> []
      | evdev_input_wait_outcome.Timeout \<Rightarrow> [])"

text \<open>The clock is read for the condition of the loop and once more for the time that remains.\<close>

partial_function (option) observe_keys ::
  "'w doctor_host \<Rightarrow> instant \<Rightarrow> key_discovery_observation list
   \<Rightarrow> ('w, key_discovery_observation list) input_effect" where
  "observe_keys D deadline obs w =
     (case dt_now D w of (w1, now) \<Rightarrow>
        if now < deadline \<and> length obs < key_doctor_discovery_limit
        then (case dt_now D w1 of (w2, now) \<Rightarrow>
               (case dt_wait D (min (deadline - now) (from_millis 250)) w2 of
                  (w3, Inl e) \<Rightarrow> Some (w3, Err e)
                | (w3, Inr outcome) \<Rightarrow> observe_keys D deadline (obs @ observation_of outcome) w3))
        else Some (w1, Ok obs))"

definition collect_key_doctor_observations ::
  "'w doctor_host \<Rightarrow> (path \<Rightarrow> string + string) \<Rightarrow> path
   \<Rightarrow> ('w, key_discovery_observation list) input_effect" where
  "collect_key_doctor_observations D read lua_file =
     (case load_lua_file read lua_file of
        Inl e \<Rightarrow> sfail e
      | Inr c \<Rightarrow> (case lc_input_provider c of
            None \<Rightarrow> sreturn []
          | Some p \<Rightarrow>
              sbind (if ip_all_devices p then stry (dt_discover_event_devices D)
                     else sreturn (ip_devices p)) (\<lambda>devices.
              sthen (stry (dt_open D devices Observe (lc_leader c) (ip_all_devices p)))
             (sbind (srun (dt_now D)) (\<lambda>now.
                observe_keys D (now + key_doctor_discovery_timeout) [])))))"

definition key_doctor_report ::
  "'w doctor_host \<Rightarrow> (path \<Rightarrow> string + string) \<Rightarrow> path \<Rightarrow> ('w, doctor_report) input_effect" where
  "key_doctor_report D read lua_file =
     sbind (collect_key_doctor_observations D read lua_file) (\<lambda>obs.
       of_read (key_doctor_report_with_probe_and_observations (dt_probe D) read lua_file obs))"

definition input_doctor_report ::
  "'w doctor_host \<Rightarrow> 'w input_host \<Rightarrow> (path \<Rightarrow> string + string) \<Rightarrow> path
   \<Rightarrow> ('w, doctor_report) input_effect" where
  "input_doctor_report D H read lua_file w =
     map_option (\<lambda>r. (w, r)) (input_doctor_report_with_probe (dt_probe D) H read lua_file w)"

section \<open>The command line\<close>

definition doctor_failure :: "doctor_command \<Rightarrow> string" where
  "doctor_failure command =
     (case command of
        Input \<Rightarrow> ''input doctor found missing unsafe input permissions''
      | Keys \<Rightarrow> ''key doctor found missing unsafe input permissions''
      | Overlay \<Rightarrow> ''overlay doctor did not observe rendered overlay pixels''
      | OverlayNested \<Rightarrow> ''overlay nested doctor did not observe rendered overlay pixels'')"

definition doctor_print :: "'w doctor_host \<Rightarrow> string \<Rightarrow> ('w, unit) input_effect" where
  "doctor_print D text = supd (dt_print D text)"

definition finish_doctor ::
  "'w doctor_host \<Rightarrow> doctor_command \<Rightarrow> doctor_report \<Rightarrow> ('w, unit) input_effect" where
  "finish_doctor D command report =
     sthen (doctor_print D (render_report report))
       (if dr_ok report then sreturn ()
        else sfail (diagnosable_error_new CapabilityProbe (doctor_failure command)))"

definition run_doctor ::
  "'w doctor_host \<Rightarrow> 'w input_host \<Rightarrow> (path \<Rightarrow> string + string) \<Rightarrow> doctor_options
   \<Rightarrow> ('w, unit) input_effect" where
  "run_doctor D H read opts =
     (let script = (\<lambda>report. case do_lua_file opts of
            None \<Rightarrow> sfail (diagnosable_error_new ArgumentValidation doctor_usage)
          | Some lua_file \<Rightarrow> sbind (report lua_file) (finish_doctor D (do_command opts)))
      in case do_command opts of
           Overlay \<Rightarrow>
             sthen (doctor_print D ''overlay smoke: select the entire screen in the screen-share portal when prompted'')
               (sbind (stry (dt_overlay_smoke_test D)) (doctor_print D))
         | OverlayNested \<Rightarrow>
             sthen (doctor_print D ''overlay nested smoke: rendering native overlay and checking QML pixels'')
               (sbind (stry (dt_overlay_nested_smoke_test D)) (doctor_print D))
         | Input \<Rightarrow> script (input_doctor_report D H read)
         | Keys \<Rightarrow> script (key_doctor_report D read))"

definition run_cli ::
  "'w doctor_host \<Rightarrow> ('w, 'f, 'd, 'fn, 'co, 'v) startup_host \<Rightarrow> string list \<Rightarrow> ('w, unit) startup_effect"
  where
  "run_cli D V args =
     (if args \<noteq> [] \<and> hd args = ''doctor''
      then sbind (start_check (parse_doctor_args args)) (\<lambda>opts.
             start_within (run_doctor D (st_input V) (fs_read (st_files V)) opts))
      else run_script V args)"

end
