(* ===== verification/BlockingLaws.thy ===== *)
theory BlockingLaws imports Blocking ControllerSafety begin

text \<open>
  What the blocking lifecycles do. The abstract machine of the macro runner is a log of requests
  that grows by the plans of the configured macros, one after the other; the lifecycle implements it.
  The scheduler is empty between two events, so that no macro is skipped as running, and a run
  returns when the source of its events ends.
\<close>

section \<open>The plan of a macro\<close>

text \<open>The requests a macro stands for: its actions but the delays, numbered from \<open>n\<close>.\<close>

definition requests_from :: "nat \<Rightarrow> macro_action list \<Rightarrow> synthesized_input_request list" where
  "requests_from n as = map (\<lambda>(i, a). synthesized_input_request_new a i)
     (enumerate n (filter (\<lambda>a. \<not> is_delay a) as))"

definition plan_requests :: "macro_definition \<Rightarrow> synthesized_input_request list" where
  "plan_requests d = requests_from 1 (md_actions d)"

lemma requests_from_simps:
  "requests_from n [] = []"
  "requests_from n (a # as) = (if is_delay a then requests_from n as
     else synthesized_input_request_new a n # requests_from (Suc n) as)"
  by (simp_all add: requests_from_def)

definition motion_macros :: "motion_definition \<Rightarrow> macro_definition set" where
  "motion_macros d = set_option (mo_macro d)
     \<union> (case mo_loop d of
          None \<Rightarrow> {}
        | Some l \<Rightarrow> set_option (ld_after l)
            \<union> (case ld_body l of
                 Once body \<Rightarrow> {m. combine_optional_and_required (ld_before l) body = Inr m}
               | Repeat rep \<Rightarrow> insert (lr_macro rep) (set_option (ld_before l))))"

text \<open>The macros of the bindings, the presses and the motions of a program.\<close>

definition program_macros :: "live_program \<Rightarrow> macro_definition set" where
  "program_macros p = hb_macro ` set (lp_bindings p)
     \<union> (\<lambda>r. pd_macro (rp_definition r)) ` set (lp_presses p)
     \<union> (\<Union>m\<in>set (lp_motions p). motion_macros (rm_definition m))"

text \<open>A host whose log holds the requests it was given, in order, and nothing else.\<close>

definition logs_requests ::
  "('w, 't) live_adapter \<Rightarrow> 'w runner_host \<Rightarrow> ('w \<Rightarrow> synthesized_input_request list) \<Rightarrow> bool" where
  "logs_requests A H log \<longleftrightarrow>
     (\<forall>r w. log (fst (ad_execute_input_request A r w)) = log w @ [r])
     \<and> (\<forall>d w. log (rh_sleep H d w) = log w)
     \<and> keeps_log log (rh_next_event H) \<and> keeps_log log (ad_now A)
     \<and> keeps_log log (ad_monotonic_clock_time A) \<and> keeps_log log (ad_active_process_context A)"

section \<open>The abstract machine\<close>

text \<open>
  Between two events the log is made of whole plans; a run that fails may leave a plan half done.
  \<open>skips\<close> counts the triggers that found their macro running.
\<close>

definition skips :: "('w, 't, 'z) live_core_scheme \<Rightarrow> u64" where
  "skips s = rs_non_repeat_trigger_skipped_count (lc_stats s)"

definition issued ::
  "('w \<Rightarrow> synthesized_input_request list) \<Rightarrow> macro_definition set
   \<Rightarrow> synthesized_input_request list \<Rightarrow> u64 \<Rightarrow> ('w, 't) blocking_state \<Rightarrow> bool" where
  "issued log M l0 n s \<longleftrightarrow> bk_scheduler s = [] \<and> skips s = n
     \<and> (\<exists>ds. set ds \<subseteq> M \<and> log (lc_world s) = l0 @ concat (map plan_requests ds))"

definition issued_part ::
  "('w \<Rightarrow> synthesized_input_request list) \<Rightarrow> macro_definition set
   \<Rightarrow> synthesized_input_request list \<Rightarrow> u64 \<Rightarrow> ('w, 't) blocking_state \<Rightarrow> bool" where
  "issued_part log M l0 n s \<longleftrightarrow> bk_scheduler s = [] \<and> skips s = n
     \<and> (\<exists>ds rest. set ds \<subseteq> M \<and> (rest = [] \<or> (\<exists>d\<in>M. prefix rest (plan_requests d)))
          \<and> log (lc_world s) = l0 @ concat (map plan_requests ds) @ rest)"

lemma issued_is_part: "issued log M l0 n s \<Longrightarrow> issued_part log M l0 n s"
  unfolding issued_def issued_part_def by fastforce

section \<open>Counters\<close>

text \<open>The counters of the handlers but the one of a skipped trigger.\<close>

definition keeps_skips :: "(runtime_stats \<Rightarrow> runtime_stats) \<Rightarrow> bool" where
  "keeps_skips f \<longleftrightarrow> (\<forall>st. rs_non_repeat_trigger_skipped_count (f st)
     = rs_non_repeat_trigger_skipped_count st)"

lemma skips_emission:
  "emission_result e st = (st', r) \<Longrightarrow>
   rs_non_repeat_trigger_skipped_count st' = rs_non_repeat_trigger_skipped_count st"
  by (cases e) (auto simp: record_synthesized_input_emitted_def record_synthesized_input_denied_def)

text \<open>What a macro leaves: the requests of a part of its plan, all of them when it succeeds.\<close>

definition leaves ::
  "('w \<Rightarrow> synthesized_input_request list) \<Rightarrow> synthesized_input_request list
   \<Rightarrow> ('w, 't) blocking_state \<Rightarrow> ('w, 't) blocking_state \<Rightarrow> unit result \<Rightarrow> bool" where
  "leaves log rs s s' r \<longleftrightarrow> bk_scheduler s' = bk_scheduler s \<and> skips s' = skips s
     \<and> (\<exists>rest. prefix rest rs \<and> log (lc_world s') = log (lc_world s) @ rest
          \<and> (is_ok r \<longrightarrow> rest = rs))"

lemma leaves_nothing: "leaves log [] s s (Inr u)"
  by (simp add: leaves_def)

lemma leaves_from:
  assumes "leaves log rs s1 s' r" and "bk_scheduler s1 = bk_scheduler s" "skips s1 = skips s"
    and "log (lc_world s1) = log (lc_world s) @ es"
  shows "leaves log (es @ rs) s s' r"
  using assms unfolding leaves_def by (metis append_assoc same_prefix_prefix)

lemma executed_request:
  assumes logs: "logs_requests A H log" and run: "execute_request A a (n, s) = ((n', s'), r)"
  shows "n' = n + 1 \<and> bk_scheduler s' = bk_scheduler s \<and> skips s' = skips s
    \<and> log (lc_world s') = log (lc_world s) @ [synthesized_input_request_new a (n + 1)]"
proof -
  obtain w x where call: "ad_execute_input_request A (synthesized_input_request_new a (n + 1))
      (lc_world s) = (w, x)" by fastforce
  with logs have "log w = log (lc_world s) @ [synthesized_input_request_new a (n + 1)]"
    unfolding logs_requests_def by (metis fst_conv)
  with run call show ?thesis
    by (auto simp: execute_request_def skips_def split: sum.splits prod.splits dest: skips_emission)
qed

lemma executed_actions:
  assumes logs: "logs_requests A H log"
  shows "execute_actions (sleep_for H) (execute_request A) ia g as (n, s) = ((n', s'), r)
    \<Longrightarrow> leaves log (requests_from (n + 1) as) s s' r"
proof (induction as arbitrary: g n s)
  case Nil
  then show ?case using leaves_nothing [of log s "()"] by (auto simp: requests_from_simps)
next
  case (Cons a as)
  have slept: "log (rh_sleep H d w) = log w" for d w
    using logs by (simp add: logs_requests_def)
  show ?case
  proof (cases "is_delay a")
    case True
    then obtain ms where a: "a = Delay ms" by (cases a) (auto simp: is_delay_def)
    let ?s = "s\<lparr>lc_world := rh_sleep H (from_millis ms) (lc_world s)\<rparr>"
    have "execute_actions (sleep_for H) (execute_request A) ia g as (n, ?s) = ((n', s'), r)"
      using Cons.prems by (simp add: a sleep_for_def [of H "from_millis ms" "(n, s)"])
    from leaves_from [OF Cons.IH [OF this], of s "[]"] slept
    show ?thesis by (simp add: a requests_from_simps is_delay_def skips_def)
  next
    case False
    define s0 where "s0 = snd (if 0 < g \<and> 0 < ia then sleep_for H (from_millis ia) (n, s) else (n, s))"
    have s0: "(if 0 < g \<and> 0 < ia then sleep_for H (from_millis ia) (n, s) else (n, s)) = (n, s0)"
      "bk_scheduler s0 = bk_scheduler s" "skips s0 = skips s" "log (lc_world s0) = log (lc_world s)"
      by (auto simp: s0_def sleep_for_def skips_def slept)
    obtain n1 s1 r1 where one: "execute_request A a (n, s0) = ((n1, s1), r1)" by (metis prod.exhaust)
    note first = executed_request [OF logs one]
    have step: "execute_actions (sleep_for H) (execute_request A) ia g (a # as) (n, s) =
        (case r1 of Inl e \<Rightarrow> ((n1, s1), Err e)
         | Inr _ \<Rightarrow> execute_actions (sleep_for H) (execute_request A) ia (g + 1) as (n1, s1))"
      using False one s0(1) by (cases a) (simp_all add: is_delay_def Let_def split: sum.split)
    show ?thesis
    proof (cases r1)
      case (Inl e)
      with step Cons.prems have "s' = s1" "r = Inl e" by auto
      with first s0 False show ?thesis by (simp add: leaves_def requests_from_simps)
    next
      case (Inr u)
      with step Cons.prems have
        "execute_actions (sleep_for H) (execute_request A) ia (g + 1) as (n1, s1) = ((n', s'), r)"
        by simp
      from leaves_from [OF Cons.IH [OF this], of s "[synthesized_input_request_new a (n + 1)]"]
        first s0 False
      show ?thesis by (simp add: requests_from_simps)
    qed
  qed
qed

lemma executed_macro:
  assumes "logs_requests A H log" and "execute_macro_definition A H d ms s = (s', r)"
  shows "leaves log (plan_requests d) s s' r"
  using assms(2) executed_actions [OF assms(1)]
  by (fastforce simp: execute_macro_definition_def execute_plan_with_inter_action_delay_def
      plan_requests_def split: prod.splits)

lemma issued_by_macro:
  assumes logs: "logs_requests A H log" and d: "d \<in> M"
  shows "upholds (issued log M l0 n) (issued_part log M l0 n)
    (execute_motion_macro A H label d ms)"
proof (rule upholdsI, rule impI)
  fix s y
  assume I: "issued log M l0 n s" and y: "execute_motion_macro A H label d ms s = Some y"
  then obtain s' r where ry: "y = (s', r)" by fastforce
  with I y obtain s1 where run: "execute_macro_definition A H d ms (s\<lparr>bk_scheduler := [label]\<rparr>) = (s1, r)"
    and s': "s' = s1\<lparr>bk_scheduler := scheduler_finish (bk_scheduler s1) \<lparr>mg_hotkey = label\<rparr>,
        lc_stats := count_macro_result r (lc_stats s1)\<rparr>"
    by (auto simp: issued_def execute_motion_macro_def stry_def scheduler_begin_def
        split: prod.splits if_splits)
  from I obtain ds where ds: "set ds \<subseteq> M" "log (lc_world s) = l0 @ concat (map plan_requests ds)"
    by (auto simp: issued_def)
  from executed_macro [OF logs run] I obtain rest where
    s1: "bk_scheduler s1 = [label]" "skips s1 = n"
    and rest: "prefix rest (plan_requests d)" "log (lc_world s1) = log (lc_world s) @ rest"
      "is_ok r \<longrightarrow> rest = plan_requests d"
    by (auto simp: leaves_def issued_def skips_def)
  have "bk_scheduler s' = []" "skips s' = n" "lc_world s' = lc_world s1"
    using s1 by (simp_all add: s' scheduler_finish_def bs_remove_def skips_def count_macro_result_def
        split: sum.split)
  moreover have "set (ds @ [d]) \<subseteq> M" using ds(1) d by simp
  ultimately show "exits (issued log M l0 n) (issued_part log M l0 n) y"
  proof (cases r)
    case (Inl e)
    show ?thesis unfolding ry Inl issued_part_def exits.simps
      using \<open>bk_scheduler s' = []\<close> \<open>skips s' = n\<close> \<open>lc_world s' = lc_world s1\<close> rest ds d by auto
  next
    case (Inr u)
    have "log (lc_world s') = l0 @ concat (map plan_requests (ds @ [d]))"
      using rest ds \<open>lc_world s' = lc_world s1\<close> Inr by simp
    with \<open>bk_scheduler s' = []\<close> \<open>skips s' = n\<close> \<open>set (ds @ [d]) \<subseteq> M\<close> show ?thesis
      unfolding ry Inr issued_def exits.simps by blast
  qed
qed

section \<open>The handlers\<close>

lemma issued_in_world:
  "issued log M l0 n s \<Longrightarrow> log w = log (lc_world s) \<Longrightarrow> issued log M l0 n (s\<lparr>lc_world := w\<rparr>)"
  by (simp add: issued_def skips_def)

lemma issued_parts:
  shows "keeps_skips f \<Longrightarrow> keeps (issued log M l0 n) (count f)"
    and "keeps_log log g \<Longrightarrow> keeps (issued log M l0 n) (world_call g)"
    and "keeps_log log h \<Longrightarrow> keeps (issued log M l0 n) (world_try h)"
    and "keeps (issued log M l0 n) (feed_motion_runtime ev t)"
    and "keeps (issued log M l0 n) end_active_loops"
proof -
  show "keeps_skips f \<Longrightarrow> keeps (issued log M l0 n) (count f)"
    unfolding count_def by (rule keeps_supd) (simp add: issued_def skips_def keeps_skips_def)
  show "keeps_log log g \<Longrightarrow> keeps (issued log M l0 n) (world_call g)"
    unfolding world_call_def
    by (rule keeps_srun) (auto split: prod.splits intro: issued_in_world dest: keeps_logD)
  show "keeps_log log h \<Longrightarrow> keeps (issued log M l0 n) (world_try h)"
    unfolding world_try_def
    by (rule keeps_stry) (auto split: prod.splits intro: issued_in_world dest: keeps_logD)
  show "keeps (issued log M l0 n) (feed_motion_runtime ev t)"
    unfolding feed_motion_runtime_def
    by (rule keeps_srun) (auto simp: issued_def skips_def split: prod.splits)
  show "keeps (issued log M l0 n) end_active_loops"
    unfolding end_active_loops_def
    by (rule keeps_srun) (auto simp: issued_def skips_def split: prod.splits)
qed

lemma keeps_skips_counts:
  "keeps_skips (count_trigger label mode)" "keeps_skips (\<lambda>st. record_scope_denial st d)"
  "keeps_skips record_callback_received" "keeps_skips (record_callback_dispatched ms)"
  "keeps_skips record_shortcut_ignored" "keeps_skips record_motion_repeat_cancel"
  "keeps_skips record_motion_discard"
  "keeps_skips (\<lambda>st. record_motion_repeat_tick (record_active_process_match st))"
  "keeps_skips (\<lambda>st. record_motion_event_age_unavailable (record_motion_input_event ms st))"
  "keeps_skips (record_motion_input_event ms)"
  "keeps_skips (case age of Some a \<Rightarrow> record_motion_event_age (duration_millis_u64 a)
     | None \<Rightarrow> record_motion_event_age_unavailable)"
  by (auto simp: keeps_skips_def count_trigger_def record_scope_denial_def
      record_callback_received_def record_callback_dispatched_def record_shortcut_ignored_def
      record_motion_repeat_cancel_def record_motion_discard_def record_motion_repeat_tick_def
      record_active_process_match_def record_motion_event_age_unavailable_def
      record_motion_input_event_def record_motion_event_age_def record_trigger_def
      record_consumed_trigger_event_def record_passthrough_trigger_event_def
      record_active_process_non_match_def record_metadata_unavailable_def Let_def
      split: binding_mode.split option.split)

text \<open>
  What a property has to satisfy for the parts the handlers are made of, and for the execution of a
  configured macro; the handlers and the step then uphold it. The counters are any but the one of a
  skipped trigger.
\<close>

locale lifecycle_handlers =
  fixes A :: "('w, 't) live_adapter" and H :: "'w runner_host" and p :: live_program
    and I :: "('w, 't) blocking_state \<Rightarrow> bool" and J :: "('w, 't) blocking_state \<Rightarrow> bool"
  assumes on_error: "\<And>s. I s \<Longrightarrow> J s"
    and counted: "\<And>f. keeps_skips f \<Longrightarrow> keeps I (count f)"
    and called: "keeps I (world_call (ad_now A))"
      "keeps I (world_call (ad_monotonic_clock_time A))"
      "keeps I (world_try (ad_active_process_context A))"
    and fed: "\<And>ev t. keeps I (feed_motion_runtime ev t)" "keeps I end_active_loops"
    and macro: "\<And>d label ms. d \<in> program_macros p \<Longrightarrow>
      upholds I J (execute_motion_macro A H label d ms)"
begin

lemma basic: "upholds I J (sfail e)" "upholds I J (check r)"
  "keeps_skips f \<Longrightarrow> upholds I J (count f)" "upholds I J (read_now A)"
  "upholds I J (world_call (ad_monotonic_clock_time A))"
  "upholds I J (world_try (ad_active_process_context A))"
  "upholds I J (feed_motion_runtime ev t)" "upholds I J end_active_loops"
  unfolding read_now_def by (intro upholds_keeps keeps_intros counted called fed on_error; assumption)+

lemmas steps = upholds_intros basic keeps_skips_counts

lemma in_focus: "upholds I J m \<Longrightarrow> upholds I J (when_in_focus A sc c m)"
  unfolding when_in_focus_def focus_state_def count_denial_def by (intro steps)

lemma trigger: "hb_macro b \<in> program_macros p \<Longrightarrow> upholds I J (handle_trigger A H b)"
  unfolding handle_trigger_def handle_trigger_with_context_def by (intro steps in_focus macro)

lemma press: "upholds I J (handle_press_input A H ev (lp_presses p))"
proof -
  have pressed: "pd_macro (rp_definition r) \<in> program_macros p"
    if "matching_press ev (lp_presses p) rt = Some r" for r rt
    using that by (auto simp: matching_press_def find_Some_iff program_macros_def split: if_splits)
  show ?thesis
    unfolding handle_press_input_def handle_press_with_context_def
    by (rule upholds_sbind_sget) (intro steps in_focus macro pressed)
qed

lemma motion:
  assumes "motion_macros (rm_definition m) \<subseteq> program_macros p"
  shows "upholds I J (handle_motion_trigger A H m starts_loop)"
    and "upholds I J (handle_motion_repeat_tick A H m)"
    and "upholds I J (execute_motion_loop_after A H m)"
proof -
  let ?d = "rm_definition m"
  have own: "mo_macro ?d = Some d \<Longrightarrow> d \<in> program_macros p" for d
    using assms by (auto simp: motion_macros_def)
  have after: "Option.bind (mo_loop ?d) ld_after = Some d \<Longrightarrow> d \<in> program_macros p" for d
    using assms by (cases "mo_loop ?d") (auto simp: motion_macros_def)
  have tick: "Option.bind (mo_loop ?d) loop_repeat_of = Some rep \<Longrightarrow> lr_macro rep \<in> program_macros p" for rep
    using assms by (cases "mo_loop ?d")
      (auto simp: motion_macros_def loop_repeat_of_def split: loop_body.splits)
  have started: "upholds I J (execute_motion_loop_start A H m)"
  proof (cases "mo_loop ?d")
    case None
    then show ?thesis by (simp add: execute_motion_loop_start_def upholds_sreturn)
  next
    case (Some l)
    show ?thesis
    proof (cases "ld_body l")
      case (Once body)
      show ?thesis
      proof (cases "combine_optional_and_required (ld_before l) body")
        case (Inr d)
        then have "d \<in> program_macros p" using assms Some Once by (auto simp: motion_macros_def)
        then show ?thesis
          using Some Once Inr by (simp add: execute_motion_loop_start_def check_def Let_def macro)
      next
        case (Inl e)
        with Some Once show ?thesis
          by (auto simp: execute_motion_loop_start_def check_def sbind_def sfail_def Let_def on_error
              intro!: upholdsI)
      qed
    next
      case (Repeat rep)
      then have "ld_before l = Some d \<Longrightarrow> d \<in> program_macros p" for d
        using assms Some by (auto simp: motion_macros_def)
      then show ?thesis using Some Repeat
        by (auto simp: execute_motion_loop_start_def Let_def intro!: steps macro)
    qed
  qed
  show "upholds I J (handle_motion_trigger A H m starts_loop)"
    unfolding handle_motion_trigger_def handle_motion_trigger_with_context_def Let_def
    by (intro steps in_focus macro started own)
  show "upholds I J (handle_motion_repeat_tick A H m)"
    unfolding handle_motion_repeat_tick_def handle_motion_repeat_tick_with_context_def
    by (intro steps in_focus macro tick)
  show "upholds I J (execute_motion_loop_after A H m)"
    unfolding execute_motion_loop_after_def by (intro steps macro after)
qed

lemma step: "upholds I J (lifecycle_step A H p ev)"
proof -
  let ?M = "program_macros p"
  have bound: "hb_macro b \<in> ?M" if "List.find P (lp_bindings p) = Some b" for P b
    using that by (auto simp: program_macros_def find_Some_iff)
  have found: "motion_macros (rm_definition m) \<subseteq> ?M" if "find_motion t (lp_motions p) = Some m"
    for t m using that by (auto simp: program_macros_def find_motion_def find_Some_iff)
  have event: "upholds I J (handle_motion_runtime_event A H (lp_motions p) e)" for e
    unfolding handle_motion_runtime_event_def by (cases e) (auto intro!: steps motion found)
  have input: "upholds I J (handle_motion_input A H p e t)" for e t
    unfolding handle_motion_input_def by (intro steps press event)
  have bind: "upholds I J (trigger_binding A H (lp_bindings p) t m)" if "upholds I J m" for t m
    unfolding trigger_binding_def by (intro steps trigger bound that)
  have after: "upholds I J (loop_after_of A H (lp_motions p) t)" for t
    unfolding loop_after_of_def by (intro steps motion found)
  have latency: "upholds I J (record_motion_latency_metrics A t ts)" for t ts
    unfolding record_motion_latency_metrics_def by (intro steps)
  have tick: "upholds I J (case find_motion t (lp_motions p) of
      None \<Rightarrow> sreturn () | Some m \<Rightarrow> handle_motion_repeat_tick A H m)" for t
    by (intro steps motion found)
  show ?thesis
    unfolding lifecycle_step_def
    by (cases ev) (simp_all only: runner_event.case, (intro steps bind input after latency tick)+)
qed

end

locale requests_logged =
  fixes A :: "('w, 't) live_adapter" and H :: "'w runner_host"
    and log :: "'w \<Rightarrow> synthesized_input_request list"
  assumes logs: "logs_requests A H log"
begin

abbreviation steps where "steps p l0 n \<equiv> upholds (issued log (program_macros p) l0 n)
  (issued_part log (program_macros p) l0 n)"

end

sublocale requests_logged \<subseteq> issued: lifecycle_handlers A H p
  "issued log (program_macros p) l0 n" "issued_part log (program_macros p) l0 n" for p l0 n
proof
  show "keeps (issued log (program_macros p) l0 n) (world_call (ad_now A))"
    "keeps (issued log (program_macros p) l0 n) (world_call (ad_monotonic_clock_time A))"
    "keeps (issued log (program_macros p) l0 n) (world_try (ad_active_process_context A))"
    using logs by (auto simp: logs_requests_def intro: issued_parts)
qed (auto intro: issued_is_part issued_parts issued_by_macro [OF logs])

context requests_logged begin

lemma iteration: "steps p l0 n (lifecycle_iteration A H p)"
proof -
  have "steps p l0 n (world_try (rh_next_event H))"
    using logs by (intro upholds_keeps issued_parts) (auto simp: logs_requests_def intro: issued_is_part)
  then show ?thesis unfolding lifecycle_iteration_def by (intro upholds_sbind issued.step)
qed

lemma loop: "steps p l0 n (lifecycle_loop A H p)"
proof (rule upholdsI)
  fix s :: "('w, 't) blocking_state" and y
  assume "lifecycle_loop A H p s = Some y"
  then have "A = A \<longrightarrow> H = H \<longrightarrow> p = p \<longrightarrow> issued log (program_macros p) l0 n s \<longrightarrow>
      exits (issued log (program_macros p) l0 n) (issued_part log (program_macros p) l0 n) y"
  proof (rule lifecycle_loop.raw_induct [where
      P = "\<lambda>A' H' p' s y. A' = A \<longrightarrow> H' = H \<longrightarrow> p' = p \<longrightarrow> issued log (program_macros p) l0 n s \<longrightarrow>
        exits (issued log (program_macros p) l0 n) (issued_part log (program_macros p) l0 n) y", rotated])
    fix f A' H' p' and s :: "('w, 't) blocking_state"
      and y :: "('w, 't) blocking_state \<times> shutdown_reason result"
    assume IH: "\<And>A' H' p' s y. f A' H' p' s = Some y \<Longrightarrow>
        A' = A \<longrightarrow> H' = H \<longrightarrow> p' = p \<longrightarrow> issued log (program_macros p) l0 n s \<longrightarrow>
        exits (issued log (program_macros p) l0 n) (issued_part log (program_macros p) l0 n) y"
      and eq: "sbind (lifecycle_iteration A' H' p') (\<lambda>reason s1. case reason of
        Some r \<Rightarrow> sreturn r s1 | None \<Rightarrow> f A' H' p' s1) s = Some y"
    have "steps p l0 n (f A H p)"
      by (rule upholdsI) (use IH in blast)
    then have body: "steps p l0 n (sbind (lifecycle_iteration A H p)
        (\<lambda>reason s1. case reason of Some r \<Rightarrow> sreturn r s1 | None \<Rightarrow> f A H p s1))"
      by (intro upholds_sbind iteration) (auto simp: upholds_def sreturn_def split: option.splits)
    show "A' = A \<longrightarrow> H' = H \<longrightarrow> p' = p \<longrightarrow> issued log (program_macros p) l0 n s \<longrightarrow>
        exits (issued log (program_macros p) l0 n) (issued_part log (program_macros p) l0 n) y"
    proof (intro impI)
      assume A: "A' = A" "H' = H" "p' = p" and s: "issued log (program_macros p) l0 n s"
      from upholdsD [OF body eq [unfolded A]] s
      show "exits (issued log (program_macros p) l0 n) (issued_part log (program_macros p) l0 n) y" by blast
    qed
  qed
  then show "issued log (program_macros p) l0 n s \<longrightarrow>
      exits (issued log (program_macros p) l0 n) (issued_part log (program_macros p) l0 n) y" by simp
qed

end

section \<open>Every event is handled\<close>

text \<open>No handler of the lifecycle over macros has a loop of its own that may not end.\<close>

named_theorems total_intros \<open>operations that return\<close>

definition total :: "('s, 'e, 'a) effect \<Rightarrow> bool" where
  "total m \<longleftrightarrow> (\<forall>s. m s \<noteq> None)"

lemma total_basic [total_intros]:
  "total (sreturn a)" "total (sfail e)" "total (sget f)" "total (supd g)" "total (srun h)"
  "total (stry k)" "total (count c)" "total (world_call x)" "total (world_try z)" "total (read_now A)"
  by (auto simp: total_def effect_defs count_def world_call_def world_try_def read_now_def
      split: prod.split)

lemma total_sbind [total_intros]: "total m \<Longrightarrow> (\<And>a. total (f a)) \<Longrightarrow> total (sbind m f)"
  by (auto simp: total_def sbind_def split: option.split sum.split)

lemma total_sthen [total_intros]: "total m \<Longrightarrow> total k \<Longrightarrow> total (sthen m k)"
  unfolding sthen_def by (rule total_sbind)

lemma total_cases [total_intros]:
  "total m \<Longrightarrow> total k \<Longrightarrow> total (if b then m else k)"
  "total m \<Longrightarrow> (\<And>x. total (f x)) \<Longrightarrow> total (case o' of None \<Rightarrow> m | Some x \<Rightarrow> f x)"
  "total m \<Longrightarrow> total (swhen b m)" "total (check r)"
  by (auto simp: total_def swhen_def sreturn_def sfail_def check_def split: option.split sum.split)

lemma total_seach [total_intros]: "(\<And>x. total (f x)) \<Longrightarrow> total (seach f xs)"
  by (induction xs) (auto intro: total_intros)

lemma total_step: "total (lifecycle_step A H p ev)"
proof -
  have focus: "total (when_in_focus A sc c m)" if "total m" for sc c and m :: "('a, 'b, unit) blocking_effect"
    unfolding when_in_focus_def focus_state_def count_denial_def by (intro total_intros that)
  have macro: "total (execute_motion_macro A H l d ms)" for l d ms
    unfolding execute_motion_macro_def by (intro total_intros)
  have trigger: "total (handle_trigger A H b)" for b
    unfolding handle_trigger_def handle_trigger_with_context_def by (intro total_intros focus macro)
  have bind: "total (trigger_binding A H bs t m)" if "total m" for bs t and m :: "('a, 'b, unit) blocking_effect"
    unfolding trigger_binding_def by (intro total_intros trigger that)
  have start: "total (execute_motion_loop_start A H m)" for m
    unfolding execute_motion_loop_start_def Let_def
    by (auto intro!: total_intros macro split: option.split loop_body.split)
  have motion: "total (handle_motion_trigger A H m b)" for m b
    unfolding handle_motion_trigger_def handle_motion_trigger_with_context_def Let_def
    by (intro total_intros focus macro start)
  have event: "total (handle_motion_runtime_event A H ms e)" for ms e
    unfolding handle_motion_runtime_event_def by (cases e) (auto intro!: total_intros motion)
  have input: "total (handle_motion_input A H p e t)" for e t
    unfolding handle_motion_input_def feed_motion_runtime_def handle_press_input_def
      handle_press_with_context_def
    by (intro total_intros focus macro event)
  have tick: "total (handle_motion_repeat_tick A H m)" for m
    unfolding handle_motion_repeat_tick_def handle_motion_repeat_tick_with_context_def
    by (intro total_intros focus macro)
  have after: "total (loop_after_of A H ms t)" for ms t
    unfolding loop_after_of_def execute_motion_loop_after_def by (intro total_intros macro)
  show ?thesis
    unfolding lifecycle_step_def record_motion_latency_metrics_def end_active_loops_def
    by (cases ev) (simp_all only: runner_event.case, (intro total_intros bind input tick after)+)
qed

text \<open>
  A source of events that ends: each event it gives leaves fewer to come, or ends the run. The
  other calls of the host give it no new event.
\<close>

definition ends_run :: "runner_event result \<Rightarrow> bool" where
  "ends_run r = (case r of
     Inl _ \<Rightarrow> True | Inr ev \<Rightarrow> (case ev of runner_event.Shutdown _ \<Rightarrow> True | RuntimeError _ \<Rightarrow> True | _ \<Rightarrow> False))"

definition source_ends ::
  "('w, 't) live_adapter \<Rightarrow> 'w runner_host \<Rightarrow> ('w \<Rightarrow> nat) \<Rightarrow> bool" where
  "source_ends A H pending \<longleftrightarrow>
     (\<forall>w. ends_run (snd (rh_next_event H w)) \<or> pending (fst (rh_next_event H w)) < pending w)
     \<and> (\<forall>r w. pending (fst (ad_execute_input_request A r w)) \<le> pending w)
     \<and> (\<forall>d w. pending (rh_sleep H d w) \<le> pending w)
     \<and> (\<forall>w. pending (fst (ad_now A w)) \<le> pending w)
     \<and> (\<forall>w. pending (fst (ad_monotonic_clock_time A w)) \<le> pending w)
     \<and> (\<forall>w. pending (fst (ad_active_process_context A w)) \<le> pending w)"

lemma execute_actions_keeps:
  assumes "\<And>a w. Q w \<Longrightarrow> Q (fst (exec a w))" and "\<And>d w. Q w \<Longrightarrow> Q (sleep d w)"
  shows "Q w \<Longrightarrow> Q (fst (execute_actions sleep exec ia g as w))"
proof (induction as arbitrary: ia g w)
  case (Cons a as)
  have run: "Q (fst (case exec b v of (w2, Inl e) \<Rightarrow> (w2, Err e)
      | (w2, Inr _) \<Rightarrow> execute_actions sleep exec i h as w2))" if "Q v" for b v i h
    using Cons.IH assms(1) [OF that, of b] by (cases "exec b v") (auto split: sum.split)
  show ?case using Cons.IH Cons.prems assms(2) run by (cases a) (simp_all add: Let_def)
qed simp

locale ending_source =
  fixes A :: "('w, 't) live_adapter" and H :: "'w runner_host" and pending :: "'w \<Rightarrow> nat"
  assumes ends: "source_ends A H pending"
begin

definition few :: "nat \<Rightarrow> ('w, 't) blocking_state \<Rightarrow> bool" where
  "few k s \<longleftrightarrow> pending (lc_world s) \<le> k"

lemma few_world: "few k s \<Longrightarrow> pending w \<le> pending (lc_world s) \<Longrightarrow> few k (s\<lparr>lc_world := w\<rparr>)"
  by (simp add: few_def)

lemma few_calls:
  "(\<And>w. pending (fst (f w)) \<le> pending w) \<Longrightarrow> keeps (few k) (world_call f)"
  "(\<And>w. pending (fst (g w)) \<le> pending w) \<Longrightarrow> keeps (few k) (world_try g)"
proof -
  assume le: "\<And>w. pending (fst (f w)) \<le> pending w"
  show "keeps (few k) (world_call f)"
    unfolding world_call_def
    by (rule keeps_srun) (auto split: prod.splits intro!: few_world, metis fst_conv le)
next
  assume le: "\<And>w. pending (fst (g w)) \<le> pending w"
  show "keeps (few k) (world_try g)"
    unfolding world_try_def
    by (rule keeps_stry) (auto split: prod.splits intro!: few_world, metis fst_conv le)
qed

lemma few_execute: "few k s \<Longrightarrow> few k (snd (fst (execute_request A a (n, s))))"
  using ends unfolding execute_request_def source_ends_def few_def
  by (auto split: prod.split sum.split) (metis fst_conv order_trans)+

lemma few_macro: "keeps (few k) (execute_motion_macro A H label d ms)"
proof (rule keepsI)
  fix s s' r
  assume s: "few k s" and run: "execute_motion_macro A H label d ms s = Some (s', r)"
  have slept: "few k (snd (sleep_for H x ns))" if "few k (snd ns)" for x ns
  proof -
    have "pending (rh_sleep H x w) \<le> pending w" for w
      using ends by (simp add: source_ends_def)
    with that show ?thesis
      by (cases ns) (auto simp: sleep_for_def few_def intro: order_trans)
  qed
  have run_few: "few k (snd (fst (execute_actions (sleep_for H) (execute_request A) ia g as ns)))"
    if "few k (snd ns)" for ia g as and ns :: "nat \<times> ('w, 't) blocking_state"
  proof (rule execute_actions_keeps [where Q = "\<lambda>ns. few k (snd ns)"])
    show "few k (snd (fst (execute_request A a w)))" if "few k (snd w)" for a w
      using few_execute that by (cases w) simp
  qed (use that slept in auto)
  have macro: "few k (fst (execute_macro_definition A H d ms s1))" if "few k s1" for s1
    using run_few [of "(0, s1)" ms 0 "md_actions d"] that
    by (auto simp: execute_macro_definition_def execute_plan_with_inter_action_delay_def
        split: prod.split)
  have "few k s1" if "execute_macro_definition A H d ms (s\<lparr>bk_scheduler := x\<rparr>) = (s1, r')"
    for x s1 r'
    using macro [of "s\<lparr>bk_scheduler := x\<rparr>"] s that by (simp add: few_def)
  then show "few k s'"
    using run s by (auto simp: execute_motion_macro_def stry_def few_def split: prod.splits sum.splits)
qed

end

sublocale ending_source \<subseteq> few: lifecycle_handlers A H p "few k" "few k" for p k
proof
  show "keeps (few k) (world_call (ad_now A))" "keeps (few k) (world_call (ad_monotonic_clock_time A))"
    "keeps (few k) (world_try (ad_active_process_context A))"
    using ends by (auto intro!: few_calls simp: source_ends_def)
  show "keeps (few k) (count f)" for f
    unfolding count_def by (rule keeps_supd) (simp add: few_def)
  show "keeps (few k) (feed_motion_runtime ev t)" for ev t
    unfolding feed_motion_runtime_def by (rule keeps_srun) (auto simp: few_def split: prod.splits)
  show "keeps (few k) end_active_loops"
    unfolding end_active_loops_def by (rule keeps_srun) (auto simp: few_def split: prod.splits)
qed (auto intro: upholds_keeps few_macro)

context ending_source begin

lemma fewer_after:
  assumes "lifecycle_iteration A H p s = Some (s', Inr None)"
  shows "pending (lc_world s') < pending (lc_world s)"
proof -
  from assms obtain s1 ev where nxt: "world_try (rh_next_event H) s = Some (s1, Inr ev)"
    and step: "lifecycle_step A H p ev s1 = Some (s', Inr None)"
    by (auto simp: lifecycle_iteration_def sbind_Some_Ok)
  have event: "rh_next_event H (lc_world s) = (lc_world s1, Inr ev)"
    using nxt by (auto simp: world_try_def stry_def split: prod.splits)
  have "\<not> ends_run (Inr ev)"
    using step by (cases ev) (auto simp: ends_run_def lifecycle_step_def sbind_Some_Ok sthen_def
        sreturn_def sfail_def)
  with event ends have less: "pending (lc_world s1) < pending (lc_world s)"
    unfolding source_ends_def by (metis fst_conv snd_conv)
  have "few (pending (lc_world s1)) s'"
    using upholdsD_ok [OF few.step _ step] by (simp add: few_def)
  with less show ?thesis by (simp add: few_def)
qed

lemma returns: "lifecycle_loop A H p s \<noteq> None"
proof (induction "pending (lc_world s)" arbitrary: s rule: less_induct)
  case less
  have "total (lifecycle_iteration A H p)"
    unfolding lifecycle_iteration_def by (intro total_intros total_step)
  then obtain s1 r where it: "lifecycle_iteration A H p s = Some (s1, r)"
    by (fastforce simp: total_def)
  show ?case
  proof (cases "r = Inr None")
    case True
    with it less [OF fewer_after] show ?thesis
      by (subst lifecycle_loop.simps) (simp add: sbind_def)
  next
    case False
    with it show ?thesis
      by (subst lifecycle_loop.simps) (auto simp: sbind_def sreturn_def split: sum.split option.split)
  qed
qed

end

section \<open>The lifecycle of a controller\<close>

text \<open>The callbacks in flight are those the live loop has: \<open>callbacks_ok\<close> is kept on success.\<close>

lemma scheduled_hotkey:
  "keeps_if True (callbacks_ok n) m \<Longrightarrow>
   keeps_if True (callbacks_ok n) (schedule_hotkey A p cap h t m)"
  unfolding schedule_hotkey_def by (intro keeps_if_intros controller_callbacks.callback)

lemma controller_step_kept:
  "keeps_if True (callbacks_ok n) (controller_lifecycle_step A p cap ev)"
proof (cases ev)
  case (Trigger t)
  then show ?thesis unfolding controller_lifecycle_step_def
    by (cases t)
      (simp_all only: runner_event.case binding_trigger.case,
        (intro keeps_if_intros controller_callbacks.kept scheduled_hotkey)+)
qed (simp_all only: controller_lifecycle_step_def runner_event.case,
    (intro keeps_if_intros controller_callbacks.kept controller_callbacks.cancelled scheduled_hotkey)+)

lemma controller_iteration_kept:
  "keeps_if True (callbacks_ok n) (controller_lifecycle_iteration A H p L cap)"
proof -
  let ?I = "callbacks_ok n"
  have "keeps_if True ?I (force_continuations A)"
    unfolding force_continuations_def
    by (intro keeps_if_intros controller_callbacks.kept keeps_if_supd)
      (simp add: callbacks_ok_def force_ready_def comp_def)
  note parts = this controller_step_kept controller_callbacks.called
    controller_callbacks.ready_callbacks controller_callbacks.scheduled_tasks
  have out: "keeps_if True ?I (case outcome of
      Inl reason \<Rightarrow> sreturn (Some reason)
    | Inr force \<Rightarrow> sthen (swhen force (force_continuations A))
        (sthen (drain_controller_callbacks A p L cap) (sreturn None)))" for outcome
    unfolding drain_controller_callbacks_def
    by (cases outcome) (simp_all only: sum.case, (intro keeps_if_intros parts)+)
  show ?thesis
    unfolding controller_lifecycle_iteration_def by (intro keeps_if_intros parts out)
qed

lemma controller_iteration_stopped:
  assumes "callbacks_ok n s"
    and "controller_lifecycle_iteration A H p L cap s = Some (s', Inr (Some reason))"
  shows "nothing_in_flight s'"
proof -
  from assms(2) obtain s1 ev s2 outcome where
    nxt: "world_try (rh_next_event H) s = Some (s1, Inr ev)"
    and step2: "controller_lifecycle_step A p cap ev s1 = Some (s2, Inr outcome)"
    and rest: "(case outcome of Inl reason \<Rightarrow> sreturn (Some reason)
      | Inr force \<Rightarrow> sthen (swhen force (force_continuations A))
          (sthen (drain_controller_callbacks A p L cap) (sreturn None))) s2 = Some (s', Inr (Some reason))"
    unfolding controller_lifecycle_iteration_def sbind_Some_Ok by blast
  from rest have "outcome = Inl reason" "s2 = s'"
    by (cases outcome; auto simp: sthen_def sbind_Some_Ok sreturn_def)+
  with step2 have step: "controller_lifecycle_step A p cap ev s1 = Some (s', Inr (Inl reason))"
    by simp
  have ok: "callbacks_ok n s1"
    using keeps_if_ok [OF controller_callbacks.called(2) assms(1) nxt] .
  have "cancel_controller_callbacks s1 = Some (s', Inr ())"
    using step by (auto simp: controller_lifecycle_step_def sbind_Some_Ok sthen_def sreturn_def
        sfail_def split: runner_event.splits binding_trigger.splits)
  from cancelled_callbacks [OF ok this] show ?thesis by (simp add: nothing_in_flight_def)
qed

text \<open>What one unfolding of the loop returns, when the rest of the loop ends with nothing in flight.\<close>

definition stops_empty ::
  "nat \<Rightarrow> ('w, 'f, 'co) controller_state
   \<Rightarrow> ('w, 'f, 'co) controller_state \<times> shutdown_reason result \<Rightarrow> bool" where
  "stops_empty n s y \<longleftrightarrow> (callbacks_ok n s \<longrightarrow> is_ok (snd y) \<longrightarrow> nothing_in_flight (fst y))"

lemma stops_empty_step:
  assumes "\<And>s y. k s = Some y \<Longrightarrow> stops_empty n s y"
    and "sbind (controller_lifecycle_iteration A H p L cap) (\<lambda>reason s1. case reason of
      Some r \<Rightarrow> sreturn r s1 | None \<Rightarrow> k s1) s = Some y"
  shows "stops_empty n s y"
  unfolding stops_empty_def
proof (intro impI)
  assume s: "callbacks_ok n s" and ok: "is_ok (snd y)"
  obtain s' r where y: "y = (s', Inr r)" using ok by (cases y) (auto simp: is_ok_iff)
  from assms(2) obtain s1 reason where
    it: "controller_lifecycle_iteration A H p L cap s = Some (s1, Inr reason)"
    and rest: "(case reason of Some r \<Rightarrow> sreturn r s1 | None \<Rightarrow> k s1) = Some (s', Inr r)"
    unfolding y by (auto simp: sbind_Some_Ok)
  show "nothing_in_flight (fst y)"
  proof (cases reason)
    case None
    with rest have "k s1 = Some (s', Inr r)" by simp
    from assms(1) [OF this] keeps_if_ok [OF controller_iteration_kept s it] show ?thesis
      by (simp add: y stops_empty_def)
  next
    case (Some q)
    with rest have "s' = s1" by (simp add: sreturn_def)
    with controller_iteration_stopped [OF s it [unfolded Some]] show ?thesis by (simp add: y)
  qed
qed

lemma controller_loop_stops_empty:
  fixes s :: "('w, 'f, 'co) controller_state"
  assumes "controller_lifecycle_loop A H p L cap s = Some y"
  shows "stops_empty n s y"
  using assms
proof (rule controller_lifecycle_loop.raw_induct
    [where P = "\<lambda>A H p L cap s y. stops_empty n s y", rotated])
  fix f and A :: "('w, 'f, 'd) controller_adapter" and H :: "'w runner_host" and p cap
    and L :: "('w, 'fn, 'co, 'v) lua_runtime option" and s :: "('w, 'f, 'co) controller_state" and y
  assume "\<And>A H p L cap s y. f A H p L cap s = Some y \<Longrightarrow> stops_empty n s y"
    and "sbind (controller_lifecycle_iteration A H p L cap) (\<lambda>reason s1. case reason of
      Some r \<Rightarrow> sreturn r s1 | None \<Rightarrow> f A H p L cap s1) s = Some y"
  then show "stops_empty n s y" by (rule stops_empty_step)
qed

end
