(* ===== verification/BlockingProperties.thy ===== *)
theory BlockingProperties imports BlockingLaws ControllerProperties begin

text \<open>
  What the blocking lifecycles of \<open>signal-auras-cli/src/runner.rs\<close> promise: the requests of a run
  are the plans of the configured macros, a run returns when its events end, and a controller's run
  that is shut down leaves nothing in flight.
\<close>

section \<open>A host that plays a script\<close>

text \<open>The world is the events to come and the requests executed so far.\<close>

type_synonym script = "runner_event list \<times> synthesized_input_request list"

fun next_scripted :: "script \<Rightarrow> script \<times> runner_event result" where
  "next_scripted ([], log) = (([], log), Ok (runner_event.Shutdown CtrlC))"
| "next_scripted (ev # evs, log) = ((evs, log), Ok ev)"

definition script_host :: "script runner_host" where
  "script_host = \<lparr>rh_next_event = next_scripted, rh_sleep = (\<lambda>d w. w)\<rparr>"

definition script_adapter :: "active_process_context \<Rightarrow> (script, unit) live_adapter" where
  "script_adapter c =
     \<lparr>ad_now = (\<lambda>w. (w, 7000000)), ad_monotonic_clock_time = (\<lambda>w. (w, None)),
      ad_active_process_context = (\<lambda>w. (w, Ok c)),
      ad_execute_input_request = (\<lambda>req w. ((fst w, snd w @ [req]), Ok input_emission.Emitted)),
      ad_passthrough_raw_input = (\<lambda>raw w. (w, Ok ())),
      ad_arm_input_grab = (\<lambda>w. (w, Ok ())), ad_release_input_grab = (\<lambda>w. (w, Ok ())),
      ad_take_callback_dropped_count = (\<lambda>w. (w, 0)), ad_next_shortcut_event = (\<lambda>w. (w, None)),
      ad_next_input_event = (\<lambda>w. (w, Ok None)),
      ad_wait_next_input_or_runtime_fd = (\<lambda>d fds w. (w, Ok (RuntimeFd 3))),
      ad_wake_fds = (\<lambda>w. \<lparr>wf_signal_fd = 3, wf_timer_fd = 4, wf_callback_fd = None\<rparr>),
      ad_arm_timer_after = (\<lambda>d w. (w, Ok ())), ad_drain_timer = (\<lambda>w. (w, Ok ())),
      ad_drain_callback_wake_fd = (\<lambda>w. (w, Ok ())),
      ad_drain_shutdown_reason = (\<lambda>w. (w, Ok (Some CtrlC))),
      ad_register_internal_hotkey = (\<lambda>h w. (w, Ok h)),
      ad_unregister_internal_hotkey = (\<lambda>i w. (w, Ok ())),
      ad_pointer_diagnostic = (\<lambda>w. (w, Ok ())),
      ad_render_tracker_ghosts = (\<lambda>ts w. (w, Ok ())), ad_cleanup_overlay = (\<lambda>i w. (w, Ok ()))\<rparr>"

lemma script_logs: "logs_requests (script_adapter c) script_host snd"
proof -
  have "snd (fst (next_scripted w)) = snd w" for w
    by (cases w rule: next_scripted.cases) simp_all
  then show ?thesis
    by (simp add: logs_requests_def script_adapter_def script_host_def keeps_log_def)
qed

lemma script_ends: "source_ends (script_adapter c) script_host (length \<circ> fst)"
proof -
  have "ends_run (snd (next_scripted w)) \<or> length (fst (fst (next_scripted w))) < length (fst w)" for w
    by (cases w rule: next_scripted.cases) (simp_all add: ends_run_def)
  then show ?thesis by (simp add: source_ends_def script_adapter_def script_host_def)
qed

interpretation script_log: requests_logged "script_adapter c" script_host snd for c
  by unfold_locales (rule script_logs)

interpretation script_source: ending_source "script_adapter c" script_host "length \<circ> fst" for c
  by unfold_locales (rule script_ends)

definition kate_program_of_keys :: live_program where
  "kate_program_of_keys = \<lparr>lp_bindings = [kate_binding\<lparr>hb_macro := three_keys\<rparr>], lp_motions = [],
     lp_presses = [], lp_motion_time_base = 0\<rparr>"

definition kate_script ::
  "runner_event list \<Rightarrow> ((script, unit) blocking_state \<times> shutdown_reason result) option" where
  "kate_script evs = run_lifecycle (script_adapter kate_focused) script_host
     (lp_bindings kate_program_of_keys) [] [] 0 (runtime_stats_new 0) (evs, [])"

definition kate_start :: "(script, unit) blocking_state" where
  "kate_start = blocking_state_new ([runner_event.Hotkey ''F6''], []) (runtime_stats_new 0) []"

lemma scripted_first:
  "map_option (\<lambda>(s, r). (lc_world s, r))
     (lifecycle_iteration (script_adapter kate_focused) script_host kate_program_of_keys kate_start)
   = Some (([], [synthesized_input_request_new (KeyPress ''A'') 1,
       synthesized_input_request_new (KeyPress ''B'') 2,
       synthesized_input_request_new (KeyPress ''C'') 3]), Inr None)"
  by code_simp

lemma no_motions_no_after: "seach (loop_after_of A H []) ts = sreturn ()"
  by (induction ts) (simp_all add: loop_after_of_def find_motion_def sthen_def)

lemma scripted_run:
  "\<exists>s. kate_script [runner_event.Hotkey ''F6''] = Some (s, Inr CtrlC)
     \<and> snd (lc_world s) = [synthesized_input_request_new (KeyPress ''A'') 1,
       synthesized_input_request_new (KeyPress ''B'') 2,
       synthesized_input_request_new (KeyPress ''C'') 3]"
proof -
  obtain s1 where first: "lifecycle_iteration (script_adapter kate_focused) script_host
      kate_program_of_keys kate_start = Some (s1, Inr None)"
    and w: "lc_world s1 = ([], [synthesized_input_request_new (KeyPress ''A'') 1,
       synthesized_input_request_new (KeyPress ''B'') 2,
       synthesized_input_request_new (KeyPress ''C'') 3])"
    using scripted_first by (auto split: prod.splits)
  have "\<exists>s. lifecycle_iteration (script_adapter kate_focused) script_host kate_program_of_keys s1
      = Some (s, Inr (Some CtrlC)) \<and> lc_world s = lc_world s1"
    by (simp add: lifecycle_iteration_def lifecycle_step_def world_try_def stry_def sbind_def w
        script_host_def end_active_loops_def srun_def sthen_def sreturn_def no_motions_no_after
        kate_program_of_keys_def split: prod.split)
  then obtain s where second: "lifecycle_iteration (script_adapter kate_focused) script_host
      kate_program_of_keys s1 = Some (s, Inr (Some CtrlC))" and s: "lc_world s = lc_world s1" by blast
  have "lifecycle_loop (script_adapter kate_focused) script_host kate_program_of_keys kate_start = Some (s, Inr CtrlC)"
    by (subst lifecycle_loop.simps, subst sbind_def, simp add: first,
        subst lifecycle_loop.simps, subst sbind_def, simp add: second sreturn_def)
  then have "kate_script [runner_event.Hotkey ''F6''] = Some (s, Inr CtrlC)"
    by (simp add: kate_script_def run_lifecycle_def kate_program_of_keys_def kate_start_def)
  with s w show ?thesis by auto
qed

section \<open>Runs over macros\<close>

text \<open>
  C28: The requests a run hands to the executor refine the configured macros: they are the whole
  plans of configured macros one after the other, each numbered from 1, followed, only when the run
  fails, by a part of one more plan. No trigger is ever skipped as running, and the scheduler is
  empty at the end.
\<close>

theorem blocking_run_refines_plans:
  assumes logs: "logs_requests A H log"
    and run: "run_lifecycle A H bindings motions presses time_base st w = Some (s, r)"
    and p: "p = \<lparr>lp_bindings = bindings, lp_motions = motions, lp_presses = presses,
      lp_motion_time_base = time_base\<rparr>"
  shows "bk_scheduler s = []
    \<and> rs_non_repeat_trigger_skipped_count (lc_stats s) = rs_non_repeat_trigger_skipped_count st
    \<and> (\<exists>ds rest. set ds \<subseteq> program_macros p
         \<and> log (lc_world s) = log w @ concat (map plan_requests ds) @ rest
         \<and> (rest = [] \<or> \<not> is_ok r \<and> (\<exists>d\<in>program_macros p. prefix rest (plan_requests d))))"
proof -
  let ?n = "rs_non_repeat_trigger_skipped_count st"
  have start: "issued log (program_macros p) (log w) ?n (blocking_state_new w st motions)"
    by (simp add: issued_def skips_def blocking_state_new_def) (rule exI [of _ "[]"], simp)
  have loop: "lifecycle_loop A H p (blocking_state_new w st motions) = Some (s, r)"
    using run by (simp add: run_lifecycle_def p)
  note upholds = requests_logged.loop [OF requests_logged.intro [OF logs], of p "log w" ?n]
  show ?thesis
  proof (cases r)
    case (Inl e)
    from upholdsD_err [OF upholds start loop [unfolded Inl]] show ?thesis
      unfolding issued_part_def skips_def Inl is_ok.simps by blast
  next
    case (Inr reason)
    from upholdsD_ok [OF upholds start loop [unfolded Inr]] show ?thesis
      by (simp add: issued_def skips_def Inr)
  qed
qed

theorem blocking_run_refines_plans_witness:
  "\<exists>s. kate_script [runner_event.Hotkey ''F6''] = Some (s, Inr CtrlC) \<and> bk_scheduler s = []
     \<and> length (snd (lc_world s)) = 3"
proof -
  from scripted_run obtain s where
    s: "kate_script [runner_event.Hotkey ''F6''] = Some (s, Inr CtrlC)" "length (snd (lc_world s)) = 3"
    by auto
  from blocking_run_refines_plans [OF script_logs s(1) [unfolded kate_script_def] refl] s
  show ?thesis by auto
qed

text \<open>
  C29: A run over macros returns, whatever the macros and the answers of the host, when the source
  of its events ends: each event leaves fewer to come until a shutdown or an error.
\<close>

theorem blocking_run_returns:
  assumes "source_ends A H pending"
  shows "\<exists>s r. run_lifecycle A H bindings motions presses time_base st w = Some (s, r)"
proof -
  have "run_lifecycle A H bindings motions presses time_base st w \<noteq> None"
    unfolding run_lifecycle_def by (rule ending_source.returns [OF ending_source.intro [OF assms]])
  then obtain y where "run_lifecycle A H bindings motions presses time_base st w = Some y" by blast
  then show ?thesis by (cases y) blast
qed

theorem blocking_run_returns_witness: "\<exists>s r. kate_script [TimerElapsed, TimerElapsed] = Some (s, r)"
  unfolding kate_script_def by (rule blocking_run_returns [OF script_ends])

section \<open>Runs of a controller\<close>

text \<open>
  A blocking run of a controller that ends with a shutdown leaves no callback in flight: nothing
  is queued, nothing sleeps and no label is taken.
\<close>

theorem blocking_shutdown_cancels_callbacks:
  assumes "run_controller_lifecycle A H p rt cap st w = Some (Some s, Inr reason)"
  shows "cs_continuations s = [] \<and> sc_pending (cs_scheduler s) = []
    \<and> sc_active_or_pending (cs_scheduler s) = []"
proof -
  from assms obtain sch where
    sch: "callback_scheduler_new 64 default_lua_callback_budget = Inr sch"
    and loop: "controller_lifecycle_loop A H p rt cap
      (controller_state_new w dev_runtime_default st [] sch tracker_set_default) = Some (s, Inr reason)"
    by (auto simp: run_controller_lifecycle_def split: sum.splits)
  from controller_loop_stops_empty [OF loop, of 64] show ?thesis
    by (simp add: stops_empty_def nothing_in_flight_def callbacks_ok_new [OF sch])
qed


text \<open>A host that is shut down at once.\<close>

lemma immediate_run:
  "\<exists>s. run_controller_lifecycle (quiet_controller kate_focused)
       \<lparr>rh_next_event = immediate_shutdown, rh_sleep = (\<lambda>d w. w)\<rparr> (kate_program two_bars gauges)
       (None :: (raw_input_event list, unit, unit, unit) lua_runtime option)
       (report_from_statuses []) (runtime_stats_new 0) []
     = Some (Some s, Inr CtrlC)"
proof -
  let ?H = "\<lparr>rh_next_event = immediate_shutdown, rh_sleep = (\<lambda>d w. w)\<rparr>"
  let ?L = "None :: (raw_input_event list, unit, unit, unit) lua_runtime option"
  let ?s = "fresh_state tracker_set_default"
  have "\<exists>s'. controller_lifecycle_iteration (quiet_controller kate_focused) ?H
       (kate_program two_bars gauges) ?L (report_from_statuses []) ?s = Some (s', Inr (Some CtrlC))"
    by (simp add: controller_lifecycle_iteration_def controller_lifecycle_step_def
        immediate_shutdown_def world_try_def stry_def sbind_def sthen_def supd_def sreturn_def
        cancel_controller_callbacks_def)
  then obtain s' where "controller_lifecycle_iteration (quiet_controller kate_focused) ?H
       (kate_program two_bars gauges) ?L (report_from_statuses []) ?s = Some (s', Inr (Some CtrlC))"
    by blast
  then have "controller_lifecycle_loop (quiet_controller kate_focused) ?H
       (kate_program two_bars gauges) ?L (report_from_statuses []) ?s = Some (s', Inr CtrlC)"
    by (subst controller_lifecycle_loop.simps, subst sbind_def) (simp add: sreturn_def)
  then show ?thesis
    by (simp add: run_controller_lifecycle_def fresh_scheduler fresh_state_def)
qed

theorem blocking_shutdown_cancels_callbacks_witness:
  "\<exists>s. run_controller_lifecycle (quiet_controller kate_focused)
       \<lparr>rh_next_event = immediate_shutdown, rh_sleep = (\<lambda>d w. w)\<rparr> (kate_program two_bars gauges)
       (None :: (raw_input_event list, unit, unit, unit) lua_runtime option)
       (report_from_statuses []) (runtime_stats_new 0) []
     = Some (Some s, Inr CtrlC) \<and> cs_continuations s = []"
proof -
  from immediate_run obtain s where run: "run_controller_lifecycle (quiet_controller kate_focused)
       \<lparr>rh_next_event = immediate_shutdown, rh_sleep = (\<lambda>d w. w)\<rparr> (kate_program two_bars gauges)
       (None :: (raw_input_event list, unit, unit, unit) lua_runtime option)
       (report_from_statuses []) (runtime_stats_new 0) [] = Some (Some s, Inr CtrlC)" by blast
  from blocking_shutdown_cancels_callbacks [OF run] run show ?thesis by (intro exI [of _ s]) simp
qed

end
