(* ===== verification/InputCacheLaws.thy ===== *)
theory InputCacheLaws imports InputCache begin

text \<open>
  What the cache of input devices does: its text is read back, an accepted cache names devices that
  can be read and are the ones that were selected, and a selection is remembered.
\<close>

section \<open>Hexadecimal fields\<close>

lemma hex_digit_code: "n < 16 \<Longrightarrow> char_code (hex_digit n) = (if n < 10 then 48 + n else 87 + n)"
  by (simp add: hex_digit_def)

lemma hex_digit_value_digit: "n < 16 \<Longrightarrow> hex_digit_value (hex_digit n) = Some n"
  by (simp add: hex_digit_value_def hex_digit_code Let_def)

lemma hex_digit_plain:
  assumes "n < 16"
  shows "hex_digit n \<noteq> CHR ''+''" "\<not> is_continuation (hex_digit n)" "hex_digit n \<noteq> CHR '',''"
    "hex_digit n \<noteq> newline" "hex_digit n \<noteq> CHR 0x0D" "hex_digit n \<noteq> CHR ''=''"
proof -
  have code: "48 \<le> char_code (hex_digit n)" "char_code (hex_digit n) \<le> 102"
    using assms by (auto simp: hex_digit_code)
  then show "\<not> is_continuation (hex_digit n)" by (simp add: is_continuation_def)
  have "hex_digit n \<noteq> c" if "char_code c < 48 \<or> 57 < char_code c \<and> char_code c < 97" for c
    using that assms by (auto simp: hex_digit_code split: if_splits)
  then show "hex_digit n \<noteq> CHR ''+''" "hex_digit n \<noteq> CHR '',''" "hex_digit n \<noteq> newline"
    "hex_digit n \<noteq> CHR 0x0D" "hex_digit n \<noteq> CHR ''=''"
    by simp_all
qed

lemma hex_halves: "char_code c div 16 < 16" "char_code c mod 16 < 16"
  "char_of (16 * (char_code c div 16) + char_code c mod 16) = c"
  using nat_of_char_less_256 [of c] by (simp_all add: less_mult_imp_div_less)

lemma hex_encode_simps:
  "hex_encode [] = []"
  "hex_encode (c # s) =
     hex_digit (char_code c div 16) # hex_digit (char_code c mod 16) # hex_encode s"
  by (simp_all add: hex_encode_def Let_def)

lemma set_hex_encode: "x \<in> set (hex_encode s) \<Longrightarrow> \<exists>n<16. x = hex_digit n"
  by (induction s) (auto simp: hex_encode_simps intro: hex_halves)

lemma hex_pairs_encode: "hex_pairs (hex_encode s) = Some (Inr s)"
proof (induction s)
  case (Cons c s)
  have "hex_encode s = [] \<or> \<not> is_continuation (hd (hex_encode s))"
    by (cases s) (auto simp: hex_encode_simps hex_digit_plain hex_halves)
  then show ?case
    using Cons
    by (auto simp: hex_encode_simps parse_hex_pair_def hex_digit_plain hex_digit_value_digit
        hex_halves)
qed (simp add: hex_encode_simps)

lemma even_hex_encode: "even (length (hex_encode s))"
  by (induction s) (simp_all add: hex_encode_simps)

lemma hex_decode_encode: "utf8_ok s \<Longrightarrow> hex_decode_string (hex_encode s) = Some (Inr s)"
  by (simp add: hex_decode_string_def hex_pairs_encode even_hex_encode)

text \<open>What is decoded is well formed, and is decoded again from its own text.\<close>

lemma decoded_is_utf8: "hex_decode_string v = Some (Inr s) \<Longrightarrow> utf8_ok s"
  by (auto simp: hex_decode_string_def split: if_splits)

section \<open>The text of a cache\<close>

definition text_option :: "string option \<Rightarrow> bool" where
  "text_option v \<longleftrightarrow> v \<noteq> Some [] \<and> utf8_ok (or_default v)"

text \<open>The fields are texts; an optional field is absent or not empty, as \<open>read_trimmed\<close> makes it.\<close>

definition identity_ok :: "evdev_device_identity \<Rightarrow> bool" where
  "identity_ok i \<longleftrightarrow> utf8_ok (ed_event_name i) \<and> text_option (ed_name i) \<and> text_option (ed_phys i)
     \<and> text_option (ed_uniq i) \<and> text_option (ed_bustype i) \<and> text_option (ed_vendor i)
     \<and> text_option (ed_product i) \<and> text_option (ed_version i)"

definition cached_ok :: "cached_device \<Rightarrow> bool" where
  "cached_ok d \<longleftrightarrow> utf8_ok (cd_path d) \<and> identity_ok (cd_identity d)"

definition cache_ok :: "runtime_device_cache \<Rightarrow> bool" where
  "cache_ok c \<longleftrightarrow> (\<forall>x\<in>set (rc_version c). x \<noteq> newline \<and> x \<noteq> CHR 0x0D)
     \<and> utf8_ok (rc_script_path c) \<and> utf8_ok (rc_mode c) \<and> utf8_ok (rc_output c)
     \<and> rc_updated_unix_ms c < 2 ^ 128 \<and> list_all cached_ok (rc_devices c)"

lemma nonempty_or_default: "text_option v \<Longrightarrow> nonempty (or_default v) = v"
  by (cases v) (auto simp: text_option_def nonempty_def or_default_def)

lemma decode_fields_encode:
  "list_all utf8_ok fs \<Longrightarrow> decode_fields (map hex_encode fs) = Some (Inr fs)"
  by (induction fs) (simp_all add: hex_decode_encode)

lemma hex_encode_plain:
  "CHR '','' \<notin> set (hex_encode s)" "newline \<notin> set (hex_encode s)" "CHR 0x0D \<notin> set (hex_encode s)"
  using set_hex_encode hex_digit_plain by metis+

lemma parse_rendered_device:
  assumes "cached_ok d"
  shows "parse_cached_device (join '','' (map hex_encode (device_fields d))) = Some (Inr d)"
proof -
  have "split_on (CHR '','') (join '','' (map hex_encode (device_fields d)))
      = map hex_encode (device_fields d)"
    by (rule split_on_join) (auto simp: device_fields_def Let_def hex_encode_plain)
  moreover have "list_all utf8_ok (device_fields d)"
    using assms by (simp add: cached_ok_def identity_ok_def text_option_def device_fields_def Let_def)
  moreover have "device_of_fields (device_fields d) = Inr d"
    using assms by (cases d; cases "cd_identity d")
      (simp add: cached_ok_def identity_ok_def nonempty_or_default device_of_fields_def
        device_fields_def)
  ultimately show ?thesis by (simp add: parse_cached_device_def decode_fields_encode)
qed

text \<open>A line is read back when it has no line break.\<close>

definition plain_line :: "string \<Rightarrow> bool" where
  "plain_line l \<longleftrightarrow> newline \<notin> set l \<and> CHR 0x0D \<notin> set l"

lemma str_lines_join:
  assumes "list_all plain_line ls"
  shows "str_lines (join newline_str (ls @ [''''])) = ls"
proof -
  have "split_on newline (join newline_str (ls @ [''''])) = ls @ ['''']"
    unfolding newline_str_def
    by (rule split_on_join) (use assms in \<open>auto simp: plain_line_def list_all_iff\<close>)
  moreover have "map strip_cr ls = ls"
    using assms by (induction ls) (auto simp: plain_line_def strip_cr_def dest: last_in_set)
  ultimately show ?thesis by (simp add: str_lines_def)
qed

lemma plain_hex: "plain_line (hex_encode s)"
  by (simp add: plain_line_def hex_encode_plain)

lemma plain_join: "list_all plain_line ls \<Longrightarrow> plain_line (join '','' ls)"
  by (induction "'',''" ls rule: join.induct) (auto simp: plain_line_def)

lemma show_nat_digits: "list_all is_ascii_digit (show_nat n)"
proof (induction n rule: show_nat.induct)
  case (1 n)
  have "is_ascii_digit (char_of (48 + k))" if "k < 10" for k :: nat
    using that by (simp add: is_ascii_digit_def)
  with 1 show ?case by (subst show_nat.simps) auto
qed

lemma plain_show_nat: "plain_line (show_nat n)"
  using show_nat_digits [of n] by (auto simp: plain_line_def list_all_iff is_ascii_digit_def Let_def)

definition cache_lines :: "runtime_device_cache \<Rightarrow> string list" where
  "cache_lines c =
     [''version='' @ rc_version c, ''script='' @ hex_encode (rc_script_path c),
      ''mode='' @ hex_encode (rc_mode c), ''output='' @ hex_encode (rc_output c),
      ''updated_unix_ms='' @ show_nat (rc_updated_unix_ms c)] @ map render_cached_device (rc_devices c)"

lemma plain_append: "plain_line (a @ b) \<longleftrightarrow> plain_line a \<and> plain_line b"
  by (auto simp: plain_line_def)

lemma plain_device: "plain_line (render_cached_device d)"
  unfolding render_cached_device_def plain_append
  by (auto simp: list_all_iff intro!: plain_join plain_hex) (simp add: plain_line_def)

lemma plain_cache_lines: "cache_ok c \<Longrightarrow> list_all plain_line (cache_lines c)"
  using plain_hex plain_show_nat plain_device
  by (auto simp: cache_lines_def list_all_iff cache_ok_def plain_line_def)

lemma lines_of_rendered: "cache_ok c \<Longrightarrow> str_lines (render_cache c) = cache_lines c"
  using str_lines_join [OF plain_cache_lines] by (simp add: render_cache_def cache_lines_def)

lemma split_once_key: "d \<notin> set k \<Longrightarrow> split_once d (k @ d # v) = Some (k, v)"
proof -
  assume k: "d \<notin> set k"
  then have "dropWhile (\<lambda>c. c \<noteq> d) (k @ d # v) = d # v" by (induction k) auto
  moreover from k have "takeWhile (\<lambda>c. c \<noteq> d) (k @ d # v) = k" by (induction k) auto
  ultimately show ?thesis by (simp add: split_once_def)
qed

lemma digits_value_append:
  "digits_value a (s @ t) = Option.bind (digits_value a s) (\<lambda>b. digits_value b t)"
  by (induction a s rule: digits_value.induct) simp_all

lemma digits_value_show_nat: "digits_value 0 (show_nat n) = Some n"
proof (induction n rule: show_nat.induct)
  case (1 n)
  then show ?case
    by (subst show_nat.simps) (auto simp: digits_value_append is_ascii_digit_def Let_def)
qed

lemma parse_show_nat: "n \<le> m \<Longrightarrow> parse_unsigned m (show_nat n) = Some n"
  using digits_value_show_nat [of n] show_nat_digits [of n]
  by (cases "show_nat n") (auto simp: parse_unsigned_def Let_def is_ascii_digit_def)

lemma parse_device_lines:
  "list_all cached_ok ds \<Longrightarrow>
   parse_cache_lines (map render_cached_device ds) c = Some (Inr (c\<lparr>pc_devices := pc_devices c @ ds\<rparr>))"
proof (induction ds arbitrary: c)
  case (Cons d ds)
  have "parse_cache_line (render_cached_device d) c = Some (Inr (c\<lparr>pc_devices := pc_devices c @ [d]\<rparr>))"
    using Cons.prems split_once_key [of "CHR ''=''" "''device''"]
    by (simp add: parse_cache_line_def render_cached_device_def parse_rendered_device)
  with Cons show ?case by simp
qed simp

lemma parse_rendered_cache: "cache_ok c \<Longrightarrow> parse_cache (render_cache c) = Some (Inr c)"
proof -
  assume ok: "cache_ok c"
  have key: "split_once (CHR ''='') (k @ ''='' @ v) = Some (k, v)" if "CHR ''='' \<notin> set k" for k v
    using split_once_key [OF that] by simp
  let ?p = "\<lparr>pc_version = Some (rc_version c), pc_script_path = Some (rc_script_path c),
     pc_mode = Some (rc_mode c), pc_output = Some (rc_output c),
     pc_updated_unix_ms = Some (rc_updated_unix_ms c), pc_devices = []\<rparr>"
  have "parse_cache_lines (cache_lines c) partial_cache_empty
      = parse_cache_lines (map render_cached_device (rc_devices c)) ?p"
    using ok key [of "''version''"] key [of "''script''"] key [of "''mode''"] key [of "''output''"]
      key [of "''updated_unix_ms''"]
    by (simp add: cache_lines_def parse_cache_line_def hex_decode_encode cache_ok_def
        parse_show_nat partial_cache_empty_def)
  also have "\<dots> = Some (Inr (?p\<lparr>pc_devices := rc_devices c\<rparr>))"
    using ok by (simp add: parse_device_lines cache_ok_def)
  finally show ?thesis
    by (simp add: parse_cache_def lines_of_rendered ok complete_cache_def require_field_def)
qed

section \<open>The selected devices\<close>

definition usable :: "'w input_host \<Rightarrow> 'w \<Rightarrow> path \<Rightarrow> bool" where
  "usable H w p \<longleftrightarrow> accessible (ih_read_access H p w)
     \<and> ih_device_name H p w \<noteq> Some uinput_device_name \<and> ih_device_identity H p w \<noteq> None"

lemma check_selected_ok:
  "check_selected H w seen ps = Inr () \<longleftrightarrow>
     distinct ps \<and> set ps \<inter> set seen = {} \<and> (\<forall>p\<in>set ps. usable H w p)"
  by (induction ps arbitrary: seen) (auto simp: usable_def)

lemma validate_selected_ok:
  "validate_selected_devices H ps provider w = Inr () \<longleftrightarrow>
     ps \<noteq> [] \<and> distinct ps \<and> (\<forall>p\<in>set ps. usable H w p)
     \<and> (ip_output provider = Uinput \<longrightarrow> accessible (ih_read_write_access H uinput_path w))"
  by (auto simp: validate_selected_devices_def check_selected_ok)

lemma cached_devices_ok:
  assumes "cached_devices H w ps = Inr ds"
  shows "map cd_path ds = ps \<and> check_identities H w ds = Accepted
    \<and> (\<forall>d\<in>set ds. ih_device_identity H (cd_path d) w = Some (cd_identity d))"
  using assms
proof (induction ps arbitrary: ds)
  case (Cons p ps)
  then show ?case by (cases "ih_device_identity H p w") auto
qed simp

lemma check_identities_cong:
  "(\<And>p. ih_device_identity H p w' = ih_device_identity H p w) \<Longrightarrow>
   check_identities H w' ds = check_identities H w ds"
  by (induction ds) (simp_all split: option.split)

section \<open>What the host does to files and devices\<close>

text \<open>What the place of the cache depends on, and what the validation of the devices depends on.\<close>

definition same_paths :: "'w input_host \<Rightarrow> 'w \<Rightarrow> 'w \<Rightarrow> bool" where
  "same_paths H w w' \<longleftrightarrow> (\<forall>n. ih_env H n w' = ih_env H n w)
     \<and> (\<forall>p. ih_metadata H p w' = ih_metadata H p w)
     \<and> (\<forall>p. ih_canonicalize H p w' = ih_canonicalize H p w)
     \<and> ih_read_to_string H ''/proc/self/status'' w' = ih_read_to_string H ''/proc/self/status'' w"

definition same_devices :: "'w input_host \<Rightarrow> 'w \<Rightarrow> 'w \<Rightarrow> bool" where
  "same_devices H w w' \<longleftrightarrow> (\<forall>p. ih_read_access H p w' = ih_read_access H p w)
     \<and> (\<forall>p. ih_read_write_access H p w' = ih_read_write_access H p w)
     \<and> (\<forall>p. ih_device_name H p w' = ih_device_name H p w)
     \<and> (\<forall>p. ih_device_identity H p w' = ih_device_identity H p w)"

text \<open>
  No call moves the script, the runtime directory or the identity of the process; making a
  directory and writing a file change no device, and a written file has the text that was written.
\<close>

definition keeps_files :: "'w input_host \<Rightarrow> bool" where
  "keeps_files H \<longleftrightarrow>
     (\<forall>p w. same_paths H w (fst (ih_remove_file H p w)))
     \<and> (\<forall>reason cs w. same_paths H w (fst (ih_select_input_devices H reason cs w)))
     \<and> (\<forall>ps b w. same_paths H w (fst (ih_confirm_repair H ps b w)))
     \<and> (\<forall>args w. same_paths H w (fst (ih_sudo H args w)))
     \<and> (\<forall>p w. same_paths H w (fst (ih_create_dir_all H p w))
                \<and> same_devices H w (fst (ih_create_dir_all H p w)))
     \<and> (\<forall>p s w. same_paths H w (fst (ih_write H p s w)) \<and> same_devices H w (fst (ih_write H p s w)))
     \<and> (\<forall>p s w. snd (ih_write H p s w) = Inr () \<longrightarrow>
          ih_exists H p (fst (ih_write H p s w))
          \<and> ih_read_to_string H p (fst (ih_write H p s w)) = Inr s)"

text \<open>Rust's strings are well-formed; the clock is a \<open>u128\<close>; an identity is one of \<open>read_trimmed\<close>.\<close>

definition gives_texts :: "'w input_host \<Rightarrow> bool" where
  "gives_texts H \<longleftrightarrow>
     (\<forall>p w i. ih_device_identity H p w = Some i \<longrightarrow> identity_ok i)
     \<and> (\<forall>p w c. ih_canonicalize H p w = Inr c \<longrightarrow> utf8_ok c)
     \<and> (\<forall>w. ih_unix_ms H w < 2 ^ 128)
     \<and> (\<forall>reason cs w ps. snd (ih_select_input_devices H reason cs w) = Inr (Selected ps) \<longrightarrow>
          list_all utf8_ok ps)"

lemma same_paths_trans: "same_paths H u v \<Longrightarrow> same_paths H v w \<Longrightarrow> same_paths H u w"
  by (simp add: same_paths_def)

lemma same_devices_trans: "same_devices H u v \<Longrightarrow> same_devices H v w \<Longrightarrow> same_devices H u w"
  by (simp add: same_devices_def)

lemma same_refl [simp]: "same_paths H w w" "same_devices H w w"
  by (simp_all add: same_paths_def same_devices_def)

lemma same_cache_path:
  "same_paths H w w' \<Longrightarrow> runtime_cache_path H lua_file w' = runtime_cache_path H lua_file w"
proof -
  assume same: "same_paths H w w'"
  then have "current_uid H w' = current_uid H w"
    by (simp add: same_paths_def current_uid_def)
  with same have "validate_runtime_dir H runtime w' = validate_runtime_dir H runtime w" for runtime
    by (simp add: same_paths_def validate_runtime_dir_def split: sum.split)
  moreover from same have "canonical_main_lua_path H lua_file w' = canonical_main_lua_path H lua_file w"
    by (simp add: same_paths_def canonical_main_lua_path_def)
  ultimately show ?thesis
    using same by (simp add: same_paths_def runtime_cache_path_def split: option.split)
qed

lemma same_validation:
  assumes "same_devices H w w'"
  shows "usable H w' p = usable H w p"
    "validate_selected_devices H ps provider w' = validate_selected_devices H ps provider w"
    "check_identities H w' ds = check_identities H w ds"
proof -
  show "usable H w' p = usable H w p" using assms by (simp add: usable_def same_devices_def)
  have "check_selected H w' seen ps = check_selected H w seen ps" for seen
    by (induction ps arbitrary: seen) (use assms in \<open>simp_all add: same_devices_def\<close>)
  then show "validate_selected_devices H ps provider w' = validate_selected_devices H ps provider w"
    using assms by (simp add: validate_selected_devices_def same_devices_def)
  show "check_identities H w' ds = check_identities H w ds"
    by (rule check_identities_cong) (use assms in \<open>simp add: same_devices_def\<close>)
qed

section \<open>A written cache\<close>

lemma on_files_Ok: "on_files what f w = Some (w', Inr u) \<longleftrightarrow> f w = (w', Inr ())"
  by (auto simp: on_files_def stry_def split: prod.splits sum.splits)

lemma of_read_Ok: "of_read f w = Some (w', Inr a) \<longleftrightarrow> w' = w \<and> f w = Inr a"
  by (auto simp: of_read_def stry_def)

lemma written_cache:
  assumes files: "keeps_files H" and texts: "gives_texts H"
    and ps: "list_all utf8_ok ps" "validate_selected_devices H ps provider w = Inr ()"
    and run: "write_cache_file H p lua_file provider ps w = Some (w', Inr u)"
  shows "same_paths H w w' \<and> same_devices H w w'
    \<and> validate_cache_file H p lua_file provider w' = Some (Inr (cache_report p Accepted ps))"
proof -
  from run obtain parent w1 c where
    dir: "ih_create_dir_all H parent w = (w1, Inr ())"
    and c: "new_cache H lua_file provider ps w1 = Inr c"
    and wr: "ih_write H p (render_cache c) w1 = (w', Inr ())"
    by (auto simp: write_cache_file_def sthen_def sbind_Some_Ok on_files_Ok of_read_Ok sfail_def
        split: option.splits)
  have same1: "same_paths H w w1" "same_devices H w w1"
    using files dir unfolding keeps_files_def by (metis fst_conv)+
  have same2: "same_paths H w1 w'" "same_devices H w1 w'"
    using files wr unfolding keeps_files_def by (metis fst_conv)+
  have stored: "ih_exists H p w'" "ih_read_to_string H p w' = Inr (render_cache c)"
    using files wr unfolding keeps_files_def by (metis fst_conv snd_conv)+
  from c obtain script ds where
    script: "canonical_main_lua_path H lua_file w1 = Inr script"
    and ds: "cached_devices H w1 ps = Inr ds"
    and c_def: "c = \<lparr>rc_version = cache_version, rc_script_path = script,
      rc_mode = debug_mode (ip_mode provider), rc_output = debug_output (ip_output provider),
      rc_updated_unix_ms = ih_unix_ms H w1, rc_devices = ds\<rparr>"
    by (auto simp: new_cache_def)
  note cached = cached_devices_ok [OF ds]
  have "utf8_ok script"
    using script texts by (auto simp: canonical_main_lua_path_def gives_texts_def split: sum.splits)
  moreover have "list_all cached_ok ds"
    using cached ps(1) texts by (auto simp: list_all_iff cached_ok_def gives_texts_def)
  moreover have "utf8_ok (debug_mode m)" "utf8_ok (debug_output out)" for m out
    by (cases m; simp add: debug_mode_def in_range_def) (cases out; simp add: debug_output_def in_range_def)
  ultimately have "cache_ok c"
    using texts by (simp add: c_def cache_ok_def gives_texts_def cache_version_def)
  from parse_rendered_cache [OF this] have read: "read_cache H p w' = Some (Inr c)"
    by (simp add: read_cache_def stored)
  have valid: "validate_selected_devices H ps provider w' = Inr ()"
    using same_validation(2) [OF same1(2)] same_validation(2) [OF same2(2)] ps(2) by metis
  have "canonical_main_lua_path H lua_file w' = Inr script"
    using script same2(1) by (simp add: canonical_main_lua_path_def same_paths_def)
  moreover have "check_identities H w' ds = Accepted"
    using same_validation(3) [OF same2(2)] cached by simp
  ultimately have "validate_cache_file H p lua_file provider w' = Some (Inr (cache_report p Accepted ps))"
    using cached valid by (simp add: validate_cache_file_def stored read validate_cache_def c_def Let_def)
  with same_paths_trans [OF same1(1) same2(1)] same_devices_trans [OF same1(2) same2(2)] show ?thesis
    by blast
qed

section \<open>The resolved devices\<close>

lemma sudo_paths:
  assumes "keeps_files H"
  shows "keeps (same_paths H w) (run_acl_command H mode user p)"
    and "same_paths H w v \<Longrightarrow> same_paths H w (fst (ih_sudo H args v))"
proof -
  have sudo: "same_paths H w (fst (ih_sudo H args v))" if "same_paths H w v" for args v
    using same_paths_trans [OF that] assms by (simp add: keeps_files_def)
  then show "same_paths H w v \<Longrightarrow> same_paths H w (fst (ih_sudo H args v))" .
  show "keeps (same_paths H w) (run_acl_command H mode user p)"
    unfolding run_acl_command_def
  proof (rule keeps_stry)
    fix v
    assume "same_paths H w v"
    from sudo [OF this, of "[''setfacl'', ''-m'', ''u:'' @ user @ '':'' @ mode, p]"]
    show "same_paths H w (fst (case ih_sudo H [''setfacl'', ''-m'', ''u:'' @ user @ '':'' @ mode, p] v of
        (w1, Inl message) \<Rightarrow> (w1, Err (file_error ''cannot run sudo setfacl for '' p message))
      | (w1, Inr success) \<Rightarrow>
          (w1, if success then Ok () else Err (cache_error (''sudo setfacl failed for '' @ quoted p)))))"
      by (auto split: prod.split sum.split)
  qed
qed

lemma repaired_paths:
  assumes files: "keeps_files H" and run: "repair_permissions H ps needs w = Some (w', r)"
  shows "same_paths H w w'"
proof -
  have "keeps (same_paths H w) (repair_permissions H ps needs)"
    unfolding repair_permissions_def
    by (intro keeps_intros keeps_supd sudo_paths [OF files])
  from keepsD [OF this same_refl(1) run] show ?thesis .
qed

lemma accepted_selection:
  assumes files: "keeps_files H" and texts: "gives_texts H" and ps: "list_all utf8_ok ps"
    and run: "accept_selection H p lua_file provider ps w = Some (w', Inr c)"
  shows "same_paths H w w' \<and> with_selected_devices provider ps = Inr c
    \<and> validate_selected_devices H ps provider w' = Inr ()
    \<and> validate_cache_file H p lua_file provider w' = Some (Inr (cache_report p Accepted ps))"
proof -
  let ?needs = "ip_output provider = Uinput"
  from run obtain b repair w1 w2 u where
    confirm: "(if b then stry (ih_confirm_repair H ps ?needs) else sreturn False) w = Some (w1, Inr repair)"
    and repaired: "swhen repair (repair_permissions H ps ?needs) w1 = Some (w2, Inr ())"
    and valid: "validate_selected_devices H ps provider w2 = Inr ()"
    and written: "write_cache_file H p lua_file provider ps w2 = Some (w', Inr u)"
    and c: "with_selected_devices provider ps = Inr c"
    by (fastforce simp: accept_selection_def Let_def sthen_def sbind_Some_Ok of_read_Ok sget_def)
  have "same_paths H w w1"
    using confirm files by (auto simp: stry_def sreturn_def keeps_files_def split: if_splits)
      (metis fst_conv)
  moreover have "same_paths H w1 w2"
    using repaired repaired_paths [OF files] by (auto simp: swhen_def sreturn_def split: if_splits)
  moreover note w = written_cache [OF files texts ps valid written]
  ultimately have "same_paths H w w'" by (blast intro: same_paths_trans)
  with w c valid same_validation(2) [of H w2 w'] show ?thesis by simp
qed

text \<open>What a resolution of an interactive provider leaves: an accepted cache of the devices it gives.\<close>

definition remembered :: "'w input_host \<Rightarrow> path \<Rightarrow> input_provider_config \<Rightarrow> 'w \<Rightarrow> path list \<Rightarrow> bool" where
  "remembered H lua_file provider w ps \<longleftrightarrow>
     (\<exists>p. runtime_cache_path H lua_file w = Inr p
        \<and> validate_selected_devices H ps provider w = Inr ()
        \<and> validate_cache_file H p lua_file provider w = Some (Inr (cache_report p Accepted ps)))"

lemma validated_report:
  assumes "validate_cache_file H p lua_file provider w = Some (Inr r)" and "cv_status r = Accepted"
  shows "r = cache_report p Accepted (cv_selected_devices r)
    \<and> validate_selected_devices H (cv_selected_devices r) provider w = Inr ()"
  using assms
  by (auto simp: validate_cache_file_def validate_cache_def cache_report_def Let_def
      split: if_splits sum.splits)

lemma cached_selection_Some:
  assumes "cached_selection H p lua_file provider w = Some (w1, Inr (Some ds))"
  shows "w1 = w \<and> (\<exists>r. validate_cache_file H p lua_file provider w = Some (Inr r)
    \<and> cv_status r = Accepted \<and> ds = cv_selected_devices r)"
proof -
  from assms obtain x where x: "validate_cache_file H p lua_file provider w = Some x"
    by (auto simp: cached_selection_def)
  with assms show ?thesis
    by (cases x) (auto simp: cached_selection_def split: if_splits)
qed

lemma removed_paths:
  assumes "keeps_files H" and "remove_cache_file_if_present H p w = Some (w1, r)"
  shows "same_paths H w w1"
proof -
  have "w1 = fst (ih_remove_file H p w)"
    using assms(2) by (auto simp: remove_cache_file_if_present_def stry_def split: prod.splits sum.splits)
  then show ?thesis using assms(1) by (simp add: keeps_files_def)
qed

lemma cached_selection_reads:
  "cached_selection H p lua_file provider w = Some (w1, r) \<Longrightarrow> same_paths H w w1"
  by (auto simp: cached_selection_def)

lemma resolved:
  assumes files: "keeps_files H" and texts: "gives_texts H" and i: "ip_interactive_devices provider"
    and run: "resolve_interactive_input_provider H lua_file provider reset w = Some (w', Inr c)"
  shows "\<exists>ps. with_selected_devices provider ps = Inr c \<and> remembered H lua_file provider w' ps"
proof -
  from run i obtain p w1 cached where
    p: "runtime_cache_path H lua_file w = Inr p"
    and first: "(if reset then sthen (remove_cache_file_if_present H p) (sreturn None)
      else cached_selection H p lua_file provider) w = Some (w1, Inr cached)"
    and rest: "(case cached of Some ds \<Rightarrow> of_read (\<lambda>_. with_selected_devices provider ds)
      | None \<Rightarrow> select_devices H p lua_file provider) w1 = Some (w', Inr c)"
    by (auto simp: resolve_interactive_input_provider_def sbind_Some_Ok of_read_Ok)
  show ?thesis
  proof (cases cached)
    case (Some ds)
    with first have "cached_selection H p lua_file provider w = Some (w1, Inr (Some ds))"
      by (auto simp: sthen_def sbind_Some_Ok sreturn_def split: if_splits)
    from cached_selection_Some [OF this] obtain r where "w1 = w"
      and r: "validate_cache_file H p lua_file provider w = Some (Inr r)" "cv_status r = Accepted"
        "ds = cv_selected_devices r" by blast
    with validated_report [OF r(1,2)] p rest Some show ?thesis
      by (auto simp: of_read_Ok remembered_def)
  next
    case None
    have w1: "same_paths H w w1"
      using first removed_paths [OF files] cached_selection_reads
      by (auto simp: sthen_def sbind_Some_Ok sreturn_def split: if_splits)
    from None rest obtain cs w2 decision where
      asked: "ih_select_input_devices H ''missing or stale runtime cache'' cs w1 = (w2, Inr decision)"
      and decided: "(case decision of
         Selected paths \<Rightarrow> accept_selection H p lua_file provider paths
       | device_selection_decision.Cancel \<Rightarrow> sfail (diagnosable_error_new ScopePrompt
           ''interactive input device selection cancelled'')
       | NonInteractive \<Rightarrow> sfail (diagnosable_error_new ScopePrompt
           (''interactive input device selection requires interactive stdin or a valid runtime cache'')))
        w2 = Some (w', Inr c)"
      by (auto simp only: select_devices_def sbind_Some_Ok of_read_Ok stry_def option.case option.inject)
    from decided obtain ps where ps: "decision = Selected ps"
      and acc: "accept_selection H p lua_file provider ps w2 = Some (w', Inr c)"
      by (cases decision) (auto simp: sfail_def)
    note sel = asked [unfolded ps]
    have "list_all utf8_ok ps" using sel texts unfolding gives_texts_def by (metis snd_conv)
    note acc = accepted_selection [OF files texts this acc]
    have "same_paths H w1 w2" using sel files unfolding keeps_files_def by (metis fst_conv)
    with w1 acc have "same_paths H w w'" by (blast intro: same_paths_trans)
    from same_cache_path [OF this] p acc show ?thesis by (auto simp: remembered_def)
  qed
qed

lemma resolved_again:
  assumes "remembered H lua_file provider w ps" and "with_selected_devices provider ps = Inr c"
    and "ip_interactive_devices provider"
  shows "resolve_interactive_input_provider H lua_file provider False w = Some (w, Inr c)"
  using assms
  by (auto simp: resolve_interactive_input_provider_def remembered_def sbind_def of_read_def
      stry_def cached_selection_def cache_report_def)

end
