(* ===== verification/InputCacheProperties.thy ===== *)
theory InputCacheProperties imports InputCacheLaws begin

text \<open>
  What \<open>signal-auras-cli/src/input_cache.rs\<close> promises: the text of a cache is read back, a resolved
  provider has devices that can be used, and a selection is made once.
\<close>

section \<open>A concrete host\<close>

text \<open>One keyboard; the world is the files that were written. The user selects the keyboard.\<close>

type_synonym written = "(path \<times> string) list"

definition keyboard :: evdev_device_identity where
  "keyboard = \<lparr>ed_event_name = ''event3'', ed_name = Some ''AT keyboard'', ed_phys = None,
     ed_uniq = None, ed_bustype = Some ''0011'', ed_vendor = None, ed_product = None,
     ed_version = None\<rparr>"

definition event3 :: path where
  "event3 = ''/dev/input/event3''"

definition desk_host :: "written input_host" where
  "desk_host =
     \<lparr>ih_event_devices = (\<lambda>w. Inr [event3]),
      ih_read_access = (\<lambda>p w. if p = event3 then Accessible else input_access_status.Missing ''gone''),
      ih_read_write_access = (\<lambda>p w. Denied ''no''),
      ih_stable_path_for = (\<lambda>p w. None),
      ih_device_name = (\<lambda>p w. if p = event3 then ed_name keyboard else None),
      ih_device_identity = (\<lambda>p w. if p = event3 then Some keyboard else None),
      ih_env = (\<lambda>n w. if n = ''XDG_RUNTIME_DIR'' then Some ''/run/user/1000'' else None),
      ih_metadata = (\<lambda>p w. Inr (True, 1000)),
      ih_canonicalize = (\<lambda>p w. Inr ''/home/u/a.lua''),
      ih_exists = (\<lambda>p w. map_of w p \<noteq> None),
      ih_read_to_string = (\<lambda>p w. case map_of w p of None \<Rightarrow> Inl ''not found'' | Some s \<Rightarrow> Inr s),
      ih_unix_ms = (\<lambda>w. 1700000000000),
      ih_remove_file = (\<lambda>p w. (w, Inl (True, ''not found''))),
      ih_create_dir_all = (\<lambda>p w. (w, Inr ())),
      ih_write = (\<lambda>p s w. if p = ''/proc/self/status'' then (w, Inl ''denied'') else ((p, s) # w, Inr ())),
      ih_select_input_devices = (\<lambda>reason cs w. (w, Inr (Selected [event3]))),
      ih_confirm_repair = (\<lambda>ps b w. (w, Inr False)),
      ih_sudo = (\<lambda>args w. (w, Inr True))\<rparr>"

definition ask_for_devices :: input_provider_config where
  "ask_for_devices = \<lparr>ip_backend = Evdev, ip_mode = Observe, ip_output = Portal, ip_devices = [],
     ip_all_devices = False, ip_interactive_devices = True\<rparr>"

lemma desk_files: "keeps_files desk_host"
  by (simp add: keeps_files_def desk_host_def same_paths_def same_devices_def)

lemma ascii_utf8: "list_all (\<lambda>c. char_code c < 128) s \<Longrightarrow> utf8_ok s"
  by (induction s) (simp_all add: in_range_def)

lemma desk_texts: "gives_texts desk_host"
proof -
  have "utf8_ok ''/home/u/a.lua''" "utf8_ok event3" "utf8_ok ''event3''" "utf8_ok ''AT keyboard''"
    "utf8_ok ''0011''" by (rule ascii_utf8, simp add: event3_def)+
  then show ?thesis
    by (simp add: gives_texts_def desk_host_def identity_ok_def text_option_def or_default_def
        keyboard_def del: utf8_ok.simps(2))
qed

definition desk_file :: path where
  "desk_file = ''/run/user/1000/signal-auras/input-devices/4c6f52039b299fa5.cache''"

lemma desk_key: "cache_key ''/home/u/a.lua'' = ''4c6f52039b299fa5''"
  by code_simp

lemma desk_path: "runtime_cache_path desk_host ''a.lua'' [] = Inr desk_file"
  by (simp add: runtime_cache_path_def desk_host_def is_absolute_def validate_runtime_dir_def
      current_uid_def canonical_main_lua_path_def desk_key path_join_def desk_file_def)

lemma desk_run:
  "\<exists>w. resolve_interactive_input_provider desk_host ''a.lua'' ask_for_devices False []
     = Some (w, Inr (ask_for_devices\<lparr>ip_devices := [event3], ip_interactive_devices := False\<rparr>))"
proof -
  have cached: "cached_selection desk_host desk_file ''a.lua'' ask_for_devices [] = Some ([], Inr None)"
    by (simp add: cached_selection_def validate_cache_file_def desk_host_def cache_report_def)
  have "map_option snd (select_devices desk_host desk_file ''a.lua'' ask_for_devices [])
     = Some (Inr (ask_for_devices\<lparr>ip_devices := [event3], ip_interactive_devices := False\<rparr>))"
    by code_simp
  then show ?thesis
    by (auto simp: resolve_interactive_input_provider_def sbind_def of_read_def stry_def desk_path
        cached) (simp add: ask_for_devices_def)?
qed

section \<open>The text of a cache\<close>

text \<open>
  C31: The text of a cache is read back as the cache: its version without line breaks, its paths and
  the identities of its devices as they were.
\<close>

theorem cache_text_is_read_back:
  assumes "cache_ok c"
  shows "parse_cache (render_cache c) = Some (Inr c)"
  by (rule parse_rendered_cache [OF assms])

definition desk_cache :: runtime_device_cache where
  "desk_cache = \<lparr>rc_version = ''1'', rc_script_path = ''/home/u/a.lua'', rc_mode = ''Observe'',
     rc_output = ''Portal'', rc_updated_unix_ms = 1700000000000,
     rc_devices = [\<lparr>cd_path = event3, cd_identity = keyboard\<rparr>]\<rparr>"

theorem cache_text_is_read_back_witness:
  "parse_cache (render_cache desk_cache) = Some (Inr desk_cache)"
proof -
  have "cache_ok desk_cache" by code_simp
  then show ?thesis by (rule cache_text_is_read_back)
qed

text \<open>
  A field that cuts a character of two bytes ends the run instead of being an invalid cache, and a
  plus sign is taken for a digit.
\<close>

lemma cut_character_panics:
  "hex_decode_string [CHR ''a'', CHR 0xC3, CHR 0xA9, CHR ''b''] = None"
  "utf8_ok [CHR ''a'', CHR 0xC3, CHR 0xA9, CHR ''b'']"
  "hex_decode_string ''zz'' = Some (Inl cache_parse_error)"
  "hex_decode_string ''+a'' = hex_decode_string ''0a''"
  by code_simp+

section \<open>Resolved devices\<close>

text \<open>
  C32: The devices of a resolved provider can be used at the end of the resolution: there is at least
  one, each once, each readable, with an identity and not the virtual device of the program itself,
  and the virtual device can be opened when the provider emits through it.
\<close>

theorem resolved_devices_are_usable:
  assumes "keeps_files H" and "gives_texts H" and "ip_interactive_devices provider"
    and "resolve_interactive_input_provider H lua_file provider reset w = Some (w', Inr c)"
  shows "ip_devices c \<noteq> [] \<and> distinct (ip_devices c)
    \<and> (\<forall>d\<in>set (ip_devices c). ih_read_access H d w' = Accessible
         \<and> ih_device_name H d w' \<noteq> Some ''signal-auras-uinput''
         \<and> ih_device_identity H d w' \<noteq> None)
    \<and> (ip_output c = Uinput \<longrightarrow> ih_read_write_access H ''/dev/uinput'' w' = Accessible)
    \<and> ip_mode c = ip_mode provider \<and> ip_output c = ip_output provider
    \<and> \<not> ip_interactive_devices c"
proof -
  from resolved [OF assms] obtain ps where
    c: "with_selected_devices provider ps = Inr c" and r: "remembered H lua_file provider w' ps"
    by blast
  from c have "c = \<lparr>ip_backend = Evdev, ip_mode = ip_mode provider, ip_output = ip_output provider,
      ip_devices = ps, ip_all_devices = False, ip_interactive_devices = False\<rparr>"
    by (auto simp: with_selected_devices_def provider_evdev_def split: if_splits)
  with r show ?thesis
    by (auto simp: remembered_def validate_selected_ok usable_def accessible_def
        uinput_device_name_def uinput_path_def)
qed

theorem resolved_devices_are_usable_witness:
  "\<exists>w c. resolve_interactive_input_provider desk_host ''a.lua'' ask_for_devices False [] = Some (w, Inr c)
     \<and> distinct (ip_devices c)"
proof -
  obtain w where run: "resolve_interactive_input_provider desk_host ''a.lua'' ask_for_devices False []
      = Some (w, Inr (ask_for_devices\<lparr>ip_devices := [event3], ip_interactive_devices := False\<rparr>))"
    using desk_run by blast
  have "ip_interactive_devices ask_for_devices" by (simp add: ask_for_devices_def)
  from resolved_devices_are_usable [OF desk_files desk_texts this run] run show ?thesis by blast
qed

text \<open>
  C33: A selection is made once. After a resolution that gave a provider, the next resolution for the
  same script gives the same provider from the cache: nothing is asked, repaired or written.
\<close>

theorem selection_is_remembered:
  assumes "keeps_files H" and "gives_texts H"
    and "resolve_interactive_input_provider H lua_file provider reset w = Some (w', Inr c)"
  shows "resolve_interactive_input_provider H lua_file provider False w' = Some (w', Inr c)"
proof (cases "ip_interactive_devices provider")
  case True
  from resolved [OF assms(1,2) True assms(3)] obtain ps where
    "with_selected_devices provider ps = Inr c" "remembered H lua_file provider w' ps" by blast
  then show ?thesis by (intro resolved_again [OF _ _ True])
next
  case False
  with assms(3) show ?thesis
    by (simp add: resolve_interactive_input_provider_def sreturn_def)
qed

theorem selection_is_remembered_witness:
  "\<exists>w c. resolve_interactive_input_provider desk_host ''a.lua'' ask_for_devices False [] = Some (w, Inr c)
     \<and> resolve_interactive_input_provider desk_host ''a.lua'' ask_for_devices False w = Some (w, Inr c)"
proof -
  obtain w c where run: "resolve_interactive_input_provider desk_host ''a.lua'' ask_for_devices False []
      = Some (w, Inr c)" using desk_run by blast
  from run selection_is_remembered [OF desk_files desk_texts run] show ?thesis by blast
qed

end
