(* ===== verification/StartProperties.thy ===== *)
theory StartProperties imports Starts BlockingProperties InputCacheProperties LuaProperties begin

text \<open>
  Every start on the real adapter gives the adapter back: once the session is open, each exit
  cancels the pending work and unregisters every hotkey, except one.
\<close>

section \<open>What holds at the end of an operation\<close>

definition ends :: "('s \<Rightarrow> bool) \<Rightarrow> ('s \<Rightarrow> bool) \<Rightarrow> ('s, 'e, 'a) effect \<Rightarrow> bool" where
  "ends I J m \<longleftrightarrow> (\<forall>s s' r. I s \<longrightarrow> m s = Some (s', r) \<longrightarrow> J s')"

named_theorems ends_intros \<open>rules for what holds at the end of an operation\<close>

lemma endsD: "ends I J m \<Longrightarrow> I s \<Longrightarrow> m s = Some (s', r) \<Longrightarrow> J s'"
  by (auto simp: ends_def)

lemma ends_keeps: "keeps I m \<Longrightarrow> (\<And>s. I s \<Longrightarrow> J s) \<Longrightarrow> ends I J m"
  unfolding ends_def keeps_def by blast

lemma ends_sbind [ends_intros]:
  assumes "upholds I J m" "\<And>a. ends I J (f a)"
  shows "ends I J (sbind m f)"
  unfolding ends_def sbind_Some
  using assms upholdsD_ok upholdsD_err by (metis endsD)

lemma ends_sbind_returned:
  assumes "upholds I J m" "returns m Q" "\<And>a. Q a \<Longrightarrow> ends I J (f a)"
  shows "ends I J (sbind m f)"
  unfolding ends_def sbind_Some
  using assms upholdsD_ok upholdsD_err returnsD by (metis endsD)

lemma ends_sthen [ends_intros]: "upholds I J m \<Longrightarrow> ends I J k \<Longrightarrow> ends I J (sthen m k)"
  unfolding sthen_def by (rule ends_sbind)

text \<open>An operation that ends in \<open>J\<close>, followed by operations that keep \<open>J\<close>.\<close>

lemma ends_sthen_keeps: "ends I J m \<Longrightarrow> keeps J k \<Longrightarrow> ends I J (sthen m k)"
  unfolding ends_def keeps_def sthen_def sbind_Some by blast

lemma upholds_fails:
  assumes "ends I J m"
  shows "upholds I J (sthen m (sfail e))"
proof (rule upholdsI, rule impI)
  fix s y
  assume y: "sthen m (sfail e) s = Some y" and I: "I s"
  obtain s' r where r: "y = (s', r)" by fastforce
  from y have "sthen m (sfail e) s = Some (s', r)" by (simp add: r)
  then have "J s'" by (rule endsD [OF ends_sthen_keeps [OF assms keeps_sfail] I])
  moreover from y have "isl r"
    unfolding r sthen_def sbind_Some sfail_def by (elim disjE exE conjE) auto
  ultimately show "exits I J y" by (cases r) (simp_all add: r)
qed

lemma upholds_or_cleanup:
  assumes m: "keeps I m" and cleanup: "ends I J cleanup"
  shows "upholds I J (or_cleanup cleanup m)"
proof (rule upholdsI, rule impI)
  fix s y
  assume y: "or_cleanup cleanup m s = Some y" and I: "I s"
  then obtain s1 r where m1: "m s = Some (s1, r)"
    by (auto simp: or_cleanup_def split: option.splits)
  with m I have I1: "I s1" by (blast dest: keepsD)
  show "exits I J y"
  proof (cases r)
    case (Inl e)
    with y m1 have "sthen cleanup (sfail e) s1 = Some y" by (simp add: or_cleanup_def)
    with upholdsD [OF upholds_fails [OF cleanup]] I1 show ?thesis by blast
  next
    case (Inr a)
    with y m1 I1 show ?thesis by (auto simp: or_cleanup_def)
  qed
qed

section \<open>The session\<close>

definition session_is :: "cleanup_session \<Rightarrow> 'w startup_state \<Rightarrow> bool" where
  "session_is c s \<longleftrightarrow> ss_session s = c"

text \<open>The adapter has not been borrowed, or it has been cleaned up since.\<close>

definition given_back :: "('w \<Rightarrow> bool) \<Rightarrow> 'w startup_state \<Rightarrow> bool" where
  "given_back released s \<longleftrightarrow>
     ss_session s = NotStarted \<or> ss_session s = Cleaned \<and> released (ss_world s)"

lemma keeps_start [keeps_intros]:
  "keeps (session_is c) (start_call f)"
  "keeps (session_is c) (start_try g)"
  "keeps (session_is c) (start_within m)"
  "keeps (session_is c) (start_check r)"
  "keeps (session_is c) (start_loaded l)"
  "keeps (session_is c) (start_count h)"
  by (auto simp: keeps_def session_is_def start_call_def start_try_def start_within_def start_check_def
      start_loaded_def start_count_def srun_def stry_def supd_def sfail_def sreturn_def
      split: prod.splits sum.splits)

lemma keeps_print_summary [keeps_intros]: "keeps (session_is c) (print_summary V reason)"
  unfolding print_summary_def
  by (intro keeps_intros keeps_supd) (simp add: session_is_def)

lemma keeps_start_stats [keeps_intros]: "keeps (session_is c) (start_stats V)"
  unfolding start_stats_def
  by (intro keeps_intros keeps_supd) (simp add: session_is_def)

lemma core_exit_session: "ss_session (fst (core_exit s y)) = ss_session s"
  by (cases y) (simp add: core_exit_def)

lemma keeps_core:
  "keeps (session_is c) (\<lambda>s. map_option (core_exit s) (f s))"
  "keeps (session_is c)
     (\<lambda>s. map_option (\<lambda>(x, r). case x of None \<Rightarrow> (s, r) | Some x \<Rightarrow> core_exit s (x, r)) (g s))"
proof -
  show "keeps (session_is c) (\<lambda>s. map_option (core_exit s) (f s))"
    unfolding keeps_def session_is_def using core_exit_session
    by (metis (no_types, lifting) fst_conv map_option_eq_Some)
  show "keeps (session_is c)
     (\<lambda>s. map_option (\<lambda>(x, r). case x of None \<Rightarrow> (s, r) | Some x \<Rightarrow> core_exit s (x, r)) (g s))"
    by (auto simp: keeps_def session_is_def core_exit_def split: option.splits prod.splits)
qed

lemma keeps_start_diagnostics [keeps_intros]: "keeps (session_is c) (start_diagnostics V dev)"
  by (auto simp: keeps_def session_is_def start_diagnostics_def)

lemma keeps_lifecycles [keeps_intros]:
  "keeps (session_is c) (blocking_lifecycle V bs ms ps)"
  "keeps (session_is c) (blocking_controller_lifecycle V p rt cap)"
  "keeps (session_is c) (live_lifecycle V bs ms ps)"
  "keeps (session_is c) (live_controller_lifecycle V p rt cap)"
  unfolding blocking_lifecycle_def blocking_controller_lifecycle_def live_lifecycle_def
    live_controller_lifecycle_def
  by (intro keeps_intros keeps_core)+

lemma keeps_resolve [keeps_intros]:
  "keeps (session_is c) (resolve_scope V config)"
  "keeps (session_is c) (resolve_real_input_provider V p provider reset)"
  "keeps (session_is c) (load_configuration V p)"
  "keeps (session_is c) (load_program V p)"
  "keeps (session_is c) (load_imperative_controller_runtime V p)"
  "keeps (session_is c) (cancelled_start V)"
  unfolding resolve_scope_def resolve_real_input_provider_def load_configuration_def load_program_def
    load_imperative_controller_runtime_def cancelled_start_def
  by (intro keeps_intros)+

section \<open>The cleanup\<close>

definition cleanup_releases ::
  "('w, 'f, 'd, 'fn, 'co, 'v) startup_host \<Rightarrow> ('w \<Rightarrow> bool) \<Rightarrow> bool" where
  "cleanup_releases V released \<longleftrightarrow>
     (\<forall>w. released (fst (st_unregister_all V (fst (st_cancel_pending V w)))))"

lemma ends_session_cleanup:
  assumes "cleanup_releases V released"
  shows "ends (session_is Open) (given_back released) (session_cleanup V phase)"
  using assms
  by (auto simp: cleanup_releases_def ends_def session_is_def given_back_def session_cleanup_def
      cleanup_real_adapter_resources_def start_try_def stry_def split: prod.splits)
     (metis fst_conv)

lemma upholds_total [upholds_intros]:
  "upholds (session_is c) J (start_call f)"
  "upholds (session_is c) J (start_count g)"
  "upholds (session_is c) J (start_stats V)"
  "upholds (session_is c) J (print_summary V reason)"
  by (auto simp: upholds_def session_is_def start_call_def start_count_def start_stats_def
      print_summary_def sbind_def srun_def supd_def split: prod.splits)

lemma upholds_start_check: "(\<And>e. r \<noteq> Inl e) \<Longrightarrow> upholds (session_is c) J (start_check r)"
  by (cases r) (auto simp: start_check_def upholds_sreturn)

lemma upholds_parts:
  assumes "cleanup_releases V released"
  shows "upholds (session_is Open) (given_back released) (configure_adapter V provider leader)"
    and "upholds (session_is Open) (given_back released) (check_probe V required report)"
    and "upholds (session_is Open) (given_back released) (probe_adapter V required)"
    and "upholds (session_is Open) (given_back released) (ensure_focus_provider V required)"
    and "upholds (session_is Open) (given_back released)
           (register_hotkeys V (session_cleanup V phase) bs)"
  unfolding configure_adapter_def probe_adapter_def check_probe_def ensure_focus_provider_def
    register_hotkeys_def register_hotkey_def
  using ends_session_cleanup [OF assms]
  by (auto intro!: upholds_intros upholds_or_cleanup upholds_fails keeps_intros split: sum.splits
      option.splits)

lemma ends_run_to_end:
  assumes "cleanup_releases V released" and lifecycle: "keeps (session_is Open) lifecycle"
  shows "ends (session_is Open) (given_back released)
           (run_to_end V (session_cleanup V phase) (finish_normal_shutdown V) lifecycle)"
  unfolding run_to_end_def finish_normal_shutdown_def
  by (intro ends_intros upholds_or_cleanup upholds_total lifecycle ends_session_cleanup [OF assms(1)]
      ends_sthen_keeps keeps_sget)

lemma upholds_unopened: "keeps (session_is NotStarted) m \<Longrightarrow>
    upholds (session_is NotStarted) (given_back released) m"
  by (rule upholds_keeps) (simp_all add: session_is_def given_back_def)

lemma ends_unopened: "keeps (session_is NotStarted) m \<Longrightarrow>
    ends (session_is NotStarted) (given_back released) m"
  by (rule ends_keeps) (simp_all add: session_is_def given_back_def)

lemma ends_open_session:
  assumes "ends (session_is Open) J k"
  shows "ends (session_is NotStarted) J (sthen open_session k)"
  unfolding ends_def open_session_def sthen_supd
proof (intro allI impI)
  fix s s' r
  assume "k (s\<lparr>ss_session := Open\<rparr>) = Some (s', r)"
  then show "J s'" by (rule endsD [OF assms, rotated]) (simp add: session_is_def)
qed

section \<open>The starts\<close>

lemma collect_results_total: "list_all (\<lambda>x. is_ok (f x)) xs \<Longrightarrow> collect_results f xs \<noteq> Inl e"
  by (induction xs arbitrary: e) (auto simp: is_ok_iff split: sum.splits)

lemma is_ok_rbind: "is_ok (rbind r f) \<longleftrightarrow> (\<exists>a. r = Inr a \<and> is_ok (f a))"
  by (cases r) (simp_all add: is_ok_iff)

lemma is_ok_Inr: "is_ok (Inr a)"
  by (simp add: is_ok_iff)

lemma dummy_macro_is_built: obtains m where "controller_dummy_macro = Inr m"
proof -
  have "is_ok controller_dummy_macro" by code_simp
  with that show thesis by (auto simp: is_ok_iff)
qed

definition hotkeys_parse :: "'f controller_program \<Rightarrow> bool" where
  "hotkeys_parse p \<longleftrightarrow> list_all (\<lambda>r. is_ok (hotkey_parse (cg_trigger r)))
     (registrations_of_kind controller_registration_kind.Hotkey p)"

lemma controller_hotkeys_bound: "hotkeys_parse p \<Longrightarrow> controller_hotkey_bindings p \<noteq> Inl e"
proof -
  assume "hotkeys_parse p"
  moreover obtain m where "controller_dummy_macro = Inr m" by (rule dummy_macro_is_built)
  then have "is_ok (controller_hotkey_binding r) \<longleftrightarrow> is_ok (hotkey_parse (cg_trigger r))" for r
    by (auto simp: controller_hotkey_binding_def is_ok_rbind is_ok_Inr is_ok_iff [of "hotkey_parse _"])
  ultimately show ?thesis
    unfolding controller_hotkey_bindings_def hotkeys_parse_def
    by (intro collect_results_total) (simp add: list_all_iff)
qed

lemma toggles_bound: "overlay_toggle_bindings p \<noteq> Inl e"
proof -
  obtain m where "controller_dummy_macro = Inr m" by (rule dummy_macro_is_built)
  then show ?thesis
    unfolding overlay_toggle_bindings_def
    by (intro collect_results_total) (auto simp: list_all_iff is_ok_rbind is_ok_Inr)
qed

text \<open>The script at the path declares no controller hotkey that does not parse.\<close>

definition hotkeys_loaded ::
  "('w, 'f, 'd, 'fn, 'co, 'v) startup_host \<Rightarrow> path \<Rightarrow> bool" where
  "hotkeys_loaded V p \<longleftrightarrow>
     (case load_lua_controller_program_file (st_files V) (ca_f32 (st_adapter V)) (st_evaluate V) p of
        Some (Inr program) \<Rightarrow> hotkeys_parse program | _ \<Rightarrow> True)"

lemma returns_loaded: "hotkeys_loaded V p \<Longrightarrow> returns (load_program V p) hotkeys_parse"
  by (auto simp: hotkeys_loaded_def load_program_def start_loaded_def returns_def)

lemma ends_option: "ends I J m \<Longrightarrow> (\<And>x. ends I J (f x)) \<Longrightarrow>
    ends I J (case o' of None \<Rightarrow> m | Some x \<Rightarrow> f x)"
  by (cases o') simp_all

lemmas start_steps =
  ends_intros ends_open_session ends_option upholds_unopened keeps_resolve keeps_start keeps_start_stats
  upholds_parts upholds_total ends_run_to_end keeps_lifecycles

lemma configuration_starts:
  assumes "cleanup_releases V released"
  shows "ends (session_is NotStarted) (given_back released) (start_real_runner_with_lifecycle V p)"
    and "ends (session_is NotStarted) (given_back released)
           (start_live_real_runner_with_options V p reset)"
  unfolding start_real_runner_with_lifecycle_def start_live_real_runner_with_options_def
  by (intro start_steps ends_unopened assms)+

lemma controller_starts:
  assumes "cleanup_releases V released" and "hotkeys_loaded V p"
  shows "ends (session_is NotStarted) (given_back released)
           (start_real_controller_runner_with_lifecycle V p)"
    and "ends (session_is NotStarted) (given_back released)
           (start_live_real_controller_runner_with_options V p reset)"
  unfolding start_real_controller_runner_with_lifecycle_def
    start_live_real_controller_runner_with_options_def
  by (rule ends_sbind_returned [OF upholds_unopened returns_loaded [OF assms(2)]],
      rule keeps_resolve,
      intro start_steps upholds_start_check controller_hotkeys_bound toggles_bound assms(1);
      assumption)+

section \<open>A concrete start\<close>

text \<open>
  The world is the files that were written; a call of the adapter that matters is written like one.
  Every capability is available, the prompt answers with the global scope and the run is shut down
  at once.
\<close>

definition lab_adapter :: "(written, int, int) controller_adapter" where
  "lab_adapter =
     \<lparr>ca_live = \<lparr>ad_now = (\<lambda>w. (w, 7000000)), ad_monotonic_clock_time = (\<lambda>w. (w, None)),
        ad_active_process_context = (\<lambda>w. (w, Ok kate_focused)),
        ad_execute_input_request = (\<lambda>req w. (w, Ok input_emission.Emitted)),
        ad_passthrough_raw_input = (\<lambda>raw w. (w, Ok ())),
        ad_arm_input_grab = (\<lambda>w. (w, Ok ())), ad_release_input_grab = (\<lambda>w. (w, Ok ())),
        ad_take_callback_dropped_count = (\<lambda>w. (w, 0)), ad_next_shortcut_event = (\<lambda>w. (w, None)),
        ad_next_input_event = (\<lambda>w. (w, Ok None)),
        ad_wait_next_input_or_runtime_fd = (\<lambda>d fds w. (w, Ok (RuntimeFd 3))),
        ad_wake_fds = (\<lambda>w. \<lparr>wf_signal_fd = 3, wf_timer_fd = 4, wf_callback_fd = None\<rparr>),
        ad_arm_timer_after = (\<lambda>d w. (w, Ok ())), ad_drain_timer = (\<lambda>w. (w, Ok ())),
        ad_drain_callback_wake_fd = (\<lambda>w. (w, Ok ())),
        ad_drain_shutdown_reason = (\<lambda>w. (w, Ok (Some CtrlC))),
        ad_register_internal_hotkey = (\<lambda>h w. (w, Ok h)),
        ad_unregister_internal_hotkey = (\<lambda>i w. (w, Ok ())),
        ad_pointer_diagnostic = (\<lambda>w. (w, Ok ())),
        ad_render_tracker_ghosts = (\<lambda>ts w. (w, Ok ())), ad_cleanup_overlay = (\<lambda>i w. (w, Ok ()))\<rparr>,
      ca_f32 = int_floats, ca_f64 = int_floats, ca_clock = (\<lambda>w. (w, \<lambda>_. 7000000)),
      ca_samples = \<lparr>sp_capture = (\<lambda>w. (w, Inr (synthetic_percent 7 60))),
                    sp_scale = (\<lambda>s c w. (w, scale_identity int_floats))\<rparr>,
      ca_overlay_provider_report = (\<lambda>w. (w, native_available)),
      ca_render_overlay_snapshot = (\<lambda>sn w. (w, Ok ())), ca_sleep = (\<lambda>d w. (w, Ok ())),
      ca_active_window = (\<lambda>b w. (w, Err (macro_execution_error ''no window''))),
      ca_find_window = (\<lambda>ps w. (w, Ok None)), ca_activate_window = (\<lambda>h w. (w, Ok False)),
      ca_wait_active_window = (\<lambda>h d w. (w, Ok False))\<rparr>"

definition lab_host :: "string \<Rightarrow> (written, int, int, unit, unit, unit) startup_host" where
  "lab_host source =
     \<lparr>st_adapter = lab_adapter,
      st_runner = \<lparr>rh_next_event = (\<lambda>w. (w, Ok (runner_event.Shutdown CtrlC))), rh_sleep = (\<lambda>d w. w)\<rparr>,
      st_input = desk_host,
      st_files = \<lparr>fs_canonicalize = (\<lambda>p. Inr p), fs_read = (\<lambda>p. Inr source)\<rparr>,
      st_evaluate = (\<lambda>s. None),
      st_load_runtime = (\<lambda>s w. (w, Err (controller_lua_error ''no interpreter''))),
      st_resolve_missing_scope = (\<lambda>w. (w, Ok ExplicitGlobalConfirmed)),
      st_signal_fd = (\<lambda>w. (w, Ok ())), st_timer_fd = (\<lambda>w. (w, Ok ())),
      st_configure_input_provider = (\<lambda>p l w. ((''configure'', []) # w, Ok ())),
      st_probe_capabilities =
        (\<lambda>required w. (w, report_from_statuses (map (\<lambda>k. status_available k ''lab'') required))),
      st_ensure_active_process_provider = (\<lambda>w. (w, Ok ())),
      st_register = (\<lambda>b w. ((''register'', trigger_label b) # w, Ok (trigger_label b))),
      st_cancel_pending = (\<lambda>w. (w, Ok ())),
      st_unregister_all = (\<lambda>w. ((''unregister'', []) # w, Ok ())),
      st_print = (\<lambda>text w. (''stdout'', text) # w)\<rparr>"

definition unregistered_last :: "written \<Rightarrow> bool" where
  "unregistered_last w \<longleftrightarrow> (case w of [] \<Rightarrow> False | call # _ \<Rightarrow> fst call = ''unregister'')"

lemma lab_releases: "cleanup_releases (lab_host source) unregistered_last"
  by (simp add: cleanup_releases_def lab_host_def unregistered_last_def)

definition lab_start :: "written startup_state" where
  "lab_start = \<lparr>ss_world = [], ss_stats = runtime_stats_new 0, ss_session = NotStarted\<rparr>"

lemma lab_lifecycle:
  obtains c where "run_lifecycle (ca_live (st_adapter (lab_host source))) (st_runner (lab_host source)) [] [] presses
     time_base stats w = Some (c, Inr CtrlC)"
proof -
  have "\<exists>c. run_lifecycle (ca_live (st_adapter (lab_host source))) (st_runner (lab_host source)) [] []
     presses time_base stats w = Some (c, Inr CtrlC)"
    unfolding run_lifecycle_def
    by (subst lifecycle_loop.simps)
       (simp add: sbind_def sthen_def lifecycle_iteration_def lifecycle_step_def world_try_def stry_def
         lab_host_def lab_adapter_def end_active_loops_def srun_def sreturn_def blocking_state_new_def
         no_motions_no_after split: prod.split)
  with that show thesis by blast
qed

definition click_config :: lua_configuration where
  "click_config = \<lparr>lc_scope = None, lc_leader = None, lc_defaults = \<lparr>ad_inter_action_delay_ms = 0\<rparr>,
     lc_input_provider = None, lc_bindings = [], lc_motions = [],
     lc_presses = [(MouseButton Left, \<lparr>pd_requires_held = [], pd_trigger = MouseButton Left,
        pd_mode = Consume, pd_macro = \<lparr>md_actions = [TextInput ''hi'']\<rparr>,
        pd_inter_action_delay_ms = 0\<rparr>)]\<rparr>"

lemma lab_loads:
  "load_configuration (lab_host click_source) ''a.lua'' s = Some (s, Inr click_config)"
  by (simp add: load_configuration_def load_lua_file_def lab_host_def click_source_loads start_check_def
      sreturn_def click_config_def)

lemma lab_scope: "resolve_scope (lab_host source) click_config s = Some (s, Inr (Some ExplicitGlobal))"
proof -
  have "consent_into_scope ExplicitGlobalConfirmed = Inr (Some ExplicitGlobal)" by code_simp
  then show ?thesis
    by (simp add: resolve_scope_def click_config_def sbind_def start_try_def stry_def lab_host_def
        start_check_def sreturn_def)
qed

lemma lab_probe:
  "probe_adapter (lab_host source) (for_configuration_scope click_config ExplicitGlobal) s
     = Some (s\<lparr>ss_stats := record_capability_probe_success (ss_stats s)\<rparr>, Inr ())"
proof -
  have "first_blocking_error
      (report_from_statuses (map (\<lambda>k. status_available k ''lab'')
        (for_configuration_scope click_config ExplicitGlobal)))
      (for_configuration_scope click_config ExplicitGlobal) = None" by code_simp
  then show ?thesis
    by (simp add: probe_adapter_def check_probe_def sbind_def start_call_def srun_def lab_host_def
        start_count_def supd_def)
qed

lemma lab_calls:
  "start_stats (lab_host source) s = Some (s\<lparr>ss_stats := runtime_stats_new 7000000\<rparr>, Inr ())"
  "resolve_real_input_provider (lab_host source) p None reset s = Some (s, Inr None)"
  "open_session s = Some (s\<lparr>ss_session := Open\<rparr>, Inr ())"
  "configure_adapter (lab_host source) provider leader s
     = Some (s\<lparr>ss_world := (''configure'', []) # ss_world s\<rparr>, Inr ())"
  "print_summary (lab_host source) reason s
     = Some (s\<lparr>ss_world := (''stdout'', render_summary (ss_stats s) reason 7000000) # ss_world s\<rparr>, Inr ())"
  "ss_session s = Open \<Longrightarrow> session_cleanup (lab_host source) phase s
     = Some (s\<lparr>ss_session := Cleaned, ss_world := (''unregister'', []) # ss_world s\<rparr>, Inr ())"
  by (simp_all add: start_stats_def resolve_real_input_provider_def open_session_def configure_adapter_def
      or_cleanup_def print_summary_def session_cleanup_def cleanup_real_adapter_resources_def start_try_def
      start_call_def sbind_def sthen_def sreturn_def srun_def stry_def supd_def sget_def lab_host_def
      lab_adapter_def)

lemma lab_runs:
  "\<exists>s st. start_real_runner_with_lifecycle (lab_host click_source) ''a.lua'' lab_start = Some (s, Inr st)"
proof -
  let ?V = "lab_host click_source"
  have now: "start_call (ad_now (ca_live (st_adapter ?V))) s = Some (s, Inr 7000000)"
    for s :: "written startup_state"
    by (simp add: start_call_def srun_def lab_host_def lab_adapter_def)
  have lifecycle: "\<exists>w st. blocking_lifecycle ?V [] [] presses s
      = Some (s\<lparr>ss_world := w, ss_stats := st\<rparr>, Inr CtrlC)"
    for presses and s :: "written startup_state"
    using lab_lifecycle [of click_source presses 7000000 "ss_stats s" "ss_world s"]
    by (auto simp: blocking_lifecycle_def sbind_def now core_exit_def) blast
  let ?before = "\<lparr>ss_world = [(''configure'', [])],
      ss_stats = record_capability_probe_success (runtime_stats_new 7000000), ss_session = Open\<rparr>"
  obtain w st where run: "blocking_lifecycle ?V [] [] (presses_for_scope click_config ExplicitGlobal) ?before
      = Some (\<lparr>ss_world = w, ss_stats = st, ss_session = Open\<rparr>, Inr CtrlC)"
    using lifecycle [of "presses_for_scope click_config ExplicitGlobal" ?before] by auto
  have "lc_input_provider click_config = None" "bindings_for_scope click_config ExplicitGlobal = []"
    "motions_for_scope click_config ExplicitGlobal = []"
    by (simp_all add: click_config_def bindings_for_scope_def motions_for_scope_def)
  then show ?thesis
    by (simp add: start_real_runner_with_lifecycle_def sbind_def sthen_def lab_loads lab_scope lab_calls
        lab_probe register_hotkeys_def lab_start_def run_to_end_def or_cleanup_def run sreturn_def sget_def
        finish_normal_shutdown_def)
qed



section \<open>A hotkey that does not parse\<close>

definition odd_hotkey_source :: string where
  "odd_hotkey_source = ''return function(aura)'' @ [newline]
     @ ''aura.hotkey({ trigger = '' @ [dquote] @ ''Ctrl+Shift'' @ [dquote] @ '', callback = '' @ [dquote]
     @ ''bye'' @ [dquote] @ '' })'' @ [newline]
     @ ''aura.callback('' @ [dquote] @ ''bye'' @ [dquote] @ '', function()'' @ [newline]
     @ ''aura.input.text('' @ [dquote] @ ''hi'' @ [dquote] @ '')'' @ [newline]
     @ ''end)'' @ [newline] @ ''end''"

lemma odd_hotkey_loads:
  obtains program e where
    "load_lua_controller_program_source int_floats (\<lambda>_. None) odd_hotkey_source = Inr program"
    "cp_required program = [capability_kind.GlobalShortcut, capability_kind.SynthesizedInput]"
    "cp_input_provider program = None" "controller_hotkey_bindings program = Inl e"
proof -
  have "map_sum id (\<lambda>p. (cp_required p, cp_input_provider p,
        case controller_hotkey_bindings p of Inl _ \<Rightarrow> True | Inr _ \<Rightarrow> False))
      (load_lua_controller_program_source int_floats (\<lambda>_. None) odd_hotkey_source)
    = Inr ([capability_kind.GlobalShortcut, capability_kind.SynthesizedInput], None, True)"
    by code_simp
  with that show thesis
    by (cases "load_lua_controller_program_source int_floats (\<lambda>_. None) odd_hotkey_source")
       (auto split: sum.splits)
qed

lemma odd_hotkey_tree:
  "load_controller_source_tree_file (st_files (lab_host odd_hotkey_source)) ''lua/a.lua''
     = Some (Inr odd_hotkey_source)"
proof -
  have parent: "path_parent ''lua/a.lua'' = Some ''lua''" by code_simp
  have enter: "enter_source (st_files (lab_host odd_hotkey_source)) ''lua/a.lua'' ''lua'' []
      = ([''lua/a.lua''], Inr (''lua'', Some odd_hotkey_source))"
    by (simp add: enter_source_def lab_host_def) code_simp
  have no_imports: "controller_imports odd_hotkey_source = []" by code_simp
  show ?thesis
    by (simp add: load_controller_source_tree_file_def load_controller_source_tree_def parent enter no_imports
        load_imports.simps)
qed

text \<open>
  The hotkeys of a controller are parsed after the adapter has been configured and probed, and the
  error leaves the start without the cleanup.
\<close>

lemma odd_hotkey_keeps_adapter:
  "\<exists>s e. start_live_real_controller_runner_with_options (lab_host odd_hotkey_source) ''lua/a.lua'' False
       lab_start = Some (s, Inl e)
     \<and> ss_session s = Open \<and> ss_world s = [(''configure'', [])]"
proof -
  obtain program e where program:
    "load_lua_controller_program_source int_floats (\<lambda>_. None) odd_hotkey_source = Inr program"
    "cp_required program = [capability_kind.GlobalShortcut, capability_kind.SynthesizedInput]"
    "cp_input_provider program = None" "controller_hotkey_bindings program = Inl e"
    by (rule odd_hotkey_loads)
  have "\<not> (contains_str ''.sleep'' odd_hotkey_source \<or> contains_str ''.window.'' odd_hotkey_source)"
    by code_simp
  moreover have "first_blocking_error (report_from_statuses (map (\<lambda>k. status_available k ''lab'')
        [capability_kind.GlobalShortcut, capability_kind.SynthesizedInput]))
      [capability_kind.GlobalShortcut, capability_kind.SynthesizedInput] = None" by code_simp
  moreover have "st_evaluate (lab_host source) = (\<lambda>_. None)" "ca_f32 (st_adapter (lab_host source)) = int_floats"
    "start_try (st_signal_fd (lab_host source)) s = Some (s, Inr ())"
    "start_call (st_probe_capabilities (lab_host source) required) s
       = Some (s, Inr (report_from_statuses (map (\<lambda>k. status_available k ''lab'') required)))"
    for source required and s :: "written startup_state"
    by (simp_all add: lab_host_def lab_adapter_def start_try_def start_call_def stry_def srun_def)
  ultimately show ?thesis
    by (simp add: start_live_real_controller_runner_with_options_def load_program_def start_loaded_def
        load_lua_controller_program_file_def load_lua_controller_runtime_source_file_def odd_hotkey_tree
        load_imperative_controller_runtime_def program sbind_def sthen_def sreturn_def sfail_def lab_calls
        check_probe_def start_count_def supd_def ensure_focus_provider_def swhen_def start_check_def
        lab_start_def)
qed

end
