(* ===== verification/DoctorProperties.thy ===== *)
theory DoctorProperties imports Doctor StartProperties begin

text \<open>
  What the verdict of the input doctor means, and that a script it approves starts on its devices
  without a question.
\<close>

section \<open>The verdict\<close>

definition device_ready :: "'w permission_probe \<Rightarrow> 'w \<Rightarrow> path \<Rightarrow> bool" where
  "device_ready P w d \<longleftrightarrow>
     pp_read_access P d w = Accessible \<and> pp_device_name P d w \<noteq> Some ''signal-auras-uinput''"

definition cache_accepted ::
  "'w permission_probe \<Rightarrow> 'w input_host \<Rightarrow> path \<Rightarrow> input_provider_config \<Rightarrow> 'w \<Rightarrow> bool" where
  "cache_accepted P H lua_file p w \<longleftrightarrow>
     (case interactive_cache_report (probe_host P H) lua_file p w of
        None \<Rightarrow> False | Some r \<Rightarrow> cv_status r = Accepted)"

text \<open>What a provider needs: its devices, and \<open>/dev/uinput\<close> for the output that writes to it.\<close>

definition provider_ready ::
  "'w permission_probe \<Rightarrow> 'w input_host \<Rightarrow> path \<Rightarrow> input_provider_config \<Rightarrow> 'w \<Rightarrow> bool" where
  "provider_ready P H lua_file p w \<longleftrightarrow>
     (if ip_interactive_devices p then cache_accepted P H lua_file p w
      else \<not> ip_all_devices p \<and> distinct (ip_devices p)
        \<and> list_all (device_ready P w) (ip_devices p))
     \<and> (ip_output p = Uinput \<longrightarrow> pp_read_write_access P ''/dev/uinput'' w = Accessible)"

lemma device_status_accessible:
  "device_status P seen d w = Accessible \<longleftrightarrow> d \<notin> set seen \<and> device_ready P w d"
  by (auto simp: device_status_def device_ready_def uinput_device_name_def split: option.splits)

lemma device_parts_ok:
  "list_all fst (device_parts P w seen ds) \<longleftrightarrow>
     distinct ds \<and> set ds \<inter> set seen = {} \<and> list_all (device_ready P w) ds"
  by (induction ds arbitrary: seen) (auto simp: device_status_accessible Let_def)

lemma devices_part_ok:
  "devices_part P H lua_file p w = Some part \<Longrightarrow>
     fst part \<longleftrightarrow> (if ip_interactive_devices p then cache_accepted P H lua_file p w
       else \<not> ip_all_devices p \<and> distinct (ip_devices p) \<and> list_all (device_ready P w) (ip_devices p))"
  by (auto simp: devices_part_def cache_accepted_def interactive_part_def join_parts_def device_parts_ok
      split: if_splits)

lemma uinput_part_ok:
  "fst (uinput_part P p w) \<longleftrightarrow>
     (ip_output p = Uinput \<longrightarrow> pp_read_write_access P ''/dev/uinput'' w = Accessible)"
  by (simp add: uinput_part_def Let_def uinput_path_def)

lemma input_report_ok:
  assumes report: "input_report P H lua_file c w = Some report"
  shows "dr_ok report \<longleftrightarrow>
    (case lc_input_provider c of None \<Rightarrow> True | Some p \<Rightarrow> provider_ready P H lua_file p w)"
proof (cases "lc_input_provider c")
  case None
  with report show ?thesis by (auto simp: input_report_def Let_def)
next
  case (Some p)
  with report obtain part where part: "devices_part P H lua_file p w = Some part"
    by (auto simp: input_report_def Let_def)
  with report Some have "dr_ok report \<longleftrightarrow> fst part \<and> fst (uinput_part P p w)"
    by (auto simp: input_report_def Let_def join_parts_def)
  then show ?thesis
    unfolding devices_part_ok [OF part] uinput_part_ok by (simp add: Some provider_ready_def)
qed

text \<open>
  C34: The verdict of the input doctor is right: it is ok exactly when the script uses no evdev
  provider, or when the devices are named once each, readable and not the program's own, or chosen by
  an accepted cache, and \<open>/dev/uinput\<close> can be written when the output goes there.
\<close>

theorem input_doctor_verdict:
  assumes "load_lua_file read lua_file = Inr c"
    and "input_doctor_report_with_probe P H read lua_file w = Some (Inr report)"
  shows "dr_ok report \<longleftrightarrow>
    (case lc_input_provider c of None \<Rightarrow> True | Some p \<Rightarrow> provider_ready P H lua_file p w)"
proof -
  from assms have "input_report P H lua_file c w = Some report"
    by (simp add: input_doctor_report_with_probe_def)
  then show ?thesis by (rule input_report_ok)
qed

section \<open>An approved script starts on its devices\<close>

lemma accepted_cache_is_resolved:
  assumes interactive: "ip_interactive_devices p" and accepted: "cache_accepted P H lua_file p w"
  obtains ds where "resolve_interactive_input_provider (probe_host P H) lua_file p False w
     = Some (w, Inr \<lparr>ip_backend = Evdev, ip_mode = ip_mode p, ip_output = ip_output p, ip_devices = ds,
         ip_all_devices = False, ip_interactive_devices = False\<rparr>)"
proof -
  let ?H = "probe_host P H"
  from accepted obtain cache_path where path: "runtime_cache_path ?H lua_file w = Inr cache_path"
    by (auto simp: cache_accepted_def interactive_cache_report_def cache_report_def split: sum.splits)
  with accepted obtain r where r: "validate_cache_file ?H cache_path lua_file p w = Some (Inr r)"
    and ok: "cv_status r = Accepted"
    by (auto simp: cache_accepted_def interactive_cache_report_def cache_report_def
        split: option.splits sum.splits)
  from validated_report [OF r ok] have "cv_selected_devices r \<noteq> []" by (simp add: validate_selected_ok)
  moreover have "cached_selection ?H cache_path lua_file p w = Some (w, Inr (Some (cv_selected_devices r)))"
    by (simp add: cached_selection_def r ok)
  ultimately show thesis
    using interactive path
    by (intro that [of "cv_selected_devices r"])
       (simp add: resolve_interactive_input_provider_def sbind_def of_read_def stry_def
         with_selected_devices_def provider_evdev_def)
qed

text \<open>
  C35: A script with a provider that the input doctor approves is started without a question: its
  provider is resolved to named devices of the same mode and output, and no prompt, no repair and no
  file is touched.
\<close>

theorem approved_script_needs_no_prompt:
  assumes "load_lua_file (fs_read (st_files V)) lua_file = Inr c" and "lc_input_provider c = Some p"
    and "input_doctor_report_with_probe P H (fs_read (st_files V)) lua_file (ss_world s) = Some (Inr report)"
    and "dr_ok report" and "st_input V = probe_host P H"
  shows "\<exists>p'. resolve_real_input_provider V lua_file (lc_input_provider c) False s = Some (s, Inr (Some p'))
    \<and> \<not> ip_interactive_devices p' \<and> \<not> ip_all_devices p'
    \<and> ip_mode p' = ip_mode p \<and> ip_output p' = ip_output p"
proof -
  from assms(3) have "input_report P H lua_file c (ss_world s) = Some report"
    by (simp add: input_doctor_report_with_probe_def assms(1))
  with input_report_ok [of P H lua_file c "ss_world s" report] assms(2,4)
  have ready: "provider_ready P H lua_file p (ss_world s)" by simp
  show ?thesis
  proof (cases "ip_interactive_devices p")
    case True
    with ready have "cache_accepted P H lua_file p (ss_world s)" by (simp add: provider_ready_def)
    with True obtain ds where "resolve_interactive_input_provider (probe_host P H) lua_file p False (ss_world s)
        = Some (ss_world s, Inr \<lparr>ip_backend = Evdev, ip_mode = ip_mode p, ip_output = ip_output p,
            ip_devices = ds, ip_all_devices = False, ip_interactive_devices = False\<rparr>)"
      by (rule accepted_cache_is_resolved)
    with True show ?thesis
      by (simp add: resolve_real_input_provider_def assms(2,5) start_within_def sbind_def sreturn_def)
  next
    case False
    with ready show ?thesis
      by (simp add: provider_ready_def resolve_real_input_provider_def assms(2) sreturn_def)
  qed
qed

section \<open>The key doctor\<close>

text \<open>
  A provider whose devices are chosen interactively names none. The key doctor opens no device for it,
  which the observation provider refuses.
\<close>

lemma interactive_script_fails_key_doctor:
  assumes "load_lua_file read lua_file = Inr c" and "lc_input_provider c = Some p"
    and "provider_evdev_interactive mode out = Inr p"
    and "dt_open D [] Observe (lc_leader c) False w = (w', Inl e)"
  shows "key_doctor_report D read lua_file w = Some (w', Inl e)"
  using assms
  by (auto simp: key_doctor_report_def collect_key_doctor_observations_def provider_evdev_interactive_def
      sbind_def sthen_def stry_def sreturn_def)

section \<open>Witnesses\<close>

text \<open>A desk whose keyboard can be read, and a script that observes it.\<close>

definition desk_probe :: "written permission_probe" where
  "desk_probe =
     \<lparr>pp_event_devices = (\<lambda>w. Inr [event3]), pp_current_user = (\<lambda>w. ''u''),
      pp_current_groups = (\<lambda>w. [''1000'']),
      pp_read_access = (\<lambda>p w. if p = event3 then Accessible else Missing ''gone''),
      pp_read_write_access = (\<lambda>p w. Denied ''no''), pp_symlink_target = (\<lambda>p w. None),
      pp_stable_path_for = (\<lambda>p w. None),
      pp_device_name = (\<lambda>p w. if p = event3 then ed_name keyboard else None),
      pp_device_identity = (\<lambda>p w. if p = event3 then Some keyboard else None)\<rparr>"

definition observing_source :: string where
  "observing_source = ''return { input_provider = { backend = '' @ [dquote] @ ''evdev'' @ [dquote]
     @ '', mode = '' @ [dquote] @ ''observe'' @ [dquote] @ '', devices = { '' @ [dquote] @ event3 @ [dquote]
     @ '' } },'' @ [newline] @ ''presses = { { trigger = '' @ [dquote] @ ''<LClick>'' @ [dquote]
     @ '', macro = macro {'' @ [newline] @ ''text '' @ [dquote] @ ''hi'' @ [dquote] @ [newline]
     @ ''} } } }''"

definition desk_provider :: input_provider_config where
  "desk_provider = \<lparr>ip_backend = Evdev, ip_mode = Observe, ip_output = Portal, ip_devices = [event3],
     ip_all_devices = False, ip_interactive_devices = False\<rparr>"

lemma observing_loads:
  obtains c where "load_lua_source observing_source = Inr c" "lc_input_provider c = Some desk_provider"
proof -
  have "map_sum id lc_input_provider (load_lua_source observing_source) = Inr (Some desk_provider)"
    by code_simp
  with that show thesis by (cases "load_lua_source observing_source") auto
qed

lemma desk_report:
  obtains report where "input_doctor_report_with_probe desk_probe desk_host (\<lambda>p. Inr observing_source)
      ''a.lua'' w = Some (Inr report)"
proof -
  obtain c where c: "load_lua_source observing_source = Inr c" "lc_input_provider c = Some desk_provider"
    by (rule observing_loads)
  then obtain report where "input_report desk_probe desk_host ''a.lua'' c w = Some report"
    by (auto simp: input_report_def Let_def devices_part_def desk_provider_def split: prod.splits)
  with c that show thesis by (simp add: input_doctor_report_with_probe_def load_lua_file_def)
qed

lemma desk_ready: "provider_ready desk_probe H lua_file desk_provider w"
  by (simp add: provider_ready_def desk_provider_def device_ready_def desk_probe_def keyboard_def)

theorem input_doctor_verdict_witness:
  "\<exists>report. input_doctor_report_with_probe desk_probe desk_host (\<lambda>p. Inr observing_source) ''a.lua'' []
     = Some (Inr report) \<and> dr_ok report"
proof -
  obtain c where c: "load_lua_source observing_source = Inr c" "lc_input_provider c = Some desk_provider"
    by (rule observing_loads)
  then have load: "load_lua_file (\<lambda>p. Inr observing_source) ''a.lua'' = Inr c"
    by (simp add: load_lua_file_def)
  obtain report where report: "input_doctor_report_with_probe desk_probe desk_host
      (\<lambda>p. Inr observing_source) ''a.lua'' [] = Some (Inr report)" by (rule desk_report)
  from input_doctor_verdict [OF load report] c desk_ready have "dr_ok report" by simp
  with report show ?thesis by blast
qed

definition desk_start :: "(written, int, int, unit, unit, unit) startup_host" where
  "desk_start = (lab_host observing_source)\<lparr>st_input := probe_host desk_probe desk_host\<rparr>"

theorem approved_script_needs_no_prompt_witness:
  "\<exists>p. resolve_real_input_provider desk_start ''a.lua'' (Some desk_provider) False lab_start
     = Some (lab_start, Inr (Some p)) \<and> ip_mode p = Observe"
proof -
  obtain c where c: "load_lua_source observing_source = Inr c" "lc_input_provider c = Some desk_provider"
    by (rule observing_loads)
  have files: "fs_read (st_files desk_start) = (\<lambda>p. Inr observing_source)"
    by (simp add: desk_start_def lab_host_def)
  with c have load: "load_lua_file (fs_read (st_files desk_start)) ''a.lua'' = Inr c"
    by (simp add: load_lua_file_def)
  obtain report where "input_doctor_report_with_probe desk_probe desk_host
      (\<lambda>p. Inr observing_source) ''a.lua'' (ss_world lab_start) = Some (Inr report)" by (rule desk_report)
  then have report: "input_doctor_report_with_probe desk_probe desk_host
      (fs_read (st_files desk_start)) ''a.lua'' (ss_world lab_start) = Some (Inr report)"
    by (simp add: files)
  from report load have "input_report desk_probe desk_host ''a.lua'' c (ss_world lab_start) = Some report"
    by (simp add: input_doctor_report_with_probe_def)
  then have ok: "dr_ok report" by (simp add: input_report_ok c desk_ready)
  have host: "st_input desk_start = probe_host desk_probe desk_host" by (simp add: desk_start_def)
  have "ip_mode desk_provider = Observe" by (simp add: desk_provider_def)
  with approved_script_needs_no_prompt [OF load c(2) report ok host] c(2) show ?thesis by auto
qed

end
