(* ===== verification/Evdev.thy ===== *)
theory Evdev imports LiveState InputCache begin

text \<open>
  \<open>EvdevObservationProvider\<close> of \<open>signal-auras-wayland/src/evdev.rs\<close>: the devices that are observed,
  reading them in turn, grabbing them and finding them again after they have been unplugged.

  The system calls are the record \<open>evdev_os\<close> over a world \<open>'w\<close>. Bytes are those of a 64-bit
  little-endian machine. Lines of the log and the closing of a file that is dropped are left out.
\<close>

section \<open>Events\<close>

definition le_nat :: "8 word list \<Rightarrow> nat" where
  "le_nat bytes = foldr (\<lambda>b n. unat b + 256 * n) bytes 0"

definition raw_input_timeval :: "8 word list \<Rightarrow> int \<times> int" where
  "raw_input_timeval bytes =
     (sint (word_of_nat (le_nat (take 8 bytes)) :: 64 word),
      sint (word_of_nat (le_nat (take 8 (drop 8 bytes))) :: 64 word))"

text \<open>\<open>INPUT_EVENT_SIZE\<close> is 24 and \<open>TIMEVAL_SIZE\<close> 16.\<close>

definition raw_input_event_of :: "8 word list \<Rightarrow> raw_input_event" where
  "raw_input_event_of bytes =
     (case raw_input_timeval bytes of (seconds, microseconds) \<Rightarrow>
        \<lparr>re_event_type = word_of_nat (le_nat (take 2 (drop 16 bytes))),
         re_code = word_of_nat (le_nat (take 2 (drop 18 bytes))),
         re_value = word_of_nat (le_nat (take 4 (drop 20 bytes))),
         re_kernel_timestamp = from_timeval seconds microseconds\<rparr>)"

definition evdev_code_to_motion_token :: "16 word \<Rightarrow> motion_token option" where
  "evdev_code_to_motion_token code =
     (if code = 0x110 then Some (MouseButton Left)
      else if code = 0x111 then Some (MouseButton Right)
      else if code = 0x112 then Some (MouseButton Middle)
      else map_option (\<lambda>k. Key (kt_name k)) (from_evdev_code (unat code)))"

definition decode_raw_input_event :: "raw_input_event \<Rightarrow> motion_input_event option" where
  "decode_raw_input_event raw =
     (if re_event_type raw = 2 \<and> re_code raw = 8
      then (if 0 < sint (re_value raw) then Some \<lparr>me_token = Wheel Up, me_state = Pressed\<rparr>
            else if sint (re_value raw) < 0 then Some \<lparr>me_token = Wheel Down, me_state = Pressed\<rparr>
            else None)
      else if re_event_type raw \<noteq> 1 then None
      else if re_value raw = 0
      then map_option (\<lambda>t. \<lparr>me_token = t, me_state = Released\<rparr>) (evdev_code_to_motion_token (re_code raw))
      else if re_value raw = 1
      then map_option (\<lambda>t. \<lparr>me_token = t, me_state = Pressed\<rparr>) (evdev_code_to_motion_token (re_code raw))
      else None)"

text \<open>The token of the leader key is \<open>Leader\<close>.\<close>

definition as_leader :: "motion_token option \<Rightarrow> motion_input_event \<Rightarrow> motion_input_event" where
  "as_leader leader ev = (if leader = Some (me_token ev) then ev\<lparr>me_token := Leader\<rparr> else ev)"

section \<open>The system\<close>

text \<open>The outcome of \<open>read_exact\<close>; \<open>ReadError\<close> has \<open>raw_os_error\<close> and the text of the error.\<close>

datatype read_outcome =
    EventBytes "8 word list"
  | WouldBlock
  | UnexpectedEof
  | ReadError "nat option" string

text \<open>The outcome of \<open>poll\<close>: the number of descriptors and for each whether it has \<open>POLLIN\<close>.\<close>

datatype poll_outcome = Interrupted | PollError string | Polled nat "bool list"

datatype udev_event_type = Add | Remove | Change | OtherEvent

record 'w evdev_os =
  eo_open_file :: "path \<Rightarrow> 'w \<Rightarrow> 'w \<times> (string + raw_fd)"
  eo_device_name :: "raw_fd \<Rightarrow> 'w \<Rightarrow> string option"
  eo_capability_bits :: "raw_fd \<Rightarrow> 16 word \<Rightarrow> 'w \<Rightarrow> 8 word list option"
  eo_set_nonblocking :: "raw_fd \<Rightarrow> 'w \<Rightarrow> 'w \<times> (string + unit)"
  eo_set_monotonic_event_clock :: "raw_fd \<Rightarrow> 'w \<Rightarrow> 'w"
  eo_read_exact :: "raw_fd \<Rightarrow> 'w \<Rightarrow> 'w \<times> read_outcome"
  eo_ioctl_grab :: "raw_fd \<Rightarrow> bool \<Rightarrow> 'w \<Rightarrow> 'w \<times> (string + unit)"
  eo_poll :: "raw_fd list \<Rightarrow> nat \<Rightarrow> 'w \<Rightarrow> 'w \<times> poll_outcome"
  eo_open_monitor :: "'w \<Rightarrow> 'w \<times> raw_fd option"
  eo_drain_monitor :: "raw_fd \<Rightarrow> 'w \<Rightarrow> 'w \<times> (udev_event_type \<times> path option) list"
  eo_read_dir :: "path \<Rightarrow> 'w \<Rightarrow> string + path list"
  eo_now :: "'w \<Rightarrow> 'w \<times> instant"
  eo_sleep :: "duration \<Rightarrow> 'w \<Rightarrow> 'w"

definition evdev_error :: "error_phase \<Rightarrow> string \<Rightarrow> path option \<Rightarrow> diagnosable_error" where
  "evdev_error phase message source =
     with_capability capability.CompositePointerObservation
       (with_remediation ''configure explicit evdev devices and grant this user read access to those device files''
         (with_source (case source of None \<Rightarrow> ''evdev'' | Some p \<Rightarrow> p) (diagnosable_error_new phase message)))"

section \<open>A device\<close>

record evdev_device =
  dv_path :: path
  dv_file :: raw_fd
  dv_active :: bool
  dv_grabbed :: bool
  dv_pointer_capable :: bool

definition device_has_code :: "'w evdev_os \<Rightarrow> raw_fd \<Rightarrow> 16 word \<Rightarrow> 16 word \<Rightarrow> 'w \<Rightarrow> bool" where
  "device_has_code H fd event_type code w =
     (case eo_capability_bits H fd event_type w of
        None \<Rightarrow> False
      | Some bytes \<Rightarrow>
          unat code div 8 < length bytes \<and> bit (bytes ! (unat code div 8)) (unat code mod 8))"

definition device_is_pointer_capable :: "'w evdev_os \<Rightarrow> raw_fd \<Rightarrow> 'w \<Rightarrow> bool" where
  "device_is_pointer_capable H fd w \<longleftrightarrow>
     device_has_code H fd 2 0 w \<or> device_has_code H fd 2 1 w \<or> device_has_code H fd 2 8 w
     \<or> device_has_code H fd 1 0x110 w \<or> device_has_code H fd 1 0x111 w \<or> device_has_code H fd 1 0x112 w"

text \<open>A result of the system with the error that is reported for it.\<close>

definition os_try ::
  "(string \<Rightarrow> diagnosable_error) \<Rightarrow> ('w \<Rightarrow> 'w \<times> (string + 'a)) \<Rightarrow> ('w, 'a) input_effect" where
  "os_try err f = stry (\<lambda>w. case f w of (w1, Inl message) \<Rightarrow> (w1, Err (err message)) | (w1, Inr a) \<Rightarrow> (w1, Ok a))"

definition device_open :: "'w evdev_os \<Rightarrow> path \<Rightarrow> ('w, evdev_device) input_effect" where
  "device_open H p =
     sbind (os_try (\<lambda>m. evdev_error Registration
              (''cannot open evdev input device '' @ quoted p @ '': '' @ m) (Some p)) (eo_open_file H p)) (\<lambda>fd.
     sbind (sget (eo_device_name H fd)) (\<lambda>name.
       if name = Some uinput_device_name
       then sfail (evdev_error Registration
              (''ignoring Signal Auras virtual input device '' @ quoted p) (Some p))
       else sbind (sget (device_is_pointer_capable H fd)) (\<lambda>pointer_capable.
         sthen (os_try (\<lambda>m. evdev_error Registration
                  (''cannot set evdev input device '' @ quoted p @ '' nonblocking: '' @ m) (Some p))
                  (eo_set_nonblocking H fd))
        (sthen (supd (eo_set_monotonic_event_clock H fd))
           (sreturn \<lparr>dv_path = p, dv_file = fd, dv_active = True, dv_grabbed = False,
                     dv_pointer_capable = pointer_capable\<rparr>)))))"

text \<open>Errors with which a device is given up: \<open>EPERM\<close>, \<open>EIO\<close>, \<open>EACCES\<close> and \<open>ENODEV\<close>.\<close>

definition device_is_gone :: "nat option \<Rightarrow> bool" where
  "device_is_gone errno \<longleftrightarrow> errno \<in> {Some 1, Some 5, Some 13, Some 19}"

definition device_next_raw_event ::
  "'w evdev_os \<Rightarrow> evdev_device \<Rightarrow> 'w \<Rightarrow> 'w \<times> evdev_device \<times> raw_input_event option result" where
  "device_next_raw_event H d w =
     (if \<not> dv_active d then (w, d, Ok None)
      else case eo_read_exact H (dv_file d) w of (w1, outcome) \<Rightarrow>
        (case outcome of
           EventBytes bytes \<Rightarrow> (w1, d, Ok (Some (raw_input_event_of bytes)))
         | WouldBlock \<Rightarrow> (w1, d, Ok None)
         | UnexpectedEof \<Rightarrow> (w1, d, Ok None)
         | ReadError errno message \<Rightarrow>
             if device_is_gone errno then (w1, d\<lparr>dv_active := False\<rparr>, Ok None)
             else (w1, d, Err (evdev_error error_phase.Trigger
               (''cannot read evdev input device '' @ quoted (dv_path d) @ '': '' @ message)
               (Some (dv_path d))))))"

definition device_set_grabbed ::
  "'w evdev_os \<Rightarrow> bool \<Rightarrow> evdev_device \<Rightarrow> 'w \<Rightarrow> 'w \<times> evdev_device \<times> unit result" where
  "device_set_grabbed H grabbed d w =
     (if dv_grabbed d = grabbed then (w, d, Ok ())
      else case eo_ioctl_grab H (dv_file d) grabbed w of
          (w1, Inl message) \<Rightarrow> (w1, d, Err (evdev_error Registration
            (''cannot '' @ (if grabbed then ''grab'' else ''release'') @ '' evdev input device ''
              @ quoted (dv_path d) @ '': '' @ message) (Some (dv_path d))))
        | (w1, Inr _) \<Rightarrow> (w1, d\<lparr>dv_grabbed := grabbed\<rparr>, Ok ()))"

end
