(* ===== verification/EvdevProvider.thy ===== *)
theory EvdevProvider imports Evdev begin

text \<open>
  The operations of \<open>EvdevObservationProvider\<close> (\<open>signal-auras-wayland/src/evdev.rs\<close>) on its devices.
\<close>

section \<open>The provider\<close>

text \<open>\<open>rescan_interval\<close> is one second; \<open>ep_udev_monitor\<close> is the descriptor of the monitor.\<close>

record evdev_provider =
  ep_devices :: "evdev_device list"
  ep_configured_paths :: "path list"
  ep_leader :: "motion_token option"
  ep_grabbed :: bool
  ep_next_device_index :: nat
  ep_all_devices :: bool
  ep_mode :: input_provider_mode
  ep_last_rescan :: instant
  ep_skipped_paths :: "path set"
  ep_udev_monitor :: "raw_fd option"

record 'w evdev_state =
  es_world :: 'w
  es_provider :: evdev_provider

type_synonym ('w, 'a) evdev_effect = "('w evdev_state, diagnosable_error, 'a) effect"

definition rescan_interval :: duration where
  "rescan_interval = from_millis 1000"

definition es_call :: "('w \<Rightarrow> 'w \<times> 'a) \<Rightarrow> ('w, 'a) evdev_effect" where
  "es_call f = srun (\<lambda>s. case f (es_world s) of (w, a) \<Rightarrow> (s\<lparr>es_world := w\<rparr>, a))"

definition on_provider :: "(evdev_provider \<Rightarrow> evdev_provider) \<Rightarrow> 'w evdev_state \<Rightarrow> 'w evdev_state" where
  "on_provider f s = s\<lparr>es_provider := f (es_provider s)\<rparr>"

definition provider_upd :: "(evdev_provider \<Rightarrow> evdev_provider) \<Rightarrow> ('w, unit) evdev_effect" where
  "provider_upd f = supd (on_provider f)"

definition set_device :: "nat \<Rightarrow> evdev_device \<Rightarrow> evdev_provider \<Rightarrow> evdev_provider" where
  "set_device i d p = p\<lparr>ep_devices := (ep_devices p)[i := d]\<rparr>"

text \<open>An operation of the device at an index.\<close>

definition on_device ::
  "nat \<Rightarrow> (evdev_device \<Rightarrow> 'w \<Rightarrow> 'w \<times> evdev_device \<times> 'a result) \<Rightarrow> ('w, 'a) evdev_effect" where
  "on_device i f = stry (\<lambda>s. case f (ep_devices (es_provider s) ! i) (es_world s) of
     (w, d, r) \<Rightarrow> (on_provider (set_device i d) (s\<lparr>es_world := w\<rparr>), r))"

section \<open>Opening\<close>

text \<open>The loop over the configured paths, with the devices, the selected and the skipped paths.\<close>

fun open_devices ::
  "'w evdev_os \<Rightarrow> bool \<Rightarrow> path list \<Rightarrow> path set \<Rightarrow> evdev_device list \<Rightarrow> path list \<Rightarrow> path set
   \<Rightarrow> ('w, evdev_device list \<times> path list \<times> path set) input_effect" where
  "open_devices H all [] seen opened selected skipped = sreturn (opened, selected, skipped)"
| "open_devices H all (p # ps) seen opened selected skipped =
     (if p \<in> seen
      then (if all then open_devices H all ps seen opened selected (insert p skipped)
            else sfail (evdev_error Registration
                   (''duplicate selected evdev input device '' @ quoted p) (Some p)))
      else (\<lambda>w. case device_open H p w of
          None \<Rightarrow> None
        | Some (w1, Inr d) \<Rightarrow> open_devices H all ps (insert p seen) (opened @ [d]) (selected @ [p]) skipped w1
        | Some (w1, Inl e) \<Rightarrow>
            if all then open_devices H all ps (insert p seen) opened (selected @ [p]) (insert p skipped) w1
            else Some (w1, Err e)))"

definition provider_open ::
  "'w evdev_os \<Rightarrow> path list \<Rightarrow> input_provider_mode \<Rightarrow> motion_token option \<Rightarrow> bool
   \<Rightarrow> ('w, evdev_provider) input_effect" where
  "provider_open H paths mode leader all =
     sbind (open_devices H all paths {} [] [] {}) (\<lambda>(opened, selected, skipped).
       if opened = []
       then sfail (evdev_error Registration
              (if all then ''no usable evdev input devices were found for devices = '' @ [dquote] @ ''all'' @ [dquote]
               else ''no usable evdev input devices were found in the selected device paths'') None)
       else sbind (srun (eo_now H)) (\<lambda>now.
            sbind (srun (eo_open_monitor H)) (\<lambda>monitor.
              sreturn \<lparr>ep_devices = opened, ep_configured_paths = (if all then [] else selected),
                       ep_leader = leader, ep_grabbed = False, ep_next_device_index = 0,
                       ep_all_devices = all, ep_mode = mode, ep_last_rescan = now,
                       ep_skipped_paths = skipped, ep_udev_monitor = monitor\<rparr>)))"

section \<open>Reading the devices in turn\<close>

definition device_in_turn :: "evdev_provider \<Rightarrow> nat \<Rightarrow> nat" where
  "device_in_turn p offset = (ep_next_device_index p + offset) mod length (ep_devices p)"

text \<open>The next turn begins after the device of an event, or one device later.\<close>

definition turn_after :: "nat \<Rightarrow> evdev_provider \<Rightarrow> evdev_provider" where
  "turn_after i p = p\<lparr>ep_next_device_index := (i + 1) mod length (ep_devices p)\<rparr>"

definition observed_input ::
  "'w evdev_os \<Rightarrow> nat \<Rightarrow> raw_input_event \<Rightarrow> ('w, observed_input_event) evdev_effect" where
  "observed_input H i raw =
     sbind (sget (\<lambda>s. (ep_devices (es_provider s) ! i, ep_leader (es_provider s)))) (\<lambda>(d, leader).
     sthen (provider_upd (turn_after i))
    (sbind (es_call (eo_now H)) (\<lambda>now.
       sreturn \<lparr>oi_raw = raw, oi_event = map_option (as_leader leader) (decode_raw_input_event raw),
                oi_source = dv_path d, oi_grabbed = dv_grabbed d, oi_observed_at = now\<rparr>)))"

fun scan_input :: "'w evdev_os \<Rightarrow> nat list \<Rightarrow> ('w, observed_input_event option) evdev_effect" where
  "scan_input H [] =
     sthen (provider_upd (\<lambda>p. turn_after (ep_next_device_index p) p)) (sreturn None)"
| "scan_input H (offset # offsets) =
     sbind (sget (\<lambda>s. device_in_turn (es_provider s) offset)) (\<lambda>i.
     sbind (on_device i (device_next_raw_event H)) (\<lambda>event.
       case event of
         None \<Rightarrow> scan_input H offsets
       | Some raw \<Rightarrow> sbind (observed_input H i raw) (\<lambda>ob. sreturn (Some ob))))"

definition next_observed_input_event ::
  "'w evdev_os \<Rightarrow> ('w, observed_input_event option) evdev_effect" where
  "next_observed_input_event H =
     sbind (sget (\<lambda>s. length (ep_devices (es_provider s)))) (\<lambda>n.
       if n = 0 then sreturn None else scan_input H [0..<n])"

text \<open>The reading of motions drops an event that is none and goes on to the next device.\<close>

definition observed_motion ::
  "'w evdev_os \<Rightarrow> nat \<Rightarrow> raw_input_event \<Rightarrow> motion_input_event
   \<Rightarrow> ('w, observed_motion_input_event) evdev_effect" where
  "observed_motion H i raw ev =
     sbind (sget (\<lambda>s. (ep_devices (es_provider s) ! i, ep_leader (es_provider s)))) (\<lambda>(d, leader).
     sthen (provider_upd (turn_after i))
    (sbind (es_call (eo_now H)) (\<lambda>now.
       sreturn \<lparr>om_event = as_leader leader ev, om_source = dv_path d,
                om_kernel_timestamp = re_kernel_timestamp raw, om_observed_at = now\<rparr>)))"

fun scan_motion ::
  "'w evdev_os \<Rightarrow> nat list \<Rightarrow> ('w, observed_motion_input_event option) evdev_effect" where
  "scan_motion H [] =
     sthen (provider_upd (\<lambda>p. turn_after (ep_next_device_index p) p)) (sreturn None)"
| "scan_motion H (offset # offsets) =
     sbind (sget (\<lambda>s. device_in_turn (es_provider s) offset)) (\<lambda>i.
     sbind (on_device i (device_next_raw_event H)) (\<lambda>event.
       case event of
         None \<Rightarrow> scan_motion H offsets
       | Some raw \<Rightarrow> (case decode_raw_input_event raw of
             None \<Rightarrow> scan_motion H offsets
           | Some ev \<Rightarrow> sbind (observed_motion H i raw ev) (\<lambda>ob. sreturn (Some ob)))))"

definition next_observed_motion_event ::
  "'w evdev_os \<Rightarrow> ('w, observed_motion_input_event option) evdev_effect" where
  "next_observed_motion_event H =
     sbind (sget (\<lambda>s. length (ep_devices (es_provider s)))) (\<lambda>n.
       if n = 0 then sreturn None else scan_motion H [0..<n])"

section \<open>Grabbing\<close>

text \<open>The loop of \<open>grab_pointer_devices\<close> over the indices; it yields whether a device was grabbed.\<close>

definition grab_device :: "'w evdev_os \<Rightarrow> nat \<Rightarrow> bool \<Rightarrow> ('w, bool) evdev_effect" where
  "grab_device H i grabbed =
     sbind (sget (\<lambda>s. dv_pointer_capable (ep_devices (es_provider s) ! i))) (\<lambda>pointer_capable.
       if \<not> pointer_capable then sreturn grabbed
       else sbind (on_device i (device_set_grabbed H True)) (\<lambda>_. sreturn True))"

definition grab_pointer_devices :: "'w evdev_os \<Rightarrow> ('w, unit) evdev_effect" where
  "grab_pointer_devices H =
     sbind (sget (\<lambda>s. length (ep_devices (es_provider s)))) (\<lambda>n.
     sbind (sfold (grab_device H) [0..<n] False) (\<lambda>grabbed.
       provider_upd (\<lambda>p. p\<lparr>ep_grabbed := grabbed\<rparr>)))"

definition arm_grab :: "'w evdev_os \<Rightarrow> ('w, unit) evdev_effect" where
  "arm_grab H =
     sbind (sget es_provider) (\<lambda>p.
       if ep_mode p \<noteq> Grab \<or> ep_grabbed p then sreturn () else grab_pointer_devices H)"

text \<open>A device that cannot be released is logged and passed over.\<close>

definition release_device :: "'w evdev_os \<Rightarrow> nat \<Rightarrow> ('w, unit) evdev_effect" where
  "release_device H i = supd (\<lambda>s.
     case device_set_grabbed H False (ep_devices (es_provider s) ! i) (es_world s) of
       (w, d, _) \<Rightarrow> on_provider (set_device i d) (s\<lparr>es_world := w\<rparr>))"

definition release_grab :: "'w evdev_os \<Rightarrow> ('w, unit) evdev_effect" where
  "release_grab H =
     sbind (sget es_provider) (\<lambda>p.
       if \<not> ep_grabbed p then sreturn ()
       else sthen (seach (release_device H) [0..<length (ep_devices p)])
              (provider_upd (\<lambda>p. p\<lparr>ep_grabbed := False\<rparr>)))"

section \<open>Finding devices\<close>

definition is_event_device_path :: "path \<Rightarrow> bool" where
  "is_event_device_path p = (case file_name p of None \<Rightarrow> False | Some n \<Rightarrow> prefix ''event'' n)"

definition discover_event_devices :: "'w evdev_os \<Rightarrow> 'w \<Rightarrow> path list result" where
  "discover_event_devices H w =
     (case eo_read_dir H ''/dev/input'' w of
        Inl message \<Rightarrow> Err (evdev_error Registration
          (''cannot scan /dev/input for evdev devices: '' @ message) (Some ''/dev/input''))
      | Inr entries \<Rightarrow>
          (case sort_key path_order (filter is_event_device_path entries) of
             [] \<Rightarrow> Err (evdev_error Registration ''no /dev/input/event* devices were found'' (Some ''/dev/input''))
           | ps \<Rightarrow> Ok ps))"

text \<open>A device that is put in the place of the first inactive one of its path, or at the end.\<close>

definition put_device :: "evdev_device \<Rightarrow> evdev_provider \<Rightarrow> evdev_provider" where
  "put_device d p =
     (case position (\<lambda>e. dv_path e = dv_path d \<and> \<not> dv_active e) (ep_devices p) of
        Some i \<Rightarrow> set_device i d p
      | None \<Rightarrow> p\<lparr>ep_devices := ep_devices p @ [d]\<rparr>)"

definition unskip :: "path \<Rightarrow> evdev_provider \<Rightarrow> evdev_provider" where
  "unskip path p = p\<lparr>ep_skipped_paths := ep_skipped_paths p - {path}\<rparr>"

definition skip_path :: "path \<Rightarrow> evdev_provider \<Rightarrow> evdev_provider" where
  "skip_path path p = p\<lparr>ep_skipped_paths := insert path (ep_skipped_paths p)\<rparr>"

text \<open>A device that is opened while the grab is armed is grabbed, or left alone when that fails.\<close>

definition grab_reopened ::
  "'w evdev_os \<Rightarrow> evdev_provider \<Rightarrow> evdev_device \<Rightarrow> 'w \<Rightarrow> 'w \<times> evdev_device \<times> unit result" where
  "grab_reopened H p d w =
     (if ep_grabbed p \<and> ep_mode p = Grab \<and> dv_pointer_capable d then device_set_grabbed H True d w
      else (w, d, Ok ()))"

definition add_or_reopen_device :: "'w evdev_os \<Rightarrow> path \<Rightarrow> ('w, unit) evdev_effect" where
  "add_or_reopen_device H path s =
     (let p = es_provider s
      in if list_ex (\<lambda>d. dv_path d = path \<and> dv_active d) (ep_devices p)
         then Some (on_provider (unskip path) s, Ok ())
         else case device_open H path (es_world s) of
             None \<Rightarrow> None
           | Some (w, Inl _) \<Rightarrow> Some (on_provider (skip_path path) (s\<lparr>es_world := w\<rparr>), Ok ())
           | Some (w, Inr d) \<Rightarrow>
               (case grab_reopened H p d w of
                  (w1, _, Inl _) \<Rightarrow> Some (s\<lparr>es_world := w1\<rparr>, Ok ())
                | (w1, d1, Inr _) \<Rightarrow>
                    Some (on_provider (put_device d1 \<circ> unskip path) (s\<lparr>es_world := w1\<rparr>), Ok ())))"

text \<open>The paths of a \<open>BTreeSet\<close> in their order.\<close>

definition path_set_list :: "path list \<Rightarrow> path list" where
  "path_set_list ps = sort_key path_order (remdups ps)"

definition retain_skipped :: "path list \<Rightarrow> evdev_provider \<Rightarrow> evdev_provider" where
  "retain_skipped discovered p = p\<lparr>ep_skipped_paths :=
     Set.filter (\<lambda>path. path \<in> set discovered
       \<and> path \<notin> dv_path ` set (filter dv_active (ep_devices p))) (ep_skipped_paths p)\<rparr>"

definition rescan_known_devices :: "'w evdev_os \<Rightarrow> path list \<Rightarrow> ('w, unit) evdev_effect" where
  "rescan_known_devices H paths =
     (let discovered = path_set_list paths
      in sthen (seach (add_or_reopen_device H) discovered) (provider_upd (retain_skipped discovered)))"

definition rescan_devices :: "'w evdev_os \<Rightarrow> path list \<Rightarrow> ('w, unit) evdev_effect" where
  "rescan_devices H paths =
     sbind (sget (\<lambda>s. ep_all_devices (es_provider s))) (\<lambda>all.
       swhen all (rescan_known_devices H paths))"

definition rescan_configured_devices :: "'w evdev_os \<Rightarrow> ('w, unit) evdev_effect" where
  "rescan_configured_devices H =
     sbind (sget es_provider) (\<lambda>p.
       swhen (\<not> ep_all_devices p) (rescan_known_devices H (ep_configured_paths p)))"

definition discovered_devices :: "'w evdev_os \<Rightarrow> ('w, path list) evdev_effect" where
  "discovered_devices H = stry (\<lambda>s. (s, discover_event_devices H (es_world s)))"

definition note_rescan :: "'w evdev_os \<Rightarrow> ('w, unit) evdev_effect" where
  "note_rescan H = sbind (es_call (eo_now H)) (\<lambda>now. provider_upd (\<lambda>p. p\<lparr>ep_last_rescan := now\<rparr>))"

definition rescan_devices_if_due :: "'w evdev_os \<Rightarrow> ('w, unit) evdev_effect" where
  "rescan_devices_if_due H =
     sbind (es_call (eo_now H)) (\<lambda>now.
     sbind (sget es_provider) (\<lambda>p.
       if now - ep_last_rescan p < rescan_interval then sreturn ()
       else sthen (note_rescan H)
              (if ep_all_devices p
               then sbind (discovered_devices H) (rescan_devices H)
               else rescan_configured_devices H)))"

text \<open>Devices whose path is gone are given up before the rescan.\<close>

definition give_up_removed :: "path list \<Rightarrow> evdev_provider \<Rightarrow> evdev_provider" where
  "give_up_removed discovered p = p\<lparr>ep_devices :=
     map (\<lambda>d. if dv_active d \<and> dv_path d \<notin> set discovered then d\<lparr>dv_active := False\<rparr> else d)
       (ep_devices p)\<rparr>"

definition reconcile_discovered_devices :: "'w evdev_os \<Rightarrow> path list \<Rightarrow> ('w, unit) evdev_effect" where
  "reconcile_discovered_devices H paths =
     sthen (provider_upd (give_up_removed paths)) (rescan_devices H paths)"

section \<open>Waiting\<close>

datatype evdev_readiness = DeviceOrHotplug | ReadyRuntimeFd raw_fd | NotReady

datatype poll_source = Device | Udev | RuntimeFdSource raw_fd

definition poll_sources :: "evdev_provider \<Rightarrow> raw_fd list \<Rightarrow> (raw_fd \<times> poll_source) list" where
  "poll_sources p runtime_fds =
     map (\<lambda>d. (dv_file d, Device)) (filter dv_active (ep_devices p))
     @ (case ep_udev_monitor p of None \<Rightarrow> [] | Some fd \<Rightarrow> [(fd, Udev)])
     @ map (\<lambda>fd. (fd, RuntimeFdSource fd)) runtime_fds"

text \<open>\<open>drain_has_input_event\<close>.\<close>

definition has_input_event :: "(udev_event_type \<times> path option) list \<Rightarrow> bool" where
  "has_input_event events =
     list_ex (\<lambda>(t, p). (case p of None \<Rightarrow> False | Some p \<Rightarrow> is_event_device_path p)
        \<and> t \<in> {Add, Remove, Change}) events"

definition drain_monitor :: "'w evdev_os \<Rightarrow> ('w, bool) evdev_effect" where
  "drain_monitor H =
     sbind (sget (\<lambda>s. ep_udev_monitor (es_provider s))) (\<lambda>monitor.
       case monitor of
         None \<Rightarrow> sreturn False
       | Some fd \<Rightarrow> sbind (es_call (eo_drain_monitor H fd)) (\<lambda>events. sreturn (has_input_event events)))"

text \<open>The loop over the polled sources: \<open>Inl\<close> a descriptor ends it, \<open>Inr\<close> holds the two flags.\<close>

fun ready_sources ::
  "'w evdev_os \<Rightarrow> (bool \<times> poll_source) list \<Rightarrow> bool \<Rightarrow> bool
   \<Rightarrow> ('w, raw_fd + bool \<times> bool) evdev_effect" where
  "ready_sources H [] device_or_hotplug should_rescan = sreturn (Inr (device_or_hotplug, should_rescan))"
| "ready_sources H ((pollin, source) # rest) device_or_hotplug should_rescan =
     (if \<not> pollin then ready_sources H rest device_or_hotplug should_rescan
      else case source of
          Device \<Rightarrow> ready_sources H rest True should_rescan
        | Udev \<Rightarrow> sbind (drain_monitor H) (\<lambda>changed.
            ready_sources H rest device_or_hotplug (should_rescan \<or> changed))
        | RuntimeFdSource fd \<Rightarrow> sreturn (Inl fd))"

definition rescan_after_hotplug :: "'w evdev_os \<Rightarrow> ('w, unit) evdev_effect" where
  "rescan_after_hotplug H =
     sthen (note_rescan H)
       (sbind (sget (\<lambda>s. ep_all_devices (es_provider s))) (\<lambda>all.
          if all then sbind (discovered_devices H) (reconcile_discovered_devices H)
          else rescan_configured_devices H))"

definition i32_max :: nat where
  "i32_max = 2147483647"

definition wait_for_readable_device ::
  "'w evdev_os \<Rightarrow> duration \<Rightarrow> raw_fd list \<Rightarrow> ('w, evdev_readiness) evdev_effect" where
  "wait_for_readable_device H timeout runtime_fds =
     sbind (sget (\<lambda>s. poll_sources (es_provider s) runtime_fds)) (\<lambda>sources.
       if sources = [] then sreturn NotReady
       else sbind (es_call (eo_poll H (map fst sources) (min (as_millis timeout) i32_max))) (\<lambda>polled.
         case polled of
           Interrupted \<Rightarrow> sreturn NotReady
         | PollError message \<Rightarrow> sfail (evdev_error error_phase.Trigger
             (''cannot poll evdev input devices: '' @ message) None)
         | Polled n pollins \<Rightarrow>
             if n = 0 then sreturn NotReady
             else sbind (ready_sources H (zip pollins (map snd sources)) False False) (\<lambda>ready.
               case ready of
                 Inl fd \<Rightarrow> sreturn (ReadyRuntimeFd fd)
               | Inr (device_or_hotplug, should_rescan) \<Rightarrow>
                   sthen (swhen should_rescan (rescan_after_hotplug H))
                     (sreturn (if device_or_hotplug \<or> should_rescan then DeviceOrHotplug else NotReady)))))"

text \<open>
  The two waits differ in what they read. \<open>wait_for_input\<close> is the part between the two reads;
  \<open>Some\<close> outcome ends the wait.
\<close>

definition wait_for_input ::
  "'w evdev_os \<Rightarrow> duration \<Rightarrow> raw_fd list \<Rightarrow> ('w, evdev_readiness) evdev_effect" where
  "wait_for_input H timeout runtime_fds =
     sbind (sget es_provider) (\<lambda>p.
       if list_ex dv_active (ep_devices p) \<or> runtime_fds \<noteq> [] \<or> ep_udev_monitor p \<noteq> None
       then wait_for_readable_device H timeout runtime_fds
       else sthen (swhen (timeout \<noteq> 0)
                (supd (\<lambda>s. s\<lparr>es_world := eo_sleep H (min timeout (from_millis 50)) (es_world s)\<rparr>)))
              (sreturn DeviceOrHotplug))"

definition rescan_without_monitor :: "'w evdev_os \<Rightarrow> ('w, unit) evdev_effect" where
  "rescan_without_monitor H =
     sbind (sget (\<lambda>s. ep_udev_monitor (es_provider s))) (\<lambda>monitor.
       swhen (monitor = None) (rescan_devices_if_due H))"

definition wait_next_observed_input_event_or_runtime_fd ::
  "'w evdev_os \<Rightarrow> duration \<Rightarrow> raw_fd list \<Rightarrow> ('w, evdev_input_wait_outcome) evdev_effect" where
  "wait_next_observed_input_event_or_runtime_fd H timeout runtime_fds =
     sbind (next_observed_input_event H) (\<lambda>event. case event of
       Some ob \<Rightarrow> sreturn (evdev_input_wait_outcome.Input ob)
     | None \<Rightarrow> sbind (wait_for_input H timeout runtime_fds) (\<lambda>ready. case ready of
           ReadyRuntimeFd fd \<Rightarrow> sreturn (RuntimeFd fd)
         | NotReady \<Rightarrow> sreturn evdev_input_wait_outcome.Timeout
         | DeviceOrHotplug \<Rightarrow>
             sthen (rescan_without_monitor H)
               (sbind (next_observed_input_event H) (\<lambda>event. case event of
                  Some ob \<Rightarrow> sreturn (evdev_input_wait_outcome.Input ob)
                | None \<Rightarrow> sreturn evdev_input_wait_outcome.Timeout))))"

datatype evdev_wait_outcome =
    MotionObserved observed_motion_input_event
  | MotionRuntimeFd raw_fd
  | MotionTimeout

definition wait_next_observed_motion_event_or_runtime_fd ::
  "'w evdev_os \<Rightarrow> duration \<Rightarrow> raw_fd list \<Rightarrow> ('w, evdev_wait_outcome) evdev_effect" where
  "wait_next_observed_motion_event_or_runtime_fd H timeout runtime_fds =
     sbind (next_observed_motion_event H) (\<lambda>event. case event of
       Some ob \<Rightarrow> sreturn (MotionObserved ob)
     | None \<Rightarrow> sbind (wait_for_input H timeout runtime_fds) (\<lambda>ready. case ready of
           ReadyRuntimeFd fd \<Rightarrow> sreturn (MotionRuntimeFd fd)
         | NotReady \<Rightarrow> sreturn MotionTimeout
         | DeviceOrHotplug \<Rightarrow>
             sthen (rescan_without_monitor H)
               (sbind (next_observed_motion_event H) (\<lambda>event. case event of
                  Some ob \<Rightarrow> sreturn (MotionObserved ob)
                | None \<Rightarrow> sreturn MotionTimeout))))"

definition next_motion_event :: "'w evdev_os \<Rightarrow> ('w, motion_input_event option) evdev_effect" where
  "next_motion_event H =
     sbind (next_observed_motion_event H) (\<lambda>event. sreturn (map_option om_event event))"

definition wait_next_observed_motion_event ::
  "'w evdev_os \<Rightarrow> duration \<Rightarrow> ('w, observed_motion_input_event option) evdev_effect" where
  "wait_next_observed_motion_event H timeout =
     sbind (wait_next_observed_motion_event_or_runtime_fd H timeout []) (\<lambda>outcome. case outcome of
       MotionObserved ob \<Rightarrow> sreturn (Some ob)
     | MotionRuntimeFd _ \<Rightarrow> sreturn None
     | MotionTimeout \<Rightarrow> sreturn None)"

section \<open>The end of a provider\<close>

text \<open>\<open>Drop\<close> releases what is grabbed, whatever the outcome of each release.\<close>

definition provider_drop :: "'w evdev_os \<Rightarrow> ('w, unit) evdev_effect" where
  "provider_drop H =
     sbind (sget es_provider) (\<lambda>p.
       swhen (ep_grabbed p) (seach (release_device H) [0..<length (ep_devices p)]))"

definition active_device_count :: "evdev_provider \<Rightarrow> nat" where
  "active_device_count p = length (filter dv_active (ep_devices p))"

section \<open>The identity of a device\<close>

text \<open>
  The file system is given as \<open>fs::canonicalize\<close> and \<open>fs::read_to_string\<close>, each without an answer when
  it fails.
\<close>

definition event_node_name :: "(path \<Rightarrow> path option) \<Rightarrow> path \<Rightarrow> string option" where
  "event_node_name canonicalize p =
     (let resolved = (case canonicalize p of None \<Rightarrow> p | Some q \<Rightarrow> q)
      in case file_name resolved of
          None \<Rightarrow> None
        | Some n \<Rightarrow> if prefix ''event'' n then Some n else None)"

definition read_trimmed :: "(path \<Rightarrow> string option) \<Rightarrow> path \<Rightarrow> string option" where
  "read_trimmed read_to_string p =
     (case read_to_string p of
        None \<Rightarrow> None
      | Some v \<Rightarrow> if trim v = [] then None else Some (trim v))"

definition evdev_device_identity_from_sysfs ::
  "(path \<Rightarrow> path option) \<Rightarrow> (path \<Rightarrow> string option) \<Rightarrow> path \<Rightarrow> path \<Rightarrow> evdev_device_identity option" where
  "evdev_device_identity_from_sysfs canonicalize read_to_string p sysfs_input_root =
     map_option (\<lambda>event_name.
       let device_root = path_join (path_join sysfs_input_root event_name) ''device'';
           attribute = (\<lambda>n. read_trimmed read_to_string (path_join device_root n))
       in \<lparr>ed_event_name = event_name, ed_name = attribute ''name'', ed_phys = attribute ''phys'',
           ed_uniq = attribute ''uniq'', ed_bustype = attribute ''id/bustype'',
           ed_vendor = attribute ''id/vendor'', ed_product = attribute ''id/product'',
           ed_version = attribute ''id/version''\<rparr>)
       (event_node_name canonicalize p)"

end
