(* ===== verification/Uinput.thy ===== *)
theory Uinput imports Evdev begin

text \<open>
  \<open>UinputOutputSession\<close> of \<open>signal-auras-wayland/src/uinput.rs\<close>: the events that an action of a macro
  is turned into, the bytes that are written for them, and the session on \<open>/dev/uinput\<close>.

  The system calls are the record \<open>uinput_os\<close>. Bytes are those of a 64-bit little-endian machine.
\<close>

section \<open>Events and their bytes\<close>

text \<open>An \<open>InputEvent\<close>; its time is zero.\<close>

record uinput_event =
  ie_type :: "16 word"
  ie_code :: "16 word"
  ie_value :: "32 word"

definition input_event :: "16 word \<Rightarrow> 16 word \<Rightarrow> 32 word \<Rightarrow> uinput_event" where
  "input_event event_type code value = \<lparr>ie_type = event_type, ie_code = code, ie_value = value\<rparr>"

definition le_bytes :: "nat \<Rightarrow> nat \<Rightarrow> 8 word list" where
  "le_bytes n v = map (\<lambda>i. word_of_nat (v div 256 ^ i)) [0..<n]"

definition event_as_bytes :: "uinput_event \<Rightarrow> 8 word list" where
  "event_as_bytes e =
     replicate 16 0 @ le_bytes 2 (unat (ie_type e)) @ le_bytes 2 (unat (ie_code e))
     @ le_bytes 4 (unat (ie_value e))"

definition key_events :: "16 word \<Rightarrow> 32 word \<Rightarrow> uinput_event list" where
  "key_events code value = [input_event 1 code value, input_event 0 0 0]"

section \<open>Keys\<close>

definition key_leftshift :: "16 word" where
  "key_leftshift = 42"

record key_stroke =
  ks_code :: "16 word"
  ks_shift :: bool

definition letter_key_code :: "char \<Rightarrow> 16 word option" where
  "letter_key_code c =
     (case position (\<lambda>x. x = c) ''qwertyuiop'' of
        Some i \<Rightarrow> Some (16 + word_of_nat i)
      | None \<Rightarrow> (case position (\<lambda>x. x = c) ''asdfghjkl'' of
            Some i \<Rightarrow> Some (30 + word_of_nat i)
          | None \<Rightarrow> map_option (\<lambda>i. 44 + word_of_nat i) (position (\<lambda>x. x = c) ''zxcvbnm'')))"

definition character_to_key :: "char \<Rightarrow> key_stroke option" where
  "character_to_key c =
     (let lower = to_ascii_lowercase c;
          code = (if is_ascii_lowercase lower then letter_key_code lower
            else if lower = CHR ''0'' then Some 11
            else if char_code (CHR ''1'') \<le> char_code lower \<and> char_code lower \<le> char_code (CHR ''9'')
              then Some (2 + (word_of_nat (char_code c) - word_of_nat (char_code (CHR ''1''))))
            else if lower = CHR '' '' then Some 57
            else if lower = CHR ''-'' \<or> lower = CHR ''_'' then Some 12
            else if lower = CHR ''.'' then Some 52
            else if lower = CHR ''/'' then Some 53
            else None)
      in map_option (\<lambda>code. \<lparr>ks_code = code, ks_shift = is_ascii_uppercase c \<or> c = CHR ''_''\<rparr>) code)"

definition named_key_code :: "string \<Rightarrow> 16 word option" where
  "named_key_code key =
     (case key_token_parse key of Inl _ \<Rightarrow> None | Inr t \<Rightarrow> Some (word_of_nat (kt_code t)))"

definition modifier_key_code :: "string \<Rightarrow> 16 word option" where
  "modifier_key_code modifier =
     (if modifier = ''Ctrl'' then Some 29
      else if modifier = ''Alt'' then Some 56
      else if modifier = ''Shift'' then Some 42
      else if modifier = ''Super'' then Some 125
      else None)"

fun mouse_button_code :: "mouse_button \<Rightarrow> 16 word" where
  "mouse_button_code Left = 0x110"
| "mouse_button_code Right = 0x111"
| "mouse_button_code Middle = 0x112"

text \<open>Modifiers go down in their order and up in the opposite one, around the key.\<close>

definition chord_events :: "16 word list \<Rightarrow> 16 word \<Rightarrow> uinput_event list" where
  "chord_events modifiers key =
     concat (map (\<lambda>code. key_events code 1) modifiers)
     @ key_events key 1 @ key_events key 0
     @ concat (map (\<lambda>code. key_events code 0) (rev modifiers))"

definition named_key_chord_events :: "string \<Rightarrow> uinput_event list option" where
  "named_key_chord_events key =
     (let parts = map trim (split_on (CHR ''+'') key)
      in if length parts < 2 \<or> list_ex (\<lambda>part. part = []) parts then None
         else case named_key_code (last parts) of
             None \<Rightarrow> None
           | Some key_code \<Rightarrow>
               map_option (\<lambda>modifiers. chord_events modifiers key_code)
                 (those (map modifier_key_code (butlast parts))))"

section \<open>The device\<close>

record uinput_setup =
  ut_bustype :: "16 word"
  ut_vendor :: "16 word"
  ut_product :: "16 word"
  ut_version :: "16 word"
  ut_name :: "8 word list"
  ut_ff_effects_max :: "32 word"

definition setup_named :: "string \<Rightarrow> uinput_setup" where
  "setup_named name =
     \<lparr>ut_bustype = 0, ut_vendor = 0, ut_product = 0, ut_version = 0,
      ut_name = map (\<lambda>i. if i < length name then word_of_nat (char_code (name ! i)) else 0) [0..<80],
      ut_ff_effects_max = 0\<rparr>"

definition ioctl_request :: "64 word \<Rightarrow> 64 word \<Rightarrow> 64 word \<Rightarrow> 64 word \<Rightarrow> 64 word" where
  "ioctl_request dir kind number bytes =
     or (or (or (push_bit 30 dir) (push_bit 8 kind)) (push_bit 0 number)) (push_bit 16 bytes)"

text \<open>A \<open>UinputSetup\<close> has 92 bytes, a \<open>c_int\<close> has 4; \<open>b'U'\<close> is 85.\<close>

definition ioctl_dev_create :: "64 word" where "ioctl_dev_create = ioctl_request 0 85 1 0"
definition ioctl_dev_destroy :: "64 word" where "ioctl_dev_destroy = ioctl_request 0 85 2 0"
definition ioctl_dev_setup :: "64 word" where "ioctl_dev_setup = ioctl_request 1 85 3 92"
definition ioctl_set_evbit :: "64 word" where "ioctl_set_evbit = ioctl_request 1 85 100 4"
definition ioctl_set_keybit :: "64 word" where "ioctl_set_keybit = ioctl_request 1 85 101 4"
definition ioctl_set_relbit :: "64 word" where "ioctl_set_relbit = ioctl_request 1 85 102 4"

record 'w uinput_os =
  uo_open :: "path \<Rightarrow> 'w \<Rightarrow> 'w \<times> (string + raw_fd)"
  uo_ioctl :: "raw_fd \<Rightarrow> 64 word \<Rightarrow> int \<Rightarrow> 'w \<Rightarrow> 'w \<times> (string + unit)"
  uo_ioctl_setup :: "raw_fd \<Rightarrow> 64 word \<Rightarrow> uinput_setup \<Rightarrow> 'w \<Rightarrow> 'w \<times> (string + unit)"
  uo_write_all :: "raw_fd \<Rightarrow> 8 word list \<Rightarrow> 'w \<Rightarrow> 'w \<times> (string + unit)"

definition uinput_error :: "string \<Rightarrow> diagnosable_error" where
  "uinput_error message =
     with_remediation (''grant this user write access to /dev/uinput or use output = '' @ [dquote] @ ''portal'' @ [dquote])
       (with_source ''uinput''
         (with_capability capability.SynthesizedInput (diagnosable_error_new MacroExecution message)))"

record uinput_session =
  us_file :: raw_fd
  us_path :: path
  us_active :: bool

definition session_ioctl ::
  "'w uinput_os \<Rightarrow> uinput_session \<Rightarrow> 64 word \<Rightarrow> int \<Rightarrow> ('w, unit) input_effect" where
  "session_ioctl U s request value =
     os_try (\<lambda>m. uinput_error (''uinput ioctl failed for '' @ quoted (us_path s) @ '': '' @ m))
       (uo_ioctl U (us_file s) request value)"

definition session_ioctl_setup ::
  "'w uinput_os \<Rightarrow> uinput_session \<Rightarrow> 64 word \<Rightarrow> uinput_setup \<Rightarrow> ('w, unit) input_effect" where
  "session_ioctl_setup U s request setup =
     os_try (\<lambda>m. uinput_error (''uinput setup ioctl failed for '' @ quoted (us_path s) @ '': '' @ m))
       (uo_ioctl_setup U (us_file s) request setup)"

definition supported_key_codes :: "int list" where
  "supported_key_codes = map int [1..<0x300]"

definition supported_relative_codes :: "int list" where
  "supported_relative_codes = [0, 1, 6, 8]"

definition session_configure :: "'w uinput_os \<Rightarrow> uinput_session \<Rightarrow> ('w, unit) input_effect" where
  "session_configure U s =
     sthen (session_ioctl U s ioctl_set_evbit 1)
    (sthen (session_ioctl U s ioctl_set_evbit 2)
    (sthen (seach (session_ioctl U s ioctl_set_keybit) supported_key_codes)
           (seach (session_ioctl U s ioctl_set_relbit) supported_relative_codes)))"

definition session_create :: "'w uinput_os \<Rightarrow> uinput_session \<Rightarrow> ('w, uinput_session) input_effect" where
  "session_create U s =
     sthen (session_ioctl_setup U s ioctl_dev_setup
              ((setup_named uinput_device_name)\<lparr>ut_bustype := 3, ut_vendor := 0x1209, ut_product := 1, ut_version := 1\<rparr>))
    (sthen (session_ioctl U s ioctl_dev_create 0)
           (sreturn (s\<lparr>us_active := True\<rparr>)))"

definition open_path :: "'w uinput_os \<Rightarrow> path \<Rightarrow> ('w, uinput_session) input_effect" where
  "open_path U p =
     sbind (os_try (\<lambda>m. uinput_error (''cannot open '' @ quoted p @ '': '' @ m)) (uo_open U p)) (\<lambda>fd.
       let s = \<lparr>us_file = fd, us_path = p, us_active = False\<rparr>
       in sthen (session_configure U s) (session_create U s))"

definition uinput_open :: "'w uinput_os \<Rightarrow> ('w, uinput_session) input_effect" where
  "uinput_open U = open_path U uinput_path"

text \<open>\<open>Drop\<close> destroys the device of a session that was created, whatever the outcome.\<close>

definition session_drop :: "'w uinput_os \<Rightarrow> uinput_session \<Rightarrow> 'w \<Rightarrow> 'w" where
  "session_drop U s w =
     (if us_active s then fst (uo_ioctl U (us_file s) ioctl_dev_destroy 0 w) else w)"

section \<open>Output\<close>

definition write_events ::
  "'w uinput_os \<Rightarrow> uinput_session \<Rightarrow> uinput_event list \<Rightarrow> ('w, unit) input_effect" where
  "write_events U s events =
     os_try (\<lambda>m. uinput_error (''cannot write uinput event to '' @ quoted (us_path s) @ '': '' @ m))
       (uo_write_all U (us_file s) (concat (map event_as_bytes events)))"

definition emit_key ::
  "'w uinput_os \<Rightarrow> uinput_session \<Rightarrow> 16 word \<Rightarrow> 32 word \<Rightarrow> ('w, unit) input_effect" where
  "emit_key U s code value = write_events U s (key_events code value)"

definition push_character_events ::
  "char \<Rightarrow> uinput_event list \<Rightarrow> uinput_event list result" where
  "push_character_events c events =
     (case character_to_key c of
        None \<Rightarrow> Err (uinput_error
          (''character '' @ quoted [c] @ '' is unsupported by the uinput output path''))
      | Some k \<Rightarrow> Ok (events
          @ (if ks_shift k then key_events key_leftshift 1 else [])
          @ key_events (ks_code k) 1 @ key_events (ks_code k) 0
          @ (if ks_shift k then key_events key_leftshift 0 else [])))"

fun push_text_events :: "string \<Rightarrow> uinput_event list \<Rightarrow> uinput_event list result" where
  "push_text_events [] events = Ok events"
| "push_text_events (c # cs) events =
     rbind (push_character_events c events) (push_text_events cs)"

definition unsupported_key :: "string \<Rightarrow> diagnosable_error" where
  "unsupported_key key = uinput_error (''key '' @ quoted key @ '' is unsupported by the uinput output path'')"

definition emit_named_key ::
  "'w uinput_os \<Rightarrow> uinput_session \<Rightarrow> string \<Rightarrow> ('w, unit) input_effect" where
  "emit_named_key U s key =
     (if List.member key (CHR ''+'')
      then case named_key_chord_events key of
          None \<Rightarrow> sfail (unsupported_key key)
        | Some events \<Rightarrow> write_events U s events
      else case named_key_code key of
          None \<Rightarrow> sfail (unsupported_key key)
        | Some code \<Rightarrow> sthen (emit_key U s code 1) (emit_key U s code 0))"

definition emit_named_key_state ::
  "'w uinput_os \<Rightarrow> uinput_session \<Rightarrow> string \<Rightarrow> 32 word \<Rightarrow> ('w, unit) input_effect" where
  "emit_named_key_state U s key value =
     (if List.member key (CHR ''+'')
      then sfail (uinput_error (''key chord '' @ quoted key
             @ '' is unsupported for key_down/key_up by the uinput output path''))
      else case named_key_code key of
          None \<Rightarrow> sfail (unsupported_key key)
        | Some code \<Rightarrow> emit_key U s code value)"

fun synthesize_action ::
  "'w uinput_os \<Rightarrow> uinput_session \<Rightarrow> macro_action \<Rightarrow> ('w, unit) input_effect" where
  "synthesize_action U s (TextInput text) =
     (case push_text_events text [] of
        Inl e \<Rightarrow> sfail e
      | Inr events \<Rightarrow> write_events U s events)"
| "synthesize_action U s (KeyPress key) = emit_named_key U s key"
| "synthesize_action U s (KeyDown key) = emit_named_key_state U s key 1"
| "synthesize_action U s (KeyUp key) = emit_named_key_state U s key 0"
| "synthesize_action U s (MouseClick button) =
     write_events U s (key_events (mouse_button_code button) 1 @ key_events (mouse_button_code button) 0)"
| "synthesize_action U s (Delay ms) = sreturn ()"

definition synthesize ::
  "'w uinput_os \<Rightarrow> uinput_session \<Rightarrow> synthesized_input_request \<Rightarrow> ('w, unit) input_effect" where
  "synthesize U s request = synthesize_action U s (si_action request)"

definition passthrough_raw ::
  "'w uinput_os \<Rightarrow> uinput_session \<Rightarrow> raw_input_event \<Rightarrow> ('w, unit) input_effect" where
  "passthrough_raw U s raw =
     (if \<not> should_passthrough raw then sreturn ()
      else write_events U s [input_event (re_event_type raw) (re_code raw) (re_value raw)])"

end
