(* ===== verification/Adapter.thy ===== *)
theory Adapter imports EvdevProvider Uinput begin

text \<open>
  \<open>RealWaylandAdapter\<close> of \<open>signal-auras-wayland/src/adapter.rs\<close> with the input session of
  \<open>portal.rs\<close> and the checks of \<open>input.rs\<close>: the owner of the evdev provider, of the uinput and
  portal outputs and of the bridge to KWin.

  The D-Bus calls of the bridge and of the portals and the renderer of overlays are fields of
  \<open>adapter_os\<close>; a bridge and a portal session are handles. An assignment drops the value that was
  there before.
\<close>

section \<open>The adapter\<close>

record portal_session =
  po_active :: bool
  po_backend :: "nat option"

text \<open>\<open>po_backend\<close> is the handle of a \<open>RemoteDesktop\<close> session, and \<open>None\<close> for \<open>Validating\<close>.\<close>

record real_adapter =
  ra_registrations :: "registration_id list"
  ra_environment :: "kde_environment option"
  ra_rejected_hotkeys :: "string set"
  ra_portal :: "portal_session option"
  ra_screen_cast :: "nat option"
  ra_uinput :: "uinput_session option"
  ra_bridge :: "nat option"
  ra_evdev :: "evdev_provider option"

record 'w adapter_state =
  as_world :: 'w
  as_adapter :: real_adapter

type_synonym ('w, 'a) adapter_effect = "('w adapter_state, diagnosable_error, 'a) effect"

record 'w adapter_os =
  ao_evdev :: "'w evdev_os"
  ao_uinput :: "'w uinput_os"
  ao_process_environment :: "'w \<Rightarrow> kde_environment"
  ao_open_remote_desktop :: "'w \<Rightarrow> 'w \<times> nat result"
  ao_notify_keysym :: "nat \<Rightarrow> nat \<Rightarrow> bool \<Rightarrow> 'w \<Rightarrow> 'w \<times> unit result"
  ao_notify_button :: "nat \<Rightarrow> nat \<Rightarrow> bool \<Rightarrow> 'w \<Rightarrow> 'w \<times> unit result"
  ao_close_remote_desktop :: "nat \<Rightarrow> 'w \<Rightarrow> 'w"
  ao_close_screen_cast :: "nat \<Rightarrow> 'w \<Rightarrow> 'w \<times> cleanup_report"
  ao_cleanup_overlays :: "'w \<Rightarrow> 'w \<times> cleanup_report result"
  ao_bridge_connect :: "'w \<Rightarrow> 'w \<times> nat result"
  ao_bridge_unload :: "nat \<Rightarrow> 'w \<Rightarrow> 'w \<times> cleanup_report result"
  ao_ensure_process_monitor :: "nat \<Rightarrow> 'w \<Rightarrow> 'w \<times> unit result"
  ao_register_shortcut :: "nat \<Rightarrow> hotkey_binding \<Rightarrow> 'w \<Rightarrow> 'w \<times> string result"
  ao_unregister_shortcut :: "nat \<Rightarrow> registration_id \<Rightarrow> 'w \<Rightarrow> 'w \<times> cleanup_report result"
  ao_active_process_context :: "nat \<Rightarrow> 'w \<Rightarrow> active_process_context"
  ao_next_shortcut_event :: "nat \<Rightarrow> 'w \<Rightarrow> 'w \<times> observed_shortcut_event option"
  ao_take_callback_dropped_count :: "nat \<Rightarrow> 'w \<Rightarrow> 'w \<times> u64"

definition adapter_new :: "kde_environment option \<Rightarrow> real_adapter" where
  "adapter_new environment =
     \<lparr>ra_registrations = [], ra_environment = environment, ra_rejected_hotkeys = {}, ra_portal = None,
      ra_screen_cast = None, ra_uinput = None, ra_bridge = None, ra_evdev = None\<rparr>"

definition reject_hotkey_for_test :: "string \<Rightarrow> real_adapter \<Rightarrow> real_adapter" where
  "reject_hotkey_for_test hotkey a = a\<lparr>ra_rejected_hotkeys := insert hotkey (ra_rejected_hotkeys a)\<rparr>"

section \<open>Effects\<close>

definition adapter_upd :: "(real_adapter \<Rightarrow> real_adapter) \<Rightarrow> ('w, unit) adapter_effect" where
  "adapter_upd f = supd (\<lambda>s. s\<lparr>as_adapter := f (as_adapter s)\<rparr>)"

definition the_adapter :: "('w, real_adapter) adapter_effect" where
  "the_adapter = sget as_adapter"

definition ad_call :: "('w \<Rightarrow> 'w \<times> 'a) \<Rightarrow> ('w, 'a) adapter_effect" where
  "ad_call f = srun (\<lambda>s. case f (as_world s) of (w, a) \<Rightarrow> (s\<lparr>as_world := w\<rparr>, a))"

definition ad_try :: "('w \<Rightarrow> 'w \<times> 'a result) \<Rightarrow> ('w, 'a) adapter_effect" where
  "ad_try f = stry (\<lambda>s. case f (as_world s) of (w, r) \<Rightarrow> (s\<lparr>as_world := w\<rparr>, r))"

definition ad_within :: "('w, 'a) input_effect \<Rightarrow> ('w, 'a) adapter_effect" where
  "ad_within m s = map_option (\<lambda>(w, r). (s\<lparr>as_world := w\<rparr>, r)) (m (as_world s))"

text \<open>An operation of the provider, when there is one.\<close>

definition on_evdev ::
  "('w, 'a) evdev_effect \<Rightarrow> ('w, 'a) adapter_effect \<Rightarrow> ('w, 'a) adapter_effect" where
  "on_evdev m otherwise s =
     (case ra_evdev (as_adapter s) of
        None \<Rightarrow> otherwise s
      | Some p \<Rightarrow> map_option (\<lambda>(es, r).
            (\<lparr>as_world = es_world es, as_adapter = (as_adapter s)\<lparr>ra_evdev := Some (es_provider es)\<rparr>\<rparr>, r))
          (m \<lparr>es_world = as_world s, es_provider = p\<rparr>))"

text \<open>Assignments to the provider and to the uinput session, with the drop of what they replace.\<close>

definition set_evdev :: "'w adapter_os \<Rightarrow> evdev_provider option \<Rightarrow> ('w, unit) adapter_effect" where
  "set_evdev H provider =
     sthen (on_evdev (provider_drop (ao_evdev H)) (sreturn ()))
       (adapter_upd (\<lambda>a. a\<lparr>ra_evdev := provider\<rparr>))"

definition set_uinput :: "'w adapter_os \<Rightarrow> uinput_session option \<Rightarrow> ('w, unit) adapter_effect" where
  "set_uinput H session =
     sthen (supd (\<lambda>s. case ra_uinput (as_adapter s) of
              None \<Rightarrow> s
            | Some u \<Rightarrow> s\<lparr>as_world := session_drop (ao_uinput H) u (as_world s)\<rparr>))
       (adapter_upd (\<lambda>a. a\<lparr>ra_uinput := session\<rparr>))"

section \<open>Input\<close>

definition selected_devices :: "'w adapter_os \<Rightarrow> input_provider_config \<Rightarrow> ('w, path list) adapter_effect" where
  "selected_devices H config =
     (if ip_all_devices config then ad_try (\<lambda>w. (w, discover_event_devices (ao_evdev H) w))
      else sreturn (ip_devices config))"

definition configure_output :: "'w adapter_os \<Rightarrow> input_provider_config \<Rightarrow> ('w, unit) adapter_effect" where
  "configure_output H config =
     (if ip_output config = Uinput
      then sbind (ad_within (uinput_open (ao_uinput H))) (\<lambda>session. set_uinput H (Some session))
      else set_uinput H None)"

definition configure_input_provider ::
  "'w adapter_os \<Rightarrow> input_provider_config option \<Rightarrow> motion_token option \<Rightarrow> ('w, unit) adapter_effect" where
  "configure_input_provider H config leader =
     (case config of
        None \<Rightarrow> sthen (set_evdev H None) (set_uinput H None)
      | Some config \<Rightarrow>
          if ip_interactive_devices config
          then sfail (diagnosable_error_new Registration
                 ''interactive evdev device selection must be resolved before adapter startup'')
          else sbind (selected_devices H config) (\<lambda>devices.
               sbind (ad_within (provider_open (ao_evdev H) devices (ip_mode config) leader (ip_all_devices config)))
                 (\<lambda>provider.
               sthen (set_evdev H (Some provider)) (configure_output H config))))"

definition next_motion_input_event ::
  "'w adapter_os \<Rightarrow> ('w, motion_input_event option) adapter_effect" where
  "next_motion_input_event H = on_evdev (next_motion_event (ao_evdev H)) (sreturn None)"

definition adapter_sleep :: "'w adapter_os \<Rightarrow> duration \<Rightarrow> ('w, unit) adapter_effect" where
  "adapter_sleep H timeout =
     swhen (timeout \<noteq> 0) (ad_call (\<lambda>w. (eo_sleep (ao_evdev H) timeout w, ())))"

definition wait_next_motion_input_event ::
  "'w adapter_os \<Rightarrow> duration \<Rightarrow> ('w, observed_motion_input_event option) adapter_effect" where
  "wait_next_motion_input_event H timeout =
     on_evdev (wait_next_observed_motion_event (ao_evdev H) timeout)
       (sthen (adapter_sleep H timeout) (sreturn None))"

definition wait_runtime_fd ::
  "'w adapter_os \<Rightarrow> duration \<Rightarrow> raw_fd list \<Rightarrow> ('w, raw_fd option) adapter_effect" where
  "wait_runtime_fd H timeout fds =
     (if fds = [] then sthen (adapter_sleep H timeout) (sreturn None)
      else sbind (ad_call (eo_poll (ao_evdev H) fds (min (as_millis timeout) i32_max))) (\<lambda>polled.
        case polled of
          Interrupted \<Rightarrow> sreturn None
        | PollError message \<Rightarrow> sfail (with_source ''runtime-event-loop''
            (diagnosable_error_new error_phase.Trigger (''cannot poll runtime fds: '' @ message)))
        | Polled n pollins \<Rightarrow>
            sreturn (map_option snd (List.find fst (zip pollins fds)))))"

definition wait_next_motion_input_or_runtime_fd ::
  "'w adapter_os \<Rightarrow> duration \<Rightarrow> raw_fd list \<Rightarrow> ('w, evdev_wait_outcome) adapter_effect" where
  "wait_next_motion_input_or_runtime_fd H timeout fds =
     on_evdev (wait_next_observed_motion_event_or_runtime_fd (ao_evdev H) timeout fds)
       (sbind (wait_runtime_fd H timeout fds) (\<lambda>fd.
          sreturn (case fd of None \<Rightarrow> MotionTimeout | Some fd \<Rightarrow> MotionRuntimeFd fd)))"

definition wait_next_input_or_runtime_fd ::
  "'w adapter_os \<Rightarrow> duration \<Rightarrow> raw_fd list \<Rightarrow> ('w, evdev_input_wait_outcome) adapter_effect" where
  "wait_next_input_or_runtime_fd H timeout fds =
     on_evdev (wait_next_observed_input_event_or_runtime_fd (ao_evdev H) timeout fds)
       (sbind (wait_runtime_fd H timeout fds) (\<lambda>fd.
          sreturn (case fd of None \<Rightarrow> evdev_input_wait_outcome.Timeout | Some fd \<Rightarrow> RuntimeFd fd)))"

definition next_input_event :: "'w adapter_os \<Rightarrow> ('w, observed_input_event option) adapter_effect" where
  "next_input_event H = on_evdev (next_observed_input_event (ao_evdev H)) (sreturn None)"

definition arm_input_grab :: "'w adapter_os \<Rightarrow> ('w, unit) adapter_effect" where
  "arm_input_grab H =
     sbind the_adapter (\<lambda>a.
       if ra_uinput a = None then sreturn ()
       else on_evdev (arm_grab (ao_evdev H)) (sreturn ()))"

definition release_input_grab :: "'w adapter_os \<Rightarrow> ('w, unit) adapter_effect" where
  "release_input_grab H = on_evdev (release_grab (ao_evdev H)) (sreturn ())"

definition passthrough_raw_input :: "'w adapter_os \<Rightarrow> raw_input_event \<Rightarrow> ('w, unit) adapter_effect" where
  "passthrough_raw_input H raw =
     sbind the_adapter (\<lambda>a. case ra_uinput a of
         None \<Rightarrow> sreturn ()
       | Some session \<Rightarrow> ad_within (passthrough_raw (ao_uinput H) session raw))"

definition input_provider_summary :: "real_adapter \<Rightarrow> string option" where
  "input_provider_summary a =
     map_option (\<lambda>p. ''backend=evdev devices='' @ show_nat (length (ep_devices p))
         @ '' active_devices='' @ show_nat (active_device_count p)
         @ '' grabbed='' @ (if ep_grabbed p then ''true'' else ''false'')
         @ '' output='' @ (if ra_uinput a \<noteq> None then ''uinput'' else ''portal''))
       (ra_evdev a)"

section \<open>Capabilities\<close>

definition probe_capabilities ::
  "kde_environment \<Rightarrow> capability_set \<Rightarrow> real_adapter \<Rightarrow> capability_report" where
  "probe_capabilities process_environment required a =
     (let report = kde_capability_report required
            (case ra_environment a of Some e \<Rightarrow> e | None \<Rightarrow> process_environment);
          with_output = (\<lambda>report.
            if ra_uinput a \<noteq> None \<and> SynthesizedInput \<in> set required
            then report_with_status report (status_available SynthesizedInput ''uinput'') else report)
      in case ra_evdev a of
           Some p \<Rightarrow>
             if CompositePointerObservation \<in> set required
             then let report = report_with_status report (status_available CompositePointerObservation ''evdev'');
                      report = (if ep_mode p = Grab \<and> ra_uinput a \<noteq> None
                                   \<and> CompositePointerConsumption \<in> set required
                                then report_with_status report
                                       (status_available CompositePointerConsumption ''evdev-armed-grab'')
                                else report)
                  in with_output report
             else with_output report
         | None \<Rightarrow> with_output report)"

definition adapter_gate :: "'w adapter_os \<Rightarrow> capability_set \<Rightarrow> ('w, unit) adapter_effect" where
  "adapter_gate H required =
     sbind (sget (\<lambda>s. probe_capabilities (ao_process_environment H (as_world s)) required (as_adapter s)))
       (\<lambda>report. case first_blocking_error report required of
          Some e \<Rightarrow> sfail e
        | None \<Rightarrow> sreturn ())"

section \<open>The bridge to KWin\<close>

definition ensure_bridge :: "'w adapter_os \<Rightarrow> ('w, nat) adapter_effect" where
  "ensure_bridge H =
     sbind the_adapter (\<lambda>a. case ra_bridge a of
         Some b \<Rightarrow> sreturn b
       | None \<Rightarrow> sbind (ad_try (ao_bridge_connect H)) (\<lambda>b.
           sthen (adapter_upd (\<lambda>a. a\<lparr>ra_bridge := Some b\<rparr>)) (sreturn b)))"

definition ensure_active_process_provider :: "'w adapter_os \<Rightarrow> ('w, unit) adapter_effect" where
  "ensure_active_process_provider H =
     sbind the_adapter (\<lambda>a.
       if ra_environment a \<noteq> None then sreturn ()
       else sbind (ensure_bridge H) (\<lambda>b. ad_try (ao_ensure_process_monitor H b)))"

definition next_shortcut_event :: "'w adapter_os \<Rightarrow> ('w, observed_shortcut_event option) adapter_effect" where
  "next_shortcut_event H =
     sbind the_adapter (\<lambda>a. case ra_bridge a of
         None \<Rightarrow> sreturn None
       | Some b \<Rightarrow> ad_call (ao_next_shortcut_event H b))"

definition take_callback_dropped_count :: "'w adapter_os \<Rightarrow> ('w, u64) adapter_effect" where
  "take_callback_dropped_count H =
     sbind the_adapter (\<lambda>a. case ra_bridge a of
         None \<Rightarrow> sreturn 0
       | Some b \<Rightarrow> ad_call (ao_take_callback_dropped_count H b))"

definition adapter_process_context :: "'w adapter_os \<Rightarrow> ('w, active_process_context) adapter_effect" where
  "adapter_process_context H =
     sbind the_adapter (\<lambda>a. case ra_bridge a of
         Some b \<Rightarrow> sget (\<lambda>s. ao_active_process_context H b (as_world s))
       | None \<Rightarrow> sbind (ad_call (eo_now (ao_evdev H))) (\<lambda>now.
           sreturn (context_unavailable ''active process metadata provider is unsupported'' now)))"

definition reserved_shortcut :: "string \<Rightarrow> diagnosable_error" where
  "reserved_shortcut hotkey =
     with_remediation ''choose a different hotkey''
       (with_capability capability.GlobalShortcut
         (diagnosable_error_new Registration
           (''hotkey '' @ quoted hotkey @ '' is reserved or already owned by the session'')))"

definition adapter_register :: "'w adapter_os \<Rightarrow> hotkey_binding \<Rightarrow> ('w, registration_id) adapter_effect" where
  "adapter_register H binding =
     sthen (adapter_gate H (for_bindings [binding]))
    (sbind the_adapter (\<lambda>a.
       case hb_trigger binding of
         Composite _ \<Rightarrow> sfail (with_capability capability.CompositePointerObservation
             (diagnosable_error_new Registration ''composite pointer registration provider is unsupported''))
       | Keyboard hotkey \<Rightarrow>
           if hotkey \<in> ra_rejected_hotkeys a then sfail (reserved_shortcut hotkey)
           else sbind (if ra_environment a \<noteq> None then sreturn (''kde-'' @ hotkey)
                       else sbind (ensure_bridge H) (\<lambda>b. ad_try (ao_register_shortcut H b binding))) (\<lambda>rid.
             sthen (adapter_upd (\<lambda>a. a\<lparr>ra_registrations := ra_registrations a @ [rid]\<rparr>)) (sreturn rid))))"

definition register_internal_hotkey :: "'w adapter_os \<Rightarrow> hotkey_id \<Rightarrow> ('w, registration_id) adapter_effect" where
  "register_internal_hotkey H hotkey =
     adapter_register H \<lparr>hb_trigger = Keyboard hotkey, hb_scope = ExplicitGlobal, hb_mode = Consume,
       hb_macro = \<lparr>md_actions = [Delay 1]\<rparr>, hb_registration_state = registration_state.Pending\<rparr>"

definition unregister_internal_hotkey ::
  "'w adapter_os \<Rightarrow> registration_id \<Rightarrow> ('w, cleanup_report) adapter_effect" where
  "unregister_internal_hotkey H rid =
     sthen (adapter_upd (\<lambda>a. a\<lparr>ra_registrations := filter (\<lambda>r. r \<noteq> rid) (ra_registrations a)\<rparr>))
    (sbind the_adapter (\<lambda>a. case ra_bridge a of
         Some b \<Rightarrow> ad_try (ao_unregister_shortcut H b rid)
       | None \<Rightarrow> sreturn (cleanup_all_succeeded 1)))"

definition adapter_cleanup_report :: "real_adapter \<Rightarrow> cleanup_report" where
  "adapter_cleanup_report a = cleanup_all_succeeded (length (ra_registrations a))"

definition unregister_all :: "'w adapter_os \<Rightarrow> ('w, unit) adapter_effect" where
  "unregister_all H =
     sbind (ad_try (ao_cleanup_overlays H)) (\<lambda>_.
     sbind the_adapter (\<lambda>a.
     sthen (case ra_bridge a of
              None \<Rightarrow> sreturn ()
            | Some b \<Rightarrow> sbind (ad_try (ao_bridge_unload H b)) (\<lambda>_. sreturn ()))
       (adapter_upd (\<lambda>a. a\<lparr>ra_bridge := None, ra_registrations := []\<rparr>))))"

section \<open>Output\<close>

definition validate_text_for_key_translation :: "string \<Rightarrow> unit result" where
  "validate_text_for_key_translation t =
     (if list_all (\<lambda>c. is_ascii c \<and> \<not> is_control c) t then Ok ()
      else Err (diagnosable_error_new MacroExecution
        ''text contains characters unsupported by the KDE portal key translation path''))"

fun validate_action_for_portal :: "macro_action \<Rightarrow> unit result" where
  "validate_action_for_portal (TextInput t) = validate_text_for_key_translation t"
| "validate_action_for_portal (KeyPress key) =
     (if trim key = [] then Err (diagnosable_error_new MacroExecution ''key input cannot be empty'') else Ok ())"
| "validate_action_for_portal (KeyDown key) =
     (if trim key = [] then Err (diagnosable_error_new MacroExecution ''key input cannot be empty'') else Ok ())"
| "validate_action_for_portal (KeyUp key) =
     (if trim key = [] then Err (diagnosable_error_new MacroExecution ''key input cannot be empty'') else Ok ())"
| "validate_action_for_portal (MouseClick _) = Ok ()"
| "validate_action_for_portal (Delay _) = Ok ()"

definition text_char_to_keysym :: "char \<Rightarrow> nat" where
  "text_char_to_keysym c = char_code c"

definition key_name_to_keysym :: "string \<Rightarrow> nat option" where
  "key_name_to_keysym key =
     (let k = map to_ascii_lowercase (trim key)
      in if k = ''enter'' \<or> k = ''return'' then Some 0xff0d
         else if k = ''tab'' then Some 0xff09
         else if k = ''escape'' \<or> k = ''esc'' then Some 0xff1b
         else if k = ''backspace'' then Some 0xff08
         else if k = ''delete'' \<or> k = ''del'' then Some 0xffff
         else if k = ''space'' then Some 0x20
         else if length k = 1 then Some (text_char_to_keysym (hd k))
         else None)"

definition emit_keysym_state :: "'w adapter_os \<Rightarrow> nat \<Rightarrow> nat \<Rightarrow> bool \<Rightarrow> ('w, unit) adapter_effect" where
  "emit_keysym_state H session keysym pressed = ad_try (ao_notify_keysym H session keysym pressed)"

definition emit_keysym :: "'w adapter_os \<Rightarrow> nat \<Rightarrow> nat \<Rightarrow> ('w, unit) adapter_effect" where
  "emit_keysym H session keysym =
     sthen (emit_keysym_state H session keysym True) (emit_keysym_state H session keysym False)"

definition portal_key :: "string \<Rightarrow> (nat \<Rightarrow> ('w, unit) adapter_effect) \<Rightarrow> ('w, unit) adapter_effect" where
  "portal_key key emit =
     (case key_name_to_keysym key of
        None \<Rightarrow> sfail (with_remediation ''use a supported named key or ASCII text input''
          (with_source ''xdg-desktop-portal RemoteDesktop''
          (with_capability capability.SynthesizedInput
            (diagnosable_error_new MacroExecution
              (''key '' @ quoted key @ '' is unsupported by the KDE portal key translation path'')))))
      | Some keysym \<Rightarrow> emit keysym)"

fun emit_request :: "'w adapter_os \<Rightarrow> nat \<Rightarrow> macro_action \<Rightarrow> ('w, unit) adapter_effect" where
  "emit_request H session (TextInput t) = seach (\<lambda>c. emit_keysym H session (text_char_to_keysym c)) t"
| "emit_request H session (KeyPress key) = portal_key key (emit_keysym H session)"
| "emit_request H session (KeyDown key) = portal_key key (\<lambda>k. emit_keysym_state H session k True)"
| "emit_request H session (KeyUp key) = portal_key key (\<lambda>k. emit_keysym_state H session k False)"
| "emit_request H session (MouseClick button) =
     sthen (ad_try (ao_notify_button H session (unat (mouse_button_code button)) True))
       (ad_try (ao_notify_button H session (unat (mouse_button_code button)) False))"
| "emit_request H session (Delay ms) = sreturn ()"

definition portal_open :: "'w adapter_os \<Rightarrow> ('w, portal_session) adapter_effect" where
  "portal_open H =
     sbind the_adapter (\<lambda>a.
       if ra_environment a \<noteq> None then sreturn \<lparr>po_active = True, po_backend = None\<rparr>
       else sbind (ad_try (ao_open_remote_desktop H)) (\<lambda>session.
         sreturn \<lparr>po_active = True, po_backend = Some session\<rparr>))"

definition portal_synthesize ::
  "'w adapter_os \<Rightarrow> portal_session \<Rightarrow> synthesized_input_request \<Rightarrow> ('w, input_emission) adapter_effect" where
  "portal_synthesize H portal request =
     (if \<not> po_active portal then sreturn input_emission.Cancelled
      else case validate_action_for_portal (si_action request) of
          Inl e \<Rightarrow> sfail e
        | Inr _ \<Rightarrow> (case po_backend portal of
              None \<Rightarrow> sreturn input_emission.Emitted
            | Some session \<Rightarrow> sthen (emit_request H session (si_action request))
                (sreturn input_emission.Emitted)))"

definition portal_close :: "'w adapter_os \<Rightarrow> portal_session \<Rightarrow> 'w \<Rightarrow> 'w" where
  "portal_close H portal w =
     (if po_active portal
      then case po_backend portal of None \<Rightarrow> w | Some session \<Rightarrow> ao_close_remote_desktop H session w
      else w)"

definition ensure_portal :: "'w adapter_os \<Rightarrow> ('w, portal_session) adapter_effect" where
  "ensure_portal H =
     sbind the_adapter (\<lambda>a. case ra_portal a of
         Some portal \<Rightarrow> sreturn portal
       | None \<Rightarrow> sbind (portal_open H) (\<lambda>portal.
           sthen (adapter_upd (\<lambda>a. a\<lparr>ra_portal := Some portal\<rparr>)) (sreturn portal)))"

definition execute_input_request ::
  "'w adapter_os \<Rightarrow> synthesized_input_request \<Rightarrow> ('w, input_emission) adapter_effect" where
  "execute_input_request H request =
     sthen (adapter_gate H (capability_set_new [SynthesizedInput]))
    (sbind the_adapter (\<lambda>a. case ra_uinput a of
         Some session \<Rightarrow> sthen (ad_within (synthesize (ao_uinput H) session request))
           (sreturn input_emission.Emitted)
       | None \<Rightarrow> sbind (ensure_portal H) (\<lambda>portal. portal_synthesize H portal request)))"

section \<open>Cleaning up\<close>

definition close_screen_cast_session :: "'w adapter_os \<Rightarrow> ('w, cleanup_report) adapter_effect" where
  "close_screen_cast_session H =
     sbind the_adapter (\<lambda>a. case ra_screen_cast a of
         None \<Rightarrow> sreturn cleanup_empty
       | Some session \<Rightarrow> sthen (adapter_upd (\<lambda>a. a\<lparr>ra_screen_cast := None\<rparr>))
           (ad_call (ao_close_screen_cast H session)))"

definition cancel_pending :: "'w adapter_os \<Rightarrow> ('w, unit) adapter_effect" where
  "cancel_pending H =
     sbind (ad_try (ao_cleanup_overlays H)) (\<lambda>_.
     sthen (release_input_grab H)
    (sthen (set_evdev H None)
    (sbind the_adapter (\<lambda>a.
     sthen (case ra_portal a of
              None \<Rightarrow> sreturn ()
            | Some portal \<Rightarrow> ad_call (\<lambda>w. (portal_close H portal w, ())))
    (sthen (case ra_screen_cast a of
              None \<Rightarrow> sreturn ()
            | Some session \<Rightarrow> sbind (ad_call (ao_close_screen_cast H session)) (\<lambda>_. sreturn ()))
    (sthen (adapter_upd (\<lambda>a. a\<lparr>ra_portal := None, ra_screen_cast := None\<rparr>))
           (set_uinput H None)))))))"

end
