(* ===== verification/EvdevLaws.thy ===== *)
theory EvdevLaws imports EvdevProvider begin

text \<open>
  What every operation of the evdev provider keeps of its devices, and the order in which they are
  read.
\<close>

section \<open>The invariant of a provider\<close>

definition provider_ok :: "bool \<Rightarrow> evdev_provider \<Rightarrow> bool" where
  "provider_ok g p \<longleftrightarrow>
     distinct (map dv_path (ep_devices p))
     \<and> (\<forall>d\<in>set (ep_devices p). dv_grabbed d \<longrightarrow> dv_pointer_capable d \<and> g)
     \<and> (ep_grabbed p \<longrightarrow> g)
     \<and> (g \<longrightarrow> ep_mode p = Grab)
     \<and> ep_next_device_index p < length (ep_devices p)
     \<and> (\<not> ep_all_devices p \<longrightarrow> dv_path ` set (ep_devices p) \<subseteq> set (ep_configured_paths p))"

text \<open>\<open>g\<close> says that devices may be grabbed. The mode, the kind of selection and the configured paths never change.\<close>

definition provider_inv ::
  "bool \<Rightarrow> input_provider_mode \<Rightarrow> bool \<Rightarrow> path list \<Rightarrow> 'w evdev_state \<Rightarrow> bool" where
  "provider_inv g mode all configured s \<longleftrightarrow>
     provider_ok g (es_provider s) \<and> ep_mode (es_provider s) = mode
     \<and> ep_all_devices (es_provider s) = all \<and> ep_configured_paths (es_provider s) = configured"

lemma map_update_same: "f x = f (xs ! i) \<Longrightarrow> map f (xs[i := x]) = map f xs"
  by (induction xs arbitrary: i) (auto split: nat.splits)

text \<open>A device that is replaced by one of the same path, which is grabbed only where it may be.\<close>

lemma set_device_ok:
  assumes ok: "provider_ok g p" and path: "dv_path d = dv_path (ep_devices p ! i)"
    and grab: "dv_grabbed d \<Longrightarrow> i < length (ep_devices p) \<Longrightarrow> dv_pointer_capable d \<and> g"
  shows "provider_ok g (set_device i d p)"
proof (cases "i < length (ep_devices p)")
  case True
  have paths: "map dv_path ((ep_devices p)[i := d]) = map dv_path (ep_devices p)"
    by (rule map_update_same) (rule path)
  then have "dv_path ` set ((ep_devices p)[i := d]) = dv_path ` set (ep_devices p)"
    by (metis list.set_map)
  moreover have "\<forall>e\<in>set ((ep_devices p)[i := d]). dv_grabbed e \<longrightarrow> dv_pointer_capable e \<and> g"
  proof
    fix e assume "e \<in> set ((ep_devices p)[i := d])"
    then have "e = d \<or> e \<in> set (ep_devices p)" using set_update_subset_insert by fastforce
    then show "dv_grabbed e \<longrightarrow> dv_pointer_capable e \<and> g"
      using ok grab [OF _ True] by (auto simp: provider_ok_def)
  qed
  ultimately show ?thesis using ok by (simp add: provider_ok_def set_device_def paths)
next
  case False
  with ok show ?thesis by (simp add: provider_ok_def set_device_def list_update_beyond)
qed

lemma keeps_es_call [keeps_intros]:
  "keeps (provider_inv g m a c) (es_call f)" "keeps (provider_inv g m a c) (discovered_devices H)"
  by (auto simp: keeps_def es_call_def srun_def discovered_devices_def stry_def provider_inv_def
      split: prod.splits)

lemma keeps_provider_upd:
  assumes "\<And>p. provider_ok g p \<Longrightarrow> ep_mode p = m \<Longrightarrow> ep_all_devices p = a
      \<Longrightarrow> ep_configured_paths p = c \<Longrightarrow> provider_ok g (f p) \<and> ep_mode (f p) = m
        \<and> ep_all_devices (f p) = a \<and> ep_configured_paths (f p) = c"
  shows "keeps (provider_inv g m a c) (provider_upd f)"
  unfolding provider_upd_def using assms
  by (intro keeps_supd) (auto simp: provider_inv_def on_provider_def)

lemma turn_ok: "provider_ok g p \<Longrightarrow> provider_ok g (turn_after i p)"
proof -
  assume ok: "provider_ok g p"
  then have "0 < length (ep_devices p)" by (auto simp: provider_ok_def)
  then have "(i + 1) mod length (ep_devices p) < length (ep_devices p)" by (rule mod_less_divisor)
  with ok show ?thesis by (simp add: provider_ok_def turn_after_def del: Suc_eq_plus1 add_Suc_right)
qed

lemma keeps_turn [keeps_intros]:
  "keeps (provider_inv g m a c) (provider_upd (turn_after i))"
  "keeps (provider_inv g m a c) (provider_upd (\<lambda>p. turn_after (ep_next_device_index p) p))"
  by (intro keeps_provider_upd conjI turn_ok; simp add: turn_after_def)+

lemma keeps_last_rescan [keeps_intros]:
  "keeps (provider_inv g m a c) (provider_upd (\<lambda>p. p\<lparr>ep_last_rescan := now\<rparr>))"
  by (intro keeps_provider_upd) (auto simp: provider_ok_def)

text \<open>An operation on a device keeps its path, and grabs it only where it may be grabbed.\<close>

definition device_kept ::
  "bool \<Rightarrow> evdev_device \<Rightarrow> evdev_device \<Rightarrow> bool" where
  "device_kept g d d' \<longleftrightarrow> dv_path d' = dv_path d \<and> dv_file d' = dv_file d
     \<and> dv_pointer_capable d' = dv_pointer_capable d
     \<and> (dv_grabbed d' \<longrightarrow> dv_grabbed d \<or> dv_pointer_capable d \<and> g)"

lemma set_device_inv:
  assumes "provider_inv g m a c s"
    and "device_kept g (ep_devices (es_provider s) ! i) d"
  shows "provider_inv g m a c (on_provider (set_device i d) (s\<lparr>es_world := w\<rparr>))"
proof -
  let ?p = "es_provider s"
  from assms have "provider_ok g (set_device i d ?p)"
    by (intro set_device_ok)
       (auto simp: provider_inv_def device_kept_def provider_ok_def dest: nth_mem)
  with assms show ?thesis by (simp add: provider_inv_def on_provider_def set_device_def)
qed

lemma read_kept: "device_next_raw_event H d w = (w', d', r) \<Longrightarrow> device_kept g d d'"
  by (auto simp: device_next_raw_event_def device_kept_def split: if_splits prod.splits read_outcome.splits)

lemma release_kept: "device_set_grabbed H False d w = (w', d', r) \<Longrightarrow> device_kept g d d'"
  by (auto simp: device_set_grabbed_def device_kept_def split: if_splits prod.splits sum.splits)

lemma grab_kept:
  "device_set_grabbed H True d w = (w', d', r) \<Longrightarrow> dv_pointer_capable d \<Longrightarrow> device_kept True d d'"
  by (auto simp: device_set_grabbed_def device_kept_def split: if_splits prod.splits sum.splits)

lemma keeps_read [keeps_intros]: "keeps (provider_inv g m a c) (on_device i (device_next_raw_event H))"
  by (auto simp: keeps_def on_device_def stry_def split: prod.splits intro: set_device_inv read_kept)

lemma keeps_release_device [keeps_intros]: "keeps (provider_inv g m a c) (release_device H i)"
  by (auto simp: keeps_def release_device_def supd_def split: prod.splits
      intro: set_device_inv release_kept)

lemma keeps_grab_device [keeps_intros]:
  fixes H :: "'w evdev_os"
  shows "keeps (provider_inv True Grab a c) (grab_device H i grabbed)"
proof -
  have "provider_inv True Grab a c s'" if "provider_inv True Grab a c s"
    and "grab_device H i grabbed s = Some (s', r)" for s s' :: "'w evdev_state" and r
    using that
    by (auto simp: grab_device_def sbind_def sget_def sreturn_def on_device_def stry_def
        split: if_splits prod.splits sum.splits intro: set_device_inv grab_kept)
  then show ?thesis by (auto simp: keeps_def)
qed

lemma keeps_pair: "(\<And>x y. keeps I (f x y)) \<Longrightarrow> keeps I (case p of (x, y) \<Rightarrow> f x y)"
  by (cases p) simp

lemma keeps_observed [keeps_intros]:
  "keeps (provider_inv g m a c) (observed_input H i raw)"
  "keeps (provider_inv g m a c) (observed_motion H i raw ev)"
  unfolding observed_input_def observed_motion_def
  by (intro keeps_intros keeps_pair)+

lemma keeps_scan [keeps_intros]:
  "keeps (provider_inv g m a c) (scan_input H offsets)"
  "keeps (provider_inv g m a c) (scan_motion H offsets)"
  by (induction offsets) (auto intro!: keeps_intros)

lemma keeps_next [keeps_intros]:
  "keeps (provider_inv g m a c) (next_observed_input_event H)"
  "keeps (provider_inv g m a c) (next_observed_motion_event H)"
  unfolding next_observed_input_event_def next_observed_motion_event_def by (intro keeps_intros)+

lemma keeps_grabbed_flag:
  "b \<longrightarrow> g \<Longrightarrow> keeps (provider_inv g m a c) (provider_upd (\<lambda>p. p\<lparr>ep_grabbed := b\<rparr>))"
  by (intro keeps_provider_upd) (auto simp: provider_ok_def)

lemma keeps_grab_pointer_devices: "keeps (provider_inv True Grab a c) (grab_pointer_devices H)"
  unfolding grab_pointer_devices_def by (intro keeps_intros keeps_grabbed_flag) simp

lemma keeps_arm_grab: "keeps (provider_inv (m = Grab) m a c) (arm_grab H)"
proof (cases "m = Grab")
  case True
  have "keeps (provider_inv True Grab a c) (arm_grab H)"
    unfolding arm_grab_def by (intro keeps_intros keeps_grab_pointer_devices)
  with True show ?thesis by simp
next
  case False
  then show ?thesis by (auto simp: keeps_def arm_grab_def provider_inv_def sreturn_def)
qed

text \<open>A provider that may not have grabbed a device may have grabbed one.\<close>

lemma provider_inv_armed: "provider_inv g m a c s \<Longrightarrow> provider_inv (m = Grab) m a c s"
  by (auto simp: provider_inv_def provider_ok_def)

lemma keeps_release_grab [keeps_intros]: "keeps (provider_inv g m a c) (release_grab H)"
  unfolding release_grab_def by (intro keeps_intros keeps_grabbed_flag) simp

section \<open>Devices that come and go\<close>

lemma returns_cond: "returns m P \<Longrightarrow> returns k P \<Longrightarrow> returns (if b then m else k) P"
  by simp

lemma opened_device:
  assumes "device_open H path w = Some (w', Inr d)"
  shows "dv_path d = path \<and> \<not> dv_grabbed d \<and> dv_active d"
proof -
  have "returns (device_open H path) (\<lambda>d. dv_path d = path \<and> \<not> dv_grabbed d \<and> dv_active d)"
    unfolding device_open_def by (intro returns_intros returns_cond) simp_all
  then show ?thesis using assms by (rule returnsD)
qed

lemma grab_reopened_keeps:
  "grab_reopened H p d w = (w', d', Inr u) \<Longrightarrow> \<not> dv_grabbed d
   \<Longrightarrow> dv_path d' = dv_path d \<and> (dv_grabbed d' \<longrightarrow> dv_pointer_capable d' \<and> ep_grabbed p)"
  by (auto simp: grab_reopened_def device_set_grabbed_def split: if_splits prod.splits sum.splits)

text \<open>A device is put where no active device has its path.\<close>

lemma put_device_ok:
  assumes ok: "provider_ok g p" and idle: "\<not> list_ex (\<lambda>e. dv_path e = dv_path d \<and> dv_active e) (ep_devices p)"
    and known: "\<not> ep_all_devices p \<Longrightarrow> dv_path d \<in> set (ep_configured_paths p)"
    and grab: "dv_grabbed d \<longrightarrow> dv_pointer_capable d \<and> g"
  shows "provider_ok g (put_device d p)"
proof (cases "position (\<lambda>e. dv_path e = dv_path d \<and> \<not> dv_active e) (ep_devices p)")
  case None
  then have "dv_path d \<notin> dv_path ` set (ep_devices p)"
    using idle by (auto simp: position_None_iff list_ex_iff)
  with None ok known grab show ?thesis by (auto simp: put_device_def provider_ok_def)
next
  case (Some i)
  then have "dv_path (ep_devices p ! i) = dv_path d" by (auto simp: position_Some)
  with Some ok grab show ?thesis by (simp add: put_device_def set_device_ok)
qed

lemma put_device_fixed [simp]:
  "ep_mode (put_device d p) = ep_mode p" "ep_all_devices (put_device d p) = ep_all_devices p"
  "ep_configured_paths (put_device d p) = ep_configured_paths p"
  by (simp_all add: put_device_def set_device_def split: option.split)

lemma skipping_fixed [simp]:
  "provider_ok g (unskip path p) = provider_ok g p" "provider_ok g (skip_path path p) = provider_ok g p"
  "provider_ok g (retain_skipped ps p) = provider_ok g p"
  "ep_mode (unskip path p) = ep_mode p" "ep_mode (skip_path path p) = ep_mode p"
  "ep_mode (retain_skipped ps p) = ep_mode p"
  "ep_all_devices (unskip path p) = ep_all_devices p" "ep_all_devices (skip_path path p) = ep_all_devices p"
  "ep_all_devices (retain_skipped ps p) = ep_all_devices p"
  "ep_configured_paths (unskip path p) = ep_configured_paths p"
  "ep_configured_paths (skip_path path p) = ep_configured_paths p"
  "ep_configured_paths (retain_skipped ps p) = ep_configured_paths p"
  "ep_devices (unskip path p) = ep_devices p" "ep_devices (skip_path path p) = ep_devices p"
  "ep_devices (retain_skipped ps p) = ep_devices p"
  by (simp_all add: unskip_def skip_path_def retain_skipped_def provider_ok_def)

lemma keeps_add_or_reopen:
  assumes "\<not> a \<Longrightarrow> path \<in> set c"
  shows "keeps (provider_inv g m a c) (add_or_reopen_device H path)"
proof (rule keepsI)
  fix s s' r
  assume inv: "provider_inv g m a c s" and run: "add_or_reopen_device H path s = Some (s', r)"
  have put: "provider_inv g m a c (on_provider (put_device d' \<circ> unskip path) (s\<lparr>es_world := w'\<rparr>))"
    if "device_open H path (es_world s) = Some (w, Inr d)"
      and "grab_reopened H (es_provider s) d w = (w', d', Inr u)"
      and idle: "\<not> list_ex (\<lambda>e. dv_path e = path \<and> dv_active e) (ep_devices (es_provider s))"
    for w d w' d' u
  proof -
    from that have d': "dv_path d' = path \<and> (dv_grabbed d' \<longrightarrow> dv_pointer_capable d' \<and> ep_grabbed (es_provider s))"
      using opened_device grab_reopened_keeps by metis
    moreover have "ep_grabbed (es_provider s) \<Longrightarrow> g" using inv by (simp add: provider_inv_def provider_ok_def)
    ultimately have "provider_ok g (put_device d' (unskip path (es_provider s)))"
      using idle inv assms by (intro put_device_ok) (auto simp: provider_inv_def)
    with inv show ?thesis by (simp add: provider_inv_def on_provider_def)
  qed
  from run inv put show "provider_inv g m a c s'"
    by (auto simp: add_or_reopen_device_def Let_def provider_inv_def on_provider_def
        split: if_splits option.splits prod.splits sum.splits)
qed

lemma keeps_seach_in: "(\<And>x. x \<in> set xs \<Longrightarrow> keeps I (f x)) \<Longrightarrow> keeps I (seach f xs)"
  by (induction xs) (auto intro: keeps_intros)

lemma keeps_rescan_known:
  assumes "\<not> a \<Longrightarrow> set paths \<subseteq> set c"
  shows "keeps (provider_inv g m a c) (rescan_known_devices H paths)"
  unfolding rescan_known_devices_def Let_def using assms
  by (intro keeps_intros keeps_seach_in keeps_add_or_reopen keeps_provider_upd)
     (auto simp: path_set_list_def)

lemma keeps_read_of:
  assumes "\<And>s. I s \<Longrightarrow> keeps I (f (g s))"
  shows "keeps I (sbind (sget g) f)"
proof (rule keepsI)
  fix s s' r
  assume I: "I s" and "sbind (sget g) f s = Some (s', r)"
  then have "f (g s) s = Some (s', r)" by (simp only: sbind_sget)
  with assms [OF I] I show "I s'" by (rule keepsD)
qed

lemma keeps_rescan_devices [keeps_intros]: "keeps (provider_inv g m a c) (rescan_devices H paths)"
  unfolding rescan_devices_def
proof (rule keeps_read_of)
  fix s :: "'a evdev_state" assume "provider_inv g m a c s"
  then have "ep_all_devices (es_provider s) = a" by (simp add: provider_inv_def)
  then show "keeps (provider_inv g m a c)
      (swhen (ep_all_devices (es_provider s)) (rescan_known_devices H paths))"
    by (cases a) (auto simp: swhen_def intro: keeps_sreturn keeps_rescan_known)
qed

lemma keeps_rescan_configured [keeps_intros]:
  "keeps (provider_inv g m a c) (rescan_configured_devices H)"
  unfolding rescan_configured_devices_def
proof (rule keeps_read_of)
  fix s :: "'a evdev_state" assume "provider_inv g m a c s"
  then have "ep_all_devices (es_provider s) = a" "ep_configured_paths (es_provider s) = c"
    by (simp_all add: provider_inv_def)
  then show "keeps (provider_inv g m a c) (swhen (\<not> ep_all_devices (es_provider s))
      (rescan_known_devices H (ep_configured_paths (es_provider s))))"
    by (auto intro: keeps_swhen keeps_rescan_known)
qed

lemma give_up_ok: "provider_ok g p \<Longrightarrow> provider_ok g (give_up_removed ps p)"
proof -
  assume ok: "provider_ok g p"
  have paths: "map dv_path (ep_devices (give_up_removed ps p)) = map dv_path (ep_devices p)"
    by (simp add: give_up_removed_def)
  then have "dv_path ` set (ep_devices (give_up_removed ps p)) = dv_path ` set (ep_devices p)"
    by (metis list.set_map)
  moreover have "\<forall>d\<in>set (ep_devices (give_up_removed ps p)).
      dv_grabbed d \<longrightarrow> dv_pointer_capable d \<and> g"
    using ok by (auto simp: provider_ok_def give_up_removed_def)
  moreover have "length (ep_devices (give_up_removed ps p)) = length (ep_devices p)"
    using arg_cong [OF paths, of length] by simp
  moreover have "ep_mode (give_up_removed ps p) = ep_mode p" "ep_grabbed (give_up_removed ps p) = ep_grabbed p"
    "ep_next_device_index (give_up_removed ps p) = ep_next_device_index p"
    "ep_all_devices (give_up_removed ps p) = ep_all_devices p"
    "ep_configured_paths (give_up_removed ps p) = ep_configured_paths p"
    by (simp_all add: give_up_removed_def)
  ultimately show ?thesis using ok paths unfolding provider_ok_def by simp
qed

lemma keeps_reconcile [keeps_intros]:
  "keeps (provider_inv g m a c) (reconcile_discovered_devices H paths)"
  unfolding reconcile_discovered_devices_def
  by (intro keeps_intros keeps_provider_upd conjI give_up_ok) (simp_all add: give_up_removed_def)

lemma keeps_rescans [keeps_intros]:
  "keeps (provider_inv g m a c) (note_rescan H)"
  "keeps (provider_inv g m a c) (rescan_devices_if_due H)"
  "keeps (provider_inv g m a c) (rescan_after_hotplug H)"
  "keeps (provider_inv g m a c) (rescan_without_monitor H)"
  "keeps (provider_inv g m a c) (drain_monitor H)"
  unfolding rescan_devices_if_due_def rescan_after_hotplug_def rescan_without_monitor_def
    note_rescan_def drain_monitor_def
  by (intro keeps_intros)+

lemma keeps_ready_sources [keeps_intros]:
  "keeps (provider_inv g m a c) (ready_sources H sources device rescan)"
  by (induction H sources device rescan rule: ready_sources.induct)
     (auto intro!: keeps_intros split: poll_source.split)

lemma keeps_cases [keeps_intros]:
  "(\<And>x. r = Inl x \<Longrightarrow> keeps I (f x)) \<Longrightarrow> (\<And>y. r = Inr y \<Longrightarrow> keeps I (g y))
   \<Longrightarrow> keeps I (case r of Inl x \<Rightarrow> f x | Inr y \<Rightarrow> g y)"
  by (cases r) simp_all

lemma keeps_poll [keeps_intros]:
  "keeps I i \<Longrightarrow> (\<And>e. keeps I (f e)) \<Longrightarrow> (\<And>n bs. keeps I (g n bs))
   \<Longrightarrow> keeps I (case polled of Interrupted \<Rightarrow> i | PollError e \<Rightarrow> f e | Polled n bs \<Rightarrow> g n bs)"
  by (cases polled) simp_all

lemma keeps_readiness [keeps_intros]:
  "keeps I d \<Longrightarrow> (\<And>fd. keeps I (f fd)) \<Longrightarrow> keeps I n
   \<Longrightarrow> keeps I (case ready of DeviceOrHotplug \<Rightarrow> d | ReadyRuntimeFd fd \<Rightarrow> f fd | NotReady \<Rightarrow> n)"
  by (cases ready) simp_all

lemma keeps_sleep:
  "keeps (provider_inv g m a c) (supd (\<lambda>s. s\<lparr>es_world := f (es_world s)\<rparr>))"
  by (rule keeps_supd) (simp add: provider_inv_def)

lemma keeps_waiting [keeps_intros]:
  "keeps (provider_inv g m a c) (wait_for_readable_device H timeout fds)"
  unfolding wait_for_readable_device_def by (intro keeps_intros keeps_pair)

lemma keeps_waits [keeps_intros]:
  "keeps (provider_inv g m a c) (wait_for_input H timeout fds)"
  "keeps (provider_inv g m a c) (wait_next_observed_input_event_or_runtime_fd H timeout fds)"
  "keeps (provider_inv g m a c) (wait_next_observed_motion_event_or_runtime_fd H timeout fds)"
proof -
  show wait: "keeps (provider_inv g m a c) (wait_for_input H timeout fds)"
    unfolding wait_for_input_def by (intro keeps_intros keeps_sleep)
  show "keeps (provider_inv g m a c) (wait_next_observed_input_event_or_runtime_fd H timeout fds)"
    unfolding wait_next_observed_input_event_or_runtime_fd_def by (intro keeps_intros wait)
  show "keeps (provider_inv g m a c) (wait_next_observed_motion_event_or_runtime_fd H timeout fds)"
    unfolding wait_next_observed_motion_event_or_runtime_fd_def by (intro keeps_intros wait)
qed

lemma keeps_other_operations [keeps_intros]:
  "keeps (provider_inv g m a c) (provider_drop H)"
  "keeps (provider_inv g m a c) (next_motion_event H)"
  "keeps (provider_inv g m a c) (wait_next_observed_motion_event H timeout)"
proof -
  show "keeps (provider_inv g m a c) (provider_drop H)"
    unfolding provider_drop_def by (intro keeps_intros)
  show "keeps (provider_inv g m a c) (next_motion_event H)"
    unfolding next_motion_event_def by (intro keeps_intros)
  have "keeps I (case outcome of MotionObserved ob \<Rightarrow> sreturn (Some ob) | MotionRuntimeFd fd \<Rightarrow> sreturn None
      | MotionTimeout \<Rightarrow> sreturn None)" for I :: "'w evdev_state \<Rightarrow> bool" and outcome
    by (cases outcome) (simp_all add: keeps_sreturn)
  then show "keeps (provider_inv g m a c) (wait_next_observed_motion_event H timeout)"
    unfolding wait_next_observed_motion_event_def by (intro keeps_intros)
qed

section \<open>Opening a provider\<close>

lemma open_devices_ok:
  assumes "open_devices H all ps seen opened selected skipped w = Some (w', Inr (ds, sel, sk))"
    and "distinct (map dv_path opened)" and "dv_path ` set opened \<subseteq> seen"
    and "\<forall>d\<in>set opened. \<not> dv_grabbed d" and "dv_path ` set opened \<subseteq> set selected"
  shows "distinct (map dv_path ds) \<and> (\<forall>d\<in>set ds. \<not> dv_grabbed d) \<and> dv_path ` set ds \<subseteq> set sel
    \<and> set sel \<subseteq> set selected \<union> set ps"
  using assms
proof (induction H all ps seen opened selected skipped arbitrary: w rule: open_devices.induct)
  case (1 H all seen opened selected skipped)
  then show ?case by (simp add: sreturn_def)
next
  case (2 H all p ps seen opened selected skipped)
  show ?case
  proof (cases "p \<in> seen")
    case True
    with "2.prems" have all and
      "open_devices H all ps seen opened selected (insert p skipped) w = Some (w', Inr (ds, sel, sk))"
      by (auto simp: sfail_def split: if_splits)
    with "2.IH"(1) [OF True] "2.prems"(2-5) show ?thesis by auto
  next
    case False
    from "2.prems"(1) False obtain w1 r where opened: "device_open H p w = Some (w1, r)"
      by (auto split: option.splits)
    show ?thesis
    proof (cases r)
      case (Inl e)
      with "2.prems"(1) False opened have all and
        "open_devices H all ps (insert p seen) opened (selected @ [p]) (insert p skipped) w1
           = Some (w', Inr (ds, sel, sk))"
        by (auto split: if_splits)
      moreover have "dv_path ` set opened \<subseteq> insert p seen" "dv_path ` set opened \<subseteq> set (selected @ [p])"
        using "2.prems"(3,5) by auto
      ultimately show ?thesis using "2.IH"(2) [OF False opened refl Inl] "2.prems"(2,4) by simp
    next
      case (Inr d)
      with "2.prems"(1) False opened have run:
        "open_devices H all ps (insert p seen) (opened @ [d]) (selected @ [p]) skipped w1
           = Some (w', Inr (ds, sel, sk))"
        by simp
      have d: "dv_path d = p" "\<not> dv_grabbed d"
        using opened_device [of H p w w1 d] opened Inr by simp_all
      have "p \<notin> dv_path ` set opened" using "2.prems"(3) False by blast
      then have fresh: "distinct (map dv_path (opened @ [d]))" using "2.prems"(2) d by simp
      have paths: "dv_path ` set (opened @ [d]) = insert p (dv_path ` set opened)"
        using d(1) by simp
      have seen: "dv_path ` set (opened @ [d]) \<subseteq> insert p seen"
        unfolding paths using "2.prems"(3) by (rule insert_mono)
      have known: "dv_path ` set (opened @ [d]) \<subseteq> set (selected @ [p])"
        unfolding paths using insert_mono [OF "2.prems"(5), of p] by simp
      have free: "\<forall>e\<in>set (opened @ [d]). \<not> dv_grabbed e" using "2.prems"(4) d by simp
      from "2.IH"(3) [OF False opened refl Inr run fresh seen free known] show ?thesis by simp
    qed
  qed
qed

lemma opened_ok:
  assumes "provider_open H paths mode leader all w = Some (w', Inr p)"
  shows "provider_inv False mode all (ep_configured_paths p) \<lparr>es_world = w', es_provider = p\<rparr>
    \<and> set (ep_configured_paths p) \<subseteq> set paths"
proof -
  from assms obtain w1 ds sel sk where
    opened: "open_devices H all paths {} [] [] {} w = Some (w1, Inr (ds, sel, sk))"
    and "ds \<noteq> []" "ep_devices p = ds" "ep_configured_paths p = (if all then [] else sel)"
    "\<not> ep_grabbed p" "ep_next_device_index p = 0" "ep_mode p = mode" "ep_all_devices p = all"
    by (auto simp: provider_open_def sbind_Some_Ok sreturn_def sfail_def split: if_splits)
  moreover have "distinct (map dv_path ds) \<and> (\<forall>d\<in>set ds. \<not> dv_grabbed d) \<and> dv_path ` set ds \<subseteq> set sel
      \<and> set sel \<subseteq> set [] \<union> set paths"
    using opened by (rule open_devices_ok) simp_all
  ultimately show ?thesis by (auto simp: provider_inv_def provider_ok_def)
qed

end
