(* ===== verification/EvdevTurns.thy ===== *)
theory EvdevTurns imports EvdevLaws begin

text \<open>
  The order in which the devices of the evdev provider are read: after an event of a device the next
  read begins with the device behind it, so the distance to a device that has events only shrinks.
\<close>

section \<open>One read\<close>

definition always_ready :: "'w evdev_os \<Rightarrow> raw_fd \<Rightarrow> bool" where
  "always_ready H fd \<longleftrightarrow> (\<forall>w. \<exists>w' bytes. eo_read_exact H fd w = (w', EventBytes bytes))"

text \<open>No read fails but with an error that gives the device up.\<close>

definition reads_never_fail :: "'w evdev_os \<Rightarrow> bool" where
  "reads_never_fail H \<longleftrightarrow>
     (\<forall>fd w w' errno message. eo_read_exact H fd w = (w', ReadError errno message) \<longrightarrow> device_is_gone errno)"

lemma reads_never_failD:
  "reads_never_fail H \<Longrightarrow> eo_read_exact H fd w = (w', ReadError errno message) \<Longrightarrow> device_is_gone errno"
  unfolding reads_never_fail_def by blast

lemma read_ok:
  assumes "reads_never_fail H"
  obtains w' d' event where "device_next_raw_event H d w = (w', d', Inr event)" "dv_path d' = dv_path d"
proof -
  obtain w1 d1 r where read: "device_next_raw_event H d w = (w1, d1, r)" by (cases "device_next_raw_event H d w")
  with assms have "\<exists>event. r = Inr event"
    by (auto simp: device_next_raw_event_def dest: reads_never_failD
        split: if_splits prod.splits read_outcome.splits)
  moreover have "dv_path d1 = dv_path d" using read_kept [OF read, of True] by (simp add: device_kept_def)
  ultimately show ?thesis using read that by auto
qed

lemma read_ready:
  assumes "always_ready H (dv_file d)" "dv_active d"
  obtains w' raw where "device_next_raw_event H d w = (w', d, Inr (Some raw))"
proof -
  obtain w' bytes where "eo_read_exact H (dv_file d) w = (w', EventBytes bytes)"
    using assms(1) unfolding always_ready_def by blast
  with assms(2) show ?thesis by (intro that) (simp add: device_next_raw_event_def)
qed

definition read_at :: "nat \<Rightarrow> evdev_device \<Rightarrow> 'w \<Rightarrow> 'w evdev_state \<Rightarrow> 'w evdev_state" where
  "read_at i d w s = on_provider (set_device i d) (s\<lparr>es_world := w\<rparr>)"

lemma read_at_fields [simp]:
  "ep_devices (es_provider (read_at i d w s)) = (ep_devices (es_provider s))[i := d]"
  "ep_next_device_index (es_provider (read_at i d w s)) = ep_next_device_index (es_provider s)"
  by (simp_all add: read_at_def on_provider_def set_device_def)

lemma scan_passes:
  assumes "i = device_in_turn (es_provider s) offset"
    and "device_next_raw_event H (ep_devices (es_provider s) ! i) (es_world s) = (w, d, Inr None)"
  shows "scan_input H (offset # offsets) s = scan_input H offsets (read_at i d w s)"
  using assms by (simp add: sbind_def sget_def on_device_def stry_def read_at_def)

lemma scan_finds:
  assumes "i = device_in_turn (es_provider s) offset" "i < length (ep_devices (es_provider s))"
    and "device_next_raw_event H (ep_devices (es_provider s) ! i) (es_world s) = (w, d, Inr (Some raw))"
  obtains s' ob where "scan_input H (offset # offsets) s = Some (s', Inr (Some ob))"
    "oi_source ob = dv_path d" "oi_grabbed ob = dv_grabbed d" "ep_devices (es_provider s') = (ep_devices (es_provider s))[i := d]"
    "ep_next_device_index (es_provider s') = (i + 1) mod length (ep_devices (es_provider s))"
proof -
  obtain w' now where clock: "eo_now H w = (w', now)" by fastforce
  show ?thesis
    using assms clock
    by (intro that)
       ((simp_all add: sbind_def sget_def on_device_def stry_def observed_input_def sthen_def
          provider_upd_def supd_def on_provider_def set_device_def turn_after_def es_call_def srun_def
          sreturn_def)+)
qed

section \<open>The distance to a device\<close>

definition waits_at :: "nat \<Rightarrow> evdev_device \<Rightarrow> nat \<Rightarrow> nat \<Rightarrow> 'w evdev_state \<Rightarrow> bool" where
  "waits_at k dev n d s \<longleftrightarrow> length (ep_devices (es_provider s)) = n \<and> ep_devices (es_provider s) ! k = dev
     \<and> k < n \<and> d < n \<and> k = (ep_next_device_index (es_provider s) + d) mod n"

lemma turn_moves:
  fixes next' d offset n :: nat
  assumes "offset < d" "i = (next' + offset) mod n"
  shows "((i + 1) mod n + (d - Suc offset)) mod n = (next' + d) mod n"
proof -
  have "((i + 1) mod n + (d - Suc offset)) mod n = (next' + offset + 1 + (d - Suc offset)) mod n"
    unfolding assms(2) by (simp add: mod_simps)
  with assms(1) show ?thesis by simp
qed

lemma scan_reaches:
  assumes ok: "reads_never_fail H" and ready: "always_ready H (dv_file dev)" "dv_active dev"
    and "waits_at k dev n d s" and "offset \<le> d"
  shows "\<exists>s' ob. scan_input H [offset..<n] s = Some (s', Inr (Some ob))
    \<and> (oi_source ob = dv_path dev \<or> (\<exists>d'<d. waits_at k dev n d' s'))"
  using assms(4,5)
proof (induction "d - offset" arbitrary: offset s)
  case (0 offset s)
  then have at: "offset = d" "d < n" "device_in_turn (es_provider s) offset = k"
    "ep_devices (es_provider s) ! k = dev" "k < length (ep_devices (es_provider s))"
    by (auto simp: waits_at_def device_in_turn_def)
  obtain w raw where "device_next_raw_event H dev (es_world s) = (w, dev, Inr (Some raw))"
    using read_ready [OF ready] .
  then obtain s' ob where "scan_input H (offset # [Suc offset..<n]) s = Some (s', Inr (Some ob))"
    "oi_source ob = dv_path dev"
    using scan_finds [of k s offset H] at by metis
  with at show ?case by (auto simp: upt_conv_Cons)
next
  case (Suc x offset s)
  let ?i = "device_in_turn (es_provider s) offset" and ?ds = "ep_devices (es_provider s)"
  from Suc have before: "offset < d" and n: "d < n" "length ?ds = n" "k < n" "?ds ! k = dev"
    and k: "k = (ep_next_device_index (es_provider s) + d) mod n"
    by (auto simp: waits_at_def)
  from n have i: "?i < length ?ds" "?i = (ep_next_device_index (es_provider s) + offset) mod n"
    by (auto simp: device_in_turn_def)
  have order: "scan_input H [offset..<n] s = scan_input H (offset # [Suc offset..<n]) s"
    using before n by (simp add: upt_conv_Cons)
  obtain w d1 event where read: "device_next_raw_event H (?ds ! ?i) (es_world s) = (w, d1, Inr event)"
    and path: "dv_path d1 = dv_path (?ds ! ?i)"
    using read_ok [OF ok] .
  have same: "?ds[?i := d1] ! k = dev"
  proof (cases "?i = k")
    case True
    obtain w' raw where "device_next_raw_event H dev (es_world s) = (w', dev, Inr (Some raw))"
      using read_ready [OF ready] .
    with read True n i show ?thesis by auto
  next
    case False
    with n show ?thesis by simp
  qed
  show ?case
  proof (cases event)
    case None
    with Suc.prems same have "waits_at k dev n d (read_at ?i d1 w s)" by (simp add: waits_at_def)
    moreover have "x = d - Suc offset" "Suc offset \<le> d" using Suc before by simp_all
    ultimately show ?thesis
      unfolding order using Suc.hyps(1) scan_passes [OF refl] read None by metis
  next
    case (Some raw)
    with read obtain s' ob where found: "scan_input H (offset # [Suc offset..<n]) s = Some (s', Inr (Some ob))"
      "ep_devices (es_provider s') = ?ds[?i := d1]"
      "ep_next_device_index (es_provider s') = (?i + 1) mod length ?ds"
      using scan_finds [OF refl i(1), of H w d1 raw] by metis
    have "waits_at k dev n (d - Suc offset) s'"
      unfolding waits_at_def found using same n k turn_moves [OF before i(2)] by simp
    moreover have "d - Suc offset < d" using before by simp
    ultimately show ?thesis unfolding order found(1) by blast
  qed
qed

section \<open>Several reads\<close>

fun observe_times :: "'w evdev_os \<Rightarrow> nat \<Rightarrow> ('w, observed_input_event option list) evdev_effect" where
  "observe_times H 0 = sreturn []"
| "observe_times H (Suc n) =
     sbind (next_observed_input_event H) (\<lambda>ob.
     sbind (observe_times H n) (\<lambda>obs. sreturn (ob # obs)))"

lemma next_reaches:
  assumes "reads_never_fail H" "always_ready H (dv_file dev)" "dv_active dev"
    and "waits_at k dev n d s"
  obtains s' ob where "next_observed_input_event H s = Some (s', Inr (Some ob))"
    "oi_source ob = dv_path dev \<or> (\<exists>d'<d. waits_at k dev n d' s')"
proof -
  from assms(4) have "length (ep_devices (es_provider s)) = n" "n \<noteq> 0" by (auto simp: waits_at_def)
  then have "next_observed_input_event H s = scan_input H [0..<n] s"
    by (simp add: next_observed_input_event_def)
  with scan_reaches [OF assms, of 0] that show ?thesis by auto
qed

lemma observed_within:
  assumes "reads_never_fail H" "always_ready H (dv_file dev)" "dv_active dev"
    and "waits_at k dev n d s"
  shows "\<exists>m s' obs ob. m \<le> d \<and> observe_times H (Suc m) s = Some (s', Inr obs)
    \<and> last obs = Some ob \<and> oi_source ob = dv_path dev"
  using assms(4)
proof (induction d arbitrary: s rule: less_induct)
  case (less d s)
  obtain s1 ob where first: "next_observed_input_event H s = Some (s1, Inr (Some ob))"
    and next': "oi_source ob = dv_path dev \<or> (\<exists>d'<d. waits_at k dev n d' s1)"
    using next_reaches [OF assms(1-3) less.prems] .
  show ?case
  proof (cases "oi_source ob = dv_path dev")
    case True
    with first have "observe_times H (Suc 0) s = Some (s1, Inr [Some ob])"
      by (simp add: sbind_def sreturn_def)
    with True show ?thesis by (intro exI [of _ 0]) auto
  next
    case False
    with next' obtain d' where "d' < d" "waits_at k dev n d' s1" by auto
    with less.IH obtain m s' obs ob' where later: "m \<le> d'" "observe_times H (Suc m) s1 = Some (s', Inr obs)"
      "last obs = Some ob'" "oi_source ob' = dv_path dev" by blast
    then have "obs \<noteq> []" by (auto simp: sbind_def sreturn_def split: option.splits prod.splits sum.splits)
    moreover have "observe_times H (Suc (Suc m)) s = Some (s', Inr (Some ob # obs))"
      using first later(2) by (subst observe_times.simps(2)) (simp add: sbind_def sreturn_def del: observe_times.simps)
    moreover have "Suc m \<le> d" using later(1) \<open>d' < d\<close> by simp
    ultimately show ?thesis using later(3,4) by (intro exI [of _ "Suc m"]) auto
  qed
qed

text \<open>Every device of a provider waits at some distance below the number of devices.\<close>

lemma every_device_waits:
  assumes "ep_next_device_index (es_provider s) < length (ep_devices (es_provider s))"
    and "k < length (ep_devices (es_provider s))"
  obtains d where "waits_at k (ep_devices (es_provider s) ! k) (length (ep_devices (es_provider s))) d s"
proof
  let ?n = "length (ep_devices (es_provider s))" and ?i = "ep_next_device_index (es_provider s)"
  have "(?i + (k + ?n - ?i) mod ?n) mod ?n = (?i + (k + ?n - ?i)) mod ?n" by (simp add: mod_simps)
  also have "\<dots> = k" using assms by simp
  finally have "(?i + (k + ?n - ?i) mod ?n) mod ?n = k" .
  moreover have "(k + ?n - ?i) mod ?n < ?n" using assms(2) by (intro mod_less_divisor) auto
  ultimately show "waits_at k (ep_devices (es_provider s) ! k) ?n ((k + ?n - ?i) mod ?n) s"
    using assms by (simp add: waits_at_def)
qed

end
