(* ===== verification/UinputLaws.thy ===== *)
theory UinputLaws imports Uinput begin

text \<open>
  What the output through uinput means: the bytes of an event are read back as the event, and a
  keyboard of the US layout types the text whose events are written.
\<close>

section \<open>Bytes\<close>

lemma le_nat_le_bytes: "le_nat (le_bytes n v) = v mod 256 ^ n"
proof (induction n arbitrary: v)
  case 0
  then show ?case by (simp add: le_nat_def le_bytes_def)
next
  case (Suc n)
  have "map (\<lambda>i. word_of_nat (v div 256 ^ i)) [0..<Suc n]
      = (word_of_nat v :: 8 word) # map (\<lambda>i. word_of_nat (v div 256 div 256 ^ i)) [0..<n]"
    by (simp add: upt_conv_Cons map_Suc_upt [symmetric] div_mult2_eq del: upt_Suc)
  then have "le_nat (le_bytes (Suc n) v) = v mod 256 + 256 * le_nat (le_bytes n (v div 256))"
    by (simp add: le_nat_def le_bytes_def unat_of_nat)
  with Suc.IH [of "v div 256"] show ?case by (simp add: mod_mult2_eq)
qed

lemma length_le_bytes [simp]: "length (le_bytes n v) = n"
  by (simp add: le_bytes_def)

lemma length_event_as_bytes [simp]: "length (event_as_bytes e) = 24"
  by (simp add: event_as_bytes_def)

definition as_read :: "uinput_event \<Rightarrow> raw_input_event" where
  "as_read e = \<lparr>re_event_type = ie_type e, re_code = ie_code e, re_value = ie_value e,
     re_kernel_timestamp = kernel_event_timestamp.Unavailable\<rparr>"

lemma raw_input_event_of_bytes: "raw_input_event_of (event_as_bytes e) = as_read e"
proof -
  let ?b = "event_as_bytes e"
  have parts: "take 2 (drop 16 ?b) = le_bytes 2 (unat (ie_type e))"
    "take 2 (drop 18 ?b) = le_bytes 2 (unat (ie_code e))"
    "take 4 (drop 20 ?b) = le_bytes 4 (unat (ie_value e))"
    by (simp_all add: event_as_bytes_def)
  have zero: "le_nat (replicate n 0) = 0" for n by (induction n) (simp_all add: le_nat_def)
  have times: "take 8 ?b = replicate 8 0" "take 8 (drop 8 ?b) = replicate 8 0"
    by (simp_all add: event_as_bytes_def)
  have small: "unat (ie_type e) mod 256 ^ 2 = unat (ie_type e)" "unat (ie_code e) mod 256 ^ 2 = unat (ie_code e)"
    "unat (ie_value e) mod 256 ^ 4 = unat (ie_value e)"
    using unsigned_less [of "ie_type e", where 'a = nat] unsigned_less [of "ie_code e", where 'a = nat]
      unsigned_less [of "ie_value e", where 'a = nat] by simp_all
  show ?thesis
    unfolding raw_input_event_of_def raw_input_timeval_def parts times zero le_nat_le_bytes small
    by (simp add: as_read_def from_timeval_def)
qed

text \<open>A device delivers the events of the bytes that were written to it, 24 bytes for each.\<close>

function read_events :: "8 word list \<Rightarrow> raw_input_event list" where
  "read_events bytes =
     (if length bytes < 24 then [] else raw_input_event_of (take 24 bytes) # read_events (drop 24 bytes))"
  by auto
termination by (relation "measure length") auto

declare read_events.simps [simp del]

lemma read_events_written: "read_events (concat (map event_as_bytes es)) = map as_read es"
  by (induction es) (simp_all add: read_events.simps raw_input_event_of_bytes)

section \<open>A keyboard\<close>

definition layout_row :: "nat \<Rightarrow> string \<Rightarrow> string \<Rightarrow> (16 word \<times> char \<times> char) list" where
  "layout_row start plain shifted =
     zip (map word_of_nat [start..<start + length plain]) (zip plain shifted)"

text \<open>The keys of the US layout that type a character, alone and with the shift key.\<close>

definition us_layout :: "(16 word \<times> char \<times> char) list" where
  "us_layout =
     layout_row 2 ''1234567890-='' ''!@#$%^&*()_+''
     @ layout_row 16 ''qwertyuiop[]'' ''QWERTYUIOP{}''
     @ layout_row 30 ([CHR ''a'', CHR ''s'', CHR ''d'', CHR ''f'', CHR ''g'', CHR ''h'', CHR ''j'', CHR ''k'', CHR ''l'', CHR '';'', CHR 0x27])
         (''ASDFGHJKL:'' @ [CHR 0x22])
     @ layout_row 44 ''zxcvbnm,./'' ''ZXCVBNM<>?''
     @ layout_row 57 '' '' '' ''"

text \<open>The keys that are down and the text that was typed.\<close>

definition type_event :: "raw_input_event \<Rightarrow> 16 word set \<times> string \<Rightarrow> 16 word set \<times> string" where
  "type_event e = (\<lambda>(down, text).
     if re_event_type e \<noteq> 1 then (down, text)
     else if re_value e = 0 then (down - {re_code e}, text)
     else (insert (re_code e) down,
           case map_of us_layout (re_code e) of
             None \<Rightarrow> text
           | Some (plain, shifted) \<Rightarrow> text @ [if key_leftshift \<in> down then shifted else plain]))"

definition typed :: "raw_input_event list \<Rightarrow> 16 word set \<times> string" where
  "typed es = fold type_event es ({}, [])"

text \<open>The characters that the output knows.\<close>

definition typeable :: "char \<Rightarrow> bool" where
  "typeable c \<longleftrightarrow> is_ascii_lowercase c \<or> is_ascii_uppercase c \<or> is_ascii_digit c \<or> c \<in> set '' -_./''"

definition stroke_types :: "char \<Rightarrow> bool" where
  "stroke_types c \<longleftrightarrow> (case character_to_key c of
     None \<Rightarrow> \<not> typeable c
   | Some k \<Rightarrow> typeable c \<and> ks_code k \<noteq> key_leftshift
       \<and> (case map_of us_layout (ks_code k) of
            None \<Rightarrow> False
          | Some (plain, shifted) \<Rightarrow> c = (if ks_shift k then shifted else plain)))"

lemma all_strokes_type: "list_all stroke_types (map char_of [0..<256::nat])"
  by code_simp

lemma stroke_typed: "stroke_types c"
proof -
  have "c \<in> set (map char_of [0..<256::nat])"
    using UNIV_char_of_nat by (auto simp: atLeast0LessThan)
  with all_strokes_type show ?thesis unfolding list_all_iff by blast
qed

section \<open>Typing a text\<close>

lemma type_keys [simp]:
  "fold type_event (map as_read (key_events code 1)) (down, before)
     = (insert code down, case map_of us_layout code of
          None \<Rightarrow> before
        | Some (plain, shifted) \<Rightarrow> before @ [if key_leftshift \<in> down then shifted else plain])"
  "fold type_event (map as_read (key_events code 0)) (down, before) = (down - {code}, before)"
  by (simp_all add: key_events_def as_read_def input_event_def type_event_def)

lemma shift_types_nothing: "map_of us_layout key_leftshift = None"
  by code_simp

lemma character_typed:
  assumes "push_character_events c events = Inr events'"
  shows "\<exists>es. events' = events @ es \<and> fold type_event (map as_read es) ({}, before) = ({}, before @ [c])"
proof -
  from assms obtain k where k: "character_to_key c = Some k" and "events' = events
      @ (if ks_shift k then key_events key_leftshift 1 else [])
      @ key_events (ks_code k) 1 @ key_events (ks_code k) 0
      @ (if ks_shift k then key_events key_leftshift 0 else [])"
    by (auto simp: push_character_events_def split: option.splits)
  moreover from k stroke_typed [of c] obtain plain shifted where
    "map_of us_layout (ks_code k) = Some (plain, shifted)" "c = (if ks_shift k then shifted else plain)"
    "ks_code k \<noteq> key_leftshift"
    by (auto simp: stroke_types_def split: option.splits)
  ultimately show ?thesis by (auto simp: shift_types_nothing insert_Diff_if)
qed

lemma text_typed:
  "push_text_events t events = Inr events' \<Longrightarrow>
   \<exists>es. events' = events @ es \<and> fold type_event (map as_read es) ({}, before) = ({}, before @ t)"
proof (induction t arbitrary: events before)
  case Nil
  then show ?case by simp
next
  case (Cons c t)
  then obtain mid where first: "push_character_events c events = Inr mid" and rest: "push_text_events t mid = Inr events'"
    by auto
  from character_typed [OF first, of before] obtain es where
    "mid = events @ es" "fold type_event (map as_read es) ({}, before) = ({}, before @ [c])" by blast
  moreover from Cons.IH [OF rest, of "before @ [c]"] obtain es' where
    "events' = mid @ es'" "fold type_event (map as_read es') ({}, before @ [c]) = ({}, (before @ [c]) @ t)" by blast
  ultimately show ?case by (intro exI [of _ "es @ es'"]) simp
qed

lemma text_accepted: "is_ok (push_text_events t events) \<longleftrightarrow> list_all typeable t"
proof (induction t arbitrary: events)
  case Nil
  then show ?case by simp
next
  case (Cons c t)
  have "is_ok (push_character_events c events) \<longleftrightarrow> typeable c"
    using stroke_typed [of c] by (auto simp: push_character_events_def stroke_types_def split: option.splits)
  with Cons.IH show ?case by (cases "push_character_events c events") auto
qed

section \<open>Chords\<close>

definition key_changes :: "uinput_event list \<Rightarrow> (16 word \<times> 32 word) list" where
  "key_changes es = map (\<lambda>e. (ie_code e, ie_value e)) (filter (\<lambda>e. ie_type e = 1) es)"

lemma key_changes_events [simp]:
  "key_changes [] = []" "key_changes (es @ es') = key_changes es @ key_changes es'"
  "key_changes (key_events code value) = [(code, value)]"
  by (simp_all add: key_changes_def key_events_def input_event_def)

lemma key_changes_concat [simp]: "key_changes (concat ess) = concat (map key_changes ess)"
  by (induction ess) simp_all

fun modifier_code :: "modifier \<Rightarrow> 16 word" where
  "modifier_code Ctrl = 29"
| "modifier_code Alt = 56"
| "modifier_code Shift = 42"
| "modifier_code Super = 125"

lemma modifier_key_code_as_str [simp]: "modifier_key_code (modifier_as_str m) = Some (modifier_code m)"
  by (cases m) (simp_all add: modifier_key_code_def)

lemma those_modifiers: "those (map modifier_key_code (map modifier_as_str ms)) = Some (map modifier_code ms)"
  by (induction ms) simp_all

end
