(* ===== verification/AdapterLaws.thy ===== *)
theory AdapterLaws imports Adapter EvdevTurns UinputLaws begin

text \<open>
  What the operations of the adapter keep of its provider and its output: a device is grabbed only
  while there is a uinput session to pass its events through.
\<close>

section \<open>Events of a provider that may not grab\<close>

definition yields :: "('s \<Rightarrow> bool) \<Rightarrow> ('s, 'e, 'a) effect \<Rightarrow> ('a \<Rightarrow> bool) \<Rightarrow> bool" where
  "yields I m P \<longleftrightarrow> (\<forall>s s' a. I s \<longrightarrow> m s = Some (s', Inr a) \<longrightarrow> P a)"

lemma yieldsD: "yields I m P \<Longrightarrow> I s \<Longrightarrow> m s = Some (s', Inr a) \<Longrightarrow> P a"
  unfolding yields_def by blast

lemma yields_returns: "returns m P \<Longrightarrow> yields I m P"
  unfolding yields_def returns_def by blast

lemma yields_sbind:
  assumes "keeps I m" "yields I m Q" "\<And>a. Q a \<Longrightarrow> yields I (f a) P"
  shows "yields I (sbind m f) P"
  unfolding yields_def
proof (intro allI impI)
  fix s s' b assume I: "I s" and run: "sbind m f s = Some (s', Inr b)"
  then obtain s1 a where m: "m s = Some (s1, Inr a)" and f: "f a s1 = Some (s', Inr b)"
    unfolding sbind_Some_Ok by blast
  from keepsD [OF assms(1) I m] have "I s1" .
  with yieldsD [OF assms(2) I m] show "P b" using yieldsD [OF assms(3) _ f] by blast
qed

lemma yields_sbind_any: "keeps I m \<Longrightarrow> (\<And>a. yields I (f a) P) \<Longrightarrow> yields I (sbind m f) P"
  by (rule yields_sbind [of _ _ "\<lambda>_. True"]) (simp_all add: yields_def)

lemma yields_sthen: "keeps I m \<Longrightarrow> yields I k P \<Longrightarrow> yields I (sthen m k) P"
  unfolding sthen_def by (rule yields_sbind_any)

abbreviation ungrabbed :: "observed_input_event option \<Rightarrow> bool" where
  "ungrabbed event \<equiv> \<not> (\<exists>ob. event = Some ob \<and> oi_grabbed ob)"

lemma scan_ungrabbed:
  "provider_inv False m a c s \<Longrightarrow> scan_input H offsets s = Some (s', Inr event) \<Longrightarrow> ungrabbed event"
proof (induction offsets arbitrary: s)
  case Nil
  then show ?case by (simp add: provider_upd_def sreturn_def)
next
  case (Cons offset offsets s)
  let ?i = "device_in_turn (es_provider s) offset" and ?ds = "ep_devices (es_provider s)"
  obtain w d r where read: "device_next_raw_event H (?ds ! ?i) (es_world s) = (w, d, r)" by (cases "device_next_raw_event H (?ds ! ?i) (es_world s)")
  have kept: "device_kept False (?ds ! ?i) d" using read by (rule read_kept)
  have i: "?i < length ?ds"
    using Cons.prems(1) by (simp add: provider_inv_def provider_ok_def device_in_turn_def) (metis length_pos_if_in_set less_nat_zero_code list.size(3) mod_less_divisor neq0_conv)
  show ?case
  proof (cases r)
    case (Inl e)
    with read Cons.prems(2) show ?thesis by (simp add: sbind_def sget_def on_device_def stry_def)
  next
    case (Inr found)
    show ?thesis
    proof (cases found)
      case None
      with read Inr have "scan_input H (offset # offsets) s = scan_input H offsets (read_at ?i d w s)"
        by (intro scan_passes) simp_all
      moreover have "provider_inv False m a c (read_at ?i d w s)"
        unfolding read_at_def using Cons.prems(1) kept by (rule set_device_inv)
      ultimately show ?thesis using Cons by simp
    next
      case (Some raw)
      with read Inr obtain s1 ob where "scan_input H (offset # offsets) s = Some (s1, Inr (Some ob))"
        "oi_grabbed ob = dv_grabbed d"
        using scan_finds [OF refl i, of H w d raw] by metis
      moreover have "\<not> dv_grabbed (?ds ! ?i)"
        using Cons.prems(1) i by (auto simp: provider_inv_def provider_ok_def)
      ultimately show ?thesis using kept Cons.prems(2) by (auto simp: device_kept_def)
    qed
  qed
qed

lemma next_ungrabbed: "yields (provider_inv False m a c) (next_observed_input_event H) ungrabbed"
  unfolding yields_def
proof (intro allI impI)
  fix s s' event
  assume inv: "provider_inv False m a c s" and run: "next_observed_input_event H s = Some (s', Inr event)"
  show "ungrabbed event"
  proof (cases "length (ep_devices (es_provider s)) = 0")
    case True
    with run show ?thesis by (simp add: next_observed_input_event_def sreturn_def)
  next
    case False
    with run have "scan_input H [0..<length (ep_devices (es_provider s))] s = Some (s', Inr event)"
      by (simp add: next_observed_input_event_def)
    with inv show ?thesis by (rule scan_ungrabbed)
  qed
qed

lemma wait_ungrabbed:
  "yields (provider_inv False m a c) (wait_next_observed_input_event_or_runtime_fd H timeout fds)
     (\<lambda>outcome. \<forall>ob. outcome = evdev_input_wait_outcome.Input ob \<longrightarrow> \<not> oi_grabbed ob)"
proof -
  have yields_result: "yields I (sreturn x) P" if "P x" for I :: "'s \<Rightarrow> bool" and x P
    using that by (simp add: yields_def sreturn_def)
  show ?thesis
    unfolding wait_next_observed_input_event_or_runtime_fd_def
    by (intro yields_sbind [OF _ next_ungrabbed] yields_sbind_any keeps_intros)
       (auto split: option.splits evdev_readiness.splits
         intro!: yields_result yields_sbind_any yields_sthen yields_sbind [OF _ next_ungrabbed] keeps_intros)
qed

section \<open>The invariant of an adapter\<close>

definition may_grab :: "real_adapter \<Rightarrow> evdev_provider \<Rightarrow> bool" where
  "may_grab a p \<longleftrightarrow> ra_uinput a \<noteq> None \<and> ep_mode p = Grab"

definition adapter_ok :: "'w adapter_state \<Rightarrow> bool" where
  "adapter_ok s \<longleftrightarrow> (\<forall>p. ra_evdev (as_adapter s) = Some p \<longrightarrow> provider_ok (may_grab (as_adapter s) p) p)"

text \<open>No device is grabbed.\<close>

definition adapter_idle :: "'w adapter_state \<Rightarrow> bool" where
  "adapter_idle s \<longleftrightarrow> (\<forall>p. ra_evdev (as_adapter s) = Some p \<longrightarrow> provider_ok False p)"

lemma idle_ok: "adapter_idle s \<Longrightarrow> adapter_ok s"
  by (auto simp: adapter_idle_def adapter_ok_def provider_ok_def may_grab_def)

text \<open>A property of the provider and the output is kept by what touches neither.\<close>

definition of_input :: "('w adapter_state \<Rightarrow> bool) \<Rightarrow> bool" where
  "of_input I \<longleftrightarrow> (\<forall>s s'. ra_evdev (as_adapter s) = ra_evdev (as_adapter s')
     \<longrightarrow> ra_uinput (as_adapter s) = ra_uinput (as_adapter s') \<longrightarrow> I s \<longrightarrow> I s')"

lemma of_inputs [simp]: "of_input adapter_ok" "of_input adapter_idle"
  by (auto simp: of_input_def adapter_ok_def adapter_idle_def may_grab_def)

lemma of_inputD:
  "of_input I \<Longrightarrow> I s \<Longrightarrow> ra_evdev (as_adapter s) = ra_evdev (as_adapter s')
   \<Longrightarrow> ra_uinput (as_adapter s) = ra_uinput (as_adapter s') \<Longrightarrow> I s'"
  unfolding of_input_def by blast

lemma keeps_adapter_upd:
  assumes "of_input I" and "\<And>a. ra_evdev (f a) = ra_evdev a \<and> ra_uinput (f a) = ra_uinput a"
  shows "keeps I (adapter_upd f)"
  unfolding adapter_upd_def by (rule keeps_supd) (rule of_inputD [OF assms(1)], simp_all add: assms(2))

lemma keeps_outside:
  assumes "of_input I"
  shows "keeps I (ad_call f)" "keeps I (ad_try g)" "keeps I (ad_within m)" "keeps I the_adapter"
    "keeps I (adapter_gate H required)"
proof -
  show "keeps I (ad_call f)"
    unfolding ad_call_def by (rule keeps_srun) (auto split: prod.split intro: of_inputD [OF assms])
  show "keeps I (ad_try g)"
    unfolding ad_try_def by (rule keeps_stry) (auto split: prod.split intro: of_inputD [OF assms])
  show "keeps I (ad_within m)"
    by (rule keepsI) (auto simp: ad_within_def intro: of_inputD [OF assms])
  show "keeps I the_adapter" unfolding the_adapter_def by (rule keeps_sget)
  show "keeps I (adapter_gate H required)" unfolding adapter_gate_def by (intro keeps_intros)
qed

lemmas keeps_ok = keeps_outside [OF of_inputs(1)] and keeps_idle = keeps_outside [OF of_inputs(2)]

text \<open>An operation of the provider keeps what it keeps with every permission to grab.\<close>

lemma keeps_on_evdev:
  assumes "\<And>g m a c. keeps (provider_inv g m a c) op" and "keeps adapter_ok other"
  shows "keeps adapter_ok (on_evdev op other)"
proof (rule keepsI)
  fix s s' r
  assume ok: "adapter_ok s" and run: "on_evdev op other s = Some (s', r)"
  show "adapter_ok s'"
  proof (cases "ra_evdev (as_adapter s)")
    case None
    with run ok assms(2) show ?thesis by (auto simp: on_evdev_def dest: keepsD)
  next
    case (Some p)
    let ?I = "provider_inv (may_grab (as_adapter s) p) (ep_mode p) (ep_all_devices p) (ep_configured_paths p)"
    from run Some obtain es where es: "op \<lparr>es_world = as_world s, es_provider = p\<rparr> = Some (es, r)"
      and s': "s' = \<lparr>as_world = es_world es, as_adapter = (as_adapter s)\<lparr>ra_evdev := Some (es_provider es)\<rparr>\<rparr>"
      by (auto simp: on_evdev_def)
    from ok Some have "?I \<lparr>es_world = as_world s, es_provider = p\<rparr>"
      by (simp add: adapter_ok_def provider_inv_def)
    from keepsD [OF assms(1) this es] have "?I es" .
    then show ?thesis unfolding s' by (simp add: adapter_ok_def provider_inv_def may_grab_def)
  qed
qed

lemma keeps_arm_input_grab: "keeps adapter_ok (arm_input_grab H)"
proof (rule keepsI)
  fix s s' r
  assume ok: "adapter_ok s" and run: "arm_input_grab H s = Some (s', r)"
  show "adapter_ok s'"
  proof (cases "ra_uinput (as_adapter s) = None \<or> ra_evdev (as_adapter s) = None")
    case True
    with run ok show ?thesis
      by (auto simp: arm_input_grab_def the_adapter_def sreturn_def on_evdev_def split: if_splits)
  next
    case False
    then obtain p u where p: "ra_evdev (as_adapter s) = Some p" and u: "ra_uinput (as_adapter s) = Some u"
      by auto
    let ?I = "provider_inv (ep_mode p = Grab) (ep_mode p) (ep_all_devices p) (ep_configured_paths p)"
    from run p u obtain es where es: "arm_grab (ao_evdev H) \<lparr>es_world = as_world s, es_provider = p\<rparr> = Some (es, r)"
      and s': "s' = \<lparr>as_world = es_world es, as_adapter = (as_adapter s)\<lparr>ra_evdev := Some (es_provider es)\<rparr>\<rparr>"
      by (auto simp: arm_input_grab_def the_adapter_def on_evdev_def)
    from ok p u have "?I \<lparr>es_world = as_world s, es_provider = p\<rparr>"
      by (simp add: adapter_ok_def provider_inv_def may_grab_def)
    from keepsD [OF keeps_arm_grab this es] show ?thesis
      unfolding s' using u by (simp add: adapter_ok_def provider_inv_def may_grab_def)
  qed
qed

section \<open>Configuring and cancelling\<close>

text \<open>An operation that leaves no device grabbed when it succeeds.\<close>

definition settles :: "('w, 'a) adapter_effect \<Rightarrow> bool" where
  "settles m \<longleftrightarrow> (\<forall>s s' r. adapter_ok s \<longrightarrow> m s = Some (s', r)
     \<longrightarrow> adapter_ok s' \<and> (is_ok r \<longrightarrow> adapter_idle s'))"

lemma settlesD: "settles m \<Longrightarrow> adapter_ok s \<Longrightarrow> m s = Some (s', Inr a) \<Longrightarrow> adapter_idle s'"
  unfolding settles_def by (metis is_ok.simps)

lemma settles_ok: "settles m \<Longrightarrow> keeps adapter_ok m"
  unfolding settles_def keeps_def by blast

lemma keeps_settled:
  assumes m: "settles m" and k: "keeps adapter_idle k"
  shows "keeps adapter_ok (sthen m k)"
proof (rule keepsI)
  fix s s' r
  assume ok: "adapter_ok s" and run: "sthen m k s = Some (s', r)"
  from run [unfolded sthen_def sbind_Some] show "adapter_ok s'"
  proof (elim disjE exE conjE)
    fix e assume "m s = Some (s', Inl e)"
    from keepsD [OF settles_ok [OF m] ok this] show ?thesis .
  next
    fix s1 u assume first: "m s = Some (s1, Inr u)" and rest: "k s1 = Some (s', r)"
    from keepsD [OF k settlesD [OF m ok first] rest] show ?thesis by (rule idle_ok)
  qed
qed

lemma set_evdev_settles:
  assumes "\<And>p. provider = Some p \<Longrightarrow> provider_ok False p"
  shows "settles (set_evdev H provider)"
  unfolding settles_def
proof (intro allI impI)
  fix s s' r
  assume ok: "adapter_ok s" and run: "set_evdev H provider s = Some (s', r)"
  have release: "keeps adapter_ok (on_evdev (provider_drop (ao_evdev H)) (sreturn ()))"
    by (intro keeps_on_evdev keeps_intros)
  from run [unfolded set_evdev_def sthen_def sbind_Some]
  show "adapter_ok s' \<and> (is_ok r \<longrightarrow> adapter_idle s')"
  proof (elim disjE exE conjE)
    fix e assume "on_evdev (provider_drop (ao_evdev H)) (sreturn ()) s = Some (s', Inl e)" "r = Inl e"
    with keepsD [OF release ok] show ?thesis by simp
  next
    fix s1 u assume "adapter_upd (\<lambda>a. a\<lparr>ra_evdev := provider\<rparr>) s1 = Some (s', r)"
    with assms have "adapter_idle s'" by (auto simp: adapter_upd_def supd_def adapter_idle_def)
    then show ?thesis by (simp add: idle_ok)
  qed
qed

lemma keeps_set_uinput: "keeps adapter_idle (set_uinput H session)"
proof -
  have "keeps adapter_idle (adapter_upd (\<lambda>a. a\<lparr>ra_uinput := session\<rparr>))"
    unfolding adapter_upd_def by (rule keeps_supd) (simp add: adapter_idle_def)
  then show ?thesis
    unfolding set_uinput_def
    by (intro keeps_sthen keeps_supd) (auto simp: adapter_idle_def split: option.split)
qed

lemma opened_returns:
  "returns (ad_within (provider_open E paths mode leader all)) (provider_ok False)"
  unfolding returns_def ad_within_def using opened_ok
  by (fastforce simp: provider_inv_def)

lemma keeps_configure: "keeps adapter_ok (configure_input_provider H config leader)"
proof (cases config)
  case None
  have "keeps adapter_ok (sthen (set_evdev H None) (set_uinput H None))"
    by (intro keeps_settled set_evdev_settles keeps_set_uinput) simp
  with None show ?thesis by (simp add: configure_input_provider_def)
next
  case (Some cfg)
  have out: "keeps adapter_idle (configure_output H cfg)"
    unfolding configure_output_def by (intro keeps_intros keeps_idle keeps_set_uinput)
  have "keeps adapter_ok (sthen (set_evdev H (Some p)) (configure_output H cfg))" if "provider_ok False p" for p
    using that by (intro keeps_settled set_evdev_settles out) simp
  moreover have "keeps adapter_ok (selected_devices H cfg)"
    unfolding selected_devices_def by (intro keeps_intros keeps_ok)
  ultimately show ?thesis
    unfolding configure_input_provider_def Some option.case
    by (intro keeps_if keeps_sfail keeps_sbind keeps_sbind_returned [OF _ opened_returns] keeps_ok)
qed

lemma keeps_cancel: "keeps adapter_ok (cancel_pending H)"
  unfolding cancel_pending_def release_input_grab_def
  by (intro keeps_sbind keeps_sthen keeps_on_evdev keeps_settled set_evdev_settles keeps_ok
      keeps_option keeps_idle keeps_adapter_upd keeps_set_uinput keeps_intros of_inputs) simp_all

end
