(* ===== verification/EvdevProperties.thy ===== *)
theory EvdevProperties imports EvdevTurns begin

text \<open>
  Properties of the evdev provider: what holds of its devices after any sequence of operations, and
  that no device is passed over while the others have events.
\<close>

section \<open>The operations of a provider\<close>

text \<open>
  A provider that was opened is used by the adapter through its waits, its grab and its reads, on
  their successful and on their failing exits.
\<close>

inductive provider_use :: "'w evdev_os \<Rightarrow> 'w evdev_state \<Rightarrow> 'w evdev_state \<Rightarrow> bool"
  for H :: "'w evdev_os" where
  use_input: "wait_next_observed_input_event_or_runtime_fd H timeout fds s = Some (s', r)
    \<Longrightarrow> provider_use H s s'"
| use_motion: "wait_next_observed_motion_event_or_runtime_fd H timeout fds s = Some (s', r')
    \<Longrightarrow> provider_use H s s'"
| use_read: "next_observed_motion_event H s = Some (s', r'') \<Longrightarrow> provider_use H s s'"
| use_arm: "arm_grab H s = Some (s', u) \<Longrightarrow> provider_use H s s'"
| use_release: "release_grab H s = Some (s', u) \<Longrightarrow> provider_use H s s'"

inductive provider_reached ::
  "'w evdev_os \<Rightarrow> path list \<Rightarrow> input_provider_mode \<Rightarrow> motion_token option \<Rightarrow> bool
   \<Rightarrow> 'w evdev_state \<Rightarrow> bool"
  for H :: "'w evdev_os" and paths mode leader all where
  opened: "provider_open H paths mode leader all w = Some (w', Inr p)
    \<Longrightarrow> provider_reached H paths mode leader all \<lparr>es_world = w', es_provider = p\<rparr>"
| used: "provider_reached H paths mode leader all s \<Longrightarrow> provider_use H s s'
    \<Longrightarrow> provider_reached H paths mode leader all s'"

lemma use_keeps: "provider_use H s s' \<Longrightarrow> provider_inv (m = Grab) m a c s \<Longrightarrow> provider_inv (m = Grab) m a c s'"
  by (induction rule: provider_use.induct) (blast intro: keepsD keeps_intros keeps_arm_grab)+

lemma reached_sound:
  assumes "provider_reached H paths mode leader all s"
  shows "\<exists>c. provider_inv (mode = Grab) mode all c s \<and> set c \<subseteq> set paths"
  using assms
proof induction
  case (opened w w' p)
  note ok = opened_ok [OF opened]
  from provider_inv_armed [OF conjunct1 [OF ok]] conjunct2 [OF ok] show ?case by blast
next
  case (used s s')
  then show ?case using use_keeps by blast
qed

section \<open>A concrete system\<close>

text \<open>Two devices, a keyboard and a mouse, which always have the press of a key.\<close>

definition demo_evdev_os :: "unit evdev_os" where
  "demo_evdev_os = \<lparr>
     eo_open_file = (\<lambda>p w. (w, Inr (if p = ''keyboard'' then 3 else 4))),
     eo_device_name = (\<lambda>fd w. None),
     eo_capability_bits = (\<lambda>fd event_type w. if fd = 4 \<and> event_type = 2 then Some [1] else None),
     eo_set_nonblocking = (\<lambda>fd w. (w, Inr ())),
     eo_set_monotonic_event_clock = (\<lambda>fd w. w),
     eo_read_exact = (\<lambda>fd w. (w, EventBytes (replicate 16 0 @ [1, 0, 30, 0, 1, 0, 0, 0]))),
     eo_ioctl_grab = (\<lambda>fd grabbed w. (w, Inr ())),
     eo_poll = (\<lambda>fds timeout w. (w, Interrupted)),
     eo_open_monitor = (\<lambda>w. (w, None)),
     eo_drain_monitor = (\<lambda>fd w. (w, [])),
     eo_read_dir = (\<lambda>p w. Inr []),
     eo_now = (\<lambda>w. (w, 0)),
     eo_sleep = (\<lambda>d w. w)\<rparr>"

definition demo_provider :: evdev_provider where
  "demo_provider = \<lparr>
     ep_devices = [\<lparr>dv_path = ''keyboard'', dv_file = 3, dv_active = True, dv_grabbed = False, dv_pointer_capable = False\<rparr>,
                   \<lparr>dv_path = ''mouse'', dv_file = 4, dv_active = True, dv_grabbed = False, dv_pointer_capable = True\<rparr>],
     ep_configured_paths = [''keyboard'', ''mouse''], ep_leader = None, ep_grabbed = False,
     ep_next_device_index = 0, ep_all_devices = False, ep_mode = Grab, ep_last_rescan = 0,
     ep_skipped_paths = {}, ep_udev_monitor = None\<rparr>"

lemma demo_opened:
  "provider_open demo_evdev_os [''keyboard'', ''mouse''] Grab None False () = Some ((), Inr demo_provider)"
  by (simp add: provider_open_def device_open_def os_try_def device_is_pointer_capable_def
      device_has_code_def demo_evdev_os_def demo_provider_def effect_defs)

lemma demo_reached:
  "provider_reached demo_evdev_os [''keyboard'', ''mouse''] Grab None False \<lparr>es_world = (), es_provider = demo_provider\<rparr>"
  by (rule opened) (rule demo_opened)

definition demo_armed :: "unit evdev_state" where
  "demo_armed = \<lparr>es_world = (), es_provider = demo_provider\<lparr>
     ep_devices := [ep_devices demo_provider ! 0, (ep_devices demo_provider ! 1)\<lparr>dv_grabbed := True\<rparr>],
     ep_grabbed := True\<rparr>\<rparr>"

lemma demo_arms:
  "arm_grab demo_evdev_os \<lparr>es_world = (), es_provider = demo_provider\<rparr> = Some (demo_armed, Inr ())"
  by (simp add: arm_grab_def grab_pointer_devices_def grab_device_def on_device_def device_set_grabbed_def
      provider_upd_def on_provider_def set_device_def demo_evdev_os_def demo_provider_def demo_armed_def
      upt_rec effect_defs)

lemma demo_armed_reached:
  "provider_reached demo_evdev_os [''keyboard'', ''mouse''] Grab None False demo_armed"
  using demo_reached use_arm [OF demo_arms] by (rule used)

section \<open>What holds of the devices\<close>

text \<open>
  C36: whatever sequence of waits, reads, grabs and releases a provider that was opened goes
  through, with devices that are unplugged, found again and refused in between: its devices have
  different paths, only pointer devices are grabbed and only when the mode is to grab, the turn is
  that of a device, and without \<open>devices = "all"\<close> no device outside of the selected paths is read.
\<close>

theorem provider_devices_stay_sound:
  assumes "provider_reached H paths mode leader all s"
  shows "distinct (map dv_path (ep_devices (es_provider s)))
    \<and> list_all (\<lambda>d. dv_grabbed d \<longrightarrow> dv_pointer_capable d \<and> mode = Grab) (ep_devices (es_provider s))
    \<and> ep_next_device_index (es_provider s) < length (ep_devices (es_provider s))
    \<and> (all \<or> dv_path ` set (ep_devices (es_provider s)) \<subseteq> set paths)"
proof -
  from reached_sound [OF assms] obtain c where "provider_inv (mode = Grab) mode all c s" "set c \<subseteq> set paths" by blast
  then show ?thesis by (auto simp: provider_inv_def provider_ok_def list_all_iff)
qed

theorem provider_devices_stay_sound_witness:
  "dv_grabbed (ep_devices (es_provider demo_armed) ! 1)
   \<and> distinct (map dv_path (ep_devices (es_provider demo_armed)))
   \<and> dv_path ` set (ep_devices (es_provider demo_armed)) \<subseteq> {''keyboard'', ''mouse''}"
  using provider_devices_stay_sound [OF demo_armed_reached] by (simp add: demo_armed_def)

section \<open>Every device gets its turn\<close>

text \<open>
  C37: while no read fails, a device that always has events is heard within as many reads as there
  are devices, however many events the other devices have: the last of at most that many results is
  an event of it.
\<close>

theorem ready_device_is_heard:
  assumes "provider_reached H paths mode leader all s"
    and "k < length (ep_devices (es_provider s))"
    and "dv_active (ep_devices (es_provider s) ! k)"
    and "always_ready H (dv_file (ep_devices (es_provider s) ! k))"
    and "reads_never_fail H"
  shows "\<exists>m s' obs ob. m < length (ep_devices (es_provider s))
    \<and> observe_times H (Suc m) s = Some (s', Inr obs)
    \<and> last obs = Some ob \<and> oi_source ob = dv_path (ep_devices (es_provider s) ! k)"
proof -
  have "ep_next_device_index (es_provider s) < length (ep_devices (es_provider s))"
    using reached_sound [OF assms(1)] by (auto simp: provider_inv_def provider_ok_def)
  then obtain d where waits:
    "waits_at k (ep_devices (es_provider s) ! k) (length (ep_devices (es_provider s))) d s"
    using every_device_waits assms(2) by blast
  then have "d < length (ep_devices (es_provider s))" by (simp add: waits_at_def)
  with observed_within [OF assms(5,4,3) waits] show ?thesis using order.strict_trans1 by meson
qed

theorem ready_device_is_heard_witness:
  "\<exists>m s' obs ob. m < 2 \<and> observe_times demo_evdev_os (Suc m) demo_armed = Some (s', Inr obs)
    \<and> last obs = Some ob \<and> oi_source ob = ''mouse''"
proof -
  have "always_ready demo_evdev_os (dv_file (ep_devices (es_provider demo_armed) ! 1))"
    "reads_never_fail demo_evdev_os"
    by (simp_all add: always_ready_def reads_never_fail_def demo_evdev_os_def)
  with ready_device_is_heard [OF demo_armed_reached, of 1] show ?thesis
    by (simp add: demo_armed_def demo_provider_def numeral_2_eq_2)
qed

section \<open>Where the provider falls short\<close>

text \<open>
  A change of the devices that is reported while a descriptor of the runtime is readable too is
  taken from the monitor, but no rescan follows.
\<close>

lemma hotplug_beside_runtime_fd_is_lost:
  assumes "ep_udev_monitor (es_provider s) = Some monitor"
    and "filter dv_active (ep_devices (es_provider s)) = []"
    and "eo_poll H [monitor, fd] (min (as_millis timeout) i32_max) (es_world s) = (w, Polled 2 [True, True])"
    and "eo_drain_monitor H monitor w = (w', [(Add, Some ''/dev/input/event5'')])"
  shows "wait_for_readable_device H timeout [fd] s = Some (s\<lparr>es_world := w'\<rparr>, Inr (ReadyRuntimeFd fd))"
  using assms
  by (simp add: wait_for_readable_device_def poll_sources_def es_call_def srun_def drain_monitor_def
      sbind_def sget_def sreturn_def)

text \<open>
  A device that was unplugged is still asked to be grabbed. Its failure ends the arming, with the
  devices before it grabbed and out of reach of \<open>release_grab\<close>.
\<close>

lemma failed_arming_keeps_grabs:
  assumes "ep_mode (es_provider s) = Grab" "\<not> ep_grabbed (es_provider s)"
    and "ep_devices (es_provider s) = [d, e]" "dv_pointer_capable d" "dv_pointer_capable e"
    and "\<not> dv_grabbed d" "\<not> dv_grabbed e" "\<not> dv_active e"
    and "eo_ioctl_grab H (dv_file d) True (es_world s) = (w, Inr ())"
    and "eo_ioctl_grab H (dv_file e) True w = (w', Inl message)"
  shows "\<exists>s' err. arm_grab H s = Some (s', Inl err) \<and> dv_grabbed (ep_devices (es_provider s') ! 0)
    \<and> release_grab H s' = Some (s', Inr ())"
  using assms
  by (simp add: arm_grab_def grab_pointer_devices_def grab_device_def on_device_def device_set_grabbed_def
      provider_upd_def on_provider_def set_device_def release_grab_def upt_rec effect_defs)

end
