(* ===== verification/UinputProperties.thy ===== *)
theory UinputProperties imports UinputLaws ComponentProperties begin

text \<open>Properties of the output through uinput.\<close>

section \<open>Texts\<close>

text \<open>
  C39: A text is typed exactly or not at all. If every character is known, its events are written at
  once, and a US keyboard that delivers them types the text and ends with no key down; else nothing
  is written and the action fails.
\<close>

theorem text_is_typed_or_refused:
  "if list_all typeable t
   then \<exists>es. synthesize_action U s (TextInput t) = write_events U s es
     \<and> typed (read_events (concat (map event_as_bytes es))) = ({}, t)
   else \<exists>e. \<forall>w. synthesize_action U s (TextInput t) w = Some (w, Inl e)"
proof (cases "push_text_events t []")
  case (Inl e)
  with text_accepted [of t "[]"] have "\<not> list_all typeable t" by simp
  with Inl show ?thesis by (auto simp: sfail_def)
next
  case (Inr es)
  with text_accepted [of t "[]"] have "list_all typeable t" by simp
  moreover from text_typed [OF Inr, of "[]"] have "typed (read_events (concat (map event_as_bytes es))) = ({}, t)"
    by (auto simp: typed_def read_events_written)
  ultimately show ?thesis using Inr by auto
qed

section \<open>Keys\<close>

lemma sthen_sreturn: "sthen m (sreturn ()) = m"
  by (simp add: fun_eq_iff sthen_def sbind_def sreturn_def split: option.splits prod.splits sum.splits)

lemma key_press_form:
  assumes "macro_key key = Inr (KeyPress k)"
  obtains mods t n where "bs_ok mods" "key_token_parse n = Inr t" "k = hotkey_render mods (kt_name t)"
proof -
  from assms have parsed: "parse_key_name key ''key action requires a non-empty key'' True = Inr k"
    by (simp add: macro_key_def)
  show ?thesis
  proof (cases "List.member key (CHR ''+'')")
    case True
    with parsed have "hotkey_parse key = Inr k" by (simp add: parse_key_name_def)
    with hotkey_parse_form that show ?thesis by blast
  next
    case False
    with parsed obtain t where "key_token_parse key = Inr t" "k = kt_name t"
      by (auto simp: parse_key_name_def split: sum.splits)
    then show ?thesis using that [of "[]" key t] by (simp add: hotkey_render_def bs_ok_def)
  qed
qed

lemma render_join:
  "hotkey_render mods name = join ''+'' (map modifier_as_str mods @ [name])"
  by (cases "mods = []") (simp_all add: hotkey_render_def modifier_set_describe_def join_snoc)

lemma render_parts:
  assumes "CHR ''+'' \<notin> set name"
  shows "split_on (CHR ''+'') (hotkey_render mods name) = map modifier_as_str mods @ [name]"
  unfolding render_join using assms modifier_no_plus by (intro split_on_join) auto

lemma plus_parts:
  "split_on (CHR ''+'') (hotkey_render mods ''+'') = map modifier_as_str mods @ [[], []]"
proof -
  have "hotkey_render mods ''+'' = join ''+'' (map modifier_as_str mods @ [[], []])"
  proof (cases "mods = []")
    case False
    have "join ''+'' (map modifier_as_str mods @ [[], []]) = join ''+'' ((map modifier_as_str mods @ [[]]) @ [[]])"
      by simp
    also have "\<dots> = join ''+'' (map modifier_as_str mods) @ ''++''"
      using False by (subst join_snoc) (simp_all add: join_snoc)
    finally show ?thesis using False by (simp add: hotkey_render_def modifier_set_describe_def)
  qed (simp add: hotkey_render_def)
  then show ?thesis
    using split_on_join [of "map modifier_as_str mods @ [[], []]" "CHR ''+''"] modifier_no_plus by auto
qed

text \<open>
  C40: A key action that the configuration accepts is emitted as it says: the modifiers go down in
  their order, the key goes down and up, the modifiers go up in the opposite order. The one exception
  is the plus key of the keypad, whose action always fails.
\<close>

theorem accepted_key_is_pressed:
  assumes "macro_key key = Inr (KeyPress k)"
  shows "\<exists>mods t. k = hotkey_render mods (kt_name t) \<and> from_evdev_code (kt_code t) = Some t
    \<and> (if kt_name t = ''+'' then synthesize_action U s (KeyPress k) = sfail (unsupported_key k)
       else \<exists>writes. synthesize_action U s (KeyPress k) = seach (write_events U s) writes
         \<and> key_changes (concat writes) = map (\<lambda>m. (modifier_code m, 1)) mods
             @ [(word_of_nat (kt_code t), 1), (word_of_nat (kt_code t), 0)]
             @ map (\<lambda>m. (modifier_code m, 0)) (rev mods))"
proof -
  obtain mods t n where parsed: "key_token_parse n = Inr t" and k: "k = hotkey_render mods (kt_name t)"
    using key_press_form [OF assms] by metis
  note shape = parsed_name_shape [OF parsed]
  have code: "named_key_code (kt_name t) = Some (word_of_nat (kt_code t))"
    using parsed_name_reparses [OF parsed] by (simp add: named_key_code_def)
  have looked: "from_evdev_code (kt_code t) = Some t" using parsed by (rule parsed_code_looks_up)
  show ?thesis
  proof (cases "kt_name t = ''+''")
    case True
    have "CHR ''+'' \<in> set k" unfolding k True by (cases mods) (simp_all add: hotkey_render_def)
    moreover have "named_key_chord_events k = None"
      unfolding named_key_chord_events_def k True plus_parts by (simp add: trim_def)
    ultimately have "synthesize_action U s (KeyPress k) = sfail (unsupported_key k)"
      by (simp add: emit_named_key_def)
    with True k looked show ?thesis by auto
  next
    case False
    then have np: "CHR ''+'' \<notin> set (kt_name t)" using shape(3) by blast
    show ?thesis
    proof (cases "mods = []")
      case True
      then have "k = kt_name t" using k by (simp add: hotkey_render_def)
      then have "synthesize_action U s (KeyPress k) = seach (write_events U s)
          [key_events (word_of_nat (kt_code t)) 1, key_events (word_of_nat (kt_code t)) 0]"
        using np code by (simp add: emit_named_key_def emit_key_def sthen_sreturn)
      with False True k looked show ?thesis
        by (intro exI [of _ mods] exI [of _ t]) (auto intro!: exI [of _ "[key_events (word_of_nat (kt_code t)) 1,
            key_events (word_of_nat (kt_code t)) 0]"])
    next
      case nonempty: False
      let ?es = "chord_events (map modifier_code mods) (word_of_nat (kt_code t))"
      have "CHR ''+'' \<in> set k" unfolding k using nonempty by (simp add: hotkey_render_def)
      moreover have "named_key_chord_events k = Some ?es"
      proof -
        let ?ws = "map modifier_as_str mods @ [kt_name t]"
        have trimmed: "map trim ?ws = ?ws" using shape(2) by simp
        have "\<not> (length ?ws < 2 \<or> list_ex (\<lambda>part. part = []) ?ws)"
          using nonempty shape(1) by (cases mods) (auto simp: list_ex_iff dest: sym [of "[]"])
        moreover have "last ?ws = kt_name t" "butlast ?ws = map modifier_as_str mods" by simp_all
        ultimately show ?thesis
          unfolding named_key_chord_events_def k render_parts [OF np] trimmed Let_def
          by (simp only: code those_modifiers) simp
      qed
      ultimately have "synthesize_action U s (KeyPress k) = seach (write_events U s) [?es]"
        by (simp add: emit_named_key_def sthen_sreturn)
      moreover have "key_changes (concat [?es]) = map (\<lambda>m. (modifier_code m, 1)) mods
          @ [(word_of_nat (kt_code t), 1), (word_of_nat (kt_code t), 0)]
          @ map (\<lambda>m. (modifier_code m, 0)) (rev mods)"
        by (simp add: chord_events_def comp_def rev_map)
      ultimately show ?thesis using False k looked by metis
    qed
  qed
qed

lemma f6_accepted: "macro_key ''F6'' = Inr (KeyPress ''F6'')"
  using f6_parses f6_name by (simp add: macro_key_def parse_key_name_def)

theorem accepted_key_is_pressed_witness:
  "macro_key ''F6'' = Inr (KeyPress ''F6'')
   \<and> (\<exists>mods (t :: key_token). ''F6'' = hotkey_render mods (kt_name t))"
  using accepted_key_is_pressed [OF f6_accepted, of undefined undefined] f6_accepted by blast

text \<open>The plus key of the keypad is accepted in a macro, as \<open>+\<close>, and never emitted.\<close>

lemma keypad_plus_is_never_pressed:
  "macro_key ''KPPLUS'' = Inr (KeyPress ''+'')
   \<and> synthesize_action U s (KeyPress ''+'') = sfail (unsupported_key ''+'')
   \<and> macro_key_down ''KPPLUS'' = Inr (KeyDown ''+'')
   \<and> (\<exists>e. synthesize_action U s (KeyDown ''+'') = sfail e)"
proof -
  have "named_key_chord_events ''+'' = None"
    using plus_parts [of "[]"] by (simp add: named_key_chord_events_def hotkey_render_def trim_def)
  then show ?thesis
    using kpplus_parses kpplus_name
    by (auto simp: macro_key_def macro_key_down_def parse_key_name_def emit_named_key_def emit_named_key_state_def)
qed

section \<open>Events that are passed through\<close>

text \<open>An event of a device that is passed through is read from the output device as it was.\<close>

lemma passed_event_is_read_back:
  assumes "should_passthrough raw"
  shows "\<exists>es. passthrough_raw U s raw = write_events U s es
    \<and> read_events (concat (map event_as_bytes es))
       = [raw\<lparr>re_kernel_timestamp := kernel_event_timestamp.Unavailable\<rparr>]"
  using assms unfolding passthrough_raw_def
  by (intro exI [of _ "[input_event (re_event_type raw) (re_code raw) (re_value raw)]"])
     (simp only: read_events_written, simp add: as_read_def input_event_def)

section \<open>The requests to the device\<close>

text \<open>The numbers of the requests are those of the kernel's \<open>uinput.h\<close>.\<close>

lemma uinput_requests:
  "ioctl_dev_create = 0x5501" "ioctl_dev_destroy = 0x5502" "ioctl_dev_setup = 0x405C5503"
  "ioctl_set_evbit = 0x40045564" "ioctl_set_keybit = 0x40045565" "ioctl_set_relbit = 0x40045566"
  by (simp_all add: ioctl_dev_create_def ioctl_dev_destroy_def ioctl_dev_setup_def ioctl_set_evbit_def
      ioctl_set_keybit_def ioctl_set_relbit_def ioctl_request_def)

end
