(* ===== verification/AdapterProperties.thy ===== *)
theory AdapterProperties imports AdapterLaws EvdevProperties UinputProperties begin

text \<open>
  Properties of the adapter: the events of devices that it has grabbed can be passed through.
\<close>

section \<open>The life of an adapter\<close>

inductive adapter_use :: "'w adapter_os \<Rightarrow> 'w adapter_state \<Rightarrow> 'w adapter_state \<Rightarrow> bool"
  for H :: "'w adapter_os" where
  "configure_input_provider H config leader s = Some (s', r1) \<Longrightarrow> adapter_use H s s'"
| "wait_next_input_or_runtime_fd H timeout fds s = Some (s', r2) \<Longrightarrow> adapter_use H s s'"
| "wait_next_motion_input_or_runtime_fd H timeout fds s = Some (s', r3) \<Longrightarrow> adapter_use H s s'"
| "wait_next_motion_input_event H timeout s = Some (s', r4) \<Longrightarrow> adapter_use H s s'"
| "next_input_event H s = Some (s', r5) \<Longrightarrow> adapter_use H s s'"
| "next_motion_input_event H s = Some (s', r6) \<Longrightarrow> adapter_use H s s'"
| "arm_input_grab H s = Some (s', r7) \<Longrightarrow> adapter_use H s s'"
| "release_input_grab H s = Some (s', r7) \<Longrightarrow> adapter_use H s s'"
| "passthrough_raw_input H raw s = Some (s', r7) \<Longrightarrow> adapter_use H s s'"
| "execute_input_request H request s = Some (s', r8) \<Longrightarrow> adapter_use H s s'"
| "ensure_active_process_provider H s = Some (s', r7) \<Longrightarrow> adapter_use H s s'"
| "adapter_process_context H s = Some (s', r9) \<Longrightarrow> adapter_use H s s'"
| "next_shortcut_event H s = Some (s', r10) \<Longrightarrow> adapter_use H s s'"
| "take_callback_dropped_count H s = Some (s', r11) \<Longrightarrow> adapter_use H s s'"
| "adapter_register H binding s = Some (s', r12) \<Longrightarrow> adapter_use H s s'"
| "register_internal_hotkey H hotkey s = Some (s', r12) \<Longrightarrow> adapter_use H s s'"
| "unregister_internal_hotkey H rid s = Some (s', r13) \<Longrightarrow> adapter_use H s s'"
| "unregister_all H s = Some (s', r7) \<Longrightarrow> adapter_use H s s'"
| "close_screen_cast_session H s = Some (s', r13) \<Longrightarrow> adapter_use H s s'"
| "cancel_pending H s = Some (s', r7) \<Longrightarrow> adapter_use H s s'"

inductive adapter_reached :: "'w adapter_os \<Rightarrow> kde_environment option \<Rightarrow> 'w adapter_state \<Rightarrow> bool"
  for H :: "'w adapter_os" and environment where
  fresh: "adapter_reached H environment \<lparr>as_world = w, as_adapter = adapter_new environment\<rparr>"
| after: "adapter_reached H environment s \<Longrightarrow> adapter_use H s s' \<Longrightarrow> adapter_reached H environment s'"

named_theorems adapter_keeps \<open>operations that keep the invariant of the adapter\<close>

lemma keeps_input_operations [adapter_keeps]:
  "keeps adapter_ok (configure_input_provider H config leader)"
  "keeps adapter_ok (wait_next_input_or_runtime_fd H timeout fds)"
  "keeps adapter_ok (wait_next_motion_input_or_runtime_fd H timeout fds)"
  "keeps adapter_ok (wait_next_motion_input_event H timeout)"
  "keeps adapter_ok (next_input_event H)" "keeps adapter_ok (next_motion_input_event H)"
  "keeps adapter_ok (arm_input_grab H)" "keeps adapter_ok (release_input_grab H)"
  "keeps adapter_ok (passthrough_raw_input H raw)" "keeps adapter_ok (cancel_pending H)"
proof -
  have sleep: "keeps adapter_ok (adapter_sleep H timeout)"
    unfolding adapter_sleep_def by (intro keeps_intros keeps_ok)
  have runtime: "keeps adapter_ok (wait_runtime_fd H timeout fds)"
    unfolding wait_runtime_fd_def by (intro keeps_intros keeps_ok sleep)
  show "keeps adapter_ok (wait_next_input_or_runtime_fd H timeout fds)"
    "keeps adapter_ok (wait_next_motion_input_or_runtime_fd H timeout fds)"
    unfolding wait_next_input_or_runtime_fd_def wait_next_motion_input_or_runtime_fd_def
    by (intro keeps_on_evdev keeps_intros runtime)+
  show "keeps adapter_ok (wait_next_motion_input_event H timeout)"
    unfolding wait_next_motion_input_event_def by (intro keeps_on_evdev keeps_intros sleep)
  show "keeps adapter_ok (next_input_event H)" "keeps adapter_ok (next_motion_input_event H)"
    "keeps adapter_ok (release_input_grab H)"
    unfolding next_input_event_def next_motion_input_event_def release_input_grab_def
    by (intro keeps_on_evdev keeps_intros)+
  show "keeps adapter_ok (passthrough_raw_input H raw)"
    unfolding passthrough_raw_input_def by (intro keeps_intros keeps_ok)
qed (rule keeps_configure keeps_arm_input_grab keeps_cancel)+

lemma keeps_bridge: "keeps adapter_ok (ensure_bridge H)"
  unfolding ensure_bridge_def by (intro keeps_intros keeps_ok keeps_adapter_upd of_inputs) simp_all

lemma keeps_emit: "keeps adapter_ok (emit_request H session action)"
  by (cases action)
     (auto simp: emit_keysym_def emit_keysym_state_def portal_key_def intro!: keeps_intros keeps_ok)

lemma keeps_portal: "keeps adapter_ok (ensure_portal H)" "keeps adapter_ok (portal_synthesize H portal request)"
proof -
  have "keeps adapter_ok (portal_open H)"
    unfolding portal_open_def by (intro keeps_intros keeps_ok)
  then show "keeps adapter_ok (ensure_portal H)"
    unfolding ensure_portal_def by (intro keeps_intros keeps_ok keeps_adapter_upd of_inputs) simp_all
  show "keeps adapter_ok (portal_synthesize H portal request)"
    unfolding portal_synthesize_def by (intro keeps_intros keeps_emit)
qed

lemma keeps_other_calls [adapter_keeps]:
  "keeps adapter_ok (execute_input_request H request)"
  "keeps adapter_ok (ensure_active_process_provider H)" "keeps adapter_ok (adapter_process_context H)"
  "keeps adapter_ok (next_shortcut_event H)" "keeps adapter_ok (take_callback_dropped_count H)"
  "keeps adapter_ok (unregister_internal_hotkey H rid)"
  "keeps adapter_ok (unregister_all H)" "keeps adapter_ok (close_screen_cast_session H)"
  unfolding execute_input_request_def ensure_active_process_provider_def adapter_process_context_def
    next_shortcut_event_def take_callback_dropped_count_def unregister_internal_hotkey_def
    unregister_all_def close_screen_cast_session_def
  by (intro keeps_intros keeps_ok keeps_portal keeps_bridge keeps_adapter_upd of_inputs; simp)+

lemma keeps_register [adapter_keeps]: "keeps adapter_ok (adapter_register H binding)"
  unfolding adapter_register_def
  by (cases "hb_trigger binding")
     (auto intro!: keeps_intros keeps_ok keeps_bridge keeps_adapter_upd)

lemma keeps_register_internal [adapter_keeps]: "keeps adapter_ok (register_internal_hotkey H hotkey)"
  unfolding register_internal_hotkey_def by (rule keeps_register)

lemma use_ok: "adapter_use H s s' \<Longrightarrow> adapter_ok s \<Longrightarrow> adapter_ok s'"
  by (induction rule: adapter_use.induct) (erule (1) keepsD [rotated], rule adapter_keeps)+

lemma reached_ok: "adapter_reached H environment s \<Longrightarrow> adapter_ok s"
proof (induction rule: adapter_reached.induct)
  case (fresh w)
  then show ?case by (simp add: adapter_ok_def adapter_new_def)
next
  case (after s s')
  then show ?case using use_ok by blast
qed

section \<open>Grabbed events\<close>

lemma grabbed_has_output:
  assumes "adapter_ok s"
    and run: "wait_next_input_or_runtime_fd H timeout fds s = Some (s', Inr (evdev_input_wait_outcome.Input ob))"
    and "oi_grabbed ob"
  shows "ra_uinput (as_adapter s') \<noteq> None"
proof (cases "ra_evdev (as_adapter s)")
  case None
  have "returns (sbind (wait_runtime_fd H timeout fds) (\<lambda>fd. sreturn (case fd of
      None \<Rightarrow> evdev_input_wait_outcome.Timeout | Some fd \<Rightarrow> RuntimeFd fd)))
      (\<lambda>outcome. outcome \<noteq> evdev_input_wait_outcome.Input ob)"
    by (intro returns_intros) (simp split: option.split)
  with None run show ?thesis
    by (auto simp: wait_next_input_or_runtime_fd_def on_evdev_def dest: returnsD)
next
  case (Some p)
  let ?I = "\<lambda>g. provider_inv g (ep_mode p) (ep_all_devices p) (ep_configured_paths p)"
  from run Some obtain es where es: "wait_next_observed_input_event_or_runtime_fd (ao_evdev H) timeout fds
      \<lparr>es_world = as_world s, es_provider = p\<rparr> = Some (es, Inr (evdev_input_wait_outcome.Input ob))"
    and same: "ra_uinput (as_adapter s') = ra_uinput (as_adapter s)"
    by (auto simp: wait_next_input_or_runtime_fd_def on_evdev_def)
  show ?thesis
  proof
    assume "ra_uinput (as_adapter s') = None"
    with assms(1) Some same have "?I False \<lparr>es_world = as_world s, es_provider = p\<rparr>"
      by (simp add: adapter_ok_def may_grab_def provider_inv_def)
    from yieldsD [OF wait_ungrabbed this es] assms(3) show False by simp
  qed
qed


section \<open>A concrete adapter\<close>

definition demo_uinput_os :: "unit uinput_os" where
  "demo_uinput_os = \<lparr>
     uo_open = (\<lambda>p w. (w, Inr 5)), uo_ioctl = (\<lambda>fd request value w. (w, Inr ())),
     uo_ioctl_setup = (\<lambda>fd request setup w. (w, Inr ())), uo_write_all = (\<lambda>fd bytes w. (w, Inr ()))\<rparr>"

definition demo_adapter_os :: "kde_environment \<Rightarrow> unit adapter_os" where
  "demo_adapter_os environment = \<lparr>
     ao_evdev = demo_evdev_os, ao_uinput = demo_uinput_os, ao_process_environment = (\<lambda>w. environment),
     ao_open_remote_desktop = (\<lambda>w. (w, Inr 0)), ao_notify_keysym = (\<lambda>h k pressed w. (w, Inr ())),
     ao_notify_button = (\<lambda>h b pressed w. (w, Inr ())), ao_close_remote_desktop = (\<lambda>h w. w),
     ao_close_screen_cast = (\<lambda>h w. (w, cleanup_empty)), ao_cleanup_overlays = (\<lambda>w. (w, Inr cleanup_empty)),
     ao_bridge_connect = (\<lambda>w. (w, Inr 0)), ao_bridge_unload = (\<lambda>b w. (w, Inr cleanup_empty)),
     ao_ensure_process_monitor = (\<lambda>b w. (w, Inr ())), ao_register_shortcut = (\<lambda>b binding w. (w, Inr ''shortcut'')),
     ao_unregister_shortcut = (\<lambda>b i w. (w, Inr cleanup_empty)),
     ao_active_process_context = (\<lambda>b w. context_unavailable [] 0),
     ao_next_shortcut_event = (\<lambda>b w. (w, None)), ao_take_callback_dropped_count = (\<lambda>b w. (w, 0))\<rparr>"

definition demo_input :: input_provider_config where
  "demo_input = \<lparr>ip_backend = Evdev, ip_mode = Grab, ip_output = Uinput,
     ip_devices = [''keyboard'', ''mouse''], ip_all_devices = False, ip_interactive_devices = False\<rparr>"

definition demo_session :: uinput_session where
  "demo_session = \<lparr>us_file = 5, us_path = ''/dev/uinput'', us_active = True\<rparr>"

definition demo_adapter :: "kde_environment \<Rightarrow> evdev_provider \<Rightarrow> unit adapter_state" where
  "demo_adapter environment provider = \<lparr>as_world = (),
     as_adapter = (adapter_new (Some environment))\<lparr>ra_uinput := Some demo_session, ra_evdev := Some provider\<rparr>\<rparr>"

definition demo_turn :: "nat \<Rightarrow> evdev_provider" where
  "demo_turn i = (es_provider demo_armed)\<lparr>ep_next_device_index := i\<rparr>"

lemma seach_returns: "(\<And>x. f x s = Some (s, Inr ())) \<Longrightarrow> seach f xs s = Some (s, Inr ())"
  by (induction xs) (simp_all add: sthen_def sbind_def sreturn_def)

lemma demo_uinput_opens: "uinput_open demo_uinput_os () = Some ((), Inr demo_session)"
proof -
  have ioctl: "session_ioctl demo_uinput_os s request value () = Some ((), Inr ())" for s request "value"
    by (simp add: session_ioctl_def os_try_def stry_def demo_uinput_os_def)
  have "session_configure demo_uinput_os s () = Some ((), Inr ())" for s
    unfolding session_configure_def by (simp add: sthen_def sbind_def ioctl seach_returns)
  moreover have "session_create demo_uinput_os s () = Some ((), Inr (s\<lparr>us_active := True\<rparr>))" for s
    by (simp add: session_create_def session_ioctl_setup_def os_try_def stry_def demo_uinput_os_def sthen_def
        sbind_def sreturn_def session_ioctl_def)
  ultimately show ?thesis
    by (simp add: uinput_open_def open_path_def uinput_path_def demo_session_def os_try_def stry_def sthen_def
        sbind_def demo_uinput_os_def Let_def)
qed

lemma demo_configured:
  "configure_input_provider (demo_adapter_os environment) (Some demo_input) None
     \<lparr>as_world = (), as_adapter = adapter_new (Some environment)\<rparr>
   = Some (demo_adapter environment demo_provider, Inr ())"
  using demo_opened demo_uinput_opens
  by (simp add: configure_input_provider_def demo_input_def selected_devices_def configure_output_def
      set_evdev_def set_uinput_def on_evdev_def ad_within_def adapter_upd_def adapter_new_def demo_adapter_def
      demo_adapter_os_def sthen_def sbind_def sreturn_def supd_def)

lemma demo_adapter_arms:
  "arm_input_grab (demo_adapter_os environment) (demo_adapter environment demo_provider)
   = Some (demo_adapter environment (demo_turn 0), Inr ())"
  using demo_arms
  by (simp add: arm_input_grab_def the_adapter_def on_evdev_def demo_adapter_def demo_adapter_os_def
      demo_turn_def demo_armed_def demo_provider_def)

definition demo_event :: "nat \<Rightarrow> observed_input_event" where
  "demo_event i =
     (let raw = raw_input_event_of (replicate 16 0 @ [1, 0, 30, 0, 1, 0, 0, 0]);
          d = ep_devices (es_provider demo_armed) ! i
      in \<lparr>oi_raw = raw, oi_event = decode_raw_input_event raw, oi_source = dv_path d,
          oi_grabbed = dv_grabbed d, oi_observed_at = 0\<rparr>)"

lemma demo_waits:
  assumes "i < 2"
  shows "wait_next_input_or_runtime_fd (demo_adapter_os environment) timeout fds (demo_adapter environment (demo_turn i))
   = Some (demo_adapter environment (demo_turn ((i + 1) mod 2)), Inr (evdev_input_wait_outcome.Input (demo_event i)))"
proof -
  have as_leader_None: "as_leader None = id" by (simp add: fun_eq_iff as_leader_def)
  from assms have "i = 0 \<or> i = 1" by auto
  then show ?thesis
    by (elim disjE)
       (simp_all add: wait_next_input_or_runtime_fd_def on_evdev_def demo_adapter_def demo_adapter_os_def
          wait_next_observed_input_event_or_runtime_fd_def next_observed_input_event_def device_in_turn_def
          observed_input_def on_device_def device_next_raw_event_def demo_evdev_os_def demo_turn_def demo_armed_def
          demo_provider_def demo_event_def provider_upd_def on_provider_def set_device_def turn_after_def es_call_def
          upt_rec effect_defs as_leader_None option.map_id Let_def numeral_2_eq_2)
qed

lemma demo_adapter_reached:
  "adapter_reached (demo_adapter_os environment) (Some environment) (demo_adapter environment (demo_turn 1))"
proof -
  have "adapter_reached (demo_adapter_os environment) (Some environment)
      \<lparr>as_world = (), as_adapter = adapter_new (Some environment)\<rparr>" by (rule fresh)
  from after [OF this adapter_use.intros(1) [OF demo_configured]]
  have "adapter_reached (demo_adapter_os environment) (Some environment) (demo_adapter environment demo_provider)" .
  from after [OF this adapter_use.intros(7) [OF demo_adapter_arms]]
  have "adapter_reached (demo_adapter_os environment) (Some environment) (demo_adapter environment (demo_turn 0))" .
  from after [OF this adapter_use.intros(2) [OF demo_waits]] show ?thesis by simp
qed

definition demo_desktop :: kde_environment where
  "demo_desktop = environment_from_process_env (\<lambda>_. None) (Inl ''no bus'')"


end
