(* ===== verification/Spec2Isabelle.thy ===== *)
theory Spec2Isabelle imports ComponentProperties ControllerProperties LuaProperties DoctorProperties
  AdapterProperties begin

text \<open>
  Signal Auras is a Rust program that runs Lua-configured macros under KDE Plasma Wayland: hotkeys
  come from KGlobalAccel, motions (key sequences) and presses from evdev devices, and their macros
  are emitted through the portal or uinput while the window in focus belongs to their scope. This
  library models the program's own logic, \<open>crates/signal-auras-core\<close>, the Lua sandbox and the
  starts, lifecycles and doctors of \<open>crates/signal-auras-cli\<close> and the adapter, the evdev
  provider and the uinput output of \<open>crates/signal-auras-wayland\<close>, over an arbitrary operating system.

  Parts, theory by theory (the Rust files are under \<open>src/crates\<close>):

  \<^item> \<open>Prelude\<close>, \<open>Containers\<close>, \<open>Effects\<close>: what the code uses of Rust's standard library (strings,
    results, durations in nanoseconds, saturating arithmetic), the ordered maps and sets of
    \<open>std::collections\<close> as sorted lists, and computations that change a state, may fail and may
    not return.
  \<^item> \<open>Errors\<close> (\<open>core/error.rs\<close>), \<open>Capabilities\<close> (\<open>wayland/capability.rs\<close>): errors, capabilities,
    reports and the probe of the KDE session.
  \<^item> \<open>Keys\<close>, \<open>KeyTable\<close> (\<open>core/key.rs\<close>, \<open>core/key_table.txt\<close>), \<open>Hotkeys\<close> (\<open>core/hotkey.rs\<close>): key
    names, hotkeys and triggers. \<open>KeyTable\<close> checks the generated table entry by entry, in blocks.
  \<^item> \<open>Macros\<close> (\<open>core/macro_plan.rs\<close>), \<open>Motions\<close> (\<open>core/motion.rs\<close>), \<open>Scopes\<close> (\<open>core/scope.rs\<close>,
    \<open>core/consent.rs\<close>), \<open>Config\<close> (\<open>core/config.rs\<close>), \<open>Stats\<close> (\<open>core/stats.rs\<close>), \<open>Controllers\<close>
    (\<open>core/controller.rs\<close>): the core's data and operations. \<open>Recognition\<close> gives the motion runtime
    its specification in terms of the history of presses and proves it by a ghost history.
  \<^item> \<open>MacroQueue\<close>, \<open>LiveState\<close>, \<open>DevMode\<close>, \<open>Runner\<close> (\<open>cli/runner.rs\<close>, \<open>cli/runner/runtime_loop.rs\<close>,
    the event records of \<open>wayland/evdev.rs\<close>): the queue of macro runs, the outcome of a wait, the
    developer shortcuts and the loop \<open>run_live_real_lifecycle\<close> with its handlers. Every call of the
    adapter is a field of a record over a world of any type, so it may answer anything; reads of
    the clock are such calls.
  \<^item> \<open>Floats\<close>, \<open>Screens\<close>, \<open>Trackers\<close>, \<open>Polling\<close> (\<open>core/screen_state.rs\<close>): screen samples, regions,
    detectors with their phase rules and cooldown histories, sets of trackers and the poller. The
    operations of \<open>f32\<close> and \<open>f64\<close> are the fields of a record over a type of floats. \<open>TrackerLaws\<close>
    states what every poll keeps in the locale \<open>poll_invariant\<close>.
  \<^item> \<open>Overlays\<close> (\<open>core/overlay.rs\<close>), \<open>OverlayLaws\<close>: overlays, the accepted sets and the snapshots
    drawn over tracker states.
  \<^item> \<open>LuaRuntime\<close> (\<open>lua/runtime.rs\<close>), \<open>ControllerPrograms\<close> (\<open>core/controller.rs\<close>), \<open>LiveOverlays\<close>,
    \<open>ControllerTasks\<close> (\<open>cli/runner/controller.rs\<close>), \<open>ControllerLoop\<close> (\<open>cli/runner.rs\<close>): the live loop
    of a Lua controller. The interpreter is a record of the calls of the mlua package.
  \<^item> \<open>LuaText\<close>, \<open>LuaTables\<close>, \<open>LuaConfig\<close>, \<open>LuaControllers\<close>, \<open>LuaSources\<close>, \<open>LuaScreens\<close>
    (\<open>lua/sandbox.rs\<close>, \<open>lua/sandbox_policy.rs\<close>): the sandbox, which reads configurations,
    registrations, trackers and overlays from the text of a script without running it, and the walk
    over a controller's imports. The run of a controller in the validation sandbox and the file
    system are arguments. \<open>LuaTextLaws\<close> gives the scanners their specifications (a grammar of
    balanced texts and a small lexer), \<open>LuaConfigLaws\<close> what an accepted configuration has.
  \<^item> \<open>Blocking\<close> (\<open>cli/runner.rs\<close>): the lifecycles that take one event at a time from a source and
    execute a macro to its end before the next. \<open>BlockingLaws\<close> states in the locales
    \<open>lifecycle_handlers\<close>, \<open>requests_logged\<close> and \<open>ending_source\<close> what each handler keeps, that the
    requests are those of the plans and that a run whose events end returns; \<open>BlockingProperties\<close>
    interprets them.
  \<^item> \<open>InputCache\<close> (\<open>cli/input_cache.rs\<close>): the cache of the selected input devices, its text and
    its validation, and the selection. \<open>InputCacheLaws\<close>, \<open>InputCacheProperties\<close>: the text is read
    back, and a selection is usable and remembered. Paths and texts are UTF-8 bytes there.
  \<^item> \<open>RunArguments\<close>, \<open>Startup\<close>, \<open>Starts\<close>, \<open>Doctor\<close> (\<open>cli/runner.rs\<close>, \<open>cli/runner/lifecycle.rs\<close>,
    \<open>cli/logging.rs\<close>): the command line, the six ways to start a run with the cleanup of the
    adapter, and the doctor's reports. \<open>StartProperties\<close> follows the cleanup session through every
    exit, with rules for the two exits of an operation from \<open>Effects\<close>; \<open>DoctorProperties\<close> relates the
    doctor's verdict to what the start then does.
  \<^item> \<open>Evdev\<close>, \<open>EvdevProvider\<close> (\<open>wayland/evdev.rs\<close>): the decoding of events, a device and the provider,
    which reads its devices in turn, grabs them, waits for them and finds them again. \<open>EvdevLaws\<close>
    states what every operation keeps, \<open>EvdevTurns\<close> that the distance to a device with events
    shrinks; \<open>EvdevProperties\<close> draws the properties. The system calls are the record \<open>evdev_os\<close>.
  \<^item> \<open>Uinput\<close> (\<open>wayland/uinput.rs\<close>): the virtual device, the events of an action and their bytes.
    \<open>UinputLaws\<close> reads the bytes back as evdev does and gives them a meaning by a keyboard of the
    US layout; \<open>UinputProperties\<close> draws the properties.
  \<^item> \<open>Adapter\<close> (\<open>wayland/adapter.rs\<close>, \<open>wayland/portal.rs\<close>, \<open>wayland/input.rs\<close>): the adapter that owns the
    provider, the uinput session, the input portal and the bridge to KWin. \<open>AdapterLaws\<close> ties the
    grab to the output, \<open>AdapterProperties\<close> follows the adapter through its life. The loops of the
    runner keep an adapter that may answer anything.
  \<^item> \<open>LiveInvariants\<close>, \<open>LiveSafety\<close>: what every handler of the macro loop keeps, stated once in the
    locales \<open>live_handlers\<close> and \<open>live_invariant\<close> and interpreted for the queue and for the motion
    runtime, and what the handlers do while scoped focus is inactive. \<open>ControllerInvariants\<close>,
    \<open>ControllerLaws\<close> and \<open>ControllerSafety\<close> do the same for the controller loop: the locale
    \<open>controller_invariant\<close> is interpreted for the motion runtime, the trackers and the callbacks in
    flight. \<open>Scenarios\<close> holds closed examples; \<open>ComponentProperties\<close>, \<open>TrackerProperties\<close>,
    \<open>ControllerProperties\<close>, \<open>LuaProperties\<close> and this theory hold the properties.

  Termination and bounds. The loops over the adapter's queues and the event loop are
  \<open>partial_function\<close>s: they end only when the adapter says so, and \<open>pending_input_is_drained\<close> states
  when they do. The blocking lifecycles end with their source of events (\<open>blocking_run_returns\<close>). The
  walk over imports is one too, and \<open>source_trees_are_loaded\<close> proves that it ends.
  The fuel of \<open>run_at_deadlines\<close> counts polls; a run of n actions needs at most 2 n + 1, which
  \<open>polled_run_is_blocking_run\<close> proves enough. Counters and percentiles are 64-bit words that wrap.

  Not modelled: log lines and their formatting; the globals and API tables that the sandbox installs
  in the interpreter of the mlua package; the terminal of the prompts; the D-Bus calls of the portals
  and of the bridge to KWin, the drawing of overlays, screen samples, the runtime file descriptors
  and the probe of the device files, which are calls of the lifecycles and of the adapter; the system
  calls behind evdev and uinput.
\<close>

section \<open>Scoped focus and the original input\<close>


lemma scenario_press:
  "\<exists>s'. handle_observed_input (quiet_adapter konsole_focused) [kate_motion Consume None] [] 0
     (observed_key Leader Pressed) (start_state [kate_motion Consume None]) = Some (s', Inr ())"
proof -
  have "map_option snd (handle_observed_input (quiet_adapter konsole_focused)
     [kate_motion Consume None] [] 0 (observed_key Leader Pressed)
     (start_state [kate_motion Consume None])) = Some (Inr ())"
    by code_simp
  then show ?thesis by auto
qed


text \<open>
  C2: Whatever the focus and the outcome of the handler, an observed event is passed through at
  most once, and only when its device is grabbed.
\<close>

theorem input_passed_at_most_once:
  assumes "logs_passthrough A log"
    and "handle_observed_input A ms ps tb ob s = Some (s', r)"
  shows "log (lc_world s') = log (lc_world s)
    \<or> oi_grabbed ob \<and> log (lc_world s') = log (lc_world s) @ [oi_raw ob]"
  using assms by (rule input_at_most_once)

theorem input_passed_at_most_once_witness:
  "\<exists>s'. handle_observed_input (quiet_adapter konsole_focused) [kate_motion Consume None] [] 0
     (observed_key Leader Pressed) (start_state [kate_motion Consume None]) = Some (s', Inr ())
   \<and> (lc_world s' = [] \<or> lc_world s' = [raw_key 1])"
proof -
  obtain s' where run: "handle_observed_input (quiet_adapter konsole_focused)
     [kate_motion Consume None] [] 0 (observed_key Leader Pressed)
     (start_state [kate_motion Consume None]) = Some (s', Inr ())"
    using scenario_press by blast
  from input_passed_at_most_once [OF quiet_adapter_logs run] run show ?thesis
    by (auto simp: observed_key_def start_state_def live_state_new_def)
qed

text \<open>
  A hotkey callback and a repeat tick start no macro run while the context is one in which
  their scope is inactive.
\<close>

theorem inactive_starts_no_run:
  assumes "inactive (hb_scope b) c" and "inactive (rm_scope m) c"
    and "schedule_live_binding A b c s = Some (s1, r1)"
    and "schedule_live_motion_repeat_tick A m c s = Some (s2, r2)"
  shows "started_runs s1 = started_runs s \<and> started_runs s2 = started_runs s"
proof -
  have now: "keeps_log (\<lambda>_. ()) (ad_now A)" by (simp add: keeps_log_def)
  have start: "untouched (\<lambda>_. ()) () (started_runs s) s" by (simp add: untouched_def)
  show ?thesis
    using keepsD [OF untouched_binding [OF now assms(1)] start assms(3)]
      keepsD [OF untouched_repeat_tick [OF now assms(2)] start assms(4)]
    by (simp add: untouched_def)
qed

theorem inactive_starts_no_run_witness:
  "\<exists>s1 s2. schedule_live_binding (quiet_adapter konsole_focused) kate_binding konsole_focused
       (start_state []) = Some (s1, Ok ())
     \<and> schedule_live_motion_repeat_tick (quiet_adapter konsole_focused) (kate_motion Consume None)
         konsole_focused (start_state []) = Some (s2, Ok ())
     \<and> started_runs s1 = [] \<and> started_runs s2 = []"
proof -
  have "map_option snd (schedule_live_binding (quiet_adapter konsole_focused) kate_binding
      konsole_focused (start_state [])) = Some (Ok ())" by code_simp
  moreover have "map_option snd (schedule_live_motion_repeat_tick (quiet_adapter konsole_focused)
      (kate_motion Consume None) konsole_focused (start_state [])) = Some (Ok ())" by code_simp
  ultimately obtain s1 s2 where
    run: "schedule_live_binding (quiet_adapter konsole_focused) kate_binding konsole_focused
       (start_state []) = Some (s1, Ok ())"
    "schedule_live_motion_repeat_tick (quiet_adapter konsole_focused) (kate_motion Consume None)
         konsole_focused (start_state []) = Some (s2, Ok ())" by auto
  have "inactive (hb_scope kate_binding) konsole_focused"
    "inactive (rm_scope (kate_motion Consume None)) konsole_focused"
    using konsole_inactive by (simp_all add: kate_binding_def kate_motion_def)
  from inactive_starts_no_run [OF this run] run show ?thesis
    by (auto simp: start_state_def live_state_new_def started_runs_def macro_queue_default_def)
qed

text \<open>
  The end of a loop starts the motion's \<open>after\<close> macro and reports the event as consumed in
  every context, the inactive ones included: this event is not gated by scoped focus.
\<close>

theorem loop_end_is_not_gated:
  assumes "find_motion t ms = Some m" and "Option.bind (mo_loop (rm_definition m)) ld_after = Some d"
    and "motion_label t ''loop_after'' \<notin> set (mq_active_triggers (ls_queue s))"
    and "schedule_live_motion_runtime_event A ms (LoopCancelled t) c s = Some (s', r)"
  shows "r = Ok True \<and> started_runs s' = started_runs s @ [mq_next_id (ls_queue s) + 1]"
  using assms by (rule loop_end_ignores_focus)

theorem loop_end_is_not_gated_witness:
  "inactive kate konsole_focused \<and>
   (\<exists>s'. schedule_live_motion_runtime_event (quiet_adapter konsole_focused)
       [kate_motion Consume (Some press_a)] (LoopCancelled leader_q) konsole_focused
       (start_state []) = Some (s', Ok True) \<and> started_runs s' = [1])"
proof -
  obtain s' r where run: "schedule_live_motion_runtime_event (quiet_adapter konsole_focused)
       [kate_motion Consume (Some press_a)] (LoopCancelled leader_q) konsole_focused
       (start_state []) = Some (s', r)"
    using returning_runtime_event unfolding returning_def by fastforce
  have "find_motion leader_q [kate_motion Consume (Some press_a)]
      = Some (kate_motion Consume (Some press_a))"
    "Option.bind (mo_loop (rm_definition (kate_motion Consume (Some press_a)))) ld_after
      = Some press_a"
    "motion_label leader_q ''loop_after'' \<notin> set (mq_active_triggers (ls_queue (start_state [])))"
    by (simp_all add: find_motion_def kate_motion_def loop_motion_def start_state_def
        live_state_new_def macro_queue_default_def)
  from loop_end_is_not_gated [OF this run] run konsole_inactive show ?thesis
    by (simp add: start_state_def live_state_new_def started_runs_def macro_queue_default_def)
qed

text \<open>
  A motion whose scope is active is reported as consumed whatever its binding mode is, while
  a press is consumed only in the mode \<open>Consume\<close>.
\<close>

theorem consumption_by_mode:
  assumes "\<forall>now. sf_active (scoped_focus_state_at_with_policy (rm_scope m) c now runtime_focus_policy)"
    and "schedule_live_motion_trigger A m c starts s = Some (s1, Inr b1)"
    and "schedule_live_press A p c s = Some (s2, Inr b2)"
  shows "b1 \<and> (b2 \<longrightarrow> pd_mode (rp_definition p) = Consume)"
  using returnsD [OF motion_consumes_in_any_mode [OF assms(1)] assms(2)]
    returnsD [OF press_consumes_in_consume_mode assms(3)] by blast

theorem consumption_by_mode_witness:
  "\<exists>s1 b1 s2 b2. schedule_live_motion_trigger (quiet_adapter kate_focused)
       \<lparr>rm_definition = loop_motion Passthrough None, rm_scope = ExplicitGlobal\<rparr> kate_focused False
       (start_state []) = Some (s1, Ok b1)
     \<and> schedule_live_press (quiet_adapter kate_focused)
         \<lparr>rp_definition = \<lparr>pd_requires_held = [], pd_trigger = Key ''X'', pd_mode = Passthrough,
            pd_macro = press_a, pd_inter_action_delay_ms = 0\<rparr>, rp_scope = kate\<rparr> kate_focused
         (start_state []) = Some (s2, Ok b2)
     \<and> b1 \<and> \<not> b2"
proof -
  let ?m = "\<lparr>rm_definition = loop_motion Passthrough None, rm_scope = ExplicitGlobal\<rparr>"
  let ?p = "\<lparr>rp_definition = \<lparr>pd_requires_held = [], pd_trigger = Key ''X'', pd_mode = Passthrough,
            pd_macro = press_a, pd_inter_action_delay_ms = 0\<rparr>, rp_scope = kate\<rparr>"
  have "map_option (is_ok \<circ> snd) (schedule_live_motion_trigger (quiet_adapter kate_focused) ?m
      kate_focused False (start_state [])) = Some True" by code_simp
  moreover have "map_option (is_ok \<circ> snd) (schedule_live_press (quiet_adapter kate_focused) ?p
      kate_focused (start_state [])) = Some True" by code_simp
  ultimately obtain s1 b1 s2 b2 where run:
    "schedule_live_motion_trigger (quiet_adapter kate_focused) ?m kate_focused False
       (start_state []) = Some (s1, Ok b1)"
    "schedule_live_press (quiet_adapter kate_focused) ?p kate_focused (start_state [])
       = Some (s2, Ok b2)" by (auto simp: is_ok_iff)
  have "\<forall>now. sf_active (scoped_focus_state_at_with_policy (rm_scope ?m) kate_focused now
      runtime_focus_policy)"
    by (simp add: focus_state_active_iff decide_context_Allowed_iff)
  from consumption_by_mode [OF this run] run show ?thesis by auto
qed

section \<open>The live loop\<close>

text \<open>
  C3: However the adapter answers and whether the run ends with a reason or an error, the macro
  queue has exactly one run per active label with ascending identifiers, and the motion runtime
  keeps its motions and its invariant.
\<close>

theorem lifecycle_keeps_invariants:
  assumes "run_live_real_lifecycle A bs ms ps tb dev st w = Some (s, r)"
  shows "queue_ok (ls_queue s)
    \<and> motions_ok (motion_runtime_new (map rm_definition ms)) (lc_motion_runtime s)"
proof -
  have "motions_ok (motion_runtime_new (map rm_definition ms))
      (lc_motion_runtime (live_state_new w dev st ms))"
    using runtime_ok_new by (auto simp: motions_ok_def live_state_new_def)
  from motion_inv.lifecycle [OF this assms] queue_inv.lifecycle [OF _ assms]
  show ?thesis by (simp add: live_state_new_def queue_ok_default)
qed

lemma scenario_lifecycle:
  "\<exists>s. run_live_real_lifecycle
     (quiet_adapter kate_focused :: (raw_input_event list, unit) live_adapter) [] [] [] 0 dev_runtime_default
     (runtime_stats_new 0) [] = Some (s, Ok CtrlC)"
  unfolding run_live_real_lifecycle_def
  by (rule exI, rule live_loop_stop)
    (simp add: live_iteration_def effect_defs count_def drive_queue_def read_now_def
      world_call_def world_try_def quiet_adapter_def drive_ready_def live_state_new_def
      drain_live_shortcut_callbacks_def drain_shortcut_empty wait_for_event_def
      live_wait_timeout_def handle_wait_outcome_def classify_wait_outcome_def wake_classify_def
      end_active_loops_def cancel_active_loops_def macro_queue_default_def motion_runtime_new_def)

theorem lifecycle_keeps_invariants_witness:
  "\<exists>s. run_live_real_lifecycle
     (quiet_adapter kate_focused :: (raw_input_event list, unit) live_adapter) [] [] [] 0 dev_runtime_default
     (runtime_stats_new 0) [] = Some (s, Ok CtrlC) \<and> queue_ok (ls_queue s)"
proof -
  obtain s where run: "run_live_real_lifecycle
     (quiet_adapter kate_focused :: (raw_input_event list, unit) live_adapter) [] [] [] 0
     dev_runtime_default (runtime_stats_new 0) [] = Some (s, Ok CtrlC)"
    using scenario_lifecycle by blast
  with lifecycle_keeps_invariants [OF run] show ?thesis by blast
qed





end
